(* ===== verification/Prelude.thy ===== *)
theory Prelude
  imports Main "HOL-Library.Word" "HOL-Library.Sublist"
begin

text \<open>
  What every component of the development shares: the widths of the integers the code uses,
  the ways a C++ call can fail, \<^verbatim>\<open>std::vector\<close> accesses with their range checks,
  \<^verbatim>\<open>std::unordered_map\<close> and \<^verbatim>\<open>std::map\<close> as association lists with the
  operations the code calls on them, and the \<^verbatim>\<open>std::string\<close> functions it uses.
  A \<^verbatim>\<open>std::string\<close> and a \<^verbatim>\<open>char\<close> buffer are both an Isabelle
  \<open>string\<close>: a list of 8-bit characters that may hold any byte.
\<close>

section \<open>Types and failures\<close>

type_synonym u32 = "32 word"
type_synonym u64 = "64 word"

text \<open>
  The exceptions of the standard library the code can raise, and undefined behaviour (a read
  through a dangling pointer, an iterator past the end), which is a value of the model too. A callback that
  never returns is \<open>Never_returns\<close> to the framework that calls it.
\<close>

datatype cxx_error = Out_of_range | Invalid_argument | Length_error | Filesystem_error | Bad_function_call
  | Undefined_behaviour | Never_returns

type_synonym 'a cxx = "cxx_error + 'a"

fun cxx_bind :: "'a cxx \<Rightarrow> ('a \<Rightarrow> 'b cxx) \<Rightarrow> 'b cxx" where
  "cxx_bind (Inl e) f = Inl e"
| "cxx_bind (Inr x) f = f x"

lemma cxx_bind_eq_Inr_iff [simp]:
  "cxx_bind m f = Inr y \<longleftrightarrow> (\<exists>x. m = Inr x \<and> f x = Inr y)"
  by (cases m) auto

lemma cxx_bind_assoc: "cxx_bind (cxx_bind m f) g = cxx_bind m (\<lambda>x. cxx_bind (f x) g)"
  by (cases m) auto

text \<open>A loop over a container whose body can fail; the first failure ends it.\<close>

fun cxx_map :: "('a \<Rightarrow> 'b cxx) \<Rightarrow> 'a list \<Rightarrow> 'b list cxx" where
  "cxx_map f [] = Inr []"
| "cxx_map f (x # xs) = cxx_bind (f x) (\<lambda>y. cxx_bind (cxx_map f xs) (\<lambda>ys. Inr (y # ys)))"

lemma cxx_map_Inr: "(\<And>x. x \<in> set xs \<Longrightarrow> f x = Inr (g x)) \<Longrightarrow> cxx_map f xs = Inr (map g xs)"
  by (induction xs) auto

section \<open>Vectors\<close>

text \<open>\<^verbatim>\<open>v.at(i)\<close> throws when \<open>i\<close> is out of range.\<close>

definition vec_at :: "'a list \<Rightarrow> nat \<Rightarrow> 'a cxx" where
  "vec_at xs i = (if i < length xs then Inr (xs ! i) else Inl Out_of_range)"

text \<open>\<^verbatim>\<open>v.at(i) = x\<close>.\<close>

definition vec_put :: "'a list \<Rightarrow> nat \<Rightarrow> 'a \<Rightarrow> 'a list cxx" where
  "vec_put xs i x = (if i < length xs then Inr (xs[i := x]) else Inl Out_of_range)"

text \<open>
  \<^verbatim>\<open>v.erase(v.begin() + i)\<close>: an iterator that does not point to an element makes
  the behaviour undefined.
\<close>

definition list_erase :: "'a list \<Rightarrow> nat \<Rightarrow> 'a list" where
  "list_erase xs i = take i xs @ drop (Suc i) xs"

definition vec_erase :: "'a list \<Rightarrow> nat \<Rightarrow> 'a list cxx" where
  "vec_erase xs i = (if i < length xs then Inr (list_erase xs i) else Inl Undefined_behaviour)"

lemma vec_at_Inr [simp]: "i < length xs \<Longrightarrow> vec_at xs i = Inr (xs ! i)"
  by (simp add: vec_at_def)

lemma vec_put_Inr [simp]: "i < length xs \<Longrightarrow> vec_put xs i x = Inr (xs[i := x])"
  by (simp add: vec_put_def)

lemma vec_erase_Inr [simp]: "i < length xs \<Longrightarrow> vec_erase xs i = Inr (list_erase xs i)"
  by (simp add: vec_erase_def)

lemma length_list_erase [simp]: "i < length xs \<Longrightarrow> length (list_erase xs i) = length xs - 1"
  by (simp add: list_erase_def)

lemma list_erase_last: "xs \<noteq> [] \<Longrightarrow> list_erase xs (length xs - 1) = butlast xs"
  by (simp add: list_erase_def butlast_conv_take)

lemma nth_list_erase:
  "i < length xs \<Longrightarrow> j < length xs - 1 \<Longrightarrow>
     list_erase xs i ! j = (if j < i then xs ! j else xs ! Suc j)"
  by (auto simp: list_erase_def nth_append min_def)

text \<open>
  The accessors of the message classes test \<^verbatim>\<open>pos < 0 || pos >= v.size()\<close> first,
  with \<open>pos\<close> an \<^verbatim>\<open>int\<close>, and read \<^verbatim>\<open>v.at(pos)\<close> after it.
\<close>

definition in_range :: "int \<Rightarrow> 'a list \<Rightarrow> bool" where
  "in_range pos xs \<longleftrightarrow> \<not> (pos < 0 \<or> pos \<ge> int (length xs))"

lemma in_range_iff: "in_range pos xs \<longleftrightarrow> 0 \<le> pos \<and> nat pos < length xs"
  by (auto simp: in_range_def)

section \<open>Maps as association lists\<close>

text \<open>
  \<^verbatim>\<open>find\<close> on an unordered or ordered map is \<open>map_of\<close>, \<^verbatim>\<open>size()\<close> is
  \<open>length\<close>; \<^verbatim>\<open>emplace\<close> and \<^verbatim>\<open>insert\<close> leave a present key alone,
  \<^verbatim>\<open>operator[] =\<close> overwrites, \<^verbatim>\<open>erase(key)\<close> removes.
\<close>

definition umap_emplace :: "('k \<times> 'v) list \<Rightarrow> 'k \<Rightarrow> 'v \<Rightarrow> ('k \<times> 'v) list" where
  "umap_emplace m k v = (if map_of m k = None then m @ [(k, v)] else m)"

definition umap_erase :: "('k \<times> 'v) list \<Rightarrow> 'k \<Rightarrow> ('k \<times> 'v) list" where
  "umap_erase m k = filter (\<lambda>(k', _). k' \<noteq> k) m"

definition umap_set :: "('k \<times> 'v) list \<Rightarrow> 'k \<Rightarrow> 'v \<Rightarrow> ('k \<times> 'v) list" where
  "umap_set m k v = umap_erase m k @ [(k, v)]"

abbreviation umap_ok :: "('k \<times> 'v) list \<Rightarrow> bool" where
  "umap_ok m \<equiv> distinct (map fst m)"

lemma map_of_umap_emplace:
  "map_of (umap_emplace m k v) k' =
     (if k' = k \<and> map_of m k = None then Some v else map_of m k')"
  by (auto simp: umap_emplace_def map_add_def split: option.splits)

lemma map_of_umap_erase: "map_of (umap_erase m k) k' = (if k' = k then None else map_of m k')"
  by (induction m) (auto simp: umap_erase_def)

lemma map_of_umap_set: "map_of (umap_set m k v) k' = (if k' = k then Some v else map_of m k')"
  by (auto simp: umap_set_def map_add_def map_of_umap_erase split: option.splits)

lemma umap_ok_emplace [intro]: "umap_ok m \<Longrightarrow> umap_ok (umap_emplace m k v)"
  by (auto simp: umap_emplace_def map_of_eq_None_iff)

lemma umap_ok_erase [intro]: "umap_ok m \<Longrightarrow> umap_ok (umap_erase m k)"
  by (induction m) (auto simp: umap_erase_def)

lemma umap_ok_set [intro]: "umap_ok m \<Longrightarrow> umap_ok (umap_set m k v)"
  by (auto simp: umap_set_def umap_ok_erase) (auto simp: umap_erase_def)

lemma length_umap_erase:
  "umap_ok m \<Longrightarrow> map_of m k = Some v \<Longrightarrow> length (umap_erase m k) = length m - 1"
proof (induction m)
  case Nil
  then show ?case by simp
next
  case (Cons a m)
  obtain k' v' where a: "a = (k', v')" by (cases a)
  show ?case
  proof (cases "k' = k")
    case True
    with Cons.prems a have "umap_erase m k = m"
      by (auto simp: umap_erase_def filter_id_conv image_iff)
    with True a show ?thesis by (simp add: umap_erase_def)
  next
    case False
    with Cons a have "length (umap_erase m k) = length m - 1" and "m \<noteq> []"
      by auto
    with False a show ?thesis by (cases m) (auto simp: umap_erase_def)
  qed
qed

lemmas umap_simps = map_of_umap_emplace map_of_umap_erase map_of_umap_set

section \<open>Strings\<close>

text \<open>
  \<^verbatim>\<open>s.find_first_of(cs)\<close>: the first position that holds one of the characters;
  \<^verbatim>\<open>npos\<close> is \<open>None\<close>.
\<close>

fun find_first_of :: "string \<Rightarrow> string \<Rightarrow> nat option" where
  "find_first_of [] cs = None"
| "find_first_of (c # s) cs =
     (if c \<in> set cs then Some 0 else map_option Suc (find_first_of s cs))"

text \<open>\<^verbatim>\<open>s.find_last_of(cs)\<close>: the last such position.\<close>

definition find_last_of :: "string \<Rightarrow> string \<Rightarrow> nat option" where
  "find_last_of s cs = map_option (\<lambda>p. length s - 1 - p) (find_first_of (rev s) cs)"

lemma find_first_of_None: "find_first_of s cs = None \<longleftrightarrow> set s \<inter> set cs = {}"
  by (induction s) auto

lemma find_first_of_Some:
  "find_first_of s cs = Some p \<Longrightarrow>
     p < length s \<and> s ! p \<in> set cs \<and> set (take p s) \<inter> set cs = {}"
  by (induction s arbitrary: p) (auto split: if_splits)

lemma find_first_of_append:
  "set s \<inter> set cs = {} \<Longrightarrow> c \<in> set cs \<Longrightarrow> find_first_of (s @ c # t) cs = Some (length s)"
  by (induction s) auto

text \<open>\<^verbatim>\<open>std::to_string\<close> of an unsigned integer: decimal digits, no leading zero.\<close>

definition digit_char :: "nat \<Rightarrow> char" where
  "digit_char d = char_of (48 + d)"

fun to_string :: "nat \<Rightarrow> string" where
  "to_string n = (if n < 10 then [digit_char n] else to_string (n div 10) @ [digit_char (n mod 10)])"

declare to_string.simps [simp del]

lemma digit_char_inj: "d < 10 \<Longrightarrow> e < 10 \<Longrightarrow> digit_char d = digit_char e \<Longrightarrow> d = e"
proof -
  assume d: "d < 10" and e: "e < 10" and eq: "digit_char d = digit_char e"
  then have "of_char (char_of (48 + d) :: char) = (of_char (char_of (48 + e) :: char) :: nat)"
    by (simp add: digit_char_def)
  with d e show "d = e" by (simp add: of_char_of)
qed

lemma to_string_nonempty [simp]: "to_string n \<noteq> []" "[] \<noteq> to_string n"
  by (subst to_string.simps, simp)+

lemma to_string_inj: "to_string m = to_string n \<longleftrightarrow> m = n"
proof
  show "to_string m = to_string n \<Longrightarrow> m = n"
  proof (induction m arbitrary: n rule: to_string.induct)
    case (1 m)
    show ?case
    proof (cases "m < 10"; cases "n < 10")
      assume "m < 10" "n < 10"
      with 1 show ?thesis
        by (simp add: to_string.simps [of m] to_string.simps [of n] digit_char_inj)
    next
      assume "m < 10" "\<not> n < 10"
      with "1.prems" have False
        by (simp add: to_string.simps [of m] to_string.simps [of n])
      then show ?thesis ..
    next
      assume "\<not> m < 10" "n < 10"
      with "1.prems" have False
        by (simp add: to_string.simps [of m] to_string.simps [of n])
      then show ?thesis ..
    next
      assume m: "\<not> m < 10" and n: "\<not> n < 10"
      with "1.prems" have "to_string (m div 10) = to_string (n div 10)"
        and last: "digit_char (m mod 10) = digit_char (n mod 10)"
        by (simp_all add: to_string.simps [of m] to_string.simps [of n])
      with "1.IH" m have div: "m div 10 = n div 10" by simp
      have "m mod 10 = n mod 10" by (rule digit_char_inj) (simp_all add: last)
      with div show ?thesis by (metis div_mult_mod_eq)
    qed
  qed
qed simp

text \<open>\<^verbatim>\<open>s.c_str()\<close> handed to a function that reads up to the first NUL.\<close>

definition c_str :: "string \<Rightarrow> string" where
  "c_str s = takeWhile (\<lambda>c. c \<noteq> CHR 0x00) s"

lemma c_str_append: "CHR 0x00 \<notin> set s \<Longrightarrow> c_str (s @ t) = s @ c_str t"
  by (induction s) (auto simp: c_str_def)

lemma c_str_id: "CHR 0x00 \<notin> set s \<Longrightarrow> c_str s = s"
  using c_str_append [of s "[]"] by (simp add: c_str_def)

end
