(* ===== verification/Framing.thy ===== *)
theory Framing
  imports Prelude
begin

text \<open>
  How a message reaches its class: the network framework hands the received bytes to
  \<^verbatim>\<open>append\<close> chunk by chunk until it returns a value other than 0. Every message class
  of the program (\<^verbatim>\<open>proto/taskdep\<close>, \<^verbatim>\<open>proto/datatransfer\<close>, \<^verbatim>\<open>computation/drccp\<close>)
  gathers the chunks in its own buffer and tries the protobuf parser on all of it each time. The
  locale \<open>framed\<close> states what such a class promises, and proves once what follows for a
  message that arrives in pieces. The protobuf parser itself is third-party code and a
  parameter.
\<close>

section \<open>Protocol magics\<close>

text \<open>\<^verbatim>\<open>get_magic<PROTOCOL>()\<close> of \<^verbatim>\<open>misc/protocol/protocol.h\<close>.\<close>

datatype protocol = DRCCP | ONVIFFORWARD | DATATRANSFER | TASKDEP | DATASOURCE

fun get_magic :: "protocol \<Rightarrow> u32" where
  "get_magic DRCCP = 0x44524350"
| "get_magic ONVIFFORWARD = 0x4f564653"
| "get_magic DATATRANSFER = 0x44545452"
| "get_magic TASKDEP = 0x544b4450"
| "get_magic DATASOURCE = 0x64747372"

lemma get_magic_inject: "get_magic p = get_magic q \<longleftrightarrow> p = q"
  by (cases p; cases q; simp)

text \<open>\<^verbatim>\<open>Message_Errno::MAGIC_MISMATCH\<close>.\<close>

definition MAGIC_MISMATCH :: int where
  "MAGIC_MISMATCH = 257"

text \<open>
  A protobuf accessor \<^verbatim>\<open>m.x()\<close> of a message field that is not set reads the default
  instance; \<^verbatim>\<open>m.mutable_x()\<close> creates it.
\<close>

definition or_default :: "'a \<Rightarrow> 'a option \<Rightarrow> 'a" where
  "or_default d x = (case x of None \<Rightarrow> d | Some y \<Rightarrow> y)"

lemma or_default_simps [simp]: "or_default d None = d" "or_default d (Some y) = y"
  by (simp_all add: or_default_def)

section \<open>The interface of a message that is received in chunks\<close>

text \<open>
  The result of \<^verbatim>\<open>append\<close>: its return value, the value it stores in \<^verbatim>\<open>errno\<close>
  (if it does) and the message object after the call.
\<close>

type_synonym 'm append_res = "int \<times> int option \<times> 'm"

text \<open>The framework's loop over the chunks of one message; what follows a result is not read.\<close>

fun feed :: "('m \<Rightarrow> string \<Rightarrow> 'm append_res) \<Rightarrow> 'm \<Rightarrow> string list \<Rightarrow> 'm append_res" where
  "feed recv m [] = (0, None, m)"
| "feed recv m (c # cs) =
     (case recv m c of (r, e, m') \<Rightarrow> if r = 0 then feed recv m' cs else (r, e, m'))"

text \<open>\<^verbatim>\<open>buf\<close> and \<^verbatim>\<open>size\<close> agree: no buffer goes with size 0.\<close>

definition buffer_ok :: "string option \<Rightarrow> nat \<Rightarrow> bool" where
  "buffer_ok buf sz \<longleftrightarrow> sz = (case buf of None \<Rightarrow> 0 | Some b \<Rightarrow> length b)"

text \<open>
  The buffer after \<^verbatim>\<open>memmove(buf, temp, size)\<close> and
  \<^verbatim>\<open>memmove(buf + size, chunk, n)\<close>.
\<close>

definition gather :: "string option \<Rightarrow> nat \<Rightarrow> string \<Rightarrow> string" where
  "gather buf sz chunk = (case buf of None \<Rightarrow> chunk | Some b \<Rightarrow> take sz b @ chunk)"

definition buffered :: "string option \<Rightarrow> string" where
  "buffered buf = (case buf of None \<Rightarrow> [] | Some b \<Rightarrow> b)"

lemma gather_ok:
  "buffer_ok buf sz \<Longrightarrow> gather buf sz chunk = buffered buf @ chunk"
  by (auto simp: gather_def buffer_ok_def buffered_def split: option.splits)

lemma length_gather:
  "buffer_ok buf sz \<Longrightarrow> length (gather buf sz chunk) = sz + length chunk"
  by (auto simp: gather_def buffer_ok_def split: option.splits)

lemma buffer_ok_simps [simp]:
  "buffer_ok None 0" "buffer_ok (Some b) (length b)"
  "buffered None = []" "buffered (Some b) = b"
  by (simp_all add: buffer_ok_def buffered_def)

text \<open>
  What the transport does with a message \<open>p\<close>: its bytes arrive in chunks, in order and complete, the
  protobuf parser reads from them what the serialiser has written, and no chunk but the last
  completes bytes that parse.
\<close>

definition carried :: "('pb \<Rightarrow> string) \<Rightarrow> (string \<Rightarrow> 'pb option) \<Rightarrow> (string \<Rightarrow> string list) \<Rightarrow> 'pb \<Rightarrow> bool" where
  "carried ser parse chunks p \<longleftrightarrow>
     (\<exists>cs c. chunks (ser p) = cs @ [c] \<and> concat cs @ c = ser p \<and> parse (ser p) = Some p \<and>
       (\<forall>ds es. cs = ds @ es \<longrightarrow> ds \<noteq> [] \<longrightarrow> parse (concat ds) = None))"

lemma carried_whole: "parse (ser p) = Some p \<Longrightarrow> carried ser parse (\<lambda>bs. [bs]) p"
  by (auto simp: carried_def intro!: exI [of _ "[]"])

text \<open>
  The first chunk up to which the bytes parse. A protobuf parser also reads the bytes up to the end of any
  field as a message, so this need not be the last one.
\<close>

definition parses_first :: "(string \<Rightarrow> 'pb option) \<Rightarrow> string list \<Rightarrow> nat \<Rightarrow> 'pb \<Rightarrow> bool" where
  "parses_first parse cs k p \<longleftrightarrow>
     0 < k \<and> k \<le> length cs \<and> parse (concat (take k cs)) = Some p \<and>
     (\<forall>j. 0 < j \<and> j < k \<longrightarrow> parse (concat (take j cs)) = None)"

lemma parses_first_whole:
  "parses_first parse cs k p \<Longrightarrow> concat (take k cs) = concat cs \<Longrightarrow> parse (concat cs) = Some q \<Longrightarrow> p = q"
  by (simp add: parses_first_def)

locale framed =
  fixes parse :: "string \<Rightarrow> 'pb option"
    and recv :: "'m \<Rightarrow> string \<Rightarrow> 'm append_res"
    and pending :: "'m \<Rightarrow> string"
    and stash :: "'m \<Rightarrow> string \<Rightarrow> 'm"
    and accept :: "'m \<Rightarrow> 'pb \<Rightarrow> 'm append_res"
    and ok :: "'m \<Rightarrow> bool"
  assumes append_more:
      "ok m \<Longrightarrow> parse (pending m @ c) = None \<Longrightarrow> recv m c = (0, None, stash m (pending m @ c))"
    and append_whole:
      "ok m \<Longrightarrow> parse (pending m @ c) = Some p \<Longrightarrow> recv m c = accept m p"
    and ok_stash: "ok m \<Longrightarrow> ok (stash m b)"
    and pending_stash: "pending (stash m b) = b"
    and accept_stash: "accept (stash m b) p = accept m p"
    and accept_final: "accept m p = (r, e, m') \<Longrightarrow> r \<noteq> 0 \<and> ok m' \<and> pending m' = []"
begin

text \<open>
  Chunks that do not complete a parsable message are only gathered; the one that does makes
  the result that the whole message, delivered at once, makes.
\<close>

lemma feed_whole:
  assumes "ok m" and "parse (pending m @ concat cs @ c) = Some p"
    and "\<And>ds es. cs = ds @ es \<Longrightarrow> ds \<noteq> [] \<Longrightarrow> parse (pending m @ concat ds) = None"
  shows "feed recv m (cs @ c # rest) = accept m p"
  using assms
proof (induction cs arbitrary: m)
  case Nil
  then have "recv m c = accept m p" by (simp add: append_whole)
  then show ?case
    using accept_final [of m p] by (cases "accept m p") auto
next
  case (Cons a cs)
  let ?m = "stash m (pending m @ a)"
  have "parse (pending m @ a) = None"
    using Cons.prems(3) [of "[a]" cs] by simp
  then have step: "recv m a = (0, None, ?m)"
    by (rule append_more [OF Cons.prems(1)])
  have "feed recv ?m (cs @ c # rest) = accept ?m p"
  proof (rule Cons.IH)
    show "ok ?m" by (rule ok_stash [OF Cons.prems(1)])
    show "parse (pending ?m @ concat cs @ c) = Some p"
      using Cons.prems(2) by (simp add: pending_stash)
    show "parse (pending ?m @ concat ds) = None" if "cs = ds @ es" "ds \<noteq> []" for ds es
      using Cons.prems(3) [of "a # ds" es] that by (simp add: pending_stash)
  qed
  with step show ?case by (simp add: accept_stash)
qed

text \<open>As long as nothing parses, every chunk is kept and the caller is asked for more.\<close>

lemma feed_partial:
  assumes "ok m" and "cs \<noteq> []"
    and "\<And>ds es. cs = ds @ es \<Longrightarrow> ds \<noteq> [] \<Longrightarrow> parse (pending m @ concat ds) = None"
  shows "\<exists>m'. feed recv m cs = (0, None, m') \<and> ok m' \<and> pending m' = pending m @ concat cs"
  using assms
proof (induction cs arbitrary: m)
  case Nil
  then show ?case by simp
next
  case (Cons a cs)
  let ?m = "stash m (pending m @ a)"
  have "parse (pending m @ a) = None"
    using Cons.prems(3) [of "[a]" cs] by simp
  then have step: "recv m a = (0, None, ?m)"
    by (rule append_more [OF Cons.prems(1)])
  have okm: "ok ?m" by (rule ok_stash [OF Cons.prems(1)])
  show ?case
  proof (cases "cs = []")
    case True
    with step okm show ?thesis by (simp add: pending_stash)
  next
    case False
    have "\<exists>m'. feed recv ?m cs = (0, None, m') \<and> ok m' \<and> pending m' = pending ?m @ concat cs"
    proof (rule Cons.IH [OF okm False])
      show "parse (pending ?m @ concat ds) = None" if "cs = ds @ es" "ds \<noteq> []" for ds es
        using Cons.prems(3) [of "a # ds" es] that by (simp add: pending_stash)
    qed
    with step show ?thesis by (simp add: pending_stash)
  qed
qed

text \<open>In general the message ends at the first chunk up to which the bytes parse.\<close>

lemma feed_first:
  assumes "ok m" and "pending m = []" and "cs \<noteq> []" and "parse (concat cs) = Some p"
  shows "\<exists>k p'. parses_first parse cs k p' \<and> feed recv m (cs @ rest) = accept m p'"
proof -
  let ?P = "\<lambda>k. 0 < k \<and> parse (concat (take k cs)) \<noteq> None"
  define k where "k = (LEAST k. ?P k)"
  have all: "0 < length cs \<and> parse (concat (take (length cs) cs)) \<noteq> None" using assms(3,4) by simp
  have k: "0 < k \<and> parse (concat (take k cs)) \<noteq> None" unfolding k_def by (rule LeastI [of ?P, OF all])
  have le: "k \<le> length cs" unfolding k_def by (rule Least_le [of ?P, OF all])
  have before: "parse (concat (take j cs)) = None" if "0 < j" "j < k" for j
    using not_less_Least [of j ?P] that unfolding k_def by auto
  obtain p' where p': "parse (concat (take k cs)) = Some p'" using k by blast
  have i: "k - 1 < length cs" "Suc (k - 1) = k" using k le by linarith+
  then have take: "take k cs = take (k - 1) cs @ [cs ! (k - 1)]" by (metis take_Suc_conv_app_nth)
  have "feed recv m (take (k - 1) cs @ cs ! (k - 1) # (drop k cs @ rest)) = accept m p'"
  proof (rule feed_whole [OF assms(1)])
    show "parse (pending m @ concat (take (k - 1) cs) @ cs ! (k - 1)) = Some p'"
      using p' assms(2) by (simp add: take)
    fix ds es assume cut: "take (k - 1) cs = ds @ es" and "ds \<noteq> []"
    have "length ds \<le> k - 1" using arg_cong [OF cut, of length] by simp
    moreover have "take (length ds) (take (k - 1) cs) = ds"
      using arg_cong [OF cut, of "take (length ds)"] by (simp del: take_take)
    ultimately have "take (length ds) cs = ds" by (simp add: min_absorb1)
    with before [of "length ds"] \<open>ds \<noteq> []\<close> \<open>length ds \<le> k - 1\<close> i show "parse (pending m @ concat ds) = None"
      using assms(2) by fastforce
  qed
  moreover have "take (k - 1) cs @ cs ! (k - 1) # (drop k cs @ rest) = cs @ rest"
    using take append_take_drop_id [of k cs] by (metis append.assoc append_Cons append_Nil)
  ultimately have "feed recv m (cs @ rest) = accept m p'" by (simp only:)
  moreover have "parses_first parse cs k p'" using p' before le k by (simp add: parses_first_def)
  ultimately show ?thesis by blast
qed

lemma feed_delivered:
  assumes "ok m" and "pending m = []" and "cs \<noteq> []" and "parse (concat cs) = Some p"
  shows "\<exists>k p'. parses_first parse cs k p' \<and> feed recv m (cs @ rest) = accept m p' \<and>
    (concat (take k cs) = concat cs \<longrightarrow> feed recv m (cs @ rest) = accept m p)"
proof -
  obtain k p' where "parses_first parse cs k p'" and "feed recv m (cs @ rest) = accept m p'"
    using feed_first [where rest = rest, OF assms] by blast
  then show ?thesis using parses_first_whole [of parse cs k p' p] assms(4) by auto
qed

text \<open>A message that the transport carries arrives as the whole.\<close>

lemma feed_carried:
  assumes "ok m" and "pending m = []" and "carried ser parse chunks p"
  shows "feed recv m (chunks (ser p)) = accept m p"
proof -
  obtain cs c where cut: "chunks (ser p) = cs @ [c]" "concat cs @ c = ser p"
    and p: "parse (ser p) = Some p"
    and pre: "\<And>ds es. cs = ds @ es \<Longrightarrow> ds \<noteq> [] \<Longrightarrow> parse (concat ds) = None"
    using assms(3) by (auto simp: carried_def)
  show ?thesis
    unfolding cut(1) by (rule feed_whole [OF assms(1)]) (use assms(2) cut p pre in simp_all)
qed

text \<open>A first chunk that parses by itself ends the message: the chunks after it are not read.\<close>

lemma feed_early:
  assumes "ok m" and "parse (pending m @ c) = Some p"
  shows "feed recv m (c # cs) = accept m p"
  using append_whole [OF assms] accept_final [of m p] by (cases "accept m p") auto

end

text \<open>
  The shape all the \<^verbatim>\<open>append\<close> functions have, with \<open>put\<close> storing the buffer and its
  size: such a class is framed.
\<close>

lemma framed_of_buffer:
  assumes recv: "\<And>m c. recv m c =
      (let b = gather (buf m) (sz m) c; n = sz m + length c
       in case parse (take n b) of None \<Rightarrow> (0, None, put m b n) | Some p \<Rightarrow> accept m p)"
    and put: "\<And>m b n. buf (put m b n) = Some b" "\<And>m b n. sz (put m b n) = n"
    and accept: "\<And>m b n p. accept (put m b n) p = accept m p"
    and final: "\<And>m p r e m'. accept m p = (r, e, m') \<Longrightarrow> r \<noteq> 0 \<and> buf m' = None \<and> sz m' = 0"
  shows "framed parse recv (\<lambda>m. buffered (buf m)) (\<lambda>m b. put m b (length b)) accept
     (\<lambda>m. buffer_ok (buf m) (sz m))"
proof unfold_locales
  fix m c
  assume ok: "buffer_ok (buf m) (sz m)" and "parse (buffered (buf m) @ c) = None"
  then show "recv m c = (0, None, put m (buffered (buf m) @ c) (length (buffered (buf m) @ c)))"
    by (simp add: recv gather_ok Let_def flip: length_gather [OF ok])
next
  fix m c p
  assume ok: "buffer_ok (buf m) (sz m)" and "parse (buffered (buf m) @ c) = Some p"
  then show "recv m c = accept m p"
    by (simp add: recv gather_ok Let_def flip: length_gather [OF ok])
next
  fix m p r e m'
  assume "accept m p = (r, e, m')"
  from final [OF this] show "r \<noteq> 0 \<and> buffer_ok (buf m') (sz m') \<and> buffered (buf m') = []"
    by simp
qed (simp_all add: put accept)

end
