(* ===== verification/Taskdep_Endpoint.thy ===== *)
theory Taskdep_Endpoint
  imports Framing
begin

text \<open>
  The addresses and engines of the task-deployment protocol: \<^verbatim>\<open>Endpoint\<close> and
  \<^verbatim>\<open>Request::Engine\<close> of \<^verbatim>\<open>proto/taskdep/message.h\<close>, the setters of
  \<^verbatim>\<open>Endpoint\<close>, and the conversions \<^verbatim>\<open>assignEndpoint\<close>,
  \<^verbatim>\<open>assignENDPOINT\<close>, \<^verbatim>\<open>assignEngine\<close>, \<^verbatim>\<open>assignENGINE\<close> between
  them and the protobuf messages of \<^verbatim>\<open>taskdep_message.proto\<close>.
\<close>

section \<open>Endpoints\<close>

record authstring =
  au_token :: string
  au_uppair :: "string \<times> string"
  au_pki :: "string \<times> string"

record endpoint =
  ep_proto :: string
  ep_url :: string
  ep_port :: u32
  ep_path :: string
  ep_authtype :: u32
  ep_authstring :: "authstring list"

text \<open>\<^verbatim>\<open>Endpoint::Attr_authtype\<close> and its values.\<close>

datatype attr_authtype = Auth_NONE | Auth_TOKEN | Auth_USERPASSWD | Auth_PKI | Auth_OAUTH2

fun authtype_code :: "attr_authtype \<Rightarrow> u32" where
  "authtype_code Auth_NONE = 0"
| "authtype_code Auth_TOKEN = 1"
| "authtype_code Auth_USERPASSWD = 2"
| "authtype_code Auth_PKI = 4"
| "authtype_code Auth_OAUTH2 = 5"

definition authstring_new :: authstring where
  "authstring_new = \<lparr>au_token = [], au_uppair = ([], []), au_pki = ([], [])\<rparr>"

definition Endpoint_new :: endpoint where
  "Endpoint_new =
     \<lparr>ep_proto = [], ep_url = [], ep_port = 0, ep_path = [], ep_authtype = 0, ep_authstring = []\<rparr>"

definition Endpoint_check :: "endpoint \<Rightarrow> bool" where
  "Endpoint_check e \<longleftrightarrow> \<not> (ep_proto e = [] \<or> ep_url e = [] \<or> ep_port e = 0)"

definition known_proto :: "string \<Rightarrow> bool" where
  "known_proto p \<longleftrightarrow> p = ''file'' \<or> p = ''tcp'' \<or> p = ''tls'' \<or> p = ''http'' \<or> p = ''https'' \<or>
     p = ''ssh'' \<or> p = ''jxtd''"

definition Endpoint_set_proto :: "endpoint \<Rightarrow> string \<Rightarrow> int \<times> endpoint" where
  "Endpoint_set_proto e p = (if known_proto p then (0, e\<lparr>ep_proto := p\<rparr>) else (-1, e))"

definition Endpoint_set_url :: "endpoint \<Rightarrow> string \<Rightarrow> endpoint" where
  "Endpoint_set_url e url = e\<lparr>ep_url := url\<rparr>"

definition Endpoint_set_port :: "endpoint \<Rightarrow> u32 \<Rightarrow> endpoint" where
  "Endpoint_set_port e port = e\<lparr>ep_port := port\<rparr>"

definition Endpoint_set_path :: "endpoint \<Rightarrow> string \<Rightarrow> endpoint" where
  "Endpoint_set_path e path = e\<lparr>ep_path := path\<rparr>"

definition Endpoint_set_authtype :: "endpoint \<Rightarrow> u32 \<Rightarrow> int \<times> endpoint" where
  "Endpoint_set_authtype e a = (if 5 \<le> a then (-1, e) else (0, e\<lparr>ep_authtype := a\<rparr>))"

definition Endpoint_add_authstring ::
  "endpoint \<Rightarrow> string \<Rightarrow> string \<Rightarrow> string \<Rightarrow> string \<Rightarrow> string \<Rightarrow> endpoint" where
  "Endpoint_add_authstring e token name key prvkey pubkey =
     e\<lparr>ep_authstring := ep_authstring e @
        [authstring_new\<lparr>au_token := token, au_uppair := (name, key), au_pki := (prvkey, pubkey)\<rparr>]\<rparr>"

definition Endpoint_add_authstring_token :: "endpoint \<Rightarrow> string \<Rightarrow> endpoint" where
  "Endpoint_add_authstring_token e token =
     e\<lparr>ep_authstring := ep_authstring e @ [authstring_new\<lparr>au_token := token\<rparr>]\<rparr>"

definition Endpoint_add_authstring_uppair :: "endpoint \<Rightarrow> string \<Rightarrow> string \<Rightarrow> endpoint" where
  "Endpoint_add_authstring_uppair e name key =
     e\<lparr>ep_authstring := ep_authstring e @ [authstring_new\<lparr>au_uppair := (name, key)\<rparr>]\<rparr>"

definition Endpoint_add_authstring_pki :: "endpoint \<Rightarrow> string \<Rightarrow> string \<Rightarrow> endpoint" where
  "Endpoint_add_authstring_pki e prvkey pubkey =
     e\<lparr>ep_authstring := ep_authstring e @ [authstring_new\<lparr>au_pki := (prvkey, pubkey)\<rparr>]\<rparr>"

definition Endpoint_get_authstring_token :: "endpoint \<Rightarrow> int \<Rightarrow> string" where
  "Endpoint_get_authstring_token e pos =
     (if in_range pos (ep_authstring e) then au_token (ep_authstring e ! nat pos) else [])"

text \<open>
  The pair getters return references. Out of range they return references to temporaries that
  are gone when the caller reads them, so there is no value (\<open>Inl\<close>).
\<close>

definition Endpoint_get_authstring_uppair :: "endpoint \<Rightarrow> int \<Rightarrow> (string \<times> string) cxx" where
  "Endpoint_get_authstring_uppair e pos =
     (if in_range pos (ep_authstring e) then Inr (au_uppair (ep_authstring e ! nat pos))
      else Inl Undefined_behaviour)"

definition Endpoint_get_authstring_pki :: "endpoint \<Rightarrow> int \<Rightarrow> (string \<times> string) cxx" where
  "Endpoint_get_authstring_pki e pos =
     (if in_range pos (ep_authstring e) then Inr (au_pki (ep_authstring e ! nat pos))
      else Inl Undefined_behaviour)"

text \<open>What the setters keep true of an endpoint.\<close>

definition endpoint_ok :: "endpoint \<Rightarrow> bool" where
  "endpoint_ok e \<longleftrightarrow> (ep_proto e = [] \<or> known_proto (ep_proto e)) \<and> ep_authtype e < 5"

lemmas Endpoint_setter_defs =
  Endpoint_set_proto_def Endpoint_set_url_def Endpoint_set_port_def Endpoint_set_path_def
  Endpoint_set_authtype_def Endpoint_add_authstring_def Endpoint_add_authstring_token_def
  Endpoint_add_authstring_uppair_def Endpoint_add_authstring_pki_def

lemma endpoint_ok_new [simp]: "endpoint_ok Endpoint_new"
  by (simp add: endpoint_ok_def Endpoint_new_def)

lemma endpoint_ok_setters [intro]:
  "endpoint_ok e \<Longrightarrow> endpoint_ok (snd (Endpoint_set_proto e p))"
  "endpoint_ok e \<Longrightarrow> endpoint_ok (Endpoint_set_url e u)"
  "endpoint_ok e \<Longrightarrow> endpoint_ok (Endpoint_set_port e port)"
  "endpoint_ok e \<Longrightarrow> endpoint_ok (Endpoint_set_path e q)"
  "endpoint_ok e \<Longrightarrow> endpoint_ok (snd (Endpoint_set_authtype e a))"
  "endpoint_ok e \<Longrightarrow> endpoint_ok (Endpoint_add_authstring e t n k r b)"
  by (auto simp: endpoint_ok_def Endpoint_setter_defs not_le)

section \<open>Endpoints on the wire\<close>

text \<open>
  The messages of \<^verbatim>\<open>taskdep_message.proto\<close>: a sub-message field is an option (set or
  not), a scalar has its proto3 default when it is not set.
\<close>

record pb_AUTHSTRING =
  pa_token :: string
  pa_uppair :: "(string \<times> string) option"
  pa_pki :: "(string \<times> string) option"

record pb_EATTR =
  pe_authtype :: u32
  pe_authstring :: "pb_AUTHSTRING list"

record pb_ENDPOINT =
  pe_proto :: string
  pe_url :: string
  pe_port :: u32
  pe_path :: string
  pe_attr :: "pb_EATTR option"

definition pb_EATTR0 :: pb_EATTR where
  "pb_EATTR0 = \<lparr>pe_authtype = 0, pe_authstring = []\<rparr>"

definition pb_ENDPOINT0 :: pb_ENDPOINT where
  "pb_ENDPOINT0 = \<lparr>pe_proto = [], pe_url = [], pe_port = 0, pe_path = [], pe_attr = None\<rparr>"

definition pb_of_authstring :: "authstring \<Rightarrow> pb_AUTHSTRING" where
  "pb_of_authstring a =
     \<lparr>pa_token = au_token a,
      pa_uppair = Some (fst (au_uppair a), snd (au_uppair a)),
      pa_pki = Some (fst (au_pki a), snd (au_pki a))\<rparr>"

definition assignEndpoint :: "endpoint \<Rightarrow> pb_ENDPOINT \<Rightarrow> pb_ENDPOINT" where
  "assignEndpoint src dest =
     (let dest_attr = (or_default pb_EATTR0 (pe_attr dest))\<lparr>pe_authtype := ep_authtype src\<rparr>
      in dest\<lparr>pe_proto := ep_proto src, pe_url := ep_url src, pe_port := ep_port src,
              pe_path := ep_path src,
              pe_attr := Some (dest_attr\<lparr>pe_authstring :=
                 pe_authstring dest_attr @ map pb_of_authstring (ep_authstring src)\<rparr>)\<rparr>)"

definition load_authstring :: "endpoint \<Rightarrow> pb_AUTHSTRING \<Rightarrow> endpoint" where
  "load_authstring dest a =
     (let uppair = or_default ([], []) (pa_uppair a); pki = or_default ([], []) (pa_pki a)
      in Endpoint_add_authstring dest (pa_token a) (fst uppair) (snd uppair) (fst pki) (snd pki))"

definition assignENDPOINT :: "pb_ENDPOINT \<Rightarrow> endpoint \<Rightarrow> endpoint" where
  "assignENDPOINT src dest =
     (let dest1 = snd (Endpoint_set_proto dest (pe_proto src));
          dest2 = Endpoint_set_url dest1 (pe_url src);
          dest3 = Endpoint_set_port dest2 (pe_port src);
          dest4 = Endpoint_set_path dest3 (pe_path src);
          attr = or_default pb_EATTR0 (pe_attr src);
          dest5 = snd (Endpoint_set_authtype dest4 (pe_authtype attr))
      in foldl load_authstring dest5 (pe_authstring attr))"

lemma load_authstring_pb:
  "load_authstring e (pb_of_authstring a) = e\<lparr>ep_authstring := ep_authstring e @ [a]\<rparr>"
  by (simp add: load_authstring_def pb_of_authstring_def Endpoint_add_authstring_def authstring_new_def)

lemma load_authstrings_pb:
  "foldl load_authstring e (map pb_of_authstring as) = e\<lparr>ep_authstring := ep_authstring e @ as\<rparr>"
  by (induction as arbitrary: e) (simp_all add: load_authstring_pb)

lemma assignENDPOINT_assignEndpoint:
  assumes "endpoint_ok e"
  shows "assignENDPOINT (assignEndpoint e pb_ENDPOINT0) d =
    \<lparr>ep_proto = (if ep_proto e = [] then ep_proto d else ep_proto e), ep_url = ep_url e,
     ep_port = ep_port e, ep_path = ep_path e, ep_authtype = ep_authtype e,
     ep_authstring = ep_authstring d @ ep_authstring e\<rparr>"
proof -
  have "\<not> known_proto []" by (simp add: known_proto_def)
  with assms show ?thesis
    by (auto simp: assignENDPOINT_def assignEndpoint_def pb_ENDPOINT0_def pb_EATTR0_def Let_def
        load_authstrings_pb Endpoint_setter_defs endpoint_ok_def not_le)
qed

lemma Endpoint_roundtrip:
  "endpoint_ok e \<Longrightarrow> assignENDPOINT (assignEndpoint e pb_ENDPOINT0) Endpoint_new = e"
  by (simp add: assignENDPOINT_assignEndpoint Endpoint_new_def)

lemma endpoint_ok_load_authstrings: "endpoint_ok e \<Longrightarrow> endpoint_ok (foldl load_authstring e as)"
  by (induction as arbitrary: e) (auto simp: load_authstring_def Let_def)

lemma endpoint_ok_assignENDPOINT: "endpoint_ok d \<Longrightarrow> endpoint_ok (assignENDPOINT p d)"
  unfolding assignENDPOINT_def Let_def
  by (intro endpoint_ok_load_authstrings endpoint_ok_setters)

section \<open>Engines\<close>

record extfile =
  ex_storage :: endpoint
  ex_path :: string

datatype engine =
  Engine (eng_binary: string) (eng_id: string) (eng_name: string)
    (eng_deps: "engine list") (eng_extfiles: "extfile list")

definition Engine_new :: engine where
  "Engine_new = Engine [] [] [] [] []"

record pb_EXTFILES =
  px_storage :: "pb_ENDPOINT option"
  px_path :: string

datatype pb_ENGINE =
  PB_ENGINE (pg_binary: "string option") (pg_id: "string option") (pg_name: "string option")
    (pg_deps: "pb_ENGINE list") (pg_extfiles: "pb_EXTFILES list")

definition pb_ENGINE0 :: pb_ENGINE where
  "pb_ENGINE0 = PB_ENGINE None None None [] []"

definition set_unless_empty :: "string \<Rightarrow> string option \<Rightarrow> string option" where
  "set_unless_empty s old = (if s \<noteq> [] then Some s else old)"

definition pb_of_extfile :: "extfile \<Rightarrow> pb_EXTFILES" where
  "pb_of_extfile x =
     \<lparr>px_storage = Some (assignEndpoint (ex_storage x) pb_ENDPOINT0), px_path = ex_path x\<rparr>"

fun assignEngine :: "engine \<Rightarrow> pb_ENGINE \<Rightarrow> pb_ENGINE" where
  "assignEngine (Engine binary i name deps extfiles) dest =
     PB_ENGINE (set_unless_empty binary (pg_binary dest)) (set_unless_empty i (pg_id dest))
       (set_unless_empty name (pg_name dest))
       (pg_deps dest @ map (\<lambda>e. assignEngine e pb_ENGINE0) deps)
       (pg_extfiles dest @ map pb_of_extfile extfiles)"

definition load_extfile :: "pb_EXTFILES \<Rightarrow> extfile" where
  "load_extfile x =
     \<lparr>ex_storage = assignENDPOINT (or_default pb_ENDPOINT0 (px_storage x)) Endpoint_new,
      ex_path = px_path x\<rparr>"

text \<open>\<^verbatim>\<open>assignENGINE\<close> writes every field of its destination, whatever it held.\<close>

fun assignENGINE :: "pb_ENGINE \<Rightarrow> engine" where
  "assignENGINE (PB_ENGINE binary i name deps extfiles) =
     Engine (or_default [] binary) (or_default [] i) (or_default [] name)
       (map assignENGINE deps) (map load_extfile extfiles)"

fun engine_ok :: "engine \<Rightarrow> bool" where
  "engine_ok (Engine _ _ _ deps extfiles) \<longleftrightarrow>
     (\<forall>e \<in> set deps. engine_ok e) \<and> (\<forall>x \<in> set extfiles. endpoint_ok (ex_storage x))"

lemma load_extfile_pb: "endpoint_ok (ex_storage x) \<Longrightarrow> load_extfile (pb_of_extfile x) = x"
  by (simp add: load_extfile_def pb_of_extfile_def Endpoint_roundtrip)

lemma or_default_set_unless_empty: "or_default [] (set_unless_empty s None) = s"
  by (simp add: set_unless_empty_def)

lemma Engine_roundtrip: "engine_ok e \<Longrightarrow> assignENGINE (assignEngine e pb_ENGINE0) = e"
proof (induction e)
  case (Engine binary i name deps extfiles)
  have "map (\<lambda>x. assignENGINE (assignEngine x pb_ENGINE0)) deps = deps"
    using Engine by (intro map_idI) auto
  moreover have "map (\<lambda>x. load_extfile (pb_of_extfile x)) extfiles = extfiles"
    using Engine.prems by (intro map_idI) (auto simp: load_extfile_pb)
  ultimately show ?case
    by (simp add: pb_ENGINE0_def comp_def or_default_set_unless_empty)
qed

lemma engine_ok_assignENGINE: "engine_ok (assignENGINE p)"
  by (induction p) (auto simp: load_extfile_def endpoint_ok_assignENDPOINT)

end
