(* ===== verification/Taskdep_Request.thy ===== *)
theory Taskdep_Request
  imports Taskdep_Endpoint
begin

text \<open>
  \<^verbatim>\<open>Request\<close> of \<^verbatim>\<open>proto/taskdep/message.h\<close>: its state, its copy and move
  operations, its setters and getters, and its wire format (\<^verbatim>\<open>encode\<close>,
  \<^verbatim>\<open>append\<close>). A pointer member that owns its target is an option. The members the
  constructor leaves uninitialised, and the ones of an \<^verbatim>\<open>Attr\<close> a setter allocates, get
  their indeterminate values as arguments.
\<close>

section \<open>Address and message types\<close>

datatype addr_type = Addr_storage | Addr_cluster | Addr_management

fun addr_code :: "addr_type \<Rightarrow> u32" where
  "addr_code Addr_storage = 0"
| "addr_code Addr_cluster = 1"
| "addr_code Addr_management = 2"

datatype msg_type = Msg_loopback | Msg_neogiate | Msg_deploy | Msg_terminate | Msg_trigger | Msg_done

fun msg_code :: "msg_type \<Rightarrow> u32" where
  "msg_code Msg_loopback = 0"
| "msg_code Msg_neogiate = 1"
| "msg_code Msg_deploy = 2"
| "msg_code Msg_terminate = 3"
| "msg_code Msg_trigger = 4"
| "msg_code Msg_done = 5"

datatype attr_trigger = Trigger_manual | Trigger_create | Trigger_deps

fun trigger_code :: "attr_trigger \<Rightarrow> u32" where
  "trigger_code Trigger_manual = 0"
| "trigger_code Trigger_create = 1"
| "trigger_code Trigger_deps = 2"

section \<open>State\<close>

record ds_src =
  src_input :: string
  src_type :: string

record ds_dest =
  dest_output :: string
  dest_directorypolicy :: u32
  dest_emptypolicy :: u32

record datasource =
  ds_src :: ds_src
  ds_dest :: ds_dest

record period =
  pd_interval :: u32
  pd_resultpolicy :: u32
  pd_triggerpolicy :: u32
  pd_backupid :: "u32 list"

record attr =
  at_trigger :: u32
  at_period :: "period option"
  at_deps :: "u64 list"
  at_virtstorage :: bool

record obj =
  obj_management :: "endpoint option"
  obj_cluster :: "endpoint option"
  obj_storage :: "endpoint option"

record request =
  rq_buf :: "string option"
  rq_size :: nat
  rq_src :: u32
  rq_dest :: u32
  rq_msg :: u32
  rq_token :: string
  rq_taskid :: u64
  rq_datasource :: "datasource option"
  rq_engine :: "engine option"
  rq_attr :: "attr option"
  rq_object :: obj

definition obj_new :: obj where
  "obj_new = \<lparr>obj_management = None, obj_cluster = None, obj_storage = None\<rparr>"

text \<open>\<^verbatim>\<open>Request()\<close>, with the initial contents of \<open>src\<close>, \<open>dest\<close>, \<open>msg\<close> and \<open>taskid\<close>.\<close>

definition Request_new :: "u32 \<Rightarrow> u32 \<Rightarrow> u32 \<Rightarrow> u64 \<Rightarrow> request" where
  "Request_new g_src g_dest g_msg g_taskid =
     \<lparr>rq_buf = None, rq_size = 0, rq_src = g_src, rq_dest = g_dest, rq_msg = g_msg, rq_token = [],
      rq_taskid = g_taskid, rq_datasource = None, rq_engine = None, rq_attr = None,
      rq_object = obj_new\<rparr>"

text \<open>\<^verbatim>\<open>new Request::Attr\<close>, with the initial contents of \<open>trigger\<close> and \<open>virtstorage\<close>.\<close>

definition attr_new :: "u32 \<Rightarrow> bool \<Rightarrow> attr" where
  "attr_new g_trigger g_virtstorage =
     \<lparr>at_trigger = g_trigger, at_period = None, at_deps = [], at_virtstorage = g_virtstorage\<rparr>"

section \<open>Copying and moving\<close>

text \<open>\<^verbatim>\<open>new T; *p = *other.p\<close> when the other pointer is set, else null.\<close>

definition clone :: "'a option \<Rightarrow> 'a option" where
  "clone other = (case other of Some x \<Rightarrow> Some x | None \<Rightarrow> None)"

text \<open>
  The assignment form: the target object is reused if there is one, allocated otherwise, and
  then overwritten; it is deleted when the other pointer is null.
\<close>

definition assign_owned :: "'a option \<Rightarrow> 'a option \<Rightarrow> 'a option" where
  "assign_owned this other =
     (case other of
        Some x \<Rightarrow> (case this of None \<Rightarrow> Some x | Some y \<Rightarrow> Some x)
      | None \<Rightarrow> None)"

definition copy_buf :: "string option \<Rightarrow> nat \<Rightarrow> string option" where
  "copy_buf buf n = (case buf of Some b \<Rightarrow> Some (take n b) | None \<Rightarrow> None)"

definition Request_copy :: "request \<Rightarrow> request" where
  "Request_copy other =
     \<lparr>rq_buf = copy_buf (rq_buf other) (rq_size other), rq_size = rq_size other,
      rq_src = rq_src other, rq_dest = rq_dest other, rq_msg = rq_msg other,
      rq_token = rq_token other, rq_taskid = rq_taskid other,
      rq_datasource = clone (rq_datasource other), rq_engine = clone (rq_engine other),
      rq_attr = (case rq_attr other of
          Some a \<Rightarrow> Some \<lparr>at_trigger = at_trigger a, at_period = clone (at_period a),
                          at_deps = at_deps a, at_virtstorage = at_virtstorage a\<rparr>
        | None \<Rightarrow> None),
      rq_object = \<lparr>obj_management = clone (obj_management (rq_object other)),
                   obj_cluster = clone (obj_cluster (rq_object other)),
                   obj_storage = clone (obj_storage (rq_object other))\<rparr>\<rparr>"

text \<open>The move operations return the new value of the target and of the source.\<close>

definition Request_moved_from :: "request \<Rightarrow> request" where
  "Request_moved_from other =
     other\<lparr>rq_buf := None, rq_size := 0, rq_token := [], rq_datasource := None, rq_engine := None,
           rq_attr := None, rq_object := obj_new\<rparr>"

definition Request_move :: "request \<Rightarrow> request \<times> request" where
  "Request_move other =
     (\<lparr>rq_buf = rq_buf other, rq_size = rq_size other, rq_src = rq_src other,
       rq_dest = rq_dest other, rq_msg = rq_msg other, rq_token = rq_token other,
       rq_taskid = rq_taskid other, rq_datasource = rq_datasource other,
       rq_engine = rq_engine other, rq_attr = rq_attr other, rq_object = rq_object other\<rparr>,
      Request_moved_from other)"

text \<open>
  \<^verbatim>\<open>operator=\<close>. The \<open>Attr\<close> of the target is reused, so each of its fields has to be
  written.
\<close>

definition assign_attr :: "attr option \<Rightarrow> u32 \<Rightarrow> bool \<Rightarrow> attr option \<Rightarrow> attr option" where
  "assign_attr this g_trigger g_virtstorage other =
     (case other of
        Some a \<Rightarrow>
          (let a0 = (case this of None \<Rightarrow> attr_new g_trigger g_virtstorage | Some t \<Rightarrow> t);
               a1 = a0\<lparr>at_trigger := at_trigger a, at_deps := at_deps a,
                       at_virtstorage := at_virtstorage a\<rparr>
           in Some (a1\<lparr>at_period := assign_owned (at_period a1) (at_period a)\<rparr>))
      | None \<Rightarrow> None)"

definition Request_copy_assign :: "request \<Rightarrow> u32 \<Rightarrow> bool \<Rightarrow> request \<Rightarrow> request" where
  "Request_copy_assign this g_trigger g_virtstorage other =
     this\<lparr>rq_datasource := assign_owned (rq_datasource this) (rq_datasource other),
          rq_engine := assign_owned (rq_engine this) (rq_engine other),
          rq_attr := assign_attr (rq_attr this) g_trigger g_virtstorage (rq_attr other),
          rq_object :=
            \<lparr>obj_management = assign_owned (obj_management (rq_object this)) (obj_management (rq_object other)),
             obj_cluster = assign_owned (obj_cluster (rq_object this)) (obj_cluster (rq_object other)),
             obj_storage = assign_owned (obj_storage (rq_object this)) (obj_storage (rq_object other))\<rparr>,
          rq_buf := copy_buf (rq_buf other) (rq_size other), rq_size := rq_size other,
          rq_src := rq_src other, rq_dest := rq_dest other, rq_msg := rq_msg other,
          rq_token := rq_token other, rq_taskid := rq_taskid other\<rparr>"

definition Request_move_assign :: "request \<Rightarrow> request \<Rightarrow> request \<times> request" where
  "Request_move_assign this other =
     (this\<lparr>rq_buf := rq_buf other, rq_size := rq_size other, rq_src := rq_src other,
           rq_dest := rq_dest other, rq_msg := rq_msg other, rq_token := rq_token other,
           rq_taskid := rq_taskid other, rq_datasource := rq_datasource other,
           rq_engine := rq_engine other, rq_attr := rq_attr other, rq_object := rq_object other\<rparr>,
      Request_moved_from other)"

lemma clone_id [simp]: "clone x = x"
  by (simp add: clone_def split: option.split)

lemma assign_owned_other [simp]: "assign_owned this other = other"
  by (simp add: assign_owned_def split: option.split)

lemma assign_attr_other [simp]: "assign_attr this g h other = other"
  by (auto simp: assign_attr_def Let_def split: option.split)

lemma copy_buf_ok: "buffer_ok b n \<Longrightarrow> copy_buf b n = b"
  by (auto simp: copy_buf_def buffer_ok_def split: option.splits)

section \<open>Setters\<close>

definition Request_set_type :: "request \<Rightarrow> u32 \<Rightarrow> u32 \<Rightarrow> u32 \<Rightarrow> request" where
  "Request_set_type m src dest msg = m\<lparr>rq_src := src, rq_dest := dest, rq_msg := msg\<rparr>"

definition Request_set_token :: "request \<Rightarrow> string \<Rightarrow> request" where
  "Request_set_token m token = m\<lparr>rq_token := token\<rparr>"

definition Request_set_taskid :: "request \<Rightarrow> u64 \<Rightarrow> request" where
  "Request_set_taskid m taskid = m\<lparr>rq_taskid := taskid\<rparr>"

definition Request_set_datasource :: "request \<Rightarrow> ds_src \<Rightarrow> ds_dest \<Rightarrow> int \<times> request" where
  "Request_set_datasource m src dest =
     (if 2 \<le> dest_emptypolicy dest \<or> 2 \<le> dest_directorypolicy dest then (-1, m)
      else (0, m\<lparr>rq_datasource := Some \<lparr>ds_src = src, ds_dest = dest\<rparr>\<rparr>))"

text \<open>\<^verbatim>\<open>if(engine == nullptr) engine = new Engine\<close> and then the update.\<close>

definition on_engine :: "request \<Rightarrow> (engine \<Rightarrow> engine) \<Rightarrow> request" where
  "on_engine m f = m\<lparr>rq_engine := Some (f (or_default Engine_new (rq_engine m)))\<rparr>"

definition Request_set_engine_binary :: "request \<Rightarrow> string \<Rightarrow> request" where
  "Request_set_engine_binary m binary =
     on_engine m (\<lambda>e. case e of Engine _ i n ds xs \<Rightarrow> Engine binary i n ds xs)"

definition Request_set_engine_id_name :: "request \<Rightarrow> string \<Rightarrow> string \<Rightarrow> request" where
  "Request_set_engine_id_name m i n =
     on_engine m (\<lambda>e. case e of Engine b _ _ ds xs \<Rightarrow> Engine b i n ds xs)"

definition Request_add_engine_dep :: "request \<Rightarrow> engine \<Rightarrow> request" where
  "Request_add_engine_dep m dep =
     on_engine m (\<lambda>e. case e of Engine b i n ds xs \<Rightarrow> Engine b i n (ds @ [dep]) xs)"

definition Request_add_engine_extfile :: "request \<Rightarrow> extfile \<Rightarrow> request" where
  "Request_add_engine_extfile m x =
     on_engine m (\<lambda>e. case e of Engine b i n ds xs \<Rightarrow> Engine b i n ds (xs @ [x]))"

definition Request_get_engine_dep :: "request \<Rightarrow> int \<Rightarrow> engine option" where
  "Request_get_engine_dep m pos =
     (case rq_engine m of None \<Rightarrow> None
      | Some e \<Rightarrow> if in_range pos (eng_deps e) then Some (eng_deps e ! nat pos) else None)"

definition Request_get_engine_extfile :: "request \<Rightarrow> int \<Rightarrow> extfile option" where
  "Request_get_engine_extfile m pos =
     (case rq_engine m of None \<Rightarrow> None
      | Some e \<Rightarrow> if in_range pos (eng_extfiles e) then Some (eng_extfiles e ! nat pos) else None)"

definition Request_set_attr_master :: "request \<Rightarrow> u32 \<Rightarrow> bool \<Rightarrow> int \<times> request" where
  "Request_set_attr_master m trigger virtstorage =
     (if 3 \<le> trigger then (-1, m)
      else (let a = (case rq_attr m of None \<Rightarrow> attr_new trigger virtstorage | Some a \<Rightarrow> a)
            in (0, m\<lparr>rq_attr := Some (a\<lparr>at_trigger := trigger, at_virtstorage := virtstorage\<rparr>)\<rparr>)))"

definition Request_set_attr_period ::
  "request \<Rightarrow> u32 \<Rightarrow> bool \<Rightarrow> u32 \<Rightarrow> u32 \<Rightarrow> u32 \<Rightarrow> u32 list \<Rightarrow> int \<times> request" where
  "Request_set_attr_period m g_trigger g_virtstorage interval resultpolicy triggerpolicy backupid =
     (if 3 \<le> resultpolicy \<or> 3 \<le> triggerpolicy then (-1, m)
      else (let a = or_default (attr_new g_trigger g_virtstorage) (rq_attr m)
            in (0, m\<lparr>rq_attr := Some (a\<lparr>at_period :=
                 Some \<lparr>pd_interval = interval, pd_resultpolicy = resultpolicy,
                       pd_triggerpolicy = triggerpolicy, pd_backupid = backupid\<rparr>\<rparr>)\<rparr>)))"

definition Request_add_attr_dep :: "request \<Rightarrow> u32 \<Rightarrow> bool \<Rightarrow> u64 \<Rightarrow> request" where
  "Request_add_attr_dep m g_trigger g_virtstorage dep =
     (let a = or_default (attr_new g_trigger g_virtstorage) (rq_attr m)
      in m\<lparr>rq_attr := Some (a\<lparr>at_deps := at_deps a @ [dep]\<rparr>)\<rparr>)"

definition Request_get_attr_dep :: "request \<Rightarrow> int \<Rightarrow> u64" where
  "Request_get_attr_dep m pos =
     (case rq_attr m of None \<Rightarrow> 0
      | Some a \<Rightarrow> if in_range pos (at_deps a) then at_deps a ! nat pos else 0)"

definition Request_get_attr_period :: "request \<Rightarrow> period option" where
  "Request_get_attr_period m = (case rq_attr m of None \<Rightarrow> None | Some a \<Rightarrow> at_period a)"

definition Request_get_datasource_src :: "request \<Rightarrow> ds_src option" where
  "Request_get_datasource_src m = (case rq_datasource m of None \<Rightarrow> None | Some d \<Rightarrow> Some (ds_src d))"

definition Request_get_datasource_dest :: "request \<Rightarrow> ds_dest option" where
  "Request_get_datasource_dest m = (case rq_datasource m of None \<Rightarrow> None | Some d \<Rightarrow> Some (ds_dest d))"

definition Request_set_object_management :: "request \<Rightarrow> endpoint \<Rightarrow> request" where
  "Request_set_object_management m e = m\<lparr>rq_object := (rq_object m)\<lparr>obj_management := Some e\<rparr>\<rparr>"

definition Request_set_object_storage :: "request \<Rightarrow> endpoint \<Rightarrow> request" where
  "Request_set_object_storage m e = m\<lparr>rq_object := (rq_object m)\<lparr>obj_storage := Some e\<rparr>\<rparr>"

definition Request_set_object_cluster :: "request \<Rightarrow> endpoint \<Rightarrow> request" where
  "Request_set_object_cluster m e = m\<lparr>rq_object := (rq_object m)\<lparr>obj_cluster := Some e\<rparr>\<rparr>"

lemmas Request_setter_defs =
  Request_set_type_def Request_set_token_def Request_set_taskid_def Request_set_datasource_def
  on_engine_def Request_set_engine_binary_def Request_set_engine_id_name_def
  Request_add_engine_dep_def Request_add_engine_extfile_def Request_set_attr_master_def
  Request_set_attr_period_def Request_add_attr_dep_def Request_set_object_management_def
  Request_set_object_storage_def Request_set_object_cluster_def

section \<open>Client tasks\<close>

text \<open>
  A network task created for a peer: the transport, where it connects to, the number of retries
  and the request it carries.
\<close>

record client_task =
  ct_ssl :: bool
  ct_url :: string
  ct_port :: u32
  ct_retry :: nat
  ct_req :: request

definition create_client_task :: "bool \<Rightarrow> endpoint \<Rightarrow> request \<Rightarrow> client_task" where
  "create_client_task ssl peer req =
     \<lparr>ct_ssl = ssl, ct_url = ep_url peer, ct_port = ep_port peer, ct_retry = 1, ct_req = req\<rparr>"

end
