(* ===== verification/Taskdep_Request_Wire.thy ===== *)
theory Taskdep_Request_Wire
  imports Taskdep_Request
begin

text \<open>
  \<^verbatim>\<open>Request::encode\<close> and \<^verbatim>\<open>Request::append\<close>. The generated protobuf message
  is the record \<open>pb_REQUEST\<close>; \<^verbatim>\<open>SerializeToArray\<close> and
  \<^verbatim>\<open>ParseFromArray\<close> are the parameters \<open>ser\<close> and \<open>parse\<close>. The only thing asked of
  them is that the parser reads back the very message that was serialised.
\<close>

record pb_TYPE =
  pt_src :: u32
  pt_dest :: u32
  pt_msg :: u32

record pb_DATASOURCE =
  pds_src :: "ds_src option"
  pds_dest :: "ds_dest option"

record pb_ATTR =
  pat_trigger :: u32
  pat_period :: "period option"
  pat_deps :: "u64 list"
  pat_virtstorage :: bool

record pb_OBJECT =
  po_management :: "pb_ENDPOINT option"
  po_cluster :: "pb_ENDPOINT option"
  po_storage :: "pb_ENDPOINT option"

record pb_REQUEST =
  pq_magic :: u32
  pq_type :: "pb_TYPE option"
  pq_token :: string
  pq_taskid :: u64
  pq_datasource :: "pb_DATASOURCE option"
  pq_engine :: "pb_ENGINE option"
  pq_attr :: "pb_ATTR option"
  pq_object :: "pb_OBJECT option"

definition pb_TYPE0 :: pb_TYPE where
  "pb_TYPE0 = \<lparr>pt_src = 0, pt_dest = 0, pt_msg = 0\<rparr>"

definition ds_src0 :: ds_src where
  "ds_src0 = \<lparr>src_input = [], src_type = []\<rparr>"

definition ds_dest0 :: ds_dest where
  "ds_dest0 = \<lparr>dest_output = [], dest_directorypolicy = 0, dest_emptypolicy = 0\<rparr>"

definition pb_ATTR0 :: pb_ATTR where
  "pb_ATTR0 = \<lparr>pat_trigger = 0, pat_period = None, pat_deps = [], pat_virtstorage = False\<rparr>"

definition pb_OBJECT0 :: pb_OBJECT where
  "pb_OBJECT0 = \<lparr>po_management = None, po_cluster = None, po_storage = None\<rparr>"

section \<open>Encoding\<close>

text \<open>The part of \<^verbatim>\<open>encode\<close> both messages share: \<^verbatim>\<open>mutable_object()\<close> is always called.\<close>

definition obj_to_pb :: "obj \<Rightarrow> pb_OBJECT" where
  "obj_to_pb ob =
     \<lparr>po_management = map_option (\<lambda>e. assignEndpoint e pb_ENDPOINT0) (obj_management ob),
      po_cluster = map_option (\<lambda>e. assignEndpoint e pb_ENDPOINT0) (obj_cluster ob),
      po_storage = map_option (\<lambda>e. assignEndpoint e pb_ENDPOINT0) (obj_storage ob)\<rparr>"

definition attr_to_pb :: "attr \<Rightarrow> pb_ATTR" where
  "attr_to_pb a =
     \<lparr>pat_trigger = at_trigger a, pat_period = at_period a, pat_deps = at_deps a,
      pat_virtstorage = at_virtstorage a\<rparr>"

definition Request_to_pb :: "request \<Rightarrow> pb_REQUEST" where
  "Request_to_pb m =
     \<lparr>pq_magic = get_magic TASKDEP,
      pq_type = Some \<lparr>pt_src = rq_src m, pt_dest = rq_dest m, pt_msg = rq_msg m\<rparr>,
      pq_token = rq_token m,
      pq_taskid = rq_taskid m,
      pq_datasource = (case rq_datasource m of None \<Rightarrow> None
        | Some d \<Rightarrow> Some \<lparr>pds_src = Some (ds_src d), pds_dest = Some (ds_dest d)\<rparr>),
      pq_engine = Some (case rq_engine m of None \<Rightarrow> pb_ENGINE0
        | Some e \<Rightarrow> assignEngine e pb_ENGINE0),
      pq_attr = Some (case rq_attr m of None \<Rightarrow> pb_ATTR0 | Some a \<Rightarrow> attr_to_pb a),
      pq_object = Some (obj_to_pb (rq_object m))\<rparr>"

text \<open>\<^verbatim>\<open>encode\<close> returns 1 and the one vector it fills in.\<close>

definition Request_encode :: "(pb_REQUEST \<Rightarrow> string) \<Rightarrow> request \<Rightarrow> int \<times> string \<times> request" where
  "Request_encode ser m =
     (let bs = ser (Request_to_pb m)
      in (1, bs, m\<lparr>rq_buf := Some bs, rq_size := length bs\<rparr>))"

section \<open>Decoding\<close>

definition load_object :: "pb_ENDPOINT option \<Rightarrow> endpoint option \<Rightarrow> endpoint option" where
  "load_object p old =
     (case p of None \<Rightarrow> old | Some q \<Rightarrow> Some (assignENDPOINT q (or_default Endpoint_new old)))"

definition obj_load :: "pb_OBJECT \<Rightarrow> obj \<Rightarrow> obj" where
  "obj_load p old =
     \<lparr>obj_management = load_object (po_management p) (obj_management old),
      obj_cluster = load_object (po_cluster p) (obj_cluster old),
      obj_storage = load_object (po_storage p) (obj_storage old)\<rparr>"

definition Request_load :: "pb_REQUEST \<Rightarrow> request \<Rightarrow> request" where
  "Request_load p m =
     (let type = or_default pb_TYPE0 (pq_type p)
      in m\<lparr>rq_src := pt_src type, rq_dest := pt_dest type, rq_msg := pt_msg type,
           rq_token := pq_token p, rq_taskid := pq_taskid p,
           rq_datasource := (case pq_datasource p of None \<Rightarrow> None
             | Some d \<Rightarrow> Some \<lparr>ds_src = or_default ds_src0 (pds_src d),
                              ds_dest = or_default ds_dest0 (pds_dest d)\<rparr>),
           rq_engine := (case pq_engine p of None \<Rightarrow> None | Some e \<Rightarrow> Some (assignENGINE e)),
           rq_attr := (case pq_attr p of None \<Rightarrow> None
             | Some a \<Rightarrow> Some \<lparr>at_trigger = pat_trigger a, at_period = pat_period a,
                              at_deps = pat_deps a, at_virtstorage = pat_virtstorage a\<rparr>),
           rq_object := obj_load (or_default pb_OBJECT0 (pq_object p)) (rq_object m)\<rparr>)"

text \<open>What \<^verbatim>\<open>append\<close> does once the bytes parse: the magic is checked before any field is written.\<close>

definition Request_accept :: "request \<Rightarrow> pb_REQUEST \<Rightarrow> request append_res" where
  "Request_accept m p =
     (let m1 = m\<lparr>rq_buf := None, rq_size := 0\<rparr>
      in if pq_magic p \<noteq> get_magic TASKDEP then (-1, Some MAGIC_MISMATCH, m1)
         else (1, None, Request_load p m1))"

definition Request_append ::
  "(string \<Rightarrow> pb_REQUEST option) \<Rightarrow> request \<Rightarrow> string \<Rightarrow> request append_res" where
  "Request_append parse m chunk =
     (let buf = gather (rq_buf m) (rq_size m) chunk;
          n = rq_size m + length chunk
      in case parse (take n buf) of
           None \<Rightarrow> (0, None, m\<lparr>rq_buf := Some buf, rq_size := n\<rparr>)
         | Some p \<Rightarrow> Request_accept m p)"

section \<open>Round trip\<close>

definition obj_ok :: "obj \<Rightarrow> bool" where
  "obj_ok ob \<longleftrightarrow> (\<forall>e \<in> set_option (obj_management ob) \<union> set_option (obj_cluster ob) \<union>
     set_option (obj_storage ob). endpoint_ok e)"

definition request_ok :: "request \<Rightarrow> bool" where
  "request_ok m \<longleftrightarrow> obj_ok (rq_object m) \<and> (\<forall>e \<in> set_option (rq_engine m). engine_ok e)"

text \<open>
  What the receiver sees of a request: the fields as sent, but with an engine and an attribute
  block in every case, empty ones when the sender had set none.
\<close>

definition attr_empty :: attr where
  "attr_empty = attr_new 0 False"

definition Request_received :: "request \<Rightarrow> request" where
  "Request_received m =
     m\<lparr>rq_buf := None, rq_size := 0,
       rq_engine := Some (or_default Engine_new (rq_engine m)),
       rq_attr := Some (or_default attr_empty (rq_attr m))\<rparr>"

lemma load_object_pb:
  "(\<forall>e \<in> set_option x. endpoint_ok e) \<Longrightarrow>
   load_object (map_option (\<lambda>e. assignEndpoint e pb_ENDPOINT0) x) None = x"
  by (auto simp: load_object_def Endpoint_roundtrip split: option.split)

lemma obj_roundtrip: "obj_ok ob \<Longrightarrow> obj_load (obj_to_pb ob) obj_new = ob"
  by (simp add: obj_load_def obj_to_pb_def obj_new_def load_object_pb obj_ok_def ball_Un)

lemma assignENGINE_pb0: "assignENGINE pb_ENGINE0 = Engine_new"
  by (simp add: pb_ENGINE0_def Engine_new_def)

lemma Request_load_to_pb:
  assumes "request_ok m" and "rq_object t = obj_new" and "rq_buf t = None" and "rq_size t = 0"
  shows "Request_load (Request_to_pb m) t = Request_received m"
  using assms
  by (cases "rq_datasource m"; cases "rq_engine m"; cases "rq_attr m")
    (simp_all add: Request_load_def Request_to_pb_def Request_received_def request_ok_def Let_def
      obj_roundtrip Engine_roundtrip assignENGINE_pb0 pb_ATTR0_def attr_to_pb_def
      attr_empty_def attr_new_def)

lemma Request_accept_to_pb:
  assumes "request_ok m" and "rq_object t = obj_new"
  shows "Request_accept t (Request_to_pb m) = (1, None, Request_received m)"
proof -
  have "Request_load (Request_to_pb m) (t\<lparr>rq_buf := None, rq_size := 0\<rparr>) = Request_received m"
    by (rule Request_load_to_pb) (simp_all add: assms)
  then show ?thesis by (simp add: Request_accept_def Request_to_pb_def Let_def)
qed

section \<open>Requests as framed messages\<close>

abbreviation request_buffer_ok :: "request \<Rightarrow> bool" where
  "request_buffer_ok m \<equiv> buffer_ok (rq_buf m) (rq_size m)"

definition Request_put :: "request \<Rightarrow> string \<Rightarrow> nat \<Rightarrow> request" where
  "Request_put m b n = m\<lparr>rq_buf := Some b, rq_size := n\<rparr>"

lemma Request_load_buffer [simp]:
  "rq_buf (Request_load p m) = rq_buf m" "rq_size (Request_load p m) = rq_size m"
  by (simp_all add: Request_load_def Let_def)

interpretation req_frame: framed parse "Request_append parse" "\<lambda>m. buffered (rq_buf m)"
  "\<lambda>m b. Request_put m b (length b)" Request_accept request_buffer_ok for parse
  by (rule framed_of_buffer)
    (auto simp: Request_append_def Request_put_def Request_accept_def Let_def split: option.split if_splits)

end
