(* ===== verification/Taskdep_Response.thy ===== *)
theory Taskdep_Response
  imports Taskdep_Request_Wire
begin

text \<open>
  \<^verbatim>\<open>Response\<close> of \<^verbatim>\<open>proto/taskdep/message.h\<close>: state, copies and moves, setters
  with the bounds they check, and the wire format. It shares the object block and the buffer
  with the request. A \<^verbatim>\<open>Neogiate\<close> or \<^verbatim>\<open>Deploy\<close> block that a setter
  allocates has indeterminate numbers until they are set: they are arguments of the setter.
\<close>

section \<open>Statuses\<close>

datatype neogiate_status = Neo_succeed | Neo_err | Neo_conflict | Neo_illegal

fun neogiate_code :: "neogiate_status \<Rightarrow> u32" where
  "neogiate_code Neo_succeed = 0"
| "neogiate_code Neo_err = 1"
| "neogiate_code Neo_conflict = 2"
| "neogiate_code Neo_illegal = 3"

datatype deploy_status = Dep_succeed | Dep_err | Dep_busy | Dep_depsbroken | Dep_enginebroken | Dep_illegal

fun deploy_code :: "deploy_status \<Rightarrow> u32" where
  "deploy_code Dep_succeed = 0"
| "deploy_code Dep_err = 1"
| "deploy_code Dep_busy = 2"
| "deploy_code Dep_depsbroken = 3"
| "deploy_code Dep_enginebroken = 4"
| "deploy_code Dep_illegal = 5"

datatype deploy_taskstatus = Ts_deployed | Ts_triggered | Ts_prepared | Ts_fetched | Ts_running
  | Ts_writeback | Ts_terminating | Ts_partial | Ts_waiting | Ts_exiting | Ts_detached

fun taskstatus_code :: "deploy_taskstatus \<Rightarrow> u32" where
  "taskstatus_code Ts_deployed = 0"
| "taskstatus_code Ts_triggered = 1"
| "taskstatus_code Ts_prepared = 2"
| "taskstatus_code Ts_fetched = 3"
| "taskstatus_code Ts_running = 4"
| "taskstatus_code Ts_writeback = 5"
| "taskstatus_code Ts_terminating = 6"
| "taskstatus_code Ts_partial = 7"
| "taskstatus_code Ts_waiting = 8"
| "taskstatus_code Ts_exiting = 9"
| "taskstatus_code Ts_detached = 10"

section \<open>State\<close>

record neogiate =
  ng_status :: u32
  ng_errstr :: string
  ng_alternative :: "u64 list"

record deploy =
  dp_status :: u32
  dp_errstr :: string
  dp_taskstatus :: u32

record response =
  rs_buf :: "string option"
  rs_size :: nat
  rs_src :: u32
  rs_dest :: u32
  rs_msg :: u32
  rs_token :: string
  rs_taskid :: u64
  rs_neogiate :: "neogiate option"
  rs_deploy :: "deploy option"
  rs_object :: obj

definition Response_new :: "u32 \<Rightarrow> u32 \<Rightarrow> u32 \<Rightarrow> u64 \<Rightarrow> response" where
  "Response_new g_src g_dest g_msg g_taskid =
     \<lparr>rs_buf = None, rs_size = 0, rs_src = g_src, rs_dest = g_dest, rs_msg = g_msg, rs_token = [],
      rs_taskid = g_taskid, rs_neogiate = None, rs_deploy = None, rs_object = obj_new\<rparr>"

definition neogiate_new :: "u32 \<Rightarrow> neogiate" where
  "neogiate_new g_status = \<lparr>ng_status = g_status, ng_errstr = [], ng_alternative = []\<rparr>"

definition deploy_new :: "u32 \<Rightarrow> u32 \<Rightarrow> deploy" where
  "deploy_new g_status g_taskstatus =
     \<lparr>dp_status = g_status, dp_errstr = [], dp_taskstatus = g_taskstatus\<rparr>"

section \<open>Copying and moving\<close>

definition Response_copy :: "response \<Rightarrow> response" where
  "Response_copy other =
     \<lparr>rs_buf = copy_buf (rs_buf other) (rs_size other), rs_size = rs_size other,
      rs_src = rs_src other, rs_dest = rs_dest other, rs_msg = rs_msg other,
      rs_token = rs_token other, rs_taskid = rs_taskid other,
      rs_neogiate = clone (rs_neogiate other), rs_deploy = clone (rs_deploy other),
      rs_object = \<lparr>obj_management = clone (obj_management (rs_object other)),
                   obj_cluster = clone (obj_cluster (rs_object other)),
                   obj_storage = clone (obj_storage (rs_object other))\<rparr>\<rparr>"

definition Response_moved_from :: "response \<Rightarrow> response" where
  "Response_moved_from other =
     other\<lparr>rs_buf := None, rs_size := 0, rs_token := [], rs_neogiate := None, rs_deploy := None,
           rs_object := obj_new\<rparr>"

definition Response_move :: "response \<Rightarrow> response \<times> response" where
  "Response_move other =
     (\<lparr>rs_buf = rs_buf other, rs_size = rs_size other, rs_src = rs_src other,
       rs_dest = rs_dest other, rs_msg = rs_msg other, rs_token = rs_token other,
       rs_taskid = rs_taskid other, rs_neogiate = rs_neogiate other,
       rs_deploy = rs_deploy other, rs_object = rs_object other\<rparr>,
      Response_moved_from other)"

definition Response_copy_assign :: "response \<Rightarrow> response \<Rightarrow> response" where
  "Response_copy_assign this other =
     this\<lparr>rs_neogiate := assign_owned (rs_neogiate this) (rs_neogiate other),
          rs_deploy := assign_owned (rs_deploy this) (rs_deploy other),
          rs_object :=
            \<lparr>obj_management = assign_owned (obj_management (rs_object this)) (obj_management (rs_object other)),
             obj_cluster = assign_owned (obj_cluster (rs_object this)) (obj_cluster (rs_object other)),
             obj_storage = assign_owned (obj_storage (rs_object this)) (obj_storage (rs_object other))\<rparr>,
          rs_buf := copy_buf (rs_buf other) (rs_size other), rs_size := rs_size other,
          rs_src := rs_src other, rs_dest := rs_dest other, rs_msg := rs_msg other,
          rs_token := rs_token other, rs_taskid := rs_taskid other\<rparr>"

definition Response_move_assign :: "response \<Rightarrow> response \<Rightarrow> response \<times> response" where
  "Response_move_assign this other =
     (this\<lparr>rs_buf := rs_buf other, rs_size := rs_size other, rs_src := rs_src other,
           rs_dest := rs_dest other, rs_msg := rs_msg other, rs_token := rs_token other,
           rs_taskid := rs_taskid other, rs_neogiate := rs_neogiate other,
           rs_deploy := rs_deploy other, rs_object := rs_object other\<rparr>,
      Response_moved_from other)"

section \<open>Setters and getters\<close>

definition Response_set_type :: "response \<Rightarrow> u32 \<Rightarrow> u32 \<Rightarrow> u32 \<Rightarrow> response" where
  "Response_set_type m src dest msg = m\<lparr>rs_src := src, rs_dest := dest, rs_msg := msg\<rparr>"

definition Response_set_token :: "response \<Rightarrow> string \<Rightarrow> response" where
  "Response_set_token m token = m\<lparr>rs_token := token\<rparr>"

definition Response_set_taskid :: "response \<Rightarrow> u64 \<Rightarrow> response" where
  "Response_set_taskid m taskid = m\<lparr>rs_taskid := taskid\<rparr>"

definition Response_set_neogiate_status :: "response \<Rightarrow> u32 \<Rightarrow> int \<times> response" where
  "Response_set_neogiate_status m status =
     (if 4 \<le> status then (-1, m)
      else (let n = or_default (neogiate_new status) (rs_neogiate m)
            in (0, m\<lparr>rs_neogiate := Some (n\<lparr>ng_status := status\<rparr>)\<rparr>)))"

definition Response_set_neogiate_errstr :: "response \<Rightarrow> u32 \<Rightarrow> string \<Rightarrow> response" where
  "Response_set_neogiate_errstr m g_status errstr =
     (let n = or_default (neogiate_new g_status) (rs_neogiate m)
      in m\<lparr>rs_neogiate := Some (n\<lparr>ng_errstr := errstr\<rparr>)\<rparr>)"

definition Response_add_neogiate_alternative :: "response \<Rightarrow> u32 \<Rightarrow> u64 \<Rightarrow> response" where
  "Response_add_neogiate_alternative m g_status alternative =
     (let n = or_default (neogiate_new g_status) (rs_neogiate m)
      in m\<lparr>rs_neogiate := Some (n\<lparr>ng_alternative := ng_alternative n @ [alternative]\<rparr>)\<rparr>)"

definition Response_get_neogiate_alternative :: "response \<Rightarrow> int \<Rightarrow> u64" where
  "Response_get_neogiate_alternative m pos =
     (case rs_neogiate m of None \<Rightarrow> 0
      | Some n \<Rightarrow> if in_range pos (ng_alternative n) then ng_alternative n ! nat pos else 0)"

text \<open>A fresh \<open>Deploy\<close> keeps the indeterminate number the setter at hand does not write.\<close>

definition Response_set_deploy_status :: "response \<Rightarrow> u32 \<Rightarrow> u32 \<Rightarrow> int \<times> response" where
  "Response_set_deploy_status m g_taskstatus status =
     (if 6 \<le> status then (-1, m)
      else (let d = or_default (deploy_new status g_taskstatus) (rs_deploy m)
            in (0, m\<lparr>rs_deploy := Some (d\<lparr>dp_status := status\<rparr>)\<rparr>)))"

definition Response_set_deploy_errstr :: "response \<Rightarrow> u32 \<Rightarrow> u32 \<Rightarrow> string \<Rightarrow> response" where
  "Response_set_deploy_errstr m g_status g_taskstatus errstr =
     (let d = or_default (deploy_new g_status g_taskstatus) (rs_deploy m)
      in m\<lparr>rs_deploy := Some (d\<lparr>dp_errstr := errstr\<rparr>)\<rparr>)"

definition Response_set_deploy_taskstatus :: "response \<Rightarrow> u32 \<Rightarrow> u32 \<Rightarrow> int \<times> response" where
  "Response_set_deploy_taskstatus m g_status taskstatus =
     (if 11 \<le> taskstatus then (-1, m)
      else (let d = or_default (deploy_new g_status taskstatus) (rs_deploy m)
            in (0, m\<lparr>rs_deploy := Some (d\<lparr>dp_taskstatus := taskstatus\<rparr>)\<rparr>)))"

definition Response_set_object_management :: "response \<Rightarrow> endpoint \<Rightarrow> response" where
  "Response_set_object_management m e = m\<lparr>rs_object := (rs_object m)\<lparr>obj_management := Some e\<rparr>\<rparr>"

definition Response_set_object_storage :: "response \<Rightarrow> endpoint \<Rightarrow> response" where
  "Response_set_object_storage m e = m\<lparr>rs_object := (rs_object m)\<lparr>obj_storage := Some e\<rparr>\<rparr>"

definition Response_set_object_cluster :: "response \<Rightarrow> endpoint \<Rightarrow> response" where
  "Response_set_object_cluster m e = m\<lparr>rs_object := (rs_object m)\<lparr>obj_cluster := Some e\<rparr>\<rparr>"

lemmas Response_setter_defs =
  Response_set_type_def Response_set_token_def Response_set_taskid_def
  Response_set_neogiate_status_def Response_set_neogiate_errstr_def
  Response_add_neogiate_alternative_def Response_set_deploy_status_def
  Response_set_deploy_errstr_def Response_set_deploy_taskstatus_def
  Response_set_object_management_def Response_set_object_storage_def
  Response_set_object_cluster_def

section \<open>Wire format\<close>

record pb_NEOGIATE =
  pn_status :: u32
  pn_errstr :: "string option"
  pn_alternative :: "u64 list"

record pb_DEPLOY =
  pd_status :: u32
  pd_errstr :: "string option"
  pd_taskstatus :: u32

record pb_RESPONSE =
  pr_magic :: u32
  pr_type :: "pb_TYPE option"
  pr_token :: string
  pr_taskid :: u64
  pr_neogiate :: "pb_NEOGIATE option"
  pr_deploy :: "pb_DEPLOY option"
  pr_object :: "pb_OBJECT option"

definition Response_to_pb :: "response \<Rightarrow> pb_RESPONSE" where
  "Response_to_pb m =
     \<lparr>pr_magic = get_magic TASKDEP,
      pr_type = Some \<lparr>pt_src = rs_src m, pt_dest = rs_dest m, pt_msg = rs_msg m\<rparr>,
      pr_token = rs_token m,
      pr_taskid = rs_taskid m,
      pr_neogiate = (case rs_neogiate m of None \<Rightarrow> None
        | Some n \<Rightarrow> Some \<lparr>pn_status = ng_status n,
            pn_errstr = set_unless_empty (ng_errstr n) None,
            pn_alternative = ng_alternative n\<rparr>),
      pr_deploy = (case rs_deploy m of None \<Rightarrow> None
        | Some d \<Rightarrow> Some \<lparr>pd_status = dp_status d,
            pd_errstr = set_unless_empty (dp_errstr d) None,
            pd_taskstatus = dp_taskstatus d\<rparr>),
      pr_object = Some (obj_to_pb (rs_object m))\<rparr>"

definition Response_encode :: "(pb_RESPONSE \<Rightarrow> string) \<Rightarrow> response \<Rightarrow> int \<times> string \<times> response" where
  "Response_encode ser m =
     (let bs = ser (Response_to_pb m)
      in (1, bs, m\<lparr>rs_buf := Some bs, rs_size := length bs\<rparr>))"

definition Response_load :: "pb_RESPONSE \<Rightarrow> response \<Rightarrow> response" where
  "Response_load p m =
     (let type = or_default pb_TYPE0 (pr_type p)
      in m\<lparr>rs_src := pt_src type, rs_dest := pt_dest type, rs_msg := pt_msg type,
           rs_token := pr_token p, rs_taskid := pr_taskid p,
           rs_neogiate := (case pr_neogiate p of None \<Rightarrow> None
             | Some n \<Rightarrow> Some \<lparr>ng_status = pn_status n, ng_errstr = or_default [] (pn_errstr n),
                              ng_alternative = pn_alternative n\<rparr>),
           rs_deploy := (case pr_deploy p of None \<Rightarrow> None
             | Some d \<Rightarrow> Some \<lparr>dp_status = pd_status d, dp_errstr = or_default [] (pd_errstr d),
                              dp_taskstatus = pd_taskstatus d\<rparr>),
           rs_object := obj_load (or_default pb_OBJECT0 (pr_object p)) (rs_object m)\<rparr>)"

definition Response_accept :: "response \<Rightarrow> pb_RESPONSE \<Rightarrow> response append_res" where
  "Response_accept m p =
     (let m1 = m\<lparr>rs_buf := None, rs_size := 0\<rparr>
      in if pr_magic p \<noteq> get_magic TASKDEP then (-1, Some MAGIC_MISMATCH, m1)
         else (1, None, Response_load p m1))"

definition Response_append ::
  "(string \<Rightarrow> pb_RESPONSE option) \<Rightarrow> response \<Rightarrow> string \<Rightarrow> response append_res" where
  "Response_append parse m chunk =
     (let buf = gather (rs_buf m) (rs_size m) chunk;
          n = rs_size m + length chunk
      in case parse (take n buf) of
           None \<Rightarrow> (0, None, m\<lparr>rs_buf := Some buf, rs_size := n\<rparr>)
         | Some p \<Rightarrow> Response_accept m p)"

text \<open>A response, unlike a request, is received with exactly the blocks it was sent with.\<close>

definition Response_received :: "response \<Rightarrow> response" where
  "Response_received m = m\<lparr>rs_buf := None, rs_size := 0\<rparr>"

lemma Response_accept_to_pb:
  assumes "obj_ok (rs_object m)" and "rs_object t = obj_new"
  shows "Response_accept t (Response_to_pb m) = (1, None, Response_received m)"
  using assms
  by (cases "rs_neogiate m"; cases "rs_deploy m")
    (simp_all add: Response_accept_def Response_load_def Response_to_pb_def Response_received_def
      Let_def obj_roundtrip or_default_set_unless_empty)

abbreviation response_buffer_ok :: "response \<Rightarrow> bool" where
  "response_buffer_ok m \<equiv> buffer_ok (rs_buf m) (rs_size m)"

definition Response_put :: "response \<Rightarrow> string \<Rightarrow> nat \<Rightarrow> response" where
  "Response_put m b n = m\<lparr>rs_buf := Some b, rs_size := n\<rparr>"

lemma Response_load_buffer [simp]:
  "rs_buf (Response_load p m) = rs_buf m" "rs_size (Response_load p m) = rs_size m"
  by (simp_all add: Response_load_def Let_def)

interpretation resp_frame: framed parse "Response_append parse" "\<lambda>m. buffered (rs_buf m)"
  "\<lambda>m b. Response_put m b (length b)" Response_accept response_buffer_ok for parse
  by (rule framed_of_buffer)
    (auto simp: Response_append_def Response_put_def Response_accept_def Let_def split: option.split if_splits)

end
