(* ===== verification/Taskdep_Message.thy ===== *)
theory Taskdep_Message
  imports Taskdep_Response
begin

text \<open>
  What the task-deployment messages guarantee: the round trip through the wire in any number of
  pieces, what happens on a foreign magic or a reused object, the effect of copies and moves,
  the bounds the setters keep, and that buffer and size always agree.
\<close>

section \<open>Requests built with the setters\<close>

inductive request_built :: "request \<Rightarrow> bool" where
  built_new: "request_built (Request_new a b c d)"
| built_type: "request_built m \<Longrightarrow> request_built (Request_set_type m s d t)"
| built_token: "request_built m \<Longrightarrow> request_built (Request_set_token m tok)"
| built_taskid: "request_built m \<Longrightarrow> request_built (Request_set_taskid m tid)"
| built_datasource: "request_built m \<Longrightarrow> request_built (snd (Request_set_datasource m s d))"
| built_binary: "request_built m \<Longrightarrow> request_built (Request_set_engine_binary m bin)"
| built_id_name: "request_built m \<Longrightarrow> request_built (Request_set_engine_id_name m i n)"
| built_engine_dep: "request_built m \<Longrightarrow> engine_ok e \<Longrightarrow> request_built (Request_add_engine_dep m e)"
| built_extfile: "request_built m \<Longrightarrow> endpoint_ok (ex_storage x) \<Longrightarrow>
    request_built (Request_add_engine_extfile m x)"
| built_master: "request_built m \<Longrightarrow> request_built (snd (Request_set_attr_master m tr v))"
| built_period: "request_built m \<Longrightarrow> request_built (snd (Request_set_attr_period m g h i r t bs))"
| built_attr_dep: "request_built m \<Longrightarrow> request_built (Request_add_attr_dep m g h dep)"
| built_management: "request_built m \<Longrightarrow> endpoint_ok e \<Longrightarrow> request_built (Request_set_object_management m e)"
| built_storage: "request_built m \<Longrightarrow> endpoint_ok e \<Longrightarrow> request_built (Request_set_object_storage m e)"
| built_cluster: "request_built m \<Longrightarrow> endpoint_ok e \<Longrightarrow> request_built (Request_set_object_cluster m e)"

definition policies_ok :: "request \<Rightarrow> bool" where
  "policies_ok m \<longleftrightarrow>
     (\<forall>d \<in> set_option (rq_datasource m).
        dest_directorypolicy (ds_dest d) < 2 \<and> dest_emptypolicy (ds_dest d) < 2) \<and>
     (\<forall>a \<in> set_option (rq_attr m). \<forall>p \<in> set_option (at_period a).
        pd_resultpolicy p < 3 \<and> pd_triggerpolicy p < 3)"

lemma engine_ok_default [simp]: "engine_ok Engine_new"
  by (simp add: Engine_new_def)

lemma engine_ok_or_default:
  "(\<forall>e \<in> set_option x. engine_ok e) \<Longrightarrow> engine_ok (or_default Engine_new x)"
  by (cases x) auto

lemma request_ok_on_engine:
  assumes "request_ok m" and "\<And>e. engine_ok e \<Longrightarrow> engine_ok (f e)"
  shows "request_ok (on_engine m f)"
  using assms engine_ok_or_default [of "rq_engine m"] by (simp add: request_ok_def on_engine_def)

lemma policies_ok_on_engine [simp]: "policies_ok (on_engine m f) = policies_ok m"
  by (simp add: policies_ok_def on_engine_def)

lemma on_engine_buffer [simp]:
  "rq_buf (on_engine m f) = rq_buf m" "rq_size (on_engine m f) = rq_size m"
  by (simp_all add: on_engine_def)

lemma request_built_ok: "request_built m \<Longrightarrow> request_ok m"
proof (induction rule: request_built.induct)
  case built_new
  show ?case by (simp add: request_ok_def Request_new_def obj_ok_def obj_new_def)
next
  case built_binary
  then show ?case
    unfolding Request_set_engine_binary_def by (intro request_ok_on_engine) (auto split: engine.split)
next
  case built_id_name
  then show ?case
    unfolding Request_set_engine_id_name_def by (intro request_ok_on_engine) (auto split: engine.split)
next
  case built_engine_dep
  then show ?case
    unfolding Request_add_engine_dep_def by (intro request_ok_on_engine) (auto split: engine.split)
next
  case built_extfile
  then show ?case
    unfolding Request_add_engine_extfile_def by (intro request_ok_on_engine) (auto split: engine.split)
qed (auto simp: request_ok_def obj_ok_def Request_setter_defs Let_def)

lemma request_built_policies: "request_built m \<Longrightarrow> policies_ok m"
proof (induction rule: request_built.induct)
  case built_new
  show ?case by (simp add: policies_ok_def Request_new_def)
next
  case (built_datasource m s d)
  then show ?case by (auto simp: policies_ok_def Request_set_datasource_def not_le)
next
  case (built_master m tr v)
  then show ?case
    by (auto simp: policies_ok_def Request_set_attr_master_def Let_def attr_new_def split: option.split)
next
  case (built_period m g h i r t bs)
  then show ?case by (auto simp: policies_ok_def Request_set_attr_period_def Let_def not_le)
next
  case (built_attr_dep m g h dep)
  then show ?case
    by (cases "rq_attr m") (auto simp: policies_ok_def Request_add_attr_dep_def Let_def attr_new_def)
qed (simp_all add: Request_set_engine_binary_def Request_set_engine_id_name_def
    Request_add_engine_dep_def Request_add_engine_extfile_def,
    simp_all add: policies_ok_def Request_setter_defs)

lemma request_built_buffer: "request_built m \<Longrightarrow> request_buffer_ok m"
  by (induction rule: request_built.induct)
    (simp_all add: Request_new_def Request_set_engine_binary_def Request_set_engine_id_name_def
      Request_add_engine_dep_def Request_add_engine_extfile_def,
      simp_all add: Request_setter_defs Let_def)

text \<open>
  every request a client assembles from the constructor and the setters stays within the
  enumerations of the protocol where the setters check them (directory, empty, result and
  trigger policies), holds only endpoints and engines the wire format reproduces, and has a
  buffer that agrees with its size. A setter that refuses its argument leaves the request as it
  was, so no refused value is ever sent.
\<close>

theorem request_built_valid:
  "request_built m \<Longrightarrow> policies_ok m \<and> request_ok m \<and> request_buffer_ok m"
  by (simp add: request_built_policies request_built_ok request_built_buffer)

definition sample_endpoint :: endpoint where
  "sample_endpoint = \<lparr>ep_proto = ''jxtd'', ep_url = ''localhost'', ep_port = 8537, ep_path = [],
     ep_authtype = 1, ep_authstring = [authstring_new\<lparr>au_token := ''t''\<rparr>]\<rparr>"

definition sample_request :: request where
  "sample_request =
     Request_set_object_management
       (snd (Request_set_attr_period
         (snd (Request_set_attr_period
           (Request_set_taskid (Request_set_type (Request_new 9 9 9 9) 2 1 2) 77) 7 True 5 3 0 []))
         7 True 5 2 1 [4])) sample_endpoint"

lemma sample_endpoint_ok: "endpoint_ok sample_endpoint"
  by (simp add: endpoint_ok_def sample_endpoint_def known_proto_def)

lemma sample_request_built: "request_built sample_request"
  unfolding sample_request_def
  by (intro built_management built_period built_taskid built_type built_new sample_endpoint_ok)

theorem request_built_valid_witness:
  "policies_ok sample_request \<and> request_ok sample_request \<and> request_buffer_ok sample_request"
  by (rule request_built_valid [OF sample_request_built])

section \<open>Round trips\<close>

text \<open>
  C1: a request that is encoded, cut into chunks at any places and fed to a fresh request object
  on the other side is received as it was sent, except that the engine and attribute blocks are
  always present (empty if the sender had none); chunks after the message are not touched. This
  needs the parser to read back what the serialiser wrote and to refuse the proper prefixes that
  end at a chunk boundary.
\<close>

theorem request_roundtrip:
  assumes "request_ok m"
    and "parse (ser (Request_to_pb m)) = Some (Request_to_pb m)"
    and "fst (snd (Request_encode ser m)) = concat cs @ c"
    and "\<And>ds es. cs = ds @ es \<Longrightarrow> ds \<noteq> [] \<Longrightarrow> parse (concat ds) = None"
  shows "feed (Request_append parse) (Request_new g1 g2 g3 g4) (cs @ c # rest) =
    (1, None, Request_received m)"
proof -
  have "feed (Request_append parse) (Request_new g1 g2 g3 g4) (cs @ c # rest) =
      Request_accept (Request_new g1 g2 g3 g4) (Request_to_pb m)"
    by (rule req_frame.feed_whole)
      (use assms in \<open>simp_all add: Request_new_def Request_encode_def Let_def\<close>)
  also have "\<dots> = (1, None, Request_received m)"
    by (rule Request_accept_to_pb) (simp_all add: assms(1) Request_new_def)
  finally show ?thesis .
qed

theorem request_roundtrip_witness:
  "feed (Request_append (\<lambda>bs. if bs = ''abcd'' then Some (Request_to_pb sample_request) else None))
     (Request_new 1 2 3 4) ([''ab''] @ ''cd'' # [''next'']) = (1, None, Request_received sample_request)"
proof (rule request_roundtrip [where ser = "\<lambda>_. ''abcd''"])
  show "request_ok sample_request"
    by (rule request_built_ok [OF sample_request_built])
  show "(if concat ds = ''abcd'' then Some (Request_to_pb sample_request) else None) = None"
    if "[''ab''] = ds @ es" "ds \<noteq> []" for ds es
    using that by (cases ds) auto
qed (simp_all add: Request_encode_def Let_def)

text \<open>
  a response survives encoding and chunked delivery exactly: negotiation and deployment
  blocks are present after the transport if and only if they were before, with every field and
  every endpoint the same.
\<close>

theorem response_roundtrip:
  assumes "obj_ok (rs_object m)"
    and "parse (ser (Response_to_pb m)) = Some (Response_to_pb m)"
    and "fst (snd (Response_encode ser m)) = concat cs @ c"
    and "\<And>ds es. cs = ds @ es \<Longrightarrow> ds \<noteq> [] \<Longrightarrow> parse (concat ds) = None"
  shows "feed (Response_append parse) (Response_new g1 g2 g3 g4) (cs @ c # rest) =
    (1, None, Response_received m)"
proof -
  have "feed (Response_append parse) (Response_new g1 g2 g3 g4) (cs @ c # rest) =
      Response_accept (Response_new g1 g2 g3 g4) (Response_to_pb m)"
    by (rule resp_frame.feed_whole)
      (use assms in \<open>simp_all add: Response_new_def Response_encode_def Let_def\<close>)
  also have "\<dots> = (1, None, Response_received m)"
    by (rule Response_accept_to_pb) (simp_all add: assms(1) Response_new_def)
  finally show ?thesis .
qed

definition sample_response :: response where
  "sample_response =
     Response_set_object_storage
       (Response_add_neogiate_alternative
          (snd (Response_set_neogiate_status (Response_new 0 2 1 77) 2)) 9 5) sample_endpoint"

theorem response_roundtrip_witness:
  "feed (Response_append (\<lambda>bs. if bs = ''xyz'' then Some (Response_to_pb sample_response) else None))
     (Response_new 1 2 3 4) ([''x'', ''y''] @ ''z'' # []) = (1, None, Response_received sample_response)"
proof (rule response_roundtrip [where ser = "\<lambda>_. ''xyz''"])
  show "obj_ok (rs_object sample_response)"
    by (simp add: sample_response_def Response_setter_defs Let_def Response_new_def obj_ok_def
        obj_new_def sample_endpoint_ok)
  show "(if concat ds = ''xyz'' then Some (Response_to_pb sample_response) else None) = None"
    if "[''x'', ''y''] = ds @ es" "ds \<noteq> []" for ds es
    using that by (cases ds; cases "tl ds") auto
qed (simp_all add: Response_encode_def Let_def)

section \<open>Presence, foreign magics, reused objects\<close>

text \<open>
  whatever the sender set, a request that came over the wire has an engine and an attribute
  block, so the receivers' tests for a null \<^verbatim>\<open>get_engine()\<close> or \<^verbatim>\<open>get_attr()\<close>
  never fire; the datasource block, in contrast, is null exactly when the sender set none.
\<close>

theorem request_blocks_after_transport:
  "fst (Request_accept t (Request_to_pb m)) = 1 \<and>
   rq_engine (snd (snd (Request_accept t (Request_to_pb m)))) \<noteq> None \<and>
   rq_attr (snd (snd (Request_accept t (Request_to_pb m)))) \<noteq> None \<and>
   (rq_datasource (snd (snd (Request_accept t (Request_to_pb m)))) = None) = (rq_datasource m = None)"
  by (simp add: Request_accept_def Request_to_pb_def Request_load_def Let_def split: option.split)

text \<open>
  a message with the magic of another protocol is refused with -1 and
  \<^verbatim>\<open>MAGIC_MISMATCH\<close> in \<^verbatim>\<open>errno\<close>; nothing of it reaches the object, whose buffer
  is empty again.
\<close>

theorem request_foreign_magic:
  assumes "request_buffer_ok m" and "parse (buffered (rq_buf m) @ chunk) = Some p"
    and "pq_magic p \<noteq> get_magic TASKDEP"
  shows "Request_append parse m chunk =
    (-1, Some MAGIC_MISMATCH, m\<lparr>rq_buf := None, rq_size := 0\<rparr>)"
  using req_frame.append_whole [of m parse chunk p] assms by (simp add: Request_accept_def)

theorem request_foreign_magic_witness:
  "Request_append (\<lambda>_. Some ((Request_to_pb sample_request)\<lparr>pq_magic := get_magic DRCCP\<rparr>))
     (Request_new 1 2 3 4) ''bytes'' = (-1, Some MAGIC_MISMATCH, Request_new 1 2 3 4)"
  using request_foreign_magic [of "Request_new 1 2 3 4"
      "\<lambda>_. Some ((Request_to_pb sample_request)\<lparr>pq_magic := get_magic DRCCP\<rparr>)" "''bytes''"
      "(Request_to_pb sample_request)\<lparr>pq_magic := get_magic DRCCP\<rparr>"]
  by (simp add: Request_new_def)

text \<open>
  decoding into an object that was used before does not replace its peers. An endpoint the
  message does not carry stays from the previous message, and one it does carry gets its
  authentication strings added to the old ones, while all its other fields are replaced.
\<close>

theorem request_decode_into_used_object:
  assumes "obj_management (rq_object m) = x" and "\<And>e. x = Some e \<Longrightarrow> endpoint_ok e \<and> ep_proto e \<noteq> []"
  shows "obj_management (rq_object (snd (snd (Request_accept t (Request_to_pb m))))) =
    (case x of
       None \<Rightarrow> obj_management (rq_object t)
     | Some e \<Rightarrow> Some (e\<lparr>ep_authstring :=
         (case obj_management (rq_object t) of None \<Rightarrow> [] | Some old \<Rightarrow> ep_authstring old) @
         ep_authstring e\<rparr>))"
  using assms
  by (cases x; cases "obj_management (rq_object t)")
    (simp_all add: Request_accept_def Request_to_pb_def Request_load_def Let_def obj_load_def
      obj_to_pb_def load_object_def assignENDPOINT_assignEndpoint Endpoint_new_def)

theorem request_decode_into_used_object_witness:
  "obj_management (rq_object (snd (snd (Request_accept sample_request (Request_to_pb sample_request))))) =
     Some (sample_endpoint\<lparr>ep_authstring :=
       [authstring_new\<lparr>au_token := ''t''\<rparr>, authstring_new\<lparr>au_token := ''t''\<rparr>]\<rparr>)"
proof -
  have mgmt: "obj_management (rq_object sample_request) = Some sample_endpoint"
    by (simp add: sample_request_def Request_set_object_management_def)
  show ?thesis
    using request_decode_into_used_object [OF mgmt, of sample_request] sample_endpoint_ok mgmt
    by (simp add: sample_endpoint_def)
qed

section \<open>Copies and moves\<close>

text \<open>
  copying a request (by construction or by assignment, over whatever the target held and
  whatever a fresh attribute block contains) gives an equal request; moving gives the target the
  whole state of the source and leaves the source without a buffer, token, block or endpoint it
  could delete a second time.
\<close>

theorem request_copy_and_move:
  assumes "request_buffer_ok other"
  shows "Request_copy other = other \<and> Request_copy_assign this g h other = other \<and>
    Request_move other = (other, Request_moved_from other) \<and>
    Request_move_assign this other = (other, Request_moved_from other) \<and>
    request_buffer_ok (Request_moved_from other) \<and>
    rq_datasource (Request_moved_from other) = None \<and> rq_engine (Request_moved_from other) = None \<and>
    rq_attr (Request_moved_from other) = None \<and> rq_object (Request_moved_from other) = obj_new"
proof -
  have "Request_copy other = other"
    using copy_buf_ok [OF assms] by (cases "rq_attr other") (simp_all add: Request_copy_def)
  moreover have "Request_copy_assign this g h other = other"
    using copy_buf_ok [OF assms] by (simp add: Request_copy_assign_def)
  ultimately show ?thesis
    by (simp add: Request_move_def Request_move_assign_def Request_moved_from_def)
qed

theorem request_copy_and_move_witness:
  "Request_copy_assign (Request_new 1 2 3 4) 8 True sample_request = sample_request"
  using request_copy_and_move [OF request_built_buffer [OF sample_request_built]] by blast

text \<open>the same holds of a response.\<close>

theorem response_copy_and_move:
  assumes "response_buffer_ok other"
  shows "Response_copy other = other \<and> Response_copy_assign this other = other \<and>
    Response_move other = (other, Response_moved_from other) \<and>
    Response_move_assign this other = (other, Response_moved_from other) \<and>
    response_buffer_ok (Response_moved_from other) \<and>
    rs_neogiate (Response_moved_from other) = None \<and> rs_deploy (Response_moved_from other) = None \<and>
    rs_object (Response_moved_from other) = obj_new"
  using copy_buf_ok [OF assms]
  by (simp add: Response_copy_def Response_copy_assign_def Response_move_def
      Response_move_assign_def Response_moved_from_def)

theorem response_copy_and_move_witness:
  "Response_copy_assign (Response_new 1 2 3 4) sample_response = sample_response"
proof -
  have "response_buffer_ok sample_response"
    by (simp add: sample_response_def Response_setter_defs Let_def Response_new_def)
  from response_copy_and_move [OF this, of "Response_new 1 2 3 4"] show ?thesis by blast
qed

section \<open>Statuses of a response\<close>

lemma neogiate_code_bounded: "neogiate_code n < 4"
  by (cases n) (simp_all add: word_less_nat_alt)

lemma deploy_code_bounded: "deploy_code d < 6"
  by (cases d) (simp_all add: word_less_nat_alt)

lemma taskstatus_code_bounded: "taskstatus_code t < 11"
  by (cases t) (simp_all add: word_less_nat_alt)

text \<open>
  a response setter refuses, with -1 and without touching the response, exactly the numbers
  outside its enumeration; a number it accepts is the one sent, and the enumerations' own codes
  are all accepted.
\<close>

theorem response_status_bounds:
  "(fst (Response_set_neogiate_status m s) = (if s < 4 then 0 else -1)) \<and>
   (fst (Response_set_deploy_status m g s) = (if s < 6 then 0 else -1)) \<and>
   (fst (Response_set_deploy_taskstatus m g s) = (if s < 11 then 0 else -1)) \<and>
   (if s < 4 then map_option ng_status (rs_neogiate (snd (Response_set_neogiate_status m s))) = Some s
    else snd (Response_set_neogiate_status m s) = m) \<and>
   (if s < 6 then map_option dp_status (rs_deploy (snd (Response_set_deploy_status m g s))) = Some s
    else snd (Response_set_deploy_status m g s) = m) \<and>
   (if s < 11 then map_option dp_taskstatus (rs_deploy (snd (Response_set_deploy_taskstatus m g s))) = Some s
    else snd (Response_set_deploy_taskstatus m g s) = m) \<and>
   neogiate_code n < 4 \<and> deploy_code d < 6 \<and> taskstatus_code t < 11"
  by (intro conjI)
    (auto simp: Response_set_neogiate_status_def Response_set_deploy_status_def not_le Let_def
      Response_set_deploy_taskstatus_def neogiate_code_bounded deploy_code_bounded
      taskstatus_code_bounded)

text \<open>
  the authentication type \<^verbatim>\<open>OAUTH2\<close> (0x5) is declared but cannot be set: the
  bound check of \<^verbatim>\<open>set_authtype\<close> accepts the code of every other type and refuses this
  one, so an endpoint assembled with the setters never has it.
\<close>

theorem authtype_setter:
  "Endpoint_set_authtype e (authtype_code a) =
     (if a = Auth_OAUTH2 then (-1, e) else (0, e\<lparr>ep_authtype := authtype_code a\<rparr>))"
  by (cases a) (simp_all add: Endpoint_set_authtype_def word_le_nat_alt)

end
