(* ===== verification/Cluster_Tasks.thy ===== *)
theory Cluster_Tasks
  imports Taskdep_Message
begin

text \<open>
  The task table of the computing unit, \<^verbatim>\<open>Taskmanager\<close> of
  \<^verbatim>\<open>computation/infer/infer.h\<close>: deployed tasks, the boolean dependency matrix
  \<open>edges\<close> indexed by each task's \<open>dep_pos\<close>, submission of a task to a named node, and the
  removal of a task, which reports it done to the storage unit.
\<close>

section \<open>Submission messages\<close>

text \<open>
  \<^verbatim>\<open>SubmitRequest\<close> and \<^verbatim>\<open>SubmitResponse\<close> with the fields of
  \<^verbatim>\<open>SubmitData.proto\<close>. The task number is 32 bits wide here.
\<close>

record submit_request =
  sq_taskid :: u32
  sq_input_path :: "string option"
  sq_input_data :: "string option"
  sq_output_path :: string
  sq_directory_policy :: u32
  sq_empty_policy :: u32
  sq_period :: u32

record submit_response =
  sr_taskid :: u32
  sr_times :: u32
  sr_result :: string
  sr_output_path :: string
  sr_directory_policy :: u32
  sr_empty_policy :: u32

definition SubmitRequest_new :: submit_request where
  "SubmitRequest_new = \<lparr>sq_taskid = 0, sq_input_path = None, sq_input_data = None,
     sq_output_path = [], sq_directory_policy = 0, sq_empty_policy = 0, sq_period = 0\<rparr>"

definition SubmitRequest_set_taskid :: "submit_request \<Rightarrow> u32 \<Rightarrow> submit_request" where
  "SubmitRequest_set_taskid r taskid = r\<lparr>sq_taskid := taskid\<rparr>"

definition SubmitRequest_set_input :: "submit_request \<Rightarrow> string \<Rightarrow> string \<Rightarrow> submit_request" where
  "SubmitRequest_set_input r url data =
     (let r1 = (if data \<noteq> [] then r\<lparr>sq_input_data := Some data\<rparr> else r)
      in if url \<noteq> [] then r1\<lparr>sq_input_path := Some url\<rparr> else r1)"

definition SubmitRequest_set_output :: "submit_request \<Rightarrow> string \<Rightarrow> u32 \<Rightarrow> u32 \<Rightarrow> submit_request" where
  "SubmitRequest_set_output r url directory_policy empty_policy =
     r\<lparr>sq_directory_policy := directory_policy, sq_empty_policy := empty_policy, sq_output_path := url\<rparr>"

definition SubmitRequest_set_period :: "submit_request \<Rightarrow> u32 \<Rightarrow> submit_request" where
  "SubmitRequest_set_period r n = r\<lparr>sq_period := n\<rparr>"

section \<open>Nodes\<close>

record setup_context =
  sc_listen_addr :: string
  sc_port :: int
  sc_ssl :: bool

record origin_context =
  oc_addr :: string
  oc_port :: int

text \<open>
  \<^verbatim>\<open>DrccpServerManager::Server\<close>, as far as submission uses it: \<open>nd_callback\<close> says
  whether the result callback of the client side is registered.
\<close>

record node =
  nd_setup :: setup_context
  nd_origin :: origin_context
  nd_callback :: bool

type_synonym nodes = "(string \<times> node) list"

text \<open>The task object \<^verbatim>\<open>submit\<close> creates: the queue and node name, the serialised request and the origin.\<close>

record sub_task =
  st_name :: string
  st_payload :: string
  st_origin :: origin_context

text \<open>\<^verbatim>\<open>servers.insert\<close> keeps a node that is already loaded under the name.\<close>

definition load_server_config ::
  "nodes \<Rightarrow> string \<Rightarrow> setup_context \<Rightarrow> origin_context \<Rightarrow> nodes" where
  "load_server_config servers name setup proxy =
     umap_emplace servers name \<lparr>nd_setup = setup, nd_origin = proxy, nd_callback = False\<rparr>"

definition Manager_submit ::
  "(submit_request \<Rightarrow> string) \<Rightarrow> nodes \<Rightarrow> string \<Rightarrow> submit_request \<Rightarrow> nodes \<times> sub_task option" where
  "Manager_submit dump servers name req =
     (case map_of servers name of
        None \<Rightarrow> (servers, None)
      | Some nd \<Rightarrow> (umap_set servers name (nd\<lparr>nd_callback := True\<rparr>),
          Some \<lparr>st_name = name, st_payload = dump req, st_origin = nd_origin nd\<rparr>))"

section \<open>The task table\<close>

record taskinfo =
  ti_dep_pos :: nat
  ti_input_path :: string
  ti_input_data :: string
  ti_output_path :: string
  ti_directory_policy :: u32
  ti_empty_policy :: u32
  ti_period :: u32
  ti_backupid :: "u32 list"
  ti_result_policy :: u32
  ti_trigger_policy :: u32

record cluster_client =
  cc_endpoint :: endpoint
  cc_ssl :: bool
  cc_token :: string

record taskmanager =
  tm_edges :: "bool list list"
  tm_tasks :: "(u64 \<times> taskinfo) list"
  tm_client :: "cluster_client option"
  tm_server :: "endpoint option"

definition Taskmanager_new :: taskmanager where
  "Taskmanager_new = \<lparr>tm_edges = [], tm_tasks = [], tm_client = None, tm_server = None\<rparr>"

text \<open>What is deployed under a number; \<open>ti_dep_pos\<close> is filled in by \<open>deploy_task\<close>.\<close>

definition deploy_task :: "taskmanager \<Rightarrow> u64 \<Rightarrow> taskinfo \<Rightarrow> int \<times> taskmanager" where
  "deploy_task tm taskid info =
     (if map_of (tm_tasks tm) taskid \<noteq> None then (-1, tm)
      else (let taskinfo = info\<lparr>ti_dep_pos := length (tm_tasks tm)\<rparr>;
                tasks = umap_emplace (tm_tasks tm) taskid taskinfo;
                edges = map (\<lambda>single_edge. single_edge @ [False]) (tm_edges tm)
            in (0, tm\<lparr>tm_tasks := tasks,
                      tm_edges := edges @ [replicate (length tasks) False]\<rparr>)))"

text \<open>\<^verbatim>\<open>edges.at(i).at(j) = true\<close>.\<close>

definition set_edge :: "bool list list \<Rightarrow> nat \<Rightarrow> nat \<Rightarrow> bool list list cxx" where
  "set_edge edges i j =
     cxx_bind (vec_at edges i) (\<lambda>row. cxx_bind (vec_put row j True) (\<lambda>row'. vec_put edges i row'))"

fun add_deps_loop ::
  "(u64 \<times> taskinfo) list \<Rightarrow> nat \<Rightarrow> bool list list \<Rightarrow> u64 list \<Rightarrow> (int \<times> bool list list) cxx" where
  "add_deps_loop tasks pos edges [] = Inr (0, edges)"
| "add_deps_loop tasks pos edges (dep # deps) =
     (case map_of tasks dep of
        None \<Rightarrow> Inr (-1, edges)
      | Some it \<Rightarrow> cxx_bind (set_edge edges pos (ti_dep_pos it))
          (\<lambda>edges'. add_deps_loop tasks pos edges' deps))"

definition add_deps :: "taskmanager \<Rightarrow> u64 \<Rightarrow> u64 list \<Rightarrow> (int \<times> taskmanager) cxx" where
  "add_deps tm taskid deps =
     (case map_of (tm_tasks tm) taskid of
        None \<Rightarrow> Inr (-1, tm)
      | Some info \<Rightarrow>
          cxx_bind (add_deps_loop (tm_tasks tm) (ti_dep_pos info) (tm_edges tm) deps)
            (\<lambda>(r, edges). Inr (r, tm\<lparr>tm_edges := edges\<rparr>)))"

text \<open>The request made of a table entry: \<^verbatim>\<open>req.set_taskid(taskid)\<close> narrows the number.\<close>

definition submit_request_of :: "u64 \<Rightarrow> taskinfo \<Rightarrow> submit_request" where
  "submit_request_of taskid info =
     SubmitRequest_set_period
       (SubmitRequest_set_output
         (SubmitRequest_set_input (SubmitRequest_set_taskid SubmitRequest_new (ucast taskid))
           (ti_input_path info) (ti_input_data info))
         (ti_output_path info) (ti_directory_policy info) (ti_empty_policy info))
       (ti_period info)"

definition submit ::
  "(submit_request \<Rightarrow> string) \<Rightarrow> taskmanager \<Rightarrow> nodes \<Rightarrow> string \<Rightarrow> u64 \<Rightarrow> (nodes \<times> sub_task option) cxx" where
  "submit dump tm servers name taskid =
     (case map_of (tm_tasks tm) taskid of
        None \<Rightarrow> Inr (servers, None)
      | Some info \<Rightarrow> cxx_bind (vec_at (tm_edges tm) (ti_dep_pos info))
          (\<lambda>row. if True \<in> set row then Inr (servers, None)
                 else Inr (Manager_submit dump servers name (submit_request_of taskid info))))"

definition set_src :: "taskmanager \<Rightarrow> endpoint \<Rightarrow> bool \<Rightarrow> string \<Rightarrow> int \<times> taskmanager" where
  "set_src tm endpoint ssl token =
     (0, tm\<lparr>tm_client := Some \<lparr>cc_endpoint = endpoint, cc_ssl = ssl, cc_token = token\<rparr>\<rparr>)"

definition set_dest :: "taskmanager \<Rightarrow> endpoint \<Rightarrow> int \<times> taskmanager" where
  "set_dest tm storage = (0, tm\<lparr>tm_server := Some storage\<rparr>)"

text \<open>The message \<open>done\<close>; \<open>g\<close> is the fresh request object of the network task.\<close>

definition done_task :: "request \<Rightarrow> cluster_client \<Rightarrow> endpoint \<Rightarrow> u64 \<Rightarrow> client_task" where
  "done_task g client server taskid =
     create_client_task (cc_ssl client) server
      (Request_set_taskid
        (Request_set_token
          (Request_set_object_storage
            (Request_set_object_cluster
              (Request_set_type g (addr_code Addr_cluster) (addr_code Addr_storage) (msg_code Msg_done))
              (cc_endpoint client)) server) (cc_token client)) taskid)"

definition remove_entry :: "taskmanager \<Rightarrow> u64 \<Rightarrow> nat \<Rightarrow> taskmanager cxx" where
  "remove_entry tm taskid dep_pos =
     cxx_bind (vec_erase (tm_edges tm) dep_pos) (\<lambda>edges.
     cxx_bind (cxx_map (\<lambda>single_edge. vec_erase single_edge dep_pos) edges) (\<lambda>edges'.
       Inr (tm\<lparr>tm_edges := edges', tm_tasks := umap_erase (tm_tasks tm) taskid\<rparr>)))"

definition remove_task ::
  "request \<Rightarrow> taskmanager \<Rightarrow> u64 \<Rightarrow> bool \<Rightarrow> (taskmanager \<times> client_task option) cxx" where
  "remove_task g tm taskid send =
     (case map_of (tm_tasks tm) taskid of
        None \<Rightarrow> Inr (tm, None)
      | Some info \<Rightarrow> cxx_bind (remove_entry tm taskid (ti_dep_pos info)) (\<lambda>tm'.
          if send then
            (case (tm_client tm', tm_server tm') of
               (Some client, Some server) \<Rightarrow>
                 if \<not> Endpoint_check (cc_endpoint client) \<or> \<not> Endpoint_check server then Inr (tm', None)
                 else Inr (tm', Some (done_task g client server taskid))
             | _ \<Rightarrow> Inr (tm', None))
          else Inr (tm', None)))"

text \<open>The callback \<^verbatim>\<open>submit\<close> registers for the result of a job.\<close>

definition on_client_receive_result ::
  "(string \<Rightarrow> submit_response) \<Rightarrow> request \<Rightarrow> taskmanager \<Rightarrow> string \<Rightarrow> (taskmanager \<times> client_task option) cxx" where
  "on_client_receive_result parse g tm result =
     (if result = [] then Inr (tm, None)
      else remove_task g tm (ucast (sr_taskid (parse result))) True)"


section \<open>Invariant and abstraction\<close>

text \<open>
  Between operations the matrix is square with one row per task, and the tasks' positions are
  distinct row numbers.
\<close>

definition positions :: "taskmanager \<Rightarrow> nat list" where
  "positions tm = map (ti_dep_pos \<circ> snd) (tm_tasks tm)"

definition tm_wf :: "taskmanager \<Rightarrow> bool" where
  "tm_wf tm \<longleftrightarrow> umap_ok (tm_tasks tm) \<and> length (tm_edges tm) = length (tm_tasks tm) \<and>
     (\<forall>row \<in> set (tm_edges tm). length row = length (tm_tasks tm)) \<and>
     distinct (positions tm) \<and> (\<forall>p \<in> set (positions tm). p < length (tm_tasks tm))"

text \<open>The abstract content: which tasks there are, and which task waits for which.\<close>

definition known :: "taskmanager \<Rightarrow> u64 \<Rightarrow> bool" where
  "known tm t \<longleftrightarrow> map_of (tm_tasks tm) t \<noteq> None"

definition waits_for :: "taskmanager \<Rightarrow> u64 \<Rightarrow> u64 \<Rightarrow> bool" where
  "waits_for tm t d \<longleftrightarrow>
     (case (map_of (tm_tasks tm) t, map_of (tm_tasks tm) d) of
        (Some i, Some j) \<Rightarrow> tm_edges tm ! ti_dep_pos i ! ti_dep_pos j
      | _ \<Rightarrow> False)"

lemma tm_wf_new: "tm_wf Taskmanager_new"
  by (simp add: tm_wf_def Taskmanager_new_def positions_def)

lemma position_bound:
  assumes "tm_wf tm" and "map_of (tm_tasks tm) t = Some i"
  shows "ti_dep_pos i < length (tm_tasks tm)"
  using assms map_of_SomeD [OF assms(2)] by (force simp: tm_wf_def positions_def)

lemma row_length:
  "tm_wf tm \<Longrightarrow> p < length (tm_tasks tm) \<Longrightarrow> length (tm_edges tm ! p) = length (tm_tasks tm)"
  by (simp add: tm_wf_def)

lemma position_inject:
  assumes "tm_wf tm" and "map_of (tm_tasks tm) t = Some i" and "map_of (tm_tasks tm) u = Some j"
    and "ti_dep_pos i = ti_dep_pos j"
  shows "t = u"
proof -
  have "inj_on (ti_dep_pos \<circ> snd) (set (tm_tasks tm))"
    using assms(1) by (simp add: tm_wf_def positions_def distinct_map)
  from inj_onD [OF this, of "(t, i)" "(u, j)"] map_of_SomeD [OF assms(2)] map_of_SomeD [OF assms(3)]
  show ?thesis using assms(4) by simp
qed

lemma position_onto:
  assumes "tm_wf tm" and "p < length (tm_tasks tm)"
  shows "\<exists>t i. map_of (tm_tasks tm) t = Some i \<and> ti_dep_pos i = p"
proof -
  have "set (positions tm) = {..<length (tm_tasks tm)}"
  proof (rule card_subset_eq)
    show "card (set (positions tm)) = card {..<length (tm_tasks tm)}"
      using assms(1) by (simp add: tm_wf_def distinct_card) (simp add: positions_def)
  qed (use assms(1) in \<open>auto simp: tm_wf_def\<close>)
  with assms(2) have "p \<in> set (positions tm)" by simp
  then obtain t i where "(t, i) \<in> set (tm_tasks tm)" and "ti_dep_pos i = p"
    by (auto simp: positions_def)
  with assms(1) show ?thesis by (auto simp: tm_wf_def)
qed

subsection \<open>Deployment\<close>

lemma deploy_task_new:
  "map_of (tm_tasks tm) t = None \<Longrightarrow> deploy_task tm t info =
     (0, tm\<lparr>tm_tasks := tm_tasks tm @ [(t, info\<lparr>ti_dep_pos := length (tm_tasks tm)\<rparr>)],
            tm_edges := map (\<lambda>row. row @ [False]) (tm_edges tm) @
              [replicate (Suc (length (tm_tasks tm))) False]\<rparr>)"
  by (simp add: deploy_task_def umap_emplace_def Let_def)

lemma tm_wf_deploy_task: "tm_wf tm \<Longrightarrow> tm_wf (snd (deploy_task tm t info))"
proof (cases "map_of (tm_tasks tm) t")
  case None
  assume "tm_wf tm"
  with None show ?thesis
    by (auto simp: deploy_task_new tm_wf_def positions_def map_of_eq_None_iff)
qed (simp add: deploy_task_def)

lemma waits_for_deploy_task:
  assumes wf: "tm_wf tm" and fresh: "map_of (tm_tasks tm) t = None"
  shows "waits_for (snd (deploy_task tm t info)) u d = waits_for tm u d"
proof -
  let ?n = "length (tm_tasks tm)"
  have len: "length (tm_edges tm) = ?n" using wf by (simp add: tm_wf_def)
  show ?thesis
  proof (cases "map_of (tm_tasks tm) u"; cases "map_of (tm_tasks tm) d")
    fix i j assume u: "map_of (tm_tasks tm) u = Some i" and d: "map_of (tm_tasks tm) d = Some j"
    have ip: "ti_dep_pos i < ?n" and jp: "ti_dep_pos j < ?n"
      using position_bound [OF wf u] position_bound [OF wf d] by simp_all
    moreover have "u \<noteq> t" "d \<noteq> t" using u d fresh by auto
    ultimately show ?thesis
      using u d len row_length [OF wf ip]
      by (simp add: waits_for_def deploy_task_new [OF fresh] map_add_def nth_append)
  next
    fix i assume "map_of (tm_tasks tm) u = Some i" and d: "map_of (tm_tasks tm) d = None"
    moreover from this fresh have "u \<noteq> t" by auto
    moreover have "ti_dep_pos i < ?n" using position_bound [OF wf] calculation by blast
    ultimately show ?thesis
      using len row_length [OF wf, of "ti_dep_pos i"]
      by (auto simp: waits_for_def deploy_task_new [OF fresh] map_add_def nth_append)
  next
    fix j assume "map_of (tm_tasks tm) u = None" and d: "map_of (tm_tasks tm) d = Some j"
    moreover from this fresh have "d \<noteq> t" by auto
    moreover have "ti_dep_pos j < ?n" using position_bound [OF wf] calculation by blast
    ultimately show ?thesis
      using len by (auto simp: waits_for_def deploy_task_new [OF fresh] map_add_def nth_append
          simp del: replicate.simps)
  next
    assume "map_of (tm_tasks tm) u = None" "map_of (tm_tasks tm) d = None"
    then show ?thesis
      using len by (auto simp: waits_for_def deploy_task_new [OF fresh] map_add_def nth_append
          simp del: replicate.simps)
  qed
qed

subsection \<open>Dependencies\<close>

text \<open>Every access of the loop is inside the matrix, and it changes the row of the task only.\<close>

lemma set_edge_Inr:
  "i < length edges \<Longrightarrow> j < length (edges ! i) \<Longrightarrow>
     set_edge edges i j = Inr (edges[i := (edges ! i)[j := True]])"
  by (simp add: set_edge_def)

definition dep_set :: "(u64 \<times> taskinfo) list \<Rightarrow> u64 list \<Rightarrow> nat set" where
  "dep_set tasks deps =
     {ti_dep_pos j | d j. d \<in> set (takeWhile (\<lambda>d. map_of tasks d \<noteq> None) deps) \<and> map_of tasks d = Some j}"

lemma dep_set_simps [simp]:
  "dep_set tasks [] = {}"
  "map_of tasks d = None \<Longrightarrow> dep_set tasks (d # deps) = {}"
  "map_of tasks d = Some j \<Longrightarrow> dep_set tasks (d # deps) = insert (ti_dep_pos j) (dep_set tasks deps)"
  by (auto simp: dep_set_def)

lemma add_deps_loop_spec:
  assumes "\<And>d j. map_of tasks d = Some j \<Longrightarrow> ti_dep_pos j < n"
    and "pos < length edges" and "length (edges ! pos) = n"
  shows "\<exists>row. add_deps_loop tasks pos edges deps =
      Inr (if \<forall>d \<in> set deps. map_of tasks d \<noteq> None then 0 else -1, edges[pos := row]) \<and>
    length row = n \<and> (\<forall>q < n. row ! q = (edges ! pos ! q \<or> q \<in> dep_set tasks deps))"
  using assms(2,3)
proof (induction deps arbitrary: edges)
  case Nil
  then show ?case by (intro exI [of _ "edges ! pos"]) simp
next
  case (Cons d deps)
  show ?case
  proof (cases "map_of tasks d")
    case None
    with Cons.prems show ?thesis by (intro exI [of _ "edges ! pos"]) simp
  next
    case (Some j)
    let ?row = "(edges ! pos)[ti_dep_pos j := True]"
    have j: "ti_dep_pos j < n" by (rule assms(1) [OF Some])
    obtain row where *: "add_deps_loop tasks pos (edges[pos := ?row]) deps =
        Inr (if \<forall>d \<in> set deps. map_of tasks d \<noteq> None then 0 else -1, edges[pos := ?row, pos := row])"
      and "length row = n" and row: "\<forall>q < n. row ! q = (?row ! q \<or> q \<in> dep_set tasks deps)"
      using Cons.IH [of "edges[pos := ?row]"] Cons.prems by auto
    moreover from row j Cons.prems have
      "\<forall>q < n. row ! q = (edges ! pos ! q \<or> q \<in> dep_set tasks (d # deps))"
      by (auto simp: Some nth_list_update)
    ultimately show ?thesis
      using Cons.prems j by (intro exI [of _ row]) (simp add: Some set_edge_Inr)
  qed
qed

lemma add_deps_unknown: "map_of (tm_tasks tm) t = None \<Longrightarrow> add_deps tm t deps = Inr (-1, tm)"
  by (simp add: add_deps_def)

lemma add_deps_row:
  assumes wf: "tm_wf tm" and t: "map_of (tm_tasks tm) t = Some i"
  obtains row where
    "add_deps tm t deps = Inr (if \<forall>d \<in> set deps. known tm d then 0 else -1,
       tm\<lparr>tm_edges := (tm_edges tm)[ti_dep_pos i := row]\<rparr>)"
    "length row = length (tm_tasks tm)"
    "\<And>q. q < length (tm_tasks tm) \<Longrightarrow>
       row ! q = (tm_edges tm ! ti_dep_pos i ! q \<or> q \<in> dep_set (tm_tasks tm) deps)"
proof -
  have pos: "ti_dep_pos i < length (tm_tasks tm)" by (rule position_bound [OF wf t])
  have "length (tm_edges tm) = length (tm_tasks tm)" using wf by (simp add: tm_wf_def)
  with add_deps_loop_spec [of "tm_tasks tm" "length (tm_tasks tm)" "ti_dep_pos i" "tm_edges tm" deps]
    position_bound [OF wf] row_length [OF wf pos] pos
  obtain row where "add_deps_loop (tm_tasks tm) (ti_dep_pos i) (tm_edges tm) deps =
      Inr (if \<forall>d \<in> set deps. known tm d then 0 else -1, (tm_edges tm)[ti_dep_pos i := row])"
    "length row = length (tm_tasks tm)"
    "\<forall>q < length (tm_tasks tm).
       row ! q = (tm_edges tm ! ti_dep_pos i ! q \<or> q \<in> dep_set (tm_tasks tm) deps)"
    by (auto simp: known_def)
  with t show thesis by (intro that [of row]) (simp_all add: add_deps_def)
qed

lemma tm_wf_set_row:
  assumes "tm_wf tm" and "length row = length (tm_tasks tm)"
  shows "tm_wf (tm\<lparr>tm_edges := (tm_edges tm)[p := row]\<rparr>)"
  using assms set_update_subset_insert [of "tm_edges tm" p row]
  by (auto simp: tm_wf_def positions_def)

lemma tm_wf_add_deps: "tm_wf tm \<Longrightarrow> add_deps tm t deps = Inr (r, tm') \<Longrightarrow> tm_wf tm'"
proof (cases "map_of (tm_tasks tm) t")
  case (Some i)
  assume wf: "tm_wf tm" and add: "add_deps tm t deps = Inr (r, tm')"
  show ?thesis
    by (rule add_deps_row [OF wf Some, of deps]) (use add tm_wf_set_row [OF wf] in auto)
qed (simp add: add_deps_unknown)

lemma waits_for_add_deps:
  assumes wf: "tm_wf tm" and t: "known tm t" and d: "known tm d"
    and add: "add_deps tm t deps = Inr (r, tm')"
  shows "waits_for tm' u d \<longleftrightarrow>
    waits_for tm u d \<or> u = t \<and> d \<in> set (takeWhile (known tm) deps)"
proof -
  from t d obtain i j where i: "map_of (tm_tasks tm) t = Some i" and j: "map_of (tm_tasks tm) d = Some j"
    by (auto simp: known_def)
  have ip: "ti_dep_pos i < length (tm_tasks tm)" and jp: "ti_dep_pos j < length (tm_tasks tm)"
    using position_bound [OF wf i] position_bound [OF wf j] by simp_all
  obtain row where
    tm': "tm' = tm\<lparr>tm_edges := (tm_edges tm)[ti_dep_pos i := row]\<rparr>" and
    row: "row ! ti_dep_pos j =
      (tm_edges tm ! ti_dep_pos i ! ti_dep_pos j \<or> ti_dep_pos j \<in> dep_set (tm_tasks tm) deps)"
    by (rule add_deps_row [OF wf i, of deps]) (use add jp in auto)
  have "ti_dep_pos j \<in> dep_set (tm_tasks tm) deps \<longleftrightarrow> d \<in> set (takeWhile (known tm) deps)"
    using j by (auto simp: dep_set_def known_def [abs_def] dest: position_inject [OF wf])
  note deps = this
  have len: "length (tm_edges tm) = length (tm_tasks tm)" using wf by (simp add: tm_wf_def)
  show ?thesis
  proof (cases "u = t")
    case True
    with row deps i j ip len show ?thesis by (simp add: waits_for_def tm')
  next
    case False
    then have "ti_dep_pos i \<noteq> ti_dep_pos k" if "map_of (tm_tasks tm) u = Some k" for k
      using position_inject [OF wf that i] by metis
    with False show ?thesis by (simp add: waits_for_def tm' split: option.split)
  qed
qed

subsection \<open>Submission\<close>

lemma waits_for_none:
  assumes wf: "tm_wf tm" and t: "map_of (tm_tasks tm) t = Some i"
  shows "True \<in> set (tm_edges tm ! ti_dep_pos i) \<longleftrightarrow> (\<exists>d. waits_for tm t d)"
proof
  let ?row = "tm_edges tm ! ti_dep_pos i"
  have len: "length ?row = length (tm_tasks tm)"
    by (rule row_length [OF wf position_bound [OF wf t]])
  assume "True \<in> set ?row"
  then obtain q where "q < length (tm_tasks tm)" and q: "?row ! q"
    by (metis in_set_conv_nth len)
  with position_onto [OF wf] obtain d j where "map_of (tm_tasks tm) d = Some j" "ti_dep_pos j = q"
    by blast
  with t q have "waits_for tm t d" by (simp add: waits_for_def)
  then show "\<exists>d. waits_for tm t d" ..
next
  let ?row = "tm_edges tm ! ti_dep_pos i"
  have len: "length ?row = length (tm_tasks tm)"
    by (rule row_length [OF wf position_bound [OF wf t]])
  assume "\<exists>d. waits_for tm t d"
  then obtain d where "waits_for tm t d" ..
  with t obtain j where "map_of (tm_tasks tm) d = Some j" and "?row ! ti_dep_pos j"
    by (auto simp: waits_for_def split: option.splits)
  with position_bound [OF wf, of d j] len show "True \<in> set ?row"
    by (metis nth_mem)
qed

lemma submit_Inr:
  assumes wf: "tm_wf tm"
  shows "submit dump tm servers name t =
    Inr (case map_of (tm_tasks tm) t of
           None \<Rightarrow> (servers, None)
         | Some i \<Rightarrow> if \<exists>d. waits_for tm t d then (servers, None)
                   else Manager_submit dump servers name (submit_request_of t i))"
proof (cases "map_of (tm_tasks tm) t")
  case (Some i)
  have "ti_dep_pos i < length (tm_edges tm)"
    using position_bound [OF wf Some] wf by (simp add: tm_wf_def)
  with waits_for_none [OF wf Some] Some show ?thesis by (auto simp: submit_def)
qed (simp add: submit_def)

subsection \<open>Removal\<close>

lemma list_erase_map: "i < length xs \<Longrightarrow> list_erase (map f xs) i = map f (list_erase xs i)"
  by (simp add: list_erase_def take_map drop_map)

lemma set_list_erase: "set (list_erase xs i) \<subseteq> set xs"
  by (auto simp: list_erase_def dest: in_set_takeD in_set_dropD)

lemma remove_entry_Inr:
  assumes wf: "tm_wf tm" and p: "p < length (tm_tasks tm)"
  shows "remove_entry tm t p =
    Inr (tm\<lparr>tm_edges := map (\<lambda>row. list_erase row p) (list_erase (tm_edges tm) p),
            tm_tasks := umap_erase (tm_tasks tm) t\<rparr>)"
proof -
  have "cxx_map (\<lambda>row. vec_erase row p) (list_erase (tm_edges tm) p) =
      Inr (map (\<lambda>row. list_erase row p) (list_erase (tm_edges tm) p))"
    using wf p set_list_erase [of "tm_edges tm" p]
    by (intro cxx_map_Inr vec_erase_Inr) (auto simp: tm_wf_def)
  with wf p show ?thesis by (simp add: remove_entry_def tm_wf_def)
qed

text \<open>The table after the removal of a task that is in it.\<close>

definition removed :: "taskmanager \<Rightarrow> u64 \<Rightarrow> taskinfo \<Rightarrow> taskmanager" where
  "removed tm t i =
     tm\<lparr>tm_edges := map (\<lambda>row. list_erase row (ti_dep_pos i)) (list_erase (tm_edges tm) (ti_dep_pos i)),
        tm_tasks := umap_erase (tm_tasks tm) t\<rparr>"

lemma remove_task_silent:
  assumes "tm_wf tm" and "map_of (tm_tasks tm) t = Some i"
  shows "remove_task g tm t False = Inr (removed tm t i, None)"
  using assms by (simp add: remove_task_def remove_entry_Inr position_bound removed_def)

lemma remove_task_send:
  assumes "tm_wf tm" and "map_of (tm_tasks tm) t = Some i"
  shows "remove_task g tm t True = Inr (removed tm t i,
    case (tm_client tm, tm_server tm) of
      (Some client, Some server) \<Rightarrow>
        if Endpoint_check (cc_endpoint client) \<and> Endpoint_check server
        then Some (done_task g client server t) else None
    | _ \<Rightarrow> None)"
  using assms
  by (simp add: remove_task_def remove_entry_Inr position_bound removed_def split: option.split)

lemma length_removed:
  assumes "tm_wf tm" and "map_of (tm_tasks tm) t = Some i"
  shows "length (tm_tasks (removed tm t i)) = length (tm_tasks tm) - 1"
    and "length (tm_edges (removed tm t i)) = length (tm_tasks tm) - 1"
    and "row \<in> set (tm_edges (removed tm t i)) \<Longrightarrow> length row = length (tm_tasks tm) - 1"
  using assms position_bound [OF assms] length_umap_erase [of "tm_tasks tm" t i]
    set_list_erase [of "tm_edges tm" "ti_dep_pos i"]
  by (auto simp: removed_def tm_wf_def)

lemma map_of_removed:
  "map_of (tm_tasks (removed tm t i)) u = (if u = t then None else map_of (tm_tasks tm) u)"
  by (simp add: removed_def map_of_umap_erase)

lemma edge_removed:
  assumes wf: "tm_wf tm" and t: "map_of (tm_tasks tm) t = Some i"
    and "p < length (tm_tasks tm) - 1" and "q < length (tm_tasks tm) - 1"
  shows "tm_edges (removed tm t i) ! p ! q =
    tm_edges tm ! (if p < ti_dep_pos i then p else Suc p) ! (if q < ti_dep_pos i then q else Suc q)"
proof -
  have i: "ti_dep_pos i < length (tm_tasks tm)" by (rule position_bound [OF wf t])
  have len: "length (tm_edges tm) = length (tm_tasks tm)" using wf by (simp add: tm_wf_def)
  have "length (tm_edges tm ! (if p < ti_dep_pos i then p else Suc p)) = length (tm_tasks tm)"
    using assms(3) by (intro row_length [OF wf]) auto
  with assms(3,4) i len show ?thesis
    by (cases "p < ti_dep_pos i") (simp_all add: removed_def nth_list_erase)
qed

text \<open>Removing the task that holds the last row keeps the table consistent.\<close>

lemma tm_wf_removed_last:
  assumes wf: "tm_wf tm" and t: "map_of (tm_tasks tm) t = Some i"
    and last: "ti_dep_pos i = length (tm_tasks tm) - 1"
  shows "tm_wf (removed tm t i)"
proof -
  have sub: "set (tm_tasks (removed tm t i)) \<subseteq> set (tm_tasks tm)"
    by (auto simp: removed_def umap_erase_def)
  have "distinct (positions (removed tm t i))"
    using wf by (auto simp: tm_wf_def positions_def removed_def umap_erase_def distinct_map
        intro: inj_on_subset)
  moreover have "\<forall>p \<in> set (positions (removed tm t i)). p < length (tm_tasks tm) - 1"
  proof
    fix p assume "p \<in> set (positions (removed tm t i))"
    then obtain u j where uj: "(u, j) \<in> set (tm_tasks (removed tm t i))" and p: "p = ti_dep_pos j"
      by (auto simp: positions_def)
    from uj have "u \<noteq> t" by (auto simp: removed_def umap_erase_def)
    moreover from uj sub wf have u: "map_of (tm_tasks tm) u = Some j" by (auto simp: tm_wf_def)
    ultimately have "p \<noteq> ti_dep_pos i" using position_inject [OF wf u t] p by metis
    with position_bound [OF wf u] p last show "p < length (tm_tasks tm) - 1" by simp
  qed
  ultimately show ?thesis
    using length_removed [OF wf t] wf unfolding tm_wf_def
    by (auto simp: removed_def umap_ok_erase)
qed

lemma waits_for_removed_last:
  assumes wf: "tm_wf tm" and t: "map_of (tm_tasks tm) t = Some i"
    and last: "ti_dep_pos i = length (tm_tasks tm) - 1"
  shows "waits_for (removed tm t i) u d \<longleftrightarrow> u \<noteq> t \<and> d \<noteq> t \<and> waits_for tm u d"
proof (cases "map_of (tm_tasks (removed tm t i)) u"; cases "map_of (tm_tasks (removed tm t i)) d")
  fix k j
  assume u: "map_of (tm_tasks (removed tm t i)) u = Some k"
    and d: "map_of (tm_tasks (removed tm t i)) d = Some j"
  note wf' = tm_wf_removed_last [OF assms]
  have "ti_dep_pos k < length (tm_tasks tm) - 1" and "ti_dep_pos j < length (tm_tasks tm) - 1"
    using position_bound [OF wf' u] position_bound [OF wf' d] length_removed(1) [OF wf t] by simp_all
  with u d last edge_removed [OF wf t this] show ?thesis
    by (auto simp: waits_for_def map_of_removed split: if_splits)
qed (auto simp: waits_for_def map_of_removed split: if_splits option.splits)

text \<open>What a deployment and its dependencies put into the table is what the removal takes out.\<close>

lemma list_erase_snoc: "list_erase (xs @ [x]) (length xs) = xs"
  by (simp add: list_erase_def)

lemma removed_added:
  assumes wf: "tm_wf tm" and fresh: "map_of (tm_tasks tm) t = None"
    and pos: "ti_dep_pos i = length (tm_tasks tm)"
  shows "removed (tm\<lparr>tm_tasks := tm_tasks tm @ [(t, i)],
      tm_edges := map (\<lambda>row. row @ [False]) (tm_edges tm) @ [row]\<rparr>) t i = tm"
proof -
  have len: "length (tm_edges tm) = length (tm_tasks tm)" using wf by (simp add: tm_wf_def)
  have "list_erase (r @ [False]) (length (tm_tasks tm)) = r" if "r \<in> set (tm_edges tm)" for r
    using that wf list_erase_snoc [of r False] by (simp add: tm_wf_def)
  then have "map (\<lambda>r. list_erase (r @ [False]) (length (tm_tasks tm))) (tm_edges tm) = tm_edges tm"
    by (simp add: map_idI)
  moreover have "list_erase (map (\<lambda>r. r @ [False]) (tm_edges tm) @ [row]) (length (tm_tasks tm)) =
      map (\<lambda>r. r @ [False]) (tm_edges tm)"
    using list_erase_snoc [of "map (\<lambda>r. r @ [False]) (tm_edges tm)"] len by simp
  moreover have "umap_erase (tm_tasks tm) t = tm_tasks tm"
    using fresh by (force simp: umap_erase_def filter_id_conv map_of_eq_None_iff)
  ultimately show ?thesis
    using pos by (simp add: removed_def comp_def) (simp add: umap_erase_def)
qed

lemma remove_after_deploy:
  assumes wf: "tm_wf tm" and "deploy_task tm t info = (0, tm')"
  shows "remove_task g tm' t False = Inr (tm, None)"
proof -
  from assms(2) have fresh: "map_of (tm_tasks tm) t = None"
    by (auto simp: deploy_task_def split: if_splits)
  have "tm_wf tm'" using tm_wf_deploy_task [OF wf, of t info] assms(2) by simp
  with fresh assms(2) removed_added [OF wf fresh, of "info\<lparr>ti_dep_pos := length (tm_tasks tm)\<rparr>"]
  show ?thesis
    by (auto simp: deploy_task_new remove_task_silent map_add_def simp del: replicate.simps)
qed

lemma remove_after_add_deps:
  assumes wf: "tm_wf tm" and deploy: "deploy_task tm t info = (0, tm')"
    and deps: "add_deps tm' t deps = Inr (r, tm'')"
  shows "remove_task g tm'' t False = Inr (tm, None)"
proof -
  let ?n = "length (tm_tasks tm)" and ?i = "info\<lparr>ti_dep_pos := length (tm_tasks tm)\<rparr>"
  from deploy have fresh: "map_of (tm_tasks tm) t = None"
    by (auto simp: deploy_task_def split: if_splits)
  have wf': "tm_wf tm'" using tm_wf_deploy_task [OF wf, of t info] deploy by simp
  have len: "length (tm_edges tm) = ?n" using wf by (simp add: tm_wf_def)
  from deploy have tm': "tm' = tm\<lparr>tm_tasks := tm_tasks tm @ [(t, ?i)],
      tm_edges := map (\<lambda>row. row @ [False]) (tm_edges tm) @ [replicate (Suc ?n) False]\<rparr>"
    by (simp add: deploy_task_new [OF fresh] del: replicate.simps)
  then have t: "map_of (tm_tasks tm') t = Some ?i" using fresh by (simp add: map_add_def)
  obtain row where "tm'' = tm'\<lparr>tm_edges := (tm_edges tm')[ti_dep_pos ?i := row]\<rparr>"
    by (rule add_deps_row [OF wf' t, of deps]) (use deps in auto)
  with tm' len have tm'': "tm'' = tm\<lparr>tm_tasks := tm_tasks tm @ [(t, ?i)],
      tm_edges := map (\<lambda>row. row @ [False]) (tm_edges tm) @ [row]\<rparr>"
    by (simp add: list_update_append)
  have "tm_wf tm''" by (rule tm_wf_add_deps [OF wf' deps])
  moreover have "map_of (tm_tasks tm'') t = Some ?i" using fresh by (simp add: tm'' map_add_def)
  ultimately show ?thesis
    using removed_added [OF wf fresh, of ?i row] by (simp add: remove_task_silent tm'')
qed

subsection \<open>Task numbers in submissions\<close>

lemma sq_taskid_of [simp]: "sq_taskid (submit_request_of t i) = ucast t"
  by (simp add: submit_request_of_def SubmitRequest_set_period_def SubmitRequest_set_output_def
      SubmitRequest_set_input_def SubmitRequest_set_taskid_def Let_def)

lemma ucast_u32_iff: "ucast (ucast t :: u32) = t \<longleftrightarrow> t < 2 ^ 32" for t :: u64
  by (simp add: word_unat_eq_iff word_less_nat_alt unsigned_ucast_eq unsigned_take_bit_eq take_bit_nat_eq_self_iff)

section \<open>The table as an interface\<close>

text \<open>
  What the handler of deployments relies on: a deployment can be taken back, also after its
  dependencies were recorded, and then nothing of it is left.
\<close>

locale deploy_table =
  fixes ok :: "'t \<Rightarrow> bool"
    and deploy :: "'t \<Rightarrow> 'k \<Rightarrow> 'i \<Rightarrow> int \<times> 't"
    and depend :: "'t \<Rightarrow> 'k \<Rightarrow> 'k list \<Rightarrow> (int \<times> 't) cxx"
    and takeback :: "'t \<Rightarrow> 'k \<Rightarrow> 't cxx"
  assumes deploy_result: "fst (deploy t k i) = 0 \<or> deploy t k i = (-1, t)"
    and ok_deploy: "ok t \<Longrightarrow> ok (snd (deploy t k i))"
    and depend_Inr: "ok t \<Longrightarrow> \<exists>r t'. depend t k ds = Inr (r, t') \<and> ok t' \<and> (r = 0 \<or> r = -1)"
    and takeback_deploy: "ok t \<Longrightarrow> deploy t k i = (0, t') \<Longrightarrow> takeback t' k = Inr t"
    and takeback_depend:
      "ok t \<Longrightarrow> deploy t k i = (0, t') \<Longrightarrow> depend t' k ds = Inr (r, t'') \<Longrightarrow> takeback t'' k = Inr t"
begin

text \<open>Deployment with dependencies: all of it happens or none.\<close>

lemma all_or_nothing:
  assumes "ok t" and "deploy t k i = (0, t')"
  shows "\<exists>r t''. depend t' k ds = Inr (r, t'') \<and> ok t'' \<and> (r = -1 \<longrightarrow> takeback t'' k = Inr t)"
proof -
  have "ok t'" using ok_deploy [OF assms(1), of k i] assms(2) by simp
  then obtain r t'' where "depend t' k ds = Inr (r, t'')" and "ok t''"
    using depend_Inr by blast
  with takeback_depend [OF assms] show ?thesis by blast
qed

end

definition take_back :: "taskmanager \<Rightarrow> u64 \<Rightarrow> taskmanager cxx" where
  "take_back tm t = cxx_bind (remove_task (Request_new 0 0 0 0) tm t False) (\<lambda>(tm', _). Inr tm')"

interpretation task_table: deploy_table tm_wf deploy_task add_deps take_back
proof unfold_locales
  fix t :: taskmanager and k i
  show "fst (deploy_task t k i) = 0 \<or> deploy_task t k i = (-1, t)"
    by (simp add: deploy_task_def Let_def)
next
  fix t k ds
  assume wf: "tm_wf t"
  show "\<exists>r t'. add_deps t k ds = Inr (r, t') \<and> tm_wf t' \<and> (r = 0 \<or> r = -1)"
  proof (cases "map_of (tm_tasks t) k")
    case None
    with wf show ?thesis by (simp add: add_deps_unknown)
  next
    case (Some i)
    show ?thesis
      by (rule add_deps_row [OF wf Some, of ds]) (use tm_wf_set_row [OF wf] in auto)
  qed
qed (simp_all add: tm_wf_deploy_task take_back_def remove_after_deploy remove_after_add_deps)

section \<open>Properties of the table\<close>

text \<open>The table as a set of task numbers and a relation between them.\<close>

definition abs_table :: "taskmanager \<Rightarrow> u64 set \<times> (u64 \<times> u64) set" where
  "abs_table tm = ({t. known tm t}, {(t, d). waits_for tm t d})"

lemma abs_table_iff:
  "abs_table tm = (V, E) \<longleftrightarrow> (\<forall>t. t \<in> V \<longleftrightarrow> known tm t) \<and> (\<forall>t d. (t, d) \<in> E \<longleftrightarrow> waits_for tm t d)"
  by (auto simp: abs_table_def)

lemma known_deploy: "known (snd (deploy_task tm t info)) u \<longleftrightarrow> u = t \<or> known tm u"
  by (auto simp: deploy_task_def Let_def known_def map_of_umap_emplace)

lemma abs_deploy:
  assumes wf: "tm_wf tm" and abs: "abs_table tm = (V, E)"
  shows "abs_table (snd (deploy_task tm t info)) = (insert t V, E)"
proof (cases "map_of (tm_tasks tm) t")
  case None
  with abs show ?thesis
    by (simp add: abs_table_iff known_deploy waits_for_deploy_task [OF wf])
next
  case (Some i)
  then have "known tm t" by (simp add: known_def)
  with Some abs show ?thesis by (auto simp: abs_table_iff deploy_task_def)
qed

lemma waits_for_known: "waits_for tm t d \<Longrightarrow> known tm t \<and> known tm d"
  by (auto simp: waits_for_def known_def split: option.splits)

lemma known_add_deps: "add_deps tm t deps = Inr (r, tm') \<Longrightarrow> known tm' u \<longleftrightarrow> known tm u"
  by (auto simp: add_deps_def known_def split: option.splits)

lemma abs_add_deps:
  assumes wf: "tm_wf tm" and abs: "abs_table tm = (V, E)" and t: "t \<in> V"
    and add: "add_deps tm t deps = Inr (r, tm')"
  shows "abs_table tm' = (V, E \<union> {t} \<times> set (takeWhile (\<lambda>d. d \<in> V) deps))"
proof -
  have V: "known tm = (\<lambda>d. d \<in> V)" using abs by (auto simp: abs_table_iff)
  have k: "known tm t" using t V by simp
  have *: "waits_for tm' u d \<longleftrightarrow> waits_for tm u d \<or> u = t \<and> d \<in> set (takeWhile (known tm) deps)" for u d
  proof (cases "known tm d")
    case True
    then show ?thesis by (rule waits_for_add_deps [OF wf k _ add])
  next
    case False
    with known_add_deps [OF add] waits_for_known show ?thesis
      by (metis set_takeWhileD)
  qed
  then show ?thesis using abs known_add_deps [OF add] V by (auto simp: abs_table_iff)
qed

lemma add_deps_result:
  assumes wf: "tm_wf tm"
  shows "\<exists>tm'. add_deps tm t deps =
    Inr (if known tm t \<and> (\<forall>d \<in> set deps. known tm d) then 0 else -1, tm')"
proof (cases "map_of (tm_tasks tm) t")
  case None
  then show ?thesis by (simp add: add_deps_unknown known_def)
next
  case (Some i)
  then have "known tm t" by (simp add: known_def)
  then show ?thesis by (rule_tac add_deps_row [OF wf Some, of deps]) auto
qed

text \<open>
  C30: the task table implements a set of tasks with a relation "waits for". Deploying adds the
  number (and -1 says it was there), declaring dependencies adds the edges up to the first
  unknown one (-1 says there was one), and both keep the table consistent, with every matrix
  access in range.
\<close>

theorem task_table_refinement:
  assumes "tm_wf tm" and "abs_table tm = (V, E)"
  shows "fst (deploy_task tm t info) = (if t \<in> V then -1 else 0) \<and>
    tm_wf (snd (deploy_task tm t info)) \<and>
    abs_table (snd (deploy_task tm t info)) = (insert t V, E) \<and>
    (\<exists>tm'. add_deps tm t deps = Inr (if insert t (set deps) \<subseteq> V then 0 else -1, tm') \<and> tm_wf tm' \<and>
       abs_table tm' = (V, E \<union> (if t \<in> V then {t} \<times> set (takeWhile (\<lambda>d. d \<in> V) deps) else {})))"
proof -
  have V: "t' \<in> V \<longleftrightarrow> known tm t'" for t' using assms(2) by (simp add: abs_table_iff)
  obtain tm' where add: "add_deps tm t deps =
      Inr (if known tm t \<and> (\<forall>d \<in> set deps. known tm d) then 0 else -1, tm')"
    using add_deps_result [OF assms(1)] by blast
  have "abs_table tm' = (V, E \<union> (if t \<in> V then {t} \<times> set (takeWhile (\<lambda>d. d \<in> V) deps) else {}))"
  proof (cases "t \<in> V")
    case True
    then show ?thesis using abs_add_deps [OF assms True add] by simp
  next
    case False
    then have "tm' = tm" using add V by (simp add: known_def add_deps_unknown)
    with False assms(2) show ?thesis by simp
  qed
  moreover have "fst (deploy_task tm t info) = (if t \<in> V then -1 else 0)"
    using V [of t] by (simp add: deploy_task_def Let_def known_def)
  ultimately show ?thesis
    using add V tm_wf_add_deps [OF assms(1) add] tm_wf_deploy_task [OF assms(1)] abs_deploy [OF assms]
    by (auto simp: subset_iff)
qed

definition sample_info :: "string \<Rightarrow> taskinfo" where
  "sample_info input = \<lparr>ti_dep_pos = 0, ti_input_path = input, ti_input_data = [], ti_output_path = ''out'',
     ti_directory_policy = 0, ti_empty_policy = 1, ti_period = 2, ti_backupid = [], ti_result_policy = 0,
     ti_trigger_policy = 0\<rparr>"

definition sample_table :: taskmanager where
  "sample_table = snd (deploy_task (snd (deploy_task Taskmanager_new 7 (sample_info ''a''))) 8 (sample_info ''b''))"

lemma sample_table_wf: "tm_wf sample_table"
  unfolding sample_table_def by (intro tm_wf_deploy_task tm_wf_new)

lemmas sample_table_eval =
  sample_table_def sample_info_def deploy_task_def umap_emplace_def Taskmanager_new_def Let_def

theorem task_table_refinement_witness:
  "\<exists>tm'. add_deps sample_table 8 [7, 9] = Inr (-1, tm') \<and> tm_wf tm' \<and>
     abs_table tm' = ({7, 8}, {(8, 7)})"
proof -
  have "abs_table sample_table = ({7, 8}, {})"
    by (auto simp: abs_table_iff known_def waits_for_def sample_table_eval nth_Cons'
        split: if_splits option.splits)
  from task_table_refinement [OF sample_table_wf this, of 8 undefined "[7, 9]"]
  show ?thesis by simp
qed

text \<open>
  a task is handed to the node exactly when it is deployed, waits for no deployed task and
  the node is loaded; the job then carries the entry's input, output and policies, and
  submitting changes nothing else than the node's result callback. No range check fires.
\<close>

theorem submit_decision:
  assumes "tm_wf tm"
  shows "submit dump tm servers name t =
    Inr (if known tm t \<and> (\<nexists>d. waits_for tm t d) \<and> map_of servers name \<noteq> None
         then (umap_set servers name ((the (map_of servers name))\<lparr>nd_callback := True\<rparr>),
               Some \<lparr>st_name = name,
                     st_payload = dump (submit_request_of t (the (map_of (tm_tasks tm) t))),
                     st_origin = nd_origin (the (map_of servers name))\<rparr>)
         else (servers, None))"
  using submit_Inr [OF assms, of dump servers name t]
  by (auto simp: known_def Manager_submit_def split: option.split)

definition sample_node :: node where
  "sample_node = \<lparr>nd_setup = \<lparr>sc_listen_addr = ''a'', sc_port = 1, sc_ssl = False\<rparr>,
     nd_origin = \<lparr>oc_addr = ''b'', oc_port = 2\<rparr>, nd_callback = False\<rparr>"

theorem submit_decision_witness:
  "submit sq_output_path sample_table [(''n'', sample_node)] ''n'' 7 =
     Inr ([(''n'', sample_node\<lparr>nd_callback := True\<rparr>)],
       Some \<lparr>st_name = ''n'', st_payload = ''out'', st_origin = nd_origin sample_node\<rparr>)"
proof -
  have "\<nexists>d. waits_for sample_table 7 d"
    by (auto simp: waits_for_def sample_table_eval nth_Cons' split: if_splits option.splits)
  moreover have "known sample_table 7" by (simp add: known_def sample_table_eval)
  moreover have "sq_output_path (submit_request_of 7 (the (map_of (tm_tasks sample_table) 7))) = ''out''"
    by (simp add: submit_request_of_def SubmitRequest_set_period_def SubmitRequest_set_output_def
        sample_table_eval)
  ultimately show ?thesis
    using submit_decision [OF sample_table_wf, of sq_output_path
        "[(''n'', sample_node)]" "''n''" 7]
    by (simp add: umap_set_def umap_erase_def)
qed

text \<open>
  removing the task that was deployed last keeps the table consistent and takes exactly that
  task, and the edges to and from it, out of the abstract table.
\<close>

theorem remove_last_task:
  assumes "tm_wf tm" and "abs_table tm = (V, E)"
    and "map_of (tm_tasks tm) t = Some i" and "ti_dep_pos i = length (tm_tasks tm) - 1"
  shows "\<exists>tm'. remove_task g tm t False = Inr (tm', None) \<and> tm_wf tm' \<and>
    abs_table tm' = (V - {t}, E \<inter> (- {t}) \<times> (- {t}))"
proof -
  have "known (removed tm t i) u \<longleftrightarrow> u \<noteq> t \<and> known tm u" for u
    by (simp add: known_def map_of_removed)
  with assms(2) have "abs_table (removed tm t i) = (V - {t}, E \<inter> (- {t}) \<times> (- {t}))"
    by (auto simp: abs_table_iff waits_for_removed_last [OF assms(1,3,4)])
  with remove_task_silent [OF assms(1,3)] tm_wf_removed_last [OF assms(1,3,4)] show ?thesis
    by auto
qed

theorem remove_last_task_witness:
  "\<exists>tm'. remove_task (Request_new 0 0 0 0) sample_table 8 False = Inr (tm', None) \<and> tm_wf tm' \<and>
     abs_table tm' = ({7}, {})"
proof -
  have "abs_table sample_table = ({7, 8}, {})"
    by (auto simp: abs_table_iff known_def waits_for_def sample_table_eval nth_Cons'
        split: if_splits option.splits)
  moreover have "map_of (tm_tasks sample_table) 8 = Some ((sample_info ''b'')\<lparr>ti_dep_pos := 1\<rparr>)"
    and "length (tm_tasks sample_table) = 2"
    by (simp_all add: sample_table_eval)
  ultimately show ?thesis
    using remove_last_task [OF sample_table_wf, of "{7, 8}" "{}" 8 "(sample_info ''b'')\<lparr>ti_dep_pos := 1\<rparr>"]
    by (simp add: insert_Diff_if)
qed

text \<open>
  \<^verbatim>\<open>remove_task\<close> erases the row and the column of the task but does not renumber the
  tasks deployed after it. Removing a task that is not the last one succeeds, but then the
  last task points past the matrix: submitting it throws, and the next deployment gets the same
  row, so that the two tasks share their dependencies from then on.
\<close>

theorem remove_task_stale_position:
  assumes wf: "tm_wf tm" and t: "map_of (tm_tasks tm) t = Some i" and u: "map_of (tm_tasks tm) u = Some j"
    and "u \<noteq> t" and last: "ti_dep_pos j = length (tm_tasks tm) - 1"
    and v: "map_of (tm_tasks tm) v = None"
  shows "\<exists>tm' k. remove_task g tm t False = Inr (tm', None) \<and> known tm' u \<and>
    submit dump tm' servers name u = Inl Out_of_range \<and>
    map_of (tm_tasks (snd (deploy_task tm' v info))) v = Some k \<and> ti_dep_pos k = ti_dep_pos j"
proof -
  let ?tm = "removed tm t i"
  have u': "map_of (tm_tasks ?tm) u = Some j" using u \<open>u \<noteq> t\<close> by (simp add: map_of_removed)
  have "length (tm_edges ?tm) = length (tm_tasks tm) - 1" and
    n: "length (tm_tasks ?tm) = length (tm_tasks tm) - 1"
    using length_removed [OF wf t] by simp_all
  then have "submit dump ?tm servers name u = Inl Out_of_range"
    using u' last by (simp add: submit_def vec_at_def)
  moreover have "v \<noteq> t" using t v by auto
  then have "map_of (tm_tasks ?tm) v = None" using v by (simp add: map_of_removed)
  then have "map_of (tm_tasks (snd (deploy_task ?tm v info))) v = Some (info\<lparr>ti_dep_pos := ti_dep_pos j\<rparr>)"
    using n last by (simp add: deploy_task_new map_add_def)
  ultimately show ?thesis
    using remove_task_silent [OF wf t] u' by (auto simp: known_def)
qed

theorem remove_task_stale_position_witness:
  "\<exists>tm'. remove_task (Request_new 0 0 0 0) sample_table 7 False = Inr (tm', None) \<and>
     submit sq_output_path tm' [] ''n'' 8 = Inl Out_of_range"
  using remove_task_stale_position [OF sample_table_wf, of 7 "(sample_info ''a'')\<lparr>ti_dep_pos := 0\<rparr>" 8
      "(sample_info ''b'')\<lparr>ti_dep_pos := 1\<rparr>" 9 "Request_new 0 0 0 0" sq_output_path "[]" "''n''"]
  by (auto simp: sample_table_eval)

text \<open>
  when the result of a submitted job comes back, the job's entry is removed and the storage
  unit is told \<open>done\<close> for it, over a connection to the storage's address, exactly when both
  peers are set with a protocol, a url and a port. This needs the task number to fit the 32
  bits the job's request and reply have for it.
\<close>

theorem result_reports_done:
  assumes "tm_wf tm" and "map_of (tm_tasks tm) t = Some i" and "t < 2 ^ 32"
    and "result \<noteq> []" and "sr_taskid (parse result) = sq_taskid (submit_request_of t i)"
    and "tm_client tm = Some client" and "tm_server tm = Some server"
  shows "\<exists>tm' s. on_client_receive_result parse g tm result = Inr (tm', s) \<and> \<not> known tm' t \<and>
    (\<forall>u. u \<noteq> t \<longrightarrow> map_of (tm_tasks tm') u = map_of (tm_tasks tm) u) \<and>
    (s \<noteq> None \<longleftrightarrow> Endpoint_check (cc_endpoint client) \<and> Endpoint_check server) \<and>
    (s \<noteq> None \<longrightarrow> rq_taskid (ct_req (the s)) = t \<and> rq_msg (ct_req (the s)) = msg_code Msg_done \<and>
       rq_src (ct_req (the s)) = addr_code Addr_cluster \<and> rq_dest (ct_req (the s)) = addr_code Addr_storage \<and>
       rq_token (ct_req (the s)) = cc_token client \<and>
       obj_cluster (rq_object (ct_req (the s))) = Some (cc_endpoint client) \<and>
       ct_url (the s) = ep_url server \<and> ct_port (the s) = ep_port server)"
proof -
  have "ucast (sr_taskid (parse result)) = t"
    using assms(3,5) by (simp add: sq_taskid_of ucast_u32_iff)
  then show ?thesis
    using assms by (auto simp: on_client_receive_result_def remove_task_send map_of_removed known_def
        done_task_def create_client_task_def Request_setter_defs)
qed

definition sample_server :: endpoint where
  "sample_server = sample_endpoint\<lparr>ep_url := ''storage''\<rparr>"

theorem result_reports_done_witness:
  "\<exists>tm' s. on_client_receive_result (\<lambda>_. \<lparr>sr_taskid = 7, sr_times = 0, sr_result = [], sr_output_path = [],
       sr_directory_policy = 0, sr_empty_policy = 0\<rparr>) (Request_new 0 0 0 0)
     (sample_table\<lparr>tm_client := Some \<lparr>cc_endpoint = sample_endpoint, cc_ssl = False, cc_token = ''k''\<rparr>,
        tm_server := Some sample_server\<rparr>) ''reply'' = (Inr (tm', Some s) :: (taskmanager \<times> client_task option) cxx) \<and>
     rq_taskid (ct_req s) = 7 \<and> ct_url s = ''storage''"
proof -
  let ?tm = "sample_table\<lparr>tm_client := Some \<lparr>cc_endpoint = sample_endpoint, cc_ssl = False, cc_token = ''k''\<rparr>,
        tm_server := Some sample_server\<rparr>"
  have "tm_wf ?tm" using sample_table_wf by (simp add: tm_wf_def positions_def)
  moreover have "map_of (tm_tasks ?tm) 7 = Some ((sample_info ''a'')\<lparr>ti_dep_pos := 0\<rparr>)"
    by (simp add: sample_table_eval)
  ultimately show ?thesis
    using result_reports_done [of ?tm 7 "(sample_info ''a'')\<lparr>ti_dep_pos := 0\<rparr>" "''reply''"
      "\<lambda>_. \<lparr>sr_taskid = 7, sr_times = 0, sr_result = [], sr_output_path = [],
       sr_directory_policy = 0, sr_empty_policy = 0\<rparr>"
      "\<lparr>cc_endpoint = sample_endpoint, cc_ssl = False, cc_token = ''k''\<rparr>" sample_server
      "Request_new 0 0 0 0"]
    by (auto simp: Endpoint_check_def sample_server_def sample_endpoint_def word_less_nat_alt)
qed

text \<open>
  the number of a job is cut to 32 bits on its way to the node, so the reply to a task with
  a number of 2^32 or more does not name that task. Its entry stays in the table when the
  result arrives, and no \<open>done\<close> is sent for it; if another task has the cut number, that one is
  removed in its place.
\<close>

theorem result_of_wide_number:
  assumes "tm_wf tm" and "map_of (tm_tasks tm) t = Some i" and "\<not> t < 2 ^ 32"
    and "result \<noteq> []" and "sr_taskid (parse result) = sq_taskid (submit_request_of t i)"
  shows "\<exists>tm' s. on_client_receive_result parse g tm result = Inr (tm', s) \<and>
    map_of (tm_tasks tm') t = Some i \<and> \<not> known tm' (ucast (ucast t :: u32)) \<and>
    (s \<noteq> None \<longrightarrow> rq_taskid (ct_req (the s)) = ucast (ucast t :: u32)) \<and> ucast (ucast t :: u32) \<noteq> t"
proof -
  let ?c = "ucast (ucast t :: u32) :: u64"
  have neq: "?c \<noteq> t" using assms(3) ucast_u32_iff by blast
  have c: "on_client_receive_result parse g tm result = remove_task g tm ?c True"
    using assms(4,5) by (simp add: on_client_receive_result_def)
  show ?thesis
  proof (cases "map_of (tm_tasks tm) ?c")
    case None
    then show ?thesis using neq assms(2) c by (simp add: remove_task_def known_def)
  next
    case (Some k)
    from remove_task_send [OF assms(1) Some] neq assms(2) c show ?thesis
      by (auto simp: map_of_removed known_def done_task_def create_client_task_def Request_setter_defs split: option.split)
  qed
qed

theorem result_of_wide_number_witness:
  "\<exists>tm' s. on_client_receive_result (\<lambda>_. \<lparr>sr_taskid = 7, sr_times = 0, sr_result = [], sr_output_path = [],
       sr_directory_policy = 0, sr_empty_policy = 0\<rparr>) (Request_new 0 0 0 0)
     (snd (deploy_task Taskmanager_new 4294967303 (sample_info ''a''))) ''reply'' = Inr (tm', s) \<and>
     known tm' 4294967303"
proof -
  let ?tm = "snd (deploy_task Taskmanager_new 4294967303 (sample_info ''a''))"
  have "tm_wf ?tm" by (intro tm_wf_deploy_task tm_wf_new)
  moreover have "map_of (tm_tasks ?tm) 4294967303 = Some ((sample_info ''a'')\<lparr>ti_dep_pos := 0\<rparr>)"
    by (simp add: sample_table_eval)
  ultimately show ?thesis
    using result_of_wide_number [of ?tm 4294967303 "(sample_info ''a'')\<lparr>ti_dep_pos := 0\<rparr>" "''reply''"
      "\<lambda>_. \<lparr>sr_taskid = 7, sr_times = 0, sr_result = [], sr_output_path = [],
       sr_directory_policy = 0, sr_empty_policy = 0\<rparr>" "Request_new 0 0 0 0"]
    by (auto simp: word_less_nat_alt known_def)
qed

end
