(* ===== verification/Taskdep_Server.thy ===== *)
theory Taskdep_Server
  imports Taskdep_Endpoint
begin

text \<open>
  What the task-deployment servers of the computing and the storage unit have in common: the
  set-up context and the server object of \<^verbatim>\<open>computation/taskdep\<close> and \<^verbatim>\<open>storage/taskdep\<close>, and the
  arguments the network framework's server is created and started with. That server is
  third-party code; its \<^verbatim>\<open>start\<close> is a parameter of the operations.
\<close>

record taskdep_setup =
  ts_endpoint :: endpoint
  ts_ssl :: bool
  ts_family :: int
  ts_ca :: string
  ts_cert :: string
  ts_key :: string
  ts_response_timeout :: int
  ts_request_size_limit :: int

record wf_listen =
  wl_timeout :: int
  wl_size_limit :: int
  wl_family :: int
  wl_host :: string
  wl_port :: u32
  wl_tls :: "(string \<times> string) option"

record taskdep_server =
  sv_context :: taskdep_setup
  sv_listening :: "wf_listen option"

definition listen_of :: "taskdep_setup \<Rightarrow> wf_listen" where
  "listen_of ctx =
     \<lparr>wl_timeout = ts_response_timeout ctx, wl_size_limit = ts_request_size_limit ctx,
      wl_family = ts_family ctx, wl_host = ep_url (ts_endpoint ctx), wl_port = ep_port (ts_endpoint ctx),
      wl_tls = (if ts_ssl ctx then Some (ts_cert ctx, ts_key ctx) else None)\<rparr>"

end
