(* ===== verification/Cluster_Taskdep.thy ===== *)
theory Cluster_Taskdep
  imports Cluster_Tasks Taskdep_Server
begin

text \<open>
  The task-deployment server of the computing unit, \<^verbatim>\<open>ClusterServer\<close> of
  \<^verbatim>\<open>computation/taskdep\<close>: setup, start and stop, and the handler \<^verbatim>\<open>process\<close>
  of the requests a management unit sends. The server of the network framework is third-party
  code: its \<^verbatim>\<open>start\<close> is a parameter.
\<close>

section \<open>The server object\<close>

definition ClusterServer_setup :: "taskdep_server \<Rightarrow> taskdep_setup \<Rightarrow> int \<times> taskdep_server" where
  "ClusterServer_setup srv ctx =
     (if \<not> Endpoint_check (ts_endpoint ctx) then (-1, srv) else (0, srv\<lparr>sv_context := ctx\<rparr>))"

definition ClusterServer_start :: "(wf_listen \<Rightarrow> int) \<Rightarrow> taskdep_server \<Rightarrow> int \<times> taskdep_server" where
  "ClusterServer_start wf_start srv =
     (let l = listen_of (sv_context srv) in (wf_start l, srv\<lparr>sv_listening := Some l\<rparr>))"

definition ClusterServer_stop :: "taskdep_server \<Rightarrow> taskdep_server" where
  "ClusterServer_stop srv =
     (case sv_listening srv of None \<Rightarrow> srv | Some _ \<Rightarrow> srv\<lparr>sv_listening := None\<rparr>)"

section \<open>The handler\<close>

text \<open>
  What a handled request leaves: the task table, the loaded nodes, the response that is sent
  (\<open>None\<close> when the handler calls \<^verbatim>\<open>noreply()\<close>) and the job that is started.
\<close>

record handled =
  hd_table :: taskmanager
  hd_nodes :: nodes
  hd_resp :: "response option"
  hd_job :: "sub_task option"

text \<open>Which of input path and input data a datasource of a type gives; other types are refused.\<close>

definition deploy_input :: "ds_src \<Rightarrow> (string \<times> string) option" where
  "deploy_input src =
     (if src_type src = ''data'' then Some ([], src_input src)
      else if src_type src = ''endpoint'' then Some (src_input src, [])
      else None)"

definition deploy_info :: "string \<Rightarrow> string \<Rightarrow> ds_dest \<Rightarrow> attr \<Rightarrow> taskinfo" where
  "deploy_info input_path input_data dest attr =
     (let output_path = (if \<not> at_virtstorage attr then dest_output dest else []);
          base = \<lparr>ti_dep_pos = 0, ti_input_path = input_path, ti_input_data = input_data,
            ti_output_path = output_path, ti_directory_policy = dest_directorypolicy dest,
            ti_empty_policy = dest_emptypolicy dest, ti_period = 0, ti_backupid = [],
            ti_result_policy = 0, ti_trigger_policy = 0\<rparr>
      in case at_period attr of
           None \<Rightarrow> base
         | Some p \<Rightarrow> base\<lparr>ti_period := pd_interval p, ti_result_policy := pd_resultpolicy p,
             ti_trigger_policy := pd_triggerpolicy p, ti_backupid := pd_backupid p\<rparr>)"

text \<open>
  \<open>resp->set_deploy_status(...)\<close>; \<open>u\<close> is what a fresh \<^verbatim>\<open>Deploy\<close> contains in the field
  that is not set.
\<close>

definition say :: "u32 \<Rightarrow> response \<Rightarrow> deploy_status \<Rightarrow> response" where
  "say u resp status = snd (Response_set_deploy_status resp u (deploy_code status))"

definition say_task :: "u32 \<Rightarrow> response \<Rightarrow> deploy_status \<Rightarrow> deploy_taskstatus \<Rightarrow> response" where
  "say_task u resp status taskstatus =
     snd (Response_set_deploy_taskstatus (say u resp status) u (taskstatus_code taskstatus))"

text \<open>The trigger policy of a task that was just put into the table.\<close>

definition deploy_trigger ::
  "(submit_request \<Rightarrow> string) \<Rightarrow> u32 \<Rightarrow> request \<Rightarrow> string \<Rightarrow> u64 \<Rightarrow> attr \<Rightarrow> response \<Rightarrow> taskmanager \<Rightarrow> nodes \<Rightarrow> handled cxx" where
  "deploy_trigger dump u g name taskid attr resp tm nodes =
     (if at_trigger attr = trigger_code Trigger_create then
        cxx_bind (submit dump tm nodes name taskid) (\<lambda>(nodes', job).
          case job of
            Some _ \<Rightarrow> Inr \<lparr>hd_table = tm, hd_nodes = nodes',
              hd_resp = Some (say_task u resp Dep_succeed Ts_triggered), hd_job = job\<rparr>
          | None \<Rightarrow> cxx_bind (remove_task g tm taskid False) (\<lambda>(tm', _).
              Inr \<lparr>hd_table = tm', hd_nodes = nodes', hd_resp = Some (say u resp Dep_err), hd_job = None\<rparr>))
      else if at_trigger attr = trigger_code Trigger_deps then
        cxx_bind (add_deps tm taskid (at_deps attr)) (\<lambda>(r, tm').
          if r = -1 then cxx_bind (remove_task g tm' taskid False) (\<lambda>(tm'', _).
            Inr \<lparr>hd_table = tm'', hd_nodes = nodes, hd_resp = Some (say u resp Dep_depsbroken), hd_job = None\<rparr>)
          else Inr \<lparr>hd_table = tm', hd_nodes = nodes,
            hd_resp = Some (say_task u resp Dep_succeed Ts_deployed), hd_job = None\<rparr>)
      else Inr \<lparr>hd_table = tm, hd_nodes = nodes,
        hd_resp = Some (say_task u resp Dep_succeed Ts_deployed), hd_job = None\<rparr>)"

definition process_deploy ::
  "(submit_request \<Rightarrow> string) \<Rightarrow> u32 \<Rightarrow> request \<Rightarrow> string \<Rightarrow> request \<Rightarrow> response \<Rightarrow> taskmanager \<Rightarrow> nodes \<Rightarrow> handled cxx" where
  "process_deploy dump u g name req resp tm nodes =
     (case (rq_attr req, Request_get_datasource_src req, Request_get_datasource_dest req) of
        (Some attr, Some src, Some dest) \<Rightarrow>
          (case deploy_input src of
             None \<Rightarrow> Inr \<lparr>hd_table = tm, hd_nodes = nodes, hd_resp = Some (say u resp Dep_illegal), hd_job = None\<rparr>
           | Some (input_path, input_data) \<Rightarrow>
               (let (judge, tm') = deploy_task tm (rq_taskid req) (deploy_info input_path input_data dest attr)
                in if judge = -1 then
                     Inr \<lparr>hd_table = tm', hd_nodes = nodes, hd_resp = Some (say u resp Dep_illegal), hd_job = None\<rparr>
                   else deploy_trigger dump u g name (rq_taskid req) attr resp tm' nodes))
      | _ \<Rightarrow> Inr \<lparr>hd_table = tm, hd_nodes = nodes, hd_resp = None, hd_job = None\<rparr>)"

text \<open>The end of the handler: the fields every reply has.\<close>

definition finish :: "u64 \<Rightarrow> endpoint \<Rightarrow> endpoint \<Rightarrow> response \<Rightarrow> response" where
  "finish taskid management cluster resp =
     Response_set_object_cluster
       (Response_set_object_management (Response_set_taskid resp taskid) management) cluster"

definition process ::
  "(submit_request \<Rightarrow> string) \<Rightarrow> u32 \<Rightarrow> request \<Rightarrow> endpoint \<Rightarrow> string \<Rightarrow> request \<Rightarrow> response \<Rightarrow> taskmanager \<Rightarrow> nodes \<Rightarrow> handled cxx" where
  "process dump u g self name req resp tm nodes =
     (let noreply = \<lparr>hd_table = tm, hd_nodes = nodes, hd_resp = None, hd_job = None\<rparr>;
          typed = (\<lambda>msg. Response_set_type resp (addr_code Addr_cluster) (addr_code Addr_management) (msg_code msg))
      in if rq_src req \<noteq> addr_code Addr_management \<or> rq_dest req \<noteq> addr_code Addr_cluster then Inr noreply
      else case obj_management (rq_object req) of
        None \<Rightarrow> Inr noreply
      | Some management \<Rightarrow>
          cxx_bind
            (if rq_msg req = msg_code Msg_deploy then
               process_deploy dump u g name req (typed Msg_deploy) tm nodes
             else if rq_msg req = msg_code Msg_terminate then
               cxx_bind (remove_task g tm (rq_taskid req) False) (\<lambda>(tm', _).
                 Inr \<lparr>hd_table = tm', hd_nodes = nodes, hd_resp = Some (typed Msg_terminate), hd_job = None\<rparr>)
             else if rq_msg req = msg_code Msg_trigger then
               cxx_bind (submit dump tm nodes name (rq_taskid req)) (\<lambda>(nodes', job).
                 Inr \<lparr>hd_table = tm, hd_nodes = nodes', hd_resp = Some (typed Msg_trigger), hd_job = job\<rparr>)
             else Inr noreply)
            (\<lambda>h. Inr (h\<lparr>hd_resp := map_option (finish (rq_taskid req) management self) (hd_resp h)\<rparr>)))"

text \<open>
  \<^verbatim>\<open>computation/bin/main.cc\<close>: the endpoints it gives the task table, from the command-line
  flags.
\<close>

definition main_src_endpoint :: "string \<Rightarrow> endpoint" where
  "main_src_endpoint cli_addr =
     Endpoint_set_url (snd (Endpoint_set_authtype (snd (Endpoint_set_proto Endpoint_new ''jxtd'')) 0)) cli_addr"

definition main_dest_endpoint :: "string \<Rightarrow> u32 \<Rightarrow> endpoint" where
  "main_dest_endpoint stor_addr stor_port =
     Endpoint_set_port (Endpoint_set_url
       (snd (Endpoint_set_authtype (snd (Endpoint_set_proto Endpoint_new ''jxtd'')) 0)) stor_addr) stor_port"

definition main_table :: "string \<Rightarrow> bool \<Rightarrow> string \<Rightarrow> string \<Rightarrow> u32 \<Rightarrow> taskmanager" where
  "main_table cli_addr ssl token stor_addr stor_port =
     snd (set_dest (snd (set_src Taskmanager_new (main_src_endpoint cli_addr) ssl token))
       (main_dest_endpoint stor_addr stor_port))"

section \<open>What a deployment does\<close>

lemma say_deploy [simp]:
  "rs_deploy resp = None \<Longrightarrow> rs_deploy (say u resp st) = Some (deploy_new (deploy_code st) u)"
  "rs_deploy resp = None \<Longrightarrow> rs_deploy (say_task u resp st ts) = Some (deploy_new (deploy_code st) (taskstatus_code ts))"
  "rs_src (say u resp st) = rs_src resp" "rs_dest (say u resp st) = rs_dest resp"
  "rs_msg (say u resp st) = rs_msg resp"
  "rs_src (say_task u resp st ts) = rs_src resp" "rs_dest (say_task u resp st ts) = rs_dest resp"
  "rs_msg (say_task u resp st ts) = rs_msg resp"
  by (cases st; cases ts; simp add: say_def say_task_def Response_set_deploy_status_def
      Response_set_deploy_taskstatus_def Let_def deploy_new_def word_le_nat_alt)+

lemma deploy_task_known: "known tm t \<Longrightarrow> deploy_task tm t info = (-1, tm)"
  by (auto simp: deploy_task_def known_def)

lemma deploy_task_unknown: "\<not> known tm t \<Longrightarrow> fst (deploy_task tm t info) = 0"
  by (simp add: deploy_task_def known_def Let_def)

text \<open>The outcome of the trigger step on a table a new task was just put into.\<close>

definition trigger_outcome ::
  "(submit_request \<Rightarrow> string) \<Rightarrow> u32 \<Rightarrow> string \<Rightarrow> u64 \<Rightarrow> attr \<Rightarrow> response \<Rightarrow> taskmanager \<Rightarrow> taskmanager \<Rightarrow> nodes \<Rightarrow> handled \<Rightarrow> bool" where
  "trigger_outcome dump u name taskid attr resp tm tm' nodes h \<longleftrightarrow>
     (if at_trigger attr = trigger_code Trigger_create then
        (case map_of nodes name of
           None \<Rightarrow> hd_table h = tm \<and> hd_job h = None \<and> hd_nodes h = nodes \<and> hd_resp h = Some (say u resp Dep_err)
         | Some nd \<Rightarrow> hd_table h = tm' \<and> hd_job h = snd (Manager_submit dump nodes name
             (submit_request_of taskid (the (map_of (tm_tasks tm') taskid)))) \<and> hd_job h \<noteq> None \<and>
             hd_nodes h = umap_set nodes name (nd\<lparr>nd_callback := True\<rparr>) \<and>
             hd_resp h = Some (say_task u resp Dep_succeed Ts_triggered))
      else if at_trigger attr = trigger_code Trigger_deps then
        hd_job h = None \<and> hd_nodes h = nodes \<and>
        (if \<forall>d \<in> set (at_deps attr). known tm' d
         then add_deps tm' taskid (at_deps attr) = Inr (0, hd_table h) \<and>
           hd_resp h = Some (say_task u resp Dep_succeed Ts_deployed)
         else hd_table h = tm \<and> hd_resp h = Some (say u resp Dep_depsbroken))
      else hd_table h = tm' \<and> hd_job h = None \<and> hd_nodes h = nodes \<and>
        hd_resp h = Some (say_task u resp Dep_succeed Ts_deployed))"

lemma fresh_waits_for_nothing:
  assumes wf: "tm_wf tm" and "\<not> known tm t"
  shows "\<not> waits_for (snd (deploy_task tm t info)) t d"
  using waits_for_deploy_task [OF wf, of t info t d] waits_for_known [of tm t d] assms(2)
  by (auto simp: known_def)

lemma deploy_trigger_outcome:
  assumes wf: "tm_wf tm" and fresh: "\<not> known tm t"
    and tm': "tm' = snd (deploy_task tm t info)"
  shows "\<exists>h. deploy_trigger dump u g name t attr resp tm' nodes = Inr h \<and>
    trigger_outcome dump u name t attr resp tm tm' nodes h"
proof -
  have deployed: "deploy_task tm t info = (0, tm')"
    using deploy_task_unknown [OF fresh, of info] tm' by (metis prod.collapse)
  have wf': "tm_wf tm'" using tm_wf_deploy_task [OF wf] tm' by simp
  have known: "known tm' t" using tm' by (simp add: known_deploy)
  consider (create) "at_trigger attr = trigger_code Trigger_create"
    | (deps) "at_trigger attr = trigger_code Trigger_deps"
    | (other) "at_trigger attr \<noteq> trigger_code Trigger_create" "at_trigger attr \<noteq> trigger_code Trigger_deps"
    by blast
  then show ?thesis
  proof cases
    case create
    have "\<nexists>d. waits_for tm' t d" using fresh_waits_for_nothing [OF wf fresh] tm' by simp
    then show ?thesis
      using create known remove_after_deploy [OF wf deployed, of g]
      by (cases "map_of nodes name")
        (auto simp: deploy_trigger_def trigger_outcome_def submit_Inr [OF wf'] known_def Manager_submit_def)
  next
    case deps
    obtain r tm'' where add: "add_deps tm' t (at_deps attr) = Inr (r, tm'')"
      and r: "r = (if \<forall>d \<in> set (at_deps attr). known tm' d then 0 else -1)"
      using add_deps_result [OF wf', of t "at_deps attr"] known by auto
    show ?thesis
      using deps add r remove_after_add_deps [OF wf deployed add, of g]
      by (auto simp: deploy_trigger_def trigger_outcome_def)
  next
    case other
    then show ?thesis by (simp add: deploy_trigger_def trigger_outcome_def)
  qed
qed

lemma process_deploy_cases:
  assumes wf: "tm_wf tm" and a: "rq_attr req = Some attr" and d: "rq_datasource req = Some ds"
  shows "\<exists>h. process_deploy dump u g name req resp tm nodes = Inr h \<and>
    (case deploy_input (ds_src ds) of
       None \<Rightarrow> hd_table h = tm \<and> hd_nodes h = nodes \<and> hd_job h = None \<and> hd_resp h = Some (say u resp Dep_illegal)
     | Some (p, dat) \<Rightarrow>
         if known tm (rq_taskid req) then
           hd_table h = tm \<and> hd_nodes h = nodes \<and> hd_job h = None \<and> hd_resp h = Some (say u resp Dep_illegal)
         else trigger_outcome dump u name (rq_taskid req) attr resp tm
           (snd (deploy_task tm (rq_taskid req) (deploy_info p dat (ds_dest ds) attr))) nodes h)"
proof (cases "deploy_input (ds_src ds)")
  case None
  with a d show ?thesis
    by (simp add: process_deploy_def Request_get_datasource_src_def Request_get_datasource_dest_def)
next
  case (Some x)
  obtain p dat where x: "x = (p, dat)" by (cases x)
  let ?t = "rq_taskid req" and ?info = "deploy_info p dat (ds_dest ds) attr"
  note start = process_deploy_def Request_get_datasource_src_def Request_get_datasource_dest_def
  show ?thesis
  proof (cases "known tm ?t")
    case True
    with Some x a d show ?thesis by (simp add: start deploy_task_known)
  next
    case False
    have "fst (deploy_task tm ?t ?info) = 0" by (rule deploy_task_unknown [OF False])
    then have "process_deploy dump u g name req resp tm nodes =
        deploy_trigger dump u g name ?t attr resp (snd (deploy_task tm ?t ?info)) nodes"
      using Some x a d by (simp add: start split_beta)
    with deploy_trigger_outcome [OF wf False refl, where info = ?info] Some x False show ?thesis by simp
  qed
qed

section \<open>Properties of the handler\<close>

text \<open>The requests the handler does not answer.\<close>

definition ignored :: "request \<Rightarrow> bool" where
  "ignored req \<longleftrightarrow> rq_src req \<noteq> addr_code Addr_management \<or> rq_dest req \<noteq> addr_code Addr_cluster \<or>
     obj_management (rq_object req) = None \<or>
     rq_msg req \<notin> {msg_code Msg_deploy, msg_code Msg_terminate, msg_code Msg_trigger} \<or>
     rq_msg req = msg_code Msg_deploy \<and> (rq_attr req = None \<or> rq_datasource req = None)"

lemma finish_fields [simp]:
  "rs_taskid (finish t m c r) = t" "rs_src (finish t m c r) = rs_src r"
  "rs_dest (finish t m c r) = rs_dest r" "rs_msg (finish t m c r) = rs_msg r"
  "rs_deploy (finish t m c r) = rs_deploy r"
  "obj_management (rs_object (finish t m c r)) = Some m" "obj_cluster (rs_object (finish t m c r)) = Some c"
  by (simp_all add: finish_def Response_set_taskid_def Response_set_object_management_def
      Response_set_object_cluster_def)

lemma set_type_fields [simp]:
  "rs_src (Response_set_type r a b c) = a" "rs_dest (Response_set_type r a b c) = b"
  "rs_msg (Response_set_type r a b c) = c" "rs_deploy (Response_set_type r a b c) = rs_deploy r"
  by (simp_all add: Response_set_type_def)

lemma process_deploy_msg:
  assumes "\<not> ignored req" and "rq_msg req = msg_code Msg_deploy"
    and "process_deploy dump u g name req
      (Response_set_type resp (addr_code Addr_cluster) (addr_code Addr_management) (msg_code Msg_deploy)) tm nodes = Inr h"
  shows "process dump u g self name req resp tm nodes = Inr (h\<lparr>hd_resp := map_option
    (finish (rq_taskid req) (the (obj_management (rq_object req))) self) (hd_resp h)\<rparr>)"
  using assms by (auto simp: process_def ignored_def Let_def split: option.split)

lemma remove_task_Inr:
  "tm_wf tm \<Longrightarrow> \<exists>tm'. remove_task g tm t False = Inr (tm', None)"
  by (cases "map_of (tm_tasks tm) t") (simp add: remove_task_def, simp add: remove_task_silent)

lemma trigger_outcome_resp:
  "trigger_outcome dump u name t attr resp tm tm' nodes h \<Longrightarrow>
     \<exists>r. hd_resp h = Some r \<and> rs_src r = rs_src resp \<and> rs_dest r = rs_dest resp \<and> rs_msg r = rs_msg resp"
  unfolding trigger_outcome_def by (simp split: if_splits option.splits)

lemma process_deploy_resp:
  assumes "tm_wf tm" and "rq_attr req = Some attr" and "rq_datasource req = Some ds"
  shows "\<exists>h r. process_deploy dump u g name req resp tm nodes = Inr h \<and> hd_resp h = Some r \<and>
    rs_src r = rs_src resp \<and> rs_dest r = rs_dest resp \<and> rs_msg r = rs_msg resp"
proof (cases "\<exists>p dat. deploy_input (ds_src ds) = Some (p, dat) \<and> \<not> known tm (rq_taskid req)")
  case True
  with process_deploy_cases [OF assms, of dump u g name resp nodes] trigger_outcome_resp
  show ?thesis by fastforce
next
  case False
  with process_deploy_cases [OF assms, of dump u g name resp nodes] show ?thesis
    by (cases "deploy_input (ds_src ds)") auto
qed

lemma ignored_iff_silent:
  assumes wf: "tm_wf tm"
  shows "\<exists>h. process dump u g self name req resp tm nodes = Inr h \<and>
    (if ignored req then h = \<lparr>hd_table = tm, hd_nodes = nodes, hd_resp = None, hd_job = None\<rparr>
     else \<exists>r. hd_resp h = Some r \<and> rs_taskid r = rq_taskid req \<and> rs_src r = addr_code Addr_cluster \<and>
       rs_dest r = addr_code Addr_management \<and> rs_msg r = rq_msg req \<and>
       obj_management (rs_object r) = obj_management (rq_object req) \<and> obj_cluster (rs_object r) = Some self)"
proof (cases "ignored req")
  case True
  then show ?thesis
    by (auto simp: process_def ignored_def Let_def process_deploy_def Request_get_datasource_src_def
        Request_get_datasource_dest_def split: option.split)
next
  case False
  then obtain m where m: "obj_management (rq_object req) = Some m" by (auto simp: ignored_def)
  let ?typed = "Response_set_type resp (addr_code Addr_cluster) (addr_code Addr_management)"
  consider (deploy) "rq_msg req = msg_code Msg_deploy" | (terminate) "rq_msg req = msg_code Msg_terminate"
    | (trigger) "rq_msg req = msg_code Msg_trigger"
    using False by (auto simp: ignored_def)
  then show ?thesis
  proof cases
    case deploy
    with False obtain attr ds where "rq_attr req = Some attr" and "rq_datasource req = Some ds"
      by (auto simp: ignored_def)
    from process_deploy_resp [OF wf this, of dump u g name "?typed (msg_code Msg_deploy)" nodes]
    obtain h r where h: "process_deploy dump u g name req (?typed (msg_code Msg_deploy)) tm nodes = Inr h"
      and "hd_resp h = Some r" and "rs_src r = addr_code Addr_cluster"
      and "rs_dest r = addr_code Addr_management" and "rs_msg r = msg_code Msg_deploy"
      by auto
    with process_deploy_msg [OF False deploy h] False deploy m show ?thesis by simp
  next
    case terminate
    with False m show ?thesis
      using remove_task_Inr [OF wf, of g "rq_taskid req"] by (auto simp: process_def Let_def ignored_def)
  next
    case trigger
    with False m show ?thesis
      using submit_Inr [OF wf, of dump nodes name "rq_taskid req"]
      by (auto simp: process_def Let_def ignored_def split: option.split prod.split)
  qed
qed

text \<open>
  on a consistent table the handler never fails. It is silent, and changes nothing, exactly
  on requests that are not from a management unit to a computing unit, do not name the
  management unit's endpoint, are no deploy, terminate or trigger message, or are a deployment
  without attributes or datasource. Every other request is answered with its own task number
  and message type, to the management unit that sent it, with the server's own endpoint.
\<close>

theorem cluster_reply_frame:
  assumes "tm_wf tm"
  shows "\<exists>h. process dump u g self name req resp tm nodes = Inr h \<and>
    (if ignored req then h = \<lparr>hd_table = tm, hd_nodes = nodes, hd_resp = None, hd_job = None\<rparr>
     else \<exists>r. hd_resp h = Some r \<and> rs_taskid r = rq_taskid req \<and> rs_src r = addr_code Addr_cluster \<and>
       rs_dest r = addr_code Addr_management \<and> rs_msg r = rq_msg req \<and>
       obj_management (rs_object r) = obj_management (rq_object req) \<and> obj_cluster (rs_object r) = Some self)"
  by (rule ignored_iff_silent [OF assms])

text \<open>
  The verdict on a deployment as a function of the deployed numbers: whether the request is
  acceptable and its trigger condition can be met.
\<close>

definition deploy_verdict :: "u64 set \<Rightarrow> nodes \<Rightarrow> string \<Rightarrow> u64 \<Rightarrow> ds_src \<Rightarrow> attr \<Rightarrow> deploy_status" where
  "deploy_verdict V nodes name t src attr =
     (if deploy_input src = None \<or> t \<in> V then Dep_illegal
      else if at_trigger attr = trigger_code Trigger_create then
        (if map_of nodes name = None then Dep_err else Dep_succeed)
      else if at_trigger attr = trigger_code Trigger_deps \<and> \<not> set (at_deps attr) \<subseteq> insert t V
        then Dep_depsbroken
      else Dep_succeed)"

definition verdict_effect ::
  "u64 set \<Rightarrow> (u64 \<times> u64) set \<Rightarrow> u32 \<Rightarrow> u64 \<Rightarrow> attr \<Rightarrow> taskmanager \<Rightarrow> deploy_status \<Rightarrow> handled \<Rightarrow> deploy \<Rightarrow> bool" where
  "verdict_effect V E u t attr tm verdict h p \<longleftrightarrow>
     dp_status p = deploy_code verdict \<and>
     (if verdict = Dep_succeed
      then tm_wf (hd_table h) \<and>
        abs_table (hd_table h) = (insert t V,
          E \<union> (if at_trigger attr = trigger_code Trigger_deps then {t} \<times> set (at_deps attr) else {})) \<and>
        (hd_job h \<noteq> None \<longleftrightarrow> at_trigger attr = trigger_code Trigger_create) \<and>
        dp_taskstatus p =
          taskstatus_code (if at_trigger attr = trigger_code Trigger_create then Ts_triggered else Ts_deployed)
      else hd_table h = tm \<and> hd_job h = None \<and> dp_taskstatus p = u)"

lemma verdict_effect_resp [simp]:
  "verdict_effect V E u t attr tm v (h\<lparr>hd_resp := x\<rparr>) p = verdict_effect V E u t attr tm v h p"
  by (simp add: verdict_effect_def)

lemma trigger_verdict:
  assumes out: "trigger_outcome dump u name t attr resp tm tm' nodes h"
    and fresh: "rs_deploy resp = None" and wf: "tm_wf tm'" and abs: "abs_table tm' = (insert t V, E)"
    and ok: "deploy_input src \<noteq> None" "t \<notin> V"
  shows "\<exists>r p. hd_resp h = Some r \<and> rs_deploy r = Some p \<and>
    verdict_effect V E u t attr tm (deploy_verdict V nodes name t src attr) h p"
proof -
  have kn: "known tm' d \<longleftrightarrow> d \<in> insert t V" for d using abs by (simp add: abs_table_iff)
  consider (create) "at_trigger attr = trigger_code Trigger_create"
    | (deps) "at_trigger attr = trigger_code Trigger_deps" "set (at_deps attr) \<subseteq> insert t V"
    | (broken) "at_trigger attr = trigger_code Trigger_deps" "\<not> set (at_deps attr) \<subseteq> insert t V"
    | (manual) "at_trigger attr \<noteq> trigger_code Trigger_create" "at_trigger attr \<noteq> trigger_code Trigger_deps"
    by blast
  then show ?thesis
  proof cases
    case create
    with out ok fresh wf abs show ?thesis
      by (cases "map_of nodes name")
        (auto simp: trigger_outcome_def deploy_verdict_def verdict_effect_def deploy_new_def Manager_submit_def)
  next
    case deps
    then have "\<forall>d \<in> set (at_deps attr). known tm' d" by (auto simp: kn)
    with deps out have add: "add_deps tm' t (at_deps attr) = Inr (0, hd_table h)"
      and h: "hd_job h = None" "hd_resp h = Some (say_task u resp Dep_succeed Ts_deployed)"
      by (simp_all add: trigger_outcome_def)
    have "takeWhile (\<lambda>d. d \<in> insert t V) (at_deps attr) = at_deps attr"
      using deps(2) by (auto simp: takeWhile_eq_all_conv)
    from abs_add_deps [OF wf abs insertI1 add, unfolded this] tm_wf_add_deps [OF wf add] deps h ok fresh
    show ?thesis by (simp add: deploy_verdict_def verdict_effect_def deploy_new_def)
  next
    case broken
    then have "\<not> (\<forall>d \<in> set (at_deps attr). known tm' d)" by (auto simp: kn)
    with broken out ok fresh show ?thesis
      by (simp add: trigger_outcome_def deploy_verdict_def verdict_effect_def deploy_new_def)
  next
    case manual
    with out ok fresh wf abs show ?thesis
      by (simp add: trigger_outcome_def deploy_verdict_def verdict_effect_def deploy_new_def)
  qed
qed

lemma deployment_verdict:
  assumes wf: "tm_wf tm" and abs: "abs_table tm = (V, E)" and "\<not> ignored req"
    and deploy: "rq_msg req = msg_code Msg_deploy"
    and a: "rq_attr req = Some attr" and d: "rq_datasource req = Some ds" and fresh: "rs_deploy resp = None"
  shows "\<exists>h r p. process dump u g self name req resp tm nodes = Inr h \<and>
    hd_resp h = Some r \<and> rs_deploy r = Some p \<and>
    verdict_effect V E u (rq_taskid req) attr tm
      (deploy_verdict V nodes name (rq_taskid req) (ds_src ds) attr) h p"
proof -
  let ?t = "rq_taskid req" and ?verdict = "deploy_verdict V nodes name (rq_taskid req) (ds_src ds) attr"
  let ?resp = "Response_set_type resp (addr_code Addr_cluster) (addr_code Addr_management) (msg_code Msg_deploy)"
  have V: "?t \<in> V \<longleftrightarrow> known tm ?t" using abs by (simp add: abs_table_iff)
  obtain h where h: "process_deploy dump u g name req ?resp tm nodes = Inr h" and
    cases: "case deploy_input (ds_src ds) of
       None \<Rightarrow> hd_table h = tm \<and> hd_nodes h = nodes \<and> hd_job h = None \<and> hd_resp h = Some (say u ?resp Dep_illegal)
     | Some (p, dat) \<Rightarrow>
         if known tm ?t then
           hd_table h = tm \<and> hd_nodes h = nodes \<and> hd_job h = None \<and> hd_resp h = Some (say u ?resp Dep_illegal)
         else trigger_outcome dump u name ?t attr ?resp tm
           (snd (deploy_task tm ?t (deploy_info p dat (ds_dest ds) attr))) nodes h"
    using process_deploy_cases [OF wf a d, of dump u g name ?resp nodes] by blast
  have "\<exists>r p. hd_resp h = Some r \<and> rs_deploy r = Some p \<and> verdict_effect V E u ?t attr tm ?verdict h p"
  proof (cases "deploy_input (ds_src ds) = None \<or> known tm ?t")
    case True
    with cases V fresh show ?thesis
      by (cases "deploy_input (ds_src ds)") (auto simp: verdict_effect_def deploy_verdict_def deploy_new_def)
  next
    case False
    then obtain p dat where pd: "deploy_input (ds_src ds) = Some (p, dat)" by auto
    let ?tm = "snd (deploy_task tm ?t (deploy_info p dat (ds_dest ds) attr))"
    have out: "trigger_outcome dump u name ?t attr ?resp tm ?tm nodes h" using cases pd False by simp
    show ?thesis
      by (rule trigger_verdict [OF out _ tm_wf_deploy_task [OF wf] abs_deploy [OF wf abs]])
        (use pd False V fresh in simp_all)
  qed
  with process_deploy_msg [OF assms(3) deploy h] show ?thesis by auto
qed


text \<open>Witness data: a deployment that depends on task 7 and an unknown task.\<close>

definition sample_deploy :: "u64 \<Rightarrow> u64 list \<Rightarrow> request" where
  "sample_deploy t deps = (Request_new 2 1 2 t)\<lparr>
     rq_datasource := Some \<lparr>ds_src = \<lparr>src_input = ''in'', src_type = ''data''\<rparr>,
       ds_dest = \<lparr>dest_output = ''out'', dest_directorypolicy = 0, dest_emptypolicy = 0\<rparr>\<rparr>,
     rq_attr := Some \<lparr>at_trigger = 2, at_period = None, at_deps = deps, at_virtstorage = False\<rparr>,
     rq_object := \<lparr>obj_management = Some sample_endpoint, obj_cluster = None, obj_storage = None\<rparr>\<rparr>"

lemma sample_table_abs: "abs_table sample_table = ({7, 8}, {})"
  by (auto simp: abs_table_iff known_def waits_for_def sample_table_eval nth_Cons'
      split: if_splits option.splits)

theorem cluster_reply_frame_witness:
  "\<exists>h r. process sq_output_path 0 (Request_new 0 0 0 0) sample_server ''n'' (sample_deploy 9 [7, 8])
      (Response_new 0 0 0 0) sample_table [] = Inr h \<and> hd_resp h = Some r \<and> rs_taskid r = 9"
  using cluster_reply_frame [OF sample_table_wf, of sq_output_path 0 "Request_new 0 0 0 0" sample_server
      "''n''" "sample_deploy 9 [7, 8]" "Response_new 0 0 0 0" "[]"]
  by (auto simp: ignored_def sample_deploy_def Request_new_def)


text \<open>
  with the endpoints \<^verbatim>\<open>main\<close> gives the task table, no result is ever reported:
  the computing unit's own endpoint has no port, so \<^verbatim>\<open>remove_task\<close> takes the finished task out
  of the table and sends nothing, whatever the flags say.
\<close>

theorem main_never_reports_done:
  assumes "tm_wf tm" and "tm_client tm = tm_client (main_table cli ssl token stor port)"
    and "tm_server tm = tm_server (main_table cli ssl token stor port)"
  shows "\<exists>tm'. remove_task g tm t True = Inr (tm', None) \<and> \<not> known tm' t"
proof (cases "map_of (tm_tasks tm) t")
  case None
  then show ?thesis by (simp add: remove_task_def known_def)
next
  case (Some i)
  have "\<not> Endpoint_check (main_src_endpoint cli)"
    by (simp add: main_src_endpoint_def Endpoint_setter_defs Endpoint_check_def Endpoint_new_def known_proto_def)
  with assms remove_task_send [OF assms(1) Some, of g] show ?thesis
    by (simp add: main_table_def set_src_def set_dest_def known_def map_of_removed)
qed

theorem main_never_reports_done_witness:
  "\<exists>tm'. remove_task (Request_new 0 0 0 0)
     (snd (deploy_task (main_table ''c'' False ''tok'' ''s'' 80) 7 (sample_info ''a''))) 7 True = Inr (tm', None)"
proof -
  have "tm_wf (snd (deploy_task (main_table ''c'' False ''tok'' ''s'' 80) 7 (sample_info ''a'')))"
    by (intro tm_wf_deploy_task)
      (simp add: main_table_def set_src_def set_dest_def tm_wf_def Taskmanager_new_def positions_def)
  from main_never_reports_done [OF this, of "''c''" False "''tok''" "''s''" 80 "Request_new 0 0 0 0" 7]
  show ?thesis
    by (auto simp: deploy_task_def main_table_def set_src_def set_dest_def Let_def)
qed

text \<open>
  the server listens at the endpoint it was set up with, with the key material when it is set up for
  TLS; a setup with an incomplete endpoint is refused and keeps the old one, and \<open>stop\<close> is idempotent.
\<close>

theorem cluster_server_lifecycle:
  "(let (r, srv') = ClusterServer_setup srv ctx in
      (r = 0 \<longleftrightarrow> Endpoint_check (ts_endpoint ctx)) \<and> sv_context srv' = (if r = 0 then ctx else sv_context srv) \<and>
      (\<exists>l. sv_listening (snd (ClusterServer_start wf_start srv')) = Some l \<and>
         fst (ClusterServer_start wf_start srv') = wf_start l \<and>
         wl_host l = ep_url (ts_endpoint (sv_context srv')) \<and> wl_port l = ep_port (ts_endpoint (sv_context srv')) \<and>
         (wl_tls l \<noteq> None \<longleftrightarrow> ts_ssl (sv_context srv'))) \<and>
      sv_listening (ClusterServer_stop srv') = None \<and>
      ClusterServer_stop (ClusterServer_stop srv') = ClusterServer_stop srv')"
  by (auto simp: ClusterServer_setup_def ClusterServer_start_def ClusterServer_stop_def listen_of_def Let_def
      split: option.split)

end
