(* ===== verification/Scheduler.thy ===== *)
theory Scheduler
  imports Prelude "HOL-Library.Multiset"
begin

text \<open>
  The file-system scheduler of the storage unit, \<^verbatim>\<open>storage/fs/scheduler\<close>: services with a
  table of operations, registered under an id and in a scope, enabled and disabled, and one
  current service every file operation goes to. Services live at addresses, because the
  program keeps the same \<^verbatim>\<open>Service *\<close> in three places; \<open>'w\<close> is the state of everything behind
  the operation pointers.
\<close>

section \<open>State\<close>

record 'w operations =
  op_init :: "(nat \<Rightarrow> 'w \<Rightarrow> int \<times> 'w) option"
  op_open :: "(string \<Rightarrow> int \<Rightarrow> u32 \<Rightarrow> 'w \<Rightarrow> int \<times> 'w) option"
  op_close :: "(int \<Rightarrow> 'w \<Rightarrow> int \<times> 'w) option"
  op_write :: "(int \<Rightarrow> string \<Rightarrow> 'w \<Rightarrow> int \<times> 'w) option"
  op_read :: "(int \<Rightarrow> nat \<Rightarrow> 'w \<Rightarrow> (int \<times> string) \<times> 'w) option"
  op_seek :: "(int \<Rightarrow> int \<Rightarrow> int \<Rightarrow> 'w \<Rightarrow> int \<times> 'w) option"
  op_remove :: "(string \<Rightarrow> 'w \<Rightarrow> int \<times> 'w) option"
  op_opendir :: "(string \<Rightarrow> int \<Rightarrow> u32 \<Rightarrow> 'w \<Rightarrow> int \<times> 'w) option"
  op_mkdir :: "(string \<Rightarrow> u32 \<Rightarrow> 'w \<Rightarrow> int \<times> 'w) option"
  op_closedir :: "(int \<Rightarrow> 'w \<Rightarrow> int \<times> 'w) option"
  op_readdir :: "(string \<Rightarrow> 'w \<Rightarrow> int \<times> 'w) option"
  op_rmdir :: "(string \<Rightarrow> 'w \<Rightarrow> int \<times> 'w) option"
  op_fsize :: "(int \<Rightarrow> 'w \<Rightarrow> int \<times> 'w) option"
  op_ftrun :: "(int \<Rightarrow> int \<Rightarrow> 'w \<Rightarrow> int \<times> 'w) option"
  op_fmod :: "(int \<Rightarrow> 'w \<Rightarrow> int \<times> 'w) option"
  op_fchmod :: "(int \<Rightarrow> u32 \<Rightarrow> 'w \<Rightarrow> int \<times> 'w) option"
  op_destroy :: "('w \<Rightarrow> 'w) option"

datatype scheduling_policy = LoadBalance | Single

datatype service_range = All_services | Specified

text \<open>\<open>sv_ctx\<close> is the context pointer; 0 is null.\<close>

record 'w service =
  sv_status :: bool
  sv_scope :: string
  sv_ctx :: nat
  sv_ops :: "'w operations"

text \<open>
  \<open>sch_heap\<close> and \<open>sch_next\<close> are the allocated services and the next address \<^verbatim>\<open>new\<close> returns: no
  address is used twice, so a pointer to a deleted service points to nothing.
\<close>

record 'w sched =
  sch_heap :: "nat \<Rightarrow> 'w service option"
  sch_next :: nat
  sch_services :: "(int \<times> nat) list"
  sch_scope :: "(string \<times> nat) list"
  sch_policy :: scheduling_policy
  sch_range :: service_range
  sch_select_scope :: string
  sch_select_id :: int
  sch_current :: "nat option"

definition Service_new :: "'w operations \<Rightarrow> string \<Rightarrow> 'w service" where
  "Service_new ops scope = \<lparr>sv_status = False, sv_scope = scope, sv_ctx = 0, sv_ops = ops\<rparr>"

definition Scheduler_new :: "'w sched" where
  "Scheduler_new = \<lparr>sch_heap = Map.empty, sch_next = 0, sch_services = [], sch_scope = [],
     sch_policy = LoadBalance, sch_range = All_services, sch_select_scope = [], sch_select_id = -1,
     sch_current = None\<rparr>"

definition deref :: "'w sched \<Rightarrow> nat \<Rightarrow> 'w service cxx" where
  "deref s p = (case sch_heap s p of None \<Rightarrow> Inl Undefined_behaviour | Some sv \<Rightarrow> Inr sv)"

definition store :: "'w sched \<Rightarrow> nat \<Rightarrow> 'w service \<Rightarrow> 'w sched" where
  "store s p sv = s\<lparr>sch_heap := (sch_heap s)(p \<mapsto> sv)\<rparr>"

section \<open>Registration\<close>

definition find_service :: "'w sched \<Rightarrow> int \<Rightarrow> nat option" where
  "find_service s i = map_of (sch_services s) i"

definition register_service :: "'w sched \<Rightarrow> int \<Rightarrow> 'w operations \<Rightarrow> string \<Rightarrow> int \<times> 'w sched" where
  "register_service s i ops scope =
     (if i \<le> 0 \<or> find_service s i \<noteq> None then (-1, s)
      else (let p = sch_next s
            in (0, s\<lparr>sch_heap := (sch_heap s)(p \<mapsto> Service_new ops scope), sch_next := Suc p,
                     sch_services := umap_emplace (sch_services s) i p,
                     sch_scope := sch_scope s @ [(scope, p)]\<rparr>)))"

definition run_destroy :: "'w operations \<Rightarrow> 'w \<Rightarrow> 'w" where
  "run_destroy ops w = (case op_destroy ops of None \<Rightarrow> w | Some f \<Rightarrow> f w)"

text \<open>One id of \<open>enable_service\<close>: the status is set before \<open>init\<close> runs and taken back if it fails.\<close>

definition enable_one :: "'w sched \<Rightarrow> 'w \<Rightarrow> int \<Rightarrow> ('w sched \<times> 'w) cxx" where
  "enable_one s w i =
     (case find_service s i of
        None \<Rightarrow> Inr (s, w)
      | Some p \<Rightarrow> cxx_bind (deref s p) (\<lambda>sv.
          if sv_status sv then Inr (s, w)
          else (case op_init (sv_ops sv) of
                  None \<Rightarrow> Inr (store s p (sv\<lparr>sv_status := True\<rparr>), w)
                | Some init \<Rightarrow>
                    (let (r, w1) = init (sv_ctx sv) w
                     in if r = -1 then Inr (store s p (sv\<lparr>sv_status := False\<rparr>), run_destroy (sv_ops sv) w1)
                        else Inr (store s p (sv\<lparr>sv_status := True\<rparr>), w1)))))"

fun enable_service :: "'w sched \<Rightarrow> 'w \<Rightarrow> int list \<Rightarrow> ('w sched \<times> 'w) cxx" where
  "enable_service s w [] = Inr (s, w)"
| "enable_service s w (i # is) = cxx_bind (enable_one s w i) (\<lambda>(s', w'). enable_service s' w' is)"

definition disable_one :: "'w sched \<Rightarrow> 'w \<Rightarrow> int \<Rightarrow> ('w sched \<times> 'w) cxx" where
  "disable_one s w i =
     (case find_service s i of
        None \<Rightarrow> Inr (s, w)
      | Some p \<Rightarrow> cxx_bind (deref s p) (\<lambda>sv.
          if sv_status sv then Inr (store s p (sv\<lparr>sv_status := False\<rparr>), run_destroy (sv_ops sv) w)
          else Inr (s, w)))"

fun disable_service :: "'w sched \<Rightarrow> 'w \<Rightarrow> int list \<Rightarrow> ('w sched \<times> 'w) cxx" where
  "disable_service s w [] = Inr (s, w)"
| "disable_service s w (i # is) = cxx_bind (disable_one s w i) (\<lambda>(s', w'). disable_service s' w' is)"

text \<open>
  One id of the second loop of \<open>unload_service\<close>. The entry of the service in its scope is the first
  one in the equal range with its pointer.
\<close>

definition unload_one :: "'w sched \<Rightarrow> int \<Rightarrow> 'w sched cxx" where
  "unload_one s i =
     (case find_service s i of
        None \<Rightarrow> Inr s
      | Some p \<Rightarrow> cxx_bind (deref s p) (\<lambda>sv.
          Inr (s\<lparr>sch_scope := remove1 (sv_scope sv, p) (sch_scope s),
                 sch_heap := (sch_heap s)(p := None),
                 sch_services := umap_erase (sch_services s) i\<rparr>)))"

fun unload_loop :: "'w sched \<Rightarrow> int list \<Rightarrow> 'w sched cxx" where
  "unload_loop s [] = Inr s"
| "unload_loop s (i # is) = cxx_bind (unload_one s i) (\<lambda>s'. unload_loop s' is)"

definition unload_service :: "'w sched \<Rightarrow> 'w \<Rightarrow> int list \<Rightarrow> ('w sched \<times> 'w) cxx" where
  "unload_service s w is =
     cxx_bind (disable_service s w is) (\<lambda>(s', w'). cxx_bind (unload_loop s' is) (\<lambda>s''. Inr (s'', w')))"

definition change_scope :: "'w sched \<Rightarrow> int \<Rightarrow> string \<Rightarrow> 'w sched cxx" where
  "change_scope s i scope =
     (case find_service s i of
        None \<Rightarrow> Inr s
      | Some p \<Rightarrow> cxx_bind (deref s p) (\<lambda>sv.
          if (sv_scope sv, p) \<in> set (sch_scope s) then
            Inr ((store s p (sv\<lparr>sv_scope := scope\<rparr>))
              \<lparr>sch_scope := remove1 (sv_scope sv, p) (sch_scope s) @ [(scope, p)]\<rparr>)
          else Inr s))"

text \<open>The destructor: the operations' \<open>destroy\<close> runs for the enabled services.\<close>

fun Scheduler_destroy :: "'w sched \<Rightarrow> (int \<times> nat) list \<Rightarrow> 'w \<Rightarrow> 'w cxx" where
  "Scheduler_destroy s [] w = Inr w"
| "Scheduler_destroy s ((i, p) # ps) w =
     cxx_bind (deref s p) (\<lambda>sv.
       Scheduler_destroy s ps (if sv_status sv then run_destroy (sv_ops sv) w else w))"

section \<open>Choosing the current service\<close>

text \<open>\<open>rnd\<close> is what \<^verbatim>\<open>rand()\<close> returns.\<close>

definition Balance_Select_Service :: "nat \<Rightarrow> 'w sched \<Rightarrow> nat list \<Rightarrow> nat option cxx" where
  "Balance_Select_Service rnd s ps =
     (if ps = [] then Inr None
      else cxx_bind (cxx_map (\<lambda>p. cxx_bind (deref s p) (\<lambda>sv. Inr (p, sv_status sv))) ps) (\<lambda>qs.
        (let services = map fst (filter snd qs)
         in if services = [] then Inr None
            else cxx_bind (vec_at services (rnd mod length services)) (\<lambda>p. Inr (Some p)))))"

definition service_choose :: "nat \<Rightarrow> 'w sched \<Rightarrow> nat option cxx" where
  "service_choose rnd s =
     (case sch_policy s of
        Single \<Rightarrow> (case find_service s (sch_select_id s) of
            None \<Rightarrow> Inr None
          | Some p \<Rightarrow> cxx_bind (deref s p) (\<lambda>sv. Inr (if \<not> sv_status sv then None else Some p)))
      | LoadBalance \<Rightarrow> (case sch_range s of
            Specified \<Rightarrow> Balance_Select_Service rnd s
              (map snd (filter (\<lambda>(scope, _). scope = sch_select_scope s) (sch_scope s)))
          | All_services \<Rightarrow> Balance_Select_Service rnd s (map snd (sch_scope s))))"

definition strategy_choose ::
  "nat \<Rightarrow> 'w sched \<Rightarrow> scheduling_policy \<Rightarrow> int \<Rightarrow> service_range \<Rightarrow> string \<Rightarrow> 'w sched cxx" where
  "strategy_choose rnd s policy select_id rng scope =
     (let s1 = s\<lparr>sch_policy := policy,
                 sch_select_id := (if policy = LoadBalance then -1 else select_id),
                 sch_range := rng,
                 sch_select_scope := (if rng = All_services then [] else scope)\<rparr>
      in cxx_bind (service_choose rnd s1) (\<lambda>c. Inr (s1\<lparr>sch_current := c\<rparr>)))"

section \<open>Operations of the current service\<close>

text \<open>The macro \<^verbatim>\<open>operate\<close>: -1 without a current service or without the operation.\<close>

definition operate ::
  "'w sched \<Rightarrow> ('w operations \<Rightarrow> 'f option) \<Rightarrow> 'r \<Rightarrow> ('f \<Rightarrow> 'w \<Rightarrow> 'r \<times> 'w) \<Rightarrow> 'w \<Rightarrow> ('r \<times> 'w) cxx" where
  "operate s sel failed call w =
     (case sch_current s of
        None \<Rightarrow> Inr (failed, w)
      | Some p \<Rightarrow> cxx_bind (deref s p) (\<lambda>sv.
          (case sel (sv_ops sv) of None \<Rightarrow> Inr (failed, w) | Some f \<Rightarrow> Inr (call f w))))"

definition sched_open :: "'w sched \<Rightarrow> string \<Rightarrow> int \<Rightarrow> u32 \<Rightarrow> 'w \<Rightarrow> (int \<times> 'w) cxx" where
  "sched_open s filename flags mode = operate s op_open (-1) (\<lambda>f. f filename flags mode)"

definition sched_close :: "'w sched \<Rightarrow> int \<Rightarrow> 'w \<Rightarrow> (int \<times> 'w) cxx" where
  "sched_close s fd = operate s op_close (-1) (\<lambda>f. f fd)"

definition sched_write :: "'w sched \<Rightarrow> int \<Rightarrow> string \<Rightarrow> 'w \<Rightarrow> (int \<times> 'w) cxx" where
  "sched_write s fd buf = operate s op_write (-1) (\<lambda>f. f fd buf)"

text \<open>A read returns the bytes it put at the start of the caller's buffer.\<close>

definition sched_read :: "'w sched \<Rightarrow> int \<Rightarrow> nat \<Rightarrow> 'w \<Rightarrow> ((int \<times> string) \<times> 'w) cxx" where
  "sched_read s fd n = operate s op_read (-1, []) (\<lambda>f. f fd n)"

definition sched_seek :: "'w sched \<Rightarrow> int \<Rightarrow> int \<Rightarrow> int \<Rightarrow> 'w \<Rightarrow> (int \<times> 'w) cxx" where
  "sched_seek s fd offset whence = operate s op_seek (-1) (\<lambda>f. f fd offset whence)"

definition sched_remove :: "'w sched \<Rightarrow> string \<Rightarrow> 'w \<Rightarrow> (int \<times> 'w) cxx" where
  "sched_remove s filepath = operate s op_remove (-1) (\<lambda>f. f filepath)"

definition sched_opendir :: "'w sched \<Rightarrow> string \<Rightarrow> int \<Rightarrow> u32 \<Rightarrow> 'w \<Rightarrow> (int \<times> 'w) cxx" where
  "sched_opendir s filepath flags mode = operate s op_opendir (-1) (\<lambda>f. f filepath flags mode)"

definition sched_mkdir :: "'w sched \<Rightarrow> string \<Rightarrow> u32 \<Rightarrow> 'w \<Rightarrow> (int \<times> 'w) cxx" where
  "sched_mkdir s filepath mode = operate s op_mkdir (-1) (\<lambda>f. f filepath mode)"

definition sched_closedir :: "'w sched \<Rightarrow> int \<Rightarrow> 'w \<Rightarrow> (int \<times> 'w) cxx" where
  "sched_closedir s fd = operate s op_closedir (-1) (\<lambda>f. f fd)"

definition sched_readdir :: "'w sched \<Rightarrow> string \<Rightarrow> 'w \<Rightarrow> (int \<times> 'w) cxx" where
  "sched_readdir s filepath = operate s op_readdir (-1) (\<lambda>f. f filepath)"

definition sched_rmdir :: "'w sched \<Rightarrow> string \<Rightarrow> 'w \<Rightarrow> (int \<times> 'w) cxx" where
  "sched_rmdir s filepath = operate s op_rmdir (-1) (\<lambda>f. f filepath)"

definition sched_fsize :: "'w sched \<Rightarrow> int \<Rightarrow> 'w \<Rightarrow> (int \<times> 'w) cxx" where
  "sched_fsize s fd = operate s op_fsize (-1) (\<lambda>f. f fd)"

definition sched_ftrun :: "'w sched \<Rightarrow> int \<Rightarrow> int \<Rightarrow> 'w \<Rightarrow> (int \<times> 'w) cxx" where
  "sched_ftrun s fd len = operate s op_ftrun (-1) (\<lambda>f. f fd len)"

definition sched_fmod :: "'w sched \<Rightarrow> int \<Rightarrow> 'w \<Rightarrow> (int \<times> 'w) cxx" where
  "sched_fmod s fd = operate s op_fmod (-1) (\<lambda>f. f fd)"

definition sched_fchmod :: "'w sched \<Rightarrow> int \<Rightarrow> u32 \<Rightarrow> 'w \<Rightarrow> (int \<times> 'w) cxx" where
  "sched_fchmod s fd mode = operate s op_fchmod (-1) (\<lambda>f. f fd mode)"

lemmas sched_op_defs =
  sched_open_def sched_close_def sched_write_def sched_read_def sched_seek_def sched_remove_def
  sched_opendir_def sched_mkdir_def sched_closedir_def sched_readdir_def sched_rmdir_def
  sched_fsize_def sched_ftrun_def sched_fmod_def sched_fchmod_def

section \<open>Invariant\<close>

definition scope_of :: "'w sched \<Rightarrow> nat \<Rightarrow> string" where
  "scope_of s p = sv_scope (the (sch_heap s p))"

text \<open>
  The three places that hold a service agree: the allocated services are the registered ones,
  each under one positive id, and each has one entry in the scope map, under its own scope.
\<close>

definition sch_ok :: "'w sched \<Rightarrow> bool" where
  "sch_ok s \<longleftrightarrow> umap_ok (sch_services s) \<and> distinct (map snd (sch_services s)) \<and>
     (\<forall>(i, p) \<in> set (sch_services s). 0 < i \<and> p < sch_next s) \<and>
     dom (sch_heap s) = snd ` set (sch_services s) \<and>
     mset (sch_scope s) = image_mset (\<lambda>(i, p). (scope_of s p, p)) (mset (sch_services s))"

lemma sch_ok_new: "sch_ok Scheduler_new"
  by (simp add: sch_ok_def Scheduler_new_def)

lemma find_service_mem: "find_service s i = Some p \<Longrightarrow> (i, p) \<in> set (sch_services s)"
  by (simp add: find_service_def map_of_SomeD)

lemma sch_ok_heap: "sch_ok s \<Longrightarrow> find_service s i = Some p \<Longrightarrow> \<exists>sv. sch_heap s p = Some sv"
  using find_service_mem [of s i p] unfolding sch_ok_def by force

lemma sch_ok_find:
  assumes "sch_ok s" and "sch_heap s p = Some sv"
  obtains i where "find_service s i = Some p"
proof -
  from assms have "p \<in> snd ` set (sch_services s)" unfolding sch_ok_def by blast
  then obtain i where "(i, p) \<in> set (sch_services s)" by auto
  with assms(1) have "find_service s i = Some p" by (simp add: sch_ok_def find_service_def)
  then show thesis ..
qed

lemma find_service_inject:
  assumes "sch_ok s" and "find_service s i = Some p" and "find_service s j = Some p"
  shows "i = j"
proof -
  have "inj_on snd (set (sch_services s))" using assms(1) by (simp add: sch_ok_def distinct_map)
  from inj_onD [OF this, of "(i, p)" "(j, p)"] find_service_mem [OF assms(2)] find_service_mem [OF assms(3)]
  show ?thesis by simp
qed

lemma sch_ok_scope: "sch_ok s \<Longrightarrow> find_service s i = Some p \<Longrightarrow> (scope_of s p, p) \<in> set (sch_scope s)"
proof -
  assume ok: "sch_ok s" and "find_service s i = Some p"
  then have "(i, p) \<in># mset (sch_services s)" by (simp add: find_service_mem)
  then have "(scope_of s p, p) \<in># image_mset (\<lambda>(i, p). (scope_of s p, p)) (mset (sch_services s))"
    by force
  with ok have "(scope_of s p, p) \<in># mset (sch_scope s)" unfolding sch_ok_def by simp
  then show ?thesis by simp
qed

lemma sch_scope_iff:
  assumes "sch_ok s"
  shows "(c, p) \<in> set (sch_scope s) \<longleftrightarrow> (\<exists>sv. sch_heap s p = Some sv \<and> sv_scope sv = c)"
proof
  assume "(c, p) \<in> set (sch_scope s)"
  then have "(c, p) \<in># mset (sch_scope s)" by simp
  then have "(c, p) \<in># image_mset (\<lambda>(i, p). (scope_of s p, p)) (mset (sch_services s))"
    using assms unfolding sch_ok_def by simp
  then have "c = scope_of s p" and "p \<in> snd ` set (sch_services s)" by force+
  moreover from this assms have "p \<in> dom (sch_heap s)" unfolding sch_ok_def by simp
  ultimately show "\<exists>sv. sch_heap s p = Some sv \<and> sv_scope sv = c" by (auto simp: scope_of_def)
next
  assume "\<exists>sv. sch_heap s p = Some sv \<and> sv_scope sv = c"
  then obtain sv where sv: "sch_heap s p = Some sv" "sv_scope sv = c" by blast
  from sch_ok_find [OF assms sv(1)] obtain i where "find_service s i = Some p" .
  from sch_ok_scope [OF assms this] sv show "(c, p) \<in> set (sch_scope s)" by (simp add: scope_of_def)
qed

lemma sch_ok_store:
  assumes "sch_ok s" and "sch_heap s p = Some sv" and "sv_scope sv' = sv_scope sv"
  shows "sch_ok (store s p sv')"
proof -
  have "scope_of (store s p sv') = scope_of s"
    using assms(2,3) by (auto simp: scope_of_def store_def fun_eq_iff)
  with assms(1,2) show ?thesis unfolding sch_ok_def by (auto simp: store_def dom_def)
qed

lemma find_service_store [simp]: "find_service (store s p sv) i = find_service s i"
  by (simp add: find_service_def store_def)

subsection \<open>Registering\<close>

lemma sch_ok_register:
  assumes ok: "sch_ok s"
  shows "sch_ok (snd (register_service s i ops scope))"
proof (cases "i \<le> 0 \<or> find_service s i \<noteq> None")
  case True
  with ok show ?thesis by (simp add: register_service_def)
next
  case False
  let ?s = "snd (register_service s i ops scope)" and ?p = "sch_next s"
  have s': "?s = s\<lparr>sch_heap := (sch_heap s)(?p \<mapsto> Service_new ops scope), sch_next := Suc ?p,
      sch_services := sch_services s @ [(i, ?p)], sch_scope := sch_scope s @ [(scope, ?p)]\<rparr>"
    using False by (simp add: register_service_def umap_emplace_def find_service_def Let_def)
  have fresh: "q \<noteq> ?p" if "(j, q) \<in> set (sch_services s)" for j q
    using ok that unfolding sch_ok_def by auto
  have "image_mset (\<lambda>(j, q). (scope_of ?s q, q)) (mset (sch_services s)) =
      image_mset (\<lambda>(j, q). (scope_of s q, q)) (mset (sch_services s))"
    by (rule image_mset_cong) (auto simp: s' scope_of_def dest: fresh)
  moreover have "scope_of ?s ?p = scope" by (simp add: s' scope_of_def Service_new_def)
  ultimately have "mset (sch_scope ?s) = image_mset (\<lambda>(j, q). (scope_of ?s q, q)) (mset (sch_services ?s))"
    using ok by (simp add: s' sch_ok_def)
  moreover have "umap_ok (sch_services ?s) \<and> distinct (map snd (sch_services ?s))"
    using ok False fresh by (auto simp: s' sch_ok_def find_service_def map_of_eq_None_iff)
  moreover have "\<forall>(j, q) \<in> set (sch_services ?s). 0 < j \<and> q < sch_next ?s"
    using ok False by (auto simp: s' sch_ok_def)
  moreover have "dom (sch_heap ?s) = snd ` set (sch_services ?s)"
    using ok by (simp add: s' sch_ok_def)
  ultimately show ?thesis unfolding sch_ok_def by blast
qed

subsection \<open>Enabling and disabling\<close>

lemma deref_Inr [simp]: "sch_heap s p = Some sv \<Longrightarrow> deref s p = Inr sv"
  by (simp add: deref_def)

text \<open>What enabling does to one service.\<close>

definition enabled_service :: "'w service \<Rightarrow> 'w \<Rightarrow> 'w service \<times> 'w" where
  "enabled_service sv w =
     (if sv_status sv then (sv, w)
      else case op_init (sv_ops sv) of
             None \<Rightarrow> (sv\<lparr>sv_status := True\<rparr>, w)
           | Some init \<Rightarrow> (let (r, w1) = init (sv_ctx sv) w
               in if r = -1 then (sv, run_destroy (sv_ops sv) w1) else (sv\<lparr>sv_status := True\<rparr>, w1)))"

definition disabled_service :: "'w service \<Rightarrow> 'w \<Rightarrow> 'w service \<times> 'w" where
  "disabled_service sv w =
     (if sv_status sv then (sv\<lparr>sv_status := False\<rparr>, run_destroy (sv_ops sv) w) else (sv, w))"

lemma store_id: "sch_heap s p = Some sv \<Longrightarrow> store s p sv = s"
  by (simp add: store_def fun_upd_idem)

lemma status_id: "sv_status sv = b \<Longrightarrow> sv\<lparr>sv_status := b\<rparr> = sv"
  by simp

lemma enable_one_Inr:
  assumes "sch_heap s p = Some sv" and "find_service s i = Some p"
  shows "enable_one s w i = Inr (store s p (fst (enabled_service sv w)), snd (enabled_service sv w))"
  using assms by (auto simp: enable_one_def enabled_service_def store_id status_id split: option.split prod.split)

lemma disable_one_Inr:
  assumes "sch_heap s p = Some sv" and "find_service s i = Some p"
  shows "disable_one s w i = Inr (store s p (fst (disabled_service sv w)), snd (disabled_service sv w))"
  using assms by (auto simp: disable_one_def disabled_service_def store_id)

lemma service_scope_kept [simp]:
  "sv_scope (fst (enabled_service sv w)) = sv_scope sv" "sv_scope (fst (disabled_service sv w)) = sv_scope sv"
  by (auto simp: enabled_service_def disabled_service_def split: option.split prod.split)

lemma enable_one_ok:
  assumes "sch_ok s"
  shows "\<exists>s' w'. enable_one s w i = Inr (s', w') \<and> sch_ok s' \<and> find_service s' = find_service s \<and>
    sch_current s' = sch_current s"
proof (cases "find_service s i")
  case None
  with assms show ?thesis by (simp add: enable_one_def)
next
  case (Some p)
  with sch_ok_heap [OF assms] obtain sv where sv: "sch_heap s p = Some sv" by blast
  with Some assms show ?thesis
    by (auto simp: enable_one_Inr fun_eq_iff store_def [of _ _ "fst _"] find_service_def
        intro: sch_ok_store [unfolded store_def])
qed

lemma disable_one_ok:
  assumes "sch_ok s"
  shows "\<exists>s' w'. disable_one s w i = Inr (s', w') \<and> sch_ok s' \<and> find_service s' = find_service s \<and>
    sch_current s' = sch_current s"
proof (cases "find_service s i")
  case None
  with assms show ?thesis by (simp add: disable_one_def)
next
  case (Some p)
  with sch_ok_heap [OF assms] obtain sv where sv: "sch_heap s p = Some sv" by blast
  with Some assms show ?thesis
    by (auto simp: disable_one_Inr fun_eq_iff store_def [of _ _ "fst _"] find_service_def
        intro: sch_ok_store [unfolded store_def])
qed

lemma enable_service_ok:
  "sch_ok s \<Longrightarrow> \<exists>s' w'. enable_service s w is = Inr (s', w') \<and> sch_ok s' \<and>
     find_service s' = find_service s \<and> sch_current s' = sch_current s"
proof (induction "is" arbitrary: s w)
  case (Cons i "is")
  from enable_one_ok [OF Cons.prems, of w i] obtain s1 w1 where
    1: "enable_one s w i = Inr (s1, w1)" "sch_ok s1" "find_service s1 = find_service s" "sch_current s1 = sch_current s"
    by blast
  from Cons.IH [OF 1(2), of w1] 1 show ?case by auto
qed simp

lemma disable_service_ok:
  "sch_ok s \<Longrightarrow> \<exists>s' w'. disable_service s w is = Inr (s', w') \<and> sch_ok s' \<and>
     find_service s' = find_service s \<and> sch_current s' = sch_current s"
proof (induction "is" arbitrary: s w)
  case (Cons i "is")
  from disable_one_ok [OF Cons.prems, of w i] obtain s1 w1 where
    1: "disable_one s w i = Inr (s1, w1)" "sch_ok s1" "find_service s1 = find_service s" "sch_current s1 = sch_current s"
    by blast
  from Cons.IH [OF 1(2), of w1] 1 show ?case by auto
qed simp

subsection \<open>Unloading and changing the scope\<close>

lemma mset_umap_erase:
  "umap_ok m \<Longrightarrow> map_of m k = Some v \<Longrightarrow> mset m = add_mset (k, v) (mset (umap_erase m k))"
proof (induction m)
  case (Cons a m)
  obtain k' v' where a: "a = (k', v')" by (cases a)
  show ?case
  proof (cases "k' = k")
    case True
    with Cons.prems a have "umap_erase m k = m" by (auto simp: umap_erase_def filter_id_conv image_iff)
    with True a Cons.prems show ?thesis by (simp add: umap_erase_def)
  next
    case False
    with Cons a show ?thesis by (simp add: umap_erase_def)
  qed
qed simp

lemma set_umap_erase: "set (umap_erase m k) = {x \<in> set m. fst x \<noteq> k}"
  by (auto simp: umap_erase_def)

lemma other_services:
  assumes ok: "sch_ok s" and i: "find_service s i = Some p"
    and j: "(j, q) \<in> set (umap_erase (sch_services s) i)"
  shows "q \<noteq> p"
proof
  assume "q = p"
  from j have "(j, q) \<in> set (sch_services s)" and "j \<noteq> i" by (auto simp: set_umap_erase)
  with ok have "find_service s j = Some q" by (simp add: sch_ok_def find_service_def)
  with find_service_inject [OF ok i, of j] \<open>q = p\<close> \<open>j \<noteq> i\<close> show False by simp
qed

lemma mset_services:
  assumes ok: "sch_ok s" and i: "find_service s i = Some p"
  shows "mset (sch_services s) = add_mset (i, p) (mset (umap_erase (sch_services s) i))"
  using mset_umap_erase [of "sch_services s" i p] assms by (simp add: sch_ok_def find_service_def)

lemma mset_scope:
  assumes ok: "sch_ok s" and i: "find_service s i = Some p" and sv: "sch_heap s p = Some sv"
    and same: "\<And>q. q \<noteq> p \<Longrightarrow> sch_heap s' q = sch_heap s q"
  shows "mset (sch_scope s) = add_mset (sv_scope sv, p)
      (image_mset (\<lambda>(j, q). (scope_of s' q, q)) (mset (umap_erase (sch_services s) i)))"
proof -
  have "image_mset (\<lambda>(j, q). (scope_of s' q, q)) (mset (umap_erase (sch_services s) i)) =
      image_mset (\<lambda>(j, q). (scope_of s q, q)) (mset (umap_erase (sch_services s) i))"
    by (rule image_mset_cong) (auto simp: scope_of_def same dest: other_services [OF ok i])
  then show ?thesis
    using ok sv by (simp add: sch_ok_def mset_services [OF ok i]) (simp add: scope_of_def)
qed

lemma unload_one_Inr:
  assumes "sch_heap s p = Some sv" and "find_service s i = Some p"
  shows "unload_one s i = Inr (s\<lparr>sch_scope := remove1 (sv_scope sv, p) (sch_scope s),
    sch_heap := (sch_heap s)(p := None), sch_services := umap_erase (sch_services s) i\<rparr>)"
  using assms by (simp add: unload_one_def)

lemma sch_ok_unload_one:
  assumes ok: "sch_ok s" and i: "find_service s i = Some p" and sv: "sch_heap s p = Some sv"
  shows "sch_ok (s\<lparr>sch_scope := remove1 (sv_scope sv, p) (sch_scope s),
    sch_heap := (sch_heap s)(p := None), sch_services := umap_erase (sch_services s) i\<rparr>)" (is "sch_ok ?s")
proof -
  have u: "umap_ok (sch_services s)" and d: "distinct (map snd (sch_services s))"
    using ok by (simp_all add: sch_ok_def)
  note other = other_services [OF ok i]
  have "mset (sch_scope ?s) = image_mset (\<lambda>(j, q). (scope_of ?s q, q)) (mset (sch_services ?s))"
    using mset_scope [OF ok i sv, of ?s] by simp
  moreover have "snd ` set (sch_services s) = insert p (snd ` set (umap_erase (sch_services s) i))"
    using arg_cong [OF mset_services [OF ok i], of set_mset] by simp
  moreover have "p \<notin> snd ` set (umap_erase (sch_services s) i)" using other by force
  ultimately have "dom (sch_heap ?s) = snd ` set (sch_services ?s)"
    using ok by (simp add: sch_ok_def)
  moreover have "distinct (map snd (umap_erase (sch_services s) i))"
    using d by (simp add: umap_erase_def distinct_map inj_on_def)
  moreover have "\<forall>(j, q) \<in> set (sch_services ?s). 0 < j \<and> q < sch_next ?s"
    using ok by (auto simp: sch_ok_def set_umap_erase)
  moreover note \<open>mset (sch_scope ?s) = _\<close>
  ultimately show ?thesis using umap_ok_erase [OF u] by (simp add: sch_ok_def)
qed

lemma unload_one_ok:
  assumes "sch_ok s"
  shows "\<exists>s'. unload_one s i = Inr s' \<and> sch_ok s' \<and>
    find_service s' = (find_service s)(i := None) \<and> sch_current s' = sch_current s"
proof (cases "find_service s i")
  case None
  with assms show ?thesis by (auto simp: unload_one_def)
next
  case (Some p)
  with sch_ok_heap [OF assms] obtain sv where sv: "sch_heap s p = Some sv" by blast
  show ?thesis
    using sch_ok_unload_one [OF assms Some sv]
    by (simp add: unload_one_Inr [OF sv Some] fun_eq_iff find_service_def map_of_umap_erase)
qed

lemma unload_loop_ok:
  "sch_ok s \<Longrightarrow> \<exists>s'. unload_loop s is = Inr s' \<and> sch_ok s' \<and>
     (\<forall>i. find_service s' i = (if i \<in> set is then None else find_service s i)) \<and> sch_current s' = sch_current s"
proof (induction "is" arbitrary: s)
  case (Cons i "is")
  from unload_one_ok [OF Cons.prems, of i] obtain s1 where
    1: "unload_one s i = Inr s1" "sch_ok s1" "find_service s1 = (find_service s)(i := None)" "sch_current s1 = sch_current s"
    by blast
  from Cons.IH [OF 1(2)] 1 show ?case by auto
qed simp

lemma unload_service_ok:
  assumes "sch_ok s"
  shows "\<exists>s' w'. unload_service s w is = Inr (s', w') \<and> sch_ok s' \<and>
     (\<forall>i. find_service s' i = (if i \<in> set is then None else find_service s i)) \<and> sch_current s' = sch_current s"
proof -
  from disable_service_ok [OF assms, of w "is"] obtain s1 w1 where
    "disable_service s w is = Inr (s1, w1)" "sch_ok s1" "find_service s1 = find_service s" "sch_current s1 = sch_current s"
    by blast
  with unload_loop_ok [OF this(2), of "is"] show ?thesis by (auto simp: unload_service_def)
qed

lemma change_scope_ok:
  assumes ok: "sch_ok s"
  shows "\<exists>s'. change_scope s i scope = Inr s' \<and> sch_ok s' \<and> find_service s' = find_service s \<and>
    sch_current s' = sch_current s"
proof (cases "find_service s i")
  case None
  with ok show ?thesis by (simp add: change_scope_def)
next
  case (Some p)
  with sch_ok_heap [OF ok] obtain sv where sv: "sch_heap s p = Some sv" by blast
  let ?s = "(store s p (sv\<lparr>sv_scope := scope\<rparr>))\<lparr>sch_scope := remove1 (sv_scope sv, p) (sch_scope s) @ [(scope, p)]\<rparr>"
  have "mset (sch_scope ?s) = image_mset (\<lambda>(j, q). (scope_of ?s q, q)) (mset (sch_services ?s))"
    using mset_scope [OF ok Some sv, of ?s]
    by (simp add: store_def mset_services [OF ok Some]) (simp add: scope_of_def)
  moreover have "dom (sch_heap ?s) = snd ` set (sch_services ?s)"
    using ok sv by (auto simp: sch_ok_def store_def)
  ultimately have "sch_ok ?s" using ok by (simp add: sch_ok_def store_def)
  moreover have "(sv_scope sv, p) \<in> set (sch_scope s)" using sch_scope_iff [OF ok] sv by blast
  ultimately show ?thesis
    using Some sv by (simp add: change_scope_def) (simp add: store_def find_service_def fun_eq_iff)
qed

subsection \<open>Choosing\<close>

definition enabled :: "'w sched \<Rightarrow> nat \<Rightarrow> bool" where
  "enabled s p \<longleftrightarrow> (\<exists>sv. sch_heap s p = Some sv \<and> sv_status sv)"

lemma Balance_Select_Inr:
  assumes "\<And>p. p \<in> set ps \<Longrightarrow> sch_heap s p \<noteq> None"
  shows "Balance_Select_Service rnd s ps =
    (let es = filter (enabled s) ps in Inr (if es = [] then None else Some (es ! (rnd mod length es))))"
proof -
  have "cxx_map (\<lambda>p. cxx_bind (deref s p) (\<lambda>sv. Inr (p, sv_status sv))) ps = Inr (map (\<lambda>p. (p, enabled s p)) ps)"
  proof (rule cxx_map_Inr)
    fix p assume "p \<in> set ps"
    from assms [OF this] show "cxx_bind (deref s p) (\<lambda>sv. Inr (p, sv_status sv)) = Inr (p, enabled s p)"
      by (auto simp: enabled_def)
  qed
  moreover have "map fst (filter snd (map (\<lambda>p. (p, enabled s p)) ps)) = filter (enabled s) ps"
    by (induction ps) simp_all
  ultimately show ?thesis
    by (auto simp: Balance_Select_Service_def Let_def)
qed

text \<open>The services a load-balanced choice is made among.\<close>

definition in_reach :: "'w sched \<Rightarrow> service_range \<Rightarrow> string \<Rightarrow> nat \<Rightarrow> bool" where
  "in_reach s rng scope p \<longleftrightarrow>
     enabled s p \<and> (rng = Specified \<longrightarrow> (\<exists>sv. sch_heap s p = Some sv \<and> sv_scope sv = scope))"

definition reach_list :: "'w sched \<Rightarrow> service_range \<Rightarrow> string \<Rightarrow> nat list" where
  "reach_list s rng scope = filter (enabled s) (map snd
     (if rng = Specified then filter (\<lambda>(c, _). c = scope) (sch_scope s) else sch_scope s))"

lemma set_reach_list:
  assumes "sch_ok s"
  shows "set (reach_list s rng scope) = {p. in_reach s rng scope p}"
proof -
  have "p \<in> snd ` set (sch_scope s) \<longleftrightarrow> sch_heap s p \<noteq> None" for p
    using sch_scope_iff [OF assms] by (force simp: image_iff)
  moreover have "p \<in> snd ` (set (sch_scope s) \<inter> {x. case x of (c, _) \<Rightarrow> c = scope}) \<longleftrightarrow>
      (\<exists>sv. sch_heap s p = Some sv \<and> sv_scope sv = scope)" for p
    using sch_scope_iff [OF assms, of scope p] by force
  ultimately show ?thesis
    by (auto simp: reach_list_def in_reach_def enabled_def Collect_conj_eq [symmetric] Int_def)
qed

lemma strategy_choose_Inr:
  assumes ok: "sch_ok s"
  shows "strategy_choose rnd s policy select_id rng scope =
    Inr (s\<lparr>sch_policy := policy, sch_select_id := (if policy = LoadBalance then -1 else select_id),
           sch_range := rng, sch_select_scope := (if rng = All_services then [] else scope),
           sch_current := (case policy of
             Single \<Rightarrow> (case find_service s select_id of None \<Rightarrow> None
               | Some p \<Rightarrow> if enabled s p then Some p else None)
           | LoadBalance \<Rightarrow> (let es = reach_list s rng scope
               in if es = [] then None else Some (es ! (rnd mod length es))))\<rparr>)"
proof (cases policy)
  case Single
  show ?thesis
  proof (cases "find_service s select_id")
    case (Some p)
    with sch_ok_heap [OF ok] obtain sv where "sch_heap s p = Some sv" by blast
    with Some Single show ?thesis
      by (simp add: strategy_choose_def service_choose_def find_service_def deref_def enabled_def)
  qed (use Single in \<open>simp add: strategy_choose_def service_choose_def find_service_def\<close>)
next
  case LoadBalance
  let ?s = "s\<lparr>sch_policy := LoadBalance, sch_select_id := -1, sch_range := rng,
      sch_select_scope := (if rng = All_services then [] else scope)\<rparr>"
  let ?ps = "map snd (if rng = Specified then filter (\<lambda>(c, _). c = scope) (sch_scope s) else sch_scope s)"
  have "sch_heap ?s p \<noteq> None" if "p \<in> set ?ps" for p
    using that sch_scope_iff [OF ok] by (fastforce split: if_splits)
  then have "Balance_Select_Service rnd ?s ?ps = (let es = filter (enabled ?s) ?ps
      in Inr (if es = [] then None else Some (es ! (rnd mod length es))))"
    by (rule Balance_Select_Inr)
  moreover have "service_choose rnd ?s = Balance_Select_Service rnd ?s ?ps"
    by (cases rng) (simp_all add: service_choose_def)
  moreover have "enabled ?s = enabled s" by (simp add: enabled_def fun_eq_iff)
  ultimately have "service_choose rnd ?s = (let es = reach_list s rng scope
      in Inr (if es = [] then None else Some (es ! (rnd mod length es))))"
    by (simp only: reach_list_def)
  then show ?thesis by (simp add: LoadBalance strategy_choose_def Let_def)
qed

section \<open>Properties\<close>

text \<open>The file operations of the current service that return: they change the state behind the operations.\<close>

inductive file_call :: "'w sched \<Rightarrow> 'w \<Rightarrow> 'w \<Rightarrow> bool" for s :: "'w sched" where
  call_open: "sched_open s filename flags mode w = Inr (r, w') \<Longrightarrow> file_call s w w'"
| call_close: "sched_close s fd w = Inr (r, w') \<Longrightarrow> file_call s w w'"
| call_write: "sched_write s fd buf w = Inr (r, w') \<Longrightarrow> file_call s w w'"
| call_read: "sched_read s fd n w = Inr (rb, w') \<Longrightarrow> file_call s w w'"
| call_seek: "sched_seek s fd offset whence w = Inr (r, w') \<Longrightarrow> file_call s w w'"
| call_remove: "sched_remove s filepath w = Inr (r, w') \<Longrightarrow> file_call s w w'"
| call_opendir: "sched_opendir s filepath flags mode w = Inr (r, w') \<Longrightarrow> file_call s w w'"
| call_mkdir: "sched_mkdir s filepath mode w = Inr (r, w') \<Longrightarrow> file_call s w w'"
| call_closedir: "sched_closedir s fd w = Inr (r, w') \<Longrightarrow> file_call s w w'"
| call_readdir: "sched_readdir s filepath w = Inr (r, w') \<Longrightarrow> file_call s w w'"
| call_rmdir: "sched_rmdir s filepath w = Inr (r, w') \<Longrightarrow> file_call s w w'"
| call_fsize: "sched_fsize s fd w = Inr (r, w') \<Longrightarrow> file_call s w w'"
| call_ftrun: "sched_ftrun s fd len w = Inr (r, w') \<Longrightarrow> file_call s w w'"
| call_fmod: "sched_fmod s fd w = Inr (r, w') \<Longrightarrow> file_call s w w'"
| call_fchmod: "sched_fchmod s fd mode w = Inr (r, w') \<Longrightarrow> file_call s w w'"

text \<open>The calls a user of the scheduler can make, with the state behind the operations.\<close>

inductive sched_step :: "'w sched \<times> 'w \<Rightarrow> 'w sched \<times> 'w \<Rightarrow> bool" where
  step_register: "register_service s i ops scope = (r, s') \<Longrightarrow> sched_step (s, w) (s', w)"
| step_enable: "enable_service s w is = Inr (s', w') \<Longrightarrow> sched_step (s, w) (s', w')"
| step_disable: "disable_service s w is = Inr (s', w') \<Longrightarrow> sched_step (s, w) (s', w')"
| step_unload: "unload_service s w is = Inr (s', w') \<Longrightarrow> sched_step (s, w) (s', w')"
| step_choose: "strategy_choose rnd s policy i rng scope = Inr s' \<Longrightarrow> sched_step (s, w) (s', w)"
| step_scope: "change_scope s i scope = Inr s' \<Longrightarrow> sched_step (s, w) (s', w)"
| step_file: "file_call s w w' \<Longrightarrow> sched_step (s, w) (s, w')"

inductive_cases sched_stepE: "sched_step (s, w) (s', w')"

lemma sch_ok_upd_choice:
  "sch_ok (s\<lparr>sch_policy := a, sch_select_id := b, sch_range := c, sch_select_scope := d, sch_current := e\<rparr>) = sch_ok s"
  by (simp add: sch_ok_def scope_of_def)

lemma sched_step_ok:
  assumes "sched_step (s, w) (s', w')" and "sch_ok s"
  shows "sch_ok s'"
  using assms(1)
proof (cases rule: sched_stepE [consumes 1])
  case 1
  with sch_ok_register [OF assms(2)] show ?thesis by (metis snd_conv)
next
  case (2 ids)
  with enable_service_ok [OF assms(2), of w ids] show ?thesis by auto
next
  case (3 ids)
  with disable_service_ok [OF assms(2), of w ids] show ?thesis by auto
next
  case (4 ids)
  with unload_service_ok [OF assms(2), of w ids] show ?thesis by auto
next
  case (5 rnd policy i rng scope)
  then have "s' = s\<lparr>sch_policy := policy, sch_select_id := (if policy = LoadBalance then -1 else i),
      sch_range := rng, sch_select_scope := (if rng = All_services then [] else scope), sch_current := sch_current s'\<rparr>"
    by (auto simp: strategy_choose_Inr [OF assms(2)])
  with assms(2) show ?thesis by (metis sch_ok_upd_choice)
next
  case (6 i scope)
  with change_scope_ok [OF assms(2), of i scope] show ?thesis by auto
next
  case 7
  with assms(2) show ?thesis by simp
qed

lemma sched_reach_ok: "sched_step\<^sup>*\<^sup>* (s0, w0) (s, w) \<Longrightarrow> sch_ok s0 \<Longrightarrow> sch_ok s"
  by (induction "(s, w)" arbitrary: s w rule: rtranclp_induct) (auto intro: sched_step_ok)

text \<open>The current service has been deleted.\<close>

definition dangling :: "'w sched \<Rightarrow> bool" where
  "dangling s \<longleftrightarrow> (\<exists>p. sch_current s = Some p \<and> sch_heap s p = None)"

lemma operate_dangling:
  "operate s sel failed call w = Inl e \<longleftrightarrow> dangling s \<and> e = Undefined_behaviour"
  by (auto simp: operate_def dangling_def deref_def split: option.splits)

lemma registered_not_dangling:
  "sch_ok s \<Longrightarrow> sch_current s = Some p \<Longrightarrow> find_service s i = Some p \<Longrightarrow> \<not> dangling s"
  using sch_ok_heap [of s i p] by (auto simp: dangling_def)

lemma not_dangling_registered:
  assumes "sch_ok s" and "sch_current s = Some p" and "\<not> dangling s"
  obtains i where "find_service s i = Some p"
  using assms sch_ok_find [OF assms(1), of p] by (auto simp: dangling_def)

lemma chosen_not_dangling:
  assumes "sch_ok s" and "strategy_choose rnd s policy i rng scope = Inr s'"
  shows "\<not> dangling s'"
proof -
  have heap: "sch_heap s' = sch_heap s" using assms(2) by (auto simp: strategy_choose_Inr [OF assms(1)])
  have "enabled s p" if "sch_current s' = Some p" for p
  proof (cases policy)
    case Single
    then show ?thesis using that assms(2) by (auto simp: strategy_choose_Inr [OF assms(1)] split: option.splits if_splits)
  next
    case LoadBalance
    let ?es = "reach_list s rng scope"
    have "?es \<noteq> []" "p = ?es ! (rnd mod length ?es)"
      using that assms(2) LoadBalance by (auto simp: strategy_choose_Inr [OF assms(1)] Let_def split: if_splits)
    then have "p \<in> set ?es" by (simp add: nth_mem)
    then show ?thesis by (simp add: set_reach_list [OF assms(1)] in_reach_def)
  qed
  then show ?thesis using heap by (auto simp: dangling_def enabled_def)
qed

text \<open>Only an unloading makes the pointer dangle, and nothing but a choice changes it.\<close>

lemma sched_step_dangles:
  assumes step: "sched_step (s, w) (s', w')" and ok: "sch_ok s" and dang: "dangling s'"
  shows "sch_current s' = sch_current s \<and>
    (dangling s \<or> (\<exists>is i p. unload_service s w is = Inr (s', w') \<and> i \<in> set is \<and> find_service s i = Some p \<and> sch_current s = Some p))"
proof -
  have ok': "sch_ok s'" by (rule sched_step_ok [OF step ok])
  have kept: "dangling s" if "sch_current s' = sch_current s" "\<And>i p. find_service s i = Some p \<Longrightarrow> find_service s' i = Some p"
  proof (rule ccontr)
    assume "\<not> dangling s"
    obtain p where p: "sch_current s' = Some p" using dang by (auto simp: dangling_def)
    then have "sch_current s = Some p" using that(1) by simp
    from not_dangling_registered [OF ok this \<open>\<not> dangling s\<close>] that(2) registered_not_dangling [OF ok' p] dang
    show False by blast
  qed
  from step show ?thesis
  proof (cases rule: sched_stepE [consumes 1])
    case (1 i ops scope r)
    then have "sch_current s' = sch_current s" "\<And>j p. find_service s j = Some p \<Longrightarrow> find_service s' j = Some p"
      by (auto simp: register_service_def Let_def find_service_def umap_emplace_def split: if_splits)
    with kept show ?thesis by blast
  next
    case (2 ids)
    with enable_service_ok [OF ok, of w ids] kept show ?thesis by auto
  next
    case (3 ids)
    with disable_service_ok [OF ok, of w ids] kept show ?thesis by auto
  next
    case (4 ids)
    then have cur: "sch_current s' = sch_current s"
      and find: "\<forall>i. find_service s' i = (if i \<in> set ids then None else find_service s i)"
      using unload_service_ok [OF ok, of w ids] by auto
    have "\<exists>i p. i \<in> set ids \<and> find_service s i = Some p \<and> sch_current s = Some p" if fresh: "\<not> dangling s"
    proof -
      obtain p where p: "sch_current s = Some p" using dang cur by (auto simp: dangling_def)
      obtain i where i: "find_service s i = Some p" by (rule not_dangling_registered [OF ok p fresh])
      have "find_service s' i \<noteq> Some p"
        using registered_not_dangling [OF ok', of p i] dang p cur by auto
      with find i have "i \<in> set ids" by (metis (full_types))
      with i p show ?thesis by blast
    qed
    with 4 cur show ?thesis by blast
  next
    case (5 rnd policy i rng scope)
    with chosen_not_dangling [OF ok] dang show ?thesis by blast
  next
    case (6 i scope)
    with change_scope_ok [OF ok, of i scope] kept show ?thesis by auto
  next
    case 7
    with dang show ?thesis by simp
  qed
qed

lemma dangles_by_unload:
  assumes "sched_step\<^sup>*\<^sup>* (Scheduler_new, w0) (s, w)" and "dangling s"
  shows "\<exists>s1 w1 s2 w2 is i p. sched_step\<^sup>*\<^sup>* (Scheduler_new, w0) (s1, w1) \<and> sch_current s1 = Some p \<and>
    find_service s1 i = Some p \<and> i \<in> set is \<and> unload_service s1 w1 is = Inr (s2, w2) \<and>
    sched_step\<^sup>*\<^sup>* (s2, w2) (s, w) \<and> sch_current s = Some p"
  using assms
proof (induction "(s, w)" arbitrary: s w rule: rtranclp_induct)
  case base
  then show ?case by (simp add: dangling_def Scheduler_new_def)
next
  case (step b s w)
  obtain s0 v0 where b: "b = (s0, v0)" by (cases b)
  have ok: "sch_ok s0" using sched_reach_ok [OF step(1) [unfolded b] sch_ok_new] .
  note dangles = sched_step_dangles [OF step(2) [unfolded b] ok step(4)]
  show ?case
  proof (cases "dangling s0")
    case True
    from step(3) [OF b True] obtain s1 w1 s2 w2 ids i p where *: "sched_step\<^sup>*\<^sup>* (Scheduler_new, w0) (s1, w1)"
      "sch_current s1 = Some p" "find_service s1 i = Some p" "i \<in> set ids" "unload_service s1 w1 ids = Inr (s2, w2)"
      "sched_step\<^sup>*\<^sup>* (s2, w2) (s0, v0)" "sch_current s0 = Some p" by blast
    have "sched_step\<^sup>*\<^sup>* (s2, w2) (s, w)" using *(6) step(2) unfolding b by (rule rtranclp.rtrancl_into_rtrancl)
    moreover have "sch_current s = Some p" using dangles *(7) by simp
    ultimately show ?thesis using *(1-5) by blast
  next
    case False
    with dangles obtain ids i p where "unload_service s0 v0 ids = Inr (s, w)" "i \<in> set ids" "find_service s0 i = Some p"
      "sch_current s0 = Some p" and "sch_current s = sch_current s0" by blast
    moreover have "sched_step\<^sup>*\<^sup>* (Scheduler_new, w0) (s0, v0)" using step(1) unfolding b .
    ultimately show ?thesis by (metis rtranclp.rtrancl_refl)
  qed
qed

text \<open>
  C31: whatever sequence of calls a program makes on a fresh scheduler, the three containers that
  hold its services agree (each registered service is allocated, has one id, and one entry in the
  scope map under its own scope), and no further call to register, enable, disable, unload, choose
  or change a scope reads a deleted service. The file operations do read one exactly when the current service
  has been deleted; that happens only by unloading it, after it has been chosen, and lasts until the next choice.
\<close>

theorem scheduler_invariant:
  assumes "sched_step\<^sup>*\<^sup>* (Scheduler_new, w0) (s, w)"
  shows "sch_ok s \<and> (\<exists>x. enable_service s w ids = Inr x) \<and> (\<exists>x. disable_service s w ids = Inr x) \<and>
    (\<exists>x. unload_service s w ids = Inr x) \<and>
    (\<exists>s'. strategy_choose rnd s policy i rng scope = Inr s' \<and> (\<exists>x. operate s' sel failed call v = Inr x)) \<and>
    (\<exists>s'. change_scope s i scope = Inr s') \<and>
    (\<forall>e. operate s sel failed call v = Inl e \<longleftrightarrow> dangling s \<and> e = Undefined_behaviour) \<and>
    (dangling s \<longrightarrow> (\<exists>s1 w1 s2 w2 is i p. sched_step\<^sup>*\<^sup>* (Scheduler_new, w0) (s1, w1) \<and> sch_current s1 = Some p \<and>
       find_service s1 i = Some p \<and> i \<in> set is \<and> unload_service s1 w1 is = Inr (s2, w2) \<and>
       sched_step\<^sup>*\<^sup>* (s2, w2) (s, w) \<and> sch_current s = Some p))"
proof (intro conjI allI impI)
  show ok: "sch_ok s" by (rule sched_reach_ok [OF assms sch_ok_new])
  show "\<exists>x. enable_service s w ids = Inr x" "\<exists>x. disable_service s w ids = Inr x" "\<exists>x. unload_service s w ids = Inr x"
    "\<exists>s'. change_scope s i scope = Inr s'"
    using enable_service_ok [OF ok, of w ids] disable_service_ok [OF ok, of w ids] unload_service_ok [OF ok, of w ids]
      change_scope_ok [OF ok, of i scope] by blast+
  obtain s' where s': "strategy_choose rnd s policy i rng scope = Inr s'" by (simp add: strategy_choose_Inr [OF ok])
  with chosen_not_dangling [OF ok] have "\<not> dangling s'" by blast
  then have "\<exists>x. operate s' sel failed call v = Inr x"
    by (metis operate_dangling sum.exhaust)
  with s' show "\<exists>s'. strategy_choose rnd s policy i rng scope = Inr s' \<and> (\<exists>x. operate s' sel failed call v = Inr x)" by blast
qed (rule operate_dangling, rule dangles_by_unload [OF assms])

definition no_operations :: "'w operations" where
  "no_operations = \<lparr>op_init = None, op_open = None, op_close = None, op_write = None, op_read = None,
     op_seek = None, op_remove = None, op_opendir = None, op_mkdir = None, op_closedir = None,
     op_readdir = None, op_rmdir = None, op_fsize = None, op_ftrun = None, op_fmod = None,
     op_fchmod = None, op_destroy = None\<rparr>"

text \<open>A service that counts its initialisations in the state and a service whose initialisation fails.\<close>

definition counting :: "nat operations" where
  "counting = no_operations\<lparr>op_init := Some (\<lambda>c n. (0, Suc n)), op_close := Some (\<lambda>fd n. (fd, n))\<rparr>"

definition failing :: "nat operations" where
  "failing = no_operations\<lparr>op_init := Some (\<lambda>c n. (-1, Suc n)), op_destroy := Some (\<lambda>n. n + 10)\<rparr>"

definition sample_sched :: "nat sched" where
  "sample_sched = snd (register_service (snd (register_service Scheduler_new 1 counting ''local'')) 2 failing ''net'')"

lemma sample_sched_reach: "sched_step\<^sup>*\<^sup>* (Scheduler_new, 0) (sample_sched, 0)"
proof -
  have "sched_step (s, w) (snd (register_service s i ops scope), w)" for s :: "nat sched" and w i ops scope
    by (rule step_register [OF surjective_pairing])
  then show ?thesis
    unfolding sample_sched_def by (meson rtranclp.rtrancl_into_rtrancl rtranclp.rtrancl_refl)
qed

theorem scheduler_invariant_witness:
  "sch_ok sample_sched \<and> (\<exists>x. unload_service sample_sched 0 [2, 2, 7] = Inr x) \<and>
    (sched_close sample_sched 3 0 = Inl Undefined_behaviour \<longleftrightarrow> dangling sample_sched)"
  using scheduler_invariant [OF sample_sched_reach, where ids = "[2, 2, 7]" and rnd = 0 and policy = Single and i = 1 and rng = All_services
      and scope = "[]" and sel = op_close and failed = "-1" and call = "\<lambda>f. f 3" and v = 0]
  by (elim conjE) (simp add: sched_close_def)

text \<open>
  a strategy choice with the policy \<^verbatim>\<open>Single\<close> selects the service with the given id if it is
  registered and enabled, and no service otherwise. A load-balanced choice selects an enabled
  service in the given range if there is one, no service otherwise, and every one of them can be
  selected, depending on \<^verbatim>\<open>rand()\<close>.
\<close>

theorem strategy_choose_spec:
  assumes "sch_ok s"
  shows "\<exists>s'. strategy_choose rnd s policy i rng scope = Inr s' \<and>
    (case policy of
       Single \<Rightarrow> (\<forall>p. sch_current s' = Some p \<longleftrightarrow> find_service s i = Some p \<and> enabled s p)
     | LoadBalance \<Rightarrow>
         (\<forall>p. sch_current s' = Some p \<longrightarrow> in_reach s rng scope p) \<and>
         (sch_current s' = None \<longrightarrow> (\<forall>p. \<not> in_reach s rng scope p)) \<and>
         (\<forall>p. in_reach s rng scope p \<longrightarrow>
            (\<exists>rnd' s''. strategy_choose rnd' s policy i rng scope = Inr s'' \<and> sch_current s'' = Some p)))"
proof (cases policy)
  case Single
  then show ?thesis by (auto simp: strategy_choose_Inr [OF assms] split: option.split)
next
  case LoadBalance
  let ?es = "reach_list s rng scope"
  have es: "p \<in> set ?es \<longleftrightarrow> in_reach s rng scope p" for p by (simp add: set_reach_list [OF assms])
  have "\<exists>k. ?es \<noteq> [] \<and> ?es ! (k mod length ?es) = p" if "p \<in> set ?es" for p
    using that by (metis in_set_conv_nth list.size(3) less_nat_zero_code mod_less)
  then have every: "\<exists>rnd' s''. strategy_choose rnd' s policy i rng scope = Inr s'' \<and> sch_current s'' = Some p"
    if "in_reach s rng scope p" for p
    using that es LoadBalance by (auto simp: strategy_choose_Inr [OF assms] Let_def)
  have "?es \<noteq> [] \<Longrightarrow> ?es ! (rnd mod length ?es) \<in> set ?es"
    by (simp add: nth_mem)
  with LoadBalance have "\<exists>s'. strategy_choose rnd s policy i rng scope = Inr s' \<and>
      (\<forall>p. sch_current s' = Some p \<longrightarrow> in_reach s rng scope p) \<and>
      (sch_current s' = None \<longrightarrow> (\<forall>p. \<not> in_reach s rng scope p))"
    using es [symmetric] by (simp add: strategy_choose_Inr [OF assms] Let_def)
  with every LoadBalance show ?thesis by auto
qed

theorem strategy_choose_spec_witness:
  "\<exists>s'. strategy_choose 5 sample_sched Single 1 All_services [] = Inr s' \<and> sch_current s' = None"
proof -
  have "\<not> enabled sample_sched p" for p
    by (auto simp: enabled_def sample_sched_def register_service_def Let_def Scheduler_new_def Service_new_def
        find_service_def umap_emplace_def)
  moreover have "sch_ok sample_sched" by (rule sched_reach_ok [OF sample_sched_reach sch_ok_new])
  ultimately show ?thesis
    using strategy_choose_spec [of sample_sched 5 Single 1 All_services "[]"] by (auto simp: not_None_eq [symmetric])
qed

text \<open>
  enabling a registered service that is not enabled runs its \<open>init\<close> once; the service is enabled
  afterwards unless \<open>init\<close> returned -1, in which case its \<open>destroy\<close> has run. Listing it twice does the
  same as listing it once if \<open>init\<close> succeeds, and no other service is touched.
\<close>

theorem enable_service_spec:
  assumes "sch_ok s" and "find_service s i = Some p" and "sch_heap s p = Some sv" and "\<not> sv_status sv"
    and "op_init (sv_ops sv) = Some init" and "init (sv_ctx sv) w = (r, w1)"
  shows "\<exists>s'. enable_service s w [i] = Inr (s', if r = -1 then run_destroy (sv_ops sv) w1 else w1) \<and>
    (enabled s' p \<longleftrightarrow> r \<noteq> -1) \<and> (\<forall>q. q \<noteq> p \<longrightarrow> sch_heap s' q = sch_heap s q) \<and>
    (r \<noteq> -1 \<longrightarrow> enable_service s w [i, i] = enable_service s w [i])"
proof -
  let ?sv = "if r = -1 then sv else sv\<lparr>sv_status := True\<rparr>"
  let ?w = "if r = -1 then run_destroy (sv_ops sv) w1 else w1"
  have one: "enable_one s w i = Inr (store s p ?sv, ?w)"
    using assms by (simp add: enable_one_Inr enabled_service_def)
  have "enable_one (store s p ?sv) ?w i = Inr (store s p ?sv, ?w)" if "r \<noteq> -1"
    using that assms by (simp add: enable_one_def store_def find_service_def)
  with one assms show ?thesis by (auto simp: enabled_def store_def)
qed

theorem enable_service_spec_witness:
  "\<exists>s'. enable_service sample_sched 0 [2] = Inr (s', 11) \<and> \<not> enabled s' 1"
proof -
  have "sch_ok sample_sched" by (rule sched_reach_ok [OF sample_sched_reach sch_ok_new])
  moreover have "find_service sample_sched 2 = Some 1" "sch_heap sample_sched 1 = Some (Service_new failing ''net'')"
    by (simp_all add: sample_sched_def register_service_def Let_def Scheduler_new_def find_service_def umap_emplace_def)
  moreover have "op_init failing = Some (\<lambda>c n. (-1, Suc n))" and "run_destroy failing 1 = 11"
    by (simp_all add: failing_def run_destroy_def)
  ultimately show ?thesis
    using enable_service_spec [of sample_sched 2 1 "Service_new failing ''net''" "\<lambda>c n. (-1, Suc n)" 0 "-1" 1]
    by (auto simp: Service_new_def)
qed

text \<open>
  a choice is not revised when its service goes away. After the current service is disabled,
  every file operation still reaches it, although its \<open>destroy\<close> has run; after it is unloaded, every
  file operation reads the deleted object, until the next strategy choice.
\<close>

theorem current_service_goes_away:
  assumes "sch_ok s" and "sch_current s = Some p" and "find_service s i = Some p"
  shows "\<exists>s1 w1 s2 w2. disable_service s w [i] = Inr (s1, w1) \<and> \<not> enabled s1 p \<and>
      operate s1 sel failed call w' = operate s sel failed call w' \<and>
    unload_service s w [i] = Inr (s2, w2) \<and> operate s2 sel failed call w' = Inl Undefined_behaviour \<and>
      (\<exists>s3 x. strategy_choose rnd s2 Single i All_services scope = Inr s3 \<and> operate s3 sel failed call w' = Inr x)"
proof -
  obtain sv where sv: "sch_heap s p = Some sv" using sch_ok_heap [OF assms(1,3)] by blast
  let ?s1 = "store s p (fst (disabled_service sv w))" and ?w1 = "snd (disabled_service sv w)"
  have d: "disable_service s w [i] = Inr (?s1, ?w1)" using disable_one_Inr [OF sv assms(3), of w] by simp
  have off: "\<not> enabled ?s1 p" by (auto simp: enabled_def store_def disabled_service_def)
  have "sv_ops (fst (disabled_service sv w)) = sv_ops sv" by (simp add: disabled_service_def)
  then have same: "operate ?s1 sel failed call w' = operate s sel failed call w'"
    using assms(2) sv by (simp add: operate_def store_def deref_def)
  have find: "find_service ?s1 i = Some p" using assms(3) by simp
  have heap: "sch_heap ?s1 p = Some (fst (disabled_service sv w))" by (simp add: store_def)
  obtain s2 where u: "unload_one ?s1 i = Inr s2" and gone: "sch_heap s2 p = None" and cur: "sch_current s2 = Some p"
    using unload_one_Inr [OF heap find] assms(2) by (auto simp: store_def)
  have ul: "unload_service s w [i] = Inr (s2, ?w1)" using d u by (simp add: unload_service_def)
  have ub: "operate s2 sel failed call w' = Inl Undefined_behaviour" using cur gone by (simp add: operate_def deref_def)
  have ok2: "sch_ok s2" and "find_service s2 i = None"
    using unload_service_ok [OF assms(1), of w "[i]"] ul by auto
  then have "\<exists>s3 x. strategy_choose rnd s2 Single i All_services scope = Inr s3 \<and> operate s3 sel failed call w' = Inr x"
    by (simp add: strategy_choose_Inr [OF ok2] operate_def)
  with d off same ul ub show ?thesis by blast
qed

theorem current_service_goes_away_witness:
  "\<exists>s1 s2 w2. strategy_choose 0 (fst (case enable_service sample_sched 0 [1] of Inr x \<Rightarrow> x)) Single 1 All_services [] = Inr s1 \<and>
     unload_service s1 1 [1] = Inr (s2, w2) \<and> sched_close s2 3 0 = Inl Undefined_behaviour"
proof -
  let ?s = "fst (case enable_service sample_sched 0 [1] of Inr x \<Rightarrow> x)"
  have ok: "sch_ok sample_sched" by (rule sched_reach_ok [OF sample_sched_reach sch_ok_new])
  obtain s0 w0 where e: "enable_service sample_sched 0 [1] = Inr (s0, w0)" and ok0: "sch_ok s0"
    using enable_service_ok [OF ok, of 0 "[1]"] by blast
  have f: "find_service s0 1 = Some 0" and h: "enabled s0 0"
    using e by (auto simp: sample_sched_def register_service_def Let_def Scheduler_new_def find_service_def
        umap_emplace_def enable_one_def Service_new_def counting_def no_operations_def store_def enabled_def)
  obtain s1 where c: "strategy_choose 0 s0 Single 1 All_services [] = Inr s1" and cur: "sch_current s1 = Some 0"
    and f1: "find_service s1 1 = Some 0"
    using f h by (auto simp: strategy_choose_Inr [OF ok0] find_service_def)
  have ok1: "sch_ok s1" by (rule sched_step_ok [OF step_choose [OF c] ok0])
  obtain s2 w2 where "unload_service s1 1 [1] = Inr (s2, w2)"
    and "operate s2 op_close (-1) (\<lambda>f. f 3) 0 = Inl Undefined_behaviour"
    using current_service_goes_away [OF ok1 cur f1, of 1 op_close "-1" "\<lambda>f. f 3" 0] by blast
  with e c show ?thesis by (auto simp: sched_close_def)
qed

end
