(* ===== verification/Local_Files.thy ===== *)
theory Local_Files
  imports Scheduler
begin

unbundle bit_operations_syntax

text \<open>
  The operations of the local file system, \<^verbatim>\<open>storage/fs/local/Fileoperations.cc\<close>: thin calls of the
  operating system, whose functions are the fields of \<open>posix\<close>, with directory checks around
  \<^verbatim>\<open>close\<close> and \<^verbatim>\<open>closedir\<close> and a recursive \<^verbatim>\<open>rmdir\<close>.
\<close>

section \<open>Effects\<close>

text \<open>A call that may fail and acts on the state of the outside world.\<close>

type_synonym ('w, 'a) io = "'w \<Rightarrow> ('a \<times> 'w) cxx"

definition io_return :: "'a \<Rightarrow> ('w, 'a) io" where
  "io_return a w = Inr (a, w)"

definition io_bind :: "('w, 'a) io \<Rightarrow> ('a \<Rightarrow> ('w, 'b) io) \<Rightarrow> ('w, 'b) io" where
  "io_bind m f w = cxx_bind (m w) (\<lambda>(a, w'). f a w')"

lemma io_bind_Inr [simp]: "m w = Inr (a, w') \<Longrightarrow> io_bind m f w = f a w'"
  by (simp add: io_bind_def)

lemma io_return_apply [simp]: "io_return a w = Inr (a, w)"
  by (simp add: io_return_def)

section \<open>The operating system\<close>

text \<open>
  \<open>px_fstat\<close> gives mode and size; \<open>px_list\<close> is \<^verbatim>\<open>opendir\<close> with the entries \<^verbatim>\<open>readdir\<close>
  then delivers, each with the test \<^verbatim>\<open>d_type == DT_DIR\<close>; \<open>px_print\<close> writes a line to the standard output.
\<close>

record 'w posix =
  px_open :: "string \<Rightarrow> int \<Rightarrow> u32 \<Rightarrow> 'w \<Rightarrow> int \<times> 'w"
  px_close :: "int \<Rightarrow> 'w \<Rightarrow> int \<times> 'w"
  px_write :: "int \<Rightarrow> string \<Rightarrow> 'w \<Rightarrow> int \<times> 'w"
  px_read :: "int \<Rightarrow> nat \<Rightarrow> 'w \<Rightarrow> (int \<times> string) \<times> 'w"
  px_lseek :: "int \<Rightarrow> int \<Rightarrow> int \<Rightarrow> 'w \<Rightarrow> int \<times> 'w"
  px_unlink :: "string \<Rightarrow> 'w \<Rightarrow> int \<times> 'w"
  px_mkdir :: "string \<Rightarrow> u32 \<Rightarrow> 'w \<Rightarrow> int \<times> 'w"
  px_rmdir :: "string \<Rightarrow> 'w \<Rightarrow> int \<times> 'w"
  px_fstat :: "int \<Rightarrow> 'w \<Rightarrow> (u32 \<times> int) option"
  px_list :: "string \<Rightarrow> 'w \<Rightarrow> (string \<times> bool) list option"
  px_ftruncate :: "int \<Rightarrow> int \<Rightarrow> 'w \<Rightarrow> int \<times> 'w"
  px_fchmod :: "int \<Rightarrow> u32 \<Rightarrow> 'w \<Rightarrow> int \<times> 'w"
  px_print :: "string \<Rightarrow> 'w \<Rightarrow> 'w"

text \<open>The values of the flags, file types and limits on Linux.\<close>

definition O_RDONLY :: int where "O_RDONLY = 0"
definition O_WRONLY :: int where "O_WRONLY = 1"
definition O_CREAT :: int where "O_CREAT = 64"
definition O_EXCL :: int where "O_EXCL = 128"
definition O_APPEND :: int where "O_APPEND = 1024"
definition O_DIRECTORY :: int where "O_DIRECTORY = 65536"
definition S_IFDIR :: u32 where "S_IFDIR = 16384"
definition PATH_MAX :: nat where "PATH_MAX = 4096"

section \<open>The operations\<close>

text \<open>\<^verbatim>\<open>S_IFDIR & st.st_mode\<close>.\<close>

definition dir_bit :: "u32 \<Rightarrow> bool" where
  "dir_bit mode \<longleftrightarrow> S_IFDIR AND mode \<noteq> 0"

definition local_close :: "'w posix \<Rightarrow> int \<Rightarrow> 'w \<Rightarrow> int \<times> 'w" where
  "local_close px fd w =
     (case px_fstat px fd w of
        None \<Rightarrow> (-1, w)
      | Some (mode, _) \<Rightarrow> if dir_bit mode then (-1, w) else px_close px fd w)"

definition local_opendir :: "'w posix \<Rightarrow> string \<Rightarrow> int \<Rightarrow> u32 \<Rightarrow> 'w \<Rightarrow> int \<times> 'w" where
  "local_opendir px filename flags mode = px_open px filename (O_DIRECTORY OR flags) mode"

definition local_closedir :: "'w posix \<Rightarrow> int \<Rightarrow> 'w \<Rightarrow> int \<times> 'w" where
  "local_closedir px fd w =
     (case px_fstat px fd w of
        None \<Rightarrow> (-1, w)
      | Some (mode, _) \<Rightarrow> if dir_bit mode then px_close px fd w else (-1, w))"

definition local_readdir :: "'w posix \<Rightarrow> string \<Rightarrow> 'w \<Rightarrow> int \<times> 'w" where
  "local_readdir px filepath w =
     (case px_list px filepath w of
        None \<Rightarrow> (-1, w)
      | Some es \<Rightarrow> (0, foldl (\<lambda>w' (name, _). px_print px name w') w es))"

text \<open>
  \<^verbatim>\<open>rmdir\<close> and its loop over the entries. \<^verbatim>\<open>opendir\<close> refuses a path of \<open>PATH_MAX\<close> or more
  bytes, which bounds the recursion.
\<close>

function local_rmdir :: "'w posix \<Rightarrow> string \<Rightarrow> 'w \<Rightarrow> int \<times> 'w"
  and rmdir_entries :: "'w posix \<Rightarrow> string \<Rightarrow> (string \<times> bool) list \<Rightarrow> int \<Rightarrow> 'w \<Rightarrow> int \<times> 'w" where
  "local_rmdir px filepath w =
     (if PATH_MAX \<le> length filepath then (-1, w)
      else case px_list px filepath w of
        None \<Rightarrow> (-1, w)
      | Some es \<Rightarrow> (let (flag, w1) = rmdir_entries px filepath es 0 w;
                        (r, w2) = px_rmdir px filepath w1
                    in (flag AND r, w2)))"
| "rmdir_entries px filepath [] flag w = (flag, w)"
| "rmdir_entries px filepath ((name, is_dir) # es) flag w =
     (if name = ''.'' \<or> name = ''..'' then rmdir_entries px filepath es flag w
      else (let (r, w1) = (if is_dir then local_rmdir px (filepath @ ''/'' @ name) w
                           else px_unlink px (filepath @ ''/'' @ name) w)
            in rmdir_entries px filepath es (flag AND r) w1))"
  by pat_completeness auto

termination
  by (relation "inv_image (less_than <*lex*> less_than) (\<lambda>x. case x of
        Inl (px, path, w) \<Rightarrow> (2 * (PATH_MAX - length path), 0)
      | Inr (px, path, es, flag, w) \<Rightarrow> (2 * (PATH_MAX - length path) - 1, Suc (length es)))")
    auto

declare local_rmdir.simps [simp del] rmdir_entries.simps [simp del]

definition local_fsize :: "'w posix \<Rightarrow> int \<Rightarrow> 'w \<Rightarrow> int \<times> 'w" where
  "local_fsize px fd w = (case px_fstat px fd w of None \<Rightarrow> (-1, w) | Some (_, sz) \<Rightarrow> (sz, w))"

definition local_fmod :: "'w posix \<Rightarrow> int \<Rightarrow> 'w \<Rightarrow> int \<times> 'w" where
  "local_fmod px fd w = (case px_fstat px fd w of None \<Rightarrow> (-1, w) | Some (mode, _) \<Rightarrow> (sint mode, w))"

definition Get_local_fileoperations :: "'w posix \<Rightarrow> 'w operations" where
  "Get_local_fileoperations px = \<lparr>op_init = None, op_open = Some (px_open px),
     op_close = Some (local_close px), op_write = Some (px_write px), op_read = Some (px_read px),
     op_seek = Some (px_lseek px), op_remove = Some (px_unlink px),
     op_opendir = Some (local_opendir px), op_mkdir = Some (px_mkdir px),
     op_closedir = Some (local_closedir px), op_readdir = Some (local_readdir px),
     op_rmdir = Some (local_rmdir px), op_fsize = Some (local_fsize px),
     op_ftrun = Some (px_ftruncate px), op_fmod = Some (local_fmod px),
     op_fchmod = Some (px_fchmod px), op_destroy = None\<rparr>"

section \<open>The result of a recursive removal\<close>

lemma rmdir_entries_flag: "rmdir_entries px path es 0 w = (r, w') \<Longrightarrow> r = 0"
  by (induction es arbitrary: w) (auto simp: rmdir_entries.simps Let_def split: prod.splits if_splits)

text \<open>
  the recursive \<^verbatim>\<open>rmdir\<close> always ends, and its result says only whether the directory could be
  listed: the flag the results are and-ed into starts as 0, so that it is 0 for a listed directory
  even if no entry, nor the directory itself, could be deleted.
\<close>

theorem rmdir_result:
  "fst (local_rmdir px path w) = (if length path < PATH_MAX \<and> px_list px path w \<noteq> None then 0 else -1)"
  by (auto simp: local_rmdir.simps [of px path] Let_def dest: rmdir_entries_flag split: option.split prod.split)

end
