(* ===== verification/Datamanager.thy ===== *)
theory Datamanager
  imports Local_Files Taskdep_Endpoint
begin

text \<open>
  \<^verbatim>\<open>Datamanager\<close> of \<^verbatim>\<open>storage/datamanagement\<close>: the data of the storage unit in files below a root
  path, reached through the scheduler, and the tables that bind tasks to engines and external
  files. \<^verbatim>\<open>service_name_id\<close>, a static of the file, is an argument where it is read.
\<close>

section \<open>State\<close>

type_synonym task_engines = "(u64 \<times> (string \<times> string) \<times> engine list) list"

record 'w datamanager =
  dm_sched :: "'w sched"
  dm_root :: string
  dm_is_init :: bool
  dm_extfiles :: "(u64 \<times> extfile list) list"
  dm_engines :: task_engines

type_synonym service_names = "(string \<times> int) list"

text \<open>The constructor; the last component is the static table it adds to.\<close>

definition Datamanager_new ::
  "nat \<Rightarrow> 'w posix \<Rightarrow> service_names \<Rightarrow> 'w \<Rightarrow> ('w datamanager \<times> service_names \<times> 'w) cxx" where
  "Datamanager_new rnd px names w =
     (let (_, s1) = register_service Scheduler_new 1 (Get_local_fileoperations px) ''local''
      in cxx_bind (enable_service s1 w [1]) (\<lambda>(s2, w').
         cxx_bind (strategy_choose rnd s2 Single 1 All_services []) (\<lambda>s3.
           Inr (\<lparr>dm_sched = s3, dm_root = [], dm_is_init = False, dm_extfiles = [], dm_engines = []\<rparr>,
                umap_emplace names ''local'' 1, w'))))"

section \<open>The root directory\<close>

definition MODE_DIR :: u32 where "MODE_DIR = 0x1F8"
definition MODE_FILE :: u32 where "MODE_FILE = 0x1B0"

definition init_dirs :: "'w sched \<Rightarrow> string \<Rightarrow> bool \<Rightarrow> ('w, int) io" where
  "init_dirs s path is_new_root =
     (if is_new_root then
        io_bind (sched_mkdir s (c_str path) MODE_DIR) (\<lambda>judge.
          if judge = -1 then io_return (-1)
          else io_bind (sched_opendir s (c_str path) O_DIRECTORY MODE_DIR) (\<lambda>judge.
            if judge = -1 then io_return (-1)
            else io_bind (sched_mkdir s (c_str (path @ ''/runtime'')) MODE_DIR) (\<lambda>_.
                 io_bind (sched_mkdir s (c_str (path @ ''/engine'')) MODE_DIR) (\<lambda>_.
                 io_bind (sched_mkdir s (c_str (path @ ''/binary'')) MODE_DIR) (\<lambda>_. io_return judge)))))
      else sched_opendir s (c_str path) O_DIRECTORY MODE_DIR)"

definition Datamanager_init ::
  "'w datamanager \<Rightarrow> string \<Rightarrow> bool \<Rightarrow> ('w, int \<times> 'w datamanager) io" where
  "Datamanager_init dm path is_new_root =
     (let dm1 = dm\<lparr>dm_engines := [], dm_extfiles := []\<rparr>
      in io_bind (init_dirs (dm_sched dm) path is_new_root) (\<lambda>judge.
           if judge = -1 then io_return (-1, dm1)
           else (let dm2 = dm1\<lparr>dm_root := path\<rparr>
                 in io_bind (sched_closedir (dm_sched dm) judge) (\<lambda>_.
                      io_return (0, dm2\<lparr>dm_is_init := True\<rparr>)))))"

definition Datamanager_deinit :: "'w datamanager \<Rightarrow> ('w, 'w datamanager) io" where
  "Datamanager_deinit dm =
     (if \<not> dm_is_init dm then io_return dm
      else io_bind (sched_rmdir (dm_sched dm) (c_str (dm_root dm))) (\<lambda>_.
        io_return (dm\<lparr>dm_extfiles := [], dm_engines := [], dm_is_init := False\<rparr>)))"

definition backend_choose ::
  "nat \<Rightarrow> service_names \<Rightarrow> 'w datamanager \<Rightarrow> string \<Rightarrow> (int \<times> 'w datamanager) cxx" where
  "backend_choose rnd names dm filesystem =
     (case map_of names filesystem of
        None \<Rightarrow> Inr (-1, dm)
      | Some i \<Rightarrow> cxx_bind (strategy_choose rnd (dm_sched dm) Single i All_services []) (\<lambda>s1.
          if sch_current s1 = None then
            cxx_bind (strategy_choose rnd s1 Single 1 All_services []) (\<lambda>s2.
              Inr (-1, dm\<lparr>dm_sched := s2\<rparr>))
          else Inr (0, dm\<lparr>dm_sched := s1, dm_root := [], dm_is_init := False\<rparr>)))"

section \<open>Reading and writing files\<close>

text \<open>A 64-bit size assigned to an \<^verbatim>\<open>int\<close>.\<close>

definition int32 :: "int \<Rightarrow> int" where
  "int32 x = (x + 2 ^ 31) mod 2 ^ 32 - 2 ^ 31"

text \<open>
  The macro \<^verbatim>\<open>PULL_DATA\<close>. A string of a negative size cannot be made: the constructor throws. The
  buffer keeps its zeros where the read does not fill it.
\<close>

definition pull_data :: "'w sched \<Rightarrow> int \<Rightarrow> ('w, string) io" where
  "pull_data s fd =
     (if fd = -1 then io_return []
      else io_bind (sched_fsize s fd) (\<lambda>fsize.
        (let sz = int32 fsize
         in if sz = -1 then io_bind (sched_close s fd) (\<lambda>_. io_return [])
            else if sz < 0 then (\<lambda>w. Inl Length_error)
            else io_bind (sched_read s fd (nat sz)) (\<lambda>(r, bytes).
              if r = -1 then io_bind (sched_close s fd) (\<lambda>_. io_return [])
              else io_bind (sched_close s fd) (\<lambda>_.
                io_return (take (nat sz) (bytes @ replicate (nat sz) (CHR 0x00))))))))"

definition push_data :: "'w sched \<Rightarrow> int \<Rightarrow> string \<Rightarrow> ('w, int) io" where
  "push_data s fd dat =
     (if fd = -1 then io_return (-1)
      else io_bind (sched_write s fd dat) (\<lambda>r.
        if r = -1 then io_bind (sched_close s fd) (\<lambda>_. io_return (-1))
        else io_bind (sched_close s fd) (\<lambda>_. io_return 0)))"

definition runtime_path :: "'w datamanager \<Rightarrow> u64 \<Rightarrow> string" where
  "runtime_path dm taskid = dm_root dm @ ''/runtime/Task_'' @ to_string (unat taskid)"

definition engine_path :: "'w datamanager \<Rightarrow> string \<Rightarrow> string \<Rightarrow> string" where
  "engine_path dm mid name = dm_root dm @ ''/engine/JXTDENGINE_'' @ mid @ ''_'' @ name @ ''.so''"

definition binary_path :: "'w datamanager \<Rightarrow> string \<Rightarrow> string" where
  "binary_path dm path = dm_root dm @ ''/binary/'' @ path"

definition runtime_pull :: "'w datamanager \<Rightarrow> u64 \<Rightarrow> ('w, string) io" where
  "runtime_pull dm taskid =
     io_bind (sched_open (dm_sched dm) (c_str (runtime_path dm taskid)) O_RDONLY MODE_FILE) (pull_data (dm_sched dm))"

definition runtime_push :: "'w datamanager \<Rightarrow> u64 \<Rightarrow> string \<Rightarrow> ('w, int) io" where
  "runtime_push dm taskid runtime =
     io_bind (sched_open (dm_sched dm) (c_str (runtime_path dm taskid)) (O_CREAT OR O_WRONLY OR O_APPEND) MODE_FILE)
       (\<lambda>fd. push_data (dm_sched dm) fd runtime)"

definition runtime_remove :: "'w datamanager \<Rightarrow> u64 \<Rightarrow> ('w, int) io" where
  "runtime_remove dm taskid = sched_remove (dm_sched dm) (c_str (runtime_path dm taskid))"

definition engine_pull :: "'w datamanager \<Rightarrow> string \<Rightarrow> string \<Rightarrow> ('w, string) io" where
  "engine_pull dm mid name =
     io_bind (sched_open (dm_sched dm) (c_str (engine_path dm mid name)) O_RDONLY MODE_FILE) (pull_data (dm_sched dm))"

definition engine_push :: "'w datamanager \<Rightarrow> string \<Rightarrow> string \<Rightarrow> string \<Rightarrow> ('w, int) io" where
  "engine_push dm mid name engine =
     io_bind (sched_open (dm_sched dm) (c_str (engine_path dm mid name)) (O_WRONLY OR O_CREAT OR O_EXCL) MODE_FILE)
       (\<lambda>fd. push_data (dm_sched dm) fd engine)"

definition engine_remove :: "'w datamanager \<Rightarrow> string \<Rightarrow> string \<Rightarrow> ('w, int) io" where
  "engine_remove dm mid name = sched_remove (dm_sched dm) (c_str (engine_path dm mid name))"

definition binary_pull :: "'w datamanager \<Rightarrow> string \<Rightarrow> ('w, string) io" where
  "binary_pull dm path =
     io_bind (sched_open (dm_sched dm) (c_str (binary_path dm path)) O_RDONLY MODE_FILE) (pull_data (dm_sched dm))"

definition binary_remove :: "'w datamanager \<Rightarrow> string \<Rightarrow> ('w, int) io" where
  "binary_remove dm path = sched_remove (dm_sched dm) (c_str (binary_path dm path))"

text \<open>
  The first loop of \<open>binary_push\<close>: from the parent directory upwards to one that can be opened. The
  flag tells that there is none, and the first directory has to be made.
\<close>

lemma find_last_of_less: "find_last_of s cs = Some pos \<Longrightarrow> pos < length s"
  by (auto simp: find_last_of_def dest!: find_first_of_Some)

function find_dir :: "'w datamanager \<Rightarrow> string \<Rightarrow> ('w, string \<times> bool) io" where
  "find_dir dm path w =
     (case sched_opendir (dm_sched dm) (c_str (binary_path dm path)) O_DIRECTORY MODE_DIR w of
        Inl e \<Rightarrow> Inl e
      | Inr (fd, w1) \<Rightarrow>
          if fd \<noteq> -1 then Inr ((path, False), w1)
          else (case find_last_of path ''/'' of
                  None \<Rightarrow> Inr ((path, True), w1)
                | Some pos \<Rightarrow> find_dir dm (take pos path) w1))"
  by pat_completeness auto

termination
  by (relation "measure (\<lambda>(dm, path, w). length path)") (auto dest: find_last_of_less)

declare find_dir.simps [simp del]

text \<open>The second loop: the directories between that one and the file.\<close>

function make_dirs :: "'w datamanager \<Rightarrow> string \<Rightarrow> string \<Rightarrow> 'w \<Rightarrow> 'w cxx" where
  "make_dirs dm path substr w =
     (case find_first_of substr ''/'' of
        None \<Rightarrow> Inr w
      | Some pos \<Rightarrow>
          (case sched_mkdir (dm_sched dm) (c_str (binary_path dm (path @ take (Suc pos) substr))) MODE_DIR w of
             Inl e \<Rightarrow> Inl e
           | Inr (_, w1) \<Rightarrow> make_dirs dm (path @ take (Suc pos) substr) (drop (Suc pos) substr) w1))"
  by pat_completeness auto

termination
  by (relation "measure (\<lambda>(dm, path, substr, w). length substr)") (auto dest: find_first_of_Some)

declare make_dirs.simps [simp del]

definition make_parents :: "'w datamanager \<Rightarrow> string \<Rightarrow> ('w, unit) io" where
  "make_parents dm path =
     (case find_last_of path ''/'' of
        None \<Rightarrow> io_return ()
      | Some pos \<Rightarrow> io_bind (find_dir dm (take pos path)) (\<lambda>(path', create).
          (let substr = drop (length path' + 1) path
           in io_bind (if create then sched_mkdir (dm_sched dm) (c_str (binary_path dm path')) MODE_DIR
                       else io_return 0) (\<lambda>_ w.
                cxx_bind (make_dirs dm (path' @ ''/'') substr w) (\<lambda>w'. Inr ((), w'))))))"

definition binary_push :: "'w datamanager \<Rightarrow> string \<Rightarrow> string \<Rightarrow> ('w, int) io" where
  "binary_push dm path binary =
     io_bind (make_parents dm path) (\<lambda>_.
     io_bind (sched_open (dm_sched dm) (c_str (binary_path dm path)) (O_WRONLY OR O_CREAT OR O_EXCL) MODE_FILE)
       (\<lambda>fd. push_data (dm_sched dm) fd binary))"

section \<open>Tasks and their files\<close>

definition task_bind :: "'w datamanager \<Rightarrow> u64 \<Rightarrow> (string \<times> string) \<times> engine list \<Rightarrow> 'w datamanager" where
  "task_bind dm taskid e = dm\<lparr>dm_engines := umap_emplace (dm_engines dm) taskid e\<rparr>"

definition task_unbind :: "'w datamanager \<Rightarrow> u64 \<Rightarrow> 'w datamanager" where
  "task_unbind dm taskid = dm\<lparr>dm_engines := umap_erase (dm_engines dm) taskid\<rparr>"

definition task_exist :: "'w datamanager \<Rightarrow> u64 \<Rightarrow> bool" where
  "task_exist dm taskid \<longleftrightarrow> map_of (dm_engines dm) taskid \<noteq> None"

text \<open>The getters dereference the result of \<^verbatim>\<open>find\<close>.\<close>

definition get_task_engine :: "'w datamanager \<Rightarrow> u64 \<Rightarrow> ((string \<times> string) \<times> engine list) cxx" where
  "get_task_engine dm taskid =
     (case map_of (dm_engines dm) taskid of None \<Rightarrow> Inl Undefined_behaviour | Some e \<Rightarrow> Inr e)"

definition add_extfiles :: "'w datamanager \<Rightarrow> u64 \<Rightarrow> extfile list \<Rightarrow> 'w datamanager" where
  "add_extfiles dm taskid xs = dm\<lparr>dm_extfiles := umap_emplace (dm_extfiles dm) taskid xs\<rparr>"

definition remove_extfiles :: "'w datamanager \<Rightarrow> u64 \<Rightarrow> 'w datamanager" where
  "remove_extfiles dm taskid = dm\<lparr>dm_extfiles := umap_erase (dm_extfiles dm) taskid\<rparr>"

definition extfiles_exist :: "'w datamanager \<Rightarrow> u64 \<Rightarrow> bool" where
  "extfiles_exist dm taskid \<longleftrightarrow> map_of (dm_extfiles dm) taskid \<noteq> None"

definition get_task_extfiles :: "'w datamanager \<Rightarrow> u64 \<Rightarrow> extfile list cxx" where
  "get_task_extfiles dm taskid =
     (case map_of (dm_extfiles dm) taskid of None \<Rightarrow> Inl Undefined_behaviour | Some xs \<Rightarrow> Inr xs)"

section \<open>The tables as an interface\<close>

text \<open>
  What the server that keeps tasks in a table relies on: a first entry wins, and erasing a key
  removes it and nothing else.
\<close>

locale emplace_table =
  fixes entry :: "'t \<Rightarrow> 'k \<Rightarrow> 'v option"
    and emplace :: "'t \<Rightarrow> 'k \<Rightarrow> 'v \<Rightarrow> 't"
    and erase :: "'t \<Rightarrow> 'k \<Rightarrow> 't"
  assumes entry_emplace:
      "entry (emplace t k v) = (if entry t k = None then (entry t)(k \<mapsto> v) else entry t)"
    and entry_erase: "entry (erase t k) = (entry t)(k := None)"
begin

lemma first_wins: "entry (emplace (emplace t k v) k v') = entry (emplace t k v)"
  by (simp add: entry_emplace)

lemma erase_emplace: "entry t k = None \<Longrightarrow> entry (erase (emplace t k v) k) = entry t"
  by (auto simp: entry_emplace entry_erase fun_eq_iff)

lemma replace: "entry (emplace (erase t k) k v) = (entry t)(k \<mapsto> v)"
  by (auto simp: entry_emplace entry_erase fun_eq_iff)

lemma present_iff: "entry (emplace t k v) k' \<noteq> None \<longleftrightarrow> k' = k \<or> entry t k' \<noteq> None"
  by (auto simp: entry_emplace)

end

interpretation tasks: emplace_table "\<lambda>dm. map_of (dm_engines dm)" task_bind task_unbind
  by unfold_locales (auto simp: task_bind_def task_unbind_def umap_simps fun_eq_iff)

interpretation files: emplace_table "\<lambda>dm. map_of (dm_extfiles dm)" add_extfiles remove_extfiles
  by unfold_locales (auto simp: add_extfiles_def remove_extfiles_def umap_simps fun_eq_iff)

lemma tables_apart [simp]:
  "dm_extfiles (task_bind dm t e) = dm_extfiles dm" "dm_extfiles (task_unbind dm t) = dm_extfiles dm"
  "dm_engines (add_extfiles dm t xs) = dm_engines dm" "dm_engines (remove_extfiles dm t) = dm_engines dm"
  "dm_is_init (task_bind dm t e) = dm_is_init dm" "dm_is_init (task_unbind dm t) = dm_is_init dm"
  "dm_is_init (add_extfiles dm t xs) = dm_is_init dm" "dm_is_init (remove_extfiles dm t) = dm_is_init dm"
  "dm_sched (task_bind dm t e) = dm_sched dm" "dm_sched (task_unbind dm t) = dm_sched dm"
  "dm_sched (add_extfiles dm t xs) = dm_sched dm" "dm_sched (remove_extfiles dm t) = dm_sched dm"
  "dm_root (task_bind dm t e) = dm_root dm" "dm_root (task_unbind dm t) = dm_root dm"
  "dm_root (add_extfiles dm t xs) = dm_root dm" "dm_root (remove_extfiles dm t) = dm_root dm"
  by (simp_all add: task_bind_def task_unbind_def add_extfiles_def remove_extfiles_def)

section \<open>The scheduler of a data manager\<close>

text \<open>The current service of the scheduler offers these operations.\<close>

definition routed :: "'w sched \<Rightarrow> 'w operations \<Rightarrow> bool" where
  "routed s ops \<longleftrightarrow> (\<exists>p sv. sch_current s = Some p \<and> sch_heap s p = Some sv \<and> sv_ops sv = ops)"

lemma operate_routed:
  "routed s ops \<Longrightarrow> operate s sel failed call w =
     (case sel ops of None \<Rightarrow> Inr (failed, w) | Some f \<Rightarrow> Inr (call f w))"
  by (auto simp: routed_def operate_def deref_def)

lemmas local_ops = sched_op_defs operate_routed Get_local_fileoperations_def

lemma Datamanager_new_Inr:
  "\<exists>dm. Datamanager_new rnd px names w = Inr (dm, umap_emplace names ''local'' 1, w) \<and>
     routed (dm_sched dm) (Get_local_fileoperations px) \<and> sch_ok (dm_sched dm) \<and>
     find_service (dm_sched dm) 1 = Some 0 \<and> enabled (dm_sched dm) 0 \<and> \<not> dm_is_init dm \<and>
     dm_engines dm = [] \<and> dm_extfiles dm = [] \<and>
     (\<exists>sv. sch_heap (dm_sched dm) 0 = Some sv \<and> sv_ops sv = Get_local_fileoperations px)"
proof -
  let ?s1 = "snd (register_service Scheduler_new 1 (Get_local_fileoperations px) ''local'')"
  have ok1: "sch_ok ?s1" by (rule sch_ok_register [OF sch_ok_new])
  have f: "find_service ?s1 1 = Some 0" and h: "sch_heap ?s1 0 = Some (Service_new (Get_local_fileoperations px) ''local'')"
    by (simp_all add: register_service_def Let_def Scheduler_new_def find_service_def umap_emplace_def)
  let ?sv = "(Service_new (Get_local_fileoperations px) ''local'')\<lparr>sv_status := True\<rparr>"
  let ?s2 = "store ?s1 0 ?sv"
  have e: "enable_service ?s1 w [1] = Inr (?s2, w)"
    using enable_one_Inr [OF h f, of w]
    by (simp add: enabled_service_def Service_new_def Get_local_fileoperations_def)
  have ok2: "sch_ok ?s2" by (rule sch_ok_store [OF ok1 h]) (simp add: Service_new_def)
  have en: "enabled ?s2 0" by (simp add: enabled_def store_def)
  let ?s3 = "?s2\<lparr>sch_policy := Single, sch_select_id := 1, sch_range := All_services, sch_select_scope := [], sch_current := Some 0\<rparr>"
  have c: "strategy_choose rnd ?s2 Single 1 All_services [] = Inr ?s3"
    using f en by (simp add: strategy_choose_Inr [OF ok2])
  have "routed ?s3 (Get_local_fileoperations px)" by (simp add: routed_def store_def Service_new_def)
  moreover have "sch_ok ?s3" using ok2 by (simp add: sch_ok_upd_choice)
  moreover have "find_service ?s3 1 = Some 0" "enabled ?s3 0"
    using f by (simp_all add: find_service_def enabled_def store_def)
  moreover have "sch_heap ?s3 0 = Some ?sv" "sv_ops ?sv = Get_local_fileoperations px"
    by (simp_all add: store_def Service_new_def)
  ultimately show ?thesis
    using e c by (simp add: Datamanager_new_def split_beta)
qed

text \<open>\<^verbatim>\<open>main\<close> of the storage unit, up to the start of its servers.\<close>

definition main_storage ::
  "nat \<Rightarrow> 'w posix \<Rightarrow> string \<Rightarrow> bool \<Rightarrow> string \<Rightarrow> 'w \<Rightarrow> ('w datamanager \<times> 'w) cxx" where
  "main_storage rnd px path creat backend w =
     cxx_bind (Datamanager_new rnd px [] w) (\<lambda>(dm, names, w1).
     cxx_bind (Datamanager_init dm path creat w1) (\<lambda>((_, dm1), w2).
     cxx_bind (backend_choose rnd names dm1 backend) (\<lambda>(_, dm2). Inr (dm2, w2))))"

lemma init_dirs_Inr:
  "routed s (Get_local_fileoperations px) \<Longrightarrow> \<exists>x. init_dirs s path c w = Inr x"
  by (auto simp: init_dirs_def io_bind_def local_ops io_return_def split: prod.split)

lemma Datamanager_init_Inr:
  assumes "routed (dm_sched dm) (Get_local_fileoperations px)"
  shows "\<exists>judge w1 r w2. init_dirs (dm_sched dm) path c w = Inr (judge, w1) \<and>
    Datamanager_init dm path c w = Inr ((r, if judge = -1 then dm\<lparr>dm_engines := [], dm_extfiles := []\<rparr>
      else dm\<lparr>dm_engines := [], dm_extfiles := [], dm_root := path, dm_is_init := True\<rparr>), w2) \<and>
    r = (if judge = -1 then -1 else 0)"
proof -
  obtain judge w1 where i: "init_dirs (dm_sched dm) path c w = Inr (judge, w1)"
    using init_dirs_Inr [OF assms, of path c w] by auto
  obtain r w2 where "sched_closedir (dm_sched dm) judge w1 = Inr (r, w2)"
    using assms by (cases "local_closedir px judge w1") (simp add: local_ops)
  with i show ?thesis by (simp add: Datamanager_init_def Let_def io_bind_def io_return_def)
qed

section \<open>Properties\<close>

lemma main_storage_Inr:
  "\<exists>dm w'. main_storage rnd px path creat backend w = Inr (dm, w') \<and>
     (backend = ''local'' \<longrightarrow> \<not> dm_is_init dm \<and> dm_root dm = []) \<and>
     (dm_is_init dm \<longrightarrow> backend \<noteq> ''local'' \<and> dm_root dm = path) \<and>
     routed (dm_sched dm) (Get_local_fileoperations px)"
proof -
  obtain dm where new: "Datamanager_new rnd px [] w = Inr (dm, umap_emplace [] ''local'' 1, w)"
    and rt: "routed (dm_sched dm) (Get_local_fileoperations px)" and ok: "sch_ok (dm_sched dm)"
    and f: "find_service (dm_sched dm) 1 = Some 0" and en: "enabled (dm_sched dm) 0" and ni: "\<not> dm_is_init dm"
    and sv: "\<exists>sv. sch_heap (dm_sched dm) 0 = Some sv \<and> sv_ops sv = Get_local_fileoperations px"
    using Datamanager_new_Inr [of rnd px "[]" w] by blast
  obtain r dm1 w1 where i: "Datamanager_init dm path creat w = Inr ((r, dm1), w1)"
    and s1: "dm_sched dm1 = dm_sched dm" and p1: "dm_is_init dm1 \<longrightarrow> dm_root dm1 = path"
    using Datamanager_init_Inr [OF rt, of path creat w] ni by fastforce
  show ?thesis
  proof (cases "backend = ''local''")
    case True
    have "routed ((dm_sched dm)\<lparr>sch_policy := Single, sch_select_id := 1, sch_range := All_services,
        sch_select_scope := [], sch_current := Some 0\<rparr>) (Get_local_fileoperations px)"
      using sv by (simp add: routed_def)
    with True new i s1 f en show ?thesis
      by (simp add: main_storage_def backend_choose_def umap_emplace_def strategy_choose_Inr [OF ok])
  next
    case False
    with new i s1 p1 rt show ?thesis
      by (simp add: main_storage_def backend_choose_def umap_emplace_def)
  qed
qed

text \<open>
  \<^verbatim>\<open>main\<close> opens the root directory first and chooses the backend afterwards, and choosing a known
  backend forgets the root path and the initialisation. With the flag \<open>local\<close> (the only registered
  backend) the data manager the servers get is therefore never initialised and has an empty root
  path, even when the directory was opened; it is only initialised when the flag names an unknown
  backend.
\<close>

theorem main_storage_uninitialised:
  "\<exists>dm w'. main_storage rnd px path creat backend w = Inr (dm, w') \<and>
     (backend = ''local'' \<longrightarrow> \<not> dm_is_init dm \<and> dm_root dm = []) \<and>
     (dm_is_init dm \<longrightarrow> backend \<noteq> ''local'' \<and> dm_root dm = path) \<and>
     routed (dm_sched dm) (Get_local_fileoperations px)"
  by (rule main_storage_Inr)

text \<open>
  What the manual pages of the system calls say about regular files: \<open>content\<close> reads the file at a path,
  \<open>fd_at\<close> the path and offset of a descriptor. A write may be short.
\<close>

definition file_laws ::
  "'w posix \<Rightarrow> ('w \<Rightarrow> string \<Rightarrow> string option) \<Rightarrow> ('w \<Rightarrow> int \<Rightarrow> (string \<times> nat) option) \<Rightarrow> bool" where
  "file_laws px content fd_at \<longleftrightarrow>
     (\<forall>p m w fd w'. px_open px p (O_WRONLY OR O_CREAT OR O_EXCL) m w = (fd, w') \<longrightarrow>
        (if fd = -1 then content w' = content w
         else content w p = None \<and> content w' = (content w)(p \<mapsto> []) \<and> fd_at w' fd = Some (p, 0))) \<and>
     (\<forall>p m w fd w' c. px_open px p O_RDONLY m w = (fd, w') \<longrightarrow> content w' = content w \<and>
        (fd \<noteq> -1 \<longrightarrow> content w p = Some c \<longrightarrow> fd_at w' fd = Some (p, 0))) \<and>
     (\<forall>fd buf w r w' p c. px_write px fd buf w = (r, w') \<longrightarrow> fd_at w fd = Some (p, length c) \<longrightarrow>
        content w p = Some c \<longrightarrow>
        (if r = -1 then content w' = content w
         else 0 \<le> r \<and> r \<le> int (length buf) \<and> content w' = (content w)(p \<mapsto> c @ take (nat r) buf))) \<and>
     (\<forall>fd n w r bs w' p off c. px_read px fd n w = ((r, bs), w') \<longrightarrow> content w' = content w \<and>
        (fd_at w fd = Some (p, off) \<longrightarrow> content w p = Some c \<longrightarrow> r \<noteq> -1 \<longrightarrow> bs = take n (drop off c))) \<and>
     (\<forall>fd w p off c mode sz. px_fstat px fd w = Some (mode, sz) \<longrightarrow> fd_at w fd = Some (p, off) \<longrightarrow>
        content w p = Some c \<longrightarrow> sz = int (length c)) \<and>
     (\<forall>fd w r w'. px_close px fd w = (r, w') \<longrightarrow> content w' = content w)"

lemma file_laws_close: "file_laws px content fd_at \<Longrightarrow> local_close px fd w = (r, w') \<Longrightarrow> content w' = content w"
  unfolding file_laws_def by (auto simp: local_close_def split: option.splits if_splits)

lemma push_data_spec:
  assumes rt: "routed s (Get_local_fileoperations px)" and laws: "file_laws px content fd_at"
    and o: "px_open px p (O_WRONLY OR O_CREAT OR O_EXCL) m w = (fd, w1)"
  shows "\<exists>r w'. push_data s fd dat w1 = Inr (r, w') \<and>
    (if content w p \<noteq> None then r = -1 \<and> content w' = content w
     else r = 0 \<longrightarrow> (\<exists>k \<le> length dat. content w' = (content w)(p \<mapsto> take k dat)))"
proof (cases "fd = -1")
  case True
  with laws o have "content w1 = content w" unfolding file_laws_def by metis
  with True show ?thesis by (simp add: push_data_def io_return_def)
next
  case False
  have f: "content w p = None" "content w1 = (content w)(p \<mapsto> [])" "fd_at w1 fd = Some (p, 0)"
    using laws o False unfolding file_laws_def by metis+
  obtain r w2 where wr: "px_write px fd dat w1 = (r, w2)" by fastforce
  obtain r' w3 where cl: "local_close px fd w2 = (r', w3)" by fastforce
  have c: "content w3 = content w2" by (rule file_laws_close [OF laws cl])
  have "r = -1 \<and> content w2 = content w1 \<or> r \<noteq> -1 \<and> 0 \<le> r \<and> r \<le> int (length dat) \<and>
      content w2 = (content w1)(p \<mapsto> [] @ take (nat r) dat)"
    using laws wr f(2,3) unfolding file_laws_def by (metis fun_upd_same list.size(3))
  then show ?thesis
  proof
    assume "r = -1 \<and> content w2 = content w1"
    with False wr cl f(1) rt show ?thesis
      by (simp add: push_data_def io_bind_def local_ops io_return_def)
  next
    assume "r \<noteq> -1 \<and> 0 \<le> r \<and> r \<le> int (length dat) \<and> content w2 = (content w1)(p \<mapsto> [] @ take (nat r) dat)"
    with False wr cl c f rt show ?thesis
      by (auto simp: push_data_def io_bind_def local_ops io_return_def intro!: exI [of _ "nat r"])
  qed
qed

lemma int32_id: "0 \<le> x \<Longrightarrow> x < 2 ^ 31 \<Longrightarrow> int32 x = x"
  by (simp add: int32_def)

lemma pull_data_spec:
  assumes rt: "routed s (Get_local_fileoperations px)" and laws: "file_laws px content fd_at"
    and o: "px_open px p O_RDONLY m w = (fd, w1)" and c: "content w p = Some c" and small: "length c < 2 ^ 31"
  shows "\<exists>dat w'. pull_data s fd w1 = Inr (dat, w') \<and> (dat = [] \<or> dat = c) \<and>
    (fd \<noteq> -1 \<longrightarrow> px_fstat px fd w1 \<noteq> None \<longrightarrow> fst (fst (px_read px fd (length c) w1)) \<noteq> -1 \<longrightarrow> dat = c)"
proof (cases "fd = -1")
  case True
  then show ?thesis by (simp add: pull_data_def io_return_def)
next
  case False
  have at: "content w1 p = Some c" "fd_at w1 fd = Some (p, 0)"
    using laws o False c unfolding file_laws_def by metis+
  have close: "\<exists>r w3. sched_close s fd w2 = Inr (r, w3)" for w2
    using rt by (cases "local_close px fd w2") (simp add: local_ops)
  show ?thesis
  proof (cases "px_fstat px fd w1")
    case None
    then have sz: "sched_fsize s fd w1 = Inr (-1, w1)" using rt by (simp add: local_ops local_fsize_def)
    have "int32 (-1) = -1" by (simp add: int32_def)
    with False sz close [of w1] show ?thesis using None
      by (auto simp: pull_data_def io_bind_def io_return_def)
  next
    case (Some st)
    obtain mode sz where st: "st = (mode, sz)" by (cases st)
    with Some at laws have "sz = int (length c)" unfolding file_laws_def by metis
    then have sz: "sched_fsize s fd w1 = Inr (int (length c), w1)"
      using rt Some st by (simp add: local_ops local_fsize_def)
    have i32: "int32 (int (length c)) = int (length c)" using small by (intro int32_id) simp_all
    obtain r bs w2 where rd: "px_read px fd (length c) w1 = ((r, bs), w2)" by (metis prod.exhaust)
    have bs: "bs = take (length c) (drop 0 c)" if "r \<noteq> -1"
      using laws rd at that unfolding file_laws_def by metis
    have "sched_read s fd (length c) w1 = Inr ((r, bs), w2)" using rt rd by (simp add: local_ops)
    with False sz i32 bs close [of w2] rd show ?thesis
      by (cases "r = -1") (auto simp: pull_data_def Let_def io_bind_def io_return_def)
  qed
qed

text \<open>
  C32: on a file system that behaves as documented, storing an engine never overwrites: it returns -1
  and changes no file if the path exists; and if it returns 0, the file holds a prefix of the
  data (all of it unless the write was short, which is not noticed) and no other file is changed.
  Reading the engine back, at any later time at which the file is unchanged, returns that content
  or, when the system cannot open or read the file, the empty string.
\<close>

theorem engine_store_and_load:
  assumes "routed (dm_sched dm) (Get_local_fileoperations px)" and "file_laws px content fd_at"
    and "length dat < 2 ^ 31"
  shows "\<exists>r w1. engine_push dm mid name dat w = Inr (r, w1) \<and>
    (if content w (c_str (engine_path dm mid name)) \<noteq> None then r = -1 \<and> content w1 = content w
     else r = 0 \<longrightarrow> (\<exists>k \<le> length dat.
       content w1 = (content w)(c_str (engine_path dm mid name) \<mapsto> take k dat) \<and>
       (\<forall>w2. content w2 (c_str (engine_path dm mid name)) = Some (take k dat) \<longrightarrow>
         (\<exists>out w3. engine_pull dm mid name w2 = Inr (out, w3) \<and> (out = [] \<or> out = take k dat)))))"
proof -
  let ?p = "c_str (engine_path dm mid name)"
  obtain fd w0 where o: "px_open px ?p (O_WRONLY OR O_CREAT OR O_EXCL) MODE_FILE w = (fd, w0)" by fastforce
  obtain r w1 where push: "push_data (dm_sched dm) fd dat w0 = Inr (r, w1)"
    and spec: "if content w ?p \<noteq> None then r = -1 \<and> content w1 = content w
      else r = 0 \<longrightarrow> (\<exists>k \<le> length dat. content w1 = (content w)(?p \<mapsto> take k dat))"
    using push_data_spec [OF assms(1,2) o, of dat] by blast
  have pull: "\<exists>out w3. engine_pull dm mid name w2 = Inr (out, w3) \<and> (out = [] \<or> out = take k dat)"
    if c: "content w2 ?p = Some (take k dat)" for w2 k
  proof -
    obtain fd2 w3 where o2: "px_open px ?p O_RDONLY MODE_FILE w2 = (fd2, w3)" by fastforce
    have "length (take k dat) < 2 ^ 31" using assms(3) by (simp add: min_less_iff_disj)
    from pull_data_spec [OF assms(1,2) o2 c this] o2 assms(1) show ?thesis
      by (auto simp: engine_pull_def io_bind_def local_ops)
  qed
  have "engine_push dm mid name dat w = Inr (r, w1)"
    using o push assms(1) by (simp add: engine_push_def io_bind_def local_ops)
  with spec pull show ?thesis by (auto split: if_splits)
qed

text \<open>
  a file of 2 GiB or more cannot be read back: its size does not fit the \<^verbatim>\<open>int\<close> it is assigned to. From
  2^31 on the size is negative and making the buffer throws; a file of exactly 2^32 bytes reads as
  empty and one of 2^32 - 1 bytes counts as an error.
\<close>

theorem pull_size_bounds:
  assumes "routed s (Get_local_fileoperations px)" and "fd \<noteq> -1" and "px_fstat px fd w = Some (mode, sz)"
  shows "(2 ^ 31 \<le> sz \<and> sz < 2 ^ 32 - 1 \<longrightarrow> pull_data s fd w = Inl Length_error) \<and>
    (sz \<in> {2 ^ 32 - 1, 2 ^ 32} \<longrightarrow> (\<exists>w'. pull_data s fd w = Inr ([], w')))"
proof -
  have size: "sched_fsize s fd w = Inr (sz, w)" using assms(1,3) by (simp add: local_ops local_fsize_def)
  have close: "\<exists>r w3. sched_close s fd w2 = Inr (r, w3)" for w2
    using assms(1) by (cases "local_close px fd w2") (simp add: local_ops)
  have "int32 sz = sz - 2 ^ 32" if "2 ^ 31 \<le> sz" "sz < 2 ^ 32"
  proof -
    have "(sz + 2 ^ 31) mod 2 ^ 32 = (sz + 2 ^ 31 - 2 ^ 32) mod 2 ^ 32"
      by (rule minus_mod_self2 [symmetric])
    also have "\<dots> = sz + 2 ^ 31 - 2 ^ 32" using that by (intro mod_pos_pos_trivial) simp_all
    finally show ?thesis by (simp add: int32_def)
  qed
  then have "pull_data s fd w = Inl Length_error" if "2 ^ 31 \<le> sz" "sz < 2 ^ 32 - 1"
    using that size assms(2) by (simp add: pull_data_def io_bind_def)
  moreover have "\<exists>w'. pull_data s fd w = Inr ([], w')" if "sz = 2 ^ 32 - 1"
    using that size assms(2) close [of w] by (auto simp: pull_data_def io_bind_def int32_def io_return_def)
  moreover have "\<exists>w'. pull_data s fd w = Inr ([], w')" if z: "sz = 2 ^ 32"
  proof -
    obtain r bs w2 where rd: "px_read px fd 0 w = ((r, bs), w2)" by (metis prod.exhaust)
    then have "sched_read s fd 0 w = Inr ((r, bs), w2)" using assms(1) by (simp add: local_ops)
    with z size assms(2) close [of w2] show ?thesis
      by (cases "r = -1") (auto simp: pull_data_def io_bind_def int32_def io_return_def)
  qed
  ultimately show ?thesis by blast
qed

text \<open>
  each task has its own runtime file. Engines have their own files as long as the module ids contain
  no underscore; in general two engines share a file exactly when id, underscore and name read the
  same together.
\<close>

theorem file_names:
  "(runtime_path dm t = runtime_path dm t' \<longleftrightarrow> t = t') \<and>
   (engine_path dm m n = engine_path dm m' n' \<longleftrightarrow> m @ ''_'' @ n = m' @ ''_'' @ n') \<and>
   (CHR ''_'' \<notin> set m \<union> set m' \<longrightarrow> (engine_path dm m n = engine_path dm m' n' \<longleftrightarrow> m = m' \<and> n = n')) \<and>
   engine_path dm ''a_b'' ''c'' = engine_path dm ''a'' ''b_c''"
proof -
  have "m = m' \<and> n = n'" if "CHR ''_'' \<notin> set m \<union> set m'" "m @ ''_'' @ n = m' @ ''_'' @ n'"
    using that by (auto simp: append_eq_append_conv2 append_eq_Cons_conv Cons_eq_append_conv)
  moreover have "engine_path dm m n = engine_path dm m' n' \<longleftrightarrow> m @ ''_'' @ n = m' @ ''_'' @ n'"
    by (simp add: engine_path_def)
  ultimately show ?thesis
    by (auto simp: runtime_path_def to_string_inj engine_path_def word_unat_eq_iff)
qed

section \<open>A file system in memory\<close>

text \<open>A concrete instance of the operating system: files by path, descriptors with path and offset.\<close>

type_synonym mem = "(string \<Rightarrow> string option) \<times> (int \<Rightarrow> (string \<times> nat) option)"

definition mem_open :: "string \<Rightarrow> int \<Rightarrow> u32 \<Rightarrow> mem \<Rightarrow> int \<times> mem" where
  "mem_open p flags mode w =
     (if flags = O_RDONLY \<longleftrightarrow> fst w p = None then (-1, w)
      else (3, if flags = O_RDONLY then fst w else (fst w)(p \<mapsto> []), (snd w)(3 \<mapsto> (p, 0))))"

definition mem_write :: "int \<Rightarrow> string \<Rightarrow> mem \<Rightarrow> int \<times> mem" where
  "mem_write fd buf w =
     (case snd w fd of None \<Rightarrow> (-1, w)
      | Some (p, off) \<Rightarrow> (case fst w p of None \<Rightarrow> (-1, w)
          | Some c \<Rightarrow> (int (length buf), (fst w)(p \<mapsto> take off c @ buf), (snd w)(fd \<mapsto> (p, off + length buf)))))"

definition mem_read :: "int \<Rightarrow> nat \<Rightarrow> mem \<Rightarrow> (int \<times> string) \<times> mem" where
  "mem_read fd n w =
     (case snd w fd of None \<Rightarrow> ((-1, []), w)
      | Some (p, off) \<Rightarrow> (case fst w p of None \<Rightarrow> ((-1, []), w)
          | Some c \<Rightarrow> (let bs = take n (drop off c) in ((int (length bs), bs), w))))"

definition mem_fstat :: "int \<Rightarrow> mem \<Rightarrow> (u32 \<times> int) option" where
  "mem_fstat fd w =
     (case snd w fd of None \<Rightarrow> None
      | Some (p, off) \<Rightarrow> map_option (\<lambda>c. (0x8000, int (length c))) (fst w p))"

definition mem_posix :: "mem posix" where
  "mem_posix = \<lparr>px_open = mem_open, px_close = (\<lambda>fd w. (0, w)), px_write = mem_write, px_read = mem_read,
     px_lseek = (\<lambda>fd off wh w. (-1, w)), px_unlink = (\<lambda>p w. (0, (fst w)(p := None), snd w)),
     px_mkdir = (\<lambda>p m w. (0, w)), px_rmdir = (\<lambda>p w. (0, w)), px_fstat = mem_fstat,
     px_list = (\<lambda>p w. Some []), px_ftruncate = (\<lambda>fd n w. (-1, w)), px_fchmod = (\<lambda>fd m w. (-1, w)),
     px_print = (\<lambda>s w. w)\<rparr>"

lemma mem_posix_laws: "file_laws mem_posix fst snd"
  unfolding file_laws_def
proof (intro conjI allI impI)
  fix p m w fd w' assume "px_open mem_posix p (O_WRONLY OR O_CREAT OR O_EXCL) m w = (fd, w')"
  moreover have "O_WRONLY OR O_CREAT OR O_EXCL \<noteq> O_RDONLY"
    by (simp add: O_WRONLY_def O_CREAT_def O_EXCL_def O_RDONLY_def)
  ultimately show "if fd = -1 then fst w' = fst w
      else fst w p = None \<and> fst w' = (fst w)(p \<mapsto> []) \<and> snd w' fd = Some (p, 0)"
    by (auto simp: mem_posix_def mem_open_def split: if_splits)
qed (auto simp: mem_posix_def mem_open_def mem_write_def mem_read_def mem_fstat_def Let_def split: if_splits option.splits)

definition mem_manager :: "mem datamanager" where
  "mem_manager = fst (case Datamanager_new 0 mem_posix [] (Map.empty, Map.empty) of Inr x \<Rightarrow> x)"

lemma mem_manager_routed: "routed (dm_sched mem_manager) (Get_local_fileoperations mem_posix)"
  using Datamanager_new_Inr [of 0 mem_posix "[]" "(Map.empty, Map.empty)"] by (auto simp: mem_manager_def)

lemma stored_part:
  "(if c then A else r = (0::int) \<longrightarrow> (\<exists>k \<le> (n::nat). B k \<and> C k)) \<Longrightarrow> \<not> c \<Longrightarrow> r = 0 \<longrightarrow> (\<exists>k \<le> n. B k)"
  by auto

theorem engine_store_and_load_witness:
  "\<exists>r w1. engine_push mem_manager ''m'' ''n'' ''code'' (Map.empty, Map.empty) = Inr (r, w1) \<and>
     (r = 0 \<longrightarrow> (\<exists>k \<le> length ''code''. fst w1 = [c_str (engine_path mem_manager ''m'' ''n'') \<mapsto> take k ''code'']))"
proof -
  have len: "length ''code'' < 2 ^ 31" by simp
  show ?thesis
    using engine_store_and_load [OF mem_manager_routed mem_posix_laws len, of "''m''" "''n''" "(Map.empty, Map.empty)"]
    by (elim exE conjE) (drule stored_part, simp, intro exI conjI, assumption, simp only: fst_conv)
qed

theorem main_storage_uninitialised_witness:
  "\<exists>dm w'. main_storage 0 mem_posix ''/root'' False ''local'' (Map.empty, Map.empty) = Inr (dm, w') \<and>
     \<not> dm_is_init dm \<and> dm_root dm = []"
  using main_storage_uninitialised [of 0 mem_posix "''/root''" False "''local''" "(Map.empty, Map.empty)"] by blast

theorem pull_size_bounds_witness:
  "pull_data (dm_sched (fst (case Datamanager_new 0 (mem_posix\<lparr>px_fstat := \<lambda>fd w. Some (0, 3000000000)\<rparr>) [] (Map.empty, Map.empty)
     of Inr x \<Rightarrow> x))) 3 (Map.empty, Map.empty) = Inl Length_error"
proof -
  let ?px = "mem_posix\<lparr>px_fstat := \<lambda>fd w. Some (0, 3000000000)\<rparr>"
  let ?dm = "fst (case Datamanager_new 0 ?px [] (Map.empty, Map.empty) of Inr x \<Rightarrow> x)"
  have "routed (dm_sched ?dm) (Get_local_fileoperations ?px)"
    using Datamanager_new_Inr [of 0 ?px "[]" "(Map.empty, Map.empty)"] by auto
  from pull_size_bounds [OF this, of 3 "(Map.empty, Map.empty)" 0 3000000000] show ?thesis by simp
qed

theorem file_names_witness:
  "engine_path mem_manager ''a'' ''b'' \<noteq> engine_path mem_manager ''a'' ''c'' \<and>
   runtime_path mem_manager 1 \<noteq> runtime_path mem_manager 11"
proof -
  have n: "CHR ''_'' \<notin> set ''a'' \<union> set ''a''" by simp
  show ?thesis
    using file_names [of mem_manager 1 11 "''a''" "''b''" "''a''" "''c''"] n by simp
qed

end
