(* ===== verification/Storage_Taskdep.thy ===== *)
theory Storage_Taskdep
  imports Datamanager Taskdep_Message Taskdep_Server
begin

text \<open>
  The task-deployment server of the storage unit, \<^verbatim>\<open>StorageServer\<close> of \<^verbatim>\<open>storage/taskdep\<close>: the
  handler of negotiations and terminations from a management unit and of the \<open>done\<close> messages of a
  computing unit. The data manager keeps the tables and the engine files. The mutex the handler
  takes makes the accesses to the tables of one request a single step.
\<close>

section \<open>The server object\<close>

definition StorageServer_setup :: "taskdep_server \<Rightarrow> taskdep_setup \<Rightarrow> int \<times> taskdep_server" where
  "StorageServer_setup srv ctx =
     (if \<not> Endpoint_check (ts_endpoint ctx) then (-1, srv) else (0, srv\<lparr>sv_context := ctx\<rparr>))"

definition StorageServer_start :: "(wf_listen \<Rightarrow> int) \<Rightarrow> taskdep_server \<Rightarrow> int \<times> taskdep_server" where
  "StorageServer_start wf_start srv =
     (let l = listen_of (sv_context srv) in (wf_start l, srv\<lparr>sv_listening := Some l\<rparr>))"

definition StorageServer_stop :: "taskdep_server \<Rightarrow> taskdep_server" where
  "StorageServer_stop srv =
     (case sv_listening srv of None \<Rightarrow> srv | Some _ \<Rightarrow> srv\<lparr>sv_listening := None\<rparr>)"

section \<open>The handler\<close>

definition anonymous_mid :: string where
  "anonymous_mid = ''0000aaaa''"

text \<open>Registration of a new task: an engine sent with the request is stored under the task's number.\<close>

definition bind_task :: "'w datamanager \<Rightarrow> u64 \<Rightarrow> engine \<Rightarrow> ('w, 'w datamanager) io" where
  "bind_task dm taskid engine =
     io_bind
       (if eng_binary engine \<noteq> [] then
          io_bind (engine_push dm anonymous_mid (to_string (unat taskid)) (eng_binary engine))
            (\<lambda>_. io_return (anonymous_mid, to_string (unat taskid)))
        else io_return (eng_id engine, eng_name engine))
       (\<lambda>mid_name. let dm1 = task_bind dm taskid (mid_name, eng_deps engine)
         in io_return (if eng_extfiles engine \<noteq> [] then add_extfiles dm1 taskid (eng_extfiles engine) else dm1))"

text \<open>The code that \<open>terminate\<close> and \<open>done\<close> share.\<close>

definition forget_task :: "'w datamanager \<Rightarrow> u64 \<Rightarrow> ('w, 'w datamanager) io" where
  "forget_task dm taskid =
     io_bind
       (if task_exist dm taskid then
          (\<lambda>w. cxx_bind (get_task_engine dm taskid) (\<lambda>engine.
             io_bind
               (if fst (fst engine) = anonymous_mid then engine_remove dm anonymous_mid (to_string (unat taskid))
                else io_return 0)
               (\<lambda>_. io_return (task_unbind dm taskid)) w))
        else io_return dm)
       (\<lambda>dm1. io_return (if extfiles_exist dm1 taskid then remove_extfiles dm1 taskid else dm1))"

definition neogiate_task ::
  "u64 \<Rightarrow> request \<Rightarrow> response \<Rightarrow> 'w datamanager \<Rightarrow> ('w, 'w datamanager \<times> response option) io" where
  "neogiate_task alt req resp dm =
     (case rq_engine req of
        None \<Rightarrow> io_return (dm, None)
      | Some engine \<Rightarrow>
          (let typed = Response_set_type resp (addr_code Addr_storage) (addr_code Addr_management) (msg_code Msg_neogiate)
           in if task_exist dm (rq_taskid req) then
                io_return (dm, Some (Response_add_neogiate_alternative
                  (snd (Response_set_neogiate_status typed (neogiate_code Neo_conflict)))
                  (neogiate_code Neo_conflict) alt))
              else io_bind (bind_task dm (rq_taskid req) engine) (\<lambda>dm1.
                io_return (dm1, Some (snd (Response_set_neogiate_status typed (neogiate_code Neo_succeed)))))))"

definition from_management ::
  "u64 \<Rightarrow> request \<Rightarrow> response \<Rightarrow> 'w datamanager \<Rightarrow> ('w, 'w datamanager \<times> response option) io" where
  "from_management alt req resp dm =
     (case obj_management (rq_object req) of
        None \<Rightarrow> io_return (dm, None)
      | Some management \<Rightarrow>
          if rq_dest req \<noteq> addr_code Addr_storage then io_return (dm, None)
          else io_bind
            (if rq_msg req = msg_code Msg_neogiate then neogiate_task alt req resp dm
             else if rq_msg req = msg_code Msg_terminate then
               io_bind (forget_task dm (rq_taskid req)) (\<lambda>dm1. io_return (dm1, Some
                 (Response_set_type resp (addr_code Addr_storage) (addr_code Addr_management) (msg_code Msg_terminate))))
             else io_return (dm, None))
            (\<lambda>(dm1, r). io_return (dm1, map_option (\<lambda>r.
               Response_set_object_management (Response_set_taskid r (rq_taskid req)) management) r)))"

definition from_cluster ::
  "request \<Rightarrow> response \<Rightarrow> 'w datamanager \<Rightarrow> ('w, 'w datamanager \<times> response option) io" where
  "from_cluster req resp dm =
     (if rq_dest req \<noteq> addr_code Addr_storage \<or> rq_msg req \<noteq> msg_code Msg_done then io_return (dm, None)
      else case obj_cluster (rq_object req) of
        None \<Rightarrow> io_return (dm, None)
      | Some cluster \<Rightarrow> io_bind (forget_task dm (rq_taskid req)) (\<lambda>dm1. io_return (dm1, Some
          (Response_set_object_cluster
            (Response_set_type (Response_set_taskid resp (rq_taskid req))
              (addr_code Addr_storage) (addr_code Addr_cluster) (msg_code Msg_done)) cluster))))"

definition storage_process ::
  "u64 \<Rightarrow> endpoint \<Rightarrow> request \<Rightarrow> response \<Rightarrow> 'w datamanager \<Rightarrow> ('w, 'w datamanager \<times> response option) io" where
  "storage_process alt self req resp dm =
     (if \<not> dm_is_init dm then io_return (dm, None)
      else io_bind
        (if rq_src req = addr_code Addr_management then from_management alt req resp dm
         else if rq_src req = addr_code Addr_cluster then from_cluster req resp dm
         else io_return (dm, None))
        (\<lambda>(dm1, r). io_return (dm1, map_option (\<lambda>r. Response_set_object_storage r self) r)))"

section \<open>Tasks in the data manager\<close>

text \<open>External files are kept for registered tasks only.\<close>

definition tables_ok :: "'w datamanager \<Rightarrow> bool" where
  "tables_ok dm \<longleftrightarrow> dom (map_of (dm_extfiles dm)) \<subseteq> dom (map_of (dm_engines dm))"

definition task_entry :: "u64 \<Rightarrow> engine \<Rightarrow> (string \<times> string) \<times> engine list" where
  "task_entry t e =
     ((if eng_binary e \<noteq> [] then (anonymous_mid, to_string (unat t)) else (eng_id e, eng_name e)), eng_deps e)"

abbreviation same_base :: "'w datamanager \<Rightarrow> 'w datamanager \<Rightarrow> bool" where
  "same_base dm dm' \<equiv> dm_sched dm' = dm_sched dm \<and> dm_root dm' = dm_root dm \<and> dm_is_init dm' = dm_is_init dm"

abbreviation local_routed :: "'w posix \<Rightarrow> 'w datamanager \<Rightarrow> bool" where
  "local_routed px dm \<equiv> routed (dm_sched dm) (Get_local_fileoperations px)"

lemma push_data_Inr: "routed s (Get_local_fileoperations px) \<Longrightarrow> \<exists>x. push_data s fd dat w = Inr x"
  by (auto simp: push_data_def io_bind_def io_return_def local_ops split: prod.split)

lemma engine_push_Inr: "local_routed px dm \<Longrightarrow> \<exists>r w'. engine_push dm mid name dat w = Inr (r, w')"
  using push_data_Inr by (fastforce simp: engine_push_def io_bind_def local_ops split: prod.splits)

lemma bind_task_Inr:
  assumes "local_routed px dm" and "\<not> task_exist dm t" and ok: "tables_ok dm"
  shows "\<exists>dm' w'. bind_task dm t e w = Inr (dm', w') \<and> same_base dm dm' \<and> tables_ok dm' \<and>
    map_of (dm_engines dm') = (map_of (dm_engines dm))(t \<mapsto> task_entry t e) \<and>
    map_of (dm_extfiles dm') = (if eng_extfiles e = [] then map_of (dm_extfiles dm)
      else (map_of (dm_extfiles dm))(t \<mapsto> eng_extfiles e)) \<and>
    (eng_binary e = [] \<longrightarrow> w' = w)"
proof -
  let ?dm1 = "task_bind dm t (task_entry t e)"
  let ?dm' = "if eng_extfiles e \<noteq> [] then add_extfiles ?dm1 t (eng_extfiles e) else ?dm1"
  have none: "map_of (dm_engines dm) t = None" "map_of (dm_extfiles dm) t = None"
    using assms(2) ok unfolding task_exist_def tables_ok_def by blast+
  have "\<exists>w'. bind_task dm t e w = Inr (?dm', w') \<and> (eng_binary e = [] \<longrightarrow> w' = w)"
    using engine_push_Inr [OF assms(1), of anonymous_mid "to_string (unat t)" "eng_binary e" w]
    by (auto simp: bind_task_def io_bind_def io_return_def Let_def task_entry_def)
  moreover have "map_of (dm_engines ?dm') = (map_of (dm_engines dm))(t \<mapsto> task_entry t e)"
    using none by (simp add: tasks.entry_emplace)
  moreover have "map_of (dm_extfiles ?dm') = (if eng_extfiles e = [] then map_of (dm_extfiles dm)
      else (map_of (dm_extfiles dm))(t \<mapsto> eng_extfiles e))"
    using none by (simp add: files.entry_emplace)
  moreover from calculation(2,3) ok have "tables_ok ?dm'" by (auto simp: tables_ok_def)
  ultimately show ?thesis by auto
qed

lemma forget_task_Inr:
  assumes "local_routed px dm"
  shows "\<exists>dm'. forget_task dm t w = Inr (dm',
      (case map_of (dm_engines dm) t of
         Some ((mid, _), _) \<Rightarrow> if mid = anonymous_mid
           then snd (px_unlink px (c_str (engine_path dm anonymous_mid (to_string (unat t)))) w) else w
       | None \<Rightarrow> w)) \<and> same_base dm dm' \<and>
    map_of (dm_engines dm') = (map_of (dm_engines dm))(t := None) \<and>
    map_of (dm_extfiles dm') = (map_of (dm_extfiles dm))(t := None)"
proof -
  have ext: "map_of (dm_extfiles d) = (map_of (dm_extfiles d))(t := None)" if "\<not> extfiles_exist d t" for d :: "'a datamanager"
    using that by (auto simp: extfiles_exist_def)
  show ?thesis
  proof (cases "map_of (dm_engines dm) t")
    case None
    then have "map_of (dm_engines dm) = (map_of (dm_engines dm))(t := None)" by auto
    with None ext [of dm] show ?thesis
      by (auto simp: forget_task_def io_bind_def io_return_def task_exist_def files.entry_erase)
  next
    case (Some x)
    obtain mid name deps where x: "x = ((mid, name), deps)" by (metis prod.exhaust)
    have "\<exists>r. sched_remove (dm_sched dm) (c_str p) w = Inr (r, snd (px_unlink px (c_str p) w))" for p
      using assms by (cases "px_unlink px (c_str p) w") (simp add: local_ops)
    then have rm: "\<exists>r. engine_remove dm m n w = Inr (r, snd (px_unlink px (c_str (engine_path dm m n)) w))" for m n
      by (simp add: engine_remove_def)
    show ?thesis
      using Some x rm [of anonymous_mid "to_string (unat t)"] ext [of "task_unbind dm t"]
      by (auto simp: forget_task_def io_bind_def io_return_def task_exist_def get_task_engine_def
          files.entry_erase tasks.entry_erase)
  qed
qed

section \<open>Properties of the handler\<close>

text \<open>The requests an initialised storage unit answers.\<close>

definition negotiates :: "request \<Rightarrow> bool" where
  "negotiates req \<longleftrightarrow> rq_src req = addr_code Addr_management \<and> rq_dest req = addr_code Addr_storage \<and>
     obj_management (rq_object req) \<noteq> None \<and> rq_msg req = msg_code Msg_neogiate \<and> rq_engine req \<noteq> None"

definition terminates :: "request \<Rightarrow> bool" where
  "terminates req \<longleftrightarrow> rq_src req = addr_code Addr_management \<and> rq_dest req = addr_code Addr_storage \<and>
     obj_management (rq_object req) \<noteq> None \<and> rq_msg req = msg_code Msg_terminate"

definition reports_done :: "request \<Rightarrow> bool" where
  "reports_done req \<longleftrightarrow> rq_src req = addr_code Addr_cluster \<and> rq_dest req = addr_code Addr_storage \<and>
     obj_cluster (rq_object req) \<noteq> None \<and> rq_msg req = msg_code Msg_done"

lemma neogiate_reply [simp]:
  "rs_neogiate r = None \<Longrightarrow> rs_neogiate (snd (Response_set_neogiate_status r (neogiate_code st))) =
     Some (neogiate_new (neogiate_code st))"
  "rs_neogiate r = Some n \<Longrightarrow> rs_neogiate (Response_add_neogiate_alternative r g a) =
     Some (n\<lparr>ng_alternative := ng_alternative n @ [a]\<rparr>)"
  by (cases st; simp add: Response_set_neogiate_status_def Response_add_neogiate_alternative_def Let_def
      neogiate_new_def word_le_nat_alt)+

lemma reply_fields [simp]:
  "rs_src (snd (Response_set_neogiate_status r st)) = rs_src r"
  "rs_dest (snd (Response_set_neogiate_status r st)) = rs_dest r"
  "rs_msg (snd (Response_set_neogiate_status r st)) = rs_msg r"
  "rs_src (Response_add_neogiate_alternative r g a) = rs_src r"
  "rs_dest (Response_add_neogiate_alternative r g a) = rs_dest r"
  "rs_msg (Response_add_neogiate_alternative r g a) = rs_msg r"
  by (simp_all add: Response_set_neogiate_status_def Response_add_neogiate_alternative_def Let_def)

lemmas reply_defs =
  Response_set_type_def Response_set_taskid_def Response_set_object_management_def
  Response_set_object_storage_def Response_set_object_cluster_def

lemma negotiation_conflict:
  assumes "local_routed px dm" and "tables_ok dm" and "dm_is_init dm" and "negotiates req"
    and "rq_engine req = Some e" and "rs_neogiate resp = None" and True: "task_exist dm (rq_taskid req)"
  shows "\<exists>r n. storage_process alt self req resp dm w = Inr ((dm, Some r), w) \<and>
    rs_neogiate r = Some n \<and> rs_taskid r = rq_taskid req \<and> rs_src r = addr_code Addr_storage \<and>
    rs_dest r = addr_code Addr_management \<and> rs_msg r = msg_code Msg_neogiate \<and>
    obj_management (rs_object r) = obj_management (rq_object req) \<and> obj_storage (rs_object r) = Some self \<and>
    ng_status n = neogiate_code Neo_conflict \<and> ng_alternative n = [alt]"
proof -
  obtain m where m: "obj_management (rq_object req) = Some m" using assms(4) by (auto simp: negotiates_def)
  let ?r0 = "Response_set_type resp (addr_code Addr_storage) (addr_code Addr_management) (msg_code Msg_neogiate)"
  let ?r1 = "Response_add_neogiate_alternative (snd (Response_set_neogiate_status ?r0 (neogiate_code Neo_conflict)))
      (neogiate_code Neo_conflict) alt"
  have "rs_neogiate ?r1 = Some ((neogiate_new (neogiate_code Neo_conflict))\<lparr>ng_alternative := [] @ [alt]\<rparr>)"
    using assms(6) neogiate_reply(1) [of ?r0 Neo_conflict] neogiate_reply(2)
    by (simp add: Response_set_type_def neogiate_new_def)
  moreover have "storage_process alt self req resp dm w = Inr ((dm, Some (Response_set_object_storage
      (Response_set_object_management (Response_set_taskid ?r1 (rq_taskid req)) m) self)), w)"
    using True assms(3-5) m
    by (simp add: storage_process_def from_management_def neogiate_task_def Let_def negotiates_def io_bind_def io_return_def)
  ultimately show ?thesis
    using True assms(2) m by (simp add: reply_defs neogiate_new_def)
qed

lemma negotiation_succeed:
  assumes "local_routed px dm" and "tables_ok dm" and "dm_is_init dm" and "negotiates req"
    and "rq_engine req = Some e" and "rs_neogiate resp = None" and False: "\<not> task_exist dm (rq_taskid req)"
  shows "\<exists>dm' w' r n. storage_process alt self req resp dm w = Inr ((dm', Some r), w') \<and>
    rs_neogiate r = Some n \<and> rs_taskid r = rq_taskid req \<and> rs_src r = addr_code Addr_storage \<and>
    rs_dest r = addr_code Addr_management \<and> rs_msg r = msg_code Msg_neogiate \<and>
    obj_management (rs_object r) = obj_management (rq_object req) \<and> obj_storage (rs_object r) = Some self \<and>
    same_base dm dm' \<and> tables_ok dm' \<and> ng_status n = neogiate_code Neo_succeed \<and> ng_alternative n = [] \<and>
    map_of (dm_engines dm') = (map_of (dm_engines dm))(rq_taskid req \<mapsto> task_entry (rq_taskid req) e) \<and>
    map_of (dm_extfiles dm') = (if eng_extfiles e = [] then map_of (dm_extfiles dm)
      else (map_of (dm_extfiles dm))(rq_taskid req \<mapsto> eng_extfiles e))"
proof -
  obtain m where m: "obj_management (rq_object req) = Some m" using assms(4) by (auto simp: negotiates_def)
  obtain dm' w' where bind: "bind_task dm (rq_taskid req) e w = Inr (dm', w')" and eff: "same_base dm dm'" "tables_ok dm'"
    "map_of (dm_engines dm') = (map_of (dm_engines dm))(rq_taskid req \<mapsto> task_entry (rq_taskid req) e)"
    "map_of (dm_extfiles dm') = (if eng_extfiles e = [] then map_of (dm_extfiles dm)
      else (map_of (dm_extfiles dm))(rq_taskid req \<mapsto> eng_extfiles e))"
    using bind_task_Inr [OF assms(1) False assms(2), of e w] by blast
  let ?r = "Response_set_object_storage (Response_set_object_management (Response_set_taskid
      (snd (Response_set_neogiate_status (Response_set_type resp (addr_code Addr_storage)
        (addr_code Addr_management) (msg_code Msg_neogiate)) (neogiate_code Neo_succeed))) (rq_taskid req)) m) self"
  have "storage_process alt self req resp dm w = Inr ((dm', Some ?r), w')"
    using False assms(3-5) bind m
    by (simp add: storage_process_def from_management_def neogiate_task_def Let_def negotiates_def io_bind_def io_return_def)
  moreover have "rs_neogiate ?r = Some (neogiate_new (neogiate_code Neo_succeed))"
    using assms(6) neogiate_reply(1) [of "Response_set_type resp (addr_code Addr_storage)
      (addr_code Addr_management) (msg_code Msg_neogiate)" Neo_succeed] by (simp add: reply_defs)
  moreover have "rs_taskid ?r = rq_taskid req" "rs_src ?r = addr_code Addr_storage" "rs_dest ?r = addr_code Addr_management"
    "rs_msg ?r = msg_code Msg_neogiate" "obj_management (rs_object ?r) = Some m" "obj_storage (rs_object ?r) = Some self"
    by (simp_all add: reply_defs)
  ultimately show ?thesis using False eff m by (auto simp: neogiate_new_def)
qed

text \<open>
  an initialised storage unit answers a negotiation, naming the task, the management unit that asked and
  its own endpoint. If the number is taken it answers \<open>conflict\<close> with one alternative number and
  changes nothing. Otherwise it answers \<open>succeed\<close>, and the task is bound to the named engine, or to the
  anonymous one when a binary came with the request, with its dependencies and external files;
  it answers so whether or not the binary could be stored.
\<close>

theorem storage_negotiation:
  assumes "local_routed px dm" and "tables_ok dm" and "dm_is_init dm" and "negotiates req"
    and "rq_engine req = Some e" and "rs_neogiate resp = None"
  shows "\<exists>dm' w' r n. storage_process alt self req resp dm w = Inr ((dm', Some r), w') \<and>
    rs_neogiate r = Some n \<and> rs_taskid r = rq_taskid req \<and> rs_src r = addr_code Addr_storage \<and>
    rs_dest r = addr_code Addr_management \<and> rs_msg r = msg_code Msg_neogiate \<and>
    obj_management (rs_object r) = obj_management (rq_object req) \<and> obj_storage (rs_object r) = Some self \<and>
    same_base dm dm' \<and> tables_ok dm' \<and>
    (if task_exist dm (rq_taskid req)
     then dm' = dm \<and> w' = w \<and> ng_status n = neogiate_code Neo_conflict \<and> ng_alternative n = [alt]
     else ng_status n = neogiate_code Neo_succeed \<and> ng_alternative n = [] \<and>
       map_of (dm_engines dm') = (map_of (dm_engines dm))(rq_taskid req \<mapsto> task_entry (rq_taskid req) e) \<and>
       map_of (dm_extfiles dm') = (if eng_extfiles e = [] then map_of (dm_extfiles dm)
         else (map_of (dm_extfiles dm))(rq_taskid req \<mapsto> eng_extfiles e)))"
proof (cases "task_exist dm (rq_taskid req)")
  case True
  then show ?thesis
    using negotiation_conflict [OF assms True, of alt self w] assms(2) by auto
next
  case False
  then show ?thesis
    using negotiation_succeed [OF assms False, of alt self w] by auto
qed

lemma storage_process_forgets:
  assumes "local_routed px dm" and "dm_is_init dm" and "terminates req \<or> reports_done req"
  shows "\<exists>dm' r. storage_process alt self req resp dm w = Inr ((dm', Some r),
      (case map_of (dm_engines dm) (rq_taskid req) of
         Some ((mid, _), _) \<Rightarrow> if mid = anonymous_mid
           then snd (px_unlink px (c_str (engine_path dm anonymous_mid (to_string (unat (rq_taskid req))))) w) else w
       | None \<Rightarrow> w)) \<and>
    rs_taskid r = rq_taskid req \<and> rs_src r = addr_code Addr_storage \<and> rs_dest r = rq_src req \<and> rs_msg r = rq_msg req \<and>
    obj_storage (rs_object r) = Some self \<and> same_base dm dm' \<and>
    map_of (dm_engines dm') = (map_of (dm_engines dm))(rq_taskid req := None) \<and>
    map_of (dm_extfiles dm') = (map_of (dm_extfiles dm))(rq_taskid req := None)"
proof -
  obtain dm' where f: "forget_task dm (rq_taskid req) w = Inr (dm',
      (case map_of (dm_engines dm) (rq_taskid req) of
         Some ((mid, _), _) \<Rightarrow> if mid = anonymous_mid
           then snd (px_unlink px (c_str (engine_path dm anonymous_mid (to_string (unat (rq_taskid req))))) w) else w
       | None \<Rightarrow> w))" (is "_ = Inr (dm', ?w)") and eff: "same_base dm dm'"
    "map_of (dm_engines dm') = (map_of (dm_engines dm))(rq_taskid req := None)"
    "map_of (dm_extfiles dm') = (map_of (dm_extfiles dm))(rq_taskid req := None)"
    using forget_task_Inr [OF assms(1), of "rq_taskid req" w] by blast
  from assms(3) show ?thesis
  proof
    assume t: "terminates req"
    then obtain m where m: "obj_management (rq_object req) = Some m" by (auto simp: terminates_def)
    have "storage_process alt self req resp dm w = Inr ((dm', Some (Response_set_object_storage
        (Response_set_object_management (Response_set_taskid (Response_set_type resp (addr_code Addr_storage)
          (addr_code Addr_management) (msg_code Msg_terminate)) (rq_taskid req)) m) self)), ?w)"
      using assms(2) t m f
      by (simp add: storage_process_def from_management_def terminates_def io_bind_def io_return_def)
    then show ?thesis using eff t by (auto simp: terminates_def reply_defs)
  next
    assume d: "reports_done req"
    then obtain c where c: "obj_cluster (rq_object req) = Some c" by (auto simp: reports_done_def)
    have "storage_process alt self req resp dm w = Inr ((dm', Some (Response_set_object_storage
        (Response_set_object_cluster (Response_set_type (Response_set_taskid resp (rq_taskid req)) (addr_code Addr_storage)
          (addr_code Addr_cluster) (msg_code Msg_done)) c) self)), ?w)"
      using assms(2) d c f
      by (simp add: storage_process_def from_cluster_def reports_done_def io_bind_def io_return_def)
    then show ?thesis using eff d by (auto simp: reports_done_def reply_defs)
  qed
qed

text \<open>
  a termination by the management unit and a \<open>done\<close> of the computing unit both forget the task: its
  binding and its external files are gone, no other task is touched, and the engine file is
  deleted exactly when the task was bound to the anonymous engine. Both are answered to their
  sender, also for a task that is not known.
\<close>

theorem storage_forgets:
  assumes "local_routed px dm" and "dm_is_init dm" and "terminates req \<or> reports_done req"
  shows "\<exists>dm' r. storage_process alt self req resp dm w = Inr ((dm', Some r),
      (case map_of (dm_engines dm) (rq_taskid req) of
         Some ((mid, _), _) \<Rightarrow> if mid = anonymous_mid
           then snd (px_unlink px (c_str (engine_path dm anonymous_mid (to_string (unat (rq_taskid req))))) w) else w
       | None \<Rightarrow> w)) \<and>
    rs_taskid r = rq_taskid req \<and> rs_src r = addr_code Addr_storage \<and> rs_dest r = rq_src req \<and> rs_msg r = rq_msg req \<and>
    obj_storage (rs_object r) = Some self \<and> same_base dm dm' \<and>
    map_of (dm_engines dm') = (map_of (dm_engines dm))(rq_taskid req := None) \<and>
    map_of (dm_extfiles dm') = (map_of (dm_extfiles dm))(rq_taskid req := None)"
  by (rule storage_process_forgets [OF assms])

text \<open>
  every other request, and every request to a storage unit whose data manager is not initialised, gets no
  reply and changes neither the tables nor any file.
\<close>

theorem storage_ignores:
  assumes "\<not> dm_is_init dm \<or> \<not> (negotiates req \<or> terminates req \<or> reports_done req)"
  shows "storage_process alt self req resp dm w = Inr ((dm, None), w)"
  using assms
  by (auto simp: storage_process_def from_management_def from_cluster_def neogiate_task_def negotiates_def
      terminates_def reports_done_def io_bind_def io_return_def split: option.split)

text \<open>
  started by its own \<^verbatim>\<open>main\<close> with the local backend, the storage unit therefore never answers a
  task-deployment request.
\<close>

theorem storage_main_never_answers:
  "\<exists>dm w'. main_storage rnd px path creat ''local'' w = Inr (dm, w') \<and>
     storage_process alt self req resp dm w' = Inr ((dm, None), w')"
proof -
  obtain dm w' where "main_storage rnd px path creat ''local'' w = Inr (dm, w')" and "\<not> dm_is_init dm"
    using main_storage_Inr [of rnd px path creat "''local''" w] by blast
  then show ?thesis by (simp add: storage_process_def io_return_def)
qed

text \<open>Witness data: an initialised data manager, and requests to it.\<close>

definition storage_self :: endpoint where
  "storage_self = sample_endpoint\<lparr>ep_url := ''storage''\<rparr>"

definition mem_storage :: "mem datamanager" where
  "mem_storage = mem_manager\<lparr>dm_is_init := True, dm_engines := [(7, ((''id'', ''name''), []))], dm_extfiles := []\<rparr>"

definition storage_request :: "u32 \<Rightarrow> u64 \<Rightarrow> request" where
  "storage_request msg t = (Request_new 2 0 msg t)\<lparr>rq_engine := Some (Engine [] ''id2'' ''n2'' [] []),
     rq_object := \<lparr>obj_management = Some sample_endpoint, obj_cluster = None, obj_storage = None\<rparr>\<rparr>"

lemma mem_storage_ok: "local_routed mem_posix mem_storage" "tables_ok mem_storage" "dm_is_init mem_storage"
  using mem_manager_routed by (simp_all add: mem_storage_def tables_ok_def)

theorem storage_negotiation_witness:
  "\<exists>dm' w' r n. storage_process 99 storage_self (storage_request 1 7) (Response_new 0 0 0 0) mem_storage
      (Map.empty, Map.empty) = Inr ((dm', Some r), w') \<and> rs_neogiate r = Some n \<and>
     ng_status n = neogiate_code Neo_conflict \<and> ng_alternative n = [99]"
proof -
  have n: "negotiates (storage_request 1 7)" "rq_engine (storage_request 1 7) = Some (Engine [] ''id2'' ''n2'' [] [])"
    "rs_neogiate (Response_new 0 0 0 0) = None" and t: "rq_taskid (storage_request 1 7) = 7"
    by (simp_all add: negotiates_def storage_request_def Request_new_def Response_new_def)
  have e: "task_exist mem_storage 7" by (simp add: task_exist_def mem_storage_def)
  show ?thesis
    using storage_negotiation [OF mem_storage_ok n, of 99 storage_self "(Map.empty, Map.empty)"] e unfolding t
    by (elim exE conjE) (simp only: if_True, blast)
qed

theorem storage_forgets_witness:
  "\<exists>dm' r w'. storage_process 99 storage_self (storage_request 3 7) (Response_new 0 0 0 0) mem_storage
      (Map.empty, Map.empty) = Inr ((dm', Some r), w') \<and> \<not> task_exist dm' 7"
proof -
  have n: "terminates (storage_request 3 7) \<or> reports_done (storage_request 3 7)"
    and t: "rq_taskid (storage_request 3 7) = 7"
    by (simp_all add: terminates_def storage_request_def Request_new_def)
  show ?thesis
    using storage_forgets [OF mem_storage_ok(1,3) n, of 99 storage_self "Response_new 0 0 0 0" "(Map.empty, Map.empty)"]
    unfolding t task_exist_def by (elim exE conjE) (intro exI conjI, assumption, simp)
qed

theorem storage_ignores_witness:
  "storage_process 99 storage_self (storage_request 4 7) (Response_new 0 0 0 0) mem_storage (Map.empty, Map.empty) =
     Inr ((mem_storage, None), (Map.empty, Map.empty))"
proof -
  have "\<not> (negotiates (storage_request 4 7) \<or> terminates (storage_request 4 7) \<or> reports_done (storage_request 4 7))"
    by (simp add: negotiates_def terminates_def reports_done_def storage_request_def Request_new_def)
  with storage_ignores [of mem_storage "storage_request 4 7"] show ?thesis by blast
qed

end
