(* ===== verification/Cxx_Numbers.thy ===== *)
theory Cxx_Numbers
  imports Prelude
begin

text \<open>
  Numbers in text: \<^verbatim>\<open>std::stoi\<close> with its exceptions, \<^verbatim>\<open>std::to_string\<close> of an \<^verbatim>\<open>int\<close>, and that the first reads what
  the second and its unsigned sibling write. An \<^verbatim>\<open>int\<close> has 32 bits.
\<close>

definition int32_min :: int where
  "int32_min = - 2147483648"

definition is_space :: "char \<Rightarrow> bool" where
  "is_space c \<longleftrightarrow> c \<in> {CHR '' '', CHR 0x09, CHR 0x0A, CHR 0x0B, CHR 0x0C, CHR 0x0D}"

definition is_digit :: "char \<Rightarrow> bool" where
  "is_digit c \<longleftrightarrow> 48 \<le> (of_char c :: nat) \<and> (of_char c :: nat) \<le> 57"

definition decimal :: "string \<Rightarrow> nat" where
  "decimal ds = foldl (\<lambda>n c. 10 * n + (of_char c - 48)) 0 ds"

definition int32_max :: int where
  "int32_max = 2147483647"

text \<open>\<^verbatim>\<open>std::stoi\<close>: white space, a sign, and the digits up to the first other character.\<close>

definition stoi :: "string \<Rightarrow> int cxx" where
  "stoi s =
     (let s1 = dropWhile is_space s;
          (neg, s2) = (case s1 of
              c # s' \<Rightarrow> if c = CHR ''-'' then (True, s') else if c = CHR ''+'' then (False, s') else (False, s1)
            | [] \<Rightarrow> (False, s1));
          ds = takeWhile is_digit s2;
          n = (if neg then - int (decimal ds) else int (decimal ds))
      in if ds = [] then Inl Invalid_argument
         else if n < int32_min \<or> n > int32_max then Inl Out_of_range
         else Inr n)"

text \<open>\<^verbatim>\<open>std::to_string\<close> of an \<^verbatim>\<open>int\<close>.\<close>

definition int_to_string :: "int \<Rightarrow> string" where
  "int_to_string n = (if n < 0 then ''-'' @ to_string (nat (- n)) else to_string (nat n))"

lemma digit_char_is_digit: "d < 10 \<Longrightarrow> is_digit (digit_char d)"
  by (simp add: is_digit_def digit_char_def of_char_of)

lemma digit_char_value: "d < 10 \<Longrightarrow> (of_char (digit_char d) :: nat) = 48 + d"
  by (simp add: digit_char_def of_char_of)

lemma decimal_snoc: "decimal (ds @ [c]) = 10 * decimal ds + (of_char c - 48)"
  by (simp add: decimal_def)

lemma to_string_digits: "list_all is_digit (to_string n) \<and> decimal (to_string n) = n"
proof (induction n rule: to_string.induct)
  case (1 n)
  show ?case
  proof (cases "n < 10")
    case True
    then show ?thesis
      by (simp add: to_string.simps [of n] digit_char_is_digit digit_char_value decimal_def)
  next
    case False
    have "n mod 10 < 10" by simp
    with 1 [OF False] False show ?thesis
      by (simp add: to_string.simps [of n] digit_char_is_digit digit_char_value decimal_snoc)
  qed
qed

lemma is_digit_not_space: "is_digit c \<Longrightarrow> \<not> is_space c \<and> c \<noteq> CHR ''-'' \<and> c \<noteq> CHR ''+''"
  by (auto simp: is_digit_def is_space_def)

text \<open>\<^verbatim>\<open>stoi\<close> reads back what \<^verbatim>\<open>to_string\<close> writes, whatever follows the digits.\<close>

lemma stoi_to_string:
  assumes "case s of [] \<Rightarrow> True | c # _ \<Rightarrow> \<not> is_digit c"
  shows "stoi (to_string n @ s) = (if int n > int32_max then Inl Out_of_range else Inr (int n))"
proof -
  obtain c cs where cs: "to_string n = c # cs" by (cases "to_string n") auto
  have all: "list_all is_digit (c # cs)" "decimal (c # cs) = n" using to_string_digits [of n] cs by auto
  have no: "\<not> is_space c" "c \<noteq> CHR ''-''" "c \<noteq> CHR ''+''" using all is_digit_not_space [of c] by auto
  have "takeWhile is_digit (c # cs @ s) = c # cs"
    using all(1) assms takeWhile_append2 [of "c # cs" is_digit s]
    by (cases s) (auto simp: list_all_iff)
  moreover have "\<not> int n < int32_min" by (simp add: int32_min_def)
  ultimately show ?thesis using no all(2) by (simp add: stoi_def cs Let_def)
qed

end
