(* ===== verification/Management_Client.thy ===== *)
theory Management_Client
  imports Storage_Taskdep Cxx_Numbers
begin

text \<open>
  The client of the task-deployment protocol, \<^verbatim>\<open>ManagementClient\<close> of
  \<^verbatim>\<open>management/taskdep\<close>: the requests it builds, the callbacks that read the replies, the
  repeaters that ask again, and the addresses \<^verbatim>\<open>management/bin/main.cc\<close> gives it. One exchange
  over the network (send a request, wait for the reply or for the failure of the task) is a
  parameter; a reply of \<open>None\<close> is a task whose state is not \<^verbatim>\<open>WFT_STATE_SUCCESS\<close>.
\<close>

section \<open>State\<close>

record client_ctx =
  cl_management :: endpoint
  cl_computation :: endpoint
  cl_storage :: endpoint
  cl_token :: string
  cl_ssl :: bool

text \<open>\<^verbatim>\<open>ManagementClient()\<close>: \<open>ssl\<close> is not initialised.\<close>

definition ManagementClient_new :: "bool \<Rightarrow> client_ctx" where
  "ManagementClient_new g_ssl =
     \<lparr>cl_management = Endpoint_new, cl_computation = Endpoint_new, cl_storage = Endpoint_new,
      cl_token = [], cl_ssl = g_ssl\<rparr>"

definition ManagementClient_setup :: "client_ctx \<Rightarrow> client_ctx \<Rightarrow> int \<times> client_ctx" where
  "ManagementClient_setup this ctx =
     (0, this\<lparr>cl_storage := cl_storage ctx, cl_computation := cl_computation ctx,
             cl_management := cl_management ctx, cl_token := cl_token ctx, cl_ssl := cl_ssl ctx\<rparr>)"

type_synonym 'w exchange = "client_task \<Rightarrow> 'w \<Rightarrow> response option \<times> 'w"

section \<open>The repeater of the network framework\<close>

text \<open>
  A repeater task creates and runs a task until it creates none. The callback of each task
  changes the shared variables \<open>s\<close>. It may go on forever: \<open>None\<close>.
\<close>

partial_function (option) repeat_tasks ::
  "('s \<Rightarrow> 't option) \<Rightarrow> ('t \<Rightarrow> 'w \<Rightarrow> 'r \<times> 'w) \<Rightarrow> ('r \<Rightarrow> 's \<Rightarrow> 's cxx) \<Rightarrow> 's \<Rightarrow> 'w \<Rightarrow>
     ('s \<times> 'w) cxx option"
  where
  "repeat_tasks create send callback s w =
     (case create s of
        None \<Rightarrow> Some (Inr (s, w))
      | Some t \<Rightarrow> (case send t w of (r, w') \<Rightarrow>
          (case callback r s of
             Inl e \<Rightarrow> Some (Inl e)
           | Inr s' \<Rightarrow> repeat_tasks create send callback s' w')))"

text \<open>
  Whatever holds at each call of \<open>create\<close> holds when the repeater ends, which it does by
  creating no task or by a callback that fails.
\<close>

definition kept :: "('s \<Rightarrow> 'w \<Rightarrow> bool) \<Rightarrow> ('s \<Rightarrow> 't option) \<Rightarrow> ('t \<Rightarrow> 'w \<Rightarrow> 'r \<times> 'w) \<Rightarrow> ('r \<Rightarrow> 's \<Rightarrow> 's cxx) \<Rightarrow> bool" where
  "kept I create send callback \<longleftrightarrow>
     (\<forall>s w t s'. I s w \<and> create s = Some t \<and> callback (fst (send t w)) s = Inr s' \<longrightarrow> I s' (snd (send t w)))"

definition ended :: "('s \<Rightarrow> 'w \<Rightarrow> bool) \<Rightarrow> ('s \<Rightarrow> 't option) \<Rightarrow> ('t \<Rightarrow> 'w \<Rightarrow> 'r \<times> 'w) \<Rightarrow> ('r \<Rightarrow> 's \<Rightarrow> 's cxx) \<Rightarrow>
    ('s \<times> 'w) cxx \<Rightarrow> bool" where
  "ended I create send callback m \<longleftrightarrow>
     (case m of
        Inr (s, w) \<Rightarrow> I s w \<and> create s = None
      | Inl err \<Rightarrow> \<exists>s w t. I s w \<and> create s = Some t \<and> callback (fst (send t w)) s = Inl err)"

lemma repeat_tasks_ended:
  assumes "repeat_tasks create send callback s w = Some m" and "I s w" and "kept I create send callback"
  shows "ended I create send callback m"
  using assms
proof (induction rule: repeat_tasks.raw_induct [rotated, consumes 1, case_names step])
  case (step rep create send callback s w m)
  show ?case
  proof (cases "create s")
    case None
    with step have "m = Inr (s, w)" by simp
    with step None show ?thesis by (simp add: ended_def)
  next
    case (Some t)
    show ?thesis
    proof (cases "callback (fst (send t w)) s")
      case (Inl err)
      with step Some have "m = Inl err" by (simp split: prod.splits)
      with step Some Inl show ?thesis by (auto simp: ended_def)
    next
      case (Inr s')
      then have "I s' (snd (send t w))"
        using step(3,4) Some unfolding kept_def by blast
      moreover have "rep create send callback s' (snd (send t w)) = Some m"
        using step(2) Some Inr by (simp split: prod.splits)
      ultimately show ?thesis using step by blast
    qed
  qed
qed

text \<open>A repeater that always creates a task and whose callback never fails does not end.\<close>

lemma repeat_tasks_forever:
  assumes "I s w" and "kept I create send callback"
    and "\<And>s w. I s w \<Longrightarrow> create s \<noteq> None"
    and "\<And>s w t err. I s w \<Longrightarrow> create s = Some t \<Longrightarrow> callback (fst (send t w)) s \<noteq> Inl err"
  shows "repeat_tasks create send callback s w = None"
proof (rule ccontr)
  assume "repeat_tasks create send callback s w \<noteq> None"
  then obtain m where "repeat_tasks create send callback s w = Some m" by auto
  from repeat_tasks_ended [of create send callback s w m I, OF this assms(1,2)] show False
    using assms(3,4) by (cases m) (auto simp: ended_def, metis option.distinct(1))
qed

section \<open>Negotiation\<close>

text \<open>What the callbacks share: the local variables captured by reference and the task context.\<close>

record neogiation =
  nv_taskid :: u64
  nv_result :: u64
  nv_success :: bool

definition neogiate_request :: "client_ctx \<Rightarrow> u64 \<Rightarrow> engine \<Rightarrow> request \<Rightarrow> request" where
  "neogiate_request ctx taskid engine req0 =
     (let req1 = Request_set_type req0 (addr_code Addr_management) (addr_code Addr_storage) (msg_code Msg_neogiate);
          req2 = Request_set_object_management req1 (cl_management ctx);
          req3 = Request_set_object_storage req2 (cl_storage ctx);
          req4 = Request_set_token req3 (cl_token ctx);
          req5 = Request_set_taskid req4 taskid;
          req6 = Request_set_engine_binary req5 (eng_binary engine);
          req7 = Request_set_engine_id_name req6 (eng_id engine) (eng_name engine);
          req8 = foldl Request_add_engine_dep req7 (eng_deps engine)
      in foldl Request_add_engine_extfile req8 (eng_extfiles engine))"

definition for_management :: "addr_type \<Rightarrow> msg_type \<Rightarrow> u64 \<Rightarrow> response \<Rightarrow> bool" where
  "for_management from msg taskid resp \<longleftrightarrow>
     \<not> (rs_src resp \<noteq> addr_code from \<or> rs_dest resp \<noteq> addr_code Addr_management \<or>
        rs_msg resp \<noteq> msg_code msg \<or> rs_taskid resp \<noteq> taskid)"

definition neogiate_repeater_callback :: "response option \<Rightarrow> neogiation \<Rightarrow> neogiation cxx" where
  "neogiate_repeater_callback reply v =
     (case reply of
        None \<Rightarrow> Inr (v\<lparr>nv_success := False\<rparr>)
      | Some resp \<Rightarrow>
          if \<not> for_management Addr_storage Msg_neogiate (nv_taskid v) resp then Inr (v\<lparr>nv_success := True\<rparr>)
          else (case rs_neogiate resp of
              None \<Rightarrow> Inl Undefined_behaviour
            | Some n \<Rightarrow>
                if ng_status n = neogiate_code Neo_succeed
                then Inr (v\<lparr>nv_result := nv_taskid v, nv_success := True\<rparr>)
                else if ng_status n = neogiate_code Neo_conflict then
                  (case ng_alternative n of
                     [] \<Rightarrow> Inr (v\<lparr>nv_success := True\<rparr>)
                   | a # _ \<Rightarrow> Inr (v\<lparr>nv_taskid := a, nv_success := False\<rparr>))
                else Inr (v\<lparr>nv_success := True\<rparr>)))"

definition create_neogiate_task_repeater ::
  "client_ctx \<Rightarrow> engine \<Rightarrow> request \<Rightarrow> neogiation \<Rightarrow> client_task option" where
  "create_neogiate_task_repeater ctx engine req0 v =
     (if nv_success v then None
      else Some (create_client_task (cl_ssl ctx) (cl_storage ctx) (neogiate_request ctx (nv_taskid v) engine req0)))"

text \<open>The callback of the first task; the flag says whether it appends a repeater.\<close>

definition neogiate_callback :: "response option \<Rightarrow> neogiation \<Rightarrow> (neogiation \<times> bool) cxx" where
  "neogiate_callback reply v =
     (case reply of
        None \<Rightarrow> Inr (v, False)
      | Some resp \<Rightarrow>
          if \<not> for_management Addr_storage Msg_neogiate (nv_taskid v) resp then Inr (v, False)
          else (case rs_neogiate resp of
              None \<Rightarrow> Inl Undefined_behaviour
            | Some n \<Rightarrow>
                if ng_status n = neogiate_code Neo_succeed then Inr (v\<lparr>nv_result := nv_taskid v\<rparr>, False)
                else if ng_status n = neogiate_code Neo_conflict then
                  (case ng_alternative n of
                     [] \<Rightarrow> Inr (v, False)
                   | a # _ \<Rightarrow> Inr (v\<lparr>nv_taskid := a\<rparr>, True))
                else Inr (v, False)))"

text \<open>\<open>req0\<close> is the request object a new client task holds.\<close>

definition create_neogiate_task ::
  "'w exchange \<Rightarrow> client_ctx \<Rightarrow> request \<Rightarrow> u64 \<Rightarrow> engine \<Rightarrow> 'w \<Rightarrow> (u64 \<times> 'w) cxx option" where
  "create_neogiate_task net ctx req0 taskid engine w =
     (let (reply, w') = net (create_client_task (cl_ssl ctx) (cl_storage ctx) (neogiate_request ctx taskid engine req0)) w in
      case neogiate_callback reply \<lparr>nv_taskid = taskid, nv_result = 0, nv_success = False\<rparr> of
        Inl e \<Rightarrow> Some (Inl e)
      | Inr (v, repeater) \<Rightarrow>
          if \<not> repeater then Some (Inr (nv_result v, w'))
          else map_option (\<lambda>m. cxx_bind m (\<lambda>(v, w''). Inr (nv_result v, w'')))
            (repeat_tasks (create_neogiate_task_repeater ctx engine req0) net neogiate_repeater_callback v w'))"

section \<open>Deployment\<close>

text \<open>
  \<open>busy_retry_max\<close> is an \<^verbatim>\<open>int\<close> of 32 bits: decrementing the least one is undefined. The result
  is an \<^verbatim>\<open>int\<close> that gets an unsigned 32-bit status.
\<close>

record deployment =
  dv_busy_retry_max :: int
  dv_result :: int
  dv_success :: bool

definition decrement_int :: "int \<Rightarrow> int cxx" where
  "decrement_int i = (if i = int32_min then Inl Undefined_behaviour else Inr (i - 1))"

text \<open>\<open>g\<close> are the indeterminate fields of an \<^verbatim>\<open>Attr\<close> a setter allocates.\<close>

definition deploy_request ::
  "client_ctx \<Rightarrow> u64 \<Rightarrow> datasource \<Rightarrow> attr \<Rightarrow> u32 \<times> bool \<Rightarrow> request \<Rightarrow> request" where
  "deploy_request ctx taskid ds a g req0 =
     (let req1 = Request_set_type req0 (addr_code Addr_management) (addr_code Addr_cluster) (msg_code Msg_deploy);
          req2 = Request_set_object_management req1 (cl_management ctx);
          req3 = Request_set_object_cluster req2 (cl_computation ctx);
          req4 = Request_set_token req3 (cl_token ctx);
          req5 = Request_set_taskid req4 taskid;
          req6 = snd (Request_set_datasource req5 (ds_src ds) (ds_dest ds));
          req7 = snd (Request_set_attr_master req6 (at_trigger a) (at_virtstorage a));
          req8 = (case at_period a of
              None \<Rightarrow> req7
            | Some p \<Rightarrow> snd (Request_set_attr_period req7 (fst g) (snd g) (pd_interval p) (pd_resultpolicy p)
                (pd_triggerpolicy p) (pd_backupid p)))
      in foldl (\<lambda>r dep. Request_add_attr_dep r (fst g) (snd g) dep) req8 (at_deps a))"

text \<open>
  The callback of a repeated task holds a reference to \<open>taskid\<close>. \<open>seen\<close> is what reading it gives;
  it is read only when the other parts of the reply match.
\<close>

definition deploy_repeater_callback :: "u64 cxx \<Rightarrow> response option \<Rightarrow> deployment \<Rightarrow> deployment cxx" where
  "deploy_repeater_callback seen reply v =
     (case reply of
        None \<Rightarrow> Inr (v\<lparr>dv_success := False\<rparr>)
      | Some resp \<Rightarrow>
          if rs_src resp \<noteq> addr_code Addr_cluster \<or> rs_dest resp \<noteq> addr_code Addr_management \<or>
             rs_msg resp \<noteq> msg_code Msg_deploy then Inr (v\<lparr>dv_success := True\<rparr>)
          else cxx_bind seen (\<lambda>taskid.
            if rs_taskid resp \<noteq> taskid then Inr (v\<lparr>dv_success := True\<rparr>)
            else (case rs_deploy resp of
                None \<Rightarrow> Inl Undefined_behaviour
              | Some d \<Rightarrow>
                  if dp_status d = deploy_code Dep_succeed
                  then Inr (v\<lparr>dv_result := sint (dp_taskstatus d), dv_success := True\<rparr>)
                  else if dp_status d = deploy_code Dep_busy then
                    (let v1 = (if dv_busy_retry_max v = 0 then v\<lparr>dv_success := True\<rparr> else v);
                         v2 = v1\<lparr>dv_success := False\<rparr>
                     in cxx_bind (decrement_int (dv_busy_retry_max v2)) (\<lambda>i. Inr (v2\<lparr>dv_busy_retry_max := i\<rparr>)))
                  else Inr (v\<lparr>dv_success := True\<rparr>))))"

definition create_deploy_task_repeater ::
  "client_ctx \<Rightarrow> u64 \<Rightarrow> datasource \<Rightarrow> attr \<Rightarrow> u32 \<times> bool \<Rightarrow> request \<Rightarrow> deployment \<Rightarrow> client_task option" where
  "create_deploy_task_repeater ctx taskid ds a g req0 v =
     (if dv_success v then None
      else Some (create_client_task (cl_ssl ctx) (cl_computation ctx) (deploy_request ctx taskid ds a g req0)))"

text \<open>
  The \<open>taskid\<close> a repeated task's callback refers to is the by-value parameter of
  \<^verbatim>\<open>create_deploy_task_repeater\<close>, which has returned by then.
\<close>

definition parameter_of_returned_call :: "u64 \<Rightarrow> u64 cxx" where
  "parameter_of_returned_call taskid = Inl Undefined_behaviour"

definition deploy_callback :: "u64 \<Rightarrow> response option \<Rightarrow> deployment \<Rightarrow> (deployment \<times> bool) cxx" where
  "deploy_callback taskid reply v =
     (case reply of
        None \<Rightarrow> Inr (v, False)
      | Some resp \<Rightarrow>
          if \<not> for_management Addr_cluster Msg_deploy taskid resp then Inr (v, False)
          else (case rs_deploy resp of
              None \<Rightarrow> Inl Undefined_behaviour
            | Some d \<Rightarrow>
                if dp_status d = deploy_code Dep_succeed then Inr (v\<lparr>dv_result := sint (dp_taskstatus d)\<rparr>, False)
                else if dp_status d = deploy_code Dep_busy then Inr (v, True)
                else Inr (v, False)))"

definition create_deploy_task_via ::
  "(u64 \<Rightarrow> u64 cxx) \<Rightarrow> 'w exchange \<Rightarrow> client_ctx \<Rightarrow> request \<Rightarrow> u32 \<times> bool \<Rightarrow> u64 \<Rightarrow> datasource \<Rightarrow> attr \<Rightarrow> int \<Rightarrow>
     'w \<Rightarrow> (int \<times> 'w) cxx option" where
  "create_deploy_task_via read_ref net ctx req0 g taskid ds a busy_retry_max w =
     (let (reply, w') = net (create_client_task (cl_ssl ctx) (cl_computation ctx) (deploy_request ctx taskid ds a g req0)) w in
      case deploy_callback taskid reply
             \<lparr>dv_busy_retry_max = busy_retry_max, dv_result = -1, dv_success = False\<rparr> of
        Inl e \<Rightarrow> Some (Inl e)
      | Inr (v, repeater) \<Rightarrow>
          if \<not> repeater then Some (Inr (dv_result v, w'))
          else map_option (\<lambda>m. cxx_bind m (\<lambda>(v, w''). Inr (dv_result v, w'')))
            (repeat_tasks (create_deploy_task_repeater ctx taskid ds a g req0) net
              (deploy_repeater_callback (read_ref taskid)) v w'))"

definition create_deploy_task ::
  "'w exchange \<Rightarrow> client_ctx \<Rightarrow> request \<Rightarrow> u32 \<times> bool \<Rightarrow> u64 \<Rightarrow> datasource \<Rightarrow> attr \<Rightarrow> int \<Rightarrow> 'w \<Rightarrow>
     (int \<times> 'w) cxx option" where
  "create_deploy_task = create_deploy_task_via parameter_of_returned_call"

section \<open>Termination and trigger\<close>

text \<open>The request to the computing unit carries the storage unit's address as the computing unit's.\<close>

definition terminate_cluster_request :: "client_ctx \<Rightarrow> u64 \<Rightarrow> request \<Rightarrow> request" where
  "terminate_cluster_request ctx taskid req0 =
     (let req1 = Request_set_type req0 (addr_code Addr_management) (addr_code Addr_cluster) (msg_code Msg_terminate);
          req2 = Request_set_object_management req1 (cl_management ctx);
          req3 = Request_set_object_cluster req2 (cl_storage ctx);
          req4 = Request_set_token req3 (cl_token ctx)
      in Request_set_taskid req4 taskid)"

definition terminate_storage_request :: "client_ctx \<Rightarrow> u64 \<Rightarrow> request \<Rightarrow> request" where
  "terminate_storage_request ctx taskid req0 =
     (let req1 = Request_set_type req0 (addr_code Addr_management) (addr_code Addr_storage) (msg_code Msg_terminate);
          req2 = Request_set_object_management req1 (cl_management ctx);
          req3 = Request_set_object_storage req2 (cl_storage ctx);
          req4 = Request_set_token req3 (cl_token ctx)
      in Request_set_taskid req4 taskid)"

definition create_terminate_task :: "'w exchange \<Rightarrow> client_ctx \<Rightarrow> request \<Rightarrow> u64 \<Rightarrow> 'w \<Rightarrow> int \<times> 'w" where
  "create_terminate_task net ctx req0 taskid w =
     (let task1 = create_client_task (cl_ssl ctx) (cl_computation ctx) (terminate_cluster_request ctx taskid req0);
          task2 = create_client_task (cl_ssl ctx) (cl_storage ctx) (terminate_storage_request ctx taskid req0);
          (_, w1) = net task2 w;
          (_, w2) = net task1 w1
      in (0, w2))"

definition trigger_request :: "client_ctx \<Rightarrow> u64 \<Rightarrow> request \<Rightarrow> request" where
  "trigger_request ctx taskid req0 =
     (let req1 = Request_set_type req0 (addr_code Addr_management) (addr_code Addr_cluster) (msg_code Msg_trigger);
          req2 = Request_set_object_management req1 (cl_management ctx);
          req3 = Request_set_object_cluster req2 (cl_computation ctx);
          req4 = Request_set_token req3 (cl_token ctx)
      in Request_set_taskid req4 taskid)"

definition create_trigger_task :: "'w exchange \<Rightarrow> client_ctx \<Rightarrow> request \<Rightarrow> u64 \<Rightarrow> 'w \<Rightarrow> int \<times> 'w" where
  "create_trigger_task net ctx req0 taskid w =
     (let (_, w1) = net (create_client_task (cl_ssl ctx) (cl_computation ctx) (trigger_request ctx taskid req0)) w
      in (0, w1))"

section \<open>The addresses main configures\<close>

record mana_flags =
  fl_comp_addr :: string
  fl_comp_port :: u32
  fl_stor_addr :: string
  fl_stor_port :: u32
  fl_cert :: string

definition main_endpoint :: "string \<Rightarrow> u32 \<Rightarrow> endpoint" where
  "main_endpoint addr port =
     Endpoint_set_port (Endpoint_set_url (snd (Endpoint_set_proto Endpoint_new ''jxtd'')) addr) port"

definition main_management :: "mana_flags \<Rightarrow> client_ctx \<Rightarrow> client_ctx" where
  "main_management f client =
     (let mana = Endpoint_set_port (Endpoint_set_url
            (snd (Endpoint_set_authtype (snd (Endpoint_set_proto Endpoint_new ''jxtd'')) 0)) (fl_comp_addr f)) (fl_comp_port f);
          comp = main_endpoint (fl_comp_addr f) (fl_comp_port f);
          stor = main_endpoint (fl_stor_addr f) (fl_stor_port f)
      in snd (ManagementClient_setup client
           \<lparr>cl_management = mana, cl_computation = comp, cl_storage = stor, cl_token = [],
            cl_ssl = (fl_cert f \<noteq> [])\<rparr>))"

section \<open>The requests the client builds\<close>

lemma add_engine_deps:
  "rq_engine m = Some (Engine b i nm ds xs) \<Longrightarrow>
     foldl Request_add_engine_dep m es = m\<lparr>rq_engine := Some (Engine b i nm (ds @ es) xs)\<rparr>"
  by (induction es arbitrary: m ds) (simp_all add: Request_add_engine_dep_def on_engine_def)

lemma add_engine_extfiles:
  "rq_engine m = Some (Engine b i nm ds xs) \<Longrightarrow>
     foldl Request_add_engine_extfile m es = m\<lparr>rq_engine := Some (Engine b i nm ds (xs @ es))\<rparr>"
  by (induction es arbitrary: m xs) (simp_all add: Request_add_engine_extfile_def on_engine_def)

lemma neogiate_request_eq:
  assumes "rq_engine req0 = None"
  shows "neogiate_request ctx taskid e req0 =
    req0\<lparr>rq_src := addr_code Addr_management, rq_dest := addr_code Addr_storage, rq_msg := msg_code Msg_neogiate,
      rq_token := cl_token ctx, rq_taskid := taskid, rq_engine := Some e,
      rq_object := (rq_object req0)\<lparr>obj_management := Some (cl_management ctx), obj_storage := Some (cl_storage ctx)\<rparr>\<rparr>"
proof (cases e)
  case (Engine b i nm ds xs)
  then show ?thesis
    using assms
    by (simp add: neogiate_request_def Let_def Request_setter_defs(1-3,5-7) Request_set_object_management_def
        Request_set_object_storage_def Engine_new_def add_engine_deps [where ds = "[]" and xs = "[]"]
        add_engine_extfiles [where xs = "[]"])
qed

lemma add_attr_deps:
  "rq_attr m = Some a \<Longrightarrow>
     foldl (\<lambda>r dep. Request_add_attr_dep r g h dep) m es = m\<lparr>rq_attr := Some (a\<lparr>at_deps := at_deps a @ es\<rparr>)\<rparr>"
  by (induction es arbitrary: m a) (simp_all add: Request_add_attr_dep_def Let_def)

text \<open>A datasource and attributes the setters accept.\<close>

definition deployable :: "datasource \<Rightarrow> attr \<Rightarrow> bool" where
  "deployable ds a \<longleftrightarrow> dest_emptypolicy (ds_dest ds) < 2 \<and> dest_directorypolicy (ds_dest ds) < 2 \<and>
     at_trigger a < 3 \<and> (\<forall>p \<in> set_option (at_period a). pd_resultpolicy p < 3 \<and> pd_triggerpolicy p < 3)"

lemma deploy_request_eq:
  assumes "rq_attr req0 = None" and "deployable ds a"
  shows "deploy_request ctx taskid ds a g req0 =
    req0\<lparr>rq_src := addr_code Addr_management, rq_dest := addr_code Addr_cluster, rq_msg := msg_code Msg_deploy,
      rq_token := cl_token ctx, rq_taskid := taskid, rq_datasource := Some ds, rq_attr := Some a,
      rq_object := (rq_object req0)\<lparr>obj_management := Some (cl_management ctx), obj_cluster := Some (cl_computation ctx)\<rparr>\<rparr>"
proof -
  let ?m = "req0\<lparr>rq_src := addr_code Addr_management, rq_dest := addr_code Addr_cluster, rq_msg := msg_code Msg_deploy,
      rq_token := cl_token ctx, rq_taskid := taskid, rq_datasource := Some ds,
      rq_attr := Some (a\<lparr>at_deps := []\<rparr>),
      rq_object := (rq_object req0)\<lparr>obj_management := Some (cl_management ctx), obj_cluster := Some (cl_computation ctx)\<rparr>\<rparr>"
  have "deploy_request ctx taskid ds a g req0 = foldl (\<lambda>r dep. Request_add_attr_dep r (fst g) (snd g) dep) ?m (at_deps a)"
  proof -
    have eta: "\<lparr>ds_src = ds_src ds, ds_dest = ds_dest ds\<rparr> = ds" by simp
    have per: "\<lparr>pd_interval = pd_interval p, pd_resultpolicy = pd_resultpolicy p,
        pd_triggerpolicy = pd_triggerpolicy p, pd_backupid = pd_backupid p\<rparr> = p" for p by simp
    show ?thesis
      using assms
      by (cases a; cases req0; cases "at_period a")
        (simp_all add: per eta deploy_request_def Let_def deployable_def attr_new_def not_le [symmetric]
          Request_set_type_def Request_set_token_def Request_set_taskid_def Request_set_datasource_def
          Request_set_attr_master_def Request_set_attr_period_def Request_set_object_management_def
          Request_set_object_cluster_def)
  qed
  also have "\<dots> = ?m\<lparr>rq_attr := Some a\<rparr>" by (subst add_attr_deps [where a = "a\<lparr>at_deps := []\<rparr>"]) simp_all
  finally show ?thesis by simp
qed

section \<open>What a negotiation relies on\<close>

definition neogiation_reply :: "neogiate_status \<Rightarrow> u64 list \<Rightarrow> u64 \<Rightarrow> response \<Rightarrow> bool" where
  "neogiation_reply st alts taskid r \<longleftrightarrow> for_management Addr_storage Msg_neogiate taskid r \<and>
     (\<exists>n. rs_neogiate r = Some n \<and> ng_status n = neogiate_code st \<and> ng_alternative n = alts)"

definition starting_at :: "u64 \<Rightarrow> neogiation" where
  "starting_at taskid = \<lparr>nv_taskid = taskid, nv_result = 0, nv_success = False\<rparr>"

text \<open>
  The contract of a storage unit reached over the network: it registers a task under a free
  number and answers \<open>succeed\<close>; for a number that is taken it answers \<open>conflict\<close> with the next of
  its alternatives and registers nothing.
\<close>

locale negotiable_storage =
  fixes net :: "'w exchange" and inv :: "'w \<Rightarrow> bool" and tasks :: "'w \<Rightarrow> u64 \<rightharpoonup> 'x" and entry :: "u64 \<Rightarrow> engine \<Rightarrow> 'x"
    and alts :: "'w \<Rightarrow> nat \<Rightarrow> u64"
  assumes accepts: "\<lbrakk>inv w; negotiates (ct_req t); rq_engine (ct_req t) = Some e; rq_taskid (ct_req t) \<notin> dom (tasks w)\<rbrakk> \<Longrightarrow>
      \<exists>r w'. net t w = (Some r, w') \<and> inv w' \<and> neogiation_reply Neo_succeed [] (rq_taskid (ct_req t)) r \<and>
        tasks w' = (tasks w)(rq_taskid (ct_req t) \<mapsto> entry (rq_taskid (ct_req t)) e)"
    and conflicts: "\<lbrakk>inv w; negotiates (ct_req t); rq_taskid (ct_req t) \<in> dom (tasks w)\<rbrakk> \<Longrightarrow>
      \<exists>r w'. net t w = (Some r, w') \<and> inv w' \<and> neogiation_reply Neo_conflict [alts w 0] (rq_taskid (ct_req t)) r \<and>
        tasks w' = tasks w \<and> alts w' = (\<lambda>i. alts w (Suc i))"
begin

lemma ask_free:
  assumes "inv w" "rq_engine req0 = None" "t \<notin> dom (tasks w)"
  obtains r w' where "net (create_client_task (cl_ssl ctx) peer (neogiate_request ctx t e req0)) w = (Some r, w')"
    and "inv w'" and "neogiation_reply Neo_succeed [] t r" and "tasks w' = (tasks w)(t \<mapsto> entry t e)"
  using accepts [of w "create_client_task (cl_ssl ctx) peer (neogiate_request ctx t e req0)" e] assms
  by (auto simp: create_client_task_def neogiate_request_eq negotiates_def)

lemma ask_taken:
  assumes "inv w" "rq_engine req0 = None" "t \<in> dom (tasks w)"
  obtains r w' where "net (create_client_task (cl_ssl ctx) peer (neogiate_request ctx t e req0)) w = (Some r, w')"
    and "inv w'" and "neogiation_reply Neo_conflict [alts w 0] t r" and "tasks w' = tasks w"
    and "alts w' = (\<lambda>i. alts w (Suc i))"
  using conflicts [of w "create_client_task (cl_ssl ctx) peer (neogiate_request ctx t e req0)"] assms
  by (auto simp: create_client_task_def neogiate_request_eq negotiates_def)

abbreviation asks :: "client_ctx \<Rightarrow> engine \<Rightarrow> request \<Rightarrow> neogiation \<Rightarrow> 'w \<Rightarrow> (neogiation \<times> 'w) cxx option" where
  "asks ctx e req0 \<equiv> repeat_tasks (create_neogiate_task_repeater ctx e req0) net neogiate_repeater_callback"

lemma asks_free:
  assumes "inv w" "rq_engine req0 = None" "nv_taskid v \<notin> dom (tasks w)" "\<not> nv_success v"
  shows "\<exists>w'. asks ctx e req0 v w = Some (Inr (v\<lparr>nv_result := nv_taskid v, nv_success := True\<rparr>, w')) \<and>
    inv w' \<and> tasks w' = (tasks w)(nv_taskid v \<mapsto> entry (nv_taskid v) e)"
proof -
  obtain r w' where "net (create_client_task (cl_ssl ctx) (cl_storage ctx) (neogiate_request ctx (nv_taskid v) e req0)) w = (Some r, w')"
    "inv w'" "tasks w' = (tasks w)(nv_taskid v \<mapsto> entry (nv_taskid v) e)"
    and "neogiation_reply Neo_succeed [] (nv_taskid v) r"
    using ask_free [OF assms(1-3)] by metis
  then show ?thesis
    using assms(4)
    by (simp add: repeat_tasks.simps [of _ _ _ v] create_neogiate_task_repeater_def neogiation_reply_def
        neogiate_repeater_callback_def)
      (auto simp: repeat_tasks.simps create_neogiate_task_repeater_def)
qed

lemma asks_taken:
  assumes "inv w" "rq_engine req0 = None" "nv_taskid v \<in> dom (tasks w)" "\<not> nv_success v"
  shows "\<exists>w'. asks ctx e req0 v w = asks ctx e req0 (v\<lparr>nv_taskid := alts w 0, nv_success := False\<rparr>) w' \<and>
    inv w' \<and> tasks w' = tasks w \<and> alts w' = (\<lambda>i. alts w (Suc i))"
proof -
  obtain r w' where "net (create_client_task (cl_ssl ctx) (cl_storage ctx) (neogiate_request ctx (nv_taskid v) e req0)) w = (Some r, w')"
    "inv w'" "tasks w' = tasks w" "alts w' = (\<lambda>i. alts w (Suc i))"
    and "neogiation_reply Neo_conflict [alts w 0] (nv_taskid v) r"
    using ask_taken [OF assms(1-3)] by metis
  then show ?thesis
    using assms(4)
    by (subst repeat_tasks.simps)
      (auto simp: create_neogiate_task_repeater_def neogiation_reply_def neogiate_repeater_callback_def)
qed

text \<open>The repeater goes through the alternatives until one is free.\<close>

lemma asks_until_free:
  assumes "inv w" "rq_engine req0 = None" "\<not> nv_success v"
    and "nv_taskid v \<in> dom (tasks w)" "\<forall>i<k. alts w i \<in> dom (tasks w)" "alts w k \<notin> dom (tasks w)"
  shows "\<exists>w' v'. asks ctx e req0 v w = Some (Inr (v', w')) \<and> nv_result v' = alts w k \<and>
    inv w' \<and> tasks w' = (tasks w)(alts w k \<mapsto> entry (alts w k) e)"
  using assms
proof (induction k arbitrary: w v)
  case 0
  obtain w1 where w1: "asks ctx e req0 v w = asks ctx e req0 (v\<lparr>nv_taskid := alts w 0, nv_success := False\<rparr>) w1"
    "inv w1" "tasks w1 = tasks w"
    using asks_taken [OF 0(1,2,4,3)] by metis
  have "nv_taskid (v\<lparr>nv_taskid := alts w 0, nv_success := False\<rparr>) \<notin> dom (tasks w1)"
    using w1 0(6) by simp
  from asks_free [OF w1(2) 0(2) this, of ctx e] w1 show ?case by (auto simp: fun_upd_def)
next
  case (Suc k)
  obtain w1 where w1: "asks ctx e req0 v w = asks ctx e req0 (v\<lparr>nv_taskid := alts w 0, nv_success := False\<rparr>) w1"
    "inv w1" "tasks w1 = tasks w" "alts w1 = (\<lambda>i. alts w (Suc i))"
    using asks_taken [OF Suc.prems(1,2,4,3)] by metis
  with Suc.prems show ?case
    using Suc.IH [of w1 "v\<lparr>nv_taskid := alts w 0, nv_success := False\<rparr>"] by fastforce
qed

text \<open>If none is free, it never ends.\<close>

lemma asks_forever:
  assumes "inv w" "rq_engine req0 = None" "\<not> nv_success v"
    and "nv_taskid v \<in> dom (tasks w)" "\<forall>i. alts w i \<in> dom (tasks w)"
  shows "asks ctx e req0 v w = None"
proof (rule repeat_tasks_forever)
  let ?I = "\<lambda>v w. inv w \<and> \<not> nv_success v \<and> nv_taskid v \<in> dom (tasks w) \<and> (\<forall>i. alts w i \<in> dom (tasks w))"
  show "?I v w" using assms by blast
  have step: "\<exists>v'. neogiate_repeater_callback (fst (net t w)) v = Inr v' \<and> ?I v' (snd (net t w))"
    if I: "?I v w" and t: "create_neogiate_task_repeater ctx e req0 v = Some t" for v w t
  proof -
    have t': "t = create_client_task (cl_ssl ctx) (cl_storage ctx) (neogiate_request ctx (nv_taskid v) e req0)"
      using t by (simp add: create_neogiate_task_repeater_def split: if_splits)
    obtain r w' where "net t w = (Some r, w')" "inv w'" "tasks w' = tasks w" "alts w' = (\<lambda>i. alts w (Suc i))"
      and "neogiation_reply Neo_conflict [alts w 0] (nv_taskid v) r"
      using ask_taken [of w req0 "nv_taskid v"] I assms(2) unfolding t' by metis
    with I show ?thesis
      by (auto simp: neogiation_reply_def neogiate_repeater_callback_def)
  qed
  show "kept ?I (create_neogiate_task_repeater ctx e req0) net neogiate_repeater_callback"
    unfolding kept_def using step by fastforce
  show "create_neogiate_task_repeater ctx e req0 v \<noteq> None" if "?I v w" for v w
    using that by (simp add: create_neogiate_task_repeater_def)
  show "neogiate_repeater_callback (fst (net t w)) v \<noteq> Inl err"
    if "?I v w" "create_neogiate_task_repeater ctx e req0 v = Some t" for v w t err
    using step [OF that] by auto
qed

lemma create_neogiate_task_free:
  assumes "inv w" "rq_engine req0 = None" "t \<notin> dom (tasks w)"
  shows "\<exists>w'. create_neogiate_task net ctx req0 t e w = Some (Inr (t, w')) \<and> inv w' \<and>
    tasks w' = (tasks w)(t \<mapsto> entry t e)"
proof -
  obtain r w' where "net (create_client_task (cl_ssl ctx) (cl_storage ctx) (neogiate_request ctx t e req0)) w = (Some r, w')"
    "inv w'" "tasks w' = (tasks w)(t \<mapsto> entry t e)" and "neogiation_reply Neo_succeed [] t r"
    using ask_free [OF assms] by metis
  then show ?thesis
    by (auto simp: create_neogiate_task_def neogiate_callback_def neogiation_reply_def fun_upd_def)
qed

lemma create_neogiate_task_taken:
  assumes "inv w" "rq_engine req0 = None" "t \<in> dom (tasks w)"
  shows "\<exists>w'. create_neogiate_task net ctx req0 t e w =
      map_option (\<lambda>m. cxx_bind m (\<lambda>(v, w''). Inr (nv_result v, w''))) (asks ctx e req0 (starting_at (alts w 0)) w') \<and>
    inv w' \<and> tasks w' = tasks w \<and> alts w' = (\<lambda>i. alts w (Suc i))"
proof -
  obtain r w' where "net (create_client_task (cl_ssl ctx) (cl_storage ctx) (neogiate_request ctx t e req0)) w = (Some r, w')"
    "inv w'" "tasks w' = tasks w" "alts w' = (\<lambda>i. alts w (Suc i))" and "neogiation_reply Neo_conflict [alts w 0] t r"
    using ask_taken [OF assms] by metis
  then show ?thesis
    by (intro exI [of _ w']) (auto simp: create_neogiate_task_def neogiate_callback_def neogiation_reply_def starting_at_def)
qed

lemma create_neogiate_task_alternative:
  assumes "inv w" "rq_engine req0 = None" "t \<in> dom (tasks w)"
    and "\<forall>i<k. alts w i \<in> dom (tasks w)" "alts w k \<notin> dom (tasks w)"
  shows "\<exists>w'. create_neogiate_task net ctx req0 t e w = Some (Inr (alts w k, w')) \<and> inv w' \<and>
    tasks w' = (tasks w)(alts w k \<mapsto> entry (alts w k) e)"
proof -
  let ?v = "starting_at (alts w 0)"
  have v0: "nv_taskid ?v = alts w 0" "\<not> nv_success ?v" by (simp_all add: starting_at_def)
  obtain w1 where c: "create_neogiate_task net ctx req0 t e w =
      map_option (\<lambda>m. cxx_bind m (\<lambda>(v, w''). Inr (nv_result v, w''))) (asks ctx e req0 ?v w1)"
    and v: "inv w1" "tasks w1 = tasks w" "alts w1 = (\<lambda>i. alts w (Suc i))"
    using create_neogiate_task_taken [OF assms(1-3), of ctx e] by blast
  have "\<exists>w' v'. asks ctx e req0 ?v w1 = Some (Inr (v', w')) \<and> nv_result v' = alts w k \<and>
    inv w' \<and> tasks w' = (tasks w)(alts w k \<mapsto> entry (alts w k) e)"
  proof (cases k)
    case 0
    then have "nv_taskid ?v \<notin> dom (tasks w1)" using v v0 assms(5) by simp
    from asks_free [OF v(1) assms(2) this v0(2), of ctx e] 0 v v0 show ?thesis by (auto simp: fun_upd_def)
  next
    case (Suc j)
    then have "nv_taskid ?v \<in> dom (tasks w1)" "\<forall>i<j. alts w1 i \<in> dom (tasks w1)" "alts w1 j \<notin> dom (tasks w1)"
      using v v0 assms(4,5) by auto
    from asks_until_free [OF v(1) assms(2) v0(2) this, of ctx e] Suc v show ?thesis by simp
  qed
  with c show ?thesis by (elim exE conjE) simp
qed

lemma create_neogiate_task_forever:
  assumes "inv w" "rq_engine req0 = None" "t \<in> dom (tasks w)" "\<forall>i. alts w i \<in> dom (tasks w)"
  shows "create_neogiate_task net ctx req0 t e w = None"
proof -
  let ?v = "starting_at (alts w 0)"
  have v0: "nv_taskid ?v = alts w 0" "\<not> nv_success ?v" by (simp_all add: starting_at_def)
  obtain w1 where c: "create_neogiate_task net ctx req0 t e w =
      map_option (\<lambda>m. cxx_bind m (\<lambda>(v, w''). Inr (nv_result v, w''))) (asks ctx e req0 ?v w1)"
    and v: "inv w1" "tasks w1 = tasks w" "alts w1 = (\<lambda>i. alts w (Suc i))"
    using create_neogiate_task_taken [OF assms(1-3), of ctx e] by blast
  with asks_forever [of w1 req0 ?v ctx e] v0 assms show ?thesis by simp
qed

end

section \<open>Negotiating with the storage unit\<close>

text \<open>
  An exchange with a storage unit whose requests and replies all arrive: the handler of
  \<^verbatim>\<open>storage/taskdep\<close>, with the random numbers it will draw. A request that gets no reply, or
  whose handler fails, ends as a task without success.
\<close>

definition drew_number :: "response option \<Rightarrow> bool" where
  "drew_number reply \<longleftrightarrow>
     (case reply of None \<Rightarrow> False | Some r \<Rightarrow>
       (case rs_neogiate r of None \<Rightarrow> False | Some n \<Rightarrow> ng_alternative n \<noteq> []))"

definition storage_net :: "endpoint \<Rightarrow> ('w datamanager \<times> 'w \<times> (nat \<Rightarrow> u64)) exchange" where
  "storage_net self t = (\<lambda>(dm, w, rnd).
     case storage_process (rnd 0) self (ct_req t) (Response_new 0 0 0 0) dm w of
       Inl _ \<Rightarrow> (None, (dm, w, rnd))
     | Inr ((dm', reply), w') \<Rightarrow>
         (reply, (dm', w', if drew_number reply then (\<lambda>i. rnd (Suc i)) else rnd)))"

definition storage_ready :: "'w posix \<Rightarrow> 'w datamanager \<Rightarrow> bool" where
  "storage_ready px dm \<longleftrightarrow> local_routed px dm \<and> tables_ok dm \<and> dm_is_init dm"

lemma storage_ready_same: "storage_ready px dm \<Longrightarrow> same_base dm dm' \<Longrightarrow> tables_ok dm' \<Longrightarrow> storage_ready px dm'"
  by (simp add: storage_ready_def)

lemma storage_net_accepts:
  assumes "storage_ready px dm" and "negotiates (ct_req t)" and "rq_engine (ct_req t) = Some e"
    and "\<not> task_exist dm (rq_taskid (ct_req t))"
  shows "\<exists>r dm' w'. storage_net self t (dm, w, rnd) = (Some r, (dm', w', rnd)) \<and> storage_ready px dm' \<and>
    neogiation_reply Neo_succeed [] (rq_taskid (ct_req t)) r \<and>
    map_of (dm_engines dm') = (map_of (dm_engines dm))(rq_taskid (ct_req t) \<mapsto> task_entry (rq_taskid (ct_req t)) e)"
proof -
  obtain dm' w' r n where p: "storage_process (rnd 0) self (ct_req t) (Response_new 0 0 0 0) dm w = Inr ((dm', Some r), w')"
    and r: "rs_neogiate r = Some n" "rs_taskid r = rq_taskid (ct_req t)" "rs_src r = addr_code Addr_storage"
    "rs_dest r = addr_code Addr_management" "rs_msg r = msg_code Msg_neogiate"
    "ng_status n = neogiate_code Neo_succeed" "ng_alternative n = []"
    and dm': "same_base dm dm'" "tables_ok dm'"
    "map_of (dm_engines dm') = (map_of (dm_engines dm))(rq_taskid (ct_req t) \<mapsto> task_entry (rq_taskid (ct_req t)) e)"
    using negotiation_succeed [where px = px and dm = dm and req = "ct_req t" and e = e and resp = "Response_new 0 0 0 0"
      and alt = "rnd 0" and self = self and w = w] assms
    by (auto simp: storage_ready_def Response_new_def)
  from p r have "storage_net self t (dm, w, rnd) = (Some r, (dm', w', rnd))"
    by (simp add: storage_net_def drew_number_def)
  moreover from r have "neogiation_reply Neo_succeed [] (rq_taskid (ct_req t)) r"
    by (simp add: neogiation_reply_def for_management_def)
  ultimately show ?thesis using storage_ready_same [OF assms(1) dm'(1,2)] dm'(3) by blast
qed

lemma storage_net_conflicts:
  assumes "storage_ready px dm" and "negotiates (ct_req t)" and "task_exist dm (rq_taskid (ct_req t))"
  shows "\<exists>r. storage_net self t (dm, w, rnd) = (Some r, (dm, w, (\<lambda>i. rnd (Suc i)))) \<and>
    neogiation_reply Neo_conflict [rnd 0] (rq_taskid (ct_req t)) r"
proof -
  obtain e where "rq_engine (ct_req t) = Some e" using assms(2) by (auto simp: negotiates_def)
  with assms obtain r n where p: "storage_process (rnd 0) self (ct_req t) (Response_new 0 0 0 0) dm w = Inr ((dm, Some r), w)"
    and r: "rs_neogiate r = Some n" "rs_taskid r = rq_taskid (ct_req t)" "rs_src r = addr_code Addr_storage"
    "rs_dest r = addr_code Addr_management" "rs_msg r = msg_code Msg_neogiate"
    "ng_status n = neogiate_code Neo_conflict" "ng_alternative n = [rnd 0]"
    using negotiation_conflict [where px = px and dm = dm and req = "ct_req t" and e = e and resp = "Response_new 0 0 0 0"
      and alt = "rnd 0" and self = self and w = w]
    by (auto simp: storage_ready_def Response_new_def)
  then show ?thesis
    by (simp add: storage_net_def drew_number_def neogiation_reply_def for_management_def)
qed

interpretation storage_unit: negotiable_storage "storage_net self" "\<lambda>(dm, _, _). storage_ready px dm"
  "\<lambda>(dm, _, _). map_of (dm_engines dm)" task_entry "\<lambda>(_, _, rnd). rnd" for self px
proof (unfold_locales, goal_cases)
  case (1 w t e)
  obtain dm v rnd where w: "w = (dm, v, rnd)" by (metis prod_cases3)
  with 1 have "storage_ready px dm" "\<not> task_exist dm (rq_taskid (ct_req t))" by (auto simp: task_exist_def)
  from storage_net_accepts [OF this(1) 1(2,3) this(2), of self v rnd] show ?case unfolding w by fastforce
next
  case (2 w t)
  obtain dm v rnd where w: "w = (dm, v, rnd)" by (metis prod_cases3)
  with 2 have "storage_ready px dm" "task_exist dm (rq_taskid (ct_req t))" by (auto simp: task_exist_def)
  from storage_net_conflicts [OF this(1) 2(2) this(2), of self v rnd] w \<open>storage_ready px dm\<close> show ?case by auto
qed

text \<open>
  C12: a negotiation between the client and an initialised storage unit. A free number is registered with its
  engine and returned. For a taken one the client goes through the alternatives the storage unit
  draws; the first free one is registered and returned, the others stay as they are. If every
  number drawn is taken, the call never returns: there is no limit to the attempts.
\<close>

theorem negotiation_agrees:
  assumes "storage_ready px dm" and "rq_engine req0 = None"
  shows "if \<not> task_exist dm t
    then \<exists>dm' w' rnd'. create_neogiate_task (storage_net self) ctx req0 t e (dm, w, rnd) = Some (Inr (t, (dm', w', rnd'))) \<and>
      storage_ready px dm' \<and> map_of (dm_engines dm') = (map_of (dm_engines dm))(t \<mapsto> task_entry t e)
    else if \<exists>k. \<not> task_exist dm (rnd k)
    then \<exists>k dm' w' rnd'. (\<forall>i<k. task_exist dm (rnd i)) \<and> \<not> task_exist dm (rnd k) \<and>
      create_neogiate_task (storage_net self) ctx req0 t e (dm, w, rnd) = Some (Inr (rnd k, (dm', w', rnd'))) \<and>
      storage_ready px dm' \<and> map_of (dm_engines dm') = (map_of (dm_engines dm))(rnd k \<mapsto> task_entry (rnd k) e)
    else create_neogiate_task (storage_net self) ctx req0 t e (dm, w, rnd) = None"
proof -
  have ex: "task_exist dm i \<longleftrightarrow> i \<in> dom (map_of (dm_engines dm))" for i by (auto simp: task_exist_def)
  consider (free) "\<not> task_exist dm t" | (alt) k where "task_exist dm t" "\<not> task_exist dm (rnd k)" "\<forall>i<k. task_exist dm (rnd i)"
    | (full) "task_exist dm t" "\<forall>i. task_exist dm (rnd i)"
    using exists_least_iff [of "\<lambda>k. \<not> task_exist dm (rnd k)"] by blast
  then show ?thesis
  proof cases
    case free
    then show ?thesis
      using storage_unit.create_neogiate_task_free [of px "(dm, w, rnd)" req0 t self ctx e] assms ex by auto
  next
    case alt
    then have "\<exists>dm' w' rnd'. create_neogiate_task (storage_net self) ctx req0 t e (dm, w, rnd) = Some (Inr (rnd k, (dm', w', rnd'))) \<and>
      storage_ready px dm' \<and> map_of (dm_engines dm') = (map_of (dm_engines dm))(rnd k \<mapsto> task_entry (rnd k) e)"
      using storage_unit.create_neogiate_task_alternative [of px "(dm, w, rnd)" req0 t k self ctx e] assms ex by auto
    with alt show ?thesis by auto
  next
    case full
    then show ?thesis
      using storage_unit.create_neogiate_task_forever [of px "(dm, w, rnd)" req0 t self ctx e] assms ex by auto
  qed
qed

section \<open>Any network\<close>

definition neogiated :: "'w exchange \<Rightarrow> client_ctx \<Rightarrow> request \<Rightarrow> engine \<Rightarrow> u64 \<Rightarrow> 'w \<Rightarrow> bool" where
  "neogiated net ctx req0 e r w' \<longleftrightarrow>
     (\<exists>w reply n. net (create_client_task (cl_ssl ctx) (cl_storage ctx) (neogiate_request ctx r e req0)) w = (Some reply, w') \<and>
        for_management Addr_storage Msg_neogiate r reply \<and> rs_neogiate reply = Some n \<and>
        ng_status n = neogiate_code Neo_succeed)"

lemma neogiatedI:
  "\<lbrakk>net (create_client_task (cl_ssl ctx) (cl_storage ctx) (neogiate_request ctx r e req0)) w = (Some reply, w');
     for_management Addr_storage Msg_neogiate r reply; rs_neogiate reply = Some n; ng_status n = neogiate_code Neo_succeed\<rbrakk>
   \<Longrightarrow> neogiated net ctx req0 e r w'"
  unfolding neogiated_def by blast

lemma neogiate_repeater_callback_succeed:
  assumes "neogiate_repeater_callback (fst (net t w)) v = Inr v'" and "nv_result v' \<noteq> 0" and "nv_result v = 0"
    and "create_neogiate_task_repeater ctx e req0 v = Some t"
  shows "nv_success v' \<and> neogiated net ctx req0 e (nv_result v') (snd (net t w))"
proof -
  obtain reply w' where net: "net t w = (reply, w')" by (cases "net t w")
  have t: "t = create_client_task (cl_ssl ctx) (cl_storage ctx) (neogiate_request ctx (nv_taskid v) e req0)"
    using assms(4) by (simp add: create_neogiate_task_repeater_def split: if_splits)
  from assms(1-3) net have "nv_result v' = nv_taskid v" "nv_success v'" "\<exists>r n. reply = Some r \<and>
    for_management Addr_storage Msg_neogiate (nv_taskid v) r \<and> rs_neogiate r = Some n \<and> ng_status n = neogiate_code Neo_succeed"
    by (auto simp: neogiate_repeater_callback_def split: option.splits if_splits list.splits)
  with net t show ?thesis by (auto simp: neogiated_def)
qed

text \<open>
  whatever the network delivers, a number other than 0 is returned only if the last exchange of
  the call was a request for exactly that number, and its reply was a \<open>succeed\<close> for it from the storage unit.
\<close>

theorem negotiation_result:
  assumes "create_neogiate_task net ctx req0 taskid e w = Some (Inr (r, w'))" and "r \<noteq> 0"
  shows "neogiated net ctx req0 e r w'"
proof -
  let ?create = "create_neogiate_task_repeater ctx e req0"
  let ?I = "\<lambda>v w. nv_result v \<noteq> 0 \<longrightarrow> nv_success v \<and> neogiated net ctx req0 e (nv_result v) w"
  obtain reply w1 where net: "net (create_client_task (cl_ssl ctx) (cl_storage ctx) (neogiate_request ctx taskid e req0)) w = (reply, w1)"
    by (metis surj_pair)
  obtain v rep where cb: "neogiate_callback reply \<lparr>nv_taskid = taskid, nv_result = 0, nv_success = False\<rparr> = Inr (v, rep)"
    using assms(1) net by (auto simp: create_neogiate_task_def split: sum.splits)
  show ?thesis
  proof (cases rep)
    case False
    then have "r = nv_result v" "w' = w1" using assms(1) net cb by (simp_all add: create_neogiate_task_def)
    with cb net assms(2) False show ?thesis
      by (auto simp: neogiate_callback_def split: option.splits if_splits list.splits intro: neogiatedI)
  next
    case True
    then have v: "nv_result v = 0"
      using cb by (auto simp: neogiate_callback_def split: option.splits if_splits list.splits)
    from True obtain v' where "repeat_tasks ?create net neogiate_repeater_callback v w1 = Some (Inr (v', w'))"
      and r: "r = nv_result v'"
      using assms(1) net cb by (auto simp: create_neogiate_task_def split: option.splits)
    moreover have "kept ?I ?create net neogiate_repeater_callback"
      unfolding kept_def
    proof (intro allI impI, elim conjE)
      fix v w t v'
      assume I: "?I v w" and t: "?create v = Some t" and "neogiate_repeater_callback (fst (net t w)) v = Inr v'"
        and "nv_result v' \<noteq> 0"
      moreover have "nv_result v = 0" using I t by (auto simp: create_neogiate_task_repeater_def split: if_splits)
      ultimately show "nv_success v' \<and> neogiated net ctx req0 e (nv_result v') (snd (net t w))"
        by (intro neogiate_repeater_callback_succeed)
    qed
    ultimately have "ended ?I ?create net neogiate_repeater_callback (Inr (v', w'))"
      using repeat_tasks_ended [of ?create net neogiate_repeater_callback v w1 _ ?I] v by simp
    with r assms(2) show ?thesis by (simp add: ended_def)
  qed
qed

text \<open>
  a client that cannot reach the storage unit gives up at once and returns 0; one that loses
  the connection after a first \<open>conflict\<close> asks again for as long as the connection is down, forever if it
  stays so (\<open>D\<close> is a set of states of the network in which every exchange fails and leads to
  such a state).
\<close>

theorem negotiation_connection_lost:
  assumes down: "\<forall>w \<in> D. \<forall>t. fst (net t w) = None \<and> snd (net t w) \<in> D"
  shows "(w \<in> D \<longrightarrow> (\<exists>w' \<in> D. create_neogiate_task net ctx req0 taskid e w = Some (Inr (0, w')))) \<and>
    (net (create_client_task (cl_ssl ctx) (cl_storage ctx) (neogiate_request ctx taskid e req0)) w = (Some reply, w1) \<and>
       neogiation_reply Neo_conflict (a # as) taskid reply \<and> w1 \<in> D \<longrightarrow>
     create_neogiate_task net ctx req0 taskid e w = None)"
proof (intro conjI impI)
  let ?t = "create_client_task (cl_ssl ctx) (cl_storage ctx) (neogiate_request ctx taskid e req0)"
  assume "w \<in> D"
  with down have "fst (net ?t w) = None" and D: "snd (net ?t w) \<in> D" by blast+
  then have "create_neogiate_task net ctx req0 taskid e w = Some (Inr (0, snd (net ?t w)))"
    by (simp add: create_neogiate_task_def neogiate_callback_def split_beta)
  with D show "\<exists>w' \<in> D. create_neogiate_task net ctx req0 taskid e w = Some (Inr (0, w'))" by blast
next
  assume first: "net (create_client_task (cl_ssl ctx) (cl_storage ctx) (neogiate_request ctx taskid e req0)) w = (Some reply, w1) \<and>
    neogiation_reply Neo_conflict (a # as) taskid reply \<and> w1 \<in> D"
  let ?v = "\<lparr>nv_taskid = a, nv_result = 0, nv_success = False\<rparr>"
  have "repeat_tasks (create_neogiate_task_repeater ctx e req0) net neogiate_repeater_callback ?v w1 = None"
  proof (rule repeat_tasks_forever [where I = "\<lambda>v w. \<not> nv_success v \<and> w \<in> D"])
    have lost: "neogiate_repeater_callback (fst (net t w)) v = Inr (v\<lparr>nv_success := False\<rparr>)" if "w \<in> D" for t w v
      using down that by (simp add: neogiate_repeater_callback_def)
    show "\<not> nv_success ?v \<and> w1 \<in> D" using first by simp
    show "kept (\<lambda>v w. \<not> nv_success v \<and> w \<in> D) (create_neogiate_task_repeater ctx e req0) net neogiate_repeater_callback"
      unfolding kept_def using down lost by auto
    show "neogiate_repeater_callback (fst (net t w)) v \<noteq> Inl err" if "\<not> nv_success v \<and> w \<in> D" for v w t err
      using lost that by simp
  qed (simp add: create_neogiate_task_repeater_def)
  with first show "create_neogiate_task net ctx req0 taskid e w = None"
    by (auto simp: create_neogiate_task_def neogiate_callback_def neogiation_reply_def)
qed

text \<open>Replies to a deployment.\<close>

definition deployment_reply :: "deploy_status \<Rightarrow> u32 \<Rightarrow> u64 \<Rightarrow> response \<Rightarrow> bool" where
  "deployment_reply st taskstatus taskid r \<longleftrightarrow> for_management Addr_cluster Msg_deploy taskid r \<and>
     (\<exists>d. rs_deploy r = Some d \<and> dp_status d = deploy_code st \<and> dp_taskstatus d = taskstatus)"

abbreviation deploy_task_of where
  "deploy_task_of ctx taskid ds a g req0 \<equiv> create_client_task (cl_ssl ctx) (cl_computation ctx) (deploy_request ctx taskid ds a g req0)"

lemma dangling_callback_result:
  "deploy_repeater_callback (parameter_of_returned_call taskid) reply v = Inr v' \<Longrightarrow> dv_result v' = dv_result v"
  by (auto simp: deploy_repeater_callback_def parameter_of_returned_call_def split: option.splits if_splits)

text \<open>
  whatever the network delivers, a deployment that returns a task status got it in its first
  exchange, in a \<open>succeed\<close> from the computing unit for its own number. An attempt after a \<open>busy\<close> never
  yields one: the callback of the repeated task reads its number through a reference to a
  parameter that is gone.
\<close>

theorem deploy_result:
  assumes "create_deploy_task net ctx req0 g taskid ds a m w = Some (Inr (r, w'))" and "r \<noteq> -1"
  shows "\<exists>reply ts. net (deploy_task_of ctx taskid ds a g req0) w = (Some reply, w') \<and>
    deployment_reply Dep_succeed ts taskid reply \<and> r = sint ts"
proof -
  let ?create = "create_deploy_task_repeater ctx taskid ds a g req0"
  let ?cb = "deploy_repeater_callback (parameter_of_returned_call taskid)"
  let ?I = "\<lambda>v w. dv_result v = -1"
  obtain reply w1 where net: "net (deploy_task_of ctx taskid ds a g req0) w = (reply, w1)" by (metis surj_pair)
  obtain v rep where cb: "deploy_callback taskid reply \<lparr>dv_busy_retry_max = m, dv_result = -1, dv_success = False\<rparr> = Inr (v, rep)"
    using assms(1) net by (auto simp: create_deploy_task_def create_deploy_task_via_def split: sum.splits)
  show ?thesis
  proof (cases rep)
    case False
    then have "r = dv_result v" "w' = w1"
      using assms(1) net cb by (simp_all add: create_deploy_task_def create_deploy_task_via_def)
    with cb net assms(2) show ?thesis
      by (auto simp: deploy_callback_def deployment_reply_def split: option.splits if_splits)
  next
    case True
    then have v: "?I v w1" using cb by (auto simp: deploy_callback_def split: option.splits if_splits)
    from True obtain v' where rep: "repeat_tasks ?create net ?cb v w1 = Some (Inr (v', w'))" and r: "r = dv_result v'"
      using assms(1) net cb by (auto simp: create_deploy_task_def create_deploy_task_via_def split: option.splits)
    have "kept ?I ?create net ?cb" unfolding kept_def using dangling_callback_result by metis
    with repeat_tasks_ended [of ?create net ?cb v w1 _ ?I, OF rep v] r assms(2) show ?thesis by (simp add: ended_def)
  qed
qed

lemma busy_until_overflow:
  assumes busy: "\<forall>w \<in> D. \<forall>t. \<exists>reply w' ts. net t w = (Some reply, w') \<and> w' \<in> D \<and> deployment_reply Dep_busy ts taskid reply"
    and "w \<in> D" and "dv_busy_retry_max v \<ge> int32_min" and "\<not> dv_success v"
  shows "repeat_tasks (create_deploy_task_repeater ctx taskid ds a g req0) net (deploy_repeater_callback (Inr taskid)) v w =
    Some (Inl Undefined_behaviour)"
  using assms(2-4)
proof (induction "nat (dv_busy_retry_max v - int32_min)" arbitrary: v w)
  case (0 v w)
  obtain reply w' ts where net: "net (deploy_task_of ctx taskid ds a g req0) w = (Some reply, w')"
    and "deployment_reply Dep_busy ts taskid reply"
    using busy 0(2) by blast
  with 0 show ?case
    by (subst repeat_tasks.simps)
      (auto simp: create_deploy_task_repeater_def deploy_repeater_callback_def deployment_reply_def for_management_def
        decrement_int_def int32_min_def Let_def)
next
  case (Suc k v w)
  obtain reply w' ts where net: "net (deploy_task_of ctx taskid ds a g req0) w = (Some reply, w')"
    and w': "w' \<in> D" and r: "deployment_reply Dep_busy ts taskid reply"
    using busy Suc.prems(1) by blast
  let ?v = "v\<lparr>dv_success := False, dv_busy_retry_max := dv_busy_retry_max v - 1\<rparr>"
  have "dv_busy_retry_max v \<noteq> int32_min" using Suc.hyps(2) by auto
  with r have "deploy_repeater_callback (Inr taskid) (Some reply) v = Inr ?v"
    by (auto simp: deploy_repeater_callback_def deployment_reply_def for_management_def decrement_int_def Let_def)
  moreover have "repeat_tasks (create_deploy_task_repeater ctx taskid ds a g req0) net
      (deploy_repeater_callback (Inr taskid)) ?v w' = Some (Inl Undefined_behaviour)"
    by (rule Suc.hyps(1)) (use Suc.hyps(2) Suc.prems w' in auto)
  ultimately show ?case
    using net Suc.prems(3) by (subst repeat_tasks.simps) (simp add: create_deploy_task_repeater_def)
qed

text \<open>
  a computing unit that stays busy (\<open>D\<close> is a set of states in which every exchange is answered \<open>busy\<close>) is
  asked again whatever \<open>busy_retry_max\<close> says: the call does not return a result. Its second
  callback reads a dangling reference. Were the reference valid, the counter would pass 0 without
  effect and be decremented until it overflows.
\<close>

theorem busy_retry_max_ignored:
  assumes busy: "\<forall>w \<in> D. \<forall>t. \<exists>reply w' ts. net t w = (Some reply, w') \<and> w' \<in> D \<and> deployment_reply Dep_busy ts taskid reply"
    and "w \<in> D" and "m \<ge> int32_min"
  shows "create_deploy_task net ctx req0 g taskid ds a m w = Some (Inl Undefined_behaviour) \<and>
    create_deploy_task_via Inr net ctx req0 g taskid ds a m w = Some (Inl Undefined_behaviour)"
proof -
  let ?v = "\<lparr>dv_busy_retry_max = m, dv_result = -1, dv_success = False\<rparr>"
  obtain reply w1 ts where net: "net (deploy_task_of ctx taskid ds a g req0) w = (Some reply, w1)"
    and w1: "w1 \<in> D" and "deployment_reply Dep_busy ts taskid reply"
    using busy assms(2) by blast
  then have cb: "deploy_callback taskid (Some reply) ?v = Inr (?v, True)"
    by (auto simp: deploy_callback_def deployment_reply_def)
  obtain reply' w2 ts' where "net (deploy_task_of ctx taskid ds a g req0) w1 = (Some reply', w2)"
    and "deployment_reply Dep_busy ts' taskid reply'"
    using busy w1 by blast
  then have "repeat_tasks (create_deploy_task_repeater ctx taskid ds a g req0) net
      (deploy_repeater_callback (parameter_of_returned_call taskid)) ?v w1 = Some (Inl Undefined_behaviour)"
    by (subst repeat_tasks.simps) (auto simp: create_deploy_task_repeater_def deploy_repeater_callback_def
      deployment_reply_def for_management_def parameter_of_returned_call_def)
  moreover have "repeat_tasks (create_deploy_task_repeater ctx taskid ds a g req0) net
      (deploy_repeater_callback (Inr taskid)) ?v w1 = Some (Inl Undefined_behaviour)"
    by (rule busy_until_overflow [OF busy w1]) (use assms(3) in simp_all)
  ultimately show ?thesis
    using net cb by (simp add: create_deploy_task_def create_deploy_task_via_def)
qed

text \<open>
  Witness data: a client of the storage unit that knows task 7, a network that is down, and a
  computing unit that answers every deployment of task 7 with one status.
\<close>

definition sample_client :: client_ctx where
  "sample_client = main_management
     \<lparr>fl_comp_addr = ''comp'', fl_comp_port = 8537, fl_stor_addr = ''storage'', fl_stor_port = 8538, fl_cert = []\<rparr>
     (ManagementClient_new False)"

definition down_net :: "unit exchange" where
  "down_net t w = (None, w)"

definition unit_answer :: "deploy_status \<Rightarrow> u32 \<Rightarrow> response" where
  "unit_answer st taskstatus = (Response_new 1 2 2 7)\<lparr>rs_deploy :=
     Some \<lparr>dp_status = deploy_code st, dp_errstr = [], dp_taskstatus = taskstatus\<rparr>\<rparr>"

definition unit_net :: "deploy_status \<Rightarrow> u32 \<Rightarrow> unit exchange" where
  "unit_net st taskstatus t w = (Some (unit_answer st taskstatus), w)"

definition sample_datasource :: datasource where
  "sample_datasource = \<lparr>ds_src = \<lparr>src_input = ''in'', src_type = ''data''\<rparr>,
     ds_dest = \<lparr>dest_output = ''out'', dest_directorypolicy = 0, dest_emptypolicy = 0\<rparr>\<rparr>"

definition sample_attr :: attr where
  "sample_attr = \<lparr>at_trigger = 0, at_period = None, at_deps = [], at_virtstorage = False\<rparr>"

lemma unit_answer_reply: "deployment_reply st taskstatus 7 (unit_answer st taskstatus)"
  by (simp add: deployment_reply_def for_management_def unit_answer_def Response_new_def)

lemma mem_storage_ready: "storage_ready mem_posix mem_storage"
  using mem_storage_ok by (simp add: storage_ready_def)

lemma mem_storage_tasks: "task_exist mem_storage t \<longleftrightarrow> t = 7"
  by (simp add: task_exist_def mem_storage_def)

theorem negotiation_agrees_witness:
  "(\<exists>w'. create_neogiate_task (storage_net storage_self) sample_client (Request_new 0 0 0 0) 7 Engine_new
      (mem_storage, (Map.empty, Map.empty), \<lambda>i. if i < 2 then 7 else 12) = Some (Inr (12, w'))) \<and>
   create_neogiate_task (storage_net storage_self) sample_client (Request_new 0 0 0 0) 7 Engine_new
      (mem_storage, (Map.empty, Map.empty), \<lambda>_. 7) = None"
proof
  let ?rnd = "\<lambda>i::nat. if i < 2 then 7 else (12::u64)"
  have req0: "rq_engine (Request_new 0 0 0 0) = None" by (simp add: Request_new_def)
  note agrees = negotiation_agrees [OF mem_storage_ready req0, of 7]
  have "\<exists>k. \<not> task_exist mem_storage (?rnd k)" by (intro exI [of _ 2]) (simp add: mem_storage_tasks)
  with agrees [where rnd = ?rnd and self = storage_self and ctx = sample_client and e = Engine_new and w = "(Map.empty, Map.empty)"]
  obtain k dm' w' rnd' where "\<not> task_exist mem_storage (?rnd k)" and
    "create_neogiate_task (storage_net storage_self) sample_client (Request_new 0 0 0 0) 7 Engine_new
      (mem_storage, (Map.empty, Map.empty), ?rnd) = Some (Inr (?rnd k, (dm', w', rnd')))"
    by (auto simp: mem_storage_tasks split: if_splits)
  then show "\<exists>w'. create_neogiate_task (storage_net storage_self) sample_client (Request_new 0 0 0 0) 7 Engine_new
      (mem_storage, (Map.empty, Map.empty), ?rnd) = Some (Inr (12, w'))"
    by (auto simp: mem_storage_tasks split: if_splits)
  show "create_neogiate_task (storage_net storage_self) sample_client (Request_new 0 0 0 0) 7 Engine_new
      (mem_storage, (Map.empty, Map.empty), \<lambda>_. 7) = None"
    using agrees [where rnd = "\<lambda>_. 7" and self = storage_self and ctx = sample_client and e = Engine_new
      and w = "(Map.empty, Map.empty)"]
    by (simp add: mem_storage_tasks)
qed

theorem negotiation_result_witness:
  "\<exists>w' :: mem datamanager \<times> mem \<times> (nat \<Rightarrow> u64).
     neogiated (storage_net storage_self) sample_client (Request_new 0 0 0 0) Engine_new 9 w'"
proof -
  have "rq_engine (Request_new 0 0 0 0) = None" and "9 \<notin> dom (map_of (dm_engines mem_storage))"
    by (simp_all add: Request_new_def mem_storage_def)
  with storage_unit.create_neogiate_task_free [of mem_posix "(mem_storage, (Map.empty, Map.empty), \<lambda>_. 1)"
      "Request_new 0 0 0 0" 9 storage_self sample_client Engine_new]
  obtain w' where "create_neogiate_task (storage_net storage_self) sample_client (Request_new 0 0 0 0) 9 Engine_new
      (mem_storage, (Map.empty, Map.empty), \<lambda>_. 1) = Some (Inr (9, w'))"
    by (auto simp: mem_storage_ready)
  from negotiation_result [OF this] have "neogiated (storage_net storage_self) sample_client (Request_new 0 0 0 0) Engine_new 9 w'"
    by simp
  then show ?thesis by blast
qed

theorem negotiation_connection_lost_witness:
  "\<exists>w'. create_neogiate_task down_net sample_client (Request_new 0 0 0 0) 7 Engine_new () = Some (Inr (0, w'))"
  using negotiation_connection_lost [of UNIV down_net "()" sample_client "Request_new 0 0 0 0" 7 Engine_new]
  by (auto simp: down_net_def)

theorem deploy_result_witness:
  "\<exists>reply ts. unit_net Dep_succeed 4 (deploy_task_of sample_client 7 sample_datasource sample_attr (0, False)
      (Request_new 0 0 0 0)) () = (Some reply, ()) \<and> deployment_reply Dep_succeed ts 7 reply \<and> 4 = sint ts"
proof -
  have "create_deploy_task (unit_net Dep_succeed 4) sample_client (Request_new 0 0 0 0) (0, False) 7 sample_datasource
      sample_attr 3 () = Some (Inr (4, ()))"
    by (simp add: create_deploy_task_def create_deploy_task_via_def unit_net_def deploy_callback_def unit_answer_def
        for_management_def Response_new_def)
  from deploy_result [OF this] show ?thesis by simp
qed

theorem busy_retry_max_ignored_witness:
  "create_deploy_task_via Inr (unit_net Dep_busy 0) sample_client (Request_new 0 0 0 0) (0, False) 7 sample_datasource
     sample_attr 3 () = Some (Inl Undefined_behaviour)"
proof -
  have "\<forall>w \<in> UNIV. \<forall>t. \<exists>reply w' ts. unit_net Dep_busy 0 t w = (Some reply, w') \<and> w' \<in> UNIV \<and>
      deployment_reply Dep_busy ts 7 reply"
    using unit_answer_reply [of Dep_busy 0] by (auto simp: unit_net_def)
  from busy_retry_max_ignored [OF this, of "()" 3 sample_client "Request_new 0 0 0 0" "(0, False)" sample_datasource sample_attr]
  show ?thesis by (simp add: int32_min_def)
qed

end
