(* ===== verification/Taskdep_System.thy ===== *)
theory Taskdep_System
  imports Cluster_Taskdep Management_Client
begin

text \<open>
  The management unit's client against the handlers of the two servers it talks to: deployments
  to the computing unit, and terminations that go to the storage unit and to the computing unit.
  The network delivers every request and every reply.
\<close>

section \<open>The computing unit as a peer\<close>

text \<open>The state: the task table, the loaded nodes and the jobs started so far.\<close>

type_synonym cluster_state = "taskmanager \<times> nodes \<times> sub_task list"

definition cluster_net ::
  "(submit_request \<Rightarrow> string) \<Rightarrow> u32 \<Rightarrow> request \<Rightarrow> endpoint \<Rightarrow> string \<Rightarrow> cluster_state exchange" where
  "cluster_net dump u g self name t = (\<lambda>(tm, nodes, jobs).
     case process dump u g self name (ct_req t) (Response_new 0 0 0 0) tm nodes of
       Inl _ \<Rightarrow> (None, (tm, nodes, jobs))
     | Inr h \<Rightarrow> (hd_resp h, (hd_table h, hd_nodes h, jobs @ (case hd_job h of None \<Rightarrow> [] | Some j \<Rightarrow> [j]))))"

lemma deploy_request_accepted:
  assumes "rq_attr req0 = None" and "deployable ds a"
  shows "\<not> ignored (deploy_request ctx t ds a g req0)" "rq_msg (deploy_request ctx t ds a g req0) = msg_code Msg_deploy"
    "rq_attr (deploy_request ctx t ds a g req0) = Some a" "rq_datasource (deploy_request ctx t ds a g req0) = Some ds"
    "rq_taskid (deploy_request ctx t ds a g req0) = t" "obj_management (rq_object (deploy_request ctx t ds a g req0)) \<noteq> None"
  by (simp_all add: deploy_request_eq [OF assms] ignored_def)

section \<open>Deployments\<close>

text \<open>The task status a client gets for a verdict.\<close>

definition verdict_result :: "deploy_status \<Rightarrow> attr \<Rightarrow> int" where
  "verdict_result verdict a =
     (if verdict = Dep_succeed then (if at_trigger a = trigger_code Trigger_create then 1 else 0) else -1)"

text \<open>A first reply other than \<open>busy\<close> settles a deployment, on any network.\<close>

lemma deploy_first_reply:
  assumes "net (deploy_task_of ctx t ds a g req0) w = (Some r, w')" and "deployment_reply st ts t r" and "st \<noteq> Dep_busy"
  shows "create_deploy_task net ctx req0 g t ds a busy w = Some (Inr (if st = Dep_succeed then sint ts else -1, w'))"
  using assms by (cases st) (auto simp: create_deploy_task_def create_deploy_task_via_def deploy_callback_def deployment_reply_def)

text \<open>What the table becomes, and whether a job was started, for a verdict.\<close>

definition deployed_effect ::
  "deploy_status \<Rightarrow> u64 set \<Rightarrow> (u64 \<times> u64) set \<Rightarrow> u64 \<Rightarrow> attr \<Rightarrow> taskmanager \<Rightarrow> taskmanager \<Rightarrow> sub_task list \<Rightarrow> bool" where
  "deployed_effect verdict V E t a tm tm' jobs \<longleftrightarrow>
     (if verdict = Dep_succeed
      then tm_wf tm' \<and> abs_table tm' = (insert t V,
          E \<union> (if at_trigger a = trigger_code Trigger_deps then {t} \<times> set (at_deps a) else {})) \<and>
        (jobs \<noteq> [] \<longleftrightarrow> at_trigger a = trigger_code Trigger_create)
      else tm' = tm \<and> jobs = [])"

lemma cluster_deploys:
  assumes wf: "tm_wf tm" and abs: "abs_table tm = (V, E)" and req0: "rq_attr req0 = None" and ok: "deployable ds a"
  shows "\<exists>r ts tm' nodes' jobs'.
    cluster_net dump u g self name (deploy_task_of ctx t ds a g' req0) (tm, nodes, jobs) =
      (Some r, (tm', nodes', jobs @ jobs')) \<and>
    deployment_reply (deploy_verdict V nodes name t (ds_src ds) a) ts t r \<and>
    deploy_verdict V nodes name t (ds_src ds) a \<noteq> Dep_busy \<and>
    (deploy_verdict V nodes name t (ds_src ds) a = Dep_succeed \<longrightarrow>
       sint ts = verdict_result (deploy_verdict V nodes name t (ds_src ds) a) a) \<and>
    deployed_effect (deploy_verdict V nodes name t (ds_src ds) a) V E t a tm tm' jobs'"
proof -
  let ?req = "deploy_request ctx t ds a g' req0" and ?v = "deploy_verdict V nodes name t (ds_src ds) a"
  note req = deploy_request_accepted [OF req0 ok]
  have "rs_deploy (Response_new 0 0 0 0) = None" by (simp add: Response_new_def)
  from deployment_verdict [OF wf abs req(1-4) this,
      where dump = dump and u = u and g = g and self = self and name = name and nodes = nodes, unfolded req(5)]
  obtain h r p where h: "process dump u g self name ?req (Response_new 0 0 0 0) tm nodes = Inr h"
    and r: "hd_resp h = Some r" "rs_deploy r = Some p" and eff: "verdict_effect V E u t a tm ?v h p" by blast
  let ?jobs' = "case hd_job h of None \<Rightarrow> [] | Some j \<Rightarrow> [j]"
  have net: "cluster_net dump u g self name (deploy_task_of ctx t ds a g' req0) (tm, nodes, jobs) =
      (Some r, (hd_table h, hd_nodes h, jobs @ ?jobs'))"
    using h r by (simp add: cluster_net_def create_client_task_def)
  have "for_management Addr_cluster Msg_deploy t r"
    using ignored_iff_silent [OF wf, where dump = dump and u = u and g = g and self = self and name = name
        and req = ?req and resp = "Response_new 0 0 0 0" and nodes = nodes] h r req
    by (auto simp: for_management_def)
  moreover have "dp_status p = deploy_code ?v" "?v \<noteq> Dep_busy"
    using eff by (auto simp: verdict_effect_def deploy_verdict_def)
  moreover have "?v = Dep_succeed \<Longrightarrow> sint (dp_taskstatus p) = verdict_result ?v a"
    using eff by (simp add: verdict_effect_def verdict_result_def)
  ultimately show ?thesis
    using net r eff
    by (intro exI [of _ r] exI [of _ "dp_taskstatus p"] exI [of _ "hd_table h"] exI [of _ "hd_nodes h"] exI [of _ ?jobs'])
      (auto simp: deployment_reply_def deployed_effect_def verdict_effect_def split: option.split)
qed

text \<open>
  C13: a deployment by the client on a computing unit with a consistent table returns after one
  exchange: 1 (triggered) for a task whose job was started, 0 (deployed) for one that was only
  put into the table, -1 for every refusal, whatever its reason. The table then holds the new
  task with its dependencies, or is what it was.
\<close>

theorem deployment_agrees:
  assumes wf: "tm_wf tm" and abs: "abs_table tm = (V, E)" and req0: "rq_attr req0 = None" and ok: "deployable ds a"
  shows "\<exists>tm' nodes' jobs'.
    create_deploy_task (cluster_net dump u g self name) ctx req0 g' t ds a busy (tm, nodes, jobs) =
      Some (Inr (verdict_result (deploy_verdict V nodes name t (ds_src ds) a) a, (tm', nodes', jobs @ jobs'))) \<and>
    (if deploy_verdict V nodes name t (ds_src ds) a = Dep_succeed
     then tm_wf tm' \<and> abs_table tm' = (insert t V,
         E \<union> (if at_trigger a = trigger_code Trigger_deps then {t} \<times> set (at_deps a) else {})) \<and>
       (jobs' \<noteq> [] \<longleftrightarrow> at_trigger a = trigger_code Trigger_create)
     else tm' = tm \<and> jobs' = [])"
proof -
  let ?v = "deploy_verdict V nodes name t (ds_src ds) a"
  obtain r ts tm' nodes' jobs' where
    net: "cluster_net dump u g self name (deploy_task_of ctx t ds a g' req0) (tm, nodes, jobs) = (Some r, (tm', nodes', jobs @ jobs'))"
    and r: "deployment_reply ?v ts t r" "?v \<noteq> Dep_busy" "?v = Dep_succeed \<longrightarrow> sint ts = verdict_result ?v a"
    and eff: "deployed_effect ?v V E t a tm tm' jobs'"
    using cluster_deploys [OF assms, where dump = dump and u = u and g = g and self = self and name = name and ctx = ctx
        and t = t and g' = g' and nodes = nodes and jobs = jobs] by blast
  from deploy_first_reply [where net = "cluster_net dump u g self name" and busy = busy, OF net r(1,2)] r(3)
  have "create_deploy_task (cluster_net dump u g self name) ctx req0 g' t ds a busy (tm, nodes, jobs) =
      Some (Inr (verdict_result ?v a, (tm', nodes', jobs @ jobs')))" by (auto simp: verdict_result_def)
  with eff show ?thesis unfolding deployed_effect_def by blast
qed

section \<open>Terminations\<close>

text \<open>Both servers behind one network: a task goes to the unit whose address it was created for.\<close>

definition reaches :: "client_task \<Rightarrow> endpoint \<Rightarrow> bool" where
  "reaches t e \<longleftrightarrow> ct_url t = ep_url e \<and> ct_port t = ep_port e"

definition units_net ::
  "client_ctx \<Rightarrow> cluster_state exchange \<Rightarrow> 's exchange \<Rightarrow> (cluster_state \<times> 's) exchange" where
  "units_net ctx cluster storage t = (\<lambda>(c, s).
     if reaches t (cl_storage ctx) then (let (r, s') = storage t s in (r, (c, s')))
     else if reaches t (cl_computation ctx) then (let (r, c') = cluster t c in (r, (c', s)))
     else (None, (c, s)))"

lemma terminate_storage_request_fields:
  "terminates (terminate_storage_request ctx t req0)" "rq_taskid (terminate_storage_request ctx t req0) = t"
  by (simp_all add: terminate_storage_request_def terminates_def Request_setter_defs Let_def)

lemma terminate_cluster_request_fields:
  "\<not> ignored (terminate_cluster_request ctx t req0)" "rq_taskid (terminate_cluster_request ctx t req0) = t"
  "rq_msg (terminate_cluster_request ctx t req0) = msg_code Msg_terminate"
  "rq_src (terminate_cluster_request ctx t req0) = addr_code Addr_management"
  "rq_dest (terminate_cluster_request ctx t req0) = addr_code Addr_cluster"
  "obj_management (rq_object (terminate_cluster_request ctx t req0)) = Some (cl_management ctx)"
  by (simp_all add: terminate_cluster_request_def ignored_def Request_setter_defs Let_def)

lemma remove_task_forgets:
  assumes "tm_wf tm"
  shows "\<exists>tm'. remove_task g tm t False = Inr (tm', None) \<and> (\<forall>x. known tm' x \<longleftrightarrow> known tm x \<and> x \<noteq> t)"
proof (cases "map_of (tm_tasks tm) t")
  case None
  then show ?thesis by (auto simp: remove_task_def known_def)
next
  case (Some i)
  then show ?thesis
    using remove_task_silent [OF assms Some] by (auto simp: known_def map_of_removed)
qed

lemma cluster_terminates:
  assumes "tm_wf tm"
  shows "\<exists>r tm'. cluster_net dump u g self name
      (create_client_task ssl peer (terminate_cluster_request ctx t req0)) (tm, nodes, jobs) = (r, (tm', nodes, jobs)) \<and>
    (\<forall>x. known tm' x \<longleftrightarrow> known tm x \<and> x \<noteq> t)"
  using remove_task_forgets [OF assms, of g t] terminate_cluster_request_fields [of ctx t req0]
  by (auto simp: cluster_net_def create_client_task_def process_def Let_def)

lemma storage_terminates:
  assumes "storage_ready px dm"
  shows "\<exists>r dm' w' rnd'. storage_net self
      (create_client_task ssl peer (terminate_storage_request ctx t req0)) (dm, w, rnd) = (Some r, (dm', w', rnd')) \<and>
    (\<forall>x. task_exist dm' x \<longleftrightarrow> task_exist dm x \<and> x \<noteq> t) \<and> \<not> extfiles_exist dm' t"
proof -
  let ?req = "terminate_storage_request ctx t req0"
  have "terminates ?req \<or> reports_done ?req" using terminate_storage_request_fields by blast
  from storage_process_forgets [where px = px and dm = dm and self = self and alt = "rnd 0" and w = w and
      resp = "Response_new 0 0 0 0", OF _ _ this] assms terminate_storage_request_fields(2) [of ctx t req0]
  obtain dm' r w' where "storage_process (rnd 0) self ?req (Response_new 0 0 0 0) dm w = Inr ((dm', Some r), w')"
    and "map_of (dm_engines dm') = (map_of (dm_engines dm))(t := None)"
    and "map_of (dm_extfiles dm') = (map_of (dm_extfiles dm))(t := None)"
    by (auto simp: storage_ready_def)
  then show ?thesis
    by (simp add: storage_net_def create_client_task_def task_exist_def extfiles_exist_def)
qed

lemma units_terminate:
  assumes "tm_wf tm" and "storage_ready px dm"
    and "(ep_url (cl_computation ctx), ep_port (cl_computation ctx)) \<noteq> (ep_url (cl_storage ctx), ep_port (cl_storage ctx))"
  shows "\<exists>tm' dm' w' rnd'.
    create_terminate_task (units_net ctx (cluster_net dump u g self name) (storage_net self')) ctx req0 t
      ((tm, nodes, jobs), (dm, w, rnd)) = (0, ((tm', nodes, jobs), (dm', w', rnd'))) \<and>
    (\<forall>x. known tm' x \<longleftrightarrow> known tm x \<and> x \<noteq> t) \<and>
    (\<forall>x. task_exist dm' x \<longleftrightarrow> task_exist dm x \<and> x \<noteq> t) \<and> \<not> extfiles_exist dm' t"
proof -
  let ?t1 = "create_client_task (cl_ssl ctx) (cl_computation ctx) (terminate_cluster_request ctx t req0)"
  let ?t2 = "create_client_task (cl_ssl ctx) (cl_storage ctx) (terminate_storage_request ctx t req0)"
  obtain r1 tm' where c: "cluster_net dump u g self name ?t1 (tm, nodes, jobs) = (r1, (tm', nodes, jobs))"
    and tm': "\<forall>x. known tm' x \<longleftrightarrow> known tm x \<and> x \<noteq> t"
    using cluster_terminates [OF assms(1)] by blast
  obtain r2 dm' w' rnd' where s: "storage_net self' ?t2 (dm, w, rnd) = (Some r2, (dm', w', rnd'))"
    and dm': "\<forall>x. task_exist dm' x \<longleftrightarrow> task_exist dm x \<and> x \<noteq> t" "\<not> extfiles_exist dm' t"
    using storage_terminates [OF assms(2)] by blast
  have "reaches ?t2 (cl_storage ctx)" "\<not> reaches ?t1 (cl_storage ctx)" "reaches ?t1 (cl_computation ctx)"
    using assms(3) by (auto simp: reaches_def create_client_task_def)
  with c s tm' dm' show ?thesis
    by (simp add: create_terminate_task_def units_net_def)
qed


section \<open>Witnesses\<close>

theorem deployment_agrees_witness:
  "\<exists>w'. create_deploy_task (cluster_net sq_output_path 0 (Request_new 0 0 0 0) sample_server ''n'') sample_client
     (Request_new 0 0 0 0) (0, False) 9 sample_datasource sample_attr 3 (sample_table, [], []) = Some (Inr (0, w'))"
proof -
  have "deployable sample_datasource sample_attr" "rq_attr (Request_new 0 0 0 0) = None"
    by (simp_all add: deployable_def sample_datasource_def sample_attr_def Request_new_def)
  moreover have "deploy_verdict {7, 8} [] ''n'' 9 (ds_src sample_datasource) sample_attr = Dep_succeed"
    by (simp add: deploy_verdict_def deploy_input_def sample_datasource_def sample_attr_def)
  ultimately show ?thesis
    using deployment_agrees [OF sample_table_wf sample_table_abs, where ?req0.0 = "Request_new 0 0 0 0" and
        ds = sample_datasource and a = sample_attr and dump = sq_output_path and u = 0 and g = "Request_new 0 0 0 0" and
        self = sample_server and name = "''n''" and ctx = sample_client and g' = "(0, False)" and t = 9 and busy = 3 and
        nodes = "[]" and jobs = "[]"]
    by (auto simp: verdict_result_def sample_attr_def)
qed


end
