(* ===== verification/Datatransfer_Message.thy ===== *)
theory Datatransfer_Message
  imports Framing
begin

text \<open>
  The data transfer protocol, \<^verbatim>\<open>proto/datatransfer/message.h\<close>: the messages with which a computing
  unit pulls engines, run-time files and binaries from a storage unit or pushes them, their
  constructors, copies and moves, setters, \<^verbatim>\<open>encode\<close> and \<^verbatim>\<open>append\<close>. As in the task-deployment
  protocol the protobuf serialiser and parser are parameters, and uninitialised members are
  arguments. The size member is an \<^verbatim>\<open>int\<close>: the model is for messages of less than 2 GiB.
\<close>

section \<open>Sources of data\<close>

record adtsrc =
  ad_taskid :: u32
  ad_type :: u32
  ad_engineattr :: "string \<times> string"
  ad_endpointattr :: "string \<times> string"
  ad_binary :: string

record dtsrc =
  dt_master :: adtsrc
  dt_deps :: "(adtsrc \<times> string) list"

text \<open>\<^verbatim>\<open>Adtsrc()\<close>: \<open>type\<close> is not initialised.\<close>

definition Adtsrc_new :: "u32 \<Rightarrow> adtsrc" where
  "Adtsrc_new g_type =
     \<lparr>ad_taskid = 0, ad_type = g_type, ad_engineattr = ([], []), ad_endpointattr = ([], []), ad_binary = []\<rparr>"

definition Dtsrc_new :: "u32 \<Rightarrow> dtsrc" where
  "Dtsrc_new g_type = \<lparr>dt_master = Adtsrc_new g_type, dt_deps = []\<rparr>"

text \<open>The generated messages of \<^verbatim>\<open>ProtocolMessage.proto\<close>; optional fields are options.\<close>

record pb_adtsrc =
  pa_taskid :: "u32 option"
  pa_type :: u32
  pa_engine :: "(string \<times> string) option"
  pa_endpoint :: "(string \<times> string) option"
  pa_binary :: "string option"

definition pb_adtsrc0 :: pb_adtsrc where
  "pb_adtsrc0 = \<lparr>pa_taskid = None, pa_type = 0, pa_engine = None, pa_endpoint = None, pa_binary = None\<rparr>"

record pb_dep =
  pp_endpoint :: "pb_adtsrc option"
  pp_relative :: "string option"

record pb_dtsrc =
  pm_master :: "pb_adtsrc option"
  pm_deps :: "pb_dep list"

definition assignadtsrc :: "adtsrc \<Rightarrow> pb_adtsrc \<Rightarrow> pb_adtsrc" where
  "assignadtsrc src dest =
     (let d1 = (if ad_taskid src \<noteq> 0 then dest\<lparr>pa_taskid := Some (ad_taskid src)\<rparr> else dest);
          d2 = d1\<lparr>pa_type := ad_type src\<rparr>;
          d3 = (if fst (ad_endpointattr src) \<noteq> [] \<and> snd (ad_endpointattr src) \<noteq> []
                then d2\<lparr>pa_endpoint := Some (ad_endpointattr src)\<rparr> else d2);
          d4 = (if fst (ad_engineattr src) \<noteq> [] \<and> snd (ad_engineattr src) \<noteq> []
                then d3\<lparr>pa_engine := Some (ad_engineattr src)\<rparr> else d3)
      in if ad_binary src \<noteq> [] then d4\<lparr>pa_binary := Some (ad_binary src)\<rparr> else d4)"

definition assignAdtsrc :: "pb_adtsrc \<Rightarrow> adtsrc \<Rightarrow> adtsrc" where
  "assignAdtsrc src dest =
     dest\<lparr>ad_taskid := or_default 0 (pa_taskid src), ad_type := pa_type src,
          ad_endpointattr := or_default ([], []) (pa_endpoint src),
          ad_engineattr := or_default ([], []) (pa_engine src),
          ad_binary := or_default [] (pa_binary src)\<rparr>"

section \<open>Requests\<close>

record dt_request =
  dq_buf :: "string option"
  dq_size :: nat
  dq_token :: string
  dq_src :: string
  dq_dest :: string
  dq_direction :: u32
  dq_adtsrcs :: "adtsrc list"

definition DtRequest_new :: "u32 \<Rightarrow> dt_request" where
  "DtRequest_new g_direction =
     \<lparr>dq_buf = None, dq_size = 0, dq_token = [], dq_src = [], dq_dest = [], dq_direction = g_direction,
      dq_adtsrcs = []\<rparr>"

text \<open>
  \<^verbatim>\<open>new char[size]; memcpy(...)\<close> from another object's buffer. The copy constructor tests and
  frees its own buffer pointer, which nothing has initialised: \<open>g_buf\<close> tells whether it is non-null.
\<close>

definition copied_buf :: "string option \<Rightarrow> nat \<Rightarrow> string option" where
  "copied_buf buf n = Some (take n (buffered buf))"

definition DtRequest_copy :: "bool \<Rightarrow> dt_request \<Rightarrow> dt_request cxx" where
  "DtRequest_copy g_buf req =
     (if g_buf then Inl Undefined_behaviour
      else Inr \<lparr>dq_buf = copied_buf (dq_buf req) (dq_size req), dq_size = dq_size req, dq_token = dq_token req,
        dq_src = dq_src req, dq_dest = dq_dest req, dq_direction = dq_direction req, dq_adtsrcs = dq_adtsrcs req\<rparr>)"

definition DtRequest_moved_from :: "dt_request \<Rightarrow> dt_request" where
  "DtRequest_moved_from req =
     req\<lparr>dq_buf := None, dq_size := 0, dq_token := [], dq_src := [], dq_dest := [], dq_adtsrcs := []\<rparr>"

definition DtRequest_move :: "dt_request \<Rightarrow> dt_request \<times> dt_request" where
  "DtRequest_move req =
     (\<lparr>dq_buf = dq_buf req, dq_size = dq_size req, dq_token = dq_token req, dq_src = dq_src req,
       dq_dest = dq_dest req, dq_direction = dq_direction req, dq_adtsrcs = dq_adtsrcs req\<rparr>,
      DtRequest_moved_from req)"

definition DtRequest_copy_assign :: "dt_request \<Rightarrow> dt_request \<Rightarrow> dt_request" where
  "DtRequest_copy_assign this req =
     this\<lparr>dq_src := dq_src req, dq_dest := dq_dest req, dq_direction := dq_direction req,
          dq_token := dq_token req, dq_adtsrcs := dq_adtsrcs req,
          dq_buf := copied_buf (dq_buf req) (dq_size req), dq_size := dq_size req\<rparr>"

definition DtRequest_move_assign :: "dt_request \<Rightarrow> dt_request \<Rightarrow> dt_request \<times> dt_request" where
  "DtRequest_move_assign this req =
     (this\<lparr>dq_src := dq_src req, dq_dest := dq_dest req, dq_direction := dq_direction req,
           dq_token := dq_token req, dq_adtsrcs := dq_adtsrcs req, dq_buf := dq_buf req, dq_size := dq_size req\<rparr>,
      DtRequest_moved_from req)"

definition DtRequest_set_src :: "dt_request \<Rightarrow> string \<Rightarrow> dt_request" where
  "DtRequest_set_src m src = m\<lparr>dq_src := src\<rparr>"

definition DtRequest_set_direction :: "dt_request \<Rightarrow> u32 \<Rightarrow> int \<times> dt_request" where
  "DtRequest_set_direction m direction =
     (if direction = 0 \<or> direction = 1 then (0, m\<lparr>dq_direction := direction\<rparr>) else (-1, m))"

definition DtRequest_set_token :: "dt_request \<Rightarrow> string \<Rightarrow> dt_request" where
  "DtRequest_set_token m token = m\<lparr>dq_token := token\<rparr>"

definition DtRequest_set_dest :: "dt_request \<Rightarrow> string \<Rightarrow> dt_request" where
  "DtRequest_set_dest m dest = m\<lparr>dq_dest := dest\<rparr>"

definition DtRequest_add_adtsrc :: "dt_request \<Rightarrow> adtsrc \<Rightarrow> dt_request" where
  "DtRequest_add_adtsrc m a = m\<lparr>dq_adtsrcs := dq_adtsrcs m @ [a]\<rparr>"

definition DtRequest_get_adtsrc :: "dt_request \<Rightarrow> int \<Rightarrow> adtsrc option" where
  "DtRequest_get_adtsrc m pos =
     (if in_range pos (dq_adtsrcs m) then Some (dq_adtsrcs m ! nat pos) else None)"

record pb_request =
  pr_magic :: u32
  pr_token :: string
  pr_src :: string
  pr_dest :: string
  pr_direction :: u32
  pr_master :: "pb_adtsrc list"

definition DtRequest_to_pb :: "dt_request \<Rightarrow> pb_request" where
  "DtRequest_to_pb m =
     \<lparr>pr_magic = get_magic DATATRANSFER, pr_token = dq_token m, pr_src = dq_src m, pr_dest = dq_dest m,
      pr_direction = dq_direction m, pr_master = map (\<lambda>a. assignadtsrc a pb_adtsrc0) (dq_adtsrcs m)\<rparr>"

text \<open>
  \<^verbatim>\<open>encode\<close> frees an earlier buffer, which was made by \<^verbatim>\<open>new char[]\<close>, with \<^verbatim>\<open>delete\<close>
  instead of \<^verbatim>\<open>delete[]\<close>.
\<close>

definition DtRequest_encode :: "(pb_request \<Rightarrow> string) \<Rightarrow> dt_request \<Rightarrow> (int \<times> string \<times> dt_request) cxx" where
  "DtRequest_encode ser m =
     (let bytes = ser (DtRequest_to_pb m)
      in if dq_buf m \<noteq> None then Inl Undefined_behaviour
         else Inr (1, bytes, m\<lparr>dq_size := length bytes, dq_buf := Some bytes\<rparr>))"

definition DtRequest_accept :: "u32 \<Rightarrow> dt_request \<Rightarrow> pb_request \<Rightarrow> dt_request append_res" where
  "DtRequest_accept g_type m p =
     (let m1 = m\<lparr>dq_buf := None, dq_size := 0\<rparr>
      in if pr_magic p \<noteq> get_magic DATATRANSFER then (-1, Some MAGIC_MISMATCH, m1)
         else (1, None, m1\<lparr>dq_src := pr_src p, dq_dest := pr_dest p, dq_direction := pr_direction p,
           dq_token := pr_token p, dq_adtsrcs := map (\<lambda>a. assignAdtsrc a (Adtsrc_new g_type)) (pr_master p)\<rparr>))"

definition DtRequest_append ::
  "(string \<Rightarrow> pb_request option) \<Rightarrow> u32 \<Rightarrow> dt_request \<Rightarrow> string \<Rightarrow> dt_request append_res" where
  "DtRequest_append parse g_type m chunk =
     (let buf = gather (dq_buf m) (dq_size m) chunk;
          n = dq_size m + length chunk
      in case parse (take n buf) of
           None \<Rightarrow> (0, None, m\<lparr>dq_buf := Some buf, dq_size := n\<rparr>)
         | Some p \<Rightarrow> DtRequest_accept g_type m p)"

section \<open>Responses\<close>

record dt_response =
  dr_buf :: "string option"
  dr_size :: nat
  dr_src :: string
  dr_dest :: string
  dr_token :: string
  dr_dtsrcs :: "dtsrc list"

definition DtResponse_new :: dt_response where
  "DtResponse_new = \<lparr>dr_buf = None, dr_size = 0, dr_src = [], dr_dest = [], dr_token = [], dr_dtsrcs = []\<rparr>"

definition DtResponse_copy :: "bool \<Rightarrow> dt_response \<Rightarrow> dt_response cxx" where
  "DtResponse_copy g_buf resp =
     (if g_buf then Inl Undefined_behaviour
      else Inr \<lparr>dr_buf = copied_buf (dr_buf resp) (dr_size resp), dr_size = dr_size resp, dr_src = dr_src resp,
        dr_dest = dr_dest resp, dr_token = dr_token resp, dr_dtsrcs = dr_dtsrcs resp\<rparr>)"

definition DtResponse_moved_from :: "dt_response \<Rightarrow> dt_response" where
  "DtResponse_moved_from resp =
     resp\<lparr>dr_buf := None, dr_size := 0, dr_src := [], dr_dest := [], dr_token := [], dr_dtsrcs := []\<rparr>"

definition DtResponse_move :: "dt_response \<Rightarrow> dt_response \<times> dt_response" where
  "DtResponse_move resp =
     (\<lparr>dr_buf = dr_buf resp, dr_size = dr_size resp, dr_src = dr_src resp, dr_dest = dr_dest resp,
       dr_token = dr_token resp, dr_dtsrcs = dr_dtsrcs resp\<rparr>,
      DtResponse_moved_from resp)"

definition DtResponse_copy_assign :: "dt_response \<Rightarrow> dt_response \<Rightarrow> dt_response" where
  "DtResponse_copy_assign this resp =
     this\<lparr>dr_src := dr_src resp, dr_dest := dr_dest resp, dr_token := dr_token resp, dr_dtsrcs := dr_dtsrcs resp,
          dr_buf := copied_buf (dr_buf resp) (dr_size resp), dr_size := dr_size resp\<rparr>"

definition DtResponse_move_assign :: "dt_response \<Rightarrow> dt_response \<Rightarrow> dt_response \<times> dt_response" where
  "DtResponse_move_assign this resp =
     (this\<lparr>dr_src := dr_src resp, dr_dest := dr_dest resp, dr_token := dr_token resp, dr_dtsrcs := dr_dtsrcs resp,
           dr_buf := dr_buf resp, dr_size := dr_size resp\<rparr>,
      DtResponse_moved_from resp)"

definition DtResponse_set_src :: "dt_response \<Rightarrow> string \<Rightarrow> dt_response" where
  "DtResponse_set_src m src = m\<lparr>dr_src := src\<rparr>"

definition DtResponse_set_token :: "dt_response \<Rightarrow> string \<Rightarrow> dt_response" where
  "DtResponse_set_token m token = m\<lparr>dr_token := token\<rparr>"

definition DtResponse_set_dest :: "dt_response \<Rightarrow> string \<Rightarrow> dt_response" where
  "DtResponse_set_dest m dest = m\<lparr>dr_dest := dest\<rparr>"

definition DtResponse_add_dtsrc :: "dt_response \<Rightarrow> dtsrc \<Rightarrow> dt_response" where
  "DtResponse_add_dtsrc m d = m\<lparr>dr_dtsrcs := dr_dtsrcs m @ [d]\<rparr>"

definition DtResponse_get_dtsrc :: "dt_response \<Rightarrow> int \<Rightarrow> dtsrc option" where
  "DtResponse_get_dtsrc m pos =
     (if in_range pos (dr_dtsrcs m) then Some (dr_dtsrcs m ! nat pos) else None)"

record pb_response =
  ps_magic :: u32
  ps_token :: string
  ps_src :: string
  ps_dest :: string
  ps_master :: "pb_dtsrc list"

definition dep_to_pb :: "adtsrc \<times> string \<Rightarrow> pb_dep" where
  "dep_to_pb dep =
     \<lparr>pp_endpoint = Some (assignadtsrc (fst dep) pb_adtsrc0),
      pp_relative = (if snd dep \<noteq> [] then Some (snd dep) else None)\<rparr>"

definition dtsrc_to_pb :: "dtsrc \<Rightarrow> pb_dtsrc" where
  "dtsrc_to_pb d =
     \<lparr>pm_master = Some (assignadtsrc (dt_master d) pb_adtsrc0), pm_deps = map dep_to_pb (dt_deps d)\<rparr>"

definition DtResponse_to_pb :: "dt_response \<Rightarrow> pb_response" where
  "DtResponse_to_pb m =
     \<lparr>ps_magic = get_magic DATATRANSFER, ps_token = dr_token m, ps_src = dr_src m, ps_dest = dr_dest m,
      ps_master = map dtsrc_to_pb (dr_dtsrcs m)\<rparr>"

definition DtResponse_encode :: "(pb_response \<Rightarrow> string) \<Rightarrow> dt_response \<Rightarrow> (int \<times> string \<times> dt_response) cxx" where
  "DtResponse_encode ser m =
     (let bytes = ser (DtResponse_to_pb m)
      in if dr_buf m \<noteq> None then Inl Undefined_behaviour
         else Inr (1, bytes, m\<lparr>dr_size := length bytes, dr_buf := Some bytes\<rparr>))"

definition load_dep :: "u32 \<Rightarrow> pb_dep \<Rightarrow> adtsrc \<times> string" where
  "load_dep g_type p =
     (assignAdtsrc (or_default pb_adtsrc0 (pp_endpoint p)) (Adtsrc_new g_type), or_default [] (pp_relative p))"

definition load_dtsrc :: "u32 \<Rightarrow> pb_dtsrc \<Rightarrow> dtsrc" where
  "load_dtsrc g_type p =
     (let d = Dtsrc_new g_type
      in d\<lparr>dt_master := assignAdtsrc (or_default pb_adtsrc0 (pm_master p)) (dt_master d),
           dt_deps := dt_deps d @ map (load_dep g_type) (pm_deps p)\<rparr>)"

definition DtResponse_accept :: "u32 \<Rightarrow> dt_response \<Rightarrow> pb_response \<Rightarrow> dt_response append_res" where
  "DtResponse_accept g_type m p =
     (let m1 = m\<lparr>dr_buf := None, dr_size := 0\<rparr>
      in if ps_magic p \<noteq> get_magic DATATRANSFER then (-1, Some MAGIC_MISMATCH, m1)
         else (1, None, m1\<lparr>dr_src := ps_src p, dr_dest := ps_dest p, dr_token := ps_token p,
           dr_dtsrcs := map (load_dtsrc g_type) (ps_master p)\<rparr>))"

definition DtResponse_append ::
  "(string \<Rightarrow> pb_response option) \<Rightarrow> u32 \<Rightarrow> dt_response \<Rightarrow> string \<Rightarrow> dt_response append_res" where
  "DtResponse_append parse g_type m chunk =
     (let buf = gather (dr_buf m) (dr_size m) chunk;
          n = dr_size m + length chunk
      in case parse (take n buf) of
           None \<Rightarrow> (0, None, m\<lparr>dr_buf := Some buf, dr_size := n\<rparr>)
         | Some p \<Rightarrow> DtResponse_accept g_type m p)"

section \<open>Round trips\<close>

text \<open>What the wire keeps of a source: a pair with an empty component arrives empty.\<close>

definition both :: "string \<times> string \<Rightarrow> string \<times> string" where
  "both p = (if fst p \<noteq> [] \<and> snd p \<noteq> [] then p else ([], []))"

definition transported :: "adtsrc \<Rightarrow> adtsrc" where
  "transported a = a\<lparr>ad_engineattr := both (ad_engineattr a), ad_endpointattr := both (ad_endpointattr a)\<rparr>"

lemma adtsrc_roundtrip [simp]: "assignAdtsrc (assignadtsrc a pb_adtsrc0) (Adtsrc_new g) = transported a"
  by (cases a) (simp add: assignAdtsrc_def assignadtsrc_def Let_def pb_adtsrc0_def Adtsrc_new_def transported_def both_def)

lemma dtsrc_roundtrip [simp]:
  "load_dtsrc g (dtsrc_to_pb d) =
     d\<lparr>dt_master := transported (dt_master d), dt_deps := map (\<lambda>(a, p). (transported a, p)) (dt_deps d)\<rparr>"
  by (cases d) (auto simp: load_dtsrc_def dtsrc_to_pb_def Let_def Dtsrc_new_def load_dep_def dep_to_pb_def split_beta)

interpretation dt_req_frame: framed parse "DtRequest_append parse g" "\<lambda>m. buffered (dq_buf m)"
  "\<lambda>m b. m\<lparr>dq_buf := Some b, dq_size := length b\<rparr>" "DtRequest_accept g" "\<lambda>m. buffer_ok (dq_buf m) (dq_size m)"
  for parse g
  by (rule framed_of_buffer [where put = "\<lambda>m b n. m\<lparr>dq_buf := Some b, dq_size := n\<rparr>"])
    (auto simp: DtRequest_append_def DtRequest_accept_def Let_def split: option.split if_splits)

interpretation dt_resp_frame: framed parse "DtResponse_append parse g" "\<lambda>m. buffered (dr_buf m)"
  "\<lambda>m b. m\<lparr>dr_buf := Some b, dr_size := length b\<rparr>" "DtResponse_accept g" "\<lambda>m. buffer_ok (dr_buf m) (dr_size m)"
  for parse g
  by (rule framed_of_buffer [where put = "\<lambda>m b n. m\<lparr>dr_buf := Some b, dr_size := n\<rparr>"])
    (auto simp: DtResponse_append_def DtResponse_accept_def Let_def split: option.split if_splits)

definition DtRequest_received :: "dt_request \<Rightarrow> dt_request" where
  "DtRequest_received m = m\<lparr>dq_buf := None, dq_size := 0, dq_adtsrcs := map transported (dq_adtsrcs m)\<rparr>"

definition DtResponse_received :: "dt_response \<Rightarrow> dt_response" where
  "DtResponse_received m = m\<lparr>dr_buf := None, dr_size := 0, dr_dtsrcs :=
     map (\<lambda>d. d\<lparr>dt_master := transported (dt_master d), dt_deps := map (\<lambda>(a, p). (transported a, p)) (dt_deps d)\<rparr>)
       (dr_dtsrcs m)\<rparr>"

lemma DtRequest_accept_to_pb:
  "DtRequest_accept g (DtRequest_new d) (DtRequest_to_pb m) = (1, None, DtRequest_received m)"
  by (cases m) (simp add: DtRequest_accept_def DtRequest_to_pb_def DtRequest_new_def DtRequest_received_def)

lemma DtResponse_accept_to_pb:
  "DtResponse_accept g DtResponse_new (DtResponse_to_pb m) = (1, None, DtResponse_received m)"
  by (cases m) (simp add: DtResponse_accept_def DtResponse_to_pb_def DtResponse_new_def DtResponse_received_def)

text \<open>
  C33: a data transfer request or response that is encoded and delivered in chunks to a fresh object is read up to
  the first chunk boundary at which the parser accepts the bytes, and what comes after it is not read. When
  that is the end of the message, as it is if the message comes in one chunk, it arrives with its addresses, token,
  direction, task numbers, types, binaries and relative paths, in order; of the engine and endpoint pairs those
  with an empty component arrive empty. A boundary between two fields is accepted too, and then it is the part before it
  that arrives. The parser reads back what the serialiser has written, as protobuf does when the texts are UTF-8;
  \<^verbatim>\<open>encode\<close> is only defined on an object that holds no buffer.
\<close>

theorem data_messages_roundtrip:
  assumes "parse_q (ser_q (DtRequest_to_pb q)) = Some (DtRequest_to_pb q)"
    and "DtRequest_encode ser_q q = Inr (r, concat cs, q')" and "cs \<noteq> []"
    and "parse_s (ser_s (DtResponse_to_pb s)) = Some (DtResponse_to_pb s)"
    and "DtResponse_encode ser_s s = Inr (r', concat cs', s')" and "cs' \<noteq> []"
  shows "(\<exists>k p. parses_first parse_q cs k p \<and>
      feed (DtRequest_append parse_q g) (DtRequest_new d) (cs @ rest) = DtRequest_accept g (DtRequest_new d) p \<and>
      (concat (take k cs) = concat cs \<longrightarrow>
         feed (DtRequest_append parse_q g) (DtRequest_new d) (cs @ rest) = (1, None, DtRequest_received q))) \<and>
    (\<exists>k p. parses_first parse_s cs' k p \<and>
      feed (DtResponse_append parse_s g) DtResponse_new (cs' @ rest') = DtResponse_accept g DtResponse_new p \<and>
      (concat (take k cs') = concat cs' \<longrightarrow>
         feed (DtResponse_append parse_s g) DtResponse_new (cs' @ rest') = (1, None, DtResponse_received s))) \<and>
    dq_buf q = None \<and> dr_buf s = None"
proof (intro conjI)
  show "dq_buf q = None" "dr_buf s = None"
    using assms(2,5) by (auto simp: DtRequest_encode_def DtResponse_encode_def Let_def split: if_splits)
  have q: "parse_q (concat cs) = Some (DtRequest_to_pb q)" and s: "parse_s (concat cs') = Some (DtResponse_to_pb s)"
    using assms(1,2,4,5) by (auto simp: DtRequest_encode_def DtResponse_encode_def Let_def split: if_splits)
  show "\<exists>k p. parses_first parse_q cs k p \<and>
      feed (DtRequest_append parse_q g) (DtRequest_new d) (cs @ rest) = DtRequest_accept g (DtRequest_new d) p \<and>
      (concat (take k cs) = concat cs \<longrightarrow>
         feed (DtRequest_append parse_q g) (DtRequest_new d) (cs @ rest) = (1, None, DtRequest_received q))"
    using dt_req_frame.feed_delivered [where m = "DtRequest_new d" and cs = cs and parse = parse_q and g = g and rest = rest, OF _ _ assms(3) q]
    unfolding DtRequest_accept_to_pb by (simp add: DtRequest_new_def)
  show "\<exists>k p. parses_first parse_s cs' k p \<and>
      feed (DtResponse_append parse_s g) DtResponse_new (cs' @ rest') = DtResponse_accept g DtResponse_new p \<and>
      (concat (take k cs') = concat cs' \<longrightarrow>
         feed (DtResponse_append parse_s g) DtResponse_new (cs' @ rest') = (1, None, DtResponse_received s))"
    using dt_resp_frame.feed_delivered [where m = DtResponse_new and cs = cs' and parse = parse_s and g = g and rest = rest', OF _ _ assms(6) s]
    unfolding DtResponse_accept_to_pb by (simp add: DtResponse_new_def)
qed

text \<open>A request whose first chunk ends between two of its sources arrives, as a success, without those behind it.\<close>

theorem request_cut_between_sources:
  assumes "parse (b # bs) = Some ((DtRequest_to_pb q)\<lparr>pr_master := pr_master (DtRequest_to_pb (q\<lparr>dq_adtsrcs := take n (dq_adtsrcs q)\<rparr>))\<rparr>)"
  shows "feed (DtRequest_append parse g) (DtRequest_new d) ((b # bs) # cs) =
    (1, None, DtRequest_received (q\<lparr>dq_adtsrcs := take n (dq_adtsrcs q)\<rparr>))"
proof -
  have "(DtRequest_to_pb q)\<lparr>pr_master := pr_master (DtRequest_to_pb (q\<lparr>dq_adtsrcs := take n (dq_adtsrcs q)\<rparr>))\<rparr> =
      DtRequest_to_pb (q\<lparr>dq_adtsrcs := take n (dq_adtsrcs q)\<rparr>)"
    by (simp add: DtRequest_to_pb_def)
  then show ?thesis
    using assms dt_req_frame.feed_early [of "DtRequest_new d" parse "b # bs"]
    by (simp add: DtRequest_new_def DtRequest_accept_to_pb [unfolded DtRequest_new_def])
qed

definition sample_dt_request :: dt_request where
  "sample_dt_request = DtRequest_add_adtsrc (DtRequest_set_src (DtRequest_new 0) ''cn'')
     ((Adtsrc_new 0)\<lparr>ad_taskid := 7, ad_engineattr := (''mid'', [])\<rparr>)"

definition sample_dt_response :: dt_response where
  "sample_dt_response = DtResponse_add_dtsrc (DtResponse_set_dest DtResponse_new ''cn'')
     \<lparr>dt_master = (Adtsrc_new 0)\<lparr>ad_taskid := 7, ad_engineattr := (''mid'', ''name''), ad_binary := ''code''\<rparr>,
      dt_deps = [((Adtsrc_new 0)\<lparr>ad_binary := ''lib''\<rparr>, ''./l.so'')]\<rparr>"

theorem data_messages_roundtrip_witness:
  "feed (DtRequest_append (\<lambda>bs. if bs = ''ab'' then Some (DtRequest_to_pb sample_dt_request) else None) 5) (DtRequest_new 1)
     ([''a'', ''b''] @ [''c'']) = (1, None, DtRequest_received sample_dt_request) \<and>
   feed (DtResponse_append (\<lambda>bs. if bs = ''xy'' then Some (DtResponse_to_pb sample_dt_response) else None) 5) DtResponse_new
     ([''xy''] @ [''z'']) = (1, None, DtResponse_received sample_dt_response)"
proof -
  let ?pq = "\<lambda>bs. if bs = ''ab'' then Some (DtRequest_to_pb sample_dt_request) else None"
  let ?ps = "\<lambda>bs. if bs = ''xy'' then Some (DtResponse_to_pb sample_dt_response) else None"
  have "DtRequest_encode (\<lambda>_. ''ab'') sample_dt_request = Inr (1, concat [''a'', ''b''],
      sample_dt_request\<lparr>dq_size := 2, dq_buf := Some ''ab''\<rparr>)"
    and "DtResponse_encode (\<lambda>_. ''xy'') sample_dt_response = Inr (1, concat [''xy''],
      sample_dt_response\<lparr>dr_size := 2, dr_buf := Some ''xy''\<rparr>)"
    by (simp_all add: DtRequest_encode_def DtResponse_encode_def Let_def sample_dt_request_def sample_dt_response_def
        DtRequest_add_adtsrc_def DtRequest_set_src_def DtRequest_new_def DtResponse_add_dtsrc_def DtResponse_set_dest_def
        DtResponse_new_def)
  note both = data_messages_roundtrip [where parse_q = ?pq and parse_s = ?ps and rest = "[''c'']" and rest' = "[''z'']" and d = 1
      and g = 5, OF _ this(1) _ _ this(2)]
  have whole: "concat (take k cs) = concat cs" if "parses_first parse cs k p" "\<And>bs. parse bs \<noteq> None \<Longrightarrow> bs = concat cs"
    for parse :: "string \<Rightarrow> 'b option" and cs k p
    using that by (auto simp: parses_first_def)
  obtain k p k' p' where q: "parses_first ?pq [''a'', ''b''] k p" "concat (take k [''a'', ''b'']) = concat [''a'', ''b''] \<longrightarrow>
      feed (DtRequest_append ?pq 5) (DtRequest_new 1) ([''a'', ''b''] @ [''c'']) = (1, None, DtRequest_received sample_dt_request)"
    and s: "parses_first ?ps [''xy''] k' p'" "concat (take k' [''xy'']) = concat [''xy''] \<longrightarrow>
      feed (DtResponse_append ?ps 5) DtResponse_new ([''xy''] @ [''z'']) = (1, None, DtResponse_received sample_dt_response)"
    using both by auto
  have "concat (take k [''a'', ''b'']) = concat [''a'', ''b'']" by (rule whole [OF q(1)]) (simp split: if_splits)
  moreover have "concat (take k' [''xy'']) = concat [''xy'']" by (rule whole [OF s(1)]) (simp split: if_splits)
  ultimately show ?thesis by (intro conjI q(2) [THEN mp] s(2) [THEN mp])
qed

end
