(* ===== verification/Plain_Server.thy ===== *)
theory Plain_Server
  imports Prelude
begin

text \<open>
  The set-up context and life cycle the data-transfer server of the storage unit and the data source
  server of the management unit have in common. The server of the network framework is third-party
  code: its \<^verbatim>\<open>start\<close> is a parameter of the operations.
\<close>

record plain_setup =
  pl_family :: int
  pl_addr :: string
  pl_port :: int
  pl_ssl :: bool
  pl_ca_path :: string
  pl_key_path :: string
  pl_cert_path :: string

text \<open>The arguments \<^verbatim>\<open>start\<close> is called with: certificate and key only for TLS.\<close>

record plain_listen =
  li_family :: int
  li_addr :: string
  li_port :: int
  li_tls :: "(string \<times> string) option"

record plain_server =
  ps_context :: plain_setup
  ps_server :: "plain_listen option"

definition plain_listen_of :: "plain_setup \<Rightarrow> plain_listen" where
  "plain_listen_of ctx =
     \<lparr>li_family = pl_family ctx, li_addr = pl_addr ctx, li_port = pl_port ctx,
      li_tls = (if pl_ssl ctx then Some (pl_cert_path ctx, pl_key_path ctx) else None)\<rparr>"

definition plain_setup_context :: "plain_server \<Rightarrow> plain_setup \<Rightarrow> plain_server" where
  "plain_setup_context srv ctx = srv\<lparr>ps_context := ctx\<rparr>"

definition plain_start :: "(plain_listen \<Rightarrow> int) \<Rightarrow> plain_server \<Rightarrow> int \<times> plain_server" where
  "plain_start wf_start srv =
     (let l = plain_listen_of (ps_context srv) in (wf_start l, srv\<lparr>ps_server := Some l\<rparr>))"

definition plain_stop :: "plain_server \<Rightarrow> int \<times> plain_server" where
  "plain_stop srv = (case ps_server srv of None \<Rightarrow> (0, srv) | Some _ \<Rightarrow> (0, srv\<lparr>ps_server := None\<rparr>))"

end
