(* ===== verification/Storage_Datatrans.thy ===== *)
theory Storage_Datatrans
  imports Datamanager Datatransfer_Message Plain_Server
begin

text \<open>
  The data-transfer server of the storage unit, \<^verbatim>\<open>storage/datatrans\<close>: for every source a request
  names, a pull appends the data to the response and a push hands it to the data manager. The server
  object is the one of \<^verbatim>\<open>Plain_Server\<close>. The mutex is held while one source is handled.
\<close>

datatype data_type = Type_engine | Type_endpoint | Type_binary

fun datatype_code :: "data_type \<Rightarrow> u32" where
  "datatype_code Type_engine = 0"
| "datatype_code Type_endpoint = 1"
| "datatype_code Type_binary = 2"

section \<open>The handler\<close>

text \<open>
  The dependencies of a task's engine. Each gets the relative path made of the names of the engine
  that depends on it. \<open>g\<close> is what an uninitialised \<open>type\<close> contains.
\<close>

definition relative_path :: "string \<Rightarrow> string \<Rightarrow> string" where
  "relative_path mid name = ''./JXTDENGINE_'' @ mid @ ''_'' @ name @ ''.so''"

fun pull_deps :: "u32 \<Rightarrow> 'w datamanager \<Rightarrow> string \<Rightarrow> engine list \<Rightarrow> ('w, (adtsrc \<times> string) list) io" where
  "pull_deps g dm path [] = io_return []"
| "pull_deps g dm path (eng # es) =
     io_bind (engine_pull dm (eng_id eng) (eng_name eng)) (\<lambda>bin.
       (let tem = (Adtsrc_new g)\<lparr>ad_type := datatype_code Type_engine, ad_engineattr := (eng_id eng, eng_name eng),
                     ad_binary := bin\<rparr>
        in io_bind (pull_deps g dm path es) (\<lambda>ds. io_return ((tem, path) # ds))))"

definition EnginePull :: "u32 \<Rightarrow> adtsrc \<Rightarrow> 'w datamanager \<Rightarrow> ('w, dtsrc) io" where
  "EnginePull g master dm =
     (let t = ad_taskid master; temp = Dtsrc_new g;
          named = (\<lambda>mid name bin. temp\<lparr>dt_master := (dt_master temp)\<lparr>ad_engineattr := (mid, name), ad_binary := bin\<rparr>\<rparr>)
      in io_bind
        (if t = 0 then
           (case ad_engineattr master of (mid, name) \<Rightarrow>
              io_bind (engine_pull dm mid name) (\<lambda>bin. io_return (named mid name bin)))
         else if task_exist dm (ucast t) then
           (\<lambda>w. cxx_bind (get_task_engine dm (ucast t)) (\<lambda>((mid, name), es).
              io_bind (engine_pull dm mid name) (\<lambda>bin.
                io_bind (pull_deps g dm (relative_path mid name) es) (\<lambda>ds.
                  io_return ((named mid name bin)\<lparr>dt_deps := ds\<rparr>))) w))
         else io_return (temp\<lparr>dt_master := (dt_master temp)\<lparr>ad_binary := []\<rparr>\<rparr>))
        (\<lambda>temp. io_return (temp\<lparr>dt_master := (dt_master temp)\<lparr>ad_taskid := t, ad_type := datatype_code Type_engine\<rparr>\<rparr>)))"

definition EnginePush :: "adtsrc \<Rightarrow> 'w datamanager \<Rightarrow> ('w, unit) io" where
  "EnginePush master dm =
     (case ad_engineattr master of (mid, name) \<Rightarrow>
        io_bind (engine_push dm mid name (ad_binary master)) (\<lambda>_. io_return ()))"

definition RuntimePull :: "u32 \<Rightarrow> adtsrc \<Rightarrow> 'w datamanager \<Rightarrow> ('w, dtsrc) io" where
  "RuntimePull g master dm =
     io_bind (runtime_pull dm (ucast (ad_taskid master))) (\<lambda>bin.
       io_return ((Dtsrc_new g)\<lparr>dt_master := (Adtsrc_new g)\<lparr>ad_taskid := ad_taskid master,
         ad_endpointattr := ad_endpointattr master, ad_type := datatype_code Type_endpoint, ad_binary := bin\<rparr>\<rparr>))"

definition RuntimePush :: "adtsrc \<Rightarrow> 'w datamanager \<Rightarrow> ('w, unit) io" where
  "RuntimePush master dm =
     io_bind (runtime_push dm (ucast (ad_taskid master)) (ad_binary master)) (\<lambda>_. io_return ())"

definition BinaryPull :: "u32 \<Rightarrow> adtsrc \<Rightarrow> 'w datamanager \<Rightarrow> ('w, dtsrc) io" where
  "BinaryPull g master dm =
     io_bind (binary_pull dm (dm_root dm)) (\<lambda>bin.
       io_return ((Dtsrc_new g)\<lparr>dt_master := (Adtsrc_new g)\<lparr>ad_taskid := ad_taskid master,
         ad_type := datatype_code Type_binary, ad_binary := bin\<rparr>\<rparr>))"

definition BinaryPush :: "adtsrc \<Rightarrow> 'w datamanager \<Rightarrow> ('w, unit) io" where
  "BinaryPush master dm = io_bind (binary_push dm (dm_root dm) (ad_binary master)) (\<lambda>_. io_return ())"

text \<open>One source of a request: direction 0 pulls, every other direction pushes.\<close>

definition serve ::
  "(u32 \<Rightarrow> adtsrc \<Rightarrow> 'w datamanager \<Rightarrow> ('w, dtsrc) io) \<Rightarrow> (adtsrc \<Rightarrow> 'w datamanager \<Rightarrow> ('w, unit) io) \<Rightarrow>
     u32 \<Rightarrow> u32 \<Rightarrow> adtsrc \<Rightarrow> 'w datamanager \<Rightarrow> dt_response \<Rightarrow> ('w, dt_response) io" where
  "serve pull push g direction master dm resp =
     (if direction = 0 then io_bind (pull g master dm) (\<lambda>temp. io_return (DtResponse_add_dtsrc resp temp))
      else io_bind (push master dm) (\<lambda>_. io_return resp))"

definition serve_source :: "u32 \<Rightarrow> u32 \<Rightarrow> adtsrc \<Rightarrow> 'w datamanager \<Rightarrow> dt_response \<Rightarrow> ('w, dt_response) io" where
  "serve_source g direction master dm resp =
     (if ad_type master = datatype_code Type_engine then serve EnginePull EnginePush g direction master dm resp
      else if ad_type master = datatype_code Type_endpoint then serve RuntimePull RuntimePush g direction master dm resp
      else if ad_type master = datatype_code Type_binary then serve BinaryPull BinaryPush g direction master dm resp
      else io_return resp)"

fun serve_sources :: "u32 \<Rightarrow> u32 \<Rightarrow> adtsrc list \<Rightarrow> 'w datamanager \<Rightarrow> dt_response \<Rightarrow> ('w, dt_response) io" where
  "serve_sources g direction [] dm resp = io_return resp"
| "serve_sources g direction (a # as) dm resp =
     io_bind (serve_source g direction a dm resp) (\<lambda>resp'. serve_sources g direction as dm resp')"

definition data_process :: "u32 \<Rightarrow> dt_request \<Rightarrow> dt_response \<Rightarrow> 'w datamanager \<Rightarrow> ('w, dt_response) io" where
  "data_process g req resp dm =
     (let resp1 = DtResponse_set_src resp (dq_dest req);
          resp2 = DtResponse_set_dest resp1 (dq_src req);
          resp3 = DtResponse_set_token resp2 []
      in serve_sources g (dq_direction req) (dq_adtsrcs req) dm resp3)"

section \<open>Reading engines\<close>

text \<open>Reading a file changes no file.\<close>

lemma pull_data_content:
  assumes rt: "routed s (Get_local_fileoperations px)" and laws: "file_laws px content fd_at"
    and pull: "pull_data s fd w = Inr (dat, w')"
  shows "content w' = content w"
proof -
  have close: "\<exists>r w2. sched_close s fd w1 = Inr (r, w2) \<and> content w2 = content w1" for w1
    using rt file_laws_close [OF laws, of fd w1] by (cases "local_close px fd w1") (simp add: local_ops)
  have reads: "\<exists>r bs w2. sched_read s fd n w1 = Inr ((r, bs), w2) \<and> content w2 = content w1" for n w1
    using rt laws unfolding file_laws_def
    by (cases "px_read px fd n w1", cases "fst (px_read px fd n w1)") (simp add: local_ops)
  obtain sz where sz: "sched_fsize s fd w = Inr (sz, w)"
    using rt by (cases "px_fstat px fd w") (auto simp: local_ops local_fsize_def)
  consider (none) "fd = -1" | (err) "fd \<noteq> -1" "int32 sz = -1" | (neg) "fd \<noteq> -1" "int32 sz \<noteq> -1" "int32 sz < 0"
    | (read) "fd \<noteq> -1" "int32 sz \<noteq> -1" "\<not> int32 sz < 0" by blast
  then show ?thesis
  proof cases
    case none
    with pull show ?thesis by (simp add: pull_data_def io_return_def)
  next
    case err
    with pull sz close [of w] show ?thesis by (auto simp: pull_data_def io_bind_def io_return_def Let_def)
  next
    case neg
    with pull sz show ?thesis by (simp add: pull_data_def io_bind_def Let_def)
  next
    case read
    obtain r bs w2 where rd: "sched_read s fd (nat (int32 sz)) w = Inr ((r, bs), w2)" and c: "content w2 = content w"
      using reads [of "nat (int32 sz)" w] by blast
    obtain r2 w3 where cl: "sched_close s fd w2 = Inr (r2, w3)" "content w3 = content w2" using close by blast
    from read pull sz rd cl c show ?thesis
      by (auto simp: pull_data_def io_bind_def io_return_def Let_def split: if_splits)
  qed
qed

text \<open>An engine file that can be read back: it exists and is smaller than 2 GiB.\<close>

definition engine_file :: "('w \<Rightarrow> string \<Rightarrow> string option) \<Rightarrow> 'w datamanager \<Rightarrow> 'w \<Rightarrow> string \<times> string \<Rightarrow> string \<Rightarrow> bool" where
  "engine_file content dm w mn c \<longleftrightarrow>
     content w (c_str (engine_path dm (fst mn) (snd mn))) = Some c \<and> length c < 2 ^ 31"

lemma file_laws_open:
  "file_laws px content fd_at \<Longrightarrow> px_open px p O_RDONLY m w = (fd, w') \<Longrightarrow> content w' = content w"
  unfolding file_laws_def by metis

lemma engine_pull_file:
  assumes rt: "routed (dm_sched dm) (Get_local_fileoperations px)" and laws: "file_laws px content fd_at"
    and f: "engine_file content dm w (m, n) c"
  shows "\<exists>out w'. engine_pull dm m n w = Inr (out, w') \<and> content w' = content w \<and> out \<in> {[], c}"
proof -
  let ?p = "c_str (engine_path dm m n)"
  obtain fd w1 where o: "px_open px ?p O_RDONLY MODE_FILE w = (fd, w1)" by fastforce
  then have w1: "content w1 = content w" by (rule file_laws_open [OF laws])
  obtain out w' where pull: "pull_data (dm_sched dm) fd w1 = Inr (out, w')" and "out \<in> {[], c}"
    using pull_data_spec [OF rt laws o] f unfolding engine_file_def by fastforce
  moreover have "engine_pull dm m n w = Inr (out, w')"
    using o pull rt by (simp add: engine_pull_def io_bind_def local_ops)
  ultimately show ?thesis using pull_data_content [OF rt laws pull] w1 by auto
qed

definition dep_of :: "u32 \<Rightarrow> string \<Rightarrow> engine \<Rightarrow> string \<Rightarrow> adtsrc \<times> string" where
  "dep_of g path e bin = ((Adtsrc_new g)\<lparr>ad_type := datatype_code Type_engine,
     ad_engineattr := (eng_id e, eng_name e), ad_binary := bin\<rparr>, path)"

lemma pull_deps_file:
  assumes rt: "routed (dm_sched dm) (Get_local_fileoperations px)" and laws: "file_laws px content fd_at"
    and "\<forall>e \<in> set es. engine_file content dm w (eng_id e, eng_name e) (code e)"
  shows "\<exists>bins w'. pull_deps g dm path es w = Inr (map2 (dep_of g path) es bins, w') \<and> content w' = content w \<and>
    length bins = length es \<and> (\<forall>i < length es. bins ! i \<in> {[], code (es ! i)})"
  using assms(3)
proof (induction es arbitrary: w)
  case Nil
  then show ?case by simp
next
  case (Cons e es)
  have "engine_file content dm w (eng_id e, eng_name e) (code e)" using Cons.prems by simp
  from engine_pull_file [OF rt laws this]
  obtain out w1 where p: "engine_pull dm (eng_id e) (eng_name e) w = Inr (out, w1)" "content w1 = content w" "out \<in> {[], code e}"
    by blast
  then have "\<forall>e \<in> set es. engine_file content dm w1 (eng_id e, eng_name e) (code e)"
    using Cons.prems by (simp add: engine_file_def)
  from Cons.IH [OF this] obtain bins w' where
    ih: "pull_deps g dm path es w1 = Inr (map2 (dep_of g path) es bins, w')" "content w' = content w1"
    "length bins = length es" "\<forall>i < length es. bins ! i \<in> {[], code (es ! i)}" by blast
  have "\<forall>i < length (e # es). (out # bins) ! i \<in> {[], code ((e # es) ! i)}"
    using p(3) ih(4) by (simp only: All_less_Suc2 length_Cons nth_Cons_0 nth_Cons_Suc simp_thms)
  moreover have "pull_deps g dm path (e # es) w = Inr (map2 (dep_of g path) (e # es) (out # bins), w')"
    using p(1) ih(1) by (simp add: dep_of_def Let_def)
  ultimately show ?case using p(2) ih(2,3) by (intro exI [of _ "out # bins"] exI [of _ w']) simp
qed

lemma engine_pull_main:
  assumes rt: "routed (dm_sched dm) (Get_local_fileoperations px)" and laws: "file_laws px content fd_at"
    and t: "ad_taskid a \<noteq> 0" and bound: "map_of (dm_engines dm) (ucast (ad_taskid a)) = Some ((mid, name), es)"
    and main: "engine_file content dm w (mid, name) c"
    and deps: "\<forall>e \<in> set es. engine_file content dm w (eng_id e, eng_name e) (code e)"
  shows "\<exists>d bins w'. EnginePull g a dm w = Inr (d, w') \<and> content w' = content w \<and>
    ad_taskid (dt_master d) = ad_taskid a \<and> ad_type (dt_master d) = datatype_code Type_engine \<and>
    ad_engineattr (dt_master d) = (mid, name) \<and> ad_binary (dt_master d) \<in> {[], c} \<and>
    dt_deps d = map2 (dep_of g (relative_path mid name)) es bins \<and>
    length bins = length es \<and> (\<forall>i < length es. bins ! i \<in> {[], code (es ! i)})"
proof -
  obtain bin w1 where p: "engine_pull dm mid name w = Inr (bin, w1)" "content w1 = content w" "bin \<in> {[], c}"
    using engine_pull_file [OF rt laws main] by blast
  then have "\<forall>e \<in> set es. engine_file content dm w1 (eng_id e, eng_name e) (code e)"
    using deps by (simp add: engine_file_def)
  from pull_deps_file [OF rt laws this] obtain bins w' where
    ds: "pull_deps g dm (relative_path mid name) es w1 = Inr (map2 (dep_of g (relative_path mid name)) es bins, w')"
    "content w' = content w1" "length bins = length es" "\<forall>i < length es. bins ! i \<in> {[], code (es ! i)}" by blast
  let ?d = "\<lparr>dt_master = (Adtsrc_new g)\<lparr>ad_taskid := ad_taskid a, ad_type := datatype_code Type_engine,
      ad_engineattr := (mid, name), ad_binary := bin\<rparr>, dt_deps = map2 (dep_of g (relative_path mid name)) es bins\<rparr>"
  have "EnginePull g a dm w = Inr (?d, w')"
    using t bound p(1) ds(1)
    by (simp add: EnginePull_def io_bind_def io_return_def Let_def task_exist_def get_task_engine_def Dtsrc_new_def)
  with p ds show ?thesis
    by (intro exI [of _ ?d] exI [of _ bins] exI [of _ w']) (simp add: relative_path_def)
qed

text \<open>
  C16: the pull of a task's engine by number, when the task is bound and its engine and the engines
  it depends on are readable files: the reply names the task and its engine and carries, in order, one
  entry per dependency with the dependency's names and data; every entry is to be stored under
  the same relative path, which is the name of the main engine. A file the system fails to read
  is sent as empty data. No file changes.
\<close>

theorem engine_pull_reply:
  assumes rt: "routed (dm_sched dm) (Get_local_fileoperations px)" and laws: "file_laws px content fd_at"
    and t: "ad_taskid a \<noteq> 0" and bound: "map_of (dm_engines dm) (ucast (ad_taskid a)) = Some ((mid, name), es)"
    and main: "engine_file content dm w (mid, name) c"
    and deps: "\<forall>e \<in> set es. engine_file content dm w (eng_id e, eng_name e) (code e)"
  shows "\<exists>d bins w'. EnginePull g a dm w = Inr (d, w') \<and> content w' = content w \<and>
    ad_taskid (dt_master d) = ad_taskid a \<and> ad_type (dt_master d) = datatype_code Type_engine \<and>
    ad_engineattr (dt_master d) = (mid, name) \<and> ad_binary (dt_master d) \<in> {[], c} \<and>
    dt_deps d = map2 (dep_of g (''./JXTDENGINE_'' @ mid @ ''_'' @ name @ ''.so'')) es bins \<and>
    length bins = length es \<and> (\<forall>i < length es. bins ! i \<in> {[], code (es ! i)})"
  using engine_pull_main [OF assms] by (simp add: relative_path_def)

text \<open>The file operations only depend on the scheduler and the root path.\<close>

lemma binary_push_same:
  assumes same: "dm_sched dm' = dm_sched dm" "dm_root dm' = dm_root dm"
  shows "binary_push dm' path bin w = binary_push dm path bin w"
proof -
  have path: "binary_path dm' p = binary_path dm p" for p using same by (simp add: binary_path_def)
  have find: "find_dir dm' p w = find_dir dm p w" for p w
  proof (induction p arbitrary: w rule: length_induct)
    case (1 p)
    then show ?case
      using find_last_of_less [of p "''/''"]
      by (simp add: find_dir.simps [of dm' p w] find_dir.simps [of dm p w] same path split: sum.split prod.split option.split)
  qed
  have dirs: "make_dirs dm' p sub w = make_dirs dm p sub w" for p sub w
  proof (induction sub arbitrary: p w rule: length_induct)
    case (1 sub)
    have "length (drop (Suc x) sub) < length sub" if "find_first_of sub ''/'' = Some x" for x
      using find_first_of_Some [OF that] by (cases sub) simp_all
    with 1 show ?case
      by (auto simp: make_dirs.simps [of dm' p sub w] make_dirs.simps [of dm p sub w] same path split: sum.split prod.split option.split)
  qed
  have "make_parents dm' path = make_parents dm path"
  proof -
    have loops: "find_dir dm' = find_dir dm" "make_dirs dm' = make_dirs dm" by (intro ext; simp add: find dirs)+
    show ?thesis unfolding make_parents_def same path loops by (rule refl)
  qed
  then show ?thesis by (simp add: binary_push_def same path)
qed

lemma unat_less_u32: "unat (x :: u32) < 4294967296"
  using unsigned_less [of x] by simp

lemma serve_source_same_low:
  assumes eng: "\<And>n. unat n < 2 ^ 32 \<Longrightarrow> map_of (dm_engines dm') n = map_of (dm_engines dm) n"
    and same: "dm_sched dm' = dm_sched dm" "dm_root dm' = dm_root dm"
  shows "serve_source g direction a dm' resp = serve_source g direction a dm resp"
proof -
  have pulls: "engine_pull dm' = engine_pull dm" "engine_push dm' = engine_push dm" "runtime_pull dm' = runtime_pull dm"
    "runtime_push dm' = runtime_push dm" "binary_pull dm' = binary_pull dm" "binary_push dm' = binary_push dm"
    using same binary_push_same [OF same]
    by (auto simp: fun_eq_iff engine_pull_def engine_push_def runtime_pull_def runtime_push_def binary_pull_def
        engine_path_def runtime_path_def binary_path_def)
  have deps: "pull_deps g dm' p es = pull_deps g dm p es" for p es by (induction es) (simp_all add: pulls)
  have "unat (ucast (ad_taskid a) :: u64) = unat (ad_taskid a)" 
    using unat_less_u32 [of "ad_taskid a"] by (simp add: unsigned_ucast_eq take_bit_nat_eq_self_iff)
  then have "unat (ucast (ad_taskid a) :: u64) < 2 ^ 32" using unat_less_u32 [of "ad_taskid a"] by simp
  then have "map_of (dm_engines dm') (ucast (ad_taskid a)) = map_of (dm_engines dm) (ucast (ad_taskid a))" by (rule eng)
  then have te: "task_exist dm' (ucast (ad_taskid a)) = task_exist dm (ucast (ad_taskid a))"
    "get_task_engine dm' (ucast (ad_taskid a)) = get_task_engine dm (ucast (ad_taskid a))"
    by (simp_all add: task_exist_def get_task_engine_def)
  have "EnginePull g a dm' = EnginePull g a dm"
    unfolding EnginePull_def Let_def pulls deps te by (rule refl)
  moreover have "RuntimePull g a dm' = RuntimePull g a dm" "BinaryPull g a dm' = BinaryPull g a dm"
    "EnginePush a dm' = EnginePush a dm" "RuntimePush a dm' = RuntimePush a dm" "BinaryPush a dm' = BinaryPush a dm"
    unfolding RuntimePull_def BinaryPull_def EnginePush_def RuntimePush_def BinaryPush_def pulls same by simp_all
  ultimately show ?thesis by (simp add: serve_source_def serve_def)
qed

text \<open>
  requests carry task numbers of 32 bits, the storage unit registers numbers of 64 bits. The
  reply to any request is the same whatever is registered under a number of 2^32 or more: the engine of
  such a task can never be pulled by its number.
\<close>

theorem wide_task_unreachable:
  assumes "unat t \<ge> 2 ^ 32"
  shows "data_process g req resp (task_bind dm t e) = data_process g req resp dm"
proof -
  have "map_of (dm_engines (task_bind dm t e)) n = map_of (dm_engines dm) n" if "unat n < 2 ^ 32" for n
    using that assms by (auto simp: task_bind_def map_of_umap_emplace)
  then have one: "serve_source g direction a (task_bind dm t e) r = serve_source g direction a dm r" for direction a r
    by (intro serve_source_same_low) (simp_all add: task_bind_def)
  have "serve_sources g direction as (task_bind dm t e) = serve_sources g direction as dm" for direction as
  proof (induction as)
    case (Cons a as)
    then show ?case by (intro ext) (simp add: one)
  qed (simp add: fun_eq_iff)
  then show ?thesis by (simp add: data_process_def Let_def)
qed

section \<open>Pushes\<close>

lemma engine_push_keeps:
  assumes rt: "routed (dm_sched dm) (Get_local_fileoperations px)" and laws: "file_laws px content fd_at"
  shows "\<exists>r w'. engine_push dm m n dat w = Inr (r, w') \<and>
    (\<forall>p c. content w p = Some c \<longrightarrow> content w' p = Some c) \<and>
    (\<forall>p. p \<noteq> c_str (engine_path dm m n) \<longrightarrow> content w' p = content w p)"
proof -
  let ?p = "c_str (engine_path dm m n)"
  obtain fd w1 where o: "px_open px ?p (O_WRONLY OR O_CREAT OR O_EXCL) MODE_FILE w = (fd, w1)" by fastforce
  have push: "engine_push dm m n dat w = push_data (dm_sched dm) fd dat w1"
    using o rt by (simp add: engine_push_def io_bind_def local_ops)
  show ?thesis
  proof (cases "fd = -1")
    case True
    then have "content w1 = content w" using laws o unfolding file_laws_def by metis
    with True push show ?thesis by (simp add: push_data_def io_return_def)
  next
    case False
    then have c: "content w ?p = None" "content w1 = (content w)(?p \<mapsto> [])" and f: "fd_at w1 fd = Some (?p, 0)"
      using laws o unfolding file_laws_def by metis+
    obtain r w2 where wr: "px_write px fd dat w1 = (r, w2)" by fastforce
    have "fd_at w1 fd = Some (?p, length [])" "content w1 ?p = Some []" using c f by simp_all
    then have w2: "content w2 = content w1 \<or> (\<exists>d. content w2 = (content w1)(?p \<mapsto> d))"
      using laws wr unfolding file_laws_def by metis
    obtain r' w3 where cl: "local_close px fd w2 = (r', w3)" by fastforce
    have "content w3 = content w2" by (rule file_laws_close [OF laws cl])
    with w2 c(2) have other: "content w3 q = content w q" if "q \<noteq> ?p" for q using that by auto
    have "content w3 q = Some d" if "content w q = Some d" for q d
      using that other [of q] c(1) by (cases "q = ?p") auto
    moreover obtain r'' where "push_data (dm_sched dm) fd dat w1 = Inr (r'', w3)"
      using False wr cl rt by (cases "r = -1") (auto simp: push_data_def io_bind_def local_ops io_return_def)
    ultimately show ?thesis using push other by auto
  qed
qed

lemma serve_push:
  assumes rt: "routed (dm_sched dm) (Get_local_fileoperations px)" and laws: "file_laws px content fd_at"
    and "direction \<noteq> 0" and "\<forall>a \<in> set as. ad_type a = datatype_code Type_engine"
  shows "\<exists>w'. serve_sources g direction as dm resp w = Inr (resp, w') \<and>
    (\<forall>p c. content w p = Some c \<longrightarrow> content w' p = Some c)"
  using assms(4)
proof (induction as arbitrary: w)
  case Nil
  then show ?case by auto
next
  case (Cons a as)
  obtain r w1 where p: "engine_push dm (fst (ad_engineattr a)) (snd (ad_engineattr a)) (ad_binary a) w = Inr (r, w1)"
    and k: "\<forall>p c. content w p = Some c \<longrightarrow> content w1 p = Some c"
    using engine_push_keeps [OF rt laws] by blast
  obtain w' where ih: "serve_sources g direction as dm resp w1 = Inr (resp, w')"
    and k': "\<forall>p c. content w1 p = Some c \<longrightarrow> content w' p = Some c"
    using Cons by force
  have "serve_source g direction a dm resp w = Inr (resp, w1)"
    using p assms(3) Cons.prems by (simp add: serve_source_def serve_def EnginePush_def io_bind_def io_return_def split_beta)
  with ih k k' show ?case by auto
qed

text \<open>
  the reply to a request that pushes engines is the same whatever becomes of them: it swaps the
  addresses and carries no entry. An engine file that exists keeps its content, so a second push
  under the same names is dropped without notice.
\<close>

theorem pushes_unacknowledged:
  assumes "routed (dm_sched dm) (Get_local_fileoperations px)" and "file_laws px content fd_at"
    and "dq_direction req \<noteq> 0" and "\<forall>a \<in> set (dq_adtsrcs req). ad_type a = datatype_code Type_engine"
  shows "\<exists>w'. data_process g req resp dm w =
      Inr (resp\<lparr>dr_src := dq_dest req, dr_dest := dq_src req, dr_token := []\<rparr>, w') \<and>
    (\<forall>p c. content w p = Some c \<longrightarrow> content w' p = Some c)"
  using serve_push [OF assms]
  by (simp add: data_process_def Let_def DtResponse_set_src_def DtResponse_set_dest_def DtResponse_set_token_def)

text \<open>Witnesses: a data manager with one bound task, and its engine stored.\<close>

definition mem_tasks :: "mem datamanager" where
  "mem_tasks = mem_manager\<lparr>dm_root := ''/data'', dm_engines := [(7, ((''m'', ''n''), [Engine [] ''d'' ''e'' [] []]))]\<rparr>"

definition mem_engines :: mem where
  "mem_engines = ([c_str (engine_path mem_tasks ''m'' ''n'') \<mapsto> ''code'', c_str (engine_path mem_tasks ''d'' ''e'') \<mapsto> ''lib''],
     Map.empty)"

lemma mem_tasks_routed: "routed (dm_sched mem_tasks) (Get_local_fileoperations mem_posix)"
  using mem_manager_routed by (simp add: mem_tasks_def)

lemma mem_engines_files:
  "engine_file fst mem_tasks mem_engines (''m'', ''n'') ''code''" "engine_file fst mem_tasks mem_engines (''d'', ''e'') ''lib''"
  by (simp_all add: engine_file_def mem_engines_def engine_path_def c_str_def mem_tasks_def)

theorem engine_pull_reply_witness:
  "\<exists>d w'. EnginePull 9 ((Adtsrc_new 0)\<lparr>ad_taskid := 7\<rparr>) mem_tasks mem_engines = Inr (d, w') \<and>
     ad_engineattr (dt_master d) = (''m'', ''n'') \<and> length (dt_deps d) = 1"
proof -
  let ?a = "(Adtsrc_new 0)\<lparr>ad_taskid := 7\<rparr>"
  have b: "map_of (dm_engines mem_tasks) (ucast (ad_taskid ?a)) = Some ((''m'', ''n''), [Engine [] ''d'' ''e'' [] []])"
    and t: "ad_taskid ?a \<noteq> 0"
    by (simp_all add: mem_tasks_def)
  have "\<forall>e \<in> set [Engine [] ''d'' ''e'' [] []]. engine_file fst mem_tasks mem_engines (eng_id e, eng_name e) ''lib''"
    using mem_engines_files by simp
  from engine_pull_reply [OF mem_tasks_routed mem_posix_laws t b mem_engines_files(1) this, of 9]
  show ?thesis by (elim exE conjE) (intro exI conjI, assumption, assumption, simp)
qed

theorem wide_task_unreachable_witness:
  "data_process 0 sample_dt_request DtResponse_new (task_bind mem_tasks 4294967303 ((''x'', ''y''), [])) =
   data_process 0 sample_dt_request DtResponse_new mem_tasks"
  by (rule wide_task_unreachable) simp

theorem pushes_unacknowledged_witness:
  "\<exists>w'. data_process 0 (snd (DtRequest_set_direction sample_dt_request 1)) DtResponse_new mem_tasks mem_engines =
     Inr (DtResponse_new\<lparr>dr_src := [], dr_dest := ''cn'', dr_token := []\<rparr>, w')"
  using pushes_unacknowledged [OF mem_tasks_routed mem_posix_laws, of "snd (DtRequest_set_direction sample_dt_request 1)" 0
      DtResponse_new mem_engines]
  by (auto simp: DtRequest_set_direction_def sample_dt_request_def DtRequest_add_adtsrc_def DtRequest_set_src_def
      DtRequest_new_def Adtsrc_new_def)

text \<open>Whatever is pushed, the reply carries no data.\<close>

lemma serve_sources_push:
  "direction \<noteq> 0 \<Longrightarrow> serve_sources g direction as dm resp w = Inr (resp', w') \<Longrightarrow> dr_dtsrcs resp' = dr_dtsrcs resp"
proof (induction as arbitrary: resp w)
  case (Cons a as)
  have "dr_dtsrcs r = dr_dtsrcs resp" if "serve_source g direction a dm resp w = Inr (r, w1)" for r w1
    using that Cons.prems(1) by (auto simp: serve_source_def serve_def io_bind_def io_return_def split: if_splits)
  with Cons show ?case by (fastforce simp: io_bind_def)
qed (simp add: io_return_def)

theorem pushes_answered_without_data:
  assumes "dq_direction req \<noteq> 0" and "data_process g req DtResponse_new dm w = Inr (resp', w')"
  shows "dr_dtsrcs resp' = []"
  using serve_sources_push [OF assms(1), of g "dq_adtsrcs req" dm _ w resp' w'] assms(2)
  by (simp add: data_process_def DtResponse_set_src_def DtResponse_set_dest_def DtResponse_set_token_def DtResponse_new_def)

end
