(* ===== verification/Computation_Datatransfer.thy ===== *)
theory Computation_Datatransfer
  imports Datatransfer_Message
begin

text \<open>
  The data-transfer client of the computing unit, \<^verbatim>\<open>DataClient\<close> of \<^verbatim>\<open>computation/datatransfer\<close>: the
  task it creates for a request, and the callback that stores the engines a response carries in the
  task's directory and hands the binaries to its caller. \<^verbatim>\<open>std::filesystem::create_directories\<close> and
  \<^verbatim>\<open>std::ofstream\<close> are parameters.
\<close>

section \<open>The client\<close>

record data_side =
  sd_addr :: string
  sd_port :: int
  sd_ssl :: bool

record data_request_ctx =
  dc_src :: string
  dc_dest :: string
  dc_token :: string
  dc_direction :: u32
  dc_adtsrcs :: "adtsrc list"

definition DataClient_setup :: "data_side \<Rightarrow> data_side \<Rightarrow> data_side" where
  "DataClient_setup client ctx = client\<lparr>sd_addr := sd_addr ctx, sd_ssl := sd_ssl ctx, sd_port := sd_port ctx\<rparr>"

record data_task =
  tk_ssl :: bool
  tk_addr :: string
  tk_port :: int
  tk_retry :: nat
  tk_req :: dt_request

text \<open>\<open>req0\<close> is the request object a new task holds.\<close>

definition DataClient_create :: "data_side \<Rightarrow> data_side \<Rightarrow> data_request_ctx \<Rightarrow> dt_request \<Rightarrow> data_task" where
  "DataClient_create client ctx req_ctx req0 =
     (let req1 = DtRequest_set_token req0 (dc_token req_ctx);
          req2 = DtRequest_set_dest req1 (dc_dest req_ctx);
          req3 = DtRequest_set_src req2 (dc_src req_ctx);
          req4 = snd (DtRequest_set_direction req3 (dc_direction req_ctx))
      in \<lparr>tk_ssl = sd_ssl client, tk_addr = sd_addr ctx, tk_port = sd_port ctx, tk_retry = 1,
          tk_req = foldl DtRequest_add_adtsrc req4 (dc_adtsrcs req_ctx)\<rparr>)"

section \<open>The callback\<close>

text \<open>
  \<open>cf_create_directories\<close> is False where the function throws; \<open>cf_open\<close> truncates or creates the file and tells
  whether the stream is open; \<open>cf_write\<close> is \<^verbatim>\<open>write\<close> and \<^verbatim>\<open>close\<close>.
\<close>

record 'w cfiles =
  cf_create_directories :: "string \<Rightarrow> 'w \<Rightarrow> bool \<times> 'w"
  cf_open :: "string \<Rightarrow> 'w \<Rightarrow> bool \<times> 'w"
  cf_write :: "string \<Rightarrow> string \<Rightarrow> 'w \<Rightarrow> 'w"

definition task_dir :: "u32 \<Rightarrow> string" where
  "task_dir taskid = ''../Task_'' @ to_string (unat taskid) @ ''/''"

definition engine_file_name :: "string \<Rightarrow> string \<Rightarrow> string" where
  "engine_file_name mid name = ''JXTDENGINE_'' @ mid @ ''_'' @ name @ ''.so''"

definition parent_of :: "string \<Rightarrow> string" where
  "parent_of path = (case find_last_of path ''/'' of None \<Rightarrow> path | Some pos \<Rightarrow> take pos path)"

fun deps_dispose :: "'w cfiles \<Rightarrow> (adtsrc \<times> string) list \<Rightarrow> string \<Rightarrow> 'w \<Rightarrow> 'w cxx" where
  "deps_dispose cf [] filepath w = Inr w"
| "deps_dispose cf ((dep, relative) # deps) filepath w =
     (let (made, w1) = cf_create_directories cf (filepath @ parent_of relative) w
      in if \<not> made then Inl Filesystem_error
         else (let (opened, w2) = cf_open cf (c_str (filepath @ relative)) w1
               in deps_dispose cf deps filepath
                    (if opened then cf_write cf (c_str (filepath @ relative)) (ad_binary dep) w2 else w2)))"

definition resp_dispose ::
  "'w cfiles \<Rightarrow> (string \<times> string) list \<Rightarrow> dtsrc \<Rightarrow> 'w \<Rightarrow> ((string \<times> string) list \<times> 'w) cxx" where
  "resp_dispose cf names d w =
     (let master = dt_master d; (mid, name) = ad_engineattr master
      in if mid = [] \<or> name = [] \<or> ad_binary master = [] then Inr (names, w)
         else (let names' = names @ [(mid, name)]; filepath = task_dir (ad_taskid master);
                   (made, w1) = cf_create_directories cf filepath w
               in if \<not> made then Inl Filesystem_error
                  else (let path = c_str (filepath @ engine_file_name mid name); (opened, w2) = cf_open cf path w1
                        in if \<not> opened then Inr (names', w2)
                           else cxx_bind (deps_dispose cf (dt_deps d) filepath (cf_write cf path (ad_binary master) w2))
                             (\<lambda>w3. Inr (names', w3)))))"

fun dispose_all ::
  "'w cfiles \<Rightarrow> dtsrc list \<Rightarrow> string list \<Rightarrow> (string \<times> string) list \<Rightarrow> 'w \<Rightarrow>
     (string list \<times> (string \<times> string) list \<times> 'w) cxx" where
  "dispose_all cf [] input names w = Inr (input, names, w)"
| "dispose_all cf (d # ds) input names w =
     (if ad_type (dt_master d) = 0 then
        cxx_bind (resp_dispose cf names d w) (\<lambda>(names', w'). dispose_all cf ds input names' w')
      else if ad_type (dt_master d) = 2 then dispose_all cf ds (input @ [ad_binary (dt_master d)]) names w
      else dispose_all cf ds input names w)"

text \<open>\<open>None\<close> is a task that did not succeed.\<close>

definition call_back_t ::
  "'w cfiles \<Rightarrow> string list \<Rightarrow> (string \<times> string) list \<Rightarrow> dt_response option \<Rightarrow> 'w \<Rightarrow>
     (string list \<times> (string \<times> string) list \<times> 'w) cxx" where
  "call_back_t cf input names reply w =
     (case reply of None \<Rightarrow> Inr (input, names, w) | Some resp \<Rightarrow> dispose_all cf (dr_dtsrcs resp) input names w)"

section \<open>Files under the task's directory\<close>

text \<open>Two paths that differ in components \<^verbatim>\<open>.\<close> name the same file.\<close>

function canon :: "string \<Rightarrow> string" where
  "canon [] = []"
| "canon (c # s) = (if c = CHR ''/'' \<and> take 2 s = ''./'' then canon (c # drop 2 s) else c # canon s)"
  by pat_completeness auto

termination
proof (relation "measure length")
  show "(c # drop 2 s, c # s) \<in> measure length" if "c = CHR ''/'' \<and> take 2 s = ''./''" for c s
    using that by (cases s) auto
qed auto

declare canon.simps(2) [simp del]

lemma canon_dot: "canon (s @ ''/./'' @ t) = canon (s @ ''/'' @ t)"
proof (induction s rule: length_induct)
  case (1 s)
  note IH = 1 [rule_format]
  show ?case
  proof (cases s)
    case Nil
    then show ?thesis by (simp add: canon.simps(2) [of "CHR ''/''" "CHR ''.'' # CHR ''/'' # t"])
  next
    case (Cons c s')
    have ih: "canon (s' @ ''/./'' @ t) = canon (s' @ ''/'' @ t)" using 1 Cons by simp
    consider "length s' \<ge> 2" | "s' = []" | x where "s' = [x]"
      by (cases s' rule: remdups_adj.cases) auto
    then show ?thesis
    proof cases
      case 1
      then obtain x y s'' where s': "s' = x # y # s''" by (cases s' rule: remdups_adj.cases) auto
      have "canon ((c # s'') @ ''/./'' @ t) = canon ((c # s'') @ ''/'' @ t)" using IH [of "c # s''"] Cons s' by simp
      with ih Cons s' show ?thesis
        by (auto simp: canon.simps(2) [of c "x # y # s'' @ CHR ''/'' # CHR ''.'' # CHR ''/'' # t"]
            canon.simps(2) [of c "x # y # s'' @ CHR ''/'' # t"])
    next
      case 2
      with ih Cons show ?thesis by (simp add: canon.simps(2) [of c])
    next
      case 3
      have "canon (CHR ''/'' # CHR ''.'' # CHR ''/'' # t) = canon (CHR ''/'' # t)"
        by (simp add: canon.simps(2) [of "CHR ''/''" "CHR ''.'' # CHR ''/'' # t"])
      with ih Cons 3 show ?thesis by (simp add: canon.simps(2) [of c])
    qed
  qed
qed

text \<open>A file system that does what it is asked; \<open>content\<close> maps the canonical path of a file to its data.\<close>

definition files_ok :: "'w cfiles \<Rightarrow> ('w \<Rightarrow> string \<Rightarrow> string option) \<Rightarrow> bool" where
  "files_ok cf content \<longleftrightarrow>
     (\<forall>p w. \<exists>w'. cf_create_directories cf p w = (True, w') \<and> content w' = content w) \<and>
     (\<forall>p w. \<exists>w'. cf_open cf p w = (True, w') \<and> content w' = (content w)(canon p \<mapsto> [])) \<and>
     (\<forall>p d w. content (cf_write cf p d w) = (content w)(canon p \<mapsto> d))"

lemma deps_dispose_files:
  assumes "files_ok cf content"
  shows "\<exists>w'. deps_dispose cf deps filepath w = Inr w' \<and> content w' =
    foldl (\<lambda>m (dep, relative). m(canon (c_str (filepath @ relative)) \<mapsto> ad_binary dep)) (content w) deps"
proof (induction deps arbitrary: w)
  case (Cons d deps)
  obtain dep relative where d: "d = (dep, relative)" by (cases d)
  obtain w1 where w1: "cf_create_directories cf (filepath @ parent_of relative) w = (True, w1)" "content w1 = content w"
    using assms unfolding files_ok_def by blast
  obtain w2 where w2: "cf_open cf (c_str (filepath @ relative)) w1 = (True, w2)"
    "content w2 = (content w1)(canon (c_str (filepath @ relative)) \<mapsto> [])"
    using assms unfolding files_ok_def by blast
  let ?w3 = "cf_write cf (c_str (filepath @ relative)) (ad_binary dep) w2"
  have "content ?w3 = (content w)(canon (c_str (filepath @ relative)) \<mapsto> ad_binary dep)"
    using assms w1(2) w2(2) unfolding files_ok_def by simp
  with Cons.IH [of ?w3] w1(1) w2(1) d show ?case by simp
qed simp

lemma resp_dispose_files:
  assumes ok: "files_ok cf content" and "ad_engineattr (dt_master d) = (mid, name)"
    and "mid \<noteq> []" "name \<noteq> []" "ad_binary (dt_master d) \<noteq> []"
  shows "\<exists>w'. resp_dispose cf names d w = Inr (names @ [(mid, name)], w') \<and> content w' =
    foldl (\<lambda>m (dep, relative). m(canon (c_str (task_dir (ad_taskid (dt_master d)) @ relative)) \<mapsto> ad_binary dep))
      ((content w)(canon (c_str (task_dir (ad_taskid (dt_master d)) @ engine_file_name mid name)) \<mapsto>
        ad_binary (dt_master d))) (dt_deps d)"
proof -
  let ?dir = "task_dir (ad_taskid (dt_master d))" let ?p = "c_str (?dir @ engine_file_name mid name)"
  obtain w1 where w1: "cf_create_directories cf ?dir w = (True, w1)" "content w1 = content w"
    using ok unfolding files_ok_def by blast
  obtain w2 where w2: "cf_open cf ?p w1 = (True, w2)" "content w2 = (content w1)(canon ?p \<mapsto> [])"
    using ok unfolding files_ok_def by blast
  have "content (cf_write cf ?p (ad_binary (dt_master d)) w2) = (content w)(canon ?p \<mapsto> ad_binary (dt_master d))"
    using ok w1(2) w2(2) unfolding files_ok_def by simp
  with deps_dispose_files [OF ok, of "dt_deps d" ?dir "cf_write cf ?p (ad_binary (dt_master d)) w2"] w1(1) w2(1) assms(2-5)
  show ?thesis by (auto simp: resp_dispose_def Let_def)
qed

end
