(* ===== verification/Datatransfer_System.thy ===== *)
theory Datatransfer_System
  imports Storage_Datatrans Computation_Datatransfer
begin

text \<open>
  The data transfer between the two units: what a computing unit has on its disk after pulling the
  engine of a task from the storage unit, through the wire.
\<close>

lemma foldl_same_path:
  "deps \<noteq> [] \<Longrightarrow> \<forall>x \<in> set deps. snd x = path \<Longrightarrow>
     foldl (\<lambda>m (dep, relative). m(f relative \<mapsto> ad_binary dep)) m deps (f path) = Some (ad_binary (fst (last deps)))"
proof (induction deps rule: rev_induct)
  case (snoc x deps)
  then show ?case by (cases x) simp
qed simp

text \<open>The relative path the storage unit sends is the name of the main engine, under the task's directory.\<close>

lemma relative_path_same:
  assumes "CHR 0x00 \<notin> set mid" "CHR 0x00 \<notin> set name"
  shows "canon (c_str (task_dir t @ relative_path mid name)) = canon (c_str (task_dir t @ engine_file_name mid name))"
proof -
  have digits: "CHR 0x00 \<notin> set (to_string n)" for n
  proof (induction n rule: to_string.induct)
    case (1 n)
    have "CHR 0x00 \<noteq> digit_char d" if "d < 10" for d
    proof -
      have "of_char (digit_char d) = 48 + d" using that by (simp add: digit_char_def of_char_of)
      moreover have "of_char (CHR 0x00) = (0::nat)" by simp
      ultimately show ?thesis by force
    qed
    with 1 show ?case by (subst to_string.simps) auto
  qed
  have str: "c_str (task_dir t @ relative_path mid name) = task_dir t @ relative_path mid name"
    "c_str (task_dir t @ engine_file_name mid name) = task_dir t @ engine_file_name mid name"
    using assms digits by (auto intro!: c_str_id simp: task_dir_def relative_path_def engine_file_name_def)
  show ?thesis
    unfolding str using canon_dot [of "''../Task_'' @ to_string (unat t)" "engine_file_name mid name"]
    by (simp add: task_dir_def relative_path_def engine_file_name_def)
qed

text \<open>
  C15: a computing unit that pulls the engine of a task with dependencies ends with a wrong engine: the storage
  unit names every dependency after the main engine, so the client writes each of them over the main
  engine's file, which afterwards holds the last dependency. The client still reports the main
  engine as stored.
\<close>

theorem engine_with_deps_overwritten:
  assumes rt: "routed (dm_sched dm) (Get_local_fileoperations px)" and laws: "file_laws px content fd_at"
    and req: "dq_direction req = 0" "dq_adtsrcs req = [a]" "ad_type a = datatype_code Type_engine" "ad_taskid a \<noteq> 0"
    and bound: "map_of (dm_engines dm) (ucast (ad_taskid a)) = Some ((mid, name), es)" and "es \<noteq> []"
    and main: "engine_file content dm w (mid, name) c"
    and deps: "\<forall>e \<in> set es. engine_file content dm w (eng_id e, eng_name e) (code e)"
    and names: "mid \<noteq> []" "name \<noteq> []" "CHR 0x00 \<notin> set mid" "CHR 0x00 \<notin> set name"
    and ok: "files_ok cf stored"
  shows "\<exists>resp d w'. data_process g req DtResponse_new dm w = Inr (resp, w') \<and> dr_dtsrcs resp = [d] \<and>
    (ad_binary (dt_master d) \<noteq> [] \<longrightarrow>
      (\<exists>v' out. call_back_t cf input mns (Some (DtResponse_received resp)) v = Inr (input, mns @ [(mid, name)], v') \<and>
        out \<in> {[], code (last es)} \<and>
        stored v' (canon (c_str (task_dir (ad_taskid a) @ engine_file_name mid name))) = Some out))"
proof -
  obtain d bins w' where pull: "EnginePull g a dm w = Inr (d, w')"
    and d: "ad_taskid (dt_master d) = ad_taskid a" "ad_type (dt_master d) = 0" "ad_engineattr (dt_master d) = (mid, name)"
      "dt_deps d = map2 (dep_of g (relative_path mid name)) es bins"
    and bins: "length bins = length es" "\<forall>i < length es. bins ! i \<in> {[], code (es ! i)}"
    using engine_pull_main [OF rt laws req(4) bound main deps, of g] by auto
  let ?resp = "DtResponse_add_dtsrc (DtResponse_new\<lparr>dr_src := dq_dest req, dr_dest := dq_src req, dr_token := []\<rparr>) d"
  have process: "data_process g req DtResponse_new dm w = Inr (?resp, w')"
    using pull req(1-3)
    by (simp add: data_process_def Let_def serve_source_def serve_def DtResponse_set_src_def DtResponse_set_dest_def
        DtResponse_set_token_def)
  let ?d = "d\<lparr>dt_master := transported (dt_master d), dt_deps := map (\<lambda>(a, p). (transported a, p)) (dt_deps d)\<rparr>"
  have recv: "dr_dtsrcs (DtResponse_received ?resp) = [?d]"
    by (simp add: DtResponse_received_def DtResponse_add_dtsrc_def DtResponse_new_def)
  have master: "ad_engineattr (dt_master ?d) = (mid, name)" "ad_taskid (dt_master ?d) = ad_taskid a"
    "ad_type (dt_master ?d) = 0" "ad_binary (dt_master ?d) = ad_binary (dt_master d)"
    using d names by (simp_all add: transported_def both_def)
  have ds: "dt_deps ?d = map2 (\<lambda>e bin. (transported (fst (dep_of g (relative_path mid name) e bin)), relative_path mid name)) es bins"
    using d(4) by (simp add: dep_of_def split_beta)
  have ne: "dt_deps ?d \<noteq> []" using ds bins(1) assms(8) by (cases es; cases bins) simp_all
  have paths: "\<forall>x \<in> set (dt_deps ?d). snd x = relative_path mid name"
    unfolding ds by (auto simp: set_zip)
  have zip: "zip es bins \<noteq> []" using bins(1) assms(8) by (cases es; cases bins) simp_all
  have "last (zip es bins) = (last es, last bins)"
    using zip bins(1) by (simp add: last_conv_nth)
  then have last: "ad_binary (fst (last (dt_deps ?d))) = last bins"
    using zip unfolding ds by (simp add: last_map dep_of_def transported_def)
  have out: "last bins \<in> {[], code (last es)}"
    using bins assms(8) by (metis diff_less last_conv_nth length_0_conv length_greater_0_conv zero_less_one)
  have "\<exists>v'. call_back_t cf input mns (Some (DtResponse_received ?resp)) v = Inr (input, mns @ [(mid, name)], v') \<and>
      stored v' (canon (c_str (task_dir (ad_taskid a) @ engine_file_name mid name))) = Some (last bins)"
    if bin: "ad_binary (dt_master d) \<noteq> []"
  proof -
    have "ad_binary (dt_master ?d) \<noteq> []" using bin master by simp
    from resp_dispose_files [OF ok master(1) names(1,2) this, of mns v, unfolded master(2)]
    obtain v' where v': "resp_dispose cf mns ?d v = Inr (mns @ [(mid, name)], v')"
      and s: "stored v' = foldl (\<lambda>m (dep, relative). m(canon (c_str (task_dir (ad_taskid a) @ relative)) \<mapsto> ad_binary dep))
        ((stored v)(canon (c_str (task_dir (ad_taskid a) @ engine_file_name mid name)) \<mapsto> ad_binary (dt_master ?d)))
        (dt_deps ?d)" by blast
    have "stored v' (canon (c_str (task_dir (ad_taskid a) @ relative_path mid name))) = Some (last bins)"
      unfolding s by (subst foldl_same_path [OF ne paths]) (rule arg_cong [where f = Some, OF last])
    then have "stored v' (canon (c_str (task_dir (ad_taskid a) @ engine_file_name mid name))) = Some (last bins)"
      by (simp only: relative_path_same [OF names(3,4)])
    then show ?thesis
      using v' d(2) unfolding call_back_t_def option.case recv dispose_all.simps by (simp add: transported_def)
  qed
  with process out show ?thesis
    by (intro exI [of _ ?resp] exI [of _ d] exI [of _ w']) (auto simp: DtResponse_add_dtsrc_def DtResponse_new_def)
qed

text \<open>Witness: a client whose disk is a map, pulling the engine of task 7.\<close>

definition map_files :: "(string \<Rightarrow> string option) cfiles" where
  "map_files = \<lparr>cf_create_directories = (\<lambda>p w. (True, w)), cf_open = (\<lambda>p w. (True, w(canon p \<mapsto> []))),
     cf_write = (\<lambda>p d w. w(canon p \<mapsto> d))\<rparr>"

definition pull_request :: dt_request where
  "pull_request = DtRequest_add_adtsrc (DtRequest_new 0) ((Adtsrc_new 0)\<lparr>ad_taskid := 7\<rparr>)"

theorem engine_with_deps_overwritten_witness:
  "\<exists>resp d w'. data_process 0 pull_request DtResponse_new mem_tasks mem_engines = Inr (resp, w') \<and> dr_dtsrcs resp = [d] \<and>
    (ad_binary (dt_master d) \<noteq> [] \<longrightarrow>
      (\<exists>v' out. call_back_t map_files [] [] (Some (DtResponse_received resp)) Map.empty = Inr ([], [(''m'', ''n'')], v') \<and>
        out \<in> {[], ''lib''} \<and> v' (canon (c_str (task_dir 7 @ engine_file_name ''m'' ''n''))) = Some out))"
proof -
  let ?a = "(Adtsrc_new 0)\<lparr>ad_taskid := 7\<rparr>" let ?es = "[Engine [] ''d'' ''e'' [] []]"
  have req: "dq_direction pull_request = 0" "dq_adtsrcs pull_request = [?a]" "ad_type ?a = datatype_code Type_engine"
    "ad_taskid ?a \<noteq> 0"
    by (simp_all add: pull_request_def DtRequest_add_adtsrc_def DtRequest_new_def Adtsrc_new_def)
  have b: "map_of (dm_engines mem_tasks) (ucast (ad_taskid ?a)) = Some ((''m'', ''n''), ?es)" and es: "?es \<noteq> []"
    by (simp_all add: mem_tasks_def)
  have deps: "\<forall>e \<in> set ?es. engine_file fst mem_tasks mem_engines (eng_id e, eng_name e) ''lib''"
    using mem_engines_files by simp
  have names: "''m'' \<noteq> []" "''n'' \<noteq> []" "CHR 0x00 \<notin> set ''m''" "CHR 0x00 \<notin> set ''n''" by simp_all
  have ok: "files_ok map_files id" by (simp add: files_ok_def map_files_def)
  show ?thesis
    using engine_with_deps_overwritten [OF mem_tasks_routed mem_posix_laws req b es mem_engines_files(1) deps names ok,
        of 0 "[]" "[]" Map.empty]
    by simp
qed

end
