(* ===== verification/AT_Parser.thy ===== *)
theory AT_Parser
  imports Prelude
begin

text \<open>
  The parser of the AT messages the router gets, \<^verbatim>\<open>misc/parser\<close>: the scanner of \<^verbatim>\<open>at/token.l\<close>, the
  grammar and actions of \<^verbatim>\<open>at/config.y\<close> and \<^verbatim>\<open>at/action.c\<close>, and the class of \<^verbatim>\<open>at/ATParser.cc\<close>. The
  scanner picks the longest match, trailing context included, and among equals the first rule; the only
  character no rule takes is a line feed of its own, which flex copies to the standard output. The
  rules of the grammar are told apart by their next token, and all actions run before the next
  token is read, so the tables bison makes of it are the recursive functions below. The static
  record of \<^verbatim>\<open>action.c\<close> is emptied or freed at the end of every parse, and so is not a state. The model is
  for inputs of fewer than 4900 parameters, where bison's stack of at most 10000 entries suffices.
\<close>

datatype at_type = AT_NON | AT_CMD | AT_SEARCH | AT_TEST | AT_LONG

record atmessage =
  am_type :: at_type
  am_cmd :: string
  am_param :: "string list"
  am_data :: string

definition atmessage_none :: atmessage where
  "atmessage_none = \<lparr>am_type = AT_NON, am_cmd = [], am_param = [], am_data = []\<rparr>"

section \<open>The scanner\<close>

datatype at_token = T_AT | T_COMMAND | T_EQUAL | T_QST | T_PARAM | T_DATAEND | T_END | T_DATA | T_STARTPARAM
  | T_LASTPARAM | T_SINGLEPARAM | T_ERROR

abbreviation at_eol :: string where
  "at_eol \<equiv> [CHR 0x0D, CHR 0x0A]"

abbreviation at_fin :: string where
  "at_fin \<equiv> ''<<<'' @ at_eol"

definition upper :: "char \<Rightarrow> bool" where
  "upper c \<longleftrightarrow> (65::nat) \<le> of_char c \<and> of_char c \<le> (90::nat)"

text \<open>The class of a parameter: quotes stand for themselves inside the brackets.\<close>

definition param_char :: "char \<Rightarrow> bool" where
  "param_char c \<longleftrightarrow> upper c \<or> (97::nat) \<le> of_char c \<and> of_char c \<le> (122::nat) \<or>
     (48::nat) \<le> of_char c \<and> of_char c \<le> (57::nat) \<or> c = CHR ''.'' \<or> c = CHR 0x22 \<or> c = CHR ''='' \<or> c = CHR ''_''"

fun last_occ :: "string \<Rightarrow> string \<Rightarrow> nat option" where
  "last_occ p [] = None"
| "last_occ p (c # s) =
     (case last_occ p s of Some n \<Rightarrow> Some (Suc n) | None \<Rightarrow> if prefix p (c # s) then Some 0 else None)"

text \<open>The length of the longest match of each kind of rule, with its trailing context.\<close>

definition match_word :: "string \<Rightarrow> string \<Rightarrow> nat option" where
  "match_word p s = (if prefix p s then Some (length p) else None)"

definition match_class :: "char \<Rightarrow> (char \<Rightarrow> bool) \<Rightarrow> string \<Rightarrow> string \<Rightarrow> nat option" where
  "match_class c P tail s =
     (case s of [] \<Rightarrow> None
      | x # xs \<Rightarrow>
          (let k = length (takeWhile P xs)
           in if x = c \<and> k \<noteq> 0 \<and> prefix tail (drop k xs) then Some (1 + k + length tail) else None))"

definition match_data :: "string \<Rightarrow> nat option" where
  "match_data s =
     (if prefix at_eol s then map_option (\<lambda>n. 3 + n + length at_fin) (last_occ at_fin (drop 3 s)) else None)"

definition match_any :: "string \<Rightarrow> nat option" where
  "match_any s = (case s of [] \<Rightarrow> None | c # _ \<Rightarrow> if c = CHR 0x0A then None else Some 1)"

text \<open>The rules, with the length of their trailing context.\<close>

definition at_rules :: "(at_token \<times> nat \<times> (string \<Rightarrow> nat option)) list" where
  "at_rules =
     [(T_END, 0, match_word at_eol),
      (T_DATAEND, 0, match_word at_fin),
      (T_DATA, length at_fin, match_data),
      (T_AT, 1, match_word ''AT+''),
      (T_EQUAL, 0, match_word ''=''),
      (T_QST, 0, match_word ''?''),
      (T_COMMAND, 0, match_class (CHR ''+'') upper []),
      (T_STARTPARAM, 1, match_class (CHR ''='') param_char '',''),
      (T_PARAM, 1, match_class (CHR '','') param_char '',''),
      (T_LASTPARAM, 2, match_class (CHR '','') param_char at_eol),
      (T_SINGLEPARAM, 2, match_class (CHR ''='') param_char at_eol),
      (T_ERROR, 0, match_any)]"

text \<open>The longest match among the rules, the first of equals: its token and its length without the trailing context.\<close>

fun longest :: "(at_token \<times> nat \<times> (string \<Rightarrow> nat option)) list \<Rightarrow> string \<Rightarrow> (at_token \<times> nat \<times> nat) option" where
  "longest [] s = None"
| "longest ((t, trail, m) # rs) s =
     (case m s of
        None \<Rightarrow> longest rs s
      | Some n \<Rightarrow>
          (case longest rs s of
             None \<Rightarrow> Some (t, n, trail)
           | Some (t', n', trail') \<Rightarrow> if n < n' then Some (t', n', trail') else Some (t, n, trail)))"

definition at_scan :: "string \<Rightarrow> (at_token \<times> nat) option" where
  "at_scan s = map_option (\<lambda>(t, n, trail). (t, n - trail)) (longest at_rules s)"

function at_lex :: "string \<Rightarrow> (at_token \<times> string) list" where
  "at_lex [] = []"
| "at_lex (c # s) =
     (case at_scan (c # s) of
        None \<Rightarrow> at_lex s
      | Some (t, n) \<Rightarrow> (t, take n (c # s)) # at_lex (drop (n - 1) s))"
  by pat_completeness auto
termination by (relation "measure length") auto

section \<open>The grammar and its actions\<close>

definition set_cmd :: "string \<Rightarrow> atmessage \<Rightarrow> atmessage" where
  "set_cmd cmd m = m\<lparr>am_cmd := c_str cmd\<rparr>"

definition add_param :: "string \<Rightarrow> atmessage \<Rightarrow> atmessage" where
  "add_param param m = m\<lparr>am_param := am_param m @ [c_str param]\<rparr>"

definition set_data :: "string \<Rightarrow> atmessage \<Rightarrow> atmessage" where
  "set_data data m = m\<lparr>am_data := data\<rparr>"

definition set_type :: "at_type \<Rightarrow> atmessage \<Rightarrow> atmessage" where
  "set_type t m = m\<lparr>am_type := t\<rparr>"

type_synonym at_parse = "((at_token \<times> string) list \<times> atmessage) option"

text \<open>The text of the next token, when it is the given one.\<close>

fun expect :: "at_token \<Rightarrow> (at_token \<times> string) list \<Rightarrow> (string \<times> (at_token \<times> string) list) option" where
  "expect t [] = None"
| "expect t ((u, x) # ts) = (if u = t then Some (x, ts) else None)"

definition parse_data :: "(at_token \<times> string) list \<Rightarrow> atmessage \<Rightarrow> at_parse" where
  "parse_data ts m =
     (case expect T_END ts of
        Some (_, ts1) \<Rightarrow> Some (ts1, set_type AT_CMD m)
      | None \<Rightarrow>
          Option.bind (expect T_DATA ts) (\<lambda>(x, ts1).
            Option.bind (expect T_DATAEND ts1) (\<lambda>(_, ts2).
              Some (ts2, set_type AT_LONG (set_data (drop 2 x) m)))))"

fun parse_param :: "(at_token \<times> string) list \<Rightarrow> atmessage \<Rightarrow> at_parse" where
  "parse_param [] m = None"
| "parse_param ((t, x) # ts) m =
     (if t = T_PARAM then parse_param ts (add_param (drop 1 x) m)
      else if t = T_LASTPARAM then Some (ts, add_param (drop 1 x) m)
      else None)"

definition parse_next :: "(at_token \<times> string) list \<Rightarrow> atmessage \<Rightarrow> at_parse" where
  "parse_next ts m =
     (case expect T_EQUAL ts of
        Some (_, ts1) \<Rightarrow>
          Option.bind (expect T_QST ts1) (\<lambda>(_, ts2).
            Option.bind (expect T_END ts2) (\<lambda>(_, ts3). Some (ts3, set_type AT_SEARCH m)))
      | None \<Rightarrow>
          (case expect T_QST ts of
             Some (_, ts1) \<Rightarrow> Option.bind (expect T_END ts1) (\<lambda>(_, ts2). Some (ts2, set_type AT_TEST m))
           | None \<Rightarrow>
               (case expect T_SINGLEPARAM ts of
                  Some (x, ts1) \<Rightarrow> parse_data ts1 (add_param (drop 1 x) m)
                | None \<Rightarrow>
                    (case expect T_STARTPARAM ts of
                       Some (x, ts1) \<Rightarrow>
                         Option.bind (parse_param ts1 (add_param (drop 1 x) m)) (\<lambda>(ts2, m2). parse_data ts2 m2)
                     | None \<Rightarrow> parse_data ts m))))"

definition parse_begin :: "(at_token \<times> string) list \<Rightarrow> at_parse" where
  "parse_begin ts =
     Option.bind (expect T_AT ts) (\<lambda>(_, ts1).
       Option.bind (expect T_COMMAND ts1) (\<lambda>(x, ts2). parse_next ts2 (set_cmd (drop 1 x) atmessage_none)))"

text \<open>
  \<^verbatim>\<open>ATParser_parse_entrance\<close> with \<^verbatim>\<open>ATParser_get_error\<close>: whether the whole text is a message, and the
  record, which an error leaves empty.
\<close>

definition at_parse :: "string \<Rightarrow> bool \<times> atmessage" where
  "at_parse text = (case parse_begin (at_lex text) of
        None \<Rightarrow> (False, atmessage_none)
      | Some (ts, m) \<Rightarrow> if ts = [] then (True, m) else (False, atmessage_none))"

section \<open>The class\<close>

record atparser =
  pa_correct :: bool
  pa_parsed :: bool
  pa_words :: string
  pa_message :: atmessage

definition ATParser_new :: atparser where
  "ATParser_new = \<lparr>pa_correct = False, pa_parsed = False, pa_words = [], pa_message = atmessage_none\<rparr>"

definition ATParser_of_string :: "string \<Rightarrow> atparser" where
  "ATParser_of_string str = \<lparr>pa_correct = False, pa_parsed = False, pa_words = str, pa_message = atmessage_none\<rparr>"

text \<open>From a file of some size, of which the read gives a part: the rest of the buffer stays zero.\<close>

definition ATParser_of_file :: "(int \<times> string) option \<Rightarrow> atparser" where
  "ATParser_of_file file =
     \<lparr>pa_correct = False, pa_parsed = False,
      pa_words = (case file of None \<Rightarrow> []
        | Some (bytes, content) \<Rightarrow>
            if bytes > 0 then take (nat bytes) content @ replicate (nat bytes - length content) (CHR 0x00) else []),
      pa_message = atmessage_none\<rparr>"

definition ATParser_parse :: "atparser \<Rightarrow> atmessage \<times> atparser" where
  "ATParser_parse p =
     (if pa_parsed p then (pa_message p, p)
      else case at_parse (pa_words p) of
        (correct, m) \<Rightarrow>
          (let p1 = p\<lparr>pa_correct := correct, pa_parsed := True,
                      pa_message := (if correct
                        then (pa_message p)\<lparr>am_type := am_type m, am_cmd := am_cmd m,
                               am_param := am_param (pa_message p) @ am_param m,
                               am_data := am_data m @ am_data (pa_message p)\<rparr>
                        else pa_message p)\<rparr>
           in (pa_message p1, p1)))"

end
