(* ===== verification/Router_State.thy ===== *)
theory Router_State
  imports Management_Client Computation_Datatransfer AT_Parser Cxx_Numbers
begin

text \<open>
  What the commands of the router work on, besides the parsed AT message: the list of models, the task the
  router runs (\<^verbatim>\<open>Taskresult\<close>), the outside world, and the functions of the standard library the
  commands call. \<^verbatim>\<open>router/lib/cmd.h\<close>, \<^verbatim>\<open>router/lib/flag/flag.h\<close> and the first part of
  \<^verbatim>\<open>router/lib/cmd.cc\<close>.
\<close>

section \<open>The task the router runs\<close>

text \<open>\<open>tr_server\<close> tells whether the HTTP server object exists that the computing unit posts results to.\<close>

record taskresult =
  tr_data :: string
  tr_status :: bool
  tr_taskid :: u64
  tr_server :: bool

definition Taskresult_new :: taskresult where
  "Taskresult_new = \<lparr>tr_data = [], tr_status = True, tr_taskid = 0, tr_server = False\<rparr>"

text \<open>\<open>start\<close> is the result of starting the HTTP server.\<close>

definition Taskresult_start :: "int \<Rightarrow> taskresult \<Rightarrow> int \<times> taskresult" where
  "Taskresult_start start r = (if tr_server r then (-1, r) else (start, r\<lparr>tr_server := True\<rparr>))"

definition Taskresult_stop :: "taskresult \<Rightarrow> int \<times> taskresult" where
  "Taskresult_stop r = (0, if tr_server r then r\<lparr>tr_server := False\<rparr> else r)"

definition Taskresult_remove :: "taskresult \<Rightarrow> taskresult" where
  "Taskresult_remove r = r\<lparr>tr_taskid := 0, tr_status := True, tr_data := []\<rparr>"

definition Taskresult_set :: "u64 \<Rightarrow> taskresult \<Rightarrow> taskresult" where
  "Taskresult_set taskid r = r\<lparr>tr_taskid := taskid, tr_data := [], tr_status := True\<rparr>"

text \<open>The handler of the HTTP server, for a request with this body.\<close>

definition result_process :: "string \<Rightarrow> taskresult \<Rightarrow> taskresult" where
  "result_process body r =
     (if tr_taskid r \<noteq> 0
      then r\<lparr>tr_data := body, tr_status := (if body = [] then False else tr_status r)\<rparr>
      else r)"

definition result_ready :: "taskresult \<Rightarrow> bool" where
  "result_ready r \<longleftrightarrow> tr_taskid r = 0 \<or> \<not> tr_status r \<or> tr_data r \<noteq> []"

text \<open>
  \<^verbatim>\<open>wait\<close>: the condition is looked at first and after every request the server handles. The list holds
  the bodies of the requests still to come; when it ends the wait does not: \<open>None\<close>.
\<close>

fun Taskresult_wait :: "string list \<Rightarrow> taskresult \<Rightarrow> taskresult option" where
  "Taskresult_wait bodies r =
     (if result_ready r then Some r
      else case bodies of [] \<Rightarrow> None | b # bs \<Rightarrow> Taskresult_wait bs (result_process b r))"

declare Taskresult_wait.simps [simp del]

section \<open>Flags and state\<close>

record router_flag =
  fg_management :: string
  fg_computation :: string
  fg_storage :: string
  fg_datatransfer_router :: string
  fg_datatransfer_storage :: string
  fg_ssl :: bool
  fg_port :: int
  fg_ipv4 :: string
  fg_ipv6 :: string

text \<open>\<open>ssl\<close> has no initial value.\<close>

definition Flag_new :: "bool \<Rightarrow> router_flag" where
  "Flag_new g_ssl =
     \<lparr>fg_management = [], fg_computation = [], fg_storage = [], fg_datatransfer_router = [],
      fg_datatransfer_storage = [], fg_ssl = g_ssl, fg_port = 2878, fg_ipv4 = ''192.168.28.1'',
      fg_ipv6 = ''[fe80::2878::1]''\<rparr>"

text \<open>The global variables of the router. A model is a pair of its name and its identifier.\<close>

type_synonym model = "string \<times> string"

record router =
  rt_private :: "model list"
  rt_cloud :: "model list"
  rt_user :: string
  rt_task :: taskresult
  rt_management :: client_ctx
  rt_flag :: router_flag

section \<open>The outside world\<close>

text \<open>
  The functions of \<^verbatim>\<open>std::filesystem\<close> may throw. \<open>rf_open\<close> opens (and creates or truncates) a file for
  writing, \<open>rf_write\<close> writes and closes it; \<open>rf_load\<close> opens a file and reads it whole: \<open>None\<close> when it
  cannot be opened.
\<close>

record 'w router_files =
  rf_remove_all :: "string \<Rightarrow> 'w \<Rightarrow> 'w cxx"
  rf_create_directory :: "string \<Rightarrow> 'w \<Rightarrow> 'w cxx"
  rf_remove :: "string \<Rightarrow> 'w \<Rightarrow> (bool \<times> 'w) cxx"
  rf_open :: "string \<Rightarrow> 'w \<Rightarrow> bool \<times> 'w"
  rf_write :: "string \<Rightarrow> string \<Rightarrow> 'w \<Rightarrow> 'w"
  rf_load :: "string \<Rightarrow> 'w \<Rightarrow> string option"

text \<open>What becomes of a command given to the operating system.\<close>

datatype command_run = No_pipe | No_fork | Not_executable | Ran string bool

text \<open>
  The generator behind \<^verbatim>\<open>create_id\<close> (the i-th of its numbers of 0..9, the i-th of those of 0..51, and the n-th
  shuffle), the exchanges over the two protocols, the commands, and the bodies of the requests the
  HTTP server gets: during the deployment of a task, after it, and during a timer of some microseconds.
  Last, the indeterminate values of the objects the commands allocate.
\<close>

record 'w router_env =
  re_files :: "'w router_files"
  re_digits :: "'w \<Rightarrow> nat \<Rightarrow> nat"
  re_letters :: "'w \<Rightarrow> nat \<Rightarrow> nat"
  re_shuffle :: "'w \<Rightarrow> nat \<Rightarrow> string \<Rightarrow> string"
  re_net :: "'w exchange"
  re_push :: "data_task \<Rightarrow> 'w \<Rightarrow> bool \<times> 'w"
  re_exec :: "string list \<Rightarrow> 'w \<Rightarrow> command_run \<times> 'w"
  re_deploying :: "'w \<Rightarrow> string list"
  re_waiting :: "'w \<Rightarrow> string list"
  re_sleeping :: "u32 \<Rightarrow> 'w \<Rightarrow> string list"
  re_request :: request
  re_attr :: "u32 \<times> bool"
  re_dt_request :: dt_request
  re_adtsrc :: u32

text \<open>
  A command gets the message and gives its answer. It can fail by an exception nothing catches,
  which ends the router, or never answer.
\<close>

type_synonym 'w answer = "(string \<times> router \<times> 'w) cxx option"
type_synonym 'w command = "'w router_env \<Rightarrow> atmessage \<Rightarrow> router \<Rightarrow> 'w \<Rightarrow> 'w answer"

definition answer :: "string \<Rightarrow> router \<Rightarrow> 'w \<Rightarrow> 'w answer" where
  "answer s r w = Some (Inr (s, r, w))"

lemma answer_inject [simp]: "answer s r w = answer s' r' w' \<longleftrightarrow> s = s' \<and> r = r' \<and> w = w'"
  by (auto simp: answer_def)

lemma answer_not_None [simp]: "answer s r w \<noteq> None" by (simp add: answer_def)

lemma answer_not_Inl [simp]: "answer s r w \<noteq> Some (Inl e)" by (simp add: answer_def)

section \<open>Standard library\<close>

text \<open>
  The text before the first separator and the text after it, as the commands cut a parameter like
  \<^verbatim>\<open>name_yolo\<close>.
\<close>

definition cut_at :: "string \<Rightarrow> string \<Rightarrow> (string \<times> string) option" where
  "cut_at sep s = map_option (\<lambda>p. (take p s, drop (Suc p) s)) (find_first_of s sep)"

lemma cut_at_append:
  "set s \<inter> set sep = {} \<Longrightarrow> c \<in> set sep \<Longrightarrow> cut_at sep (s @ c # t) = Some (s, t)"
  by (simp add: cut_at_def find_first_of_append)

section \<open>An example of the outside world\<close>

text \<open>
  Files are a map from paths to contents; every exchange of the deployment protocol is lost, every push
  arrives, every command prints its name, and a shuffle is a rotation.
\<close>

type_synonym file_map = "string \<Rightarrow> string option"

definition map_router_files :: "file_map router_files" where
  "map_router_files =
     \<lparr>rf_remove_all = \<lambda>d m. Inr (\<lambda>p. if prefix d p then None else m p),
      rf_create_directory = \<lambda>d m. Inr m,
      rf_remove = \<lambda>p m. Inr (m p \<noteq> None, m(p := None)),
      rf_open = \<lambda>p m. (True, m(p \<mapsto> [])),
      rf_write = \<lambda>p d m. m(p \<mapsto> d),
      rf_load = \<lambda>p m. m p\<rparr>"

definition map_env :: "file_map router_env" where
  "map_env =
     \<lparr>re_files = map_router_files, re_digits = \<lambda>_ i. i, re_letters = \<lambda>_ i. 10 * i, re_shuffle = \<lambda>_ _. rotate1,
      re_net = \<lambda>_ w. (None, w), re_push = \<lambda>_ w. (True, w), re_exec = \<lambda>c w. (Ran (concat c) True, w),
      re_deploying = \<lambda>_. [], re_waiting = \<lambda>_. [], re_sleeping = \<lambda>_ _. [], re_request = Request_new 0 0 0 0,
      re_attr = (0, False), re_dt_request = DtRequest_new 0, re_adtsrc = 0\<rparr>"

definition sample_flag :: router_flag where
  "sample_flag = (Flag_new False)\<lparr>fg_datatransfer_router := ''10.0.0.1:80'', fg_datatransfer_storage := ''10.0.0.2:81''\<rparr>"

definition sample_router :: router where
  "sample_router =
     \<lparr>rt_private = [(''cat'', ''p1'')], rt_cloud = [(''dog'', ''c1'')], rt_user = ''u'', rt_task = Taskresult_new,
      rt_management = sample_client, rt_flag = sample_flag\<rparr>"

end
