(* ===== verification/Router_Models.thy ===== *)
theory Router_Models
  imports Router_State "HOL-Library.Multiset"
begin

text \<open>
  The commands that register the user and manage the list of models: \<^verbatim>\<open>REG\<close>, \<^verbatim>\<open>RTUNREG\<close>,
  \<^verbatim>\<open>RTBUSY\<close>, \<^verbatim>\<open>MDDECL\<close> and \<^verbatim>\<open>MDRM\<close> of \<^verbatim>\<open>router/lib/cmd.cc\<close>.
\<close>

section \<open>The user\<close>

text \<open>Names of files end at a NUL for the operating system.\<close>

definition user_dir :: "string \<Rightarrow> string" where
  "user_dir user = c_str (''../'' @ user @ ''/'')"

definition user_file :: "string \<Rightarrow> string \<Rightarrow> string" where
  "user_file user file = c_str (''../'' @ user @ ''/'' @ file)"

definition throwing :: "'a cxx \<Rightarrow> ('a \<Rightarrow> 'w answer) \<Rightarrow> 'w answer" where
  "throwing m f = (case m of Inl e \<Rightarrow> Some (Inl e) | Inr x \<Rightarrow> f x)"

lemma throwing_simps [simp]: "throwing (Inl e) f = Some (Inl e)" "throwing (Inr x) f = f x"
  by (simp_all add: throwing_def)

definition REG :: "'w command" where
  "REG env msg r w =
     (case am_type msg of
        AT_CMD \<Rightarrow>
          (case am_param msg of
             [name] \<Rightarrow>
               if rt_user r = name then answer ''AT+ERR=0,name is registered'' r w
               else throwing (if rt_user r \<noteq> [] then rf_remove_all (re_files env) (user_dir (rt_user r)) w else Inr w)
                 (\<lambda>w1. throwing (rf_create_directory (re_files env) (user_dir name) w1)
                   (\<lambda>w2. answer ''AT+OK'' (r\<lparr>rt_user := name\<rparr>) w2))
           | _ \<Rightarrow> answer ''AT+ENVAL'' r w)
      | AT_TEST \<Rightarrow> if rt_user r = [] then answer ''AT+ERR=-2,name is not registered'' r w else answer ''AT+OK'' r w
      | _ \<Rightarrow> answer ''AT+ENVAL'' r w)"

definition RTUNREG :: "'w command" where
  "RTUNREG env msg r w =
     (case am_type msg of
        AT_CMD \<Rightarrow>
          if am_param msg \<noteq> [] then answer ''AT+ENVAL'' r w
          else if rt_user r \<noteq> [] then
            throwing (rf_remove_all (re_files env) (user_dir (rt_user r)) w) (\<lambda>w1. answer ''AT+OK'' (r\<lparr>rt_user := []\<rparr>) w1)
          else answer ''AT+ERR'' r w
      | _ \<Rightarrow> answer ''AT+ENVAL'' r w)"

definition RTBUSY :: "'w command" where
  "RTBUSY env msg r w =
     (case am_type msg of
        AT_TEST \<Rightarrow>
          if am_param msg \<noteq> [] then answer ''AT+ENVAL'' r w
          else if tr_taskid (rt_task r) \<noteq> 0 then answer ''AT+BUSY'' r w
          else answer ''AT+IDLE'' r w
      | _ \<Rightarrow> answer ''AT+ENVAL'' r w)"

section \<open>Identifiers of models\<close>

definition letter :: "nat \<Rightarrow> char" where
  "letter n = (if n < 26 then char_of (65 + n) else char_of (97 + (n - 26)))"

definition drawn_id :: "'w router_env \<Rightarrow> 'w \<Rightarrow> string" where
  "drawn_id env w = map (\<lambda>i. char_of (48 + re_digits env w i)) [0..<4] @ map (\<lambda>i. letter (re_letters env w i)) [0..<4]"

definition id_unused :: "router \<Rightarrow> string \<Rightarrow> bool" where
  "id_unused r i \<longleftrightarrow> list_all (\<lambda>e. snd e \<noteq> i) (rt_cloud r) \<and> list_all (\<lambda>e. snd e \<noteq> i) (rt_private r)"

text \<open>
  The loop shuffles until the identifier is unused: it does not end when every arrangement the
  generator yields is taken. \<open>k\<close> counts the shuffles.
\<close>

partial_function (option) shuffle_until :: "(nat \<Rightarrow> string \<Rightarrow> string) \<Rightarrow> (string \<Rightarrow> bool) \<Rightarrow> nat \<Rightarrow> string \<Rightarrow> string option" where
  "shuffle_until shuffle check k i =
     (let i' = shuffle k i in if check i' then Some i' else shuffle_until shuffle check (Suc k) i')"

definition create_id :: "'w router_env \<Rightarrow> router \<Rightarrow> 'w \<Rightarrow> string option" where
  "create_id env r w = shuffle_until (re_shuffle env w) (id_unused r) 0 (drawn_id env w)"

section \<open>The list of models\<close>

definition model_info :: "model \<Rightarrow> string" where
  "model_info e = ''AT+MDINFO=0,'' @ fst e @ '','' @ snd e"

definition model_item :: "model \<Rightarrow> string" where
  "model_item e = ''(0,'' @ fst e @ '','' @ snd e @ ''),''"

text \<open>\<^verbatim>\<open>erase\<close> at the first element the loop finds.\<close>

fun erase_first :: "('a \<Rightarrow> bool) \<Rightarrow> 'a list \<Rightarrow> 'a list" where
  "erase_first P [] = []"
| "erase_first P (x # xs) = (if P x then xs else x # erase_first P xs)"

text \<open>The three forms of the command: declare a remote model, look one up, list all, add a private one.\<close>

definition declare_remote :: "string \<Rightarrow> string \<Rightarrow> router \<Rightarrow> string \<times> router" where
  "declare_remote name mid r =
     (case find (\<lambda>e. fst e = name \<or> snd e = mid) (rt_cloud r) of
        Some e \<Rightarrow> (model_info e @ '',remote model has existed'', r)
      | None \<Rightarrow> (case find (\<lambda>e. fst e = name \<or> snd e = mid) (rt_private r) of
          Some e \<Rightarrow> (model_info e @ '',private model has existed'', r)
        | None \<Rightarrow> (model_info (name, mid), r\<lparr>rt_cloud := rt_cloud r @ [(name, mid)]\<rparr>)))"

definition info_or_absent :: "model option \<Rightarrow> string" where
  "info_or_absent found = (case found of Some e \<Rightarrow> model_info e | None \<Rightarrow> ''AT+MDINFO=-1,the model is not existed'')"

definition lookup_model :: "string \<Rightarrow> router \<Rightarrow> string" where
  "lookup_model param r =
     (case cut_at ''_'' param of
        None \<Rightarrow> ''AT+ENVAL''
      | Some (judge, temp) \<Rightarrow>
          if judge = ''id'' then info_or_absent (find (\<lambda>e. temp = snd e) (rt_private r))
          else if judge = ''mid'' then info_or_absent (find (\<lambda>e. temp = snd e) (rt_cloud r))
          else if judge = ''name'' then
            info_or_absent (case find (\<lambda>e. temp = fst e) (rt_private r) of
                Some e \<Rightarrow> Some e
              | None \<Rightarrow> find (\<lambda>e. temp = fst e) (rt_cloud r))
          else ''AT+ENVAL'')"

definition add_private :: "'w router_env \<Rightarrow> string \<Rightarrow> string \<Rightarrow> router \<Rightarrow> 'w \<Rightarrow> 'w answer" where
  "add_private env name data r w =
     (case find (\<lambda>e. fst e = name) (rt_private r) of
        Some e \<Rightarrow> answer (model_info e @ '',private model has existed'') r w
      | None \<Rightarrow> (case find (\<lambda>e. fst e = name) (rt_cloud r) of
          Some e \<Rightarrow> answer (model_info e @ '',remote model has existed'') r w
        | None \<Rightarrow> (case create_id env r w of
            None \<Rightarrow> None
          | Some i \<Rightarrow>
              (let path = user_file (rt_user r) i; (opened, w1) = rf_open (re_files env) path w
               in if \<not> opened then answer (''AT+MDINFO=-3,'' @ name @ '','' @ i @ '',unable ot open file'') r w1
                  else answer (model_info (name, i)) (r\<lparr>rt_private := rt_private r @ [(name, i)]\<rparr>)
                    (rf_write (re_files env) path data w1)))))"

definition MDDECL :: "'w command" where
  "MDDECL env msg r w =
     (case am_type msg of
        AT_CMD \<Rightarrow>
          if rt_user r = [] then answer ''AT+MDINFO=-4,the service is not registered'' r w
          else (case am_param msg of
              [name, mid] \<Rightarrow> (let (s, r') = declare_remote name mid r in answer s r' w)
            | [param] \<Rightarrow> answer (lookup_model param r) r w
            | _ \<Rightarrow> answer ''AT+ENVAL'' r w)
      | AT_SEARCH \<Rightarrow>
          if rt_user r = [] then answer ''AT+MDINFO=-4,the service is not registered'' r w
          else answer (''AT+MDINFO='' @ concat (map model_item (rt_private r)) @ concat (map model_item (rt_cloud r))) r w
      | AT_LONG \<Rightarrow>
          (case am_param msg of
             [name] \<Rightarrow> add_private env name (am_data msg) r w
           | _ \<Rightarrow> answer ''AT+ENVAL'' r w)
      | _ \<Rightarrow> answer ''AT+ENVAL'' r w)"

text \<open>
  \<^verbatim>\<open>std::filesystem::remove\<close> gives a \<^verbatim>\<open>bool\<close>, which is never less than 0: the answer -5 is not
  given. A private model erased by its name leaves \<open>id\<close> set to that name.
\<close>

definition remove_model_file :: "'w router_env \<Rightarrow> string \<Rightarrow> router \<Rightarrow> 'w \<Rightarrow> 'w answer" where
  "remove_model_file env i r w =
     throwing (rf_remove (re_files env) (user_file (rt_user r) i) w)
       (\<lambda>(removed, w1). if (if removed then 1 else 0) < (0::int)
          then answer ''AT+MDMOD=-5,the index of model is removed'' r w1 else answer ''AT+MDMOD=0'' r w1)"

definition remove_remote :: "(model \<Rightarrow> bool) \<Rightarrow> router \<Rightarrow> 'w \<Rightarrow> 'w answer" where
  "remove_remote P r w =
     (case find P (rt_cloud r) of
        Some _ \<Rightarrow> answer ''AT+MDMOD=0'' (r\<lparr>rt_cloud := erase_first P (rt_cloud r)\<rparr>) w
      | None \<Rightarrow> answer ''AT+MDMOD=-1,model is not existed'' r w)"

definition MDRM :: "'w command" where
  "MDRM env msg r w =
     (case (am_type msg, am_param msg) of
        (AT_CMD, [param]) \<Rightarrow>
          if rt_user r = [] then answer ''AT+MDMOD=-4,the service is not registered'' r w
          else (case cut_at ''_'' param of
              None \<Rightarrow> answer ''AT+ENVAL'' r w
            | Some (judge, temp) \<Rightarrow>
                if judge = ''mid'' then remove_remote (\<lambda>e. temp = snd e) r w
                else if judge = ''id'' then
                  (let i = (case find (\<lambda>e. temp = snd e) (rt_private r) of Some e \<Rightarrow> snd e | None \<Rightarrow> []);
                       r' = r\<lparr>rt_private := erase_first (\<lambda>e. temp = snd e) (rt_private r)\<rparr>
                   in if i = [] then answer ''AT+MDMOD=-1,model is not existed'' r' w
                      else remove_model_file env i r' w)
                else if judge = ''name'' then
                  (let i = (case find (\<lambda>e. temp = fst e) (rt_private r) of Some e \<Rightarrow> fst e | None \<Rightarrow> []);
                       r' = r\<lparr>rt_private := erase_first (\<lambda>e. temp = fst e) (rt_private r)\<rparr>
                   in if i = [] then remove_remote (\<lambda>e. temp = fst e) r' w
                      else remove_model_file env i r' w)
                else answer ''AT+ENVAL'' r w)
      | _ \<Rightarrow> answer ''AT+ENVAL'' r w)"

section \<open>Case analysis of answers\<close>

lemma answered [simp]: "answer s r w = Some (Inr x) \<longleftrightarrow> x = (s, r, w)"
  by (auto simp: answer_def)

lemma throwing_answered [simp]: "throwing m f = Some (Inr x) \<longleftrightarrow> (\<exists>y. m = Inr y \<and> f y = Some (Inr x))"
  by (cases m) auto

text \<open>The commands of this theory that may change the list of models, or only the world.\<close>

lemma remove_model_file_answered:
  "remove_model_file env i r w = Some (Inr x) \<longleftrightarrow>
     (\<exists>b w1. rf_remove (re_files env) (user_file (rt_user r) i) w = Inr (b, w1) \<and> x = (''AT+MDMOD=0'', r, w1))"
  by (auto simp: remove_model_file_def)

section \<open>No two models of one name or identifier\<close>

definition models_ok :: "router \<Rightarrow> bool" where
  "models_ok r \<longleftrightarrow> distinct (map fst (rt_private r @ rt_cloud r)) \<and> distinct (map snd (rt_private r @ rt_cloud r))"

lemma set_erase_first: "set (erase_first P xs) \<subseteq> set xs"
  by (induction xs) auto

lemma distinct_erase_first: "distinct (map f xs) \<Longrightarrow> distinct (map f (erase_first P xs))"
  using set_erase_first [of P] by (induction xs) force+

lemma find_split: "find P xs = Some e \<Longrightarrow> P e \<and> (\<exists>us vs. xs = us @ e # vs \<and> erase_first P xs = us @ vs)"
proof (induction xs)
  case (Cons x xs)
  then show ?case
    by (cases "P x") (auto intro: exI [of _ "[]"], metis append_Cons)
qed simp

lemma erase_first_absent: "find P xs = None \<Longrightarrow> erase_first P xs = xs"
  by (induction xs) (auto split: if_splits)

lemma distinct_erase_first_append:
  "distinct (map f (xs @ ys)) \<Longrightarrow> distinct (map f (erase_first P xs @ ys))"
  "distinct (map f (xs @ ys)) \<Longrightarrow> distinct (map f (xs @ erase_first P ys))"
  using image_mono [OF set_erase_first [of P xs], of f] image_mono [OF set_erase_first [of P ys], of f]
  by (simp_all add: distinct_erase_first) blast+

lemma models_ok_erase_private: "models_ok r \<Longrightarrow> models_ok (r\<lparr>rt_private := erase_first P (rt_private r)\<rparr>)"
  by (simp add: models_ok_def distinct_erase_first_append(1) del: map_append distinct_append)

lemma models_ok_erase_cloud: "models_ok r \<Longrightarrow> models_ok (r\<lparr>rt_cloud := erase_first P (rt_cloud r)\<rparr>)"
  by (simp add: models_ok_def distinct_erase_first_append(2) del: map_append distinct_append)

lemma models_ok_user [simp]: "models_ok (r\<lparr>rt_user := u\<rparr>) = models_ok r"
  and models_ok_task [simp]: "models_ok (r\<lparr>rt_task := t\<rparr>) = models_ok r"
  by (simp_all add: models_ok_def)

text \<open>A new model may be added when its name and its identifier are free.\<close>

definition model_free :: "router \<Rightarrow> model \<Rightarrow> bool" where
  "model_free r e \<longleftrightarrow> fst e \<notin> fst ` set (rt_private r @ rt_cloud r) \<and> snd e \<notin> snd ` set (rt_private r @ rt_cloud r)"

lemma models_ok_add:
  assumes "models_ok r" "model_free r e"
  shows "models_ok (r\<lparr>rt_private := rt_private r @ [e]\<rparr>)" "models_ok (r\<lparr>rt_cloud := rt_cloud r @ [e]\<rparr>)"
  using assms by (auto simp: models_ok_def model_free_def)

section \<open>Identifiers\<close>

text \<open>
  The loop as a search: the \<open>n\<close>-th shuffle applied to the one before it. It gives the first arrangement
  that is unused.
\<close>

fun shuffled :: "(nat \<Rightarrow> string \<Rightarrow> string) \<Rightarrow> nat \<Rightarrow> string \<Rightarrow> nat \<Rightarrow> string" where
  "shuffled shuffle k i 0 = shuffle k i"
| "shuffled shuffle k i (Suc n) = shuffled shuffle (Suc k) (shuffle k i) n"

lemma shuffle_until_Some:
  "shuffle_until shuffle check k i = Some j \<longleftrightarrow>
     (\<exists>n. j = shuffled shuffle k i n \<and> check j \<and> (\<forall>m<n. \<not> check (shuffled shuffle k i m)))"
proof
  assume "shuffle_until shuffle check k i = Some j"
  then show "\<exists>n. j = shuffled shuffle k i n \<and> check j \<and> (\<forall>m<n. \<not> check (shuffled shuffle k i m))"
  proof (induction rule: shuffle_until.raw_induct [rotated, consumes 1, case_names step])
    case (step rec shuffle check k i j)
    show ?case
    proof (cases "check (shuffle k i)")
      case True
      with step show ?thesis by (auto intro!: exI [of _ 0])
    next
      case False
      with step(2) have "rec shuffle check (Suc k) (shuffle k i) = Some j" by simp
      from step(1) [OF this] obtain n where n: "j = shuffled shuffle (Suc k) (shuffle k i) n" "check j"
        "\<forall>m<n. \<not> check (shuffled shuffle (Suc k) (shuffle k i) m)" by blast
      with False show ?thesis
        by (intro exI [of _ "Suc n"]) (auto simp: less_Suc_eq_0_disj)
    qed
  qed
next
  assume "\<exists>n. j = shuffled shuffle k i n \<and> check j \<and> (\<forall>m<n. \<not> check (shuffled shuffle k i m))"
  then obtain n where "j = shuffled shuffle k i n" "check j" "\<forall>m<n. \<not> check (shuffled shuffle k i m)" by blast
  then show "shuffle_until shuffle check k i = Some j"
  proof (induction n arbitrary: k i)
    case 0
    then show ?case by (simp add: shuffle_until.simps)
  next
    case (Suc n)
    then have "\<not> check (shuffle k i)" by (metis shuffled.simps(1) zero_less_Suc)
    moreover have "shuffle_until shuffle check (Suc k) (shuffle k i) = Some j" using Suc by fastforce
    ultimately show ?case by (subst shuffle_until.simps) simp
  qed
qed

lemma id_unused_iff: "id_unused r i \<longleftrightarrow> i \<notin> snd ` set (rt_private r @ rt_cloud r)"
  by (auto simp: id_unused_def list_all_iff)

lemma create_id_unused: "create_id env r w = Some i \<Longrightarrow> i \<notin> snd ` set (rt_private r @ rt_cloud r)"
  using id_unused_iff [of r i] by (auto simp: create_id_def shuffle_until_Some)

section \<open>What a command may change\<close>

text \<open>
  The specification of a command's effect on the router: it may register or unregister the user, change
  the running task (an idle one has no data and no failure), add a model that is new in both lists,
  remove models, or turn a private model into a remote one.
\<close>

definition idle_clean :: "taskresult \<Rightarrow> bool" where
  "idle_clean t \<longleftrightarrow> (tr_taskid t = 0 \<longrightarrow> tr_status t \<and> tr_data t = [])"

definition task_change :: "taskresult \<Rightarrow> taskresult \<Rightarrow> bool" where
  "task_change t t' \<longleftrightarrow> tr_server t' = tr_server t \<and> (idle_clean t \<longrightarrow> idle_clean t')"

inductive changes :: "router \<Rightarrow> router \<Rightarrow> bool" where
  same: "changes r r"
| user: "changes r (r\<lparr>rt_user := u\<rparr>)"
| task: "task_change (rt_task r) t \<Longrightarrow> changes r (r\<lparr>rt_task := t\<rparr>)"
| add_private: "model_free r e \<Longrightarrow> changes r (r\<lparr>rt_private := rt_private r @ [e]\<rparr>)"
| add_cloud: "model_free r e \<Longrightarrow> changes r (r\<lparr>rt_cloud := rt_cloud r @ [e]\<rparr>)"
| erase: "changes r (r\<lparr>rt_private := erase_first P (rt_private r), rt_cloud := erase_first Q (rt_cloud r)\<rparr>)"
| publish: "find P (rt_private r) = Some e \<Longrightarrow>
    changes r (r\<lparr>rt_private := erase_first P (rt_private r), rt_cloud := rt_cloud r @ [e]\<rparr>)"

lemma erase_first_none [simp]: "erase_first (\<lambda>_. False) xs = xs"
  by (induction xs) auto

lemma changes_erase_private: "changes r (r\<lparr>rt_private := erase_first P (rt_private r)\<rparr>)"
proof -
  have "r\<lparr>rt_private := erase_first P (rt_private r), rt_cloud := erase_first (\<lambda>_. False) (rt_cloud r)\<rparr> =
      r\<lparr>rt_private := erase_first P (rt_private r)\<rparr>" by (cases r) simp
  then show ?thesis by (metis changes.erase)
qed

lemma changes_erase_cloud: "changes r (r\<lparr>rt_cloud := erase_first P (rt_cloud r)\<rparr>)"
proof -
  have "r\<lparr>rt_private := erase_first (\<lambda>_. False) (rt_private r), rt_cloud := erase_first P (rt_cloud r)\<rparr> =
      r\<lparr>rt_cloud := erase_first P (rt_cloud r)\<rparr>" by (cases r) simp
  then show ?thesis by (metis changes.erase)
qed

lemma changes_models_ok: "changes r r' \<Longrightarrow> models_ok r \<Longrightarrow> models_ok r'"
proof (induction rule: changes.induct)
  case (erase r Q P)
  then show ?case
    using models_ok_erase_cloud [OF models_ok_erase_private [OF erase, of P], of Q] by simp
next
  case (publish P r e)
  then obtain us vs where "rt_private r = us @ e # vs" "erase_first P (rt_private r) = us @ vs"
    using find_split by metis
  with publish show ?case by (auto simp: models_ok_def)
qed (simp_all add: models_ok_add)

lemma changes_task: "changes r r' \<Longrightarrow> idle_clean (rt_task r) \<Longrightarrow> idle_clean (rt_task r')"
  by (induction rule: changes.induct) (simp_all add: task_change_def)

lemma changes_config: "changes r r' \<Longrightarrow> rt_flag r' = rt_flag r \<and> rt_management r' = rt_management r \<and>
    tr_server (rt_task r') = tr_server (rt_task r)"
  by (induction rule: changes.induct) (simp_all add: task_change_def)

lemma REG_changes: "REG env msg r w = Some (Inr (s, r', w')) \<Longrightarrow> changes r r'"
  by (auto simp: REG_def intro: changes.intros split: at_type.splits list.splits if_splits)

lemma RTUNREG_changes: "RTUNREG env msg r w = Some (Inr (s, r', w')) \<Longrightarrow> changes r r'"
  by (auto simp: RTUNREG_def intro: changes.intros split: at_type.splits if_splits)

lemma RTBUSY_changes: "RTBUSY env msg r w = Some (Inr (s, r', w')) \<Longrightarrow> changes r r'"
  by (auto simp: RTBUSY_def intro: changes.intros split: at_type.splits if_splits)

lemma declare_remote_changes: "declare_remote name mid r = (s, r') \<Longrightarrow> changes r r'"
  by (auto simp: declare_remote_def find_None_iff model_free_def intro!: changes.same changes.add_cloud
      split: option.splits) blast+

lemma add_private_changes: "add_private env name data r w = Some (Inr (s, r', w')) \<Longrightarrow> changes r r'"
  using create_id_unused [of env r w]
  by (auto simp: add_private_def Let_def find_None_iff model_free_def intro!: changes.same changes.add_private
      split: option.splits if_splits prod.splits)

lemma MDDECL_changes: "MDDECL env msg r w = Some (Inr (s, r', w')) \<Longrightarrow> changes r r'"
  by (auto simp: MDDECL_def intro: changes.same declare_remote_changes add_private_changes
      split: at_type.splits list.splits if_splits prod.splits)

lemma remove_remote_changes: "remove_remote P r w = Some (Inr (s, r', w')) \<Longrightarrow> changes r r'"
  by (auto simp: remove_remote_def intro: changes.same changes_erase_cloud split: option.splits)

lemma erase_private_then_remote:
  assumes "remove_remote P (r\<lparr>rt_private := erase_first Q (rt_private r)\<rparr>) w = Some (Inr (s, r', w'))"
  shows "changes r r'"
proof (cases "find P (rt_cloud r)")
  case None
  then show ?thesis using assms changes_erase_private by (auto simp: remove_remote_def)
next
  case (Some e)
  then show ?thesis using assms changes.erase [where r = r and P = Q and Q = P] by (auto simp: remove_remote_def)
qed

lemma MDRM_changes: "MDRM env msg r w = Some (Inr (s, r', w')) \<Longrightarrow> changes r r'"
  by (auto simp: MDRM_def Let_def remove_model_file_answered intro: changes.same remove_remote_changes
      changes_erase_private erase_private_then_remote
      split: at_type.splits list.splits if_splits prod.splits option.splits)

section \<open>Properties\<close>

definition model_ids :: "router \<Rightarrow> string set" where
  "model_ids r = snd ` set (rt_private r @ rt_cloud r)"

lemma shuffled_mset:
  "(\<And>k s. mset (shuffle k s) = mset s) \<Longrightarrow> mset (shuffled shuffle k i n) = mset i"
  by (induction n arbitrary: k i) simp_all

text \<open>
  C22: the loop of \<^verbatim>\<open>create_id\<close> ends exactly when one of the arrangements the generator yields is not
  the identifier of a model; what it returns is such an arrangement of the four digits and four letters
  drawn before the loop. They are not drawn again: once all their arrangements are taken, the command
  never answers.
\<close>

theorem create_id_terminates:
  assumes "\<And>k s. mset (re_shuffle env w k s) = mset s"
  shows "(create_id env r w = None \<longleftrightarrow> (\<forall>n. shuffled (re_shuffle env w) 0 (drawn_id env w) n \<in> model_ids r)) \<and>
    (\<forall>i. create_id env r w = Some i \<longrightarrow> i \<notin> model_ids r \<and> mset i = mset (drawn_id env w) \<and> length i = 8) \<and>
    ((\<forall>i. mset i = mset (drawn_id env w) \<longrightarrow> i \<in> model_ids r) \<longrightarrow> create_id env r w = None)"
proof -
  let ?a = "shuffled (re_shuffle env w) 0 (drawn_id env w)"
  have perm: "mset (?a n) = mset (drawn_id env w)" for n by (rule shuffled_mset) (rule assms)
  have "create_id env r w \<noteq> None" if new: "?a n \<notin> model_ids r" for n
  proof -
    obtain k where "?a k \<notin> model_ids r" "\<forall>m<k. ?a m \<in> model_ids r"
      using new exists_least_iff [of "\<lambda>n. ?a n \<notin> model_ids r"] by blast
    then have "create_id env r w = Some (?a k)"
      unfolding create_id_def shuffle_until_Some id_unused_iff model_ids_def by blast
    then show ?thesis by simp
  qed
  moreover have some: "i \<notin> model_ids r \<and> (\<exists>n. i = ?a n)" if "create_id env r w = Some i" for i
    using that unfolding create_id_def shuffle_until_Some id_unused_iff model_ids_def by blast
  moreover have "length i = 8" if "mset i = mset (drawn_id env w)" for i
    using mset_eq_length [OF that] by (simp add: drawn_id_def)
  ultimately show ?thesis using perm by (metis option.exhaust)
qed

theorem create_id_terminates_witness:
  "\<exists>i. create_id map_env sample_router Map.empty = Some i \<and> i \<notin> {''p1'', ''c1''} \<and> mset i = mset (drawn_id map_env Map.empty)"
proof -
  have perm: "mset (re_shuffle map_env Map.empty k s) = mset s" for k s by (cases s) (simp_all add: map_env_def)
  note spec = create_id_terminates [OF perm, of sample_router]
  have ids: "model_ids sample_router = {''p1'', ''c1''}" by (simp add: model_ids_def sample_router_def)
  have "length (shuffled (re_shuffle map_env Map.empty) 0 (drawn_id map_env Map.empty) 0) = 8"
    by (simp add: map_env_def drawn_id_def)
  then have "shuffled (re_shuffle map_env Map.empty) 0 (drawn_id map_env Map.empty) 0 \<notin> model_ids sample_router"
    by (auto simp: ids)
  with spec obtain i where "create_id map_env sample_router Map.empty = Some i" by fastforce
  with spec ids show ?thesis by blast
qed

lemma find_unique:
  assumes "distinct (map f xs)" "e \<in> set xs"
  shows "find (\<lambda>x. f e = f x) xs = Some e" "erase_first (\<lambda>x. f e = f x) xs = filter (\<lambda>x. x \<noteq> e) xs"
proof -
  have "find (\<lambda>x. f e = f x) xs = Some e \<and> erase_first (\<lambda>x. f e = f x) xs = filter (\<lambda>x. x \<noteq> e) xs"
    using assms
  proof (induction xs)
    case (Cons a xs)
    show ?case
    proof (cases "a = e")
      case True
      with Cons.prems(1) have "e \<notin> set xs" by auto
      then have "filter (\<lambda>x. x \<noteq> e) xs = xs" by (auto simp: filter_id_conv)
      with True show ?thesis by simp
    next
      case False
      with Cons.prems have "e \<in> set xs" by simp
      moreover from this Cons.prems(1) have "f e \<noteq> f a" by (auto simp: image_iff)
      ultimately have "f e \<noteq> f a" "e \<in> set xs" by auto
      with False Cons show ?thesis by simp
    qed
  qed simp
  then show "find (\<lambda>x. f e = f x) xs = Some e" "erase_first (\<lambda>x. f e = f x) xs = filter (\<lambda>x. x \<noteq> e) xs" by auto
qed

lemma models_ok_distinct: "models_ok r \<Longrightarrow> distinct (map fst (rt_private r)) \<and> distinct (map snd (rt_private r))"
  by (simp add: models_ok_def)

lemma user_file_eq:
  "CHR 0x00 \<notin> set (u @ s @ t) \<Longrightarrow> user_file u s = user_file u t \<longleftrightarrow> s = t"
  by (simp add: user_file_def c_str_id)

definition rm_command :: "string \<Rightarrow> string \<Rightarrow> atmessage" where
  "rm_command judge x = \<lparr>am_type = AT_CMD, am_cmd = ''MDRM'', am_param = [judge @ ''_'' @ x], am_data = []\<rparr>"

text \<open>
  a private model can be removed by its identifier or by its name. Both answer 0 and take it
  off the list, and neither touches the rest of the list. By identifier its file goes too; by name the
  command removes the file called like the model, and the model's own file stays.
\<close>

theorem remove_by_name_keeps_file:
  assumes law: "\<And>p w. \<exists>b w'. rf_remove (re_files env) p w = Inr (b, w') \<and> content w' = (content w)(p := None)"
    and r: "models_ok r" "rt_user r \<noteq> []" "(n, i) \<in> set (rt_private r)"
    and names: "n \<noteq> []" "i \<noteq> []" "n \<noteq> i" "CHR 0x00 \<notin> set (rt_user r @ n @ i)"
  shows "\<exists>w1 w2.
    MDRM env (rm_command ''id'' i) r w =
      answer ''AT+MDMOD=0'' (r\<lparr>rt_private := filter (\<lambda>e. e \<noteq> (n, i)) (rt_private r)\<rparr>) w1 \<and>
    content w1 (user_file (rt_user r) i) = None \<and>
    MDRM env (rm_command ''name'' n) r w =
      answer ''AT+MDMOD=0'' (r\<lparr>rt_private := filter (\<lambda>e. e \<noteq> (n, i)) (rt_private r)\<rparr>) w2 \<and>
    content w2 (user_file (rt_user r) i) = content w (user_file (rt_user r) i)"
proof -
  let ?f = "\<lambda>x. user_file (rt_user r) x"
  obtain b1 w1 where w1: "rf_remove (re_files env) (?f i) w = Inr (b1, w1)" "content w1 = (content w)(?f i := None)"
    using law by blast
  obtain b2 w2 where w2: "rf_remove (re_files env) (?f n) w = Inr (b2, w2)" "content w2 = (content w)(?f n := None)"
    using law by blast
  have cut: "cut_at ''_'' (''id_'' @ i) = Some (''id'', i)" "cut_at ''_'' (''name_'' @ n) = Some (''name'', n)"
    using cut_at_append [of "''id''" "''_''" "CHR ''_''" i] cut_at_append [of "''name''" "''_''" "CHR ''_''" n] by simp_all
  have found: "find (\<lambda>e. i = snd e) (rt_private r) = Some (n, i)" "find (\<lambda>e. n = fst e) (rt_private r) = Some (n, i)"
    and gone: "erase_first (\<lambda>e. i = snd e) (rt_private r) = filter (\<lambda>e. e \<noteq> (n, i)) (rt_private r)"
    "erase_first (\<lambda>e. n = fst e) (rt_private r) = filter (\<lambda>e. e \<noteq> (n, i)) (rt_private r)"
    using find_unique [of snd "rt_private r" "(n, i)"] find_unique [of fst "rt_private r" "(n, i)"] r(3)
      models_ok_distinct [OF r(1)] by simp_all
  have "?f n \<noteq> ?f i" using user_file_eq [of "rt_user r" n i] names by simp
  with w1 w2 cut found gone r(2) names show ?thesis
    by (simp add: MDRM_def rm_command_def remove_model_file_def)
qed

theorem remove_by_name_keeps_file_witness:
  "\<exists>w2. MDRM map_env (rm_command ''name'' ''cat'') sample_router [user_file ''u'' ''p1'' \<mapsto> ''code''] =
     answer ''AT+MDMOD=0'' (sample_router\<lparr>rt_private := []\<rparr>) w2 \<and> w2 (user_file ''u'' ''p1'') = Some ''code''"
proof -
  have law: "\<exists>b w'. rf_remove (re_files map_env) p w = Inr (b, w') \<and> id w' = (id w)(p := None)" for p w
    by (simp add: map_env_def map_router_files_def)
  have "models_ok sample_router" "rt_user sample_router \<noteq> []" "(''cat'', ''p1'') \<in> set (rt_private sample_router)"
    by (simp_all add: models_ok_def sample_router_def)
  from remove_by_name_keeps_file [OF law this, of "[user_file ''u'' ''p1'' \<mapsto> ''code'']"]
  show ?thesis by (auto simp: sample_router_def)
qed

end
