(* ===== verification/Router_Tasks.thy ===== *)
theory Router_Tasks
  imports Router_Models
begin

text \<open>
  The commands that run a task on a model: \<^verbatim>\<open>CPSTART\<close>, \<^verbatim>\<open>CPMOD\<close>, \<^verbatim>\<open>CPRDY\<close> and \<^verbatim>\<open>CPVAL\<close> of
  \<^verbatim>\<open>router/lib/cmd.cc\<close>, over the client of the management unit.
\<close>

section \<open>Starting a task\<close>

text \<open>
  The engine of a model: a remote one is named, a private one is read from its file. The flag is
  False when there is no such model, or its file cannot be opened; \<open>None\<close> is a parameter of another form.
\<close>

definition read_model :: "'w router_env \<Rightarrow> router \<Rightarrow> model option \<Rightarrow> 'w \<Rightarrow> engine \<times> bool" where
  "read_model env r found w =
     (case found of
        None \<Rightarrow> (Engine_new, False)
      | Some e \<Rightarrow> (case rf_load (re_files env) (user_file (rt_user r) (snd e)) w of
          None \<Rightarrow> (Engine_new, False)
        | Some binary \<Rightarrow> (Engine binary [] [] [] [], True)))"

definition named_engine :: "model \<Rightarrow> engine" where
  "named_engine e = Engine [] (snd e) (fst e) [] []"

definition select_engine :: "'w router_env \<Rightarrow> router \<Rightarrow> string \<Rightarrow> string \<Rightarrow> 'w \<Rightarrow> (engine \<times> bool) option" where
  "select_engine env r judge temp w =
     (if judge = ''mid'' then
        Some (case find (\<lambda>e. snd e = temp) (rt_cloud r) of Some e \<Rightarrow> (named_engine e, True) | None \<Rightarrow> (Engine_new, False))
      else if judge = ''id'' then Some (read_model env r (find (\<lambda>e. snd e = temp) (rt_private r)) w)
      else if judge = ''name'' then
        Some (case find (\<lambda>e. fst e = temp) (rt_cloud r) of
            Some e \<Rightarrow> (named_engine e, True)
          | None \<Rightarrow> read_model env r (find (\<lambda>e. fst e = temp) (rt_private r)) w)
      else None)"

definition cp_attr :: attr where
  "cp_attr = \<lparr>at_trigger = trigger_code Trigger_create, at_period = None, at_deps = [], at_virtstorage = False\<rparr>"

definition cp_datasource :: "atmessage \<Rightarrow> datasource" where
  "cp_datasource msg =
     \<lparr>ds_src = (if am_type msg = AT_CMD then \<lparr>src_input = am_param msg ! 1, src_type = ''endpoint''\<rparr>
                else \<lparr>src_input = am_data msg, src_type = ''data''\<rparr>),
      ds_dest = \<lparr>dest_output = ''http://localhost:2222'', dest_directorypolicy = 1, dest_emptypolicy = 0\<rparr>\<rparr>"

definition result_text :: "string \<Rightarrow> string" where
  "result_text data = ''AT+CPRES=0,data'' @ [CHR 0x0D, CHR 0x0A] @ data @ ''<<<'' @ [CHR 0x0D, CHR 0x0A]"

definition cp_wait :: "string list \<Rightarrow> router \<Rightarrow> 'w \<Rightarrow> 'w answer" where
  "cp_wait bodies r w =
     (case Taskresult_wait bodies (rt_task r) of
        None \<Rightarrow> None
      | Some t \<Rightarrow>
          if tr_status t then answer (result_text (tr_data t)) (r\<lparr>rt_task := Taskresult_remove t\<rparr>) w
          else answer ''AT+CPRES=-8,unable to get result'' (r\<lparr>rt_task := Taskresult_remove t\<rparr>) w)"

text \<open>The command once it has a task number; \<open>taskid\<close> is set before the deployment.\<close>

definition cp_deploy :: "'w router_env \<Rightarrow> atmessage \<Rightarrow> u64 \<Rightarrow> router \<Rightarrow> 'w \<Rightarrow> 'w answer" where
  "cp_deploy env msg taskid r w =
     (let r1 = r\<lparr>rt_task := foldl (\<lambda>t b. result_process b t) (Taskresult_set taskid (rt_task r)) (re_deploying env w)\<rparr> in
      case create_deploy_task (re_net env) (rt_management r) (re_request env) (re_attr env) taskid (cp_datasource msg)
             cp_attr 5 w of
        None \<Rightarrow> None
      | Some m \<Rightarrow> throwing m (\<lambda>(result, w1).
          if result = -1 then
            (let (_, w2) = create_terminate_task (re_net env) (rt_management r) (re_request env) taskid w1
             in answer ''AT+CPRES=-7,cannot deploy task'' r1 w2)
          else if length (am_param msg) = 2 then cp_wait (re_waiting env w1) r1 w1
          else answer (''AT+CPRES=0,'' @ to_string (unat taskid)) r1 w1))"

definition cp_negotiate :: "'w router_env \<Rightarrow> atmessage \<Rightarrow> engine \<Rightarrow> router \<Rightarrow> 'w \<Rightarrow> 'w answer" where
  "cp_negotiate env msg engine r w =
     (case create_neogiate_task (re_net env) (rt_management r) (re_request env) 1 engine w of
        None \<Rightarrow> None
      | Some m \<Rightarrow> throwing m (\<lambda>(taskid, w1).
          if taskid = 0 then answer ''AT+CPRES=-7,cannot get taskid'' r w1 else cp_deploy env msg taskid r w1))"

definition CPSTART :: "'w command" where
  "CPSTART env msg r w =
     (if length (am_param msg) < 2 \<or> length (am_param msg) > 3 \<or> (am_type msg \<noteq> AT_CMD \<and> am_type msg \<noteq> AT_LONG)
      then answer ''AT+ENVAL'' r w
      else if length (am_param msg) = 3 \<and> am_param msg ! 2 \<noteq> ''nonblock'' then answer ''AT+ENVAL'' r w
      else if rt_user r = [] then answer ''AT+CPRES=-4,the service is not registered'' r w
      else if tr_taskid (rt_task r) \<noteq> 0 then
        answer (''AT+CPRES=-9,'' @ to_string (unat (tr_taskid (rt_task r))) @ ''the task is running'') r w
      else (case cut_at ''_'' (am_param msg ! 0) of
          None \<Rightarrow> answer ''AT+ENVAL'' r w
        | Some (judge, temp) \<Rightarrow>
            (case select_engine env r judge temp w of
               None \<Rightarrow> answer ''AT+ENVAL'' r w
             | Some (engine, result) \<Rightarrow>
                 if \<not> result then answer ''AT+CPRES=-1,the model is not existed'' r w
                 else cp_negotiate env msg engine r w)))"

section \<open>Cancelling and asking\<close>

definition CPMOD :: "'w command" where
  "CPMOD env msg r w =
     (if am_param msg \<noteq> [] then answer ''AT+ENVAL'' r w
      else (case am_type msg of
          AT_CMD \<Rightarrow>
            if tr_taskid (rt_task r) \<noteq> 0 then
              (let (_, w1) = create_terminate_task (re_net env) (rt_management r) (re_request env) (tr_taskid (rt_task r)) w
               in answer ''AT+CPSTA=cancel=true'' (r\<lparr>rt_task := Taskresult_remove (rt_task r)\<rparr>) w1)
            else answer ''AT+CPSTA=cancel=true'' r w
        | AT_TEST \<Rightarrow>
            if tr_taskid (rt_task r) \<noteq> 0 then answer ''AT+CPSTA=cancel=false'' r w
            else answer ''AT+CPSTA=cancel=true'' r w
        | _ \<Rightarrow> answer ''AT+ENVAL'' r w))"

definition CPRDY :: "'w command" where
  "CPRDY env msg r w =
     (case am_type msg of
        AT_TEST \<Rightarrow>
          if am_param msg \<noteq> [] then answer ''AT+ENVAL'' r w
          else if tr_taskid (rt_task r) \<noteq> 0 then answer ''AT+BUSY'' r w
          else answer ''AT+READY'' r w
      | _ \<Rightarrow> answer ''AT+ENVAL'' r w)"

text \<open>
  The seconds and microseconds of a \<^verbatim>\<open>CPVAL\<close> are \<^verbatim>\<open>int\<close>s put into 64-bit variables; the timer takes
  an \<^verbatim>\<open>unsigned int\<close> of microseconds.
\<close>

definition cpval_delay :: "u64 \<Rightarrow> u64 \<Rightarrow> u32" where
  "cpval_delay sec microsec = ucast (sec * 1000000 + microsec)"

definition cpval_times :: "string list \<Rightarrow> (u64 \<times> u64) option cxx" where
  "cpval_times ps =
     (case ps of
        [] \<Rightarrow> Inr (Some (0, 0))
      | [s] \<Rightarrow> cxx_bind (stoi s) (\<lambda>a. Inr (Some (word_of_int a, 0)))
      | [s, m] \<Rightarrow> cxx_bind (stoi s) (\<lambda>a. cxx_bind (stoi m) (\<lambda>b. Inr (Some (word_of_int a, word_of_int b))))
      | _ \<Rightarrow> Inr None)"

definition cpval_check :: "router \<Rightarrow> string \<times> router" where
  "cpval_check r =
     (let t = rt_task r in
      if tr_taskid t = 0 then (''AT+CPRES=-7,the task is canceled'', r)
      else if \<not> tr_status t then (''AT+CPRES=-8,cannot get result'', r\<lparr>rt_task := Taskresult_remove t\<rparr>)
      else if tr_data t = [] then (''AT+CPRES=-9,the task is running'', r)
      else (result_text (tr_data t), r\<lparr>rt_task := Taskresult_remove t\<rparr>))"

definition cpval_sleep :: "'w router_env \<Rightarrow> u64 \<times> u64 \<Rightarrow> router \<Rightarrow> 'w \<Rightarrow> 'w answer" where
  "cpval_sleep env t r w =
     (let bodies = re_sleeping env (cpval_delay (fst t) (snd t)) w;
          r1 = r\<lparr>rt_task := foldl (\<lambda>v b. result_process b v) (rt_task r) bodies\<rparr>;
          (s, r2) = cpval_check r1
      in answer s r2 w)"

definition CPVAL :: "'w command" where
  "CPVAL env msg r w =
     (case am_type msg of
        AT_CMD \<Rightarrow> throwing (cpval_times (am_param msg))
          (\<lambda>ts. case ts of None \<Rightarrow> answer ''AT+ENVAL'' r w | Some t \<Rightarrow> cpval_sleep env t r w)
      | AT_TEST \<Rightarrow> if am_param msg \<noteq> [] then answer ''AT+ENVAL'' r w else cpval_sleep env (0, 0) r w
      | _ \<Rightarrow> answer ''AT+ENVAL'' r w)"

section \<open>What the commands change\<close>

lemma task_change_process: "task_change t t' \<Longrightarrow> task_change t (result_process b t')"
  by (simp add: task_change_def result_process_def idle_clean_def)

lemma task_change_processes: "task_change t t' \<Longrightarrow> task_change t (foldl (\<lambda>t b. result_process b t) t' bs)"
  by (induction bs arbitrary: t') (auto intro: task_change_process)

lemma task_change_wait: "Taskresult_wait bs t' = Some t'' \<Longrightarrow> task_change t t' \<Longrightarrow> task_change t t''"
proof (induction bs t' rule: Taskresult_wait.induct)
  case (1 bs t')
  then show ?case
    by (simp add: Taskresult_wait.simps [of bs t'] task_change_process split: if_splits list.splits)
qed

lemma task_change_simps [simp]:
  "task_change t t" "taskid \<noteq> 0 \<Longrightarrow> task_change t (Taskresult_set taskid t)"
  "task_change t t' \<Longrightarrow> task_change t (Taskresult_remove t')"
  by (simp_all add: task_change_def idle_clean_def Taskresult_set_def Taskresult_remove_def)

lemma cp_wait_changes:
  assumes "cp_wait bs (r\<lparr>rt_task := t\<rparr>) w = Some (Inr (s, r', w'))" and "task_change (rt_task r) t"
  shows "changes r r'"
  using assms task_change_wait [OF _ assms(2)]
  by (auto simp: cp_wait_def intro!: changes.task split: option.splits if_splits)

lemma cp_deploy_changes:
  assumes "cp_deploy env msg taskid r w = Some (Inr (s, r', w'))" and "taskid \<noteq> 0"
  shows "changes r r'"
  using assms task_change_processes [of "rt_task r" "Taskresult_set taskid (rt_task r)" "re_deploying env w"]
  by (auto simp: cp_deploy_def Let_def intro: changes.task cp_wait_changes split: option.splits if_splits prod.splits)

lemma CPSTART_changes: "CPSTART env msg r w = Some (Inr (s, r', w')) \<Longrightarrow> changes r r'"
  by (auto simp: CPSTART_def cp_negotiate_def intro: changes.same cp_deploy_changes
      split: option.splits if_splits prod.splits)

lemma CPMOD_changes: "CPMOD env msg r w = Some (Inr (s, r', w')) \<Longrightarrow> changes r r'"
  by (auto simp: CPMOD_def intro!: changes.same changes.task split: at_type.splits if_splits prod.splits)

lemma CPRDY_changes: "CPRDY env msg r w = Some (Inr (s, r', w')) \<Longrightarrow> changes r r'"
  by (auto simp: CPRDY_def intro: changes.same split: at_type.splits if_splits)

lemma cpval_sleep_changes: "cpval_sleep env t r w = Some (Inr (s, r', w')) \<Longrightarrow> changes r r'"
  using task_change_processes [of "rt_task r" "rt_task r" "re_sleeping env (cpval_delay (fst t) (snd t)) w"]
  by (auto simp: cpval_sleep_def cpval_check_def Let_def intro!: changes.task split: if_splits)

lemma CPVAL_changes: "CPVAL env msg r w = Some (Inr (s, r', w')) \<Longrightarrow> changes r r'"
  by (auto simp: CPVAL_def intro: changes.same cpval_sleep_changes split: at_type.splits if_splits option.splits)

section \<open>Properties\<close>

lemma task_id_process [simp]: "tr_taskid (foldl (\<lambda>t b. result_process b t) t bs) = tr_taskid t"
  by (induction bs arbitrary: t) (simp_all add: result_process_def)

definition starts_task :: "atmessage \<Rightarrow> bool" where
  "starts_task msg \<longleftrightarrow> am_type msg \<in> {AT_CMD, AT_LONG} \<and>
     (length (am_param msg) = 2 \<or> length (am_param msg) = 3 \<and> am_param msg ! 2 = ''nonblock'')"

definition plain_message :: "string \<Rightarrow> at_type \<Rightarrow> atmessage" where
  "plain_message cmd t = \<lparr>am_type = t, am_cmd = cmd, am_param = [], am_data = []\<rparr>"

lemma not_cannot_deploy [simp]:
  "answer (result_text s) r w \<noteq> answer ''AT+CPRES=-7,cannot deploy task'' r' w'"
  "''AT+CPRES=-7,cannot deploy task'' \<noteq> result_text s"
  "''AT+CPRES=-7,cannot deploy task'' \<noteq> CHR ''A'' # CHR ''T'' # CHR ''+'' # CHR ''C'' # CHR ''P'' # CHR ''R'' # CHR ''E'' # CHR ''S'' # CHR ''='' # CHR ''0'' # s"
  by (simp_all add: result_text_def)

lemma cp_deploy_refused:
  assumes "cp_deploy env msg taskid r w = Some (Inr (''AT+CPRES=-7,cannot deploy task'', r1, w1))"
  shows "r1 = r\<lparr>rt_task := foldl (\<lambda>t b. result_process b t) (Taskresult_set taskid (rt_task r)) (re_deploying env w)\<rparr>"
  using assms by (auto simp: cp_deploy_def cp_wait_def Let_def split: option.splits if_splits prod.splits)

lemma CPSTART_refused:
  assumes "CPSTART env msg r w = Some (Inr (''AT+CPRES=-7,cannot deploy task'', r1, w1))"
  obtains taskid w0 where "taskid \<noteq> 0" "rt_user r \<noteq> []"
    "r1 = r\<lparr>rt_task := foldl (\<lambda>t b. result_process b t) (Taskresult_set taskid (rt_task r)) (re_deploying env w0)\<rparr>"
  using assms
  by (auto simp: CPSTART_def cp_negotiate_def dest!: cp_deploy_refused split: option.splits if_splits prod.splits)

text \<open>
  when a task cannot be deployed, the router terminates it and says so, and stays busy with it: every
  further start is refused as if a task were running, and a query says busy, until the task is cancelled,
  which terminates it a second time.
\<close>

theorem failed_start_blocks_router:
  assumes "CPSTART env msg r w = Some (Inr (''AT+CPRES=-7,cannot deploy task'', r1, w1))"
  shows "(\<forall>msg' w'. starts_task msg' \<longrightarrow> CPSTART env msg' r1 w' =
      answer (''AT+CPRES=-9,'' @ to_string (unat (tr_taskid (rt_task r1))) @ ''the task is running'') r1 w') \<and>
    (\<forall>w'. CPRDY env (plain_message ''CPRDY'' AT_TEST) r1 w' = answer ''AT+BUSY'' r1 w') \<and>
    (\<forall>w'. CPMOD env (plain_message ''CPMOD'' AT_CMD) r1 w' =
      answer ''AT+CPSTA=cancel=true'' (r1\<lparr>rt_task := Taskresult_remove (rt_task r1)\<rparr>)
        (snd (create_terminate_task (re_net env) (rt_management r1) (re_request env) (tr_taskid (rt_task r1)) w')))"
proof -
  obtain taskid w0 where "taskid \<noteq> 0" "rt_user r \<noteq> []"
    and "r1 = r\<lparr>rt_task := foldl (\<lambda>t b. result_process b t) (Taskresult_set taskid (rt_task r)) (re_deploying env w0)\<rparr>"
    using CPSTART_refused [OF assms] .
  then have busy: "tr_taskid (rt_task r1) \<noteq> 0" "rt_user r1 \<noteq> []" by (simp_all add: Taskresult_set_def)
  then have "CPSTART env msg' r1 w' =
      answer (''AT+CPRES=-9,'' @ to_string (unat (tr_taskid (rt_task r1))) @ ''the task is running'') r1 w'"
    if "starts_task msg'" for msg' w'
    using that by (auto simp: CPSTART_def starts_task_def)
  moreover have "CPRDY env (plain_message ''CPRDY'' AT_TEST) r1 w' = answer ''AT+BUSY'' r1 w'" for w'
    using busy by (simp add: CPRDY_def plain_message_def)
  moreover have "CPMOD env (plain_message ''CPMOD'' AT_CMD) r1 w' =
      answer ''AT+CPSTA=cancel=true'' (r1\<lparr>rt_task := Taskresult_remove (rt_task r1)\<rparr>)
        (snd (create_terminate_task (re_net env) (rt_management r1) (re_request env) (tr_taskid (rt_task r1)) w'))" for w'
    using busy by (simp add: CPMOD_def plain_message_def split_beta)
  ultimately show ?thesis by blast
qed

text \<open>
  The blocking form, once the task is deployed: it waits for the first result the computing unit posts.
\<close>

definition cp_outcome :: "string list \<Rightarrow> router \<Rightarrow> 'w \<Rightarrow> 'w answer" where
  "cp_outcome bodies r w =
     (case bodies of
        [] \<Rightarrow> None
      | b # _ \<Rightarrow> answer (if b = [] then ''AT+CPRES=-8,unable to get result'' else result_text b)
          (r\<lparr>rt_task := Taskresult_remove (rt_task r)\<rparr>) w)"

lemma cp_wait_outcome:
  assumes "taskid \<noteq> 0"
  shows "cp_wait bodies (r\<lparr>rt_task := Taskresult_set taskid (rt_task r)\<rparr>) w = cp_outcome bodies r w"
proof (cases bodies)
  case Nil
  with assms show ?thesis
    by (simp add: cp_wait_def cp_outcome_def Taskresult_wait.simps [of "[]"] result_ready_def Taskresult_set_def)
next
  case (Cons b bs)
  let ?t = "Taskresult_set taskid (rt_task r)"
  have "\<not> result_ready ?t" "result_ready (result_process b ?t)"
    using assms by (auto simp: result_ready_def result_process_def Taskresult_set_def)
  then have "Taskresult_wait bodies ?t = Some (result_process b ?t)"
    by (simp add: Cons Taskresult_wait.simps [of "b # bs"] Taskresult_wait.simps [of bs "result_process b ?t"])
  then show ?thesis
    using assms by (auto simp: Cons cp_wait_def cp_outcome_def result_process_def Taskresult_set_def Taskresult_remove_def)
qed

lemma CPSTART_selected:
  assumes "starts_task msg" and "rt_user r \<noteq> []" and "tr_taskid (rt_task r) = 0"
    and "cut_at ''_'' (am_param msg ! 0) = Some (judge, x)" and "select_engine env r judge x w = Some (e, True)"
  shows "CPSTART env msg r w = cp_negotiate env msg e r w"
  using assms by (auto simp: CPSTART_def starts_task_def)

text \<open>
  C21: a start that gets a task number and whose deployment gives a status other than -1, with no result
  posted before the deployment returns. Without blocking it answers the number and the router is busy with it.
  Blocking, it answers with the first body posted, or a failure when that body is empty, and the router is idle
  again as it was; as long as nothing is posted it does not answer.
\<close>

theorem start_outcome:
  assumes msg: "starts_task msg" "cut_at ''_'' (am_param msg ! 0) = Some (judge, x)"
    and r: "rt_user r \<noteq> []" "tr_taskid (rt_task r) = 0"
    and e: "select_engine env r judge x w = Some (e, True)"
    and number: "create_neogiate_task (re_net env) (rt_management r) (re_request env) 1 e w = Some (Inr (taskid, w1))" "taskid \<noteq> 0"
    and deployed: "create_deploy_task (re_net env) (rt_management r) (re_request env) (re_attr env) taskid
      (cp_datasource msg) cp_attr 5 w1 = Some (Inr (status, w2))" "status \<noteq> -1"
    and quiet: "re_deploying env w1 = []"
  shows "CPSTART env msg r w =
    (if length (am_param msg) = 2 then cp_outcome (re_waiting env w2) r w2
     else answer (''AT+CPRES=0,'' @ to_string (unat taskid)) (r\<lparr>rt_task := Taskresult_set taskid (rt_task r)\<rparr>) w2)"
  using CPSTART_selected [OF msg(1) r msg(2) e] number deployed quiet
  by (simp add: cp_negotiate_def cp_deploy_def Let_def cp_wait_outcome [OF number(2)])

text \<open>Witnesses: units that give the number 1 and deploy or refuse every task.\<close>

definition units :: "bool \<Rightarrow> file_map exchange" where
  "units accept t w =
     (if rq_msg (ct_req t) = msg_code Msg_neogiate then
        (Some ((Response_new 0 2 1 1)\<lparr>rs_neogiate := Some \<lparr>ng_status = neogiate_code Neo_succeed, ng_errstr = [], ng_alternative = []\<rparr>\<rparr>), w)
      else if accept then
        (Some ((Response_new 1 2 2 1)\<lparr>rs_deploy := Some \<lparr>dp_status = deploy_code Dep_succeed, dp_errstr = [], dp_taskstatus = 1\<rparr>\<rparr>), w)
      else (None, w))"

definition start_message :: "string list \<Rightarrow> atmessage" where
  "start_message ps = \<lparr>am_type = AT_CMD, am_cmd = ''CPSTART'', am_param = ''mid_c1'' # ''rtsp'' # ps, am_data = []\<rparr>"

abbreviation units_env :: "bool \<Rightarrow> file_map router_env" where
  "units_env accept \<equiv> map_env\<lparr>re_net := units accept, re_waiting := \<lambda>_. [''42'']\<rparr>"

lemma units_number:
  "create_neogiate_task (units accept) ctx (Request_new 0 0 0 0) 1 e w = Some (Inr (1, w))"
proof -
  have "rq_engine (Request_new 0 0 0 0) = None" by (simp add: Request_new_def)
  from neogiate_request_eq [OF this] show ?thesis
    by (simp add: create_neogiate_task_def units_def create_client_task_def neogiate_callback_def for_management_def
        Response_new_def)
qed

lemma units_deploy:
  "create_deploy_task (units accept) ctx (Request_new 0 0 0 0) g 1 (cp_datasource msg) cp_attr 5 w =
     Some (Inr (if accept then 1 else -1, w))"
proof -
  have "rq_attr (Request_new 0 0 0 0) = None" "deployable (cp_datasource msg) cp_attr"
    by (simp_all add: Request_new_def deployable_def cp_datasource_def cp_attr_def)
  from deploy_request_eq [OF this] show ?thesis
    by (simp add: create_deploy_task_def create_deploy_task_via_def units_def create_client_task_def deploy_callback_def
        for_management_def Response_new_def)
qed

lemma start_message_facts:
  "starts_task (start_message [])" "starts_task (start_message [''nonblock''])"
  "cut_at ''_'' (am_param (start_message ps) ! 0) = Some (''mid'', ''c1'')"
  "select_engine env sample_router ''mid'' ''c1'' w = Some (named_engine (''dog'', ''c1''), True)"
  "rt_user sample_router \<noteq> []" "tr_taskid (rt_task sample_router) = 0"
  by (simp_all add: starts_task_def start_message_def cut_at_def select_engine_def sample_router_def Taskresult_new_def)

theorem start_outcome_witness:
  "CPSTART (units_env True) (start_message []) sample_router Map.empty =
     answer (result_text ''42'') (sample_router\<lparr>rt_task := Taskresult_remove Taskresult_new\<rparr>) Map.empty"
proof -
  let ?env = "units_env True"
  have n: "create_neogiate_task (re_net ?env) (rt_management sample_router) (re_request ?env) 1 (named_engine (''dog'', ''c1''))
      Map.empty = Some (Inr (1, Map.empty))"
    by (simp add: map_env_def units_number)
  have d: "create_deploy_task (re_net ?env) (rt_management sample_router) (re_request ?env) (re_attr ?env) 1
      (cp_datasource (start_message [])) cp_attr 5 Map.empty = Some (Inr (1, Map.empty))"
    by (simp add: map_env_def units_deploy)
  from start_outcome [OF start_message_facts(1,3,5,6) start_message_facts(4) n _ d] show ?thesis
    by (simp add: map_env_def start_message_def cp_outcome_def sample_router_def)
qed

theorem failed_start_blocks_router_witness:
  "\<exists>r1. CPSTART (units_env False) (start_message [''nonblock'']) sample_router Map.empty =
       answer ''AT+CPRES=-7,cannot deploy task'' r1 Map.empty \<and>
     CPRDY (units_env False) (plain_message ''CPRDY'' AT_TEST) r1 Map.empty = answer ''AT+BUSY'' r1 Map.empty"
proof -
  let ?env = "units_env False"
  have t: "create_terminate_task (units False) ctx (Request_new 0 0 0 0) 1 w = (0, w)" for ctx w
    by (simp add: create_terminate_task_def units_def create_client_task_def terminate_storage_request_def
        terminate_cluster_request_def Request_setter_defs Let_def)
  let ?r1 = "sample_router\<lparr>rt_task := Taskresult_set 1 (rt_task sample_router)\<rparr>"
  have s: "CPSTART ?env (start_message [''nonblock'']) sample_router Map.empty =
      answer ''AT+CPRES=-7,cannot deploy task'' ?r1 Map.empty"
    unfolding CPSTART_selected [OF start_message_facts(2,5,6) start_message_facts(3,4)]
    by (simp add: cp_negotiate_def cp_deploy_def units_number units_deploy t map_env_def)
  from failed_start_blocks_router [OF s [unfolded answer_def]] s show ?thesis by blast
qed

lemma cpval_delay_eq: "cpval_delay (word_of_int a) (word_of_int b) = word_of_int ((a * 1000000 + b) mod 2 ^ 32)"
proof -
  have eq: "word_of_int a * 1000000 + word_of_int b = (word_of_int (a * 1000000 + b) :: u64)" by simp
  show ?thesis unfolding cpval_delay_def eq
    by (simp add: word_uint_eq_iff unsigned_ucast_eq uint_word_of_int take_bit_eq_mod mod_mod_cancel
        del: of_int_add of_int_mult)
qed

text \<open>
  a query with two parameters reads them as \<^verbatim>\<open>int\<close>s, and a parameter that is no number, or too large for
  one, ends the router by an exception. Otherwise it lets the given time pass, in microseconds modulo 2^32
  (4295 seconds are 32704 microseconds, and negative times are long ones), and then answers by the state of the task.
\<close>

theorem cpval_waits:
  "CPVAL env \<lparr>am_type = AT_CMD, am_cmd = c, am_param = [s, m], am_data = dat\<rparr> r w =
     (case stoi s of
        Inl err \<Rightarrow> Some (Inl err)
      | Inr a \<Rightarrow> (case stoi m of
          Inl err \<Rightarrow> Some (Inl err)
        | Inr b \<Rightarrow>
            (let bodies = re_sleeping env (word_of_int ((a * 1000000 + b) mod 2 ^ 32)) w;
                 (text, r') = cpval_check (r\<lparr>rt_task := foldl (\<lambda>t b. result_process b t) (rt_task r) bodies\<rparr>)
             in answer text r' w)))"
  by (simp add: CPVAL_def cpval_times_def cpval_sleep_def cpval_delay_eq Let_def split: sum.split)

end
