(* ===== verification/Router_Push.thy ===== *)
theory Router_Push
  imports Router_Models
begin

text \<open>
  The command \<^verbatim>\<open>MDPUSH\<close> of \<^verbatim>\<open>router/lib/cmd.cc\<close> and the data-transfer client it uses: a private model
  is sent to the storage unit and becomes a remote one.
\<close>

section \<open>The client\<close>

definition router_client_setup :: "data_side \<Rightarrow> data_side \<Rightarrow> data_side" where
  "router_client_setup client ctx = client\<lparr>sd_addr := sd_addr ctx, sd_ssl := sd_ssl ctx, sd_port := sd_port ctx\<rparr>"

definition router_client_create :: "data_side \<Rightarrow> data_side \<Rightarrow> data_request_ctx \<Rightarrow> dt_request \<Rightarrow> data_task" where
  "router_client_create client ctx req_ctx req0 =
     (let req1 = DtRequest_set_token req0 (dc_token req_ctx);
          req2 = DtRequest_set_dest req1 (dc_dest req_ctx);
          req3 = DtRequest_set_src req2 (dc_src req_ctx);
          req4 = snd (DtRequest_set_direction req3 (dc_direction req_ctx))
      in \<lparr>tk_ssl = sd_ssl client, tk_addr = sd_addr ctx, tk_port = sd_port ctx, tk_retry = 1,
          tk_req = foldl DtRequest_add_adtsrc req4 (dc_adtsrcs req_ctx)\<rparr>)"

section \<open>Pushing a model\<close>

text \<open>The source of data for a model: the name is the first component and the identifier the second.\<close>

definition pushed_adtsrc :: "u32 \<Rightarrow> string \<Rightarrow> string \<Rightarrow> string \<Rightarrow> adtsrc" where
  "pushed_adtsrc g_type data name mid =
     (Adtsrc_new g_type)\<lparr>ad_engineattr := (name, mid), ad_binary := data, ad_type := 0\<rparr>"

text \<open>
  The lambda \<^verbatim>\<open>push\<close> for the addresses the command has cut: it sets \<open>result\<close>, which was false, when the
  exchange succeeds. The port is read by \<^verbatim>\<open>std::stoi\<close>, which may throw.
\<close>

definition push_model ::
  "'w router_env \<Rightarrow> data_side \<Rightarrow> string \<Rightarrow> string \<Rightarrow> router_flag \<Rightarrow> string \<Rightarrow> string \<Rightarrow> string \<Rightarrow> 'w \<Rightarrow> (bool \<times> 'w) cxx" where
  "push_model env client dest_url storage flag data name mid w =
     (let ctx = \<lparr>dc_src = fg_datatransfer_router flag, dc_dest = fg_datatransfer_storage flag, dc_token = [],
                 dc_direction = 1, dc_adtsrcs = [pushed_adtsrc (re_adtsrc env) data name mid]\<rparr>
      in cxx_bind (stoi storage) (\<lambda>port.
           Inr (re_push env (router_client_create client \<lparr>sd_addr = dest_url, sd_port = port, sd_ssl = fg_ssl flag\<rparr>
                  ctx (re_dt_request env)) w)))"

text \<open>The branch for a private model given by \<open>id_...\<close> or \<open>name_...\<close>.\<close>

definition push_private ::
  "'w router_env \<Rightarrow> data_side \<Rightarrow> string \<Rightarrow> string \<Rightarrow> string \<Rightarrow> (model \<Rightarrow> bool) \<Rightarrow> router \<Rightarrow> 'w \<Rightarrow> 'w answer" where
  "push_private env client dest_url storage temp P r w =
     (case find P (rt_private r) of
        None \<Rightarrow> answer (''AT+MDPUSH=-1,'' @ temp @ '',the model is not existed'') r w
      | Some (name, mid) \<Rightarrow>
          if name = [] \<or> mid = [] then answer (''AT+MDPUSH=-1,'' @ temp @ '',the model is not existed'') r w
          else (case rf_load (re_files env) (user_file (rt_user r) mid) w of
              None \<Rightarrow> answer (''AT+MDPUSH=-1,'' @ name @ '','' @ mid @ '',the model is not existed'') r w
            | Some data \<Rightarrow> throwing (push_model env client dest_url storage (rt_flag r) data name mid w)
                (\<lambda>(result, w1).
                  if \<not> result then answer ''AT+MDPUSH=-5,unable to push model'' r w1
                  else throwing (rf_remove (re_files env) (user_file (rt_user r) mid) w1)
                    (\<lambda>(_, w2). answer ''AT+MDPUSH=0''
                      (r\<lparr>rt_private := erase_first P (rt_private r), rt_cloud := rt_cloud r @ [(name, mid)]\<rparr>) w2))))"

text \<open>The branch for a model whose data comes with the command.\<close>

definition push_given ::
  "'w router_env \<Rightarrow> data_side \<Rightarrow> string \<Rightarrow> string \<Rightarrow> string \<Rightarrow> string \<Rightarrow> router \<Rightarrow> 'w \<Rightarrow> 'w answer" where
  "push_given env client dest_url storage name data r w =
     (case find (\<lambda>e. fst e = name) (rt_cloud r) of
        Some e \<Rightarrow> answer (''AT+MDPUSH=-2,'' @ name @ '','' @ snd e @ '',duplicate engine indexes'') r w
      | None \<Rightarrow> (case find (\<lambda>e. fst e = name) (rt_private r) of
          Some e \<Rightarrow> answer (''AT+MDPUSH=-2,'' @ name @ '','' @ snd e @ '',duplicate engine indexes'') r w
        | None \<Rightarrow> (case create_id env r w of
            None \<Rightarrow> None
          | Some mid \<Rightarrow> throwing (push_model env client dest_url storage (rt_flag r) data name mid w)
              (\<lambda>(result, w1).
                if \<not> result then answer ''AT+MDPUSH=-5,unable to push model'' r w1
                else answer ''AT+MDPUSH=0,'' (r\<lparr>rt_cloud := rt_cloud r @ [(name, mid)]\<rparr>) w1))))"

text \<open>The switch over the type of the message, once the two addresses are cut.\<close>

definition push_switch ::
  "'w router_env \<Rightarrow> data_side \<Rightarrow> string \<Rightarrow> string \<Rightarrow> string \<Rightarrow> atmessage \<Rightarrow> router \<Rightarrow> 'w \<Rightarrow> 'w answer" where
  "push_switch env client dest_url storage param msg r w =
     (case am_type msg of
        AT_CMD \<Rightarrow>
          (case cut_at ''_'' param of
             None \<Rightarrow> answer ''AT+ENVAL'' r w
           | Some (judge, temp) \<Rightarrow>
               if judge = ''id'' then push_private env client dest_url storage temp (\<lambda>e. temp = snd e) r w
               else if judge = ''name'' then push_private env client dest_url storage temp (\<lambda>e. temp = fst e) r w
               else answer ''AT+ENVAL'' r w)
      | AT_LONG \<Rightarrow> push_given env client dest_url storage param (am_data msg) r w
      | _ \<Rightarrow> answer ''AT+ENVAL'' r w)"

definition MDPUSH :: "'w command" where
  "MDPUSH env msg r w =
     (case am_param msg of
        [param] \<Rightarrow>
          if rt_user r = [] then answer ''AT+MDPUSH=-4,the service is not registered'' r w
          else (case cut_at '':'' (fg_datatransfer_router (rt_flag r)) of
              None \<Rightarrow> answer ''AT+MDPUSH=-5,the source url is incorrect'' r w
            | Some (src_url, router_port) \<Rightarrow> throwing (stoi router_port) (\<lambda>port.
                (let client = router_client_setup \<lparr>sd_addr = [], sd_port = 0, sd_ssl = False\<rparr>
                       \<lparr>sd_addr = src_url, sd_port = port, sd_ssl = fg_ssl (rt_flag r)\<rparr>
                 in case cut_at '':'' (fg_datatransfer_storage (rt_flag r)) of
                   None \<Rightarrow> answer ''AT+MDPUSH=-5,the dest url is incorrect'' r w
                 | Some (dest_url, storage) \<Rightarrow> push_switch env client dest_url storage param msg r w)))
      | _ \<Rightarrow> answer ''AT+ENVAL'' r w)"

section \<open>What the command changes\<close>

lemma push_private_changes: "push_private env client u st temp P r w = Some (Inr (s, r', w')) \<Longrightarrow> changes r r'"
  by (auto simp: push_private_def intro: changes.same changes.publish split: option.splits if_splits prod.splits)

lemma push_given_changes: "push_given env client u st name data r w = Some (Inr (s, r', w')) \<Longrightarrow> changes r r'"
  using create_id_unused [of env r w]
  by (auto simp: push_given_def find_None_iff model_free_def intro!: changes.same changes.add_cloud
      split: option.splits if_splits prod.splits)

lemma push_switch_changes: "push_switch env client u st param msg r w = Some (Inr (s, r', w')) \<Longrightarrow> changes r r'"
  by (cases "am_type msg") (auto simp: push_switch_def intro: changes.same push_private_changes push_given_changes
      split: option.splits if_splits)

lemma MDPUSH_changes: "MDPUSH env msg r w = Some (Inr (s, r', w')) \<Longrightarrow> changes r r'"
  by (auto simp: MDPUSH_def Let_def changes.same dest!: push_switch_changes
      split: list.splits option.splits if_splits)

end
