(* ===== verification/Router_Trans.thy ===== *)
theory Router_Trans
  imports Router_Models
begin

text \<open>
  The commands \<^verbatim>\<open>TRANS\<close> and \<^verbatim>\<open>STRANS\<close> of \<^verbatim>\<open>router/lib/cmd.cc\<close>, which run a command of the
  operating system.
\<close>

text \<open>
  The loop of the child process: it cuts the data at every space and keeps what is before it. What
  follows the last space is not kept.
\<close>

function cut_words :: "string \<Rightarrow> string list" where
  "cut_words s = (case find_first_of s '' '' of None \<Rightarrow> [] | Some p \<Rightarrow> take p s # cut_words (drop (Suc p) s))"
  by pat_completeness auto

termination
  by (relation "measure length") (auto dest: find_first_of_Some)

declare cut_words.simps [simp del]

definition crlf :: string where
  "crlf = [CHR 0x0D, CHR 0x0A]"

text \<open>
  A child process whose \<^verbatim>\<open>execvp\<close> fails goes on as a second router with the pipe still open as its
  standard output, so that the parent, which reads to the end of the pipe, never answers. With no
  word at all \<^verbatim>\<open>execvp\<close> gets a null file name.
\<close>

definition TRANS :: "'w command" where
  "TRANS env msg r w =
     (case (am_type msg, am_param msg) of
        (AT_LONG, [param]) \<Rightarrow> throwing (stoi param) (\<lambda>len.
          if cut_words (am_data msg) = [] then Some (Inl Undefined_behaviour)
          else (case re_exec env (map c_str (cut_words (am_data msg))) w of
              (No_pipe, w1) \<Rightarrow> answer ''Failed to create pipe'' r w1
            | (No_fork, w1) \<Rightarrow> answer ''Failed to fork'' r w1
            | (Not_executable, w1) \<Rightarrow> None
            | (Ran output success, w1) \<Rightarrow>
                if success then answer (output @ crlf @ ''<<<'' @ crlf) r w1
                else answer (output @ crlf @ ''<<<Command failed to execute'' @ crlf) r w1))
      | _ \<Rightarrow> answer ''AT+ENVAL'' r w)"

text \<open>\<^verbatim>\<open>s.find(\"\")\<close> and \<^verbatim>\<open>s.find(t)\<close>: the first position at which the text occurs.\<close>

definition str_find :: "string \<Rightarrow> string \<Rightarrow> nat option" where
  "str_find s t = find (\<lambda>p. take (length t) (drop p s) = t) [0..<Suc (length s - length t)]"

text \<open>\<open>pos >= 0\<close> holds for every \<^verbatim>\<open>size_t\<close>, \<open>npos\<close> too, and \<^verbatim>\<open>substr(0, npos)\<close> is the whole string.\<close>

definition STRANS :: "'w command" where
  "STRANS env msg r w =
     (if am_type msg \<noteq> AT_LONG \<or> length (am_param msg) \<noteq> 1 then answer ''AT+ENVAL'' r w
      else (let command = (case str_find (am_data msg) '''' of None \<Rightarrow> am_data msg | Some pos \<Rightarrow> take pos (am_data msg))
            in if command \<noteq> ''ip'' \<and> command \<noteq> ''ifconfig'' then answer ''Wrong sudo command'' r w
               else throwing (stoi (am_param msg ! 0)) (\<lambda>len.
                 if len + 5 > int32_max then Some (Inl Undefined_behaviour)
                 else TRANS env (msg\<lparr>am_param := [int_to_string (len + 5)], am_data := ''sudo '' @ am_data msg\<rparr>) r w)))"

lemma TRANS_changes: "TRANS env msg r w = Some (Inr (s, r', w')) \<Longrightarrow> r' = r"
  by (auto simp: TRANS_def split: at_type.splits list.splits if_splits prod.splits command_run.splits)

lemma STRANS_changes: "STRANS env msg r w = Some (Inr (s, r', w')) \<Longrightarrow> r' = r"
  by (auto simp: STRANS_def Let_def dest: TRANS_changes split: if_splits)

section \<open>Properties\<close>

text \<open>The words of a command as a shell would see them: the text is split at every space.\<close>

fun split_spaces :: "string \<Rightarrow> string list" where
  "split_spaces [] = [[]]"
| "split_spaces (c # s) = (if c = CHR '' '' then [] # split_spaces s
     else (c # hd (split_spaces s)) # tl (split_spaces s))"

lemma split_spaces_nonempty [simp]: "split_spaces s \<noteq> []"
  by (induction s) auto

lemma cut_words_Cons:
  "cut_words (c # s) = (if c = CHR '' '' then [] # cut_words s
     else case cut_words s of [] \<Rightarrow> [] | v # vs \<Rightarrow> (c # v) # vs)"
  by (subst (1 2) cut_words.simps) (auto simp: cut_words.simps [of s] split: option.split)

lemma cut_words_split: "cut_words s = butlast (split_spaces s)"
proof (induction s)
  case Nil
  then show ?case by (simp add: cut_words.simps)
next
  case (Cons c s)
  then show ?case
    by (cases "split_spaces s" rule: remdups_adj.cases) (auto simp: cut_words_Cons)
qed

definition trans_message :: "nat \<Rightarrow> string \<Rightarrow> atmessage" where
  "trans_message n dat = \<lparr>am_type = AT_LONG, am_cmd = ''TRANS'', am_param = [to_string n], am_data = dat\<rparr>"

text \<open>
  a command that is transmitted is run without its last word: the argument vector is made of the
  words of the data but the last one, and the answer is the output and a mark that tells success. A
  command of a single word has no program to run, and a program that cannot be executed leaves the router
  without an answer. The length given as the parameter is read and not used.
\<close>

theorem trans_drops_last_word:
  assumes "int n \<le> int32_max" and "re_exec env (map c_str (butlast (split_spaces dat))) w = (run, w1)"
  shows "TRANS env (trans_message n dat) r w =
    (if CHR '' '' \<notin> set dat then Some (Inl Undefined_behaviour)
     else case run of
        Ran output True \<Rightarrow> answer (output @ crlf @ ''<<<'' @ crlf) r w1
      | Ran output False \<Rightarrow> answer (output @ crlf @ ''<<<Command failed to execute'' @ crlf) r w1
      | Not_executable \<Rightarrow> None
      | No_pipe \<Rightarrow> answer ''Failed to create pipe'' r w1
      | No_fork \<Rightarrow> answer ''Failed to fork'' r w1)"
proof -
  have "stoi (to_string n) = Inr (int n)" using stoi_to_string [of "[]" n] assms(1) by simp
  moreover have "cut_words dat = [] \<longleftrightarrow> CHR '' '' \<notin> set dat"
    using find_first_of_None [of dat "'' ''"] by (subst cut_words.simps) (auto split: option.split)
  moreover have "re_exec env (map c_str (cut_words dat)) w = (run, w1)" using assms(2) by (simp add: cut_words_split)
  ultimately show ?thesis by (auto simp: TRANS_def trans_message_def split: command_run.split)
qed

theorem trans_drops_last_word_witness:
  "TRANS map_env (trans_message 8 ''ls -l /tmp'') sample_router Map.empty =
     answer (''ls-l'' @ crlf @ ''<<<'' @ crlf) sample_router Map.empty"
proof -
  have run: "re_exec map_env (map c_str (butlast (split_spaces ''ls -l /tmp''))) Map.empty = (Ran ''ls-l'' True, Map.empty)"
    by (simp add: map_env_def c_str_def)
  show ?thesis using trans_drops_last_word [OF _ run, of 8 sample_router] by (simp add: int32_max_def)
qed

text \<open>
  the privileged variant refuses every command, \<^verbatim>\<open>ip\<close> and \<^verbatim>\<open>ifconfig\<close> included: the search for the
  empty text finds it at position 0, so that the program name it compares is empty.
\<close>

theorem strans_refuses_all:
  "STRANS env msg r w =
     answer (if am_type msg = AT_LONG \<and> length (am_param msg) = 1 then ''Wrong sudo command'' else ''AT+ENVAL'') r w"
proof -
  have "[0..<Suc (length (am_data msg))] = 0 # [1..<Suc (length (am_data msg))]" by (simp add: upt_rec)
  then have "str_find (am_data msg) '''' = Some 0" unfolding str_find_def by simp
  then show ?thesis by (simp add: STRANS_def)
qed

end
