(* ===== verification/Router.thy ===== *)
theory Router
  imports Router_Tasks Router_Push Router_Trans
begin

text \<open>
  The router itself, \<^verbatim>\<open>router/bin/main.cc\<close>: the addresses it reads from its command line, the table of its
  commands, and the answers to a series of messages.
\<close>

section \<open>Command line\<close>

text \<open>A position of \<^verbatim>\<open>find_first_of\<close> as a \<^verbatim>\<open>size_t\<close>; \<^verbatim>\<open>npos\<close> is the greatest one.\<close>

definition size_pos :: "nat option \<Rightarrow> u64" where
  "size_pos p = (case p of None \<Rightarrow> - 1 | Some n \<Rightarrow> of_nat n)"

definition set_endpoint :: "endpoint \<Rightarrow> string \<Rightarrow> (int \<times> endpoint) cxx" where
  "set_endpoint endpoint s =
     (let pos = size_pos (find_first_of s '':'') in
      if pos < 0 then Inr (-1, endpoint)
      else (let proto = take (unat pos) s;
                s1 = drop (unat (pos + 3)) s;
                pos1 = size_pos (find_first_of s1 '':'')
            in if pos1 < 0 then Inr (-1, endpoint)
               else (let url = take (unat pos1) s1;
                         s2 = drop (unat (pos1 + 1)) s1;
                         pos2 = size_pos (find_first_of s2 ''/'')
                     in cxx_bind (stoi s2) (\<lambda>port.
                          let path = (if pos2 > 0 then drop (unat (pos2 + 1)) s2 else []);
                              e1 = snd (Endpoint_set_proto endpoint proto);
                              e2 = Endpoint_set_url e1 url;
                              e3 = Endpoint_set_port e2 (word_of_int port);
                              e4 = Endpoint_set_path e3 path
                          in Inr (0, snd (Endpoint_set_authtype e4 0))))))"

text \<open>\<^verbatim>\<open>atoi\<close>: 0 without digits, undefined when the number is not an \<^verbatim>\<open>int\<close>.\<close>

definition atoi :: "string \<Rightarrow> int cxx" where
  "atoi s = (case stoi s of
     Inr n \<Rightarrow> Inr n
   | Inl e \<Rightarrow> if e = Invalid_argument then Inr 0 else Inl Undefined_behaviour)"

text \<open>
  \<open>argv\<close> does not hold the program's name, so that \<^verbatim>\<open>argc\<close> is one more than its length. The result is the
  exit status or the router at the start of its loop. \<open>start\<close> is what starting the HTTP server gives,
  \<open>g_ssl\<close> the initial content of the client's \<open>ssl\<close>.
\<close>

definition flag_optional :: "router_flag \<Rightarrow> string list \<Rightarrow> router_flag cxx" where
  "flag_optional f argv =
     (case argv of
        [p] \<Rightarrow> cxx_bind (atoi p) (\<lambda>n. Inr (f\<lparr>fg_port := n\<rparr>))
      | [p, ip4] \<Rightarrow> cxx_bind (atoi p) (\<lambda>n. Inr (f\<lparr>fg_port := n, fg_ipv4 := ip4\<rparr>))
      | [p, ip4, ip6] \<Rightarrow> cxx_bind (atoi p) (\<lambda>n. Inr (f\<lparr>fg_port := n, fg_ipv4 := ip4, fg_ipv6 := ip6\<rparr>))
      | _ \<Rightarrow> Inr f)"

definition started_router :: "int \<Rightarrow> bool \<Rightarrow> router_flag \<Rightarrow> endpoint \<Rightarrow> endpoint \<Rightarrow> endpoint \<Rightarrow> router" where
  "started_router start g_ssl f mana comput stor =
     \<lparr>rt_private = [], rt_cloud = [], rt_user = [],
      rt_task = snd (Taskresult_start start Taskresult_new),
      rt_management = snd (ManagementClient_setup (ManagementClient_new g_ssl)
        \<lparr>cl_management = mana, cl_computation = comput, cl_storage = stor, cl_token = [], cl_ssl = fg_ssl f\<rparr>),
      rt_flag = f\<rparr>"

definition router_main :: "int \<Rightarrow> bool \<Rightarrow> bool \<Rightarrow> string list \<Rightarrow> (int + router) cxx" where
  "router_main start g_ssl g_flag argv =
     (if argv = [] then Inl Undefined_behaviour
      else if argv ! 0 = ''--help'' \<or> argv ! 0 = ''-h'' then Inr (Inl 0)
      else if length argv + 1 < 7 \<or> length argv + 1 > 10 then Inr (Inl 1)
      else (let f = (Flag_new g_flag)\<lparr>fg_management := argv ! 0, fg_computation := argv ! 1, fg_storage := argv ! 2\<rparr> in
        cxx_bind (set_endpoint Endpoint_new (argv ! 0)) (\<lambda>(r1, mana).
        if r1 = -1 then Inr (Inl 2) else
        cxx_bind (set_endpoint Endpoint_new (argv ! 1)) (\<lambda>(r2, comput).
        if r2 = -1 then Inr (Inl 2) else
        cxx_bind (set_endpoint Endpoint_new (argv ! 2)) (\<lambda>(r3, stor).
        if r3 = -1 then Inr (Inl 2) else
        (let f1 = f\<lparr>fg_datatransfer_router := argv ! 3, fg_datatransfer_storage := argv ! 4\<rparr> in
         if argv ! 5 \<noteq> ''false'' \<and> argv ! 5 \<noteq> ''true'' then Inr (Inl 3)
         else cxx_bind (flag_optional (f1\<lparr>fg_ssl := (argv ! 5 = ''true'')\<rparr>) (drop 6 argv))
           (\<lambda>f2. Inr (Inr (started_router start g_ssl f2 mana comput stor)))))))))"

section \<open>The commands\<close>

definition router_commands :: "(string \<times> 'w command) list" where
  "router_commands =
     [(''REG'', REG), (''RTUNREG'', RTUNREG), (''RTBUSY'', RTBUSY), (''MDDECL'', MDDECL), (''MDRM'', MDRM),
      (''MDPUSH'', MDPUSH), (''CPSTART'', CPSTART), (''CPMOD'', CPMOD), (''CPRDY'', CPRDY), (''CPVAL'', CPVAL),
      (''TRANS'', TRANS), (''STRANS'', STRANS)]"

definition route :: "'w command" where
  "route env msg r w =
     (case map_of router_commands (am_cmd msg) of
        Some command \<Rightarrow> command env msg r w
      | None \<Rightarrow> answer ''AT+ENVAL'' r w)"

text \<open>The answer on the socket, for one message and for a series of them.\<close>

definition serve_message :: "'w command" where
  "serve_message env msg r w =
     (case route env msg r w of
        None \<Rightarrow> None
      | Some m \<Rightarrow> throwing m (\<lambda>(s, r', w'). answer (s @ crlf) r' w'))"

fun serve_messages :: "'w router_env \<Rightarrow> atmessage list \<Rightarrow> router \<Rightarrow> 'w \<Rightarrow> (string list \<times> router \<times> 'w) cxx option" where
  "serve_messages env [] r w = Some (Inr ([], r, w))"
| "serve_messages env (msg # msgs) r w =
     (case serve_message env msg r w of
        None \<Rightarrow> None
      | Some (Inl e) \<Rightarrow> Some (Inl e)
      | Some (Inr (s, r', w')) \<Rightarrow>
          (case serve_messages env msgs r' w' of
             None \<Rightarrow> None
           | Some (Inl e) \<Rightarrow> Some (Inl e)
           | Some (Inr (ss, r'', w'')) \<Rightarrow> Some (Inr (s # ss, r'', w''))))"

section \<open>Every message\<close>

lemma router_command_cases:
  "map_of router_commands n = Some c \<Longrightarrow>
     c \<in> {REG, RTUNREG, RTBUSY, MDDECL, MDRM, MDPUSH, CPSTART, CPMOD, CPRDY, CPVAL, TRANS, STRANS}"
  using map_of_SomeD [of router_commands n c] by (auto simp: router_commands_def)

lemmas command_changes = REG_changes RTUNREG_changes RTBUSY_changes MDDECL_changes MDRM_changes MDPUSH_changes
  CPSTART_changes CPMOD_changes CPRDY_changes CPVAL_changes

lemma route_changes: "route env msg r w = Some (Inr (s, r', w')) \<Longrightarrow> changes r r'"
  by (auto simp: route_def dest!: router_command_cases command_changes intro: changes.same
      dest: TRANS_changes STRANS_changes split: option.splits)

lemma serve_message_answered:
  "serve_message env msg r w = Some (Inr (s, r', w')) \<longleftrightarrow> (\<exists>s'. route env msg r w = Some (Inr (s', r', w')) \<and> s = s' @ crlf)"
  by (auto simp: serve_message_def split: option.splits)

text \<open>
  A property of the router that the commands keep: it holds after any series of messages, and in
  whatever state the last message found.
\<close>

locale kept_by_commands =
  fixes inv :: "router \<Rightarrow> bool"
  assumes keeps: "changes r r' \<Longrightarrow> inv r \<Longrightarrow> inv r'"
begin

lemma served: "serve_messages env msgs r w = Some (Inr (ss, r', w')) \<Longrightarrow> inv r \<Longrightarrow> inv r' \<and> length ss = length msgs"
proof (induction msgs arbitrary: r w ss)
  case (Cons msg msgs)
  from Cons.prems(1) obtain s r1 w1 ss1 where first: "serve_message env msg r w = Some (Inr (s, r1, w1))"
    and rest: "serve_messages env msgs r1 w1 = Some (Inr (ss1, r', w'))" and ss: "ss = s # ss1"
    by (auto split: option.splits sum.splits prod.splits)
  from first have "changes r r1" by (auto simp: serve_message_answered intro: route_changes)
  from Cons.IH [OF rest keeps [OF this Cons.prems(2)]] ss show ?case by simp
qed simp

end

interpretation model_list: kept_by_commands models_ok
  by unfold_locales (rule changes_models_ok)

interpretation task_slot: kept_by_commands "\<lambda>r. idle_clean (rt_task r)"
  by unfold_locales (rule changes_task)

interpretation configuration: kept_by_commands
  "\<lambda>r. rt_flag r = f \<and> rt_management r = c \<and> tr_server (rt_task r) = b" for f c b
  by unfold_locales (auto dest: changes_config)

section \<open>Properties\<close>

lemma size_pos_Some: "n < 2 ^ 63 \<Longrightarrow> k < 2 ^ 62 \<Longrightarrow> unat (size_pos (Some n) + of_nat k) = n + k"
proof -
  assume "n < 2 ^ 63" "k < 2 ^ 62"
  then have "unat (of_nat (n + k) :: u64) = n + k"
    by (simp only: unat_of_nat) simp
  then show ?thesis by (simp add: size_pos_def)
qed

lemma size_pos_None [simp]: "size_pos None = - 1" by (simp add: size_pos_def)

lemma size_pos_not_less [simp]: "\<not> size_pos p < 0" by simp

lemma digits_no_slash: "CHR ''/'' \<notin> set (to_string n)"
  using to_string_digits [of n] by (auto simp: list_all_iff is_digit_def)

definition uri :: "string \<Rightarrow> string \<Rightarrow> nat \<Rightarrow> string option \<Rightarrow> string" where
  "uri proto url port path =
     proto @ ''://'' @ url @ '':'' @ to_string port @ (case path of None \<Rightarrow> [] | Some p \<Rightarrow> ''/'' @ p)"

lemma set_endpoint_not_failing: "set_endpoint e s \<noteq> Inr (-1, e')"
  by (auto simp: set_endpoint_def Let_def)

lemma find_colon: "CHR '':'' \<notin> set p \<Longrightarrow> find_first_of (p @ CHR '':'' # s) '':'' = Some (length p)"
  by (rule find_first_of_append) auto

text \<open>
  an address \<open>proto://url:port/path\<close> is read into its four parts; a protocol the endpoint does not know is
  dropped, and an address without a path gets the port as its path. No address is refused: the tests for
  a missing colon compare an unsigned position with 0.
\<close>

theorem set_endpoint_reads:
  assumes chars: "CHR '':'' \<notin> set proto" "CHR '':'' \<notin> set url"
    and bounds: "int port \<le> int32_max" "length (uri proto url port path) < 2 ^ 62"
  shows "set_endpoint e (uri proto url port path) =
      Inr (0, e\<lparr>ep_proto := (if known_proto proto then proto else ep_proto e), ep_url := url,
        ep_port := of_nat port, ep_path := (case path of None \<Rightarrow> to_string port | Some p \<Rightarrow> p), ep_authtype := 0\<rparr>) \<and>
    (\<forall>s e'. set_endpoint e s \<noteq> Inr (-1, e'))"
proof -
  let ?rest = "case path of None \<Rightarrow> [] | Some p \<Rightarrow> ''/'' @ p"
  let ?s2 = "to_string port @ ?rest"
  let ?s1 = "url @ CHR '':'' # ?s2"
  have s: "uri proto url port path = proto @ CHR '':'' # ''//'' @ ?s1" by (simp add: uri_def)
  have len: "length proto < 2 ^ 63" "length url < 2 ^ 63" "length (to_string port) < 2 ^ 63"
    using bounds(2) by (simp_all add: uri_def)
  have p0: "find_first_of (uri proto url port path) '':'' = Some (length proto)" "find_first_of ?s1 '':'' = Some (length url)"
    using find_colon chars by (simp_all add: s)
  note pos = size_pos_Some [OF len(1), of 0] size_pos_Some [OF len(1), of 3] size_pos_Some [OF len(2), of 0]
    size_pos_Some [OF len(2), of 1] size_pos_Some [OF len(3), of 0] size_pos_Some [OF len(3), of 1]
  have cut: "take (unat (size_pos (Some (length proto)))) (uri proto url port path) = proto"
    "drop (unat (size_pos (Some (length proto)) + 3)) (uri proto url port path) = ?s1"
    "take (unat (size_pos (Some (length url)))) ?s1 = url"
    "drop (unat (size_pos (Some (length url)) + 1)) ?s1 = ?s2"
    using pos by (simp_all add: s)
  have port: "stoi ?s2 = Inr (int port)"
    using stoi_to_string [of ?rest port] bounds(1) by (simp add: is_digit_def split: option.split)
  have path: "(if 0 < size_pos (find_first_of ?s2 ''/'') then drop (unat (size_pos (find_first_of ?s2 ''/'') + 1)) ?s2 else []) =
      (case path of None \<Rightarrow> to_string port | Some p \<Rightarrow> p)"
  proof (cases path)
    case None
    then show ?thesis
      using find_first_of_None [of "to_string port" "''/''"] digits_no_slash [of port] by (simp add: word_gt_0)
  next
    case (Some p)
    then have f: "find_first_of ?s2 ''/'' = Some (length (to_string port))"
      using find_first_of_append [of "to_string port" "''/''" "CHR ''/''" p] digits_no_slash [of port] by simp
    have "size_pos (Some (length (to_string port))) \<noteq> 0" using pos(5) by auto
    then have "0 < size_pos (Some (length (to_string port)))" by (simp add: word_gt_0)
    then show ?thesis using f pos(6) Some by simp
  qed
  have "set_endpoint e (uri proto url port path) =
      Inr (0, e\<lparr>ep_proto := (if known_proto proto then proto else ep_proto e), ep_url := url,
        ep_port := of_nat port, ep_path := (case path of None \<Rightarrow> to_string port | Some p \<Rightarrow> p), ep_authtype := 0\<rparr>)"
    unfolding set_endpoint_def Let_def p0 cut port path by (simp add: Endpoint_setter_defs)
  then show ?thesis using set_endpoint_not_failing by blast
qed

lemma router_main_started:
  assumes "router_main start g_ssl g_flag argv = Inr (Inr r0)"
  shows "\<exists>f mana comput stor. r0 = started_router start g_ssl f mana comput stor"
  using assms by (auto simp: router_main_def Let_def split: if_splits)

lemma served_answers:
  "serve_messages env msgs r w = Some (Inr (ss, r', w')) \<Longrightarrow> \<forall>s \<in> set ss. suffix crlf s"
proof (induction msgs arbitrary: r w ss)
  case (Cons msg msgs)
  then obtain s r1 w1 ss1 where "serve_message env msg r w = Some (Inr (s, r1, w1))"
    and "serve_messages env msgs r1 w1 = Some (Inr (ss1, r', w'))" and "ss = s # ss1"
    by (auto split: option.splits sum.splits prod.splits)
  with Cons.IH show ?case by (auto simp: serve_message_answered suffix_def)
qed simp

text \<open>
  C20: whatever messages the router gets after its start, as long as it answers: every message gets one
  answer, which ends with a line break; no two models share a name or an identifier; an idle router holds
  no result; its flags, its addresses and its HTTP server are those of the start.
\<close>

theorem router_invariant:
  assumes "router_main start g_ssl g_flag argv = Inr (Inr r0)"
    and "serve_messages env msgs r0 w = Some (Inr (answers, r, w'))"
  shows "length answers = length msgs \<and> (\<forall>s \<in> set answers. suffix crlf s) \<and> models_ok r \<and> idle_clean (rt_task r) \<and>
    rt_flag r = rt_flag r0 \<and> rt_management r = rt_management r0 \<and> tr_server (rt_task r)"
proof -
  have "models_ok r0" "idle_clean (rt_task r0)" "tr_server (rt_task r0)"
    using router_main_started [OF assms(1)]
    by (auto simp: started_router_def models_ok_def idle_clean_def Taskresult_start_def Taskresult_new_def)
  with model_list.served [OF assms(2)] task_slot.served [OF assms(2)] served_answers [OF assms(2)]
    configuration.served [OF assms(2), of "rt_flag r0" "rt_management r0" True]
  show ?thesis by simp
qed

definition sample_argv :: "string list" where
  "sample_argv = [''jxtd://10.0.0.1:1/a'', ''jxtd://10.0.0.2:2/b'', ''jxtd://10.0.0.3:3/c'', ''10.0.0.1:80'', ''10.0.0.2:81'', ''false'']"

definition sample_started :: router where
  "sample_started = (case router_main 0 False False sample_argv of Inr (Inr r) \<Rightarrow> r)"

lemma sample_endpoints:
  "\<exists>e. set_endpoint Endpoint_new ''jxtd://10.0.0.1:1/a'' = Inr (0, e)" "\<exists>e. set_endpoint Endpoint_new ''jxtd://10.0.0.2:2/b'' = Inr (0, e)"
  "\<exists>e. set_endpoint Endpoint_new ''jxtd://10.0.0.3:3/c'' = Inr (0, e)"
  by (simp_all add: set_endpoint_def size_pos_def stoi_def is_space_def is_digit_def decimal_def int32_min_def int32_max_def Let_def)

lemma sample_started: "router_main 0 False False sample_argv = Inr (Inr sample_started)"
proof -
  from sample_endpoints obtain e1 e2 e3 where "set_endpoint Endpoint_new ''jxtd://10.0.0.1:1/a'' = Inr (0, e1)"
    "set_endpoint Endpoint_new ''jxtd://10.0.0.2:2/b'' = Inr (0, e2)" "set_endpoint Endpoint_new ''jxtd://10.0.0.3:3/c'' = Inr (0, e3)"
    by blast
  then have "\<exists>r. router_main 0 False False sample_argv = Inr (Inr r)"
    by (simp add: router_main_def sample_argv_def flag_optional_def)
  then show ?thesis by (auto simp: sample_started_def)
qed

lemma sample_started_idle: "rt_private sample_started = [] \<and> rt_cloud sample_started = [] \<and> rt_user sample_started = []"
proof -
  obtain f mana comput stor where eq: "sample_started = started_router 0 False f mana comput stor"
    using router_main_started [OF sample_started] by blast
  show ?thesis unfolding eq started_router_def by simp
qed

definition declare_message :: atmessage where
  "declare_message = \<lparr>am_type = AT_CMD, am_cmd = ''MDDECL'', am_param = [''dog'', ''c1''], am_data = []\<rparr>"

definition register_message :: "string \<Rightarrow> atmessage" where
  "register_message u = \<lparr>am_type = AT_CMD, am_cmd = ''REG'', am_param = [u], am_data = []\<rparr>"

theorem router_invariant_witness:
  "\<exists>answers r. serve_messages map_env [register_message ''u'', declare_message, declare_message] sample_started Map.empty =
     Some (Inr (answers, r, Map.empty)) \<and> length answers = 3 \<and> models_ok r \<and> rt_cloud r = [(''dog'', ''c1'')]"
proof -
  have "\<exists>answers r. serve_messages map_env [register_message ''u'', declare_message, declare_message] sample_started Map.empty =
      Some (Inr (answers, r, Map.empty)) \<and> rt_cloud r = [(''dog'', ''c1'')]"
    using sample_started_idle
    by (simp add: serve_message_def route_def router_commands_def register_message_def declare_message_def REG_def MDDECL_def
        declare_remote_def map_env_def map_router_files_def answer_def)
  with router_invariant [OF sample_started] show ?thesis by fastforce
qed

definition start_by_id :: "string \<Rightarrow> string \<Rightarrow> atmessage" where
  "start_by_id i input = \<lparr>am_type = AT_CMD, am_cmd = ''CPSTART'', am_param = [''id_'' @ i, input], am_data = []\<rparr>"

definition ask_by_id :: "string \<Rightarrow> atmessage" where
  "ask_by_id i = \<lparr>am_type = AT_CMD, am_cmd = ''MDDECL'', am_param = [''id_'' @ i], am_data = []\<rparr>"

lemma cut_id: "cut_at ''_'' (''id_'' @ i) = Some (''id'', i)"
  using cut_at_append [of "''id''" "''_''" "CHR ''_''" i] by simp

lemma serve_two:
  assumes "route env m1 r w = answer s1 r1 w1" and "route env m2 r1 w1 = answer s2 r2 w2"
  shows "serve_messages env [m1, m2] r w = Some (Inr ([s1 @ crlf, s2 @ crlf], r2, w2))"
  using assms by (simp add: serve_message_def answer_def)

text \<open>
  the list of models outlives the user. After a user unregisters and registers again, a private model
  is still reported as present, but its file is gone with the user's directory, and a task on it is refused
  because the model does not exist.
\<close>

theorem unregistered_models_stay_listed:
  assumes gone: "\<And>d w. \<exists>w'. rf_remove_all (re_files env) d w = Inr w' \<and> (\<forall>p. prefix d p \<longrightarrow> rf_load (re_files env) p w' = None)"
    and made: "\<And>d w. \<exists>w'. rf_create_directory (re_files env) d w = Inr w' \<and> (\<forall>p. rf_load (re_files env) p w' = rf_load (re_files env) p w)"
    and r: "models_ok r" "tr_taskid (rt_task r) = 0" "rt_user r = u" "u \<noteq> []" "(n, i) \<in> set (rt_private r)"
    and nul: "CHR 0x00 \<notin> set (u @ i)"
  shows "\<exists>w'. serve_messages env [plain_message ''RTUNREG'' AT_CMD, register_message u] r w =
      Some (Inr ([''AT+OK'' @ crlf, ''AT+OK'' @ crlf], r, w')) \<and>
    route env (ask_by_id i) r w' = answer (model_info (n, i)) r w' \<and>
    route env (start_by_id i input) r w' = answer ''AT+CPRES=-1,the model is not existed'' r w'"
proof -
  obtain w1 where w1: "rf_remove_all (re_files env) (user_dir u) w = Inr w1"
    "\<forall>p. prefix (user_dir u) p \<longrightarrow> rf_load (re_files env) p w1 = None" using gone by blast
  obtain w' where w': "rf_create_directory (re_files env) (user_dir u) w1 = Inr w'"
    "\<forall>p. rf_load (re_files env) p w' = rf_load (re_files env) p w1" using made by blast
  have again: "r\<lparr>rt_user := [], rt_user := u\<rparr> = r" using r(3) by (cases r) simp
  have "route env (plain_message ''RTUNREG'' AT_CMD) r w = answer ''AT+OK'' (r\<lparr>rt_user := []\<rparr>) w1"
    using w1 r by (simp add: route_def router_commands_def plain_message_def RTUNREG_def)
  moreover have "route env (register_message u) (r\<lparr>rt_user := []\<rparr>) w1 = answer ''AT+OK'' r w'"
    using w' r again by (simp add: route_def router_commands_def register_message_def REG_def)
  ultimately have "serve_messages env [plain_message ''RTUNREG'' AT_CMD, register_message u] r w =
      Some (Inr ([''AT+OK'' @ crlf, ''AT+OK'' @ crlf], r, w'))" by (rule serve_two)
  moreover have found: "find (\<lambda>e. i = snd e) (rt_private r) = Some (n, i)"
    using find_unique [of snd "rt_private r" "(n, i)"] models_ok_distinct [OF r(1)] r(5) by simp
  then have "route env (ask_by_id i) r w' = answer (model_info (n, i)) r w'"
    using r cut_id [of i]
    by (simp add: route_def router_commands_def ask_by_id_def MDDECL_def lookup_model_def info_or_absent_def)
  moreover have "prefix (user_dir u) (user_file u i)"
    using nul by (auto simp: user_dir_def user_file_def c_str_id)
  then have "rf_load (re_files env) (user_file u i) w' = None" using w1 w' by simp
  then have "route env (start_by_id i input) r w' = answer ''AT+CPRES=-1,the model is not existed'' r w'"
    using found r cut_id [of i]
    by (simp add: route_def router_commands_def start_by_id_def CPSTART_def select_engine_def read_model_def eq_commute [of i])
  ultimately show ?thesis by blast
qed

theorem unregistered_models_stay_listed_witness:
  "\<exists>w'. route map_env (ask_by_id ''p1'') sample_router w' = answer ''AT+MDINFO=0,cat,p1'' sample_router w' \<and>
     route map_env (start_by_id ''p1'' ''rtsp'') sample_router w' = answer ''AT+CPRES=-1,the model is not existed'' sample_router w'"
proof -
  have gone: "\<exists>w'. rf_remove_all (re_files map_env) d w = Inr w' \<and> (\<forall>p. prefix d p \<longrightarrow> rf_load (re_files map_env) p w' = None)" for d w
    by (simp add: map_env_def map_router_files_def)
  have made: "\<exists>w'. rf_create_directory (re_files map_env) d w = Inr w' \<and> (\<forall>p. rf_load (re_files map_env) p w' = rf_load (re_files map_env) p w)" for d w
    by (simp add: map_env_def map_router_files_def)
  have "models_ok sample_router" "tr_taskid (rt_task sample_router) = 0" "rt_user sample_router = ''u''" "''u'' \<noteq> []"
    "(''cat'', ''p1'') \<in> set (rt_private sample_router)" "CHR 0x00 \<notin> set (''u'' @ ''p1'')"
    by (simp_all add: models_ok_def sample_router_def Taskresult_new_def)
  from unregistered_models_stay_listed [OF gone made this, of "[user_file ''u'' ''p1'' \<mapsto> ''code'']" "''rtsp''"]
  show ?thesis by (auto simp: model_info_def)
qed

text \<open>The address of the storage unit.\<close>

theorem set_endpoint_reads_witness:
  "set_endpoint Endpoint_new (uri ''jxtd'' ''10.0.0.3'' 81 None) =
     Inr (0, Endpoint_new\<lparr>ep_proto := ''jxtd'', ep_url := ''10.0.0.3'', ep_port := 81, ep_path := ''81''\<rparr>)"
proof -
  have s: "to_string 81 = ''81''" by code_simp
  have "int 81 \<le> int32_max" "length (uri ''jxtd'' ''10.0.0.3'' 81 None) < 2 ^ 62"
    by (simp_all add: int32_max_def uri_def s)
  from set_endpoint_reads [OF _ _ this, of Endpoint_new] show ?thesis
    by (simp add: known_proto_def s Endpoint_new_def)
qed

end
