(* ===== verification/Router_System.thy ===== *)
theory Router_System
  imports Router Taskdep_System Storage_Datatrans
begin

text \<open>
  The router against the units it uses: a task it starts, with the storage unit and the computing unit
  behind one network, and a model it pushes to the storage unit.
\<close>

section \<open>Starting a task\<close>

lemma neogiate_first_reply:
  assumes "net (create_client_task (cl_ssl ctx) (cl_storage ctx) (neogiate_request ctx t e req0)) w = (Some r, w')"
    and "neogiation_reply Neo_succeed [] t r"
  shows "create_neogiate_task net ctx req0 t e w = Some (Inr (t, w'))"
  using assms by (auto simp: create_neogiate_task_def neogiate_callback_def neogiation_reply_def)

lemma units_neogiate:
  assumes "storage_ready px dm" and "rq_engine req0 = None" and "\<not> task_exist dm t"
  shows "\<exists>dm' w'. create_neogiate_task (units_net ctx cluster (storage_net self)) ctx req0 t e (c, (dm, w, rnd)) =
      Some (Inr (t, (c, (dm', w', rnd)))) \<and> storage_ready px dm' \<and>
    map_of (dm_engines dm') = (map_of (dm_engines dm))(t \<mapsto> task_entry t e)"
proof -
  let ?t = "create_client_task (cl_ssl ctx) (cl_storage ctx) (neogiate_request ctx t e req0)"
  have req: "negotiates (ct_req ?t)" "rq_engine (ct_req ?t) = Some e" "rq_taskid (ct_req ?t) = t"
    using assms(2) by (simp_all add: create_client_task_def neogiate_request_eq negotiates_def)
  have "reaches ?t (cl_storage ctx)" by (simp add: reaches_def create_client_task_def)
  moreover obtain r dm' w' where s: "storage_net self ?t (dm, w, rnd) = (Some r, (dm', w', rnd))"
    and "storage_ready px dm'" "neogiation_reply Neo_succeed [] t r"
    "map_of (dm_engines dm') = (map_of (dm_engines dm))(t \<mapsto> task_entry t e)"
    using storage_net_accepts [OF assms(1) req(1,2), of self w rnd] assms(3) req(3) by auto
  ultimately show ?thesis
    using neogiate_first_reply [where net = "units_net ctx cluster (storage_net self)" and w = "(c, (dm, w, rnd))"
        and ctx = ctx and t = t and e = e and ?req0.0 = req0 and r = r and w' = "(c, (dm', w', rnd))"]
    by (auto simp: units_net_def)
qed

abbreviation apart :: "client_ctx \<Rightarrow> bool" where
  "apart ctx \<equiv> (ep_url (cl_computation ctx), ep_port (cl_computation ctx)) \<noteq> (ep_url (cl_storage ctx), ep_port (cl_storage ctx))"

lemma units_deploy_task:
  assumes "tm_wf tm" "abs_table tm = (V, E)" "rq_attr req0 = None" "deployable ds a" "apart ctx"
  shows "\<exists>tm' nodes' jobs'.
    create_deploy_task (units_net ctx (cluster_net dump u g self name) storage) ctx req0 g' t ds a busy ((tm, nodes, jobs), s) =
      Some (Inr (verdict_result (deploy_verdict V nodes name t (ds_src ds) a) a, ((tm', nodes', jobs @ jobs'), s))) \<and>
    deployed_effect (deploy_verdict V nodes name t (ds_src ds) a) V E t a tm tm' jobs'"
proof -
  let ?v = "deploy_verdict V nodes name t (ds_src ds) a" and ?t = "deploy_task_of ctx t ds a g' req0"
  obtain r ts tm' nodes' jobs' where
    net: "cluster_net dump u g self name ?t (tm, nodes, jobs) = (Some r, (tm', nodes', jobs @ jobs'))"
    and r: "deployment_reply ?v ts t r" "?v \<noteq> Dep_busy" "?v = Dep_succeed \<longrightarrow> sint ts = verdict_result ?v a"
    and eff: "deployed_effect ?v V E t a tm tm' jobs'"
    using cluster_deploys [OF assms(1-4), where dump = dump and u = u and g = g and self = self and name = name and ctx = ctx
        and t = t and g' = g' and nodes = nodes and jobs = jobs] by blast
  have "reaches ?t (cl_computation ctx)" "\<not> reaches ?t (cl_storage ctx)"
    using assms(5) by (auto simp: reaches_def create_client_task_def)
  with net have "units_net ctx (cluster_net dump u g self name) storage ?t ((tm, nodes, jobs), s) =
      (Some r, ((tm', nodes', jobs @ jobs'), s))" by (simp add: units_net_def)
  from deploy_first_reply [where net = "units_net ctx (cluster_net dump u g self name) storage" and busy = busy, OF this r(1,2)] r(3)
  have "create_deploy_task (units_net ctx (cluster_net dump u g self name) storage) ctx req0 g' t ds a busy ((tm, nodes, jobs), s) =
      Some (Inr (verdict_result ?v a, ((tm', nodes', jobs @ jobs'), s)))" by (auto simp: verdict_result_def)
  with eff show ?thesis by blast
qed

lemma cp_deployable: "deployable (cp_datasource msg) cp_attr"
  by (simp add: deployable_def cp_datasource_def cp_attr_def)

lemma deployed_effect_known:
  assumes "deployed_effect Dep_succeed V E t a tm tm' jobs" and "abs_table tm = (V, E)"
  shows "tm_wf tm'" "\<forall>x. known tm' x \<longleftrightarrow> known tm x \<or> x = t"
  using assms by (auto simp: deployed_effect_def abs_table_def known_def)


section \<open>Pushing a model\<close>

text \<open>The data-transfer server of the storage unit at the other end of a push.\<close>

definition push_net :: "u32 \<Rightarrow> data_task \<Rightarrow> 'w datamanager \<times> 'w \<Rightarrow> bool \<times> 'w datamanager \<times> 'w" where
  "push_net g t = (\<lambda>(dm, w).
     case data_process g (tk_req t) DtResponse_new dm w of
       Inl _ \<Rightarrow> (False, (dm, w))
     | Inr (_, w') \<Rightarrow> (True, (dm, w')))"

lemma letter_code: "n < 52 \<Longrightarrow> of_char (letter n) \<in> {65..90} \<union> {97..(122::nat)}"
  by (auto simp: letter_def of_char_of)

lemma drawn_id_chars:
  assumes "\<And>i. re_digits env w i < 10" "\<And>i. re_letters env w i < 52" "c \<in> set (drawn_id env w)"
  shows "c \<noteq> CHR ''_'' \<and> c \<noteq> CHR 0x00"
proof -
  consider i where "c = char_of (48 + re_digits env w i)" | i where "c = letter (re_letters env w i)"
    using assms(3) by (auto simp: drawn_id_def)
  then have "(of_char c :: nat) \<in> {48..57} \<union> {65..90} \<union> {97..122}"
  proof cases
    case (1 i)
    with assms(1) [of i] show ?thesis by (simp add: of_char_of)
  next
    case (2 i)
    with letter_code [OF assms(2), of i] show ?thesis by auto
  qed
  then show ?thesis by auto
qed

lemma swapped_names_differ:
  assumes "CHR ''_'' \<notin> set a" "CHR ''_'' \<notin> set b" "CHR 0x00 \<notin> set a \<union> set b \<union> set (dm_root dm)" "a \<noteq> b"
  shows "c_str (engine_path dm a b) \<noteq> c_str (engine_path dm b a)"
proof
  assume "c_str (engine_path dm a b) = c_str (engine_path dm b a)"
  then have "a @ CHR ''_'' # b = b @ CHR ''_'' # a"
    using assms(3) by (simp add: engine_path_def c_str_id)
  then have "takeWhile (\<lambda>c. c \<noteq> CHR ''_'') (a @ CHR ''_'' # b) = takeWhile (\<lambda>c. c \<noteq> CHR ''_'') (b @ CHR ''_'' # a)"
    by (rule arg_cong)
  moreover have "takeWhile (\<lambda>c. c \<noteq> CHR ''_'') (x @ CHR ''_'' # y) = x" if "CHR ''_'' \<notin> set x" for x y :: string
    using that by (subst takeWhile_append2) auto
  ultimately show False using assms by simp
qed

definition push_message :: "string \<Rightarrow> string \<Rightarrow> atmessage" where
  "push_message name dat = \<lparr>am_type = AT_LONG, am_cmd = ''MDPUSH'', am_param = [name], am_data = dat\<rparr>"

lemma push_model_stores:
  assumes "push_model env client u st flag dat name mid (dm, w) = Inr (True, (dm', w'))"
    and "re_push env = push_net g" and "dq_adtsrcs (re_dt_request env) = []"
  shows "dm' = dm \<and> (\<exists>r. engine_push dm name mid dat w = Inr (r, w'))"
proof -
  have "serve_sources g 1 [pushed_adtsrc (re_adtsrc env) dat name mid] dm resp w = Inr (resp', w') \<Longrightarrow>
      \<exists>r. engine_push dm name mid dat w = Inr (r, w')" for resp resp'
    by (auto simp: serve_source_def serve_def EnginePush_def pushed_adtsrc_def io_bind_def io_return_def)
  with assms show ?thesis
    by (auto simp: push_model_def push_net_def router_client_create_def data_process_def Let_def DtRequest_set_direction_def
        DtRequest_set_token_def DtRequest_set_dest_def DtRequest_set_src_def DtRequest_add_adtsrc_def split: sum.splits)
qed

lemma push_given_answered:
  assumes "push_given env client u st name dat r w = Some (Inr (''AT+MDPUSH=0,'', r', w'))"
  shows "\<exists>mid. create_id env r w = Some mid \<and> r' = r\<lparr>rt_cloud := rt_cloud r @ [(name, mid)]\<rparr> \<and>
    push_model env client u st (rt_flag r) dat name mid w = Inr (True, w')"
  using assms by (auto simp: push_given_def split: option.splits if_splits)

lemma MDPUSH_data:
  assumes "MDPUSH env (push_message name dat) r w = Some (Inr (''AT+MDPUSH=0,'', r', w'))"
  shows "\<exists>mid client u st. create_id env r w = Some mid \<and> r' = r\<lparr>rt_cloud := rt_cloud r @ [(name, mid)]\<rparr> \<and>
    push_model env client u st (rt_flag r) dat name mid w = Inr (True, w')"
proof -
  obtain client u st where "push_given env client u st name dat r w = Some (Inr (''AT+MDPUSH=0,'', r', w'))"
    using assms by (auto simp: MDPUSH_def push_message_def push_switch_def Let_def split: option.splits if_splits)
  from push_given_answered [OF this] show ?thesis by blast
qed

lemma create_id_chars:
  assumes "\<And>k s. mset (re_shuffle env w k s) = mset s" "\<And>i. re_digits env w i < 10" "\<And>i. re_letters env w i < 52"
    and "create_id env r w = Some mid"
  shows "CHR ''_'' \<notin> set mid" "CHR 0x00 \<notin> set mid" "length mid = 8"
proof -
  obtain n where "mid = shuffled (re_shuffle env w) 0 (drawn_id env w) n"
    using assms(4) by (auto simp: create_id_def shuffle_until_Some)
  then have m: "mset mid = mset (drawn_id env w)" using shuffled_mset [of "re_shuffle env w"] assms(1) by simp
  from mset_eq_length [OF m] show "length mid = 8" by (simp add: drawn_id_def)
  from mset_eq_setD [OF m] show "CHR ''_'' \<notin> set mid" "CHR 0x00 \<notin> set mid"
    using drawn_id_chars [of env w, OF assms(2,3)] by auto
qed

text \<open>
  C4: a model pushed with its data is answered with success and recorded as remote, yet no task can get it. The
  router sends name and identifier in the order opposite to the one the storage unit keeps its engines by. The file of
  the engine a task on this model is bound to is left as it was, and while it is absent a pull of the engine gives
  nothing. (The name is not of the length of an identifier, which is 8, and has no underscore.)
\<close>

theorem pushed_model_unreachable:
  assumes unit: "routed (dm_sched dm) (Get_local_fileoperations px)" "file_laws px content fd_at"
      "\<And>p m w. content w p = None \<Longrightarrow> fst (px_open px p O_RDONLY m w) = -1"
    and env: "re_push env = push_net g" "dq_adtsrcs (re_dt_request env) = []"
      "\<And>k s. mset (re_shuffle env (dm, w) k s) = mset s" "\<And>i. re_digits env (dm, w) i < 10" "\<And>i. re_letters env (dm, w) i < 52"
    and name: "length name \<noteq> 8" "CHR ''_'' \<notin> set name" "CHR 0x00 \<notin> set name \<union> set (dm_root dm)"
    and pushed: "MDPUSH env (push_message name dat) r (dm, w) = Some (Inr (''AT+MDPUSH=0,'', r', (dm', w')))"
  shows "\<exists>mid. rt_cloud r' = rt_cloud r @ [(name, mid)] \<and> dm' = dm \<and>
    task_entry t (named_engine (name, mid)) = ((mid, name), []) \<and>
    content w' (c_str (engine_path dm mid name)) = content w (c_str (engine_path dm mid name)) \<and>
    (content w (c_str (engine_path dm mid name)) = None \<longrightarrow> (\<exists>w''. engine_pull dm mid name w' = Inr ([], w'')))"
proof -
  obtain mid client u st where mid: "create_id env r (dm, w) = Some mid" and r': "r' = r\<lparr>rt_cloud := rt_cloud r @ [(name, mid)]\<rparr>"
    and push: "push_model env client u st (rt_flag r) dat name mid (dm, w) = Inr (True, (dm', w'))"
    using MDPUSH_data [OF pushed] by blast
  obtain x where dm': "dm' = dm" and x: "engine_push dm name mid dat w = Inr (x, w')"
    using push_model_stores [OF push env(1,2)] by blast
  note chars = create_id_chars [OF env(3-5) mid]
  have "name \<noteq> mid" using chars(3) name(1) by auto
  then have "c_str (engine_path dm mid name) \<noteq> c_str (engine_path dm name mid)"
    using swapped_names_differ [of mid name dm] chars name by auto
  with engine_push_keeps [OF unit(1,2), of name mid dat w] x
  have same: "content w' (c_str (engine_path dm mid name)) = content w (c_str (engine_path dm mid name))" by auto
  have "\<exists>w''. engine_pull dm mid name w' = Inr ([], w'')" if "content w (c_str (engine_path dm mid name)) = None"
  proof -
    have "fst (px_open px (c_str (engine_path dm mid name)) O_RDONLY MODE_FILE w') = -1"
      by (rule unit(3)) (simp add: same that)
    then obtain w2 where "px_open px (c_str (engine_path dm mid name)) O_RDONLY MODE_FILE w' = (-1, w2)"
      by (cases "px_open px (c_str (engine_path dm mid name)) O_RDONLY MODE_FILE w'") simp
    then show ?thesis
      using unit(1) by (simp add: engine_pull_def io_bind_def local_ops pull_data_def io_return_def)
  qed
  moreover have "rt_cloud r' = rt_cloud r @ [(name, mid)]" using r' by simp
  moreover have "task_entry t (named_engine (name, mid)) = ((mid, name), [])" by (simp add: task_entry_def named_engine_def)
  ultimately show ?thesis using dm' same by (intro exI [of _ mid]) simp
qed

section \<open>Witnesses\<close>

text \<open>An environment over any world, with no files of the router's own.\<close>

definition remote_env :: "'w exchange \<Rightarrow> (data_task \<Rightarrow> 'w \<Rightarrow> bool \<times> 'w) \<Rightarrow> 'w router_env" where
  "remote_env net push =
     \<lparr>re_files = \<lparr>rf_remove_all = \<lambda>_ w. Inr w, rf_create_directory = \<lambda>_ w. Inr w, rf_remove = \<lambda>_ w. Inr (False, w),
        rf_open = \<lambda>_ w. (False, w), rf_write = \<lambda>_ _ w. w, rf_load = \<lambda>_ _. None\<rparr>,
      re_digits = \<lambda>_ i. i mod 10, re_letters = \<lambda>_ i. i mod 52, re_shuffle = \<lambda>_ _. rotate1,
      re_net = net, re_push = push, re_exec = \<lambda>_ w. (No_pipe, w),
      re_deploying = \<lambda>_. [], re_waiting = \<lambda>_. [], re_sleeping = \<lambda>_ _. [], re_request = Request_new 0 0 0 0,
      re_attr = (0, False), re_dt_request = DtRequest_new 0, re_adtsrc = 0\<rparr>"

definition system_env :: "(cluster_state \<times> mem datamanager \<times> mem \<times> (nat \<Rightarrow> u64)) router_env" where
  "system_env = remote_env (units_net sample_client
     (cluster_net sq_output_path 0 (Request_new 0 0 0 0) sample_server ''n'') (storage_net storage_self)) (\<lambda>_ w. (True, w))"

definition nonblocking :: atmessage where
  "nonblocking = start_message [''nonblock'']"

lemma sample_apart: "apart (rt_management sample_router)"
  by (simp add: sample_router_def sample_client_def main_management_def ManagementClient_setup_def ManagementClient_new_def
      main_endpoint_def Endpoint_setter_defs Endpoint_new_def known_proto_def)

lemma nonblocking_facts:
  "starts_task nonblocking" "length (am_param nonblocking) = 3" "cut_at ''_'' (am_param nonblocking ! 0) = Some (''mid'', ''c1'')"
  using start_message_facts by (simp_all add: nonblocking_def start_message_def)


definition storage_env :: "(mem datamanager \<times> mem) router_env" where
  "storage_env = remote_env (\<lambda>_ w. (None, w)) (push_net 0)"

lemma storage_env_simps [simp]:
  "re_push storage_env = push_net 0" "re_dt_request storage_env = DtRequest_new 0"
  "re_shuffle storage_env w k s = rotate1 s" "re_digits storage_env w i = i mod 10" "re_letters storage_env w i = i mod 52"
  by (simp_all add: storage_env_def remote_env_def)

lemma push_model_succeeds:
  assumes "routed (dm_sched dm) (Get_local_fileoperations px)" and "re_push env = push_net g"
    and "dq_adtsrcs (re_dt_request env) = []" and "stoi st = Inr port"
  shows "\<exists>w'. push_model env client u st flag dat name mid (dm, w) = Inr (True, (dm, w'))"
proof -
  obtain x w' where "engine_push dm name mid dat w = Inr (x, w')" using engine_push_Inr [OF assms(1)] by blast
  then have "\<exists>resp'. serve_sources g 1 [pushed_adtsrc (re_adtsrc env) dat name mid] dm resp w = Inr (resp', w')" for resp
    by (auto simp: serve_source_def serve_def EnginePush_def pushed_adtsrc_def io_bind_def io_return_def)
  then obtain resp' where "data_process g (tk_req (router_client_create client \<lparr>sd_addr = u, sd_port = port, sd_ssl = fg_ssl flag\<rparr>
      \<lparr>dc_src = fg_datatransfer_router flag, dc_dest = fg_datatransfer_storage flag, dc_token = [],
        dc_direction = 1, dc_adtsrcs = [pushed_adtsrc (re_adtsrc env) dat name mid]\<rparr> (re_dt_request env))) DtResponse_new dm w = Inr (resp', w')"
    using assms(3)
    by (auto simp: router_client_create_def data_process_def Let_def DtRequest_set_direction_def
        DtRequest_set_token_def DtRequest_set_dest_def DtRequest_set_src_def DtRequest_add_adtsrc_def)
  then show ?thesis using assms(2,4) by (simp add: push_model_def push_net_def)
qed

lemma sample_create_id: "create_id storage_env sample_router w = Some (rotate1 (drawn_id storage_env w))"
proof -
  have "id_unused sample_router i" if "length i = 8" for i
    using that by (auto simp: id_unused_def sample_router_def)
  then have "id_unused sample_router (rotate1 (drawn_id storage_env w))" by (simp add: drawn_id_def)
  then show ?thesis unfolding create_id_def by (subst shuffle_until.simps) (simp add: Let_def)
qed

lemma sample_flag_cut:
  "cut_at '':'' (fg_datatransfer_router (rt_flag sample_router)) = Some (''10.0.0.1'', ''80'')"
  "cut_at '':'' (fg_datatransfer_storage (rt_flag sample_router)) = Some (''10.0.0.2'', ''81'')"
  "stoi ''80'' = Inr 80" "stoi ''81'' = Inr 81"
  by (simp_all add: cut_at_def sample_router_def sample_flag_def stoi_def is_space_def is_digit_def decimal_def int32_min_def
      int32_max_def)

theorem pushed_model_unreachable_witness:
  "\<exists>r' w' mid w''. MDPUSH storage_env (push_message ''cat2'' ''code'') sample_router (mem_tasks, (Map.empty, Map.empty)) =
       Some (Inr (''AT+MDPUSH=0,'', r', (mem_tasks, w'))) \<and>
     rt_cloud r' = [(''dog'', ''c1''), (''cat2'', mid)] \<and> engine_pull mem_tasks mid ''cat2'' w' = Inr ([], w'')"
proof -
  let ?w = "(Map.empty, Map.empty) :: mem"
  have root: "dm_root mem_tasks = ''/data''" by (simp add: mem_tasks_def)
  have absent: "fst (px_open mem_posix p O_RDONLY m w) = -1" if "fst w p = None" for p m and w :: mem
    using that by (simp add: mem_posix_def mem_open_def)
  have perm: "mset (re_shuffle storage_env (mem_tasks, ?w) k s) = mset s" for k s by (cases s) simp_all
  have env: "re_push storage_env = push_net 0" "dq_adtsrcs (re_dt_request storage_env) = []" by (simp_all add: DtRequest_new_def)
  let ?mid = "rotate1 (drawn_id storage_env (mem_tasks, ?w))"
  obtain w' where w': "push_model storage_env (router_client_setup \<lparr>sd_addr = [], sd_port = 0, sd_ssl = False\<rparr>
      \<lparr>sd_addr = ''10.0.0.1'', sd_port = 80, sd_ssl = fg_ssl (rt_flag sample_router)\<rparr>) ''10.0.0.2'' ''81'' (rt_flag sample_router)
      ''code'' ''cat2'' ?mid (mem_tasks, ?w) = Inr (True, (mem_tasks, w'))"
    using push_model_succeeds [OF mem_tasks_routed env sample_flag_cut(4)] by blast
  have "rt_user sample_router \<noteq> []" "find (\<lambda>e. fst e = ''cat2'') (rt_cloud sample_router) = None"
    "find (\<lambda>e. fst e = ''cat2'') (rt_private sample_router) = None"
    by (simp_all add: sample_router_def)
  with w' have p: "MDPUSH storage_env (push_message ''cat2'' ''code'') sample_router (mem_tasks, ?w) =
      Some (Inr (''AT+MDPUSH=0,'', sample_router\<lparr>rt_cloud := rt_cloud sample_router @ [(''cat2'', ?mid)]\<rparr>, (mem_tasks, w')))"
    by (simp add: MDPUSH_def push_message_def sample_flag_cut push_switch_def push_given_def sample_create_id answer_def)
  from pushed_model_unreachable [OF mem_tasks_routed mem_posix_laws absent env perm _ _ _ _ _ p]
  obtain mid where mid: "[(''dog'', ''c1''), (''cat2'', ?mid)] = [(''dog'', ''c1''), (''cat2'', mid)]"
    "\<exists>w''. engine_pull mem_tasks mid ''cat2'' w' = Inr ([], w'')"
    by (auto simp: root sample_router_def)
  then show ?thesis using p by (auto simp: sample_router_def)
qed

end
