(* ===== verification/AT_Grammar.thy ===== *)
theory AT_Grammar
  imports AT_Parser
begin

text \<open>
  What the parser of \<^verbatim>\<open>misc/parser/at\<close> accepts: the text of a message, as \<open>render\<close> writes it, and nothing
  else but line feeds between its tokens.
\<close>

section \<open>Messages and their text\<close>

definition param_ok :: "string \<Rightarrow> bool" where
  "param_ok p \<longleftrightarrow> p \<noteq> [] \<and> (\<forall>c \<in> set p. param_char c)"

definition at_ok :: "atmessage \<Rightarrow> bool" where
  "at_ok m \<longleftrightarrow> am_cmd m \<noteq> [] \<and> (\<forall>c \<in> set (am_cmd m). upper c) \<and> (\<forall>p \<in> set (am_param m). param_ok p) \<and>
     (case am_type m of AT_NON \<Rightarrow> False | AT_CMD \<Rightarrow> am_data m = [] | AT_LONG \<Rightarrow> am_data m \<noteq> []
      | _ \<Rightarrow> am_data m = [] \<and> am_param m = [])"

fun render_params :: "string list \<Rightarrow> string" where
  "render_params [] = []"
| "render_params (p # ps) = CHR ''='' # p @ concat (map (Cons (CHR '','')) ps)"

definition render :: "atmessage \<Rightarrow> string" where
  "render m = ''AT'' @ (CHR ''+'' # am_cmd m) @
     (case am_type m of
        AT_SEARCH \<Rightarrow> ''='' @ ''?'' @ at_eol
      | AT_TEST \<Rightarrow> ''?'' @ at_eol
      | AT_LONG \<Rightarrow> render_params (am_param m) @ (at_eol @ am_data m) @ at_fin
      | _ \<Rightarrow> render_params (am_param m) @ at_eol)"

section \<open>Scanning the text of a message\<close>

lemma match_word_simps [simp]:
  "match_word p [] = (if p = [] then Some 0 else None)"
  "match_word (x # p) (c # s) = (if x = c \<and> prefix p s then Some (Suc (length p)) else None)"
  by (auto simp: match_word_def)

lemma match_class_simps [simp]:
  "match_class c P tail [] = None"
  "x \<noteq> c \<Longrightarrow> match_class c P tail (x # xs) = None"
  by (simp_all add: match_class_def Let_def)

lemma takeWhile_stop: "\<forall>x \<in> set w. P x \<Longrightarrow> s = [] \<or> \<not> P (hd s) \<Longrightarrow> takeWhile P (w @ s) = w"
  by (cases s) (auto simp: takeWhile_append)

lemma match_class_word:
  "w \<noteq> [] \<Longrightarrow> \<forall>x \<in> set w. P x \<Longrightarrow> s = [] \<or> \<not> P (hd s) \<Longrightarrow>
     match_class c P tail (c # w @ s) = (if prefix tail s then Some (1 + length w + length tail) else None)"
  using takeWhile_stop [of w P s] unfolding match_class_def Let_def list.case by simp

lemma match_any_simps [simp]:
  "match_any [] = None" "match_any (c # s) = (if c = CHR 0x0A then None else Some 1)"
  by (simp_all add: match_any_def)

lemma match_data_other [simp]: "c \<noteq> CHR 0x0D \<Longrightarrow> match_data (c # s) = None"
  by (simp add: match_data_def)

lemmas scan_defs = at_scan_def at_rules_def

lemma scan_at [simp]: "at_scan (CHR ''A'' # CHR ''T'' # CHR ''+'' # s) = Some (T_AT, 2)"
  by (simp add: scan_defs)

lemma scan_command:
  "w \<noteq> [] \<Longrightarrow> \<forall>c \<in> set w. upper c \<Longrightarrow> s = [] \<or> \<not> upper (hd s) \<Longrightarrow>
     at_scan (CHR ''+'' # w @ s) = Some (T_COMMAND, Suc (length w))"
  by (auto simp: scan_defs match_class_word)

lemma scan_single:
  "param_ok p \<Longrightarrow> at_scan (CHR ''='' # p @ at_eol @ s) = Some (T_SINGLEPARAM, Suc (length p))"
  by (auto simp: scan_defs match_class_word param_ok_def param_char_def upper_def)

lemma scan_start:
  "param_ok p \<Longrightarrow> at_scan (CHR ''='' # p @ CHR '','' # s) = Some (T_STARTPARAM, Suc (length p))"
  by (auto simp: scan_defs match_class_word param_ok_def param_char_def upper_def)

lemma scan_param:
  "param_ok p \<Longrightarrow> at_scan (CHR '','' # p @ CHR '','' # s) = Some (T_PARAM, Suc (length p))"
  by (auto simp: scan_defs match_class_word param_ok_def param_char_def upper_def)

lemma scan_last:
  "param_ok p \<Longrightarrow> at_scan (CHR '','' # p @ at_eol @ s) = Some (T_LASTPARAM, Suc (length p))"
  by (auto simp: scan_defs match_class_word param_ok_def param_char_def upper_def)

lemma scan_equal [simp]: "at_scan (CHR ''='' # CHR ''?'' # s) = Some (T_EQUAL, 1)"
  by (simp add: scan_defs match_class_def Let_def param_char_def upper_def)

lemma scan_qst [simp]: "at_scan (CHR ''?'' # s) = Some (T_QST, 1)"
  by (simp add: scan_defs)

lemma scan_end [simp]: "at_scan at_eol = Some (T_END, 2)"
  by (simp add: scan_defs match_data_def)

lemma scan_fin [simp]: "at_scan [CHR ''<'', CHR ''<'', CHR ''<'', CHR 0x0D, CHR 0x0A] = Some (T_DATAEND, 5)"
  by (simp add: scan_defs)

lemma last_occ_end: "last_occ at_fin (x @ at_fin) = Some (length x)"
  by (induction x) simp_all

lemma scan_data:
  assumes "d \<noteq> []"
  shows "at_scan ((at_eol @ d) @ at_fin) = Some (T_DATA, length (at_eol @ d))"
proof -
  obtain c e where d: "d = c # e" using assms by (cases d) simp_all
  have "match_data ((at_eol @ d) @ at_fin) = Some (3 + length e + 5)"
    using last_occ_end [of e] by (simp add: match_data_def d)
  then show ?thesis by (simp add: scan_defs d)
qed

lemma at_scan_Nil [simp]: "at_scan [] = None"
  by (simp add: scan_defs match_data_def)

lemma lex_app: "at_scan (x @ s) = Some (t, length x) \<Longrightarrow> x \<noteq> [] \<Longrightarrow> at_lex (x @ s) = (t, x) # at_lex s"
  by (cases x) simp_all

declare at_lex.simps(2) [simp del]

fun rest_tokens :: "string list \<Rightarrow> (at_token \<times> string) list" where
  "rest_tokens [] = []"
| "rest_tokens (q # qs) =
     (if qs = [] then [(T_LASTPARAM, CHR '','' # q)] else (T_PARAM, CHR '','' # q) # rest_tokens qs)"

lemma lex_rest:
  "qs \<noteq> [] \<Longrightarrow> \<forall>q \<in> set qs. param_ok q \<Longrightarrow>
     at_lex (concat (map (Cons (CHR '','')) qs) @ at_eol @ s) = rest_tokens qs @ at_lex (at_eol @ s)"
proof (induction qs)
  case (Cons q qs)
  show ?case
  proof (cases qs)
    case Nil
    with Cons.prems lex_app [of "CHR '','' # q" "at_eol @ s"] scan_last [of q s] show ?thesis by simp
  next
    case (Cons q' qs')
    with Cons.prems Cons.IH scan_param [of q "q' @ concat (map (Cons (CHR '','')) qs') @ at_eol @ s"]
      lex_app [of "CHR '','' # q" "concat (map (Cons (CHR '','')) qs) @ at_eol @ s" T_PARAM]
    show ?thesis by simp
  qed
qed simp

lemma c_str_params: "\<forall>c \<in> set p. param_char c \<Longrightarrow> c_str p = p" "\<forall>c \<in> set p. upper c \<Longrightarrow> c_str p = p"
  by (rule c_str_id, fastforce simp: param_char_def upper_def)+

lemma parse_rest:
  "qs \<noteq> [] \<Longrightarrow> \<forall>q \<in> set qs. param_ok q \<Longrightarrow>
     parse_param (rest_tokens qs @ ts) m = Some (ts, m\<lparr>am_param := am_param m @ qs\<rparr>)"
  by (induction qs arbitrary: m) (auto simp: add_param_def param_ok_def c_str_params)

text \<open>The part of a message behind its command, with parameters.\<close>

lemma parse_next_params:
  assumes "\<forall>p \<in> set ps. param_ok p"
  shows "parse_next (at_lex (render_params ps @ at_eol @ s)) m =
    parse_data (at_lex (at_eol @ s)) (m\<lparr>am_param := am_param m @ ps\<rparr>)"
proof (cases ps)
  case Nil
  have "at_scan (at_eol @ s) \<noteq> None \<and> fst (the (at_scan (at_eol @ s))) \<in> {T_END, T_DATA}"
    by (auto simp: scan_defs split: option.split)
  then obtain t n where "at_scan (at_eol @ s) = Some (t, n)" "t \<in> {T_END, T_DATA}" by auto
  then have "\<exists>x ts. at_lex (at_eol @ s) = (t, x) # ts \<and> t \<in> {T_END, T_DATA}" by (simp add: at_lex.simps)
  with Nil show ?thesis by (auto simp: parse_next_def parse_data_def)
next
  case (Cons p qs)
  show ?thesis
  proof (cases "qs = []")
    case True
    have "at_lex (render_params ps @ at_eol @ s) = (T_SINGLEPARAM, CHR ''='' # p) # at_lex (at_eol @ s)"
      using True Cons assms lex_app [of "CHR ''='' # p" "at_eol @ s"] scan_single [of p s] by simp
    with True Cons assms show ?thesis
      by (simp add: parse_next_def add_param_def param_ok_def c_str_params)
  next
    case False
    then obtain q qs' where qs: "qs = q # qs'" by (cases qs) simp_all
    have "at_lex (render_params ps @ at_eol @ s) = (T_STARTPARAM, CHR ''='' # p) # rest_tokens qs @ at_lex (at_eol @ s)"
      using False Cons assms qs lex_app [of "CHR ''='' # p" "concat (map (Cons (CHR '','')) qs) @ at_eol @ s" T_STARTPARAM]
        scan_start [of p "q @ concat (map (Cons (CHR '','')) qs') @ at_eol @ s"] lex_rest [of qs s]
      by simp
    with False Cons assms show ?thesis
      by (simp add: parse_next_def add_param_def param_ok_def c_str_params parse_rest)
  qed
qed

lemma lex_begin:
  assumes "w \<noteq> []" and "\<forall>c \<in> set w. upper c" and "s = [] \<or> \<not> upper (hd s)"
  shows "parse_begin (at_lex (''AT'' @ (CHR ''+'' # w) @ s)) =
    parse_next (at_lex s) (atmessage_none\<lparr>am_cmd := w\<rparr>)"
proof -
  have "at_lex (''AT'' @ (CHR ''+'' # w) @ s) = (T_AT, ''AT'') # at_lex ((CHR ''+'' # w) @ s)"
    by (rule lex_app) simp_all
  also have "at_lex ((CHR ''+'' # w) @ s) = (T_COMMAND, CHR ''+'' # w) # at_lex s"
    by (rule lex_app) (use assms scan_command in simp_all)
  finally show ?thesis
    by (simp add: parse_begin_def set_cmd_def c_str_params assms(2))
qed

lemma render_params_hd: "render_params ps @ at_eol @ s = [] \<or> \<not> upper (hd (render_params ps @ at_eol @ s))"
  by (cases ps) (simp_all add: upper_def)

lemma parse_data_end: "parse_data (at_lex at_eol) m = Some ([], set_type AT_CMD m)"
  using lex_app [of at_eol "[]" T_END] by (simp add: parse_data_def)

lemma parse_data_long:
  "d \<noteq> [] \<Longrightarrow> parse_data (at_lex (at_eol @ d @ at_fin)) m = Some ([], set_type AT_LONG (set_data d m))"
  using lex_app [of "at_eol @ d" at_fin T_DATA] lex_app [of at_fin "[]" T_DATAEND] scan_data [of d]
  by (simp add: parse_data_def)

lemma render_parsed:
  assumes "at_ok m"
  shows "at_parse (render m) = (True, m)"
proof -
  let ?w = "am_cmd m" let ?m = "atmessage_none\<lparr>am_cmd := am_cmd m\<rparr>"
  have w: "?w \<noteq> []" "\<forall>c \<in> set ?w. upper c" and ps: "\<forall>p \<in> set (am_param m). param_ok p"
    using assms by (simp_all add: at_ok_def)
  have whole: "at_parse (''AT'' @ (CHR ''+'' # ?w) @ s) = (True, m)"
    if "s = [] \<or> \<not> upper (hd s)" and "parse_next (at_lex s) ?m = Some ([], m)" for s
    using that by (simp only: at_parse_def lex_begin [OF w that(1)]) simp
  show ?thesis
  proof (cases "am_type m")
    case AT_NON
    with assms show ?thesis by (simp add: at_ok_def)
  next
    case AT_CMD
    have "parse_next (at_lex (render_params (am_param m) @ at_eol)) ?m = Some ([], m)"
      using parse_next_params [OF ps, of "[]" ?m] parse_data_end AT_CMD assms
      by (simp add: set_type_def at_ok_def atmessage_none_def)
    from whole [OF _ this] show ?thesis
      using render_params_hd [of "am_param m" "[]"] AT_CMD by (simp add: render_def)
  next
    case AT_LONG
    then have "am_data m \<noteq> []" using assms by (simp add: at_ok_def)
    then have "parse_next (at_lex (render_params (am_param m) @ at_eol @ am_data m @ at_fin)) ?m = Some ([], m)"
      using parse_next_params [OF ps, of "am_data m @ at_fin" ?m] parse_data_long AT_LONG
      by (simp add: set_type_def set_data_def atmessage_none_def)
    from whole [OF _ this] show ?thesis
      using render_params_hd [of "am_param m" "am_data m @ at_fin"] AT_LONG by (simp add: render_def)
  next
    case AT_SEARCH
    have "at_lex (''='' @ ''?'' @ at_eol) = [(T_EQUAL, ''=''), (T_QST, ''?''), (T_END, at_eol)]"
      using lex_app [of "''=''" "''?'' @ at_eol" T_EQUAL] lex_app [of "''?''" "at_eol" T_QST] lex_app [of at_eol "[]" T_END]
      by simp
    then have "parse_next (at_lex (''='' @ ''?'' @ at_eol)) ?m = Some ([], m)"
      using AT_SEARCH assms by (simp only:) (simp add: parse_next_def set_type_def at_ok_def atmessage_none_def)
    from whole [OF _ this] show ?thesis using AT_SEARCH by (simp add: render_def upper_def)
  next
    case AT_TEST
    have "at_lex (''?'' @ at_eol) = [(T_QST, ''?''), (T_END, at_eol)]"
      using lex_app [of "''?''" "at_eol" T_QST] lex_app [of at_eol "[]" T_END]
      by simp
    then have "parse_next (at_lex (''?'' @ at_eol)) ?m = Some ([], m)"
      using AT_TEST assms by (simp only:) (simp add: parse_next_def set_type_def at_ok_def atmessage_none_def)
    from whole [OF _ this] show ?thesis using AT_TEST by (simp add: render_def upper_def)
  qed
qed

section \<open>What is accepted\<close>

text \<open>The text of each token.\<close>

fun token_ok :: "at_token \<Rightarrow> string \<Rightarrow> bool" where
  "token_ok T_AT x \<longleftrightarrow> x = ''AT''"
| "token_ok T_COMMAND x \<longleftrightarrow> (\<exists>w. x = CHR ''+'' # w \<and> w \<noteq> [] \<and> (\<forall>c \<in> set w. upper c))"
| "token_ok T_EQUAL x \<longleftrightarrow> x = ''=''"
| "token_ok T_QST x \<longleftrightarrow> x = ''?''"
| "token_ok T_PARAM x \<longleftrightarrow> (\<exists>p. x = CHR '','' # p \<and> param_ok p)"
| "token_ok T_LASTPARAM x \<longleftrightarrow> (\<exists>p. x = CHR '','' # p \<and> param_ok p)"
| "token_ok T_STARTPARAM x \<longleftrightarrow> (\<exists>p. x = CHR ''='' # p \<and> param_ok p)"
| "token_ok T_SINGLEPARAM x \<longleftrightarrow> (\<exists>p. x = CHR ''='' # p \<and> param_ok p)"
| "token_ok T_DATAEND x \<longleftrightarrow> x = at_fin"
| "token_ok T_END x \<longleftrightarrow> x = at_eol"
| "token_ok T_DATA x \<longleftrightarrow> (\<exists>d. x = at_eol @ d \<and> d \<noteq> [])"
| "token_ok T_ERROR x \<longleftrightarrow> length x = 1"

lemma longest_rule: "longest rs s = Some (t, n, trail) \<Longrightarrow> \<exists>m. (t, trail, m) \<in> set rs \<and> m s = Some n"
  by (induction rs s rule: longest.induct) (auto split: option.splits if_splits)

lemma longest_None: "longest rs s = None \<Longrightarrow> (t, trail, m) \<in> set rs \<Longrightarrow> m s = None"
  by (induction rs s rule: longest.induct) (auto split: option.splits if_splits)

lemma match_class_Some:
  assumes "match_class c P tail s = Some n"
  shows "\<exists>w. w \<noteq> [] \<and> (\<forall>x \<in> set w. P x) \<and> take (n - length tail) s = c # w \<and> 0 < n - length tail"
proof -
  obtain xs where s: "s = c # xs" and n: "n = 1 + length (takeWhile P xs) + length tail" and ne: "takeWhile P xs \<noteq> []"
    using assms by (auto simp: match_class_def Let_def split: list.splits if_splits)
  have "take (length (takeWhile P xs)) xs = takeWhile P xs" by (metis takeWhile_eq_take)
  with s n ne show ?thesis
    by (intro exI [of _ "takeWhile P xs"]) (auto dest: set_takeWhileD)
qed

lemma match_word_Some: "match_word p s = Some n \<Longrightarrow> n = length p \<and> take n s = p"
  by (auto simp: match_word_def prefix_def split: if_splits)

lemma last_occ_Some: "last_occ p s = Some n \<Longrightarrow> n + length p \<le> length s"
  by (induction s arbitrary: n) (auto split: option.splits if_splits dest: prefix_length_le)

lemma match_data_Some:
  assumes "match_data s = Some n"
  shows "\<exists>d. d \<noteq> [] \<and> take (n - 5) s = at_eol @ d \<and> 2 < n - 5"
proof -
  obtain k where s: "prefix at_eol s" and k: "last_occ at_fin (drop 3 s) = Some k" and n: "n = 3 + k + 5"
    using assms by (auto simp: match_data_def split: if_splits)
  obtain e where e: "s = at_eol @ e" using s by (auto simp: prefix_def)
  have "k + 5 \<le> length s - 3" using last_occ_Some [OF k] by simp
  moreover have "n - 5 = Suc (Suc (Suc k))" using n by simp
  ultimately show ?thesis using e by (intro exI [of _ "take (Suc k) e"]) auto
qed

lemma scan_token: "at_scan s = Some (t, n) \<Longrightarrow> token_ok t (take n s) \<and> 0 < n"
proof -
  assume "at_scan s = Some (t, n)"
  then obtain m k trail where r: "(t, trail, m) \<in> set at_rules" and m: "m s = Some k" and n: "n = k - trail"
    by (auto simp: at_scan_def dest: longest_rule)
  have any: "k = 1 \<and> length (take 1 s) = 1" if "match_any s = Some k"
    using that by (cases s) (auto split: if_splits)
  have word: "take k s = p \<and> k = length p" if "match_word p s = Some k" for p
    using that match_word_Some by blast
  have at: "take (k - 1) s = ''AT'' \<and> k = 3" if "match_word ''AT+'' s = Some k"
  proof -
    have t: "take k s = ''AT+''" using word [OF that] by (rule conjunct1)
    have k: "k = 3" using word [OF that] by simp
    have "take (k - 1) s = take 2 (take k s)" using k by simp
    also have "\<dots> = ''AT''" unfolding t by simp
    finally show ?thesis using k by simp
  qed
  from r m n show ?thesis
    unfolding at_rules_def
    by (auto simp: param_ok_def numeral_2_eq_2 eval_nat_numeral dest!: word at any match_class_Some match_data_Some)
qed

lemma scan_nothing: "at_scan (c # s) = None \<Longrightarrow> c = CHR 0x0A"
  using longest_None [of at_rules "c # s" T_ERROR 0 match_any] by (auto simp: at_scan_def at_rules_def split: if_splits)

abbreviation no_feed :: "string \<Rightarrow> string" where
  "no_feed \<equiv> filter (\<lambda>c. c \<noteq> CHR 0x0A)"

lemma lex_text:
  "(\<forall>(t, x) \<in> set (at_lex s). token_ok t x) \<and> subseq (concat (map snd (at_lex s))) s \<and>
    no_feed (concat (map snd (at_lex s))) = no_feed s"
proof (induction s rule: at_lex.induct)
  case (2 c s)
  show ?case
  proof (cases "at_scan (c # s)")
    case None
    with 2(1) scan_nothing [OF None] show ?thesis by (auto simp: at_lex.simps)
  next
    case (Some a)
    obtain t n where a: "a = (t, n)" by (cases a)
    with Some have tok: "token_ok t (take n (c # s))" "0 < n" using scan_token by blast+
    have split: "c # s = take n (c # s) @ drop (n - 1) s"
      using tok(2) by (metis append_take_drop_id drop_Cons' less_not_refl2)
    let ?r = "concat (map snd (at_lex (drop (n - 1) s)))"
    from 2(2) [OF Some a [symmetric]] have ih: "\<forall>(t, x) \<in> set (at_lex (drop (n - 1) s)). token_ok t x"
      "subseq ?r (drop (n - 1) s)" "no_feed ?r = no_feed (drop (n - 1) s)" by simp_all
    have tokens: "concat (map snd (at_lex (c # s))) = take n (c # s) @ ?r" using Some a by (simp add: at_lex.simps)
    have "subseq (take n (c # s) @ ?r) (c # s)"
      by (subst (2) split) (intro list_emb_append_mono ih(2) subseq_order.order_refl)
    moreover have "no_feed (take n (c # s) @ ?r) = no_feed (c # s)"
      by (subst (2) split) (use ih(3) in simp)
    ultimately show ?thesis using ih(1) tok(1) Some a unfolding tokens by (simp add: at_lex.simps)
  qed
qed simp

lemma expect_Some [simp]: "expect t ts = Some (x, ts1) \<longleftrightarrow> ts = (t, x) # ts1"
  by (cases ts) (auto split: if_splits)

abbreviation tokens_ok :: "(at_token \<times> string) list \<Rightarrow> bool" where
  "tokens_ok ts \<equiv> \<forall>(t, x) \<in> set ts. token_ok t x"

abbreviation token_text :: "(at_token \<times> string) list \<Rightarrow> string" where
  "token_text ts \<equiv> concat (map snd ts)"

lemma parse_data_inv:
  "parse_data ts m = Some ([], m') \<Longrightarrow> tokens_ok ts \<Longrightarrow>
     (m' = m\<lparr>am_type := AT_CMD\<rparr> \<and> token_text ts = at_eol) \<or>
     (\<exists>d. d \<noteq> [] \<and> m' = m\<lparr>am_data := d, am_type := AT_LONG\<rparr> \<and> token_text ts = (at_eol @ d) @ at_fin)"
proof -
  assume p: "parse_data ts m = Some ([], m')" and ok: "tokens_ok ts"
  show ?thesis
  proof (cases "expect T_END ts")
    case None
    with p obtain x y where "ts = [(T_DATA, x), (T_DATAEND, y)]" "m' = m\<lparr>am_data := drop 2 x, am_type := AT_LONG\<rparr>"
      by (auto simp: parse_data_def set_type_def set_data_def bind_eq_Some_conv)
    moreover from this ok obtain d where "x = at_eol @ d" "d \<noteq> []" "y = at_fin" by auto
    ultimately show ?thesis by (intro disjI2 exI [of _ d]) simp
  next
    case (Some a)
    with p ok show ?thesis by (cases a) (auto simp: parse_data_def set_type_def)
  qed
qed

lemma parse_param_inv:
  "parse_param ts m = Some (ts', m') \<Longrightarrow> tokens_ok ts \<Longrightarrow>
     \<exists>qs. m' = m\<lparr>am_param := am_param m @ qs\<rparr> \<and> (\<forall>q \<in> set qs. param_ok q) \<and> tokens_ok ts' \<and>
       token_text ts = concat (map (Cons (CHR '','')) qs) @ token_text ts'"
proof (induction ts m rule: parse_param.induct)
  case (2 t x ts m)
  show ?case
  proof (cases "t = T_PARAM")
    case True
    with 2(3) obtain p where p: "x = CHR '','' # p" "param_ok p" by auto
    from 2 True obtain qs where "m' = (add_param (drop 1 x) m)\<lparr>am_param := am_param (add_param (drop 1 x) m) @ qs\<rparr>"
      "\<forall>q \<in> set qs. param_ok q" "tokens_ok ts'" "token_text ts = concat (map (Cons (CHR '','')) qs) @ token_text ts'"
      by auto
    with p show ?thesis
      by (intro exI [of _ "p # qs"]) (simp add: add_param_def param_ok_def c_str_params)
  next
    case False
    with 2(2) have t: "t = T_LASTPARAM" "ts' = ts" "m' = add_param (drop 1 x) m" by (auto split: if_splits)
    with 2(3) obtain p where p: "x = CHR '','' # p" "param_ok p" by auto
    with t 2(3) show ?thesis
      by (intro exI [of _ "[p]"]) (auto simp: add_param_def param_ok_def c_str_params)
  qed
qed simp

text \<open>The shape of what is behind the command: parameters, then the end or data; or a question.\<close>

definition tail_of :: "atmessage \<Rightarrow> atmessage \<Rightarrow> string \<Rightarrow> bool" where
  "tail_of m m' s \<longleftrightarrow>
     (\<exists>ps. (\<forall>p \<in> set ps. param_ok p) \<and>
       (m' = m\<lparr>am_param := am_param m @ ps, am_type := AT_CMD\<rparr> \<and> s = render_params ps @ at_eol \<or>
        (\<exists>d. d \<noteq> [] \<and> m' = m\<lparr>am_param := am_param m @ ps, am_data := d, am_type := AT_LONG\<rparr> \<and>
          s = render_params ps @ (at_eol @ d) @ at_fin))) \<or>
     m' = m\<lparr>am_type := AT_SEARCH\<rparr> \<and> s = ''='' @ ''?'' @ at_eol \<or>
     m' = m\<lparr>am_type := AT_TEST\<rparr> \<and> s = ''?'' @ at_eol"

lemma tail_of_data:
  assumes "parse_data ts (m\<lparr>am_param := am_param m @ ps\<rparr>) = Some ([], m')" and "tokens_ok ts" and "\<forall>p \<in> set ps. param_ok p"
  shows "tail_of m m' (render_params ps @ token_text ts)"
  using parse_data_inv [OF assms(1,2)] assms(3) unfolding tail_of_def
  by (elim disjE) (rule disjI1, rule exI [of _ ps], auto)+

lemma parse_next_inv:
  assumes "parse_next ts m = Some ([], m')" and "tokens_ok ts"
  shows "tail_of m m' (token_text ts)"
proof -
  from assms(1) consider
      (search) "parse_next ts m = Some ([], m')" "\<exists>x. expect T_EQUAL ts = Some x"
    | (test) "expect T_EQUAL ts = None" "\<exists>x. expect T_QST ts = Some x"
    | (single) x ts1 where "ts = (T_SINGLEPARAM, x) # ts1" "parse_data ts1 (add_param (drop 1 x) m) = Some ([], m')"
    | (several) x ts1 ts2 m2 where "ts = (T_STARTPARAM, x) # ts1"
        "parse_param ts1 (add_param (drop 1 x) m) = Some (ts2, m2)" "parse_data ts2 m2 = Some ([], m')"
    | (plain) "parse_data ts m = Some ([], m')"
    by (auto simp: parse_next_def bind_eq_Some_conv split: option.splits)
  then show ?thesis
  proof cases
    case search
    then show ?thesis
      using assms(2) by (auto simp: parse_next_def bind_eq_Some_conv tail_of_def set_type_def)
  next
    case test
    then show ?thesis
      using assms by (auto simp: parse_next_def bind_eq_Some_conv tail_of_def set_type_def)
  next
    case single
    then obtain p where p: "x = CHR ''='' # p" "param_ok p" using assms(2) by auto
    with single assms(2) tail_of_data [of ts1 m "[p]" m'] show ?thesis
      by (simp add: add_param_def param_ok_def c_str_params)
  next
    case several
    then obtain p where p: "x = CHR ''='' # p" "param_ok p" using assms(2) by auto
    from several assms(2) have "tokens_ok ts1" by auto
    from parse_param_inv [OF several(2) this] p obtain qs where "m2 = m\<lparr>am_param := am_param m @ p # qs\<rparr>"
      "\<forall>q \<in> set qs. param_ok q" "tokens_ok ts2" "token_text ts1 = concat (map (Cons (CHR '','')) qs) @ token_text ts2"
      by (auto simp: add_param_def param_ok_def c_str_params)
    with several p tail_of_data [of ts2 m "p # qs" m'] show ?thesis by simp
  next
    case plain
    with assms(2) tail_of_data [of ts m "[]" m'] show ?thesis by simp
  qed
qed

lemma parse_begin_inv:
  assumes "parse_begin ts = Some ([], m)" and "tokens_ok ts"
  shows "at_ok m \<and> token_text ts = render m"
proof -
  from assms obtain x w ts2 where ts: "ts = (T_AT, ''AT'') # (T_COMMAND, CHR ''+'' # w) # ts2"
    and w: "w \<noteq> []" "\<forall>c \<in> set w. upper c"
    and n: "parse_next ts2 (atmessage_none\<lparr>am_cmd := w\<rparr>) = Some ([], m)"
    by (auto simp: parse_begin_def bind_eq_Some_conv set_cmd_def c_str_params)
  from parse_next_inv [OF n] assms(2) ts have "tail_of (atmessage_none\<lparr>am_cmd := w\<rparr>) m (token_text ts2)" by simp
  with w ts show ?thesis
    unfolding tail_of_def by (auto simp: at_ok_def render_def atmessage_none_def)
qed

lemma at_parse_sound:
  assumes "at_parse s = (True, m)"
  shows "at_ok m \<and> subseq (render m) s \<and> no_feed (render m) = no_feed s"
proof -
  have "parse_begin (at_lex s) = Some ([], m)"
    using assms by (auto simp: at_parse_def split: option.splits prod.splits if_splits)
  from parse_begin_inv [OF this] lex_text [of s] show ?thesis by simp
qed

section \<open>Properties\<close>

text \<open>
  C23: the parser reads back every message that can be written: a command of capital letters, any number of
  parameters, a question or a test, and data of any bytes, those of the end mark included. The
  object then says it is correct, and parsing again returns the same message.
\<close>

theorem message_read_back:
  assumes "at_ok m"
  shows "at_parse (render m) = (True, m) \<and>
    (\<exists>p. ATParser_parse (ATParser_of_string (render m)) = (m, p) \<and> pa_correct p \<and> ATParser_parse p = (m, p))"
  using render_parsed [OF assms]
  by (simp add: ATParser_parse_def ATParser_of_string_def Let_def atmessage_none_def)

theorem message_read_back_witness:
  "at_parse (''AT+MDDECL=a,b'' @ at_eol @ ''x<<<'' @ at_eol @ ''y'' @ at_fin) =
     (True, \<lparr>am_type = AT_LONG, am_cmd = ''MDDECL'', am_param = [''a'', ''b''], am_data = ''x<<<'' @ at_eol @ ''y''\<rparr>)"
  using message_read_back [of "\<lparr>am_type = AT_LONG, am_cmd = ''MDDECL'', am_param = [''a'', ''b''],
      am_data = ''x<<<'' @ at_eol @ ''y''\<rparr>"]
  by (simp add: at_ok_def upper_def param_ok_def param_char_def render_def)

text \<open>What the object returns, through the text alone.\<close>

lemma parsed_text_result:
  "fst (ATParser_parse (ATParser_of_string s)) = (if fst (at_parse s) then snd (at_parse s) else atmessage_none)"
  by (cases "at_parse s") (simp add: ATParser_parse_def ATParser_of_string_def Let_def atmessage_none_def)

text \<open>
  C24: whatever bytes the parser is given, what it returns is a well-formed message: a command and
  parameters of their character classes, data exactly in a long message, none of both in a question or
  a test; and the text it accepted is that message's, up to line feeds put between its tokens. Anything
  else leaves the message empty and of type \<open>NON\<close>.
\<close>

theorem parsed_message_typed:
  "(case at_parse s of (correct, m) \<Rightarrow>
     if correct then at_ok m \<and> subseq (render m) s \<and> no_feed (render m) = no_feed s
     else m = \<lparr>am_type = AT_NON, am_cmd = [], am_param = [], am_data = []\<rparr>) \<and>
   (case ATParser_parse (ATParser_of_string s) of (m, p) \<Rightarrow>
     (pa_correct p, m) = at_parse s \<and> pa_parsed p)"
proof (intro conjI)
  have bad: "m = atmessage_none" if "at_parse s = (False, m)" for m
    using that by (auto simp: at_parse_def split: option.splits if_splits)
  then show "case at_parse s of (correct, m) \<Rightarrow>
      if correct then at_ok m \<and> subseq (render m) s \<and> no_feed (render m) = no_feed s
      else m = \<lparr>am_type = AT_NON, am_cmd = [], am_param = [], am_data = []\<rparr>"
    by (cases "at_parse s") (auto simp: atmessage_none_def dest: at_parse_sound)
  show "case ATParser_parse (ATParser_of_string s) of (m, p) \<Rightarrow> (pa_correct p, m) = at_parse s \<and> pa_parsed p"
    using bad
    by (cases "at_parse s") (auto simp: ATParser_parse_def ATParser_of_string_def Let_def atmessage_none_def)
qed

end
