(* ===== verification/Router_Input.thy ===== *)
theory Router_Input
  imports Router AT_Grammar
begin

text \<open>
  From the bytes on a client's socket to the commands of the router: the receive part of the loop in
  \<^verbatim>\<open>router/bin/main.cc\<close> with the AT parser. The sockets themselves are not modelled.
\<close>

text \<open>
  One round: \<^verbatim>\<open>recv\<close> fills at most 4095 bytes of a zeroed buffer with the text that waits on the
  socket, and the parser gets the buffer as a C string. The answer is the command's, for the message the
  parser made, correct or not.
\<close>

definition received_text :: "string \<Rightarrow> string" where
  "received_text waiting = c_str (take 4095 waiting)"

definition received_message :: "string \<Rightarrow> atmessage" where
  "received_message waiting = fst (ATParser_parse (ATParser_of_string (received_text waiting)))"

definition serve_input :: "'w router_env \<Rightarrow> string \<Rightarrow> router \<Rightarrow> 'w \<Rightarrow> (string \<times> router \<times> 'w) cxx option" where
  "serve_input env waiting r w = serve_message env (received_message waiting) r w"

lemma received_message_parse:
  "received_message waiting = (if fst (at_parse (received_text waiting)) then snd (at_parse (received_text waiting)) else atmessage_none)"
  using parsed_text_result [of "received_text waiting"] by (simp add: received_message_def)

lemma serve_refused:
  "\<not> fst (at_parse (received_text waiting)) \<Longrightarrow> serve_input env waiting r w = Some (Inr (''AT+ENVAL'' @ crlf, r, w))"
  by (simp add: serve_input_def received_message_parse serve_message_def route_def router_commands_def atmessage_none_def
      answer_def throwing_def)

lemma nul_chars: "\<not> param_char (CHR 0x00)" "\<not> upper (CHR 0x00)"
  by (simp_all add: param_char_def upper_def)

lemma render_params_chars: "c \<in> set (render_params ps) \<Longrightarrow> c = CHR ''='' \<or> c = CHR '','' \<or> (\<exists>p \<in> set ps. c \<in> set p)"
  by (cases ps) (auto split: if_splits)

lemma render_no_nul:
  assumes "at_ok m" and "CHR 0x00 \<notin> set (am_data m)"
  shows "CHR 0x00 \<notin> set (render m)"
proof -
  have "\<forall>p \<in> set (am_param m). CHR 0x00 \<notin> set p" and cmd: "CHR 0x00 \<notin> set (am_cmd m)"
    using assms(1) nul_chars by (auto simp: at_ok_def param_ok_def)
  then have "CHR 0x00 \<notin> set (render_params (am_param m))"
    using render_params_chars [of "CHR 0x00" "am_param m"] by auto
  with cmd show ?thesis using assms(2) by (cases "am_type m") (simp_all add: render_def)
qed

lemma render_end: "at_ok m \<Longrightarrow> no_feed (render m) \<noteq> [] \<and> last (no_feed (render m)) = CHR 0x0D"
  by (cases "am_type m") (auto simp: render_def at_ok_def)

lemma cut_text_refused:
  assumes "s \<noteq> []" and "last s \<notin> {CHR 0x0D, CHR 0x0A}"
  shows "\<not> fst (at_parse s)"
proof
  assume "fst (at_parse s)"
  then obtain m where "at_parse s = (True, m)" by (cases "at_parse s") auto
  from at_parse_sound [OF this] have m: "at_ok m" "no_feed (render m) = no_feed s" by simp_all
  obtain t c where "s = t @ [c]" using assms(1) by (cases s rule: rev_cases) simp_all
  with render_end [OF m(1)] m(2) assms(2) show False by simp
qed

text \<open>
  C11: a message of at most 4095 bytes is served as it was written. A long message whose data begin with a zero
  byte is carried out as the plain command, without its data and without an error. A text that is cut, by
  the size of the buffer or by a zero byte, behind a byte that is not the end of a line, is answered
  with \<^verbatim>\<open>AT+ENVAL\<close>, and nothing changes; what is left of it is then read as a message of its own.
\<close>

theorem router_reads_messages:
  "(at_ok m \<and> CHR 0x00 \<notin> set (am_data m) \<and> length (render m) \<le> 4095 \<longrightarrow>
      serve_input env (render m) r w = serve_message env m r w) \<and>
   (at_ok m \<and> am_type m = AT_LONG \<and> am_data m = CHR 0x00 # d \<and> length (render m) \<le> 4095 \<longrightarrow>
      serve_input env (render m) r w = serve_message env (m\<lparr>am_type := AT_CMD, am_data := []\<rparr>) r w) \<and>
   (received_text waiting \<noteq> [] \<and> last (received_text waiting) \<notin> {CHR 0x0D, CHR 0x0A} \<longrightarrow>
      serve_input env waiting r w = Some (Inr (''AT+ENVAL'' @ crlf, r, w)))"
proof (intro conjI impI)
  assume m: "at_ok m \<and> CHR 0x00 \<notin> set (am_data m) \<and> length (render m) \<le> 4095"
  then have "received_text (render m) = render m"
    by (simp add: received_text_def c_str_id render_no_nul)
  with m show "serve_input env (render m) r w = serve_message env m r w"
    by (simp add: serve_input_def received_message_parse render_parsed)
next
  assume m: "at_ok m \<and> am_type m = AT_LONG \<and> am_data m = CHR 0x00 # d \<and> length (render m) \<le> 4095"
  let ?m = "m\<lparr>am_type := AT_CMD, am_data := []\<rparr>"
  have ok: "at_ok ?m" using m by (simp add: at_ok_def)
  have "render m = render ?m @ CHR 0x00 # d @ at_fin" using m by (simp add: render_def)
  moreover have "CHR 0x00 \<notin> set (render ?m)" by (rule render_no_nul [OF ok]) simp
  moreover have "take 4095 (render m) = render m" using m by simp
  ultimately have "received_text (render m) = render ?m"
    unfolding received_text_def by (simp add: c_str_append) (simp add: c_str_def)
  with ok show "serve_input env (render m) r w = serve_message env ?m r w"
    by (simp add: serve_input_def received_message_parse render_parsed)
next
  assume "received_text waiting \<noteq> [] \<and> last (received_text waiting) \<notin> {CHR 0x0D, CHR 0x0A}"
  then show "serve_input env waiting r w = Some (Inr (''AT+ENVAL'' @ crlf, r, w))"
    by (intro serve_refused cut_text_refused) simp_all
qed

theorem router_reads_messages_witness:
  "\<forall>env r w.
     serve_input env (''AT+RTBUSY'' @ at_eol) r w =
       serve_message env \<lparr>am_type = AT_CMD, am_cmd = ''RTBUSY'', am_param = [], am_data = []\<rparr> r w \<and>
     serve_input env (''AT+MDDECL'' @ at_eol @ CHR 0x00 # ''model'' @ at_fin) r w =
       serve_message env \<lparr>am_type = AT_CMD, am_cmd = ''MDDECL'', am_param = [], am_data = []\<rparr> r w"
proof (intro allI)
  fix env :: "'w router_env" and r w
  show "serve_input env (''AT+RTBUSY'' @ at_eol) r w =
       serve_message env \<lparr>am_type = AT_CMD, am_cmd = ''RTBUSY'', am_param = [], am_data = []\<rparr> r w \<and>
     serve_input env (''AT+MDDECL'' @ at_eol @ CHR 0x00 # ''model'' @ at_fin) r w =
       serve_message env \<lparr>am_type = AT_CMD, am_cmd = ''MDDECL'', am_param = [], am_data = []\<rparr> r w"
    using router_reads_messages [of "\<lparr>am_type = AT_CMD, am_cmd = ''RTBUSY'', am_param = [], am_data = []\<rparr>" env r w "[]" "[]"]
      router_reads_messages [of "\<lparr>am_type = AT_LONG, am_cmd = ''MDDECL'', am_param = [], am_data = CHR 0x00 # ''model''\<rparr>"
        env r w "''model''" "[]"]
    by (simp add: at_ok_def upper_def render_def)
qed

end
