(* ===== verification/Datasource_Message.thy ===== *)
theory Datasource_Message
  imports Framing
begin

text \<open>
  The registration protocol of data sources, \<^verbatim>\<open>proto/datasource\<close>: \<^verbatim>\<open>request.cc\<close> and
  \<^verbatim>\<open>response.cc\<close>. Unlike the other protocols the class holds the generated protobuf object itself
  (\<^verbatim>\<open>req_\<close>, \<^verbatim>\<open>resp_\<close>), so that \<^verbatim>\<open>append\<close> parses into the object. What a failed
  \<^verbatim>\<open>ParseFromArray\<close> leaves there is not specified: the parameter \<open>partial\<close>. A request keeps its
  metadata a second time, in the map \<^verbatim>\<open>myMetadata\<close> that the getters read. Sizes are
  \<^verbatim>\<open>int\<close>s: the model is for messages of less than 2 GiB.
\<close>

section \<open>The generated messages\<close>

record pb_dsreq =
  pbq_magic :: u32
  pbq_token :: string
  pbq_name :: string
  pbq_action :: u32
  pbq_proto :: u32
  pbq_url :: string
  pbq_port :: u32
  pbq_metadata :: "(string \<times> string) list"

definition pb_dsreq0 :: pb_dsreq where
  "pb_dsreq0 = \<lparr>pbq_magic = 0, pbq_token = [], pbq_name = [], pbq_action = 0, pbq_proto = 0, pbq_url = [],
     pbq_port = 0, pbq_metadata = []\<rparr>"

record pb_dsresp =
  pbs_magic :: u32
  pbs_token :: string
  pbs_name :: string
  pbs_status :: u32

definition pb_dsresp0 :: pb_dsresp where
  "pb_dsresp0 = \<lparr>pbs_magic = 0, pbs_token = [], pbs_name = [], pbs_status = 0\<rparr>"

section \<open>Requests\<close>

datatype ds_action = Register | Unregister | Offline | Online

fun ds_action_code :: "ds_action \<Rightarrow> u32" where
  "ds_action_code Register = 0"
| "ds_action_code Unregister = 1"
| "ds_action_code Offline = 2"
| "ds_action_code Online = 3"

record ds_request =
  sq_buf :: "string option"
  sq_size :: nat
  sq_req :: pb_dsreq
  sq_meta :: "(string \<times> string) list"

definition DsRequest_new :: ds_request where
  "DsRequest_new = \<lparr>sq_buf = None, sq_size = 0, sq_req = pb_dsreq0, sq_meta = []\<rparr>"

text \<open>
  Copies and moves. The copy constructor tests and frees its own buffer pointer, which nothing has
  initialised: \<open>g_buf\<close> tells whether it is non-null. None of them takes the map of the metadata.
\<close>

definition ds_copied :: "string option \<Rightarrow> nat \<Rightarrow> string option" where
  "ds_copied buf n = Some (take n (buffered buf))"

definition DsRequest_copy :: "bool \<Rightarrow> ds_request \<Rightarrow> ds_request cxx" where
  "DsRequest_copy g_buf req =
     (if g_buf then Inl Undefined_behaviour
      else Inr \<lparr>sq_buf = ds_copied (sq_buf req) (sq_size req), sq_size = sq_size req, sq_req = sq_req req,
        sq_meta = []\<rparr>)"

definition DsRequest_move :: "ds_request \<Rightarrow> ds_request \<times> ds_request" where
  "DsRequest_move req =
     (\<lparr>sq_buf = sq_buf req, sq_size = sq_size req, sq_req = sq_req req, sq_meta = []\<rparr>,
      req\<lparr>sq_buf := None, sq_size := 0, sq_req := pb_dsreq0\<rparr>)"

definition DsRequest_copy_assign :: "ds_request \<Rightarrow> ds_request \<Rightarrow> ds_request" where
  "DsRequest_copy_assign this req =
     this\<lparr>sq_req := sq_req req, sq_buf := ds_copied (sq_buf req) (sq_size req), sq_size := sq_size req\<rparr>"

definition DsRequest_move_assign :: "ds_request \<Rightarrow> ds_request \<Rightarrow> ds_request \<times> ds_request" where
  "DsRequest_move_assign this req =
     (this\<lparr>sq_req := sq_req req, sq_buf := sq_buf req, sq_size := sq_size req\<rparr>,
      req\<lparr>sq_req := sq_req this, sq_buf := None, sq_size := 0\<rparr>)"

definition DsRequest_encode :: "(pb_dsreq \<Rightarrow> string) \<Rightarrow> ds_request \<Rightarrow> int \<times> string \<times> ds_request" where
  "DsRequest_encode ser m =
     (let req = (sq_req m)\<lparr>pbq_magic := get_magic DATASOURCE\<rparr>; bytes = ser req
      in (1, bytes, m\<lparr>sq_req := req, sq_size := length bytes, sq_buf := Some bytes\<rparr>))"

definition DsRequest_accept :: "ds_request \<Rightarrow> pb_dsreq \<Rightarrow> ds_request append_res" where
  "DsRequest_accept m p =
     (let m1 = m\<lparr>sq_buf := None, sq_size := 0\<rparr>
      in if pbq_magic p \<noteq> get_magic DATASOURCE then (-1, Some MAGIC_MISMATCH, m1\<lparr>sq_req := pb_dsreq0\<rparr>)
         else (1, None, m1\<lparr>sq_req := p\<rparr>))"

definition DsRequest_append ::
  "(string \<Rightarrow> pb_dsreq option) \<Rightarrow> (string \<Rightarrow> pb_dsreq) \<Rightarrow> ds_request \<Rightarrow> string \<Rightarrow> ds_request append_res" where
  "DsRequest_append parse partial m chunk =
     (let buf = gather (sq_buf m) (sq_size m) chunk;
          n = sq_size m + length chunk
      in case parse (take n buf) of
           None \<Rightarrow> (0, None, m\<lparr>sq_buf := Some buf, sq_size := n, sq_req := partial (take n buf)\<rparr>)
         | Some p \<Rightarrow> DsRequest_accept m p)"

definition DsRequest_set_token :: "ds_request \<Rightarrow> string \<Rightarrow> ds_request" where
  "DsRequest_set_token m token = m\<lparr>sq_req := (sq_req m)\<lparr>pbq_token := token\<rparr>\<rparr>"

definition DsRequest_get_token :: "ds_request \<Rightarrow> string" where
  "DsRequest_get_token m = pbq_token (sq_req m)"

definition DsRequest_set_name :: "ds_request \<Rightarrow> string \<Rightarrow> ds_request" where
  "DsRequest_set_name m name = m\<lparr>sq_req := (sq_req m)\<lparr>pbq_name := name\<rparr>\<rparr>"

definition DsRequest_get_name :: "ds_request \<Rightarrow> string" where
  "DsRequest_get_name m = pbq_name (sq_req m)"

definition DsRequest_set_action :: "ds_request \<Rightarrow> u32 \<Rightarrow> ds_request" where
  "DsRequest_set_action m action = m\<lparr>sq_req := (sq_req m)\<lparr>pbq_action := action\<rparr>\<rparr>"

definition DsRequest_get_action :: "ds_request \<Rightarrow> u32" where
  "DsRequest_get_action m = pbq_action (sq_req m)"

definition DsRequest_set_proto :: "ds_request \<Rightarrow> u32 \<Rightarrow> ds_request" where
  "DsRequest_set_proto m proto = m\<lparr>sq_req := (sq_req m)\<lparr>pbq_proto := proto\<rparr>\<rparr>"

definition DsRequest_get_proto :: "ds_request \<Rightarrow> u32" where
  "DsRequest_get_proto m = pbq_proto (sq_req m)"

definition DsRequest_set_url :: "ds_request \<Rightarrow> string \<Rightarrow> ds_request" where
  "DsRequest_set_url m url = m\<lparr>sq_req := (sq_req m)\<lparr>pbq_url := url\<rparr>\<rparr>"

definition DsRequest_get_url :: "ds_request \<Rightarrow> string" where
  "DsRequest_get_url m = pbq_url (sq_req m)"

definition DsRequest_set_port :: "ds_request \<Rightarrow> u32 \<Rightarrow> ds_request" where
  "DsRequest_set_port m port = m\<lparr>sq_req := (sq_req m)\<lparr>pbq_port := port\<rparr>\<rparr>"

definition DsRequest_get_port :: "ds_request \<Rightarrow> u32" where
  "DsRequest_get_port m = pbq_port (sq_req m)"

definition DsRequest_get_metadata :: "ds_request \<Rightarrow> string \<Rightarrow> string" where
  "DsRequest_get_metadata m key = (case map_of (sq_meta m) key of Some v \<Rightarrow> v | None \<Rightarrow> [])"

definition DsRequest_get_allmetadata :: "ds_request \<Rightarrow> (string \<times> string) list" where
  "DsRequest_get_allmetadata m = sq_meta m"

definition DsRequest_add_metadata :: "ds_request \<Rightarrow> string \<Rightarrow> string \<Rightarrow> ds_request" where
  "DsRequest_add_metadata m key value =
     m\<lparr>sq_req := (sq_req m)\<lparr>pbq_metadata := pbq_metadata (sq_req m) @ [(key, value)]\<rparr>,
       sq_meta := umap_set (sq_meta m) key value\<rparr>"

fun DsRequest_set_metadata :: "ds_request \<Rightarrow> (string \<times> string) list \<Rightarrow> ds_request" where
  "DsRequest_set_metadata m [] = m"
| "DsRequest_set_metadata m ((key, value) # metadata) =
     DsRequest_set_metadata
       (m\<lparr>sq_req := (sq_req m)\<lparr>pbq_metadata := pbq_metadata (sq_req m) @ [(key, value)]\<rparr>,
          sq_meta := umap_set (sq_meta m) key value\<rparr>) metadata"

section \<open>Responses\<close>

record ds_response =
  ss_buf :: "string option"
  ss_size :: nat
  ss_resp :: pb_dsresp

definition DsResponse_new :: ds_response where
  "DsResponse_new = \<lparr>ss_buf = None, ss_size = 0, ss_resp = pb_dsresp0\<rparr>"

definition DsResponse_copy :: "bool \<Rightarrow> ds_response \<Rightarrow> ds_response cxx" where
  "DsResponse_copy g_buf resp =
     (if g_buf then Inl Undefined_behaviour
      else Inr \<lparr>ss_buf = ds_copied (ss_buf resp) (ss_size resp), ss_size = ss_size resp, ss_resp = ss_resp resp\<rparr>)"

definition DsResponse_move :: "ds_response \<Rightarrow> ds_response \<times> ds_response" where
  "DsResponse_move resp =
     (\<lparr>ss_buf = ss_buf resp, ss_size = ss_size resp, ss_resp = ss_resp resp\<rparr>, DsResponse_new)"

definition DsResponse_copy_assign :: "ds_response \<Rightarrow> ds_response \<Rightarrow> ds_response" where
  "DsResponse_copy_assign this resp =
     this\<lparr>ss_resp := ss_resp resp, ss_buf := ds_copied (ss_buf resp) (ss_size resp), ss_size := ss_size resp\<rparr>"

definition DsResponse_move_assign :: "ds_response \<Rightarrow> ds_response \<Rightarrow> ds_response \<times> ds_response" where
  "DsResponse_move_assign this resp =
     (this\<lparr>ss_resp := ss_resp resp, ss_buf := ss_buf resp, ss_size := ss_size resp\<rparr>,
      resp\<lparr>ss_resp := ss_resp this, ss_buf := None, ss_size := 0\<rparr>)"

definition DsResponse_encode :: "(pb_dsresp \<Rightarrow> string) \<Rightarrow> ds_response \<Rightarrow> int \<times> string \<times> ds_response" where
  "DsResponse_encode ser m =
     (let resp = (ss_resp m)\<lparr>pbs_magic := get_magic DATASOURCE\<rparr>; bytes = ser resp
      in (1, bytes, m\<lparr>ss_resp := resp, ss_size := length bytes, ss_buf := Some bytes\<rparr>))"

definition DsResponse_accept :: "ds_response \<Rightarrow> pb_dsresp \<Rightarrow> ds_response append_res" where
  "DsResponse_accept m p =
     (let m1 = m\<lparr>ss_buf := None, ss_size := 0\<rparr>
      in if pbs_magic p \<noteq> get_magic DATASOURCE then (-1, Some MAGIC_MISMATCH, m1\<lparr>ss_resp := pb_dsresp0\<rparr>)
         else (1, None, m1\<lparr>ss_resp := p\<rparr>))"

definition DsResponse_append ::
  "(string \<Rightarrow> pb_dsresp option) \<Rightarrow> (string \<Rightarrow> pb_dsresp) \<Rightarrow> ds_response \<Rightarrow> string \<Rightarrow> ds_response append_res" where
  "DsResponse_append parse partial m chunk =
     (let buf = gather (ss_buf m) (ss_size m) chunk;
          n = ss_size m + length chunk
      in case parse (take n buf) of
           None \<Rightarrow> (0, None, m\<lparr>ss_buf := Some buf, ss_size := n, ss_resp := partial (take n buf)\<rparr>)
         | Some p \<Rightarrow> DsResponse_accept m p)"

definition DsResponse_set_token :: "ds_response \<Rightarrow> string \<Rightarrow> ds_response" where
  "DsResponse_set_token m token = m\<lparr>ss_resp := (ss_resp m)\<lparr>pbs_token := token\<rparr>\<rparr>"

definition DsResponse_get_token :: "ds_response \<Rightarrow> string" where
  "DsResponse_get_token m = pbs_token (ss_resp m)"

definition DsResponse_set_name :: "ds_response \<Rightarrow> string \<Rightarrow> ds_response" where
  "DsResponse_set_name m name = m\<lparr>ss_resp := (ss_resp m)\<lparr>pbs_name := name\<rparr>\<rparr>"

definition DsResponse_get_name :: "ds_response \<Rightarrow> string" where
  "DsResponse_get_name m = pbs_name (ss_resp m)"

definition DsResponse_set_status :: "ds_response \<Rightarrow> u32 \<Rightarrow> ds_response" where
  "DsResponse_set_status m status = m\<lparr>ss_resp := (ss_resp m)\<lparr>pbs_status := status\<rparr>\<rparr>"

definition DsResponse_get_status :: "ds_response \<Rightarrow> u32" where
  "DsResponse_get_status m = pbs_status (ss_resp m)"

section \<open>Both are framed messages\<close>

lemmas ds_accessors [simp] =
  DsRequest_set_token_def DsRequest_get_token_def DsRequest_set_name_def DsRequest_get_name_def
  DsRequest_set_action_def DsRequest_get_action_def DsRequest_set_proto_def DsRequest_get_proto_def
  DsRequest_set_url_def DsRequest_get_url_def DsRequest_set_port_def DsRequest_get_port_def
  DsResponse_set_token_def DsResponse_get_token_def DsResponse_set_name_def DsResponse_get_name_def
  DsResponse_set_status_def DsResponse_get_status_def

interpretation ds_req_frame: framed parse "DsRequest_append parse partial" "\<lambda>m. buffered (sq_buf m)"
  "\<lambda>m b. m\<lparr>sq_buf := Some b, sq_size := length b, sq_req := partial (take (length b) b)\<rparr>" DsRequest_accept
  "\<lambda>m. buffer_ok (sq_buf m) (sq_size m)"
  for parse partial
  by (rule framed_of_buffer [where put = "\<lambda>m b n. m\<lparr>sq_buf := Some b, sq_size := n, sq_req := partial (take n b)\<rparr>"])
    (auto simp: DsRequest_append_def DsRequest_accept_def Let_def split: option.split if_splits)

interpretation ds_resp_frame: framed parse "DsResponse_append parse partial" "\<lambda>m. buffered (ss_buf m)"
  "\<lambda>m b. m\<lparr>ss_buf := Some b, ss_size := length b, ss_resp := partial (take (length b) b)\<rparr>" DsResponse_accept
  "\<lambda>m. buffer_ok (ss_buf m) (ss_size m)"
  for parse partial
  by (rule framed_of_buffer [where put = "\<lambda>m b n. m\<lparr>ss_buf := Some b, ss_size := n, ss_resp := partial (take n b)\<rparr>"])
    (auto simp: DsResponse_append_def DsResponse_accept_def Let_def split: option.split if_splits)

end
