(* ===== verification/Datasource_Registry.thy ===== *)
theory Datasource_Registry
  imports Datasource_Message Plain_Server
begin

text \<open>
  The registry of data sources: the list and the server of the management unit
  (\<^verbatim>\<open>management/datasource/DataSourceList.cc\<close>, \<^verbatim>\<open>DataSourceServer.cc\<close>), the client that a recorder
  registers with (\<^verbatim>\<open>nvr/datasource/Registry.cc\<close>), and the two together over the wire. The network
  framework is third-party code: what it makes of a request is the parameter \<open>exchange\<close>.
\<close>

section \<open>The list\<close>

type_synonym ds_endpoint = "u32 \<times> string \<times> u32"
type_synonym ds_list = "(string \<times> ds_endpoint) list"

definition get_datasource :: "ds_list \<Rightarrow> string \<Rightarrow> ds_endpoint" where
  "get_datasource member name = (case map_of member name of None \<Rightarrow> (-1, [], -1) | Some e \<Rightarrow> e)"

definition has_datasource :: "ds_list \<Rightarrow> string \<Rightarrow> bool" where
  "has_datasource member name \<longleftrightarrow> map_of member name \<noteq> None"

definition get_alldatasource :: "ds_list \<Rightarrow> ds_list" where
  "get_alldatasource member = member"

definition set_datasource :: "ds_list \<Rightarrow> ds_list \<Rightarrow> ds_list" where
  "set_datasource member datasources = datasources"

definition add_datasource :: "ds_list \<Rightarrow> string \<Rightarrow> ds_endpoint \<Rightarrow> ds_list" where
  "add_datasource member name endpoint = umap_emplace member name endpoint"

section \<open>The server\<close>

record ds_server =
  dss_server :: plain_server
  dss_list :: ds_list

text \<open>\<^verbatim>\<open>DataSourceServer(ctx)\<close>; the members of the context are uninitialised before: \<open>g\<close>.\<close>

definition DataSourceServer_new :: "plain_setup \<Rightarrow> plain_setup \<Rightarrow> ds_server" where
  "DataSourceServer_new g ctx =
     \<lparr>dss_server = plain_setup_context \<lparr>ps_context = g, ps_server = None\<rparr> ctx, dss_list = []\<rparr>"

definition ds_setup_context :: "ds_server \<Rightarrow> plain_setup \<Rightarrow> ds_server" where
  "ds_setup_context srv ctx = srv\<lparr>dss_server := plain_setup_context (dss_server srv) ctx\<rparr>"

definition ds_start :: "(plain_listen \<Rightarrow> int) \<Rightarrow> ds_server \<Rightarrow> int \<times> ds_server" where
  "ds_start wf_start srv = (case plain_start wf_start (dss_server srv) of (r, s) \<Rightarrow> (r, srv\<lparr>dss_server := s\<rparr>))"

definition ds_stop :: "ds_server \<Rightarrow> int \<times> ds_server" where
  "ds_stop srv = (case plain_stop (dss_server srv) of (r, s) \<Rightarrow> (r, srv\<lparr>dss_server := s\<rparr>))"

text \<open>\<^verbatim>\<open>Status_ok\<close>, \<^verbatim>\<open>Status_err\<close> of the response.\<close>

definition Status_ok :: u32 where "Status_ok = 0"
definition Status_err :: u32 where "Status_err = 1"

definition ds_process :: "ds_request \<Rightarrow> ds_response \<Rightarrow> ds_list \<Rightarrow> ds_response \<times> ds_list" where
  "ds_process req resp lst =
     (let r1 = DsResponse_set_token resp []; r2 = DsResponse_set_name r1 (DsRequest_get_name req)
      in if has_datasource lst (DsRequest_get_name req) then (DsResponse_set_status r2 Status_err, lst)
         else (DsResponse_set_status r2 Status_ok,
           add_datasource lst (DsRequest_get_name req)
             (DsRequest_get_proto req, DsRequest_get_url req, DsRequest_get_port req)))"

section \<open>The client\<close>

type_synonym registry = "(string \<times> string \<times> bool \<times> u32) list"

definition load_config :: "registry \<Rightarrow> string \<Rightarrow> string \<Rightarrow> bool \<Rightarrow> u32 \<Rightarrow> registry" where
  "load_config configMap config_name url ssl port = umap_set configMap config_name (url, ssl, port)"

text \<open>
  The arguments of \<^verbatim>\<open>create_task\<close>: the address, whether it is TLS, the port, which is an
  \<^verbatim>\<open>unsigned short\<close>, and the number of retries.
\<close>

record ds_peer =
  peer_url :: string
  peer_tls :: bool
  peer_port :: "16 word"
  peer_retry :: int

definition create_task :: "string \<Rightarrow> bool \<Rightarrow> 16 word \<Rightarrow> int \<Rightarrow> ds_peer" where
  "create_task url ssl port retry_max = \<lparr>peer_url = url, peer_tls = ssl, peer_port = port, peer_retry = retry_max\<rparr>"

text \<open>\<^verbatim>\<open>WFT_STATE_SUCCESS\<close>.\<close>

definition WFT_STATE_SUCCESS :: int where "WFT_STATE_SUCCESS = 0"

definition registry_callback :: "string \<Rightarrow> int \<Rightarrow> ds_response \<Rightarrow> u32" where
  "registry_callback dtname state resp =
     (if state \<noteq> WFT_STATE_SUCCESS then 1
      else if DsResponse_get_name resp \<noteq> dtname then 2
      else if DsResponse_get_status resp \<noteq> Status_ok then 3
      else 0)"

definition registry_request :: "string \<Rightarrow> string \<Rightarrow> u32 \<Rightarrow> u32 \<Rightarrow> ds_request" where
  "registry_request dtname url proto port =
     DsRequest_set_proto (DsRequest_set_action (DsRequest_set_port (DsRequest_set_url
       (DsRequest_set_name DsRequest_new dtname) url) port) (ds_action_code Register)) proto"

definition register_datasource ::
  "(ds_peer \<Rightarrow> ds_request \<Rightarrow> 'w \<Rightarrow> int \<times> ds_response \<times> 'w) \<Rightarrow> registry \<Rightarrow>
   string \<Rightarrow> string \<Rightarrow> u32 \<Rightarrow> u32 \<Rightarrow> string \<Rightarrow> 'w \<Rightarrow> u32 \<times> 'w" where
  "register_datasource exchange configMap dtname url proto port config_name w =
     (case map_of configMap config_name of
        None \<Rightarrow> (-1, w)
      | Some (c_url, c_ssl, c_port) \<Rightarrow>
          (case exchange (create_task c_url c_ssl (ucast c_port) 0) (registry_request dtname url proto port) w of
             (state, resp, w') \<Rightarrow> (registry_callback dtname state resp, w')))"

section \<open>The server as a first-wins map\<close>

text \<open>What the server does with one request after another.\<close>

fun ds_serve :: "ds_request list \<Rightarrow> ds_list \<Rightarrow> ds_response list \<times> ds_list" where
  "ds_serve [] lst = ([], lst)"
| "ds_serve (q # qs) lst =
     (case ds_process q DsResponse_new lst of (r, lst1) \<Rightarrow>
      case ds_serve qs lst1 of (rs, lst2) \<Rightarrow> (r # rs, lst2))"

definition ds_entry :: "ds_request \<Rightarrow> string \<times> ds_endpoint" where
  "ds_entry q = (DsRequest_get_name q, DsRequest_get_proto q, DsRequest_get_url q, DsRequest_get_port q)"

lemma ds_process_entry:
  "ds_process q resp lst =
     (resp\<lparr>ss_resp := (ss_resp resp)\<lparr>pbs_token := [], pbs_name := fst (ds_entry q),
        pbs_status := (if fst (ds_entry q) \<in> dom (map_of lst) then Status_err else Status_ok)\<rparr>\<rparr>,
      umap_emplace lst (fst (ds_entry q)) (snd (ds_entry q)))"
  by (auto simp: ds_process_def Let_def has_datasource_def add_datasource_def umap_emplace_def ds_entry_def)

lemma ds_serve_list: "snd (ds_serve qs lst) = foldl (\<lambda>l e. umap_emplace l (fst e) (snd e)) lst (map ds_entry qs)"
  by (induction qs arbitrary: lst) (simp_all add: ds_process_entry split_beta)

lemma map_of_foldl_emplace:
  "map_of (foldl (\<lambda>l e. umap_emplace l (fst e) (snd e)) lst es) = map_of es ++ map_of lst"
proof (induction es arbitrary: lst)
  case (Cons e es)
  show ?case
    by (rule ext) (auto simp: Cons.IH map_of_umap_emplace map_add_def split: option.splits)
qed simp

lemma umap_ok_foldl_emplace:
  "umap_ok lst \<Longrightarrow> umap_ok (foldl (\<lambda>l e. umap_emplace l (fst e) (snd e)) lst es)"
  by (induction es arbitrary: lst) (simp_all add: umap_ok_emplace)

lemma ds_serve_answers:
  "i < length qs \<Longrightarrow>
     length (fst (ds_serve qs lst)) = length qs \<and>
     DsResponse_get_name (fst (ds_serve qs lst) ! i) = DsRequest_get_name (qs ! i) \<and>
     (DsResponse_get_status (fst (ds_serve qs lst) ! i) = Status_ok \<longleftrightarrow>
      DsRequest_get_name (qs ! i) \<notin> dom (map_of lst) \<union> DsRequest_get_name ` set (take i qs))"
proof (induction qs arbitrary: lst i)
  case (Cons q qs)
  let ?l = "umap_emplace lst (fst (ds_entry q)) (snd (ds_entry q))"
  have len: "length (fst (ds_serve qs l)) = length qs" for l
    by (induction qs arbitrary: l) (simp_all add: split_beta)
  have dom: "dom (map_of ?l) = insert (DsRequest_get_name q) (dom (map_of lst))"
    by (auto simp: map_of_umap_emplace ds_entry_def split: if_splits)
  show ?case
  proof (cases i)
    case 0
    then show ?thesis
      by (simp add: ds_process_entry split_beta len ds_entry_def Status_ok_def Status_err_def)
  next
    case (Suc j)
    with Cons.prems have "j < length qs" by simp
    from Cons.IH [OF this, of ?l] Suc show ?thesis
      by (auto simp: ds_process_entry split_beta dom)
  qed
qed simp

text \<open>
  C26: the data source server is a map in which the first registration of a name wins. After any requests
  the list answers a name as it did before, if it knew it, and else with the first request's protocol,
  address and port; names stay distinct. A request is answered with its own name, and with success
  exactly when the name was new. The action of a request is not looked at: withdrawing a data
  source or taking it offline registers it.
\<close>

theorem first_registration_wins:
  assumes "umap_ok lst"
  shows "map_of (snd (ds_serve qs lst)) = map_of (map ds_entry qs) ++ map_of lst \<and>
    umap_ok (snd (ds_serve qs lst)) \<and>
    (\<forall>i < length qs. DsResponse_get_name (fst (ds_serve qs lst) ! i) = DsRequest_get_name (qs ! i) \<and>
      (DsResponse_get_status (fst (ds_serve qs lst) ! i) = Status_ok \<longleftrightarrow>
       DsRequest_get_name (qs ! i) \<notin> dom (map_of lst) \<union> DsRequest_get_name ` set (take i qs))) \<and>
    ds_serve (map (\<lambda>q. DsRequest_set_action q a) qs) lst = ds_serve qs lst"
proof -
  have "ds_serve (map (\<lambda>q. DsRequest_set_action q a) qs) lst = ds_serve qs lst"
    by (induction qs arbitrary: lst) (simp_all add: ds_process_entry ds_entry_def)
  moreover have "umap_ok (snd (ds_serve qs lst))"
    unfolding ds_serve_list by (rule umap_ok_foldl_emplace [OF assms])
  moreover have "map_of (snd (ds_serve qs lst)) = map_of (map ds_entry qs) ++ map_of lst"
    by (simp add: ds_serve_list map_of_foldl_emplace)
  ultimately show ?thesis using ds_serve_answers by blast
qed

definition sample_ds_requests :: "ds_request list" where
  "sample_ds_requests =
     [registry_request ''cam'' ''a.local'' 0 80, DsRequest_set_action (registry_request ''cam'' ''b.local'' 1 81) 1]"

theorem first_registration_wins_witness:
  "map_of (snd (ds_serve sample_ds_requests [])) ''cam'' = Some (0, ''a.local'', 80) \<and>
   DsResponse_get_status (fst (ds_serve sample_ds_requests []) ! 1) \<noteq> Status_ok"
proof -
  have 1: "length sample_ds_requests = 2" "DsRequest_get_name (sample_ds_requests ! 1) = ''cam''"
    "''cam'' \<in> DsRequest_get_name ` set (take 1 sample_ds_requests)"
    "map_of (map ds_entry sample_ds_requests) ''cam'' = Some (0, ''a.local'', 80)"
    by (simp_all add: sample_ds_requests_def registry_request_def DsRequest_new_def pb_dsreq0_def ds_entry_def)
  show ?thesis
    using first_registration_wins [of "[]" sample_ds_requests 0] 1 by (auto simp: map_add_def)
qed

end
