(* ===== verification/Datasource_System.thy ===== *)
theory Datasource_System
  imports Datasource_Registry
begin

text \<open>
  The registry client against the data source server over the wire: what a registration returns and
  what the server's list holds afterwards.
\<close>

text \<open>The protobuf serialisers and parsers of the two messages, and how the transport cuts their bytes.\<close>

record ds_codec =
  cd_ser_q :: "pb_dsreq \<Rightarrow> string"
  cd_parse_q :: "string \<Rightarrow> pb_dsreq option"
  cd_part_q :: "string \<Rightarrow> pb_dsreq"
  cd_ser_s :: "pb_dsresp \<Rightarrow> string"
  cd_parse_s :: "string \<Rightarrow> pb_dsresp option"
  cd_part_s :: "string \<Rightarrow> pb_dsresp"
  cd_cut :: "string \<Rightarrow> string list"

text \<open>
  One exchange: without a listening server, or when a message is not accepted, the task ends in
  another state than success (1), else the server's handler answers.
\<close>

definition ds_wire :: "ds_codec \<Rightarrow> ds_peer \<Rightarrow> ds_request \<Rightarrow> ds_server \<Rightarrow> int \<times> ds_response \<times> ds_server" where
  "ds_wire cd peer q srv =
     (if ps_server (dss_server srv) = None then (1, DsResponse_new, srv)
      else case feed (DsRequest_append (cd_parse_q cd) (cd_part_q cd)) DsRequest_new
                  (cd_cut cd (fst (snd (DsRequest_encode (cd_ser_q cd) q)))) of
        (r, _, q') \<Rightarrow>
          if r \<noteq> 1 then (1, DsResponse_new, srv)
          else case ds_process q' DsResponse_new (dss_list srv) of
            (resp, lst) \<Rightarrow>
              case feed (DsResponse_append (cd_parse_s cd) (cd_part_s cd)) DsResponse_new
                  (cd_cut cd (fst (snd (DsResponse_encode (cd_ser_s cd) resp)))) of
                (r', _, resp') \<Rightarrow> ((if r' = 1 then WFT_STATE_SUCCESS else 1), resp', srv\<lparr>dss_list := lst\<rparr>))"

abbreviation sent_ds_request :: "ds_request \<Rightarrow> pb_dsreq" where
  "sent_ds_request q \<equiv> (sq_req q)\<lparr>pbq_magic := get_magic DATASOURCE\<rparr>"

abbreviation sent_ds_response :: "ds_response \<Rightarrow> pb_dsresp" where
  "sent_ds_response s \<equiv> (ss_resp s)\<lparr>pbs_magic := get_magic DATASOURCE\<rparr>"

lemma ds_request_arrives:
  assumes "carried ser parse chunks (sent_ds_request q)"
  shows "feed (DsRequest_append parse partial) DsRequest_new (chunks (fst (snd (DsRequest_encode ser q)))) =
    (1, None, DsRequest_new\<lparr>sq_req := sent_ds_request q\<rparr>)"
proof -
  have "feed (DsRequest_append parse partial) DsRequest_new (chunks (ser (sent_ds_request q))) =
      DsRequest_accept DsRequest_new (sent_ds_request q)"
    by (rule ds_req_frame.feed_carried [OF _ _ assms]) (simp_all add: DsRequest_new_def)
  then show ?thesis by (simp add: DsRequest_encode_def Let_def DsRequest_accept_def DsRequest_new_def)
qed

lemma ds_response_arrives:
  assumes "carried ser parse chunks (sent_ds_response s)"
  shows "feed (DsResponse_append parse partial) DsResponse_new (chunks (fst (snd (DsResponse_encode ser s)))) =
    (1, None, DsResponse_new\<lparr>ss_resp := sent_ds_response s\<rparr>)"
proof -
  have "feed (DsResponse_append parse partial) DsResponse_new (chunks (ser (sent_ds_response s))) =
      DsResponse_accept DsResponse_new (sent_ds_response s)"
    by (rule ds_resp_frame.feed_carried [OF _ _ assms]) (simp_all add: DsResponse_new_def)
  then show ?thesis by (simp add: DsResponse_encode_def Let_def DsResponse_accept_def DsResponse_new_def)
qed

text \<open>
  What a receiver of a registration request reads: all the fields of the sender, but none of the
  metadata. The getters read the map of the class, which neither \<^verbatim>\<open>append\<close> nor a copy or move fills.
\<close>

theorem metadata_not_received:
  assumes "carried ser parse chunks (sent_ds_request (DsRequest_add_metadata q k v))"
  shows "(\<exists>q'. feed (DsRequest_append parse partial) DsRequest_new
        (chunks (fst (snd (DsRequest_encode ser (DsRequest_add_metadata q k v))))) = (1, None, q') \<and>
      ds_entry q' = ds_entry q \<and> DsRequest_get_token q' = DsRequest_get_token q \<and>
      DsRequest_get_action q' = DsRequest_get_action q \<and>
      (k, v) \<in> set (pbq_metadata (sq_req q')) \<and>
      DsRequest_get_metadata q' k = [] \<and> DsRequest_get_allmetadata q' = []) \<and>
    DsRequest_get_metadata (DsRequest_add_metadata q k v) k = v \<and>
    DsRequest_get_metadata (fst (DsRequest_move (DsRequest_add_metadata q k v))) k = []"
  unfolding ds_request_arrives [OF assms]
  by (simp_all add: ds_entry_def DsRequest_new_def DsRequest_add_metadata_def DsRequest_get_metadata_def
      DsRequest_get_allmetadata_def map_of_umap_set DsRequest_move_def)

theorem metadata_not_received_witness:
  "\<exists>q'. feed (DsRequest_append (\<lambda>bs. if bs = ''x'' then
          Some (sent_ds_request (DsRequest_add_metadata DsRequest_new ''codec'' ''h264'')) else None) (\<lambda>_. pb_dsreq0))
        DsRequest_new [''x''] = (1, None, q') \<and> DsRequest_get_metadata q' ''codec'' = []"
  using metadata_not_received [of "\<lambda>_. ''x''" "\<lambda>bs. if bs = ''x'' then
      Some (sent_ds_request (DsRequest_add_metadata DsRequest_new ''codec'' ''h264'')) else None" "\<lambda>bs. [bs]"
      DsRequest_new "''codec''" "''h264''" "\<lambda>_. pb_dsreq0", OF carried_whole]
  by (auto simp: DsRequest_encode_def Let_def)

text \<open>
  C10: a registration over the wire at a configured management unit that is running succeeds (0)
  exactly when the name is new there, and is refused (3) else; afterwards the unit answers the name
  with the new data source, or with the one it knew. Without a running server the client gets 1, for a
  configuration that was never loaded $2^{32} - 1$, and nothing changes.
\<close>

theorem registration_end_to_end:
  assumes cfg: "map_of configs config = Some (c_url, c_ssl, c_port)"
    and q: "carried (cd_ser_q cd) (cd_parse_q cd) (cd_cut cd) (sent_ds_request (registry_request name url proto port))"
    and s: "\<forall>status. carried (cd_ser_s cd) (cd_parse_s cd) (cd_cut cd)
      \<lparr>pbs_magic = get_magic DATASOURCE, pbs_token = [], pbs_name = name, pbs_status = status\<rparr>"
  shows "register_datasource (ds_wire cd) configs name url proto port config srv =
      (if ps_server (dss_server srv) = None then (1, srv)
       else if has_datasource (dss_list srv) name then (3, srv)
       else (0, srv\<lparr>dss_list := dss_list srv @ [(name, proto, url, port)]\<rparr>)) \<and>
    get_datasource (dss_list (snd (register_datasource (ds_wire cd) configs name url proto port config srv))) name =
      (if ps_server (dss_server srv) = None \<or> has_datasource (dss_list srv) name
       then get_datasource (dss_list srv) name else (proto, url, port)) \<and>
    register_datasource (ds_wire cd) [] name url proto port config srv = (-1, srv)"
proof -
  let ?q = "registry_request name url proto port"
  have entry: "ds_entry (DsRequest_new\<lparr>sq_req := sent_ds_request ?q\<rparr>) = (name, proto, url, port)"
    by (simp add: ds_entry_def registry_request_def)
  have resp: "(ss_resp DsResponse_new)\<lparr>pbs_token := [], pbs_name := name, pbs_status := st, pbs_magic := get_magic DATASOURCE\<rparr> =
      \<lparr>pbs_magic = get_magic DATASOURCE, pbs_token = [], pbs_name = name, pbs_status = st\<rparr>" for st
    by (simp add: DsResponse_new_def pb_dsresp0_def)
  have answer: "feed (DsResponse_append (cd_parse_s cd) (cd_part_s cd)) DsResponse_new
      (cd_cut cd (fst (snd (DsResponse_encode (cd_ser_s cd) (DsResponse_new\<lparr>ss_resp := (ss_resp DsResponse_new)
        \<lparr>pbs_token := [], pbs_name := name, pbs_status := st\<rparr>\<rparr>))))) =
      (1, None, DsResponse_new\<lparr>ss_resp := \<lparr>pbs_magic = get_magic DATASOURCE, pbs_token = [], pbs_name = name, pbs_status = st\<rparr>\<rparr>)"
    for st
    by (subst ds_response_arrives) (use s in \<open>simp_all add: DsResponse_new_def pb_dsresp0_def\<close>)
  have wire: "ds_wire cd peer ?q srv =
      (if ps_server (dss_server srv) = None then (1, DsResponse_new, srv)
       else (0, DsResponse_new\<lparr>ss_resp := \<lparr>pbs_magic = get_magic DATASOURCE, pbs_token = [], pbs_name = name,
               pbs_status = (if name \<in> dom (map_of (dss_list srv)) then Status_err else Status_ok)\<rparr>\<rparr>,
             srv\<lparr>dss_list := umap_emplace (dss_list srv) name (proto, url, port)\<rparr>))" for peer
    by (simp add: ds_wire_def ds_request_arrives [OF q] ds_process_entry entry answer WFT_STATE_SUCCESS_def
        del: ds_accessors get_magic.simps)
  have "register_datasource (ds_wire cd) configs name url proto port config srv =
      (if ps_server (dss_server srv) = None then (1, srv)
       else if has_datasource (dss_list srv) name then (3, srv)
       else (0, srv\<lparr>dss_list := dss_list srv @ [(name, proto, url, port)]\<rparr>))"
    using cfg by (auto simp: register_datasource_def wire registry_callback_def WFT_STATE_SUCCESS_def has_datasource_def
        umap_emplace_def Status_ok_def Status_err_def domIff)
  then show ?thesis
    by (auto simp: get_datasource_def has_datasource_def map_add_def register_datasource_def split: option.split)
qed

text \<open>Witness: a wire whose bytes are the name and status only, enough for one recorder.\<close>

definition cam_codec :: ds_codec where
  "cam_codec = \<lparr>cd_ser_q = (\<lambda>p. pbq_name p),
     cd_parse_q = (\<lambda>bs. Some (sent_ds_request (registry_request bs ''c.local'' 0 554))), cd_part_q = (\<lambda>_. pb_dsreq0),
     cd_ser_s = (\<lambda>p. to_string (unat (pbs_status p))),
     cd_parse_s = (\<lambda>bs. if bs \<in> range to_string \<and> inv to_string bs < 2 ^ 32
       then Some \<lparr>pbs_magic = get_magic DATASOURCE, pbs_token = [], pbs_name = ''cam'', pbs_status = of_nat (inv to_string bs)\<rparr>
       else None),
     cd_part_s = (\<lambda>_. pb_dsresp0), cd_cut = (\<lambda>bs. [bs])\<rparr>"

definition running_ds_server :: ds_server where
  "running_ds_server = snd (ds_start (\<lambda>_. 0) (DataSourceServer_new undefined
     \<lparr>pl_family = 2, pl_addr = ''localhost'', pl_port = 6666, pl_ssl = False, pl_ca_path = [], pl_key_path = [],
      pl_cert_path = []\<rparr>))"

theorem registration_end_to_end_witness:
  "register_datasource (ds_wire cam_codec) (load_config [] ''svr1'' ''localhost'' False 6666) ''cam'' ''c.local'' 0 554 ''svr1''
     running_ds_server = (0, running_ds_server\<lparr>dss_list := [(''cam'', 0, ''c.local'', 554)]\<rparr>)"
proof -
  have cfg: "map_of (load_config [] ''svr1'' ''localhost'' False 6666) ''svr1'' = Some (''localhost'', False, 6666)"
    by (simp add: load_config_def umap_set_def umap_erase_def)
  have cut: "cd_cut cam_codec = (\<lambda>bs. [bs])" by (simp add: cam_codec_def)
  have unat_lt: "unat (st :: u32) < 4294967296" for st
    using unsigned_less [of st] by simp
  have inv: "inv to_string (to_string n) = n" for n
    by (rule inv_f_f) (auto simp: inj_def to_string_inj)
  have q: "carried (cd_ser_q cam_codec) (cd_parse_q cam_codec) (cd_cut cam_codec)
      (sent_ds_request (registry_request ''cam'' ''c.local'' 0 554))"
    unfolding cut by (rule carried_whole) (simp add: cam_codec_def registry_request_def)
  have s: "\<forall>status. carried (cd_ser_s cam_codec) (cd_parse_s cam_codec) (cd_cut cam_codec)
      \<lparr>pbs_magic = get_magic DATASOURCE, pbs_token = [], pbs_name = ''cam'', pbs_status = status\<rparr>"
    unfolding cut by (intro allI carried_whole) (simp add: cam_codec_def inv unat_lt)
  have run: "ps_server (dss_server running_ds_server) \<noteq> None" "dss_list running_ds_server = []"
    by (simp_all add: running_ds_server_def ds_start_def plain_start_def DataSourceServer_new_def plain_setup_context_def Let_def)
  show ?thesis
    using registration_end_to_end [OF cfg q s, of running_ds_server] run
    by (simp add: has_datasource_def)
qed

end
