(* ===== verification/Fixed_Point.thy ===== *)
theory Fixed_Point
  imports Complex_Main Prelude
begin

text \<open>
  The \<^verbatim>\<open>float\<close> members of a message and their fixed-point form on the wire
  (\<^verbatim>\<open>proto/onvif/message.cc\<close>, lines 84 to 86 and 131 to 133). A finite float or double is the
  rational number it denotes; rounding is to the nearest, ties to even, with 24 and 53 significant
  bits. Infinities and NaN are not modelled.
\<close>

definition trunc_rat :: "rat \<Rightarrow> int" where
  "trunc_rat x = (if x < 0 then - \<lfloor>- x\<rfloor> else \<lfloor>x\<rfloor>)"

definition round_even :: "rat \<Rightarrow> int" where
  "round_even x =
     (let f = \<lfloor>x\<rfloor>; d = x - of_int f
      in if d < 1 / 2 then f else if d > 1 / 2 then f + 1 else if even f then f else f + 1)"

text \<open>The exponent of the leading bit of a number between $2^{-k}$ and $2^{k+1}$.\<close>

fun ilog :: "nat \<Rightarrow> rat \<Rightarrow> int" where
  "ilog 0 q = 0"
| "ilog (Suc k) q = (if q < 1 then ilog k (2 * q) - 1 else if 2 \<le> q then ilog k (q / 2) + 1 else 0)"

definition round_bits :: "int \<Rightarrow> rat \<Rightarrow> rat" where
  "round_bits p q =
     (if q = 0 then 0
      else let e = ilog 40 q - p + 1 in of_int (round_even (q / 2 powi e)) * 2 powi e)"

text \<open>
  \<^verbatim>\<open>set_pan(action.pan * 1e5)\<close>: the product of a 24-bit and a 12-bit mantissa is exact in a double; its
  conversion to \<^verbatim>\<open>uint32_t\<close> truncates, and is undefined when the result does not fit.
\<close>

definition to_wire :: "rat \<Rightarrow> u32 cxx" where
  "to_wire x =
     (let v = trunc_rat (x * 100000) in if 0 \<le> v \<and> v < 2 ^ 32 then Inr (of_int v) else Inl Undefined_behaviour)"

text \<open>\<^verbatim>\<open>proto_action.pan() / 1e5\<close>, a double, stored in a float.\<close>

definition of_wire :: "u32 \<Rightarrow> rat" where
  "of_wire n = round_bits 24 (round_bits 53 (of_nat (unat n) / 100000))"

lemma round_even_error: "\<bar>of_int (round_even x) - x\<bar> \<le> 1 / 2"
proof -
  have "of_int \<lfloor>x\<rfloor> \<le> x" "x < of_int \<lfloor>x\<rfloor> + 1" by linarith+
  then show ?thesis
    by (cases "x - of_int \<lfloor>x\<rfloor> < 1 / 2") (auto simp: round_even_def Let_def abs_le_iff)
qed

lemma ilog_bounds:
  "1 / 2 ^ k \<le> q \<Longrightarrow> q < 2 ^ (k + 1) \<Longrightarrow> 2 powi (ilog k q) \<le> q \<and> q < 2 powi (ilog k q + 1)"
proof (induction k arbitrary: q)
  case (Suc k)
  show ?case
  proof (cases "q < 1")
    case True
    have "2 powi (ilog k (2 * q)) \<le> 2 * q \<and> 2 * q < 2 powi (ilog k (2 * q) + 1)"
    proof (rule Suc.IH)
      show "1 / 2 ^ k \<le> 2 * q" using Suc.prems(1) by (simp add: field_simps)
      have "(1::rat) \<le> 2 ^ k" by simp
      with True have "q < 2 ^ k" by (rule less_le_trans)
      then show "2 * q < 2 ^ (k + 1)" by simp
    qed
    with True show ?thesis by (simp add: power_int_diff power_int_add)
  next
    case False
    show ?thesis
    proof (cases "2 \<le> q")
      case True
      have "2 powi (ilog k (q / 2)) \<le> q / 2 \<and> q / 2 < 2 powi (ilog k (q / 2) + 1)"
      proof (rule Suc.IH)
        have "1 / 2 ^ k \<le> (1::rat)" by simp
        then show "1 / 2 ^ k \<le> q / 2" using True by linarith
        show "q / 2 < 2 ^ (k + 1)" using Suc.prems(2) by simp
      qed
      with True show ?thesis by (simp add: power_int_add)
    next
      case False
      with \<open>\<not> q < 1\<close> show ?thesis by simp
    qed
  qed
qed simp

lemma round_bits_error:
  assumes "1 / 2 ^ 40 \<le> q" and "q < 2 ^ 41"
  shows "\<bar>round_bits p q - q\<bar> \<le> q * 2 powi (- p)"
proof -
  let ?e = "ilog 40 q - p + 1"
  have pos: "(0::rat) < 2 powi ?e" by simp
  have "q \<noteq> 0" using assms(1) by auto
  then have "round_bits p q - q = (of_int (round_even (q / 2 powi ?e)) - q / 2 powi ?e) * 2 powi ?e"
    by (simp add: round_bits_def Let_def left_diff_distrib)
  then have "\<bar>round_bits p q - q\<bar> = \<bar>of_int (round_even (q / 2 powi ?e)) - q / 2 powi ?e\<bar> * 2 powi ?e"
    using pos by (simp add: abs_mult)
  also have "\<dots> \<le> 1 / 2 * 2 powi ?e"
    using round_even_error pos by (intro mult_right_mono) simp_all
  also have "\<dots> = 2 powi (ilog 40 q) * 2 powi (- p)"
    by (simp add: power_int_add power_int_diff power_int_minus field_simps)
  also have "\<dots> \<le> q * 2 powi (- p)"
    using ilog_bounds [of 40 q] assms by (intro mult_right_mono) simp_all
  finally show ?thesis .
qed


lemma trunc_rat_bounds: "0 \<le> x \<Longrightarrow> 0 \<le> trunc_rat x \<and> of_int (trunc_rat x) \<le> x \<and> x < of_int (trunc_rat x) + 1"
  by (simp add: trunc_rat_def) linarith

lemma to_wire_Inr:
  assumes "0 \<le> x" and "x * 100000 < 2 ^ 32"
  shows "\<exists>n. to_wire x = Inr n \<and> of_nat (unat n) \<le> x * 100000 \<and> x * 100000 < of_nat (unat n) + 1"
proof -
  let ?v = "trunc_rat (x * 100000)"
  have v: "0 \<le> ?v" "of_int ?v \<le> x * 100000" "x * 100000 < of_int ?v + 1"
    using trunc_rat_bounds [of "x * 100000"] assms(1) by simp_all
  have "of_int ?v < (of_int (2 ^ 32) :: rat)" using v(2) assms(2) by simp
  then have lt: "?v < 2 ^ 32" by (simp only: of_int_less_iff)
  have "unat (of_int ?v :: u32) = nat ?v"
    using v(1) lt by (simp add: unat_eq_nat_uint word_of_int_inverse uint_word_of_int)
  then have "of_nat (unat (of_int ?v :: u32)) = (of_int ?v :: rat)"
    using v(1) by simp
  moreover have "to_wire x = Inr (of_int ?v)" using v(1) lt by (simp add: to_wire_def Let_def)
  ultimately show ?thesis using v(2,3) by (intro exI [of _ "of_int ?v"]) simp
qed

lemma of_wire_error: "\<bar>of_wire n - of_nat (unat n) / 100000\<bar> \<le> of_nat (unat n) / 100000 / 2 ^ 23"
proof (cases "n = 0")
  case True
  then show ?thesis by (simp add: of_wire_def round_bits_def)
next
  case False
  let ?q = "of_nat (unat n) / 100000 :: rat"
  have "unat n \<noteq> 0" using False by (simp add: unat_eq_0)
  then have "of_nat 1 \<le> (of_nat (unat n) :: rat)" by (simp only: of_nat_le_iff)
  then have ge: "1 / 100000 \<le> ?q" by (simp add: divide_right_mono)
  have "unat n < 2 ^ 32" using unsigned_less [of n] by simp
  then have "(of_nat (unat n) :: rat) < of_nat (2 ^ 32)" by (simp only: of_nat_less_iff)
  then have lt: "?q < 2 ^ 32 / 100000" by (simp add: divide_strict_right_mono)
  let ?r = "round_bits 53 ?q"
  have "(1::rat) / 2 ^ 40 \<le> 1 / 100000" "(2::rat) ^ 32 / 100000 < 2 ^ 41" by simp_all
  with ge lt have "1 / 2 ^ 40 \<le> ?q" "?q < 2 ^ 41" by linarith+
  from round_bits_error [OF this, of 53] have r: "\<bar>?r - ?q\<bar> \<le> ?q * (1 / 2 ^ 53)"
    by (simp add: power_int_minus field_simps)
  have "?q * (1 / 2 ^ 53) \<le> ?q * (1 / 4)" using ge by (intro mult_left_mono) simp_all
  with r have near: "?q - ?q * (1 / 4) \<le> ?r" "?r \<le> ?q + ?q * (1 / 4)" by linarith+
  have "?q < 50000" using lt by simp
  then have "?q + ?q * (1 / 4) < 2 ^ 41" by simp
  with near(2) have upper: "?r < 2 ^ 41" by (rule le_less_trans)
  have "1 / 2 ^ 40 \<le> ?q - ?q * (1 / 4)" using ge by simp
  then have "1 / 2 ^ 40 \<le> ?r" using near(1) by (rule order_trans)
  from round_bits_error [OF \<open>1 / 2 ^ 40 \<le> ?r\<close> upper, of 24] have s: "\<bar>of_wire n - ?r\<bar> \<le> ?r * (1 / 2 ^ 24)"
    by (simp add: of_wire_def power_int_minus field_simps)
  from r have "?r \<le> ?q + ?q * (1 / 2 ^ 53)" by linarith
  then have "?r * (1 / 2 ^ 24) \<le> (?q + ?q * (1 / 2 ^ 53)) * (1 / 2 ^ 24)"
    by (intro mult_right_mono) simp_all
  with r s have "\<bar>of_wire n - ?q\<bar> \<le> ?q * (1 / 2 ^ 53) + (?q + ?q * (1 / 2 ^ 53)) * (1 / 2 ^ 24)"
    by linarith
  also have "\<dots> = ?q * (1 / 2 ^ 53 + (1 + 1 / 2 ^ 53) * (1 / 2 ^ 24))" by (simp add: algebra_simps)
  also have "\<dots> \<le> ?q * (1 / 2 ^ 23)" using ge by (intro mult_left_mono) simp_all
  finally show ?thesis by simp
qed

end
