(* ===== verification/Onvif_Message.thy ===== *)
theory Onvif_Message
  imports Framing Fixed_Point
begin

text \<open>
  The message of the camera forwarding protocol, \<^verbatim>\<open>proto/onvif/message.cc\<close>: one class serves as
  request and response. The protobuf serialiser and parser are parameters; an optional field that
  is absent reads 0, so a field is its value. Sizes are \<^verbatim>\<open>int\<close>s: the model is for messages of less
  than 2 GiB.
\<close>

record onvif_action =
  oa_target :: string
  oa_result :: string
  oa_ack :: bool
  oa_scan :: bool
  oa_streaming :: bool
  oa_snap :: bool
  oa_moving :: bool
  oa_absmov :: bool
  oa_pan :: rat
  oa_tilt :: rat
  oa_zoom :: rat
  oa_timeout :: "16 word"

record onvif_message =
  om_buf :: "string option"
  om_size :: nat
  om_transaction :: u32
  om_src :: u32
  om_dest :: u32
  om_token :: string
  om_actions :: "onvif_action list"
  om_ext :: string

definition Onvif_new :: onvif_message where
  "Onvif_new = \<lparr>om_buf = None, om_size = 0, om_transaction = 0, om_src = 0, om_dest = 0, om_token = [], om_actions = [],
     om_ext = []\<rparr>"

text \<open>The copy allocates a buffer even when there is none; a move leaves all but the buffer in place.\<close>

definition Onvif_copy :: "onvif_message \<Rightarrow> onvif_message" where
  "Onvif_copy msg =
     \<lparr>om_buf = Some (take (om_size msg) (buffered (om_buf msg))), om_size = om_size msg,
      om_transaction = om_transaction msg, om_src = om_src msg, om_dest = om_dest msg, om_token = om_token msg,
      om_actions = om_actions msg, om_ext = om_ext msg\<rparr>"

definition Onvif_move :: "onvif_message \<Rightarrow> onvif_message \<times> onvif_message" where
  "Onvif_move msg =
     (\<lparr>om_buf = om_buf msg, om_size = om_size msg,
       om_transaction = om_transaction msg, om_src = om_src msg, om_dest = om_dest msg, om_token = om_token msg,
       om_actions = om_actions msg, om_ext = om_ext msg\<rparr>,
      msg\<lparr>om_buf := None, om_size := 0\<rparr>)"

definition Onvif_copy_assign :: "onvif_message \<Rightarrow> onvif_message \<Rightarrow> onvif_message" where
  "Onvif_copy_assign this msg =
     this\<lparr>om_buf := Some (take (om_size msg) (buffered (om_buf msg))), om_size := om_size msg,
       om_transaction := om_transaction msg, om_src := om_src msg, om_dest := om_dest msg, om_token := om_token msg,
       om_actions := om_actions msg, om_ext := om_ext msg\<rparr>"

definition Onvif_move_assign :: "onvif_message \<Rightarrow> onvif_message \<Rightarrow> onvif_message \<times> onvif_message" where
  "Onvif_move_assign this msg =
     (this\<lparr>om_buf := om_buf msg, om_size := om_size msg,
       om_transaction := om_transaction msg, om_src := om_src msg, om_dest := om_dest msg, om_token := om_token msg,
       om_actions := om_actions msg, om_ext := om_ext msg\<rparr>,
      msg\<lparr>om_buf := None, om_size := 0\<rparr>)"

text \<open>The destructor frees a buffer made by \<^verbatim>\<open>new char[]\<close> with \<^verbatim>\<open>delete\<close>.\<close>

definition Onvif_destroy :: "onvif_message \<Rightarrow> unit cxx" where
  "Onvif_destroy msg = (if om_buf msg \<noteq> None then Inl Undefined_behaviour else Inr ())"

section \<open>The generated messages\<close>

record pb_ipcaction =
  pi_ipc :: string
  pi_result :: string
  pi_ack :: u32
  pi_scan :: u32
  pi_streaming :: u32
  pi_snap :: u32
  pi_move :: u32
  pi_absolute :: u32
  pi_pan :: u32
  pi_tilt :: u32
  pi_zoom :: u32
  pi_timeout :: u32

record pb_onvif =
  po_magic :: u32
  po_transaction :: u32
  po_src :: u32
  po_dest :: u32
  po_token :: string
  po_actions :: "pb_ipcaction list"
  po_extension :: string

definition u32_of_bool :: "bool \<Rightarrow> u32" where
  "u32_of_bool b = (if b then 1 else 0)"

definition ipc_to_pb :: "onvif_action \<Rightarrow> pb_ipcaction cxx" where
  "ipc_to_pb a =
     cxx_bind (to_wire (oa_pan a)) (\<lambda>pan. cxx_bind (to_wire (oa_tilt a)) (\<lambda>tilt. cxx_bind (to_wire (oa_zoom a)) (\<lambda>zoom.
       Inr \<lparr>pi_ipc = oa_target a, pi_result = oa_result a, pi_ack = u32_of_bool (oa_ack a),
         pi_scan = u32_of_bool (oa_scan a), pi_streaming = u32_of_bool (oa_streaming a),
         pi_snap = u32_of_bool (oa_snap a), pi_move = u32_of_bool (oa_moving a),
         pi_absolute = u32_of_bool (oa_absmov a), pi_pan = pan, pi_tilt = tilt, pi_zoom = zoom,
         pi_timeout = ucast (oa_timeout a)\<rparr>)))"

definition Onvif_to_pb :: "onvif_message \<Rightarrow> pb_onvif cxx" where
  "Onvif_to_pb m =
     cxx_bind (cxx_map ipc_to_pb (om_actions m)) (\<lambda>as.
       Inr \<lparr>po_magic = get_magic ONVIFFORWARD, po_transaction = om_transaction m, po_src = om_src m, po_dest = om_dest m,
         po_token = om_token m, po_actions = as, po_extension = om_ext m\<rparr>)"

definition Onvif_encode :: "(pb_onvif \<Rightarrow> string) \<Rightarrow> onvif_message \<Rightarrow> (int \<times> string \<times> onvif_message) cxx" where
  "Onvif_encode ser m =
     cxx_bind (Onvif_to_pb m) (\<lambda>p. let bytes = ser p in Inr (1, bytes, m\<lparr>om_size := length bytes, om_buf := Some bytes\<rparr>))"

definition ipc_of_pb :: "pb_ipcaction \<Rightarrow> onvif_action" where
  "ipc_of_pb p =
     \<lparr>oa_target = pi_ipc p, oa_result = pi_result p, oa_ack = (pi_ack p \<noteq> 0), oa_scan = (pi_scan p \<noteq> 0),
      oa_streaming = (pi_streaming p \<noteq> 0), oa_snap = (pi_snap p \<noteq> 0), oa_moving = (pi_move p \<noteq> 0),
      oa_absmov = (pi_absolute p \<noteq> 0), oa_pan = of_wire (pi_pan p), oa_tilt = of_wire (pi_tilt p),
      oa_zoom = of_wire (pi_zoom p), oa_timeout = ucast (pi_timeout p)\<rparr>"

text \<open>The magic is not looked at; the actions are put behind those the object has.\<close>

definition Onvif_accept :: "onvif_message \<Rightarrow> pb_onvif \<Rightarrow> onvif_message append_res" where
  "Onvif_accept m p =
     (1, None, m\<lparr>om_buf := None, om_size := 0, om_transaction := po_transaction p, om_src := po_src p,
       om_dest := po_dest p, om_token := po_token p, om_ext := po_extension p,
       om_actions := om_actions m @ map ipc_of_pb (po_actions p)\<rparr>)"

definition Onvif_append :: "(string \<Rightarrow> pb_onvif option) \<Rightarrow> onvif_message \<Rightarrow> string \<Rightarrow> onvif_message append_res" where
  "Onvif_append parse m chunk =
     (let buf = gather (om_buf m) (om_size m) chunk;
          n = om_size m + length chunk
      in case parse (take n buf) of
           None \<Rightarrow> (0, None, m\<lparr>om_buf := Some buf, om_size := n\<rparr>)
         | Some p \<Rightarrow> Onvif_accept m p)"

section \<open>Setters and getters\<close>

definition Onvif_set_transaction :: "onvif_message \<Rightarrow> u32 \<Rightarrow> onvif_message" where
  "Onvif_set_transaction m t = m\<lparr>om_transaction := t\<rparr>"

definition Onvif_set_src :: "onvif_message \<Rightarrow> u32 \<Rightarrow> onvif_message" where
  "Onvif_set_src m src = m\<lparr>om_src := src\<rparr>"

definition Onvif_set_dest :: "onvif_message \<Rightarrow> u32 \<Rightarrow> onvif_message" where
  "Onvif_set_dest m dest = m\<lparr>om_dest := dest\<rparr>"

definition Onvif_set_token :: "onvif_message \<Rightarrow> string \<Rightarrow> onvif_message" where
  "Onvif_set_token m token = m\<lparr>om_token := token\<rparr>"

definition Onvif_set_ext :: "onvif_message \<Rightarrow> string \<Rightarrow> onvif_message" where
  "Onvif_set_ext m ext = m\<lparr>om_ext := ext\<rparr>"

definition Onvif_set_actions :: "onvif_message \<Rightarrow> onvif_action list \<Rightarrow> onvif_message" where
  "Onvif_set_actions m as = m\<lparr>om_actions := as\<rparr>"

definition Onvif_add_action :: "onvif_message \<Rightarrow> onvif_action \<Rightarrow> onvif_message" where
  "Onvif_add_action m a = m\<lparr>om_actions := om_actions m @ [a]\<rparr>"

text \<open>\<^verbatim>\<open>actions[idx]\<close> is not checked; the index is an \<^verbatim>\<open>int\<close>.\<close>

definition Onvif_get_action :: "onvif_message \<Rightarrow> int \<Rightarrow> onvif_action cxx" where
  "Onvif_get_action m idx =
     (if in_range idx (om_actions m) then Inr (om_actions m ! nat idx) else Inl Undefined_behaviour)"

interpretation onvif_frame: framed parse "Onvif_append parse" "\<lambda>m. buffered (om_buf m)"
  "\<lambda>m b. m\<lparr>om_buf := Some b, om_size := length b\<rparr>" Onvif_accept "\<lambda>m. buffer_ok (om_buf m) (om_size m)"
  for parse
  by (rule framed_of_buffer [where put = "\<lambda>m b n. m\<lparr>om_buf := Some b, om_size := n\<rparr>"])
    (auto simp: Onvif_append_def Onvif_accept_def Let_def)

section \<open>What the wire makes of an action\<close>

text \<open>The action that arrives when it can be sent at all.\<close>

definition onvif_arrived :: "onvif_action \<Rightarrow> onvif_action \<Rightarrow> bool" where
  "onvif_arrived a b \<longleftrightarrow>
     (\<exists>pan tilt zoom. to_wire (oa_pan a) = Inr pan \<and> to_wire (oa_tilt a) = Inr tilt \<and> to_wire (oa_zoom a) = Inr zoom \<and>
       b = a\<lparr>oa_pan := of_wire pan, oa_tilt := of_wire tilt, oa_zoom := of_wire zoom\<rparr>)"

lemma u32_of_bool_neq [simp]: "u32_of_bool b \<noteq> 0 \<longleftrightarrow> b"
  by (simp add: u32_of_bool_def)

lemma ipc_roundtrip: "ipc_to_pb a = Inr p \<Longrightarrow> onvif_arrived a (ipc_of_pb p)"
  by (cases a) (auto simp: ipc_to_pb_def onvif_arrived_def ipc_of_pb_def unsigned_ucast_eq take_bit_word_eq_self)

lemma cxx_map_list_all2: "cxx_map f xs = Inr ys \<Longrightarrow> (\<And>x y. f x = Inr y \<Longrightarrow> R x (g y)) \<Longrightarrow> list_all2 R xs (map g ys)"
  by (induction xs arbitrary: ys) auto

lemma Onvif_roundtrip:
  assumes "Onvif_encode ser m = Inr (r, bytes, m')" and "Onvif_to_pb m = Inr p" and "carried ser parse chunks p"
  shows "\<exists>as. feed (Onvif_append parse) Onvif_new (chunks bytes) = (1, None, m\<lparr>om_buf := None, om_size := 0, om_actions := as\<rparr>) \<and>
    list_all2 onvif_arrived (om_actions m) as"
proof -
  have bytes: "bytes = ser p" using assms(1,2) by (auto simp: Onvif_encode_def Let_def)
  obtain as where as: "cxx_map ipc_to_pb (om_actions m) = Inr as" and p: "po_actions p = as"
    using assms(2) by (auto simp: Onvif_to_pb_def)
  have "feed (Onvif_append parse) Onvif_new (chunks (ser p)) = Onvif_accept Onvif_new p"
    by (rule onvif_frame.feed_carried [OF _ _ assms(3)]) (simp_all add: Onvif_new_def)
  also have "\<dots> = (1, None, m\<lparr>om_buf := None, om_size := 0, om_actions := map ipc_of_pb as\<rparr>)"
    using assms(2) as by (auto simp: Onvif_accept_def Onvif_to_pb_def Onvif_new_def)
  finally show ?thesis
    using cxx_map_list_all2 [OF as, of onvif_arrived ipc_of_pb] ipc_roundtrip bytes by auto
qed

end
