(* ===== verification/Onvif_Server.thy ===== *)
theory Onvif_Server
  imports Onvif_Message
begin

text \<open>
  The camera forwarding server of a recorder, \<^verbatim>\<open>nvr/onvif/server.cc\<close> with the adapter of
  \<^verbatim>\<open>nvr/onvif/adapter.cc\<close>. The adapter's virtual functions drive the cameras: they are a parameter over a
  world \<open>'w\<close>, and so is the \<^verbatim>\<open>start\<close> of the network framework's server.
\<close>

section \<open>The adapter\<close>

type_synonym geo = "rat \<times> rat \<times> rat"

record onvif_device =
  dv_xaddr :: string
  dv_port :: int
  dv_snapurl :: string
  dv_streamurl :: string
  dv_geo :: geo

record 'w onvif_adapter =
  ad_devices_list :: "'w \<Rightarrow> onvif_device list \<times> 'w"
  ad_absolute_move :: "string \<Rightarrow> geo \<Rightarrow> 'w \<Rightarrow> int \<times> 'w"
  ad_continous_move :: "string \<Rightarrow> geo \<Rightarrow> 16 word \<Rightarrow> 'w \<Rightarrow> int \<times> 'w"

definition get_devices :: "'w onvif_adapter \<Rightarrow> 'w \<Rightarrow> onvif_device list \<times> 'w" where
  "get_devices ad w = ad_devices_list ad w"

definition ptz_device :: "'w onvif_adapter \<Rightarrow> string \<Rightarrow> bool \<Rightarrow> geo \<Rightarrow> 16 word \<Rightarrow> 'w \<Rightarrow> int \<times> 'w" where
  "ptz_device ad xaddr absolute g timeout w =
     (if absolute then ad_absolute_move ad xaddr g w else ad_continous_move ad xaddr g timeout w)"

section \<open>Life cycle\<close>

record onvif_setup =
  ou_uid :: u32
  ou_family :: int
  ou_port :: u32
  ou_ssl :: bool
  ou_ca :: string
  ou_cert :: string
  ou_key :: string

record onvif_listen =
  ol_family :: int
  ol_port :: int
  ol_tls :: "(string \<times> string) option"

record onvif_server =
  os_server :: "onvif_listen option"
  os_family :: int
  os_port :: int
  os_ssl :: bool
  os_ca :: string
  os_cert :: string
  os_key :: string
  os_uid :: u32

text \<open>\<^verbatim>\<open>int port = setup.port\<close>: a \<^verbatim>\<open>uint32_t\<close> read as an \<^verbatim>\<open>int\<close>.\<close>

definition OnvifForwardServer_new :: "onvif_setup \<Rightarrow> onvif_server" where
  "OnvifForwardServer_new s =
     \<lparr>os_server = None, os_family = ou_family s, os_port = sint (ou_port s), os_ssl = ou_ssl s, os_ca = ou_ca s,
      os_cert = ou_cert s, os_key = ou_key s, os_uid = ou_uid s\<rparr>"

definition onvif_start :: "(onvif_listen \<Rightarrow> int) \<Rightarrow> onvif_server \<Rightarrow> int \<times> onvif_server" where
  "onvif_start wf_start srv =
     (case os_server srv of
        Some _ \<Rightarrow> (0, srv)
      | None \<Rightarrow>
          (let l = \<lparr>ol_family = os_family srv, ol_port = os_port srv,
                    ol_tls = (if os_ssl srv then Some (os_cert srv, os_key srv) else None)\<rparr>
           in (wf_start l, srv\<lparr>os_server := Some l\<rparr>)))"

definition onvif_stop :: "onvif_server \<Rightarrow> int \<times> onvif_server" where
  "onvif_stop srv = (case os_server srv of None \<Rightarrow> (0, srv) | Some _ \<Rightarrow> (0, srv\<lparr>os_server := None\<rparr>))"

section \<open>The handler\<close>

definition device_action :: "onvif_device \<Rightarrow> onvif_action" where
  "device_action d =
     \<lparr>oa_target = dv_xaddr d, oa_result = dv_xaddr d, oa_ack = True, oa_scan = True, oa_streaming = False,
      oa_snap = False, oa_moving = False, oa_absmov = False, oa_pan = 0, oa_tilt = 0, oa_zoom = 0, oa_timeout = 0\<rparr>"

definition reply_action :: "onvif_action \<Rightarrow> onvif_action" where
  "reply_action a =
     \<lparr>oa_target = oa_target a, oa_result = [], oa_ack = True, oa_scan = oa_scan a, oa_streaming = oa_streaming a,
      oa_snap = oa_snap a, oa_moving = oa_moving a, oa_absmov = oa_absmov a, oa_pan = oa_pan a, oa_tilt = oa_tilt a,
      oa_zoom = oa_zoom a, oa_timeout = oa_timeout a\<rparr>"

definition move_camera :: "'w onvif_adapter \<Rightarrow> onvif_action \<Rightarrow> 'w \<Rightarrow> 'w" where
  "move_camera ad a w =
     (if oa_moving a
      then snd (ptz_device ad (oa_target a) (oa_absmov a) (oa_pan a, oa_tilt a, oa_zoom a) (oa_timeout a) w)
      else w)"

text \<open>The loop over the request's actions; a scan ends it.\<close>

fun serve_actions ::
  "'w onvif_adapter \<Rightarrow> onvif_action list \<Rightarrow> onvif_message \<Rightarrow> 'w \<Rightarrow> onvif_message \<times> 'w" where
  "serve_actions ad [] resp w = (resp, w)"
| "serve_actions ad (a # as) resp w =
     (if oa_scan a
      then (case get_devices ad w of (ds, w') \<Rightarrow> (foldl Onvif_add_action resp (map device_action ds), w'))
      else serve_actions ad as (Onvif_add_action resp (reply_action a)) (move_camera ad a w))"

definition onvif_process :: "'w onvif_adapter \<Rightarrow> u32 \<Rightarrow> onvif_message \<Rightarrow> onvif_message \<Rightarrow> 'w \<Rightarrow> onvif_message \<times> 'w" where
  "onvif_process ad uid req resp w =
     serve_actions ad (om_actions req)
       (Onvif_set_src (Onvif_set_dest (Onvif_set_transaction resp (om_transaction req)) (om_src req)) uid) w"

section \<open>What a request does\<close>

lemma foldl_add_action: "foldl Onvif_add_action m as = m\<lparr>om_actions := om_actions m @ as\<rparr>"
  by (induction as arbitrary: m) (simp_all add: Onvif_add_action_def)

lemma serve_no_scan:
  "\<forall>a \<in> set pre. \<not> oa_scan a \<Longrightarrow>
     serve_actions ad (pre @ rest) resp w =
       serve_actions ad rest (resp\<lparr>om_actions := om_actions resp @ map reply_action pre\<rparr>) (fold (move_camera ad) pre w)"
  by (induction pre arbitrary: resp w) (simp_all add: Onvif_add_action_def)

lemma onvif_process_no_scan:
  "\<forall>a \<in> set (om_actions req). \<not> oa_scan a \<Longrightarrow>
     onvif_process ad uid req Onvif_new w =
       (Onvif_new\<lparr>om_transaction := om_transaction req, om_dest := om_src req, om_src := uid,
          om_actions := map reply_action (om_actions req)\<rparr>,
        fold (move_camera ad) (om_actions req) w)"
  using serve_no_scan [of "om_actions req" ad "[]"]
  by (simp add: onvif_process_def Onvif_set_src_def Onvif_set_dest_def Onvif_set_transaction_def Onvif_new_def)

text \<open>
  the recorder answers a request with its transaction number, its addresses exchanged, and one
  acknowledged action for each action, in order, after moving the cameras in that order. A scan among
  them is answered with the cameras the adapter lists, and ends the request: the actions behind it are
  neither carried out nor answered.
\<close>

theorem recorder_answers:
  assumes "\<forall>a \<in> set pre. \<not> oa_scan a"
  shows "(om_actions req = pre \<longrightarrow>
      onvif_process ad uid req Onvif_new w =
        (Onvif_new\<lparr>om_transaction := om_transaction req, om_dest := om_src req, om_src := uid,
           om_actions := map reply_action pre\<rparr>, fold (move_camera ad) pre w)) \<and>
    (om_actions req = pre @ a # post \<and> oa_scan a \<longrightarrow>
      (\<exists>ds w'. get_devices ad (fold (move_camera ad) pre w) = (ds, w') \<and>
        onvif_process ad uid req Onvif_new w =
          (Onvif_new\<lparr>om_transaction := om_transaction req, om_dest := om_src req, om_src := uid,
             om_actions := map reply_action pre @ map device_action ds\<rparr>, w')))"
proof (intro conjI impI)
  show "onvif_process ad uid req Onvif_new w =
      (Onvif_new\<lparr>om_transaction := om_transaction req, om_dest := om_src req, om_src := uid,
         om_actions := map reply_action pre\<rparr>, fold (move_camera ad) pre w)"
    if "om_actions req = pre"
    using onvif_process_no_scan [of req ad uid w] assms that by simp
next
  assume req: "om_actions req = pre @ a # post \<and> oa_scan a"
  obtain ds w' where ds: "get_devices ad (fold (move_camera ad) pre w) = (ds, w')" by fastforce
  have "onvif_process ad uid req Onvif_new w =
      (Onvif_new\<lparr>om_transaction := om_transaction req, om_dest := om_src req, om_src := uid,
         om_actions := map reply_action pre @ map device_action ds\<rparr>, w')"
    using req ds assms
    by (simp add: onvif_process_def serve_no_scan foldl_add_action Onvif_set_src_def Onvif_set_dest_def
        Onvif_set_transaction_def Onvif_new_def)
  with ds show "\<exists>ds w'. get_devices ad (fold (move_camera ad) pre w) = (ds, w') \<and>
        onvif_process ad uid req Onvif_new w =
          (Onvif_new\<lparr>om_transaction := om_transaction req, om_dest := om_src req, om_src := uid,
             om_actions := map reply_action pre @ map device_action ds\<rparr>, w')"
    by blast
qed

text \<open>An adapter that writes down the moves it is asked for.\<close>

definition logging_adapter :: "(string \<times> bool \<times> geo) list onvif_adapter" where
  "logging_adapter =
     \<lparr>ad_devices_list = (\<lambda>w. ([\<lparr>dv_xaddr = ''ipc1'', dv_port = 80, dv_snapurl = [], dv_streamurl = [], dv_geo = (0, 0, 0)\<rparr>], w)),
      ad_absolute_move = (\<lambda>x g w. (0, w @ [(x, True, g)])),
      ad_continous_move = (\<lambda>x g t w. (0, w @ [(x, False, g)]))\<rparr>"

definition move_action :: "string \<Rightarrow> rat \<Rightarrow> onvif_action" where
  "move_action target pan =
     \<lparr>oa_target = target, oa_result = [], oa_ack = False, oa_scan = False, oa_streaming = False, oa_snap = False,
      oa_moving = True, oa_absmov = False, oa_pan = pan, oa_tilt = 0, oa_zoom = 0, oa_timeout = 0\<rparr>"

theorem recorder_answers_witness:
  "snd (onvif_process logging_adapter 0
     (Onvif_set_actions Onvif_new [move_action ''a'' 1, (move_action ''b'' 1)\<lparr>oa_scan := True\<rparr>, move_action ''c'' 1])
     Onvif_new []) = [(''a'', False, (1, 0, 0))]"
proof -
  have pre: "\<forall>a \<in> set [move_action ''a'' 1]. \<not> oa_scan a" by (simp add: move_action_def)
  show ?thesis
    using recorder_answers [OF pre, of "Onvif_set_actions Onvif_new
        [move_action ''a'' 1, (move_action ''b'' 1)\<lparr>oa_scan := True\<rparr>, move_action ''c'' 1]" logging_adapter 0 "[]"
        "(move_action ''b'' 1)\<lparr>oa_scan := True\<rparr>" "[move_action ''c'' 1]"]
    by (auto simp: Onvif_set_actions_def get_devices_def logging_adapter_def move_camera_def ptz_device_def
        move_action_def)
qed

text \<open>
  C25: a movement over the wire. An angle from 0 up to $2^{32} / 10^5$ reaches the camera with an error of
  less than $10^{-5}$ of rounding down plus one part in $2^{23}$; the reply repeats what the camera got. A
  movement to the left or downwards by $10^{-5}$ or more cannot be sent: its encoding is undefined.
\<close>

theorem camera_moves_over_wire:
  assumes enc: "Onvif_encode ser (Onvif_set_actions m [a]) = Inr (r, bytes, m')"
    and pb: "Onvif_to_pb (Onvif_set_actions m [a]) = Inr p" and "carried ser parse chunks p"
    and a: "oa_moving a" "\<not> oa_scan a"
  shows "\<exists>req b. feed (Onvif_append parse) Onvif_new (chunks bytes) = (1, None, req) \<and> om_actions req = [b] \<and>
      onvif_process ad uid req Onvif_new w =
        (Onvif_new\<lparr>om_transaction := om_transaction m, om_dest := om_src m, om_src := uid, om_actions := [reply_action b]\<rparr>,
         snd (ptz_device ad (oa_target a) (oa_absmov a) (oa_pan b, oa_tilt b, oa_zoom b) (oa_timeout a) w)) \<and>
      (\<forall>(x, y) \<in> {(oa_pan a, oa_pan b), (oa_tilt a, oa_tilt b), (oa_zoom a, oa_zoom b)}.
        - 1 / 100000 < x \<and> (0 \<le> x \<longrightarrow> y \<le> x + x / 2 ^ 23 \<and> x < y + 1 / 100000 + x / 2 ^ 23))"
proof -
  from Onvif_roundtrip [OF enc pb assms(3)] obtain b where
    feed: "feed (Onvif_append parse) Onvif_new (chunks bytes) = (1, None, m\<lparr>om_buf := None, om_size := 0, om_actions := [b]\<rparr>)"
    and b: "onvif_arrived a b"
    by (auto simp: Onvif_set_actions_def list_all2_Cons1)
  let ?req = "m\<lparr>om_buf := None, om_size := 0, om_actions := [b]\<rparr>"
  have same: "oa_moving b" "\<not> oa_scan b" "oa_target b = oa_target a" "oa_absmov b = oa_absmov a" "oa_timeout b = oa_timeout a"
    using b a by (auto simp: onvif_arrived_def)
  have err: "- 1 / 100000 < x \<and> (0 \<le> x \<longrightarrow> of_wire n \<le> x + x / 2 ^ 23 \<and> x < of_wire n + 1 / 100000 + x / 2 ^ 23)"
    if n: "to_wire x = Inr n" for x n
  proof (cases "0 \<le> x")
    case False
    have "trunc_rat (x * 100000) \<ge> 0" using n by (simp add: to_wire_def Let_def split: if_splits)
    then have "\<lfloor>- (x * 100000)\<rfloor> \<le> 0" using False by (simp add: trunc_rat_def split: if_splits)
    then have "- (x * 100000) < 1" by linarith
    with False show ?thesis by simp
  next
    case True
    have "x * 100000 < 2 ^ 32"
    proof -
      have "trunc_rat (x * 100000) < 2 ^ 32" using n by (simp add: to_wire_def Let_def split: if_splits)
      then have "of_int (trunc_rat (x * 100000) + 1) \<le> (of_int (2 ^ 32) :: rat)" by (simp only: of_int_le_iff)
      with trunc_rat_bounds [of "x * 100000"] True show ?thesis by simp
    qed
    from to_wire_Inr [OF True this] n have u: "of_nat (unat n) \<le> x * 100000" "x * 100000 < of_nat (unat n) + 1" by auto
    let ?q = "of_nat (unat n) / 100000 :: rat"
    have q: "?q \<le> x" "x < ?q + 1 / 100000" using u by (simp_all add: field_simps)
    have "?q / 2 ^ 23 \<le> x / 2 ^ 23" using q(1) by (rule divide_right_mono) simp
    with of_wire_error [of n] q show ?thesis by (auto simp only: abs_le_iff)
  qed
  have "onvif_process ad uid ?req Onvif_new w =
      (Onvif_new\<lparr>om_transaction := om_transaction m, om_dest := om_src m, om_src := uid, om_actions := [reply_action b]\<rparr>,
       snd (ptz_device ad (oa_target a) (oa_absmov a) (oa_pan b, oa_tilt b, oa_zoom b) (oa_timeout a) w))"
    using onvif_process_no_scan [of ?req ad uid w] same by (simp add: move_camera_def)
  moreover have "\<forall>(x, y) \<in> {(oa_pan a, oa_pan b), (oa_tilt a, oa_tilt b), (oa_zoom a, oa_zoom b)}.
      - 1 / 100000 < x \<and> (0 \<le> x \<longrightarrow> y \<le> x + x / 2 ^ 23 \<and> x < y + 1 / 100000 + x / 2 ^ 23)"
    using b err by (auto simp: onvif_arrived_def)
  ultimately show ?thesis using feed by fastforce
qed

text \<open>Witness: the float 0.7, which is sent as 69999.\<close>

definition pan_message :: onvif_message where
  "pan_message = Onvif_set_actions Onvif_new [move_action ''a'' (11744051 / 16777216)]"

definition pan_pb :: pb_onvif where
  "pan_pb = \<lparr>po_magic = get_magic ONVIFFORWARD, po_transaction = 0, po_src = 0, po_dest = 0, po_token = [],
     po_actions = [\<lparr>pi_ipc = ''a'', pi_result = [], pi_ack = 0, pi_scan = 0, pi_streaming = 0, pi_snap = 0, pi_move = 1,
       pi_absolute = 0, pi_pan = 69999, pi_tilt = 0, pi_zoom = 0, pi_timeout = 0\<rparr>], po_extension = []\<rparr>"

lemma pan_message_to_pb: "Onvif_to_pb pan_message = Inr pan_pb"
proof -
  have floor: "\<lfloor>36700159375 / 524288 :: rat\<rfloor> = 69999" by (rule floor_unique) simp_all
  show ?thesis
    by (simp add: Let_def floor Onvif_to_pb_def pan_message_def Onvif_set_actions_def Onvif_new_def move_action_def ipc_to_pb_def
      to_wire_def trunc_rat_def u32_of_bool_def pan_pb_def)
qed

theorem camera_moves_over_wire_witness:
  "\<exists>req b. feed (Onvif_append (\<lambda>bs. if bs = ''x'' then Some pan_pb else None)) Onvif_new [''x''] = (1, None, req) \<and>
     om_actions req = [b] \<and> 11744051 / 16777216 < oa_pan b + 2 / 100000 \<and>
     snd (onvif_process logging_adapter 0 req Onvif_new []) = [(''a'', False, (oa_pan b, oa_tilt b, oa_zoom b))]"
proof -
  let ?a = "move_action ''a'' (11744051 / 16777216)"
  have pb: "Onvif_to_pb (Onvif_set_actions Onvif_new [?a]) = Inr pan_pb"
    using pan_message_to_pb by (simp add: pan_message_def)
  have enc: "Onvif_encode (\<lambda>_. ''x'') (Onvif_set_actions Onvif_new [?a]) =
      Inr (1, ''x'', (Onvif_set_actions Onvif_new [?a])\<lparr>om_size := 1, om_buf := Some ''x''\<rparr>)"
    by (simp add: Onvif_encode_def pb Let_def)
  have car: "carried (\<lambda>_. ''x'') (\<lambda>bs. if bs = ''x'' then Some pan_pb else None) (\<lambda>bs. [bs]) pan_pb"
    by (rule carried_whole) simp
  have a: "oa_moving ?a" "\<not> oa_scan ?a" by (simp_all add: move_action_def)
  from camera_moves_over_wire [OF enc pb car a, of logging_adapter 0 "[]"]
  show ?thesis by (fastforce simp: move_action_def ptz_device_def logging_adapter_def)
qed

text \<open>
  A start that fails (the port is taken) leaves the server object set: from then on the recorder
  answers every start with success, without listening, until it is stopped.
\<close>

lemma failed_start_looks_running:
  assumes "os_server srv = None" and "onvif_start wf_start srv = (r, srv')"
  shows "onvif_start wf' srv' = (0, srv')" and "onvif_start wf' (snd (onvif_stop srv')) = (wf' (the (os_server srv')), srv')"
  using assms by (auto simp: onvif_start_def onvif_stop_def Let_def)

end
