(* ===== verification/Infer_Provider.thy ===== *)
theory Infer_Provider
  imports Prelude
begin

text \<open>
  The inference provider of the management unit, \<^verbatim>\<open>management/inferprovider/task.cc\<close>: a task with its
  engines, one of which is current, and the manager, which keeps pointers to the tasks. The objects live
  in a heap of addresses; reading or deleting one that is not there is undefined behaviour.
\<close>

section \<open>Tasks\<close>

datatype trigger_method = Dependency | Manual | Create

record itask =
  it_taskid :: u64
  it_engines :: "string list"
  it_deps :: "u64 list"
  it_run_count :: int
  it_status :: bool
  it_method :: trigger_method
  it_current :: string
  it_output :: string

definition itask_new :: itask where
  "itask_new = \<lparr>it_taskid = 0, it_engines = [], it_deps = [], it_run_count = 0, it_status = False, it_method = Create,
     it_current = [], it_output = []\<rparr>"

definition it_set_taskid :: "u64 \<Rightarrow> itask \<Rightarrow> itask" where
  "it_set_taskid n t = t\<lparr>it_taskid := n\<rparr>"

definition it_add_dep :: "u64 \<Rightarrow> itask \<Rightarrow> itask" where
  "it_add_dep d t = t\<lparr>it_deps := it_deps t @ [d]\<rparr>"

fun holds_engine :: "string \<Rightarrow> string list \<Rightarrow> bool" where
  "holds_engine name [] = False"
| "holds_engine name (e # es) = (if e = name then True else holds_engine name es)"

definition it_switch_engine :: "string \<Rightarrow> itask \<Rightarrow> int \<times> itask" where
  "it_switch_engine name t =
     (if holds_engine name (it_engines t) then (0, t\<lparr>it_current := name\<rparr>) else (-1, t))"

definition it_add_engine :: "string \<Rightarrow> itask \<Rightarrow> itask" where
  "it_add_engine name t = (if holds_engine name (it_engines t) then t else t\<lparr>it_engines := it_engines t @ [name]\<rparr>)"

text \<open>The loop that erases the first engine of the name.\<close>

fun erase_engine :: "string \<Rightarrow> string list \<Rightarrow> string list" where
  "erase_engine name [] = []"
| "erase_engine name (e # es) = (if e = name then es else e # erase_engine name es)"

definition it_delete_engine :: "string \<Rightarrow> itask \<Rightarrow> itask" where
  "it_delete_engine name t =
     (if holds_engine name (it_engines t)
      then (if name = it_current t then t\<lparr>it_current := []\<rparr> else t)\<lparr>it_engines := erase_engine name (it_engines t)\<rparr>
      else t)"

definition it_set_run_count :: "int \<Rightarrow> itask \<Rightarrow> itask" where
  "it_set_run_count n t = t\<lparr>it_run_count := n\<rparr>"

definition it_set_trigger :: "trigger_method \<Rightarrow> itask \<Rightarrow> itask" where
  "it_set_trigger m t = t\<lparr>it_method := m\<rparr>"

definition it_set_output :: "string \<Rightarrow> itask \<Rightarrow> itask" where
  "it_set_output out t = t\<lparr>it_output := out\<rparr>"

definition it_start :: "itask \<Rightarrow> itask" where
  "it_start t = t\<lparr>it_status := True\<rparr>"

definition it_stop :: "itask \<Rightarrow> itask" where
  "it_stop t = t\<lparr>it_status := False\<rparr>"

lemma holds_engine_set [simp]: "holds_engine name es \<longleftrightarrow> name \<in> set es"
  by (induction es) auto

lemma erase_engine_remove1 [simp]: "erase_engine name es = remove1 name es"
  by (induction es) auto

text \<open>All that can be done to a task, as one step.\<close>

datatype task_op = Set_taskid u64 | Add_dep u64 | Switch_engine string | Add_engine string | Delete_engine string
  | Set_run_count int | Set_trigger trigger_method | Set_output string | Start_task | Stop_task

fun task_step :: "task_op \<Rightarrow> itask \<Rightarrow> itask" where
  "task_step (Set_taskid n) t = it_set_taskid n t"
| "task_step (Add_dep d) t = it_add_dep d t"
| "task_step (Switch_engine e) t = snd (it_switch_engine e t)"
| "task_step (Add_engine e) t = it_add_engine e t"
| "task_step (Delete_engine e) t = it_delete_engine e t"
| "task_step (Set_run_count n) t = it_set_run_count n t"
| "task_step (Set_trigger m) t = it_set_trigger m t"
| "task_step (Set_output out) t = it_set_output out t"
| "task_step Start_task t = it_start t"
| "task_step Stop_task t = it_stop t"

definition itask_ok :: "itask \<Rightarrow> bool" where
  "itask_ok t \<longleftrightarrow> distinct (it_engines t) \<and> (it_current t \<in> set (it_engines t) \<or> it_current t = [])"

lemmas task_op_defs = it_set_taskid_def it_add_dep_def it_switch_engine_def it_add_engine_def it_delete_engine_def
  it_set_run_count_def it_set_trigger_def it_set_output_def it_start_def it_stop_def

lemma task_step_ok: "itask_ok t \<Longrightarrow> itask_ok (task_step p t)"
  by (cases p) (auto simp: itask_ok_def task_op_defs distinct_remove1 set_remove1_eq)

lemma task_steps_ok: "itask_ok t \<Longrightarrow> itask_ok (fold task_step ps t)"
  by (induction ps arbitrary: t) (simp_all add: task_step_ok)

section \<open>The manager\<close>

record task_manager =
  tm_heap :: "(nat \<times> itask) list"
  tm_next :: nat
  tm_tasks :: "nat list"

definition tm_new :: task_manager where
  "tm_new = \<lparr>tm_heap = [], tm_next = 0, tm_tasks = []\<rparr>"

definition tm_create_task :: "u64 \<Rightarrow> task_manager \<Rightarrow> nat \<times> task_manager" where
  "tm_create_task n s =
     (tm_next s, s\<lparr>tm_heap := umap_set (tm_heap s) (tm_next s) (it_set_taskid n itask_new), tm_next := Suc (tm_next s)\<rparr>)"

definition tm_add_task :: "nat \<Rightarrow> task_manager \<Rightarrow> int \<times> task_manager" where
  "tm_add_task p s = (0, s\<lparr>tm_tasks := tm_tasks s @ [p]\<rparr>)"

text \<open>\<^verbatim>\<open>task->get_taskid()\<close> through a pointer of the vector.\<close>

definition taskid_at :: "(nat \<times> itask) list \<Rightarrow> nat \<Rightarrow> u64 cxx" where
  "taskid_at h p = (case map_of h p of None \<Rightarrow> Inl Undefined_behaviour | Some t \<Rightarrow> Inr (it_taskid t))"

text \<open>The loops of \<^verbatim>\<open>get_task\<close> and \<^verbatim>\<open>delete_task\<close>: the first pointer whose task has the number.\<close>

fun find_task :: "(nat \<times> itask) list \<Rightarrow> u64 \<Rightarrow> nat list \<Rightarrow> nat option cxx" where
  "find_task h n [] = Inr None"
| "find_task h n (p # ps) = cxx_bind (taskid_at h p) (\<lambda>i. if i = n then Inr (Some p) else find_task h n ps)"

definition tm_get_task :: "u64 \<Rightarrow> task_manager \<Rightarrow> nat option cxx" where
  "tm_get_task n s = find_task (tm_heap s) n (tm_tasks s)"

fun erase_task :: "(nat \<times> itask) list \<Rightarrow> u64 \<Rightarrow> nat list \<Rightarrow> ((nat \<times> itask) list \<times> nat list) cxx" where
  "erase_task h n [] = Inr (h, [])"
| "erase_task h n (p # ps) =
     cxx_bind (taskid_at h p) (\<lambda>i. if i = n then Inr (umap_erase h p, ps)
       else cxx_bind (erase_task h n ps) (\<lambda>(h', ps'). Inr (h', p # ps')))"

definition tm_delete_task :: "u64 \<Rightarrow> task_manager \<Rightarrow> task_manager cxx" where
  "tm_delete_task n s =
     cxx_bind (erase_task (tm_heap s) n (tm_tasks s)) (\<lambda>(h, ps). Inr (s\<lparr>tm_heap := h, tm_tasks := ps\<rparr>))"

text \<open>The destructor deletes every task of the vector.\<close>

fun free_tasks :: "(nat \<times> itask) list \<Rightarrow> nat list \<Rightarrow> (nat \<times> itask) list cxx" where
  "free_tasks h [] = Inr h"
| "free_tasks h (p # ps) =
     (if map_of h p = None then Inl Undefined_behaviour else free_tasks (umap_erase h p) ps)"

definition tm_destroy :: "task_manager \<Rightarrow> (nat \<times> itask) list cxx" where
  "tm_destroy s = free_tasks (tm_heap s) (tm_tasks s)"

text \<open>A client's operation on the task behind a pointer.\<close>

definition tm_on_task :: "nat \<Rightarrow> task_op \<Rightarrow> task_manager \<Rightarrow> task_manager cxx" where
  "tm_on_task p f s =
     (case map_of (tm_heap s) p of
        None \<Rightarrow> Inl Undefined_behaviour
      | Some t \<Rightarrow> Inr (s\<lparr>tm_heap := umap_set (tm_heap s) p (task_step f t)\<rparr>))"

section \<open>What the manager keeps\<close>

text \<open>No pointer twice, and every one to a well-formed task; addresses are handed out once.\<close>

definition tm_ok :: "task_manager \<Rightarrow> bool" where
  "tm_ok s \<longleftrightarrow> distinct (tm_tasks s) \<and> set (tm_tasks s) \<subseteq> dom (map_of (tm_heap s)) \<and>
     (\<forall>p t. map_of (tm_heap s) p = Some t \<longrightarrow> p < tm_next s \<and> itask_ok t)"

text \<open>The manager as the list of the tasks it holds, each with its number.\<close>

definition tm_view :: "task_manager \<Rightarrow> (u64 \<times> nat) list" where
  "tm_view s = map (\<lambda>p. (it_taskid (the (map_of (tm_heap s) p)), p)) (tm_tasks s)"

fun drop_first :: "'k \<Rightarrow> ('k \<times> 'v) list \<Rightarrow> ('k \<times> 'v) list" where
  "drop_first k [] = []"
| "drop_first k (x # xs) = (if fst x = k then xs else x # drop_first k xs)"

lemma find_task_view:
  "set ps \<subseteq> dom (map_of h) \<Longrightarrow>
     find_task h n ps = Inr (map_of (map (\<lambda>p. (it_taskid (the (map_of h p)), p)) ps) n)"
  by (induction ps) (auto simp: taskid_at_def)

lemma erase_task_view:
  "set ps \<subseteq> dom (map_of h) \<Longrightarrow> distinct ps \<Longrightarrow>
     \<exists>h' ps'. erase_task h n ps = Inr (h', ps') \<and> distinct ps' \<and> set ps' \<subseteq> set ps \<and>
       set ps' \<subseteq> dom (map_of h') \<and> map_of h' \<subseteq>\<^sub>m map_of h \<and> (\<forall>q. q \<notin> set ps \<longrightarrow> map_of h' q = map_of h q) \<and>
       map (\<lambda>p. (it_taskid (the (map_of h' p)), p)) ps' =
         drop_first n (map (\<lambda>p. (it_taskid (the (map_of h p)), p)) ps)"
proof (induction ps)
  case (Cons p ps)
  then obtain t where t: "map_of h p = Some t" by auto
  show ?case
  proof (cases "it_taskid t = n")
    case True
    have "map (\<lambda>q. (it_taskid (the (map_of (umap_erase h p) q)), q)) ps = map (\<lambda>q. (it_taskid (the (map_of h q)), q)) ps"
      using Cons.prems by (auto simp: map_of_umap_erase)
    with True Cons.prems t show ?thesis
      by (auto simp: taskid_at_def map_of_umap_erase map_le_def)
  next
    case False
    from Cons obtain h' ps' where ih: "erase_task h n ps = Inr (h', ps')" "distinct ps'" "set ps' \<subseteq> set ps"
      "set ps' \<subseteq> dom (map_of h')" "map_of h' \<subseteq>\<^sub>m map_of h" "\<forall>q. q \<notin> set ps \<longrightarrow> map_of h' q = map_of h q"
      "map (\<lambda>p. (it_taskid (the (map_of h' p)), p)) ps' = drop_first n (map (\<lambda>p. (it_taskid (the (map_of h p)), p)) ps)"
      by auto
    have "map_of h' p = Some t" using ih(6) Cons.prems(2) t by simp
    with ih False t Cons.prems show ?thesis
      by (auto simp: taskid_at_def)
  qed
qed (auto simp: map_le_def)

lemma free_tasks_total: "set ps \<subseteq> dom (map_of h) \<Longrightarrow> distinct ps \<Longrightarrow> \<exists>h'. free_tasks h ps = Inr h'"
  by (induction ps arbitrary: h) (auto simp: map_of_umap_erase domIff subset_iff)

lemma tm_on_task_ok:
  assumes "tm_ok s" and "map_of (tm_heap s) p = Some t"
  shows "\<exists>s'. tm_on_task p f s = Inr s' \<and> tm_ok s' \<and> tm_tasks s' = tm_tasks s"
  using assms by (auto simp: tm_on_task_def tm_ok_def map_of_umap_set task_step_ok domIff subset_iff)

lemma tm_delete_view:
  assumes "tm_ok s"
  shows "\<exists>s'. tm_delete_task n s = Inr s' \<and> tm_ok s' \<and> tm_view s' = drop_first n (tm_view s)"
proof -
  obtain h' ps' where e: "erase_task (tm_heap s) n (tm_tasks s) = Inr (h', ps')" "distinct ps'"
    "set ps' \<subseteq> dom (map_of h')" "map_of h' \<subseteq>\<^sub>m map_of (tm_heap s)"
    "map (\<lambda>p. (it_taskid (the (map_of h' p)), p)) ps' = drop_first n (tm_view s)"
    using erase_task_view [of "tm_tasks s" "tm_heap s" n] assms by (auto simp: tm_ok_def tm_view_def)
  have "p < tm_next s \<and> itask_ok t" if "map_of h' p = Some t" for p t
  proof -
    have "p \<in> dom (map_of h')" using that by blast
    with e(4) that have "map_of (tm_heap s) p = Some t" unfolding map_le_def by metis
    with assms show ?thesis unfolding tm_ok_def by blast
  qed
  with e have "tm_ok (s\<lparr>tm_heap := h', tm_tasks := ps'\<rparr>)"
    unfolding tm_ok_def by auto
  with e show ?thesis by (auto simp: tm_delete_task_def tm_view_def)
qed

lemma tm_create_view:
  assumes "tm_ok s" and "tm_create_task n s = (p, s1)"
  shows "tm_ok s1 \<and> tm_view s1 = tm_view s \<and> p \<notin> set (tm_tasks s1) \<and> map_of (tm_heap s1) p = Some (it_set_taskid n itask_new)"
proof -
  have fresh: "p \<notin> set (tm_tasks s)" "map_of (tm_heap s) p = None"
  proof -
    show "map_of (tm_heap s) p = None"
    proof (rule ccontr)
      assume "map_of (tm_heap s) p \<noteq> None"
      then obtain t where "map_of (tm_heap s) p = Some t" by auto
      with assms show False by (auto simp: tm_ok_def tm_create_task_def)
    qed
    then show "p \<notin> set (tm_tasks s)" using assms(1) by (auto simp: tm_ok_def)
  qed
  have new: "itask_ok (it_set_taskid n itask_new)" by (simp add: itask_ok_def task_op_defs itask_new_def)
  have "tm_view s1 = tm_view s"
    using assms(2) fresh by (auto simp: tm_create_task_def tm_view_def map_of_umap_set)
  with assms fresh new show ?thesis
    by (auto simp: tm_create_task_def tm_ok_def map_of_umap_set less_SucI split: if_splits)
qed

lemma tm_add_view:
  assumes "tm_ok s" and "p \<notin> set (tm_tasks s)" and "map_of (tm_heap s) p = Some t"
  shows "tm_ok (snd (tm_add_task p s)) \<and> tm_view (snd (tm_add_task p s)) = tm_view s @ [(it_taskid t, p)]"
  using assms by (auto simp: tm_add_task_def tm_ok_def tm_view_def)

text \<open>
  C29: the inference provider's manager is a queue of numbered tasks as long as no pointer is added twice:
  looking a number up finds the oldest task that has it, deleting removes that one and leaves later ones
  with the same number, adding puts the new task last. Every pointer it holds stays valid, the
  destructor frees each once, and every task keeps distinct engines of which the current one, if any,
  is a member. A pointer that is added twice is left dangling by the first deletion.
\<close>

theorem task_manager_queue:
  assumes "tm_ok s"
  shows "tm_get_task n s = Inr (map_of (tm_view s) n) \<and>
    (\<exists>s'. tm_delete_task n s = Inr s' \<and> tm_ok s' \<and> tm_view s' = drop_first n (tm_view s)) \<and>
    (case tm_create_task m s of (p, s1) \<Rightarrow> tm_ok s1 \<and> tm_view s1 = tm_view s \<and>
      tm_ok (snd (tm_add_task p s1)) \<and> tm_view (snd (tm_add_task p s1)) = tm_view s @ [(m, p)]) \<and>
    (\<forall>p \<in> set (tm_tasks s). \<exists>s'. tm_on_task p f s = Inr s' \<and> tm_ok s' \<and> tm_tasks s' = tm_tasks s) \<and>
    (\<exists>h. tm_destroy s = Inr h) \<and>
    (case tm_create_task m tm_new of (p, s1) \<Rightarrow>
      \<exists>s2. tm_delete_task m (snd (tm_add_task p (snd (tm_add_task p s1)))) = Inr s2 \<and>
        tm_get_task n s2 = Inl Undefined_behaviour)"
proof (intro conjI)
  show "tm_get_task n s = Inr (map_of (tm_view s) n)"
    unfolding tm_get_task_def tm_view_def by (rule find_task_view) (use assms in \<open>simp add: tm_ok_def\<close>)
  show "\<exists>s'. tm_delete_task n s = Inr s' \<and> tm_ok s' \<and> tm_view s' = drop_first n (tm_view s)"
    by (rule tm_delete_view [OF assms])
  show "case tm_create_task m s of (p, s1) \<Rightarrow> tm_ok s1 \<and> tm_view s1 = tm_view s \<and>
      tm_ok (snd (tm_add_task p s1)) \<and> tm_view (snd (tm_add_task p s1)) = tm_view s @ [(m, p)]"
  proof (cases "tm_create_task m s")
    case (Pair p s1)
    from tm_create_view [OF assms Pair] have "tm_ok s1" "tm_view s1 = tm_view s" "p \<notin> set (tm_tasks s1)"
      "map_of (tm_heap s1) p = Some (it_set_taskid m itask_new)" by simp_all
    with tm_add_view [of s1 p] Pair show ?thesis by (simp add: it_set_taskid_def)
  qed
  show "\<forall>p \<in> set (tm_tasks s). \<exists>s'. tm_on_task p f s = Inr s' \<and> tm_ok s' \<and> tm_tasks s' = tm_tasks s"
    using tm_on_task_ok [OF assms] assms by (auto simp: tm_ok_def subset_iff domIff)
  show "\<exists>h. tm_destroy s = Inr h"
    unfolding tm_destroy_def by (rule free_tasks_total) (use assms in \<open>simp_all add: tm_ok_def\<close>)
  show "case tm_create_task m tm_new of (p, s1) \<Rightarrow>
      \<exists>s2. tm_delete_task m (snd (tm_add_task p (snd (tm_add_task p s1)))) = Inr s2 \<and>
        tm_get_task n s2 = Inl Undefined_behaviour"
    by (simp add: tm_create_task_def tm_new_def tm_add_task_def tm_delete_task_def taskid_at_def umap_set_def
        umap_erase_def it_set_taskid_def tm_get_task_def)
qed

theorem task_manager_queue_witness:
  "tm_get_task 5 (snd (tm_add_task 0 (snd (tm_create_task 5 tm_new)))) = Inr (Some 0)"
proof -
  let ?s = "snd (tm_add_task 0 (snd (tm_create_task 5 tm_new)))"
  have "tm_ok ?s" and v: "tm_view ?s = [(5, 0)]"
    by (auto simp: tm_ok_def tm_view_def tm_add_task_def tm_create_task_def tm_new_def umap_set_def umap_erase_def
        itask_ok_def itask_new_def it_set_taskid_def split: if_splits)
  from task_manager_queue [OF this(1), of 5] v show ?thesis by simp
qed

text \<open>
  whatever is done to a task of the inference provider, in any order, its engines stay distinct and
  the current engine is one of them or none; switching succeeds exactly for an engine the task has, and
  deleting an engine removes it alone and clears the current engine only if it was that one.
\<close>

theorem task_engines_kept:
  "itask_ok (fold task_step ps itask_new) \<and>
   (itask_ok t \<longrightarrow>
     (fst (it_switch_engine e t) = 0 \<longleftrightarrow> e \<in> set (it_engines t)) \<and>
     set (it_engines (it_delete_engine e t)) = set (it_engines t) - {e} \<and>
     it_current (it_delete_engine e t) = (if it_current t = e then [] else it_current t) \<and>
     set (it_engines (it_add_engine e t)) = insert e (set (it_engines t)))"
proof -
  have "itask_ok itask_new" by (simp add: itask_ok_def itask_new_def)
  then have "itask_ok (fold task_step ps itask_new)" by (rule task_steps_ok)
  then show ?thesis
    by (auto simp: itask_ok_def it_switch_engine_def it_delete_engine_def it_add_engine_def set_remove1_eq)
qed

theorem task_engines_kept_witness:
  "it_current (it_delete_engine ''a'' (fold task_step [Add_engine ''a'', Switch_engine ''a''] itask_new)) = []"
proof -
  have 1: "itask_ok (fold task_step [Add_engine ''a'', Switch_engine ''a''] itask_new)"
    and 2: "it_current (fold task_step [Add_engine ''a'', Switch_engine ''a''] itask_new) = ''a''"
    by (simp_all add: task_op_defs itask_new_def itask_ok_def)
  from task_engines_kept [of "[]" "fold task_step [Add_engine ''a'', Switch_engine ''a''] itask_new" "''a''"] 1 2
  show ?thesis by simp
qed

end
