(* ===== verification/Tensor.thy ===== *)
theory Tensor
  imports Prelude
begin

text \<open>
  The data an engine computes on, \<^verbatim>\<open>computation/infer/Tensor.cc\<close>: a string of bytes and the path it was read
  from. A tensor is shorter than 2 GiB where a loop counts its bytes with an \<^verbatim>\<open>int\<close>.
\<close>

record tensor =
  tn_src :: string
  tn_path :: string

definition Tensor_new :: tensor where
  "Tensor_new = \<lparr>tn_src = [], tn_path = []\<rparr>"

text \<open>Copies and moves take the bytes over, not the path.\<close>

definition Tensor_copy :: "tensor \<Rightarrow> tensor" where
  "Tensor_copy other = Tensor_new\<lparr>tn_src := tn_src other\<rparr>"

definition Tensor_copy_assign :: "tensor \<Rightarrow> tensor \<Rightarrow> tensor" where
  "Tensor_copy_assign this other = this\<lparr>tn_src := tn_src other\<rparr>"

definition Tensor_move :: "tensor \<Rightarrow> tensor \<times> tensor" where
  "Tensor_move other = (Tensor_new\<lparr>tn_src := tn_src other\<rparr>, other\<lparr>tn_src := []\<rparr>)"

definition Tensor_move_assign :: "tensor \<Rightarrow> tensor \<Rightarrow> tensor \<times> tensor" where
  "Tensor_move_assign this other = (this\<lparr>tn_src := tn_src other\<rparr>, other\<lparr>tn_src := []\<rparr>)"

text \<open>Bytes of a buffer: reading more of them than it has is undefined.\<close>

fun buffer_bytes :: "string \<Rightarrow> nat \<Rightarrow> string cxx" where
  "buffer_bytes buf 0 = Inr []"
| "buffer_bytes [] (Suc n) = Inl Undefined_behaviour"
| "buffer_bytes (c # buf) (Suc n) = cxx_bind (buffer_bytes buf n) (\<lambda>s. Inr (c # s))"

definition Tensor_of_buffer :: "string \<Rightarrow> nat \<Rightarrow> tensor cxx" where
  "Tensor_of_buffer buf n = cxx_bind (buffer_bytes buf n) (\<lambda>s. Inr (Tensor_new\<lparr>tn_src := s\<rparr>))"

definition Tensor_of_vector :: "string \<Rightarrow> tensor" where
  "Tensor_of_vector data = Tensor_new\<lparr>tn_src := data\<rparr>"

text \<open>\<open>read\<close> is the content of a file, \<open>None\<close> if it cannot be opened, which gives an empty tensor.\<close>

definition Tensor_set_path :: "(string \<Rightarrow> string option) \<Rightarrow> string \<Rightarrow> tensor \<Rightarrow> tensor" where
  "Tensor_set_path read path t =
     t\<lparr>tn_src := (case read path of None \<Rightarrow> [] | Some content \<Rightarrow> content), tn_path := path\<rparr>"

definition Tensor_of_path :: "(string \<Rightarrow> string option) \<Rightarrow> string \<Rightarrow> tensor" where
  "Tensor_of_path read path = Tensor_set_path read path Tensor_new"

text \<open>\<open>None\<close> is the null pointer.\<close>

definition Tensor_set_buffer :: "string option \<Rightarrow> nat \<Rightarrow> tensor \<Rightarrow> tensor cxx" where
  "Tensor_set_buffer buf n t =
     (case buf of
        None \<Rightarrow> Inr (t\<lparr>tn_src := []\<rparr>)
      | Some b \<Rightarrow> cxx_bind (buffer_bytes b n) (\<lambda>s. Inr (t\<lparr>tn_src := s\<rparr>)))"

definition Tensor_set_vector :: "string \<Rightarrow> tensor \<Rightarrow> tensor" where
  "Tensor_set_vector data t = t\<lparr>tn_src := data\<rparr>"

text \<open>The pointer \<^verbatim>\<open>get_data_nocopy\<close> returns: the bytes of the string and the zero byte behind them.\<close>

definition Tensor_get_data_nocopy :: "tensor \<Rightarrow> string" where
  "Tensor_get_data_nocopy t = tn_src t @ [CHR 0x00]"

definition Tensor_get_size :: "tensor \<Rightarrow> int" where
  "Tensor_get_size t = sint (of_nat (length (tn_src t)) :: u32)"

definition Tensor_get_data :: "tensor \<Rightarrow> string" where
  "Tensor_get_data t = take (nat (Tensor_get_size t)) (tn_src t)"

definition Tensor_get_backend :: "tensor \<Rightarrow> string" where
  "Tensor_get_backend t = ''string''"

definition Tensor_get_path :: "tensor \<Rightarrow> string" where
  "Tensor_get_path t = tn_path t"

lemma buffer_bytes_take: "n \<le> length buf \<Longrightarrow> buffer_bytes buf n = Inr (take n buf)"
  by (induction buf n rule: buffer_bytes.induct) simp_all

lemma buffer_bytes_over: "length buf < n \<Longrightarrow> buffer_bytes buf n = Inl Undefined_behaviour"
  by (induction buf n rule: buffer_bytes.induct) simp_all

lemma sint_small: "- (2 ^ 31) \<le> n \<Longrightarrow> n < 2 ^ 31 \<Longrightarrow> sint (of_int n :: u32) = n"
  by (simp add: signed_take_bit_int_eq_self sint_sbintrunc')

lemma Tensor_get_size_small: "length (tn_src t) < 2 ^ 31 \<Longrightarrow> Tensor_get_size t = int (length (tn_src t))"
  using sint_small [of "int (length (tn_src t))"] by (simp add: Tensor_get_size_def)

text \<open>Every way to fill a tensor below 2 GiB is read back; a result read as a C string ends at its first zero byte.\<close>

lemma tensor_read_back:
  assumes "length data < 2 ^ 31"
  shows "\<exists>t'. Tensor_set_buffer (Some data) (length data) t = Inr t' \<and> Tensor_get_data t' = data"
    and "Tensor_get_data (Tensor_set_vector data t) = data"
    and "Tensor_get_data (fst (Tensor_move (Tensor_of_vector data))) = data"
  using assms
  by (auto simp: Tensor_set_buffer_def buffer_bytes_take Tensor_get_data_def Tensor_get_size_small Tensor_set_vector_def
      Tensor_move_def Tensor_of_vector_def Tensor_new_def)

lemma c_str_nocopy: "c_str (Tensor_get_data_nocopy t) = c_str (tn_src t)"
proof (cases "CHR 0x00 \<in> set (tn_src t)")
  case True
  then show ?thesis by (simp add: c_str_def Tensor_get_data_nocopy_def takeWhile_append1)
next
  case False
  then show ?thesis using c_str_append [of "tn_src t" "[CHR 0x00]"] c_str_id [OF False]
    by (simp add: Tensor_get_data_nocopy_def) (simp add: c_str_def)
qed

end
