(* ===== verification/Computation_Engine.thy ===== *)
theory Computation_Engine
  imports Tensor
begin

text \<open>
  An inference engine, \<^verbatim>\<open>jxtd_Engine\<close> of \<^verbatim>\<open>computation/engine\<close>: an object with attributes and three virtual
  functions, and the parent engine it loads from a shared object when it has one. The dynamic linker and the
  functions a subclass overrides are parameters; they act on the outside world \<open>'w\<close>.
\<close>

section \<open>Attributes\<close>

text \<open>\<open>ea_path\<close> is the path of the model, \<open>ea_dlpath\<close> the directory of the shared objects, \<open>ea_ctx\<close> an address or null.\<close>

record engine_attrs =
  ea_mid :: string
  ea_name :: string
  ea_path :: string
  ea_parent_mid :: string
  ea_parent_name :: string
  ea_dlpath :: string
  ea_type :: u32
  ea_ctx :: "nat option"

text \<open>
  What a subclass overrides: \<^verbatim>\<open>init\<close>, \<^verbatim>\<open>infer\<close>, \<^verbatim>\<open>post\<close> and the destructor. They may call the setters of the
  object; members of the subclass are part of the world.
\<close>

record 'w virtuals =
  vt_init :: "engine_attrs \<Rightarrow> 'w \<Rightarrow> int \<times> engine_attrs \<times> 'w"
  vt_infer :: "engine_attrs \<Rightarrow> tensor \<Rightarrow> tensor \<Rightarrow> 'w \<Rightarrow> int \<times> engine_attrs \<times> tensor \<times> 'w"
  vt_post :: "engine_attrs \<Rightarrow> 'w \<Rightarrow> int \<times> engine_attrs \<times> 'w"
  vt_delete :: "'w \<Rightarrow> 'w"

text \<open>What the class itself defines: they return 0 and do nothing.\<close>

definition base_virtuals :: "'w virtuals" where
  "base_virtuals =
     \<lparr>vt_init = \<lambda>a w. (0, a, w), vt_infer = \<lambda>a input output w. (0, a, output, w), vt_post = \<lambda>a w. (0, a, w),
      vt_delete = \<lambda>w. w\<rparr>"

text \<open>An object with its handle, the file it was opened with, and its parent, both possibly null.\<close>

datatype 'w engine =
  Engine (eg_attrs: engine_attrs) (eg_virtuals: "'w virtuals") (eg_handle: "string option") (eg_parent: "'w engine option")

definition jxtd_Engine_new :: "'w virtuals \<Rightarrow> 'w engine" where
  "jxtd_Engine_new v =
     Engine \<lparr>ea_mid = [], ea_name = [], ea_path = [], ea_parent_mid = [], ea_parent_name = [], ea_dlpath = ''./'',
       ea_type = 5, ea_ctx = None\<rparr> v None None"

definition set_id :: "string \<Rightarrow> engine_attrs \<Rightarrow> int \<times> engine_attrs" where
  "set_id mid a = (if mid = [] then (-1, a) else (0, a\<lparr>ea_mid := mid\<rparr>))"

definition set_name :: "string \<Rightarrow> engine_attrs \<Rightarrow> int \<times> engine_attrs" where
  "set_name name a = (if name = [] then (-1, a) else (0, a\<lparr>ea_name := name\<rparr>))"

definition set_type :: "u32 \<Rightarrow> engine_attrs \<Rightarrow> int \<times> engine_attrs" where
  "set_type type a = (if type > 4 then (-1, a) else (0, a\<lparr>ea_type := type\<rparr>))"

definition set_parent :: "string \<Rightarrow> string \<Rightarrow> engine_attrs \<Rightarrow> int \<times> engine_attrs" where
  "set_parent mid name a =
     (if mid = [] \<or> name = [] then (-1, a) else (0, a\<lparr>ea_parent_mid := mid, ea_parent_name := name\<rparr>))"

definition set_path :: "string \<Rightarrow> engine_attrs \<Rightarrow> engine_attrs" where
  "set_path dlpath a = a\<lparr>ea_dlpath := dlpath\<rparr>"

definition set_model :: "string \<Rightarrow> engine_attrs \<Rightarrow> int \<times> engine_attrs" where
  "set_model path a = (if path = [] then (-1, a) else (0, a\<lparr>ea_path := path\<rparr>))"

text \<open>\<open>read\<close> is the content of a regular file, \<open>None\<close> if it cannot be opened.\<close>

definition get_model :: "(string \<Rightarrow> string option) \<Rightarrow> engine_attrs \<Rightarrow> string" where
  "get_model read a =
     (if ea_path a = [] then []
      else case read (''./'' @ ea_path a) of None \<Rightarrow> [] | Some content \<Rightarrow> content)"

definition set_ctx :: "nat option \<Rightarrow> engine_attrs \<Rightarrow> int \<times> engine_attrs" where
  "set_ctx ctx a = (if ctx = None then (-1, a) else (0, a\<lparr>ea_ctx := ctx\<rparr>))"

definition check :: "engine_attrs \<Rightarrow> bool" where
  "check a \<longleftrightarrow> \<not> (ea_mid a = [] \<or> ea_name a = [] \<or> ea_path a = [] \<or> ea_type a > 4)"

fun on_attrs :: "(engine_attrs \<Rightarrow> engine_attrs) \<Rightarrow> 'w engine \<Rightarrow> 'w engine" where
  "on_attrs f (Engine a v h p) = Engine (f a) v h p"

text \<open>
  The function \<^verbatim>\<open>GENERATOR_BINDPOINT\<close> defines in a shared object: a new engine under its names, completed by
  \<open>init_func\<close>, which is the engine's own code. An engine that does not pass the check is deleted.
\<close>

definition generate ::
  "'w virtuals \<Rightarrow> ('w engine \<Rightarrow> 'w \<Rightarrow> 'w engine \<times> 'w) \<Rightarrow> string \<Rightarrow> string \<Rightarrow> 'w \<Rightarrow> 'w engine option \<times> 'w" where
  "generate v init_func mid name w =
     (let (e, w1) = init_func (on_attrs (snd \<circ> set_name name \<circ> snd \<circ> set_id mid) (jxtd_Engine_new v)) w
      in if check (eg_attrs e) then (Some e, w1) else (None, vt_delete (eg_virtuals e) w1))"

section \<open>Loading, computing, unloading\<close>

text \<open>
  \<^verbatim>\<open>dlopen\<close> tells whether it returned a handle, \<^verbatim>\<open>dlsym\<close> finds the generator of an engine (\<open>None\<close> is null), and
  \<^verbatim>\<open>dlclose\<close> gives back one reference to the file of the handle.
\<close>

record 'w loader =
  ld_open :: "string \<Rightarrow> 'w \<Rightarrow> bool \<times> 'w"
  ld_sym :: "string \<Rightarrow> string \<Rightarrow> 'w \<Rightarrow> ('w \<Rightarrow> 'w engine option \<times> 'w) option"
  ld_close :: "string \<Rightarrow> 'w \<Rightarrow> int \<times> 'w"

definition parent_file :: "engine_attrs \<Rightarrow> string" where
  "parent_file a = c_str (ea_dlpath a @ ''JXTDENGINE_'' @ ea_parent_mid a @ ''_'' @ ea_parent_name a @ ''.so'')"

definition parent_symbol :: "engine_attrs \<Rightarrow> string" where
  "parent_symbol a = c_str (''generate_'' @ ea_parent_mid a @ ''_'' @ ea_parent_name a)"

fun call_init :: "'w engine \<Rightarrow> 'w \<Rightarrow> int \<times> 'w engine \<times> 'w" where
  "call_init (Engine a v h p) w = (case vt_init v a w of (r, a1, w1) \<Rightarrow> (r, Engine a1 v h p, w1))"

fun call_infer :: "'w engine \<Rightarrow> tensor \<Rightarrow> tensor \<Rightarrow> 'w \<Rightarrow> int \<times> 'w engine \<times> tensor \<times> 'w" where
  "call_infer (Engine a v h p) input output w =
     (case vt_infer v a input output w of (r, a1, output1, w1) \<Rightarrow> (r, Engine a1 v h p, output1, w1))"

fun call_post :: "'w engine \<Rightarrow> 'w \<Rightarrow> int \<times> 'w engine \<times> 'w" where
  "call_post (Engine a v h p) w = (case vt_post v a w of (r, a1, w1) \<Rightarrow> (r, Engine a1 v h p, w1))"

text \<open>\<^verbatim>\<open>delete parent; dlclose(handle)\<close>: the destructor of a parent does not unload what the parent has loaded.\<close>

definition unload :: "'w loader \<Rightarrow> string \<Rightarrow> 'w engine option \<Rightarrow> 'w \<Rightarrow> int \<times> 'w" where
  "unload ld file p w = ld_close ld file (case p of None \<Rightarrow> w | Some parent \<Rightarrow> vt_delete (eg_virtuals parent) w)"

text \<open>
  \<^verbatim>\<open>init_env\<close>; \<open>None\<close> is a recursion that does not end. A result of \<open>-1\<close> after the parent has been loaded, from
  \<^verbatim>\<open>init\<close> itself, leaves it loaded. A failure to open the file or to find the generator leaves \<^verbatim>\<open>parent\<close> as it is.
\<close>

partial_function (option) init_env :: "'w loader \<Rightarrow> 'w engine \<Rightarrow> 'w \<Rightarrow> (int \<times> 'w engine \<times> 'w) option" where
  "init_env ld e w =
     (let a = eg_attrs e; v = eg_virtuals e; file = parent_file a
      in if ea_parent_mid a = [] \<or> ea_parent_name a = [] then Some (call_init e w)
         else let (opened, w1) = ld_open ld file w
              in if \<not> opened then Some (-1, Engine a v None (eg_parent e), w1)
                 else case ld_sym ld file (parent_symbol a) w1 of
                   None \<Rightarrow> Some (-1, Engine a v None (eg_parent e), snd (ld_close ld file w1))
                 | Some gen \<Rightarrow> case gen w1 of
                     (None, w2) \<Rightarrow> Some (-1, Engine a v None None, snd (unload ld file None w2))
                   | (Some p, w2) \<Rightarrow> Option.bind (init_env ld p w2) (\<lambda>(r, p1, w3).
                       if r = -1 then Some (-1, Engine a v None None, snd (unload ld file (Some p1) w3))
                       else Some (call_init (Engine a v (Some file) (Some p1)) w3)))"

fun compute :: "'w loader \<Rightarrow> 'w engine \<Rightarrow> tensor \<Rightarrow> tensor \<Rightarrow> 'w \<Rightarrow> int \<times> 'w engine \<times> tensor \<times> 'w" where
  "compute ld (Engine a v (Some file) (Some p)) input output w =
     (case compute ld p input output w of (r, p1, output1, w1) \<Rightarrow>
        if r = -1 then (-1, Engine a v None None, output1, snd (unload ld file (Some p1) w1))
        else call_infer (Engine a v (Some file) (Some p1)) input output1 w1)"
| "compute ld (Engine a v None p) input output w = call_infer (Engine a v None p) input output w"
| "compute ld (Engine a v h None) input output w = call_infer (Engine a v h None) input output w"

fun post_env :: "'w loader \<Rightarrow> 'w engine \<Rightarrow> 'w \<Rightarrow> int \<times> 'w engine \<times> 'w" where
  "post_env ld (Engine a v (Some file) (Some p)) w =
     (case post_env ld p w of (r, p1, w1) \<Rightarrow>
        case unload ld file (Some p1) w1 of (c, w2) \<Rightarrow>
          if r = -1 \<or> c = -1 then (-1, Engine a v None None, w2) else call_post (Engine a v None None) w2)"
| "post_env ld (Engine a v None p) w = call_post (Engine a v None p) w"
| "post_env ld (Engine a v h None) w = call_post (Engine a v h None) w"

section \<open>A computation\<close>

text \<open>The loaded ancestors of an engine, the root first, and their computation one after the other.\<close>

fun ancestors :: "'w engine \<Rightarrow> (engine_attrs \<times> 'w virtuals) list" where
  "ancestors (Engine a v (Some f) (Some p)) = ancestors p @ [(eg_attrs p, eg_virtuals p)]"
| "ancestors (Engine a v None p) = []"
| "ancestors (Engine a v h None) = []"

fun run_ancestors ::
  "(engine_attrs \<times> 'w virtuals) list \<Rightarrow> tensor \<Rightarrow> tensor \<Rightarrow> 'w \<Rightarrow> bool \<times> tensor \<times> 'w" where
  "run_ancestors [] inp outp w = (True, outp, w)"
| "run_ancestors ((a, v) # es) inp outp w =
     (case vt_infer v a inp outp w of (r, a1, out1, w1) \<Rightarrow>
        if r = -1 then (False, out1, w1) else run_ancestors es inp out1 w1)"

lemma run_ancestors_append:
  "run_ancestors (es @ fs) inp outp w =
     (case run_ancestors es inp outp w of (ok, out1, w1) \<Rightarrow>
        if ok then run_ancestors fs inp out1 w1 else (False, out1, w1))"
  by (induction es inp outp w rule: run_ancestors.induct) (auto split: prod.splits)

lemma compute_alone: "ancestors e = [] \<Longrightarrow> compute ld e inp outp w = call_infer e inp outp w"
  by (cases e rule: ancestors.cases) simp_all

lemma call_infer_result:
  "call_infer e inp outp w = (r, e', out, w') \<longleftrightarrow>
     vt_infer (eg_virtuals e) (eg_attrs e) inp outp w = (r, eg_attrs e', out, w') \<and>
     eg_virtuals e' = eg_virtuals e \<and> eg_handle e' = eg_handle e \<and> eg_parent e' = eg_parent e"
  by (cases e; cases e') (auto split: prod.splits)

lemma compute_virtuals: "compute ld e inp outp w = (r, e', out, w') \<Longrightarrow> eg_virtuals e' = eg_virtuals e"
  by (cases e rule: ancestors.cases) (auto split: prod.splits if_splits)

lemma ancestors_cong:
  "eg_handle e' = eg_handle e \<Longrightarrow> eg_parent e' = eg_parent e \<Longrightarrow> ancestors e' = ancestors e"
  by (cases e; cases e'; cases "eg_handle e"; cases "eg_parent e") simp_all

lemma compute_outcome:
  "compute ld e inp outp w = (r, e', out, w') \<Longrightarrow>
   run_ancestors (ancestors e) inp outp w = (ok, out1, w1) \<Longrightarrow>
     (if ok then vt_infer (eg_virtuals e) (eg_attrs e) inp out1 w1 = (r, eg_attrs e', out, w') \<and>
        map snd (ancestors e') = map snd (ancestors e)
      else r = -1 \<and> out = out1 \<and> e' = Engine (eg_attrs e) (eg_virtuals e) None None)"
proof (induction e arbitrary: r e' out w' ok out1 w1 rule: ancestors.induct)
  case (1 a v f p)
  obtain rp p1 op wp where p: "compute ld p inp outp w = (rp, p1, op, wp)" by (metis prod_cases4)
  obtain okp o1 w2 where run: "run_ancestors (ancestors p) inp outp w = (okp, o1, w2)" by (metis prod_cases3)
  note IH = "1.IH" [OF p run]
  show ?case
  proof (cases "okp \<and> rp \<noteq> -1")
    case True
    with IH have inf: "vt_infer (eg_virtuals p) (eg_attrs p) inp o1 w2 = (rp, eg_attrs p1, op, wp)"
      and anc: "map snd (ancestors p1) = map snd (ancestors p)" by simp_all
    from True "1.prems"(2) run inf have run': "ok" "out1 = op" "w1 = wp"
      by (simp_all add: run_ancestors_append)
    from "1.prems"(1) p True have c: "call_infer (Engine a v (Some f) (Some p1)) inp op wp = (r, e', out, w')" by simp
    with run' anc compute_virtuals [OF p] show ?thesis
      by (auto split: prod.splits)
  next
    case False
    then have "rp = -1" using IH by (cases okp) simp_all
    moreover from this False IH run "1.prems"(2) have "\<not> ok \<and> out1 = op"
      by (cases okp) (auto simp: run_ancestors_append)
    ultimately show ?thesis using "1.prems"(1) p by auto
  qed
qed (auto simp: call_infer_result split: prod.splits)

text \<open>
  C18: an engine computes after all its loaded ancestors, the root first, each on the same input and on the
  output its predecessor left. If an ancestor fails, the computation stops there with -1 and the engine has no
  ancestors any more: every later computation runs the engine alone and reports what it returns.
\<close>

theorem ancestors_compute_first:
  assumes "compute ld e inp outp w = (r, e', out, w')"
    and "run_ancestors (ancestors e) inp outp w = (ok, out1, w1)"
  shows "if ok
    then vt_infer (eg_virtuals e) (eg_attrs e) inp out1 w1 = (r, eg_attrs e', out, w') \<and>
      map snd (ancestors e') = map snd (ancestors e)
    else r = -1 \<and> out = out1 \<and> e' = Engine (eg_attrs e) (eg_virtuals e) None None \<and>
      compute ld e' inp2 out2 w2 =
        (case vt_infer (eg_virtuals e) (eg_attrs e) inp2 out2 w2 of (r2, a2, o2, w3) \<Rightarrow>
           (r2, Engine a2 (eg_virtuals e) None None, o2, w3))"
  using compute_outcome [OF assms] by (cases ok) (simp_all add: compute_alone)

text \<open>An engine that leaves its mark in the world and the output, and a directory of shared objects with two such engines.\<close>

definition marking :: "string \<Rightarrow> int \<Rightarrow> string list virtuals" where
  "marking name r =
     base_virtuals\<lparr>vt_infer := \<lambda>a inp outp w. (r, a, outp\<lparr>tn_src := tn_src outp @ name\<rparr>, w @ [name]),
       vt_delete := \<lambda>w. w @ [''delete '' @ name]\<rparr>"

definition sample_engine :: "string \<Rightarrow> string \<Rightarrow> int \<Rightarrow> string list engine" where
  "sample_engine name parent r =
     on_attrs (snd \<circ> set_model ''m'' \<circ> snd \<circ> set_type 0 \<circ> snd \<circ> set_id ''1'' \<circ> snd \<circ> set_name name \<circ> snd \<circ> set_parent ''1'' parent)
       (jxtd_Engine_new (marking name r))"

definition sample_loader :: "(string \<times> string list engine) list \<Rightarrow> string list loader" where
  "sample_loader lib =
     \<lparr>ld_open = \<lambda>f w. (True, w @ [CHR ''+'' # f]),
      ld_sym = \<lambda>f sym w. map_option (\<lambda>e w. (Some e, w)) (map_of lib sym),
      ld_close = \<lambda>f w. (0, w @ [CHR ''-'' # f])\<rparr>"

lemmas sample_engine_defs = sample_engine_def jxtd_Engine_new_def marking_def base_virtuals_def set_model_def set_type_def
  set_id_def set_name_def set_parent_def parent_file_def parent_symbol_def sample_loader_def unload_def

theorem ancestors_compute_first_witness:
  "run_ancestors (ancestors (Engine (eg_attrs (sample_engine ''b'' ''a'' 0)) (marking ''b'' 0) (Some ''f'')
      (Some (sample_engine ''a'' [] (-1))))) Tensor_new Tensor_new [] = (False, Tensor_new\<lparr>tn_src := ''a''\<rparr>, [''a'']) \<and>
   compute (sample_loader []) (Engine (eg_attrs (sample_engine ''b'' ''a'' 0)) (marking ''b'' 0) None None) Tensor_new Tensor_new [] =
     (0, Engine (eg_attrs (sample_engine ''b'' ''a'' 0)) (marking ''b'' 0) None None, Tensor_new\<lparr>tn_src := ''b''\<rparr>, [''b''])"
proof -
  let ?e = "Engine (eg_attrs (sample_engine ''b'' ''a'' 0)) (marking ''b'' 0) (Some ''f'') (Some (sample_engine ''a'' [] (-1)))"
  have run: "run_ancestors (ancestors ?e) Tensor_new Tensor_new [] = (False, Tensor_new\<lparr>tn_src := ''a''\<rparr>, [''a''])"
    by (simp add: sample_engine_defs Tensor_new_def)
  obtain r e' out w' where c: "compute (sample_loader []) ?e Tensor_new Tensor_new [] = (r, e', out, w')" by (metis prod_cases4)
  from ancestors_compute_first [OF c run, of Tensor_new Tensor_new "[]"] have
    e': "e' = Engine (eg_attrs (sample_engine ''b'' ''a'' 0)) (marking ''b'' 0) None None" and
    c2: "compute (sample_loader []) e' Tensor_new Tensor_new [] =
      (case vt_infer (marking ''b'' 0) (eg_attrs (sample_engine ''b'' ''a'' 0)) Tensor_new Tensor_new [] of
        (r2, a2, o2, w3) \<Rightarrow> (r2, Engine a2 (marking ''b'' 0) None None, o2, w3))"
    unfolding if_False engine.sel by blast+
  have inf: "vt_infer (marking ''b'' 0) (eg_attrs (sample_engine ''b'' ''a'' 0)) Tensor_new Tensor_new [] =
      (0, eg_attrs (sample_engine ''b'' ''a'' 0), Tensor_new\<lparr>tn_src := ''b''\<rparr>, [''b''])"
    by (simp add: marking_def Tensor_new_def)
  show ?thesis using run c2 unfolding e' inf by simp
qed

section \<open>Loading\<close>

text \<open>When the recursion over the parents ends: each generated parent is smaller, by some rank, than the engine that names it.\<close>

definition descends :: "'w loader \<Rightarrow> (engine_attrs \<Rightarrow> nat) \<Rightarrow> bool" where
  "descends ld rank \<longleftrightarrow>
     (\<forall>a w gen w1 p w2. ld_sym ld (parent_file a) (parent_symbol a) w = Some gen \<longrightarrow> gen w1 = (Some p, w2) \<longrightarrow>
        rank (eg_attrs p) < rank a)"

text \<open>A set of engines each of which names a parent that can be loaded and is again in the set.\<close>

definition circular :: "'w loader \<Rightarrow> engine_attrs set \<Rightarrow> bool" where
  "circular ld S \<longleftrightarrow>
     (\<forall>a \<in> S. ea_parent_mid a \<noteq> [] \<and> ea_parent_name a \<noteq> [] \<and>
        (\<forall>w. fst (ld_open ld (parent_file a) w) \<and>
          (\<exists>gen. ld_sym ld (parent_file a) (parent_symbol a) w = Some gen \<and>
             (\<forall>w. \<exists>p w1. gen w = (Some p, w1) \<and> eg_attrs p \<in> S))))"

lemma init_env_ends: "descends ld rank \<Longrightarrow> init_env ld e w \<noteq> None"
proof (induction "rank (eg_attrs e)" arbitrary: e w rule: less_induct)
  case less
  let ?a = "eg_attrs e"
  obtain opened w1 where o: "ld_open ld (parent_file ?a) w = (opened, w1)" by (cases "ld_open ld (parent_file ?a) w")
  show ?case
  proof (cases "ld_sym ld (parent_file ?a) (parent_symbol ?a) w1")
    case None
    with o show ?thesis by (subst init_env.simps) (cases "call_init e w", simp add: Let_def)
  next
    case gen: (Some gen)
    obtain q w2 where g: "gen w1 = (q, w2)" by (cases "gen w1")
    show ?thesis
    proof (cases q)
      case None
      with o gen g show ?thesis by (subst init_env.simps) (cases "call_init e w", simp add: Let_def)
    next
      case (Some p)
      with less.prems gen g have "rank (eg_attrs p) < rank ?a"
        unfolding descends_def by blast
      from less.hyps [OF this less.prems, of w2] obtain r p1 w3 where "init_env ld p w2 = Some (r, p1, w3)" by auto
      with o Some g gen show ?thesis
        by (subst init_env.simps) (cases "call_init e w", simp add: Let_def split: prod.split)
    qed
  qed
qed

lemma init_env_circular:
  assumes "init_env ld e w = Some y" and "circular ld S"
  shows "eg_attrs e \<notin> S"
  using assms
proof (induction ld e w y rule: init_env.raw_induct [rotated, consumes 1, case_names step])
  case (step f ld e w y)
  show ?case
  proof
    assume e: "eg_attrs e \<in> S"
    let ?a = "eg_attrs e"
    obtain w1 where o: "ld_open ld (parent_file ?a) w = (True, w1)"
      using step(3) e unfolding circular_def by (metis (full_types) prod.collapse)
    obtain gen where g: "ld_sym ld (parent_file ?a) (parent_symbol ?a) w1 = Some gen"
      "\<forall>w. \<exists>p w1. gen w = (Some p, w1) \<and> eg_attrs p \<in> S" using step(3) e unfolding circular_def by blast
    then obtain p w2 where p: "gen w1 = (Some p, w2)" "eg_attrs p \<in> S" by blast
    have "ea_parent_mid ?a \<noteq> []" "ea_parent_name ?a \<noteq> []" using step(3) e unfolding circular_def by blast+
    with step(2) o g(1) p(1) obtain r p1 w3 where "f ld p w2 = Some (r, p1, w3)"
      by (auto simp: Let_def bind_eq_Some_conv)
    from step(1) [OF this step(3)] p(2) show False by simp
  qed
qed

text \<open>
  C19: loading an engine ends when its line of parents does, and only then: if the generated parents decrease
  by some rank, \<^verbatim>\<open>init_env\<close> returns whatever fails on the way; an engine that is its own ancestor is loaded
  again and again and the call never returns.
\<close>

theorem loading_ends:
  "(descends ld rank \<longrightarrow> init_env ld e w \<noteq> None) \<and>
   (circular ld S \<and> eg_attrs e \<in> S \<longrightarrow> init_env ld e w = None)"
  using init_env_ends [of ld rank e w] init_env_circular [of ld e w _ S] by (cases "init_env ld e w") auto

lemma sample_loader_sym:
  "ld_sym (sample_loader lib) f s w = Some gen \<Longrightarrow> gen w1 = (Some p, w2) \<Longrightarrow> map_of lib s = Some p"
  by (auto simp: sample_loader_def)

theorem loading_ends_witness:
  "init_env (sample_loader [(''generate_1_a'', sample_engine ''a'' [] 0)]) (sample_engine ''b'' ''a'' 0) [] \<noteq> None \<and>
   init_env (sample_loader [(''generate_1_b'', sample_engine ''b'' ''b'' 0)]) (sample_engine ''b'' ''b'' 0) [] = None"
proof
  have root: "parent_symbol (eg_attrs (sample_engine ''a'' [] 0)) \<noteq> ''generate_1_a''"
    by (simp add: sample_engine_defs c_str_id)
  have "descends (sample_loader [(''generate_1_a'', sample_engine ''a'' [] 0)])
      (\<lambda>a. if parent_symbol a = ''generate_1_a'' then 1 else 0)"
    unfolding descends_def
  proof (intro allI impI)
    fix a w gen w1 p w2
    assume "ld_sym (sample_loader [(''generate_1_a'', sample_engine ''a'' [] 0)]) (parent_file a) (parent_symbol a) w = Some gen"
      and "gen w1 = (Some p, w2)"
    from sample_loader_sym [OF this] have "parent_symbol a = ''generate_1_a''" and p: "p = sample_engine ''a'' [] 0"
      by (simp_all only: map_of.simps fst_conv snd_conv fun_upd_apply option.inject option.distinct split: if_splits)
    then show "(if parent_symbol (eg_attrs p) = ''generate_1_a'' then 1 else 0) <
        (if parent_symbol a = ''generate_1_a'' then 1 else (0 :: nat))"
      unfolding p if_not_P [OF root] by (simp only: if_True simp_thms zero_less_one)
  qed
  then show "init_env (sample_loader [(''generate_1_a'', sample_engine ''a'' [] 0)]) (sample_engine ''b'' ''a'' 0) [] \<noteq> None"
    by (rule loading_ends [THEN conjunct1, THEN mp])
next
  have loop: "parent_symbol (eg_attrs (sample_engine ''b'' ''b'' 0)) = ''generate_1_b''"
      "ea_parent_mid (eg_attrs (sample_engine ''b'' ''b'' 0)) \<noteq> []" "ea_parent_name (eg_attrs (sample_engine ''b'' ''b'' 0)) \<noteq> []"
    by (simp_all add: sample_engine_defs c_str_id)
  have "circular (sample_loader [(''generate_1_b'', sample_engine ''b'' ''b'' 0)]) {eg_attrs (sample_engine ''b'' ''b'' 0)}"
    using loop by (auto simp: circular_def sample_loader_def)
  then show "init_env (sample_loader [(''generate_1_b'', sample_engine ''b'' ''b'' 0)]) (sample_engine ''b'' ''b'' 0) [] = None"
    by (intro loading_ends [THEN conjunct2, THEN mp] conjI) (assumption, rule singletonI)
qed

section \<open>What is left loaded\<close>

text \<open>
  The references to shared objects, counted: what the dynamic linker promises, and engines that leave the
  count alone in their own functions.
\<close>

definition counts_handles :: "'w loader \<Rightarrow> ('w \<Rightarrow> string \<Rightarrow> int) \<Rightarrow> bool" where
  "counts_handles ld opened \<longleftrightarrow>
     (\<forall>f w ok w'. ld_open ld f w = (ok, w') \<longrightarrow> opened w' = (opened w)(f := opened w f + of_bool ok)) \<and>
     (\<forall>f w. opened (snd (ld_close ld f w)) = (opened w)(f := opened w f - 1))"

definition minds_own :: "('w \<Rightarrow> string \<Rightarrow> int) \<Rightarrow> 'w virtuals \<Rightarrow> bool" where
  "minds_own opened v \<longleftrightarrow>
     (\<forall>a w. opened (snd (snd (vt_init v a w))) = opened w) \<and>
     (\<forall>a i out w. opened (snd (snd (snd (vt_infer v a i out w)))) = opened w) \<and>
     (\<forall>a w. opened (snd (snd (vt_post v a w))) = opened w) \<and> (\<forall>w. opened (vt_delete v w) = opened w)"

definition generates_fresh :: "'w loader \<Rightarrow> ('w \<Rightarrow> string \<Rightarrow> int) \<Rightarrow> bool" where
  "generates_fresh ld opened \<longleftrightarrow>
     (\<forall>f s w gen w1 q w2. ld_sym ld f s w = Some gen \<longrightarrow> gen w1 = (q, w2) \<longrightarrow>
        opened w2 = opened w1 \<and>
        (\<forall>p. q = Some p \<longrightarrow> minds_own opened (eg_virtuals p) \<and> eg_handle p = None \<and> eg_parent p = None))"

text \<open>The references an engine and its ancestors hold, and that all of them mind their own business.\<close>

fun held :: "'w engine \<Rightarrow> string \<Rightarrow> int" where
  "held (Engine a v (Some file) (Some p)) f = of_bool (f = file) + held p f"
| "held (Engine a v None p) f = 0"
| "held (Engine a v h None) f = 0"

fun all_mind :: "('w \<Rightarrow> string \<Rightarrow> int) \<Rightarrow> 'w engine \<Rightarrow> bool" where
  "all_mind opened (Engine a v (Some file) (Some p)) \<longleftrightarrow> minds_own opened v \<and> all_mind opened p"
| "all_mind opened (Engine a v None p) \<longleftrightarrow> minds_own opened v"
| "all_mind opened (Engine a v h None) \<longleftrightarrow> minds_own opened v"

lemma all_mind_own: "all_mind opened e \<Longrightarrow> minds_own opened (eg_virtuals e)"
  by (cases e rule: ancestors.cases) simp_all

lemma held_nonneg: "0 \<le> held e f"
  by (induction e f rule: held.induct) simp_all

lemma unload_count:
  assumes "counts_handles ld opened" and "\<And>p. q = Some p \<Longrightarrow> minds_own opened (eg_virtuals p)"
  shows "opened (snd (unload ld file q w)) f = opened w f - of_bool (f = file)"
  using assms by (cases q) (auto simp: unload_def counts_handles_def minds_own_def)

lemma call_init_count:
  "call_init e w = (r, e', w') \<Longrightarrow> minds_own opened (eg_virtuals e) \<Longrightarrow> opened w' = opened w"
  by (cases e) (auto simp: minds_own_def split: prod.splits, metis snd_conv)

lemma call_infer_count:
  "call_infer e i out w = (r, e', out', w') \<Longrightarrow> minds_own opened (eg_virtuals e) \<Longrightarrow> opened w' = opened w"
  by (cases e) (auto simp: minds_own_def split: prod.splits, metis snd_conv)

lemma call_post_count:
  "call_post e w = (r, e', w') \<Longrightarrow> minds_own opened (eg_virtuals e) \<Longrightarrow> opened w' = opened w"
  by (cases e) (auto simp: minds_own_def split: prod.splits, metis snd_conv)

lemma call_same_chain:
  "call_init e w = (r, e', w') \<Longrightarrow> held e' = held e \<and> (all_mind opened e' \<longleftrightarrow> all_mind opened e)"
  "call_infer e i out w = (r, e', out', w') \<Longrightarrow> held e' = held e \<and> (all_mind opened e' \<longleftrightarrow> all_mind opened e)"
  "call_post e w = (r, e', w') \<Longrightarrow> held e' = held e \<and> (all_mind opened e' \<longleftrightarrow> all_mind opened e)"
  by (cases e rule: ancestors.cases; auto simp: fun_eq_iff split: prod.splits)+

lemma alone_mind:
  "eg_handle e = None \<or> eg_parent e = None \<Longrightarrow> all_mind opened e = minds_own opened (eg_virtuals e) \<and> held e g = 0"
  by (cases e rule: ancestors.cases) simp_all

lemma init_env_count:
  assumes "init_env ld e w = Some y" and "counts_handles ld opened" and "generates_fresh ld opened"
    and "minds_own opened (eg_virtuals e)" and "eg_handle e = None" and "eg_parent e = None"
  shows "case y of (r, e', w') \<Rightarrow> all_mind opened e' \<and> (\<forall>g. opened w g + held e' g \<le> opened w' g) \<and>
    (r \<noteq> -1 \<longrightarrow> (\<forall>g. opened w' g = opened w g + held e' g))"
  using assms
proof (induction ld e w y rule: init_env.raw_induct [rotated, consumes 1, case_names step])
  case (step rec ld e w y)
  note counts = step(3) and fresh = step(4) and mind = step(5)
  let ?a = "eg_attrs e" and ?v = "eg_virtuals e" and ?file = "parent_file (eg_attrs e)"
  obtain opened1 w1 where o: "ld_open ld ?file w = (opened1, w1)" by (cases "ld_open ld ?file w")
  with counts have w1: "opened w1 = (opened w)(?file := opened w ?file + of_bool opened1)"
    unfolding counts_handles_def by blast
  obtain r e' w' where y: "y = (r, e', w')" by (metis prod_cases3)
  show ?case
  proof (cases "ea_parent_mid ?a = [] \<or> ea_parent_name ?a = []")
    case True
    with step(2) y have c: "call_init e w = (r, e', w')" by (simp add: Let_def)
    from call_init_count [OF c mind] call_same_chain(1) [OF c, of opened] alone_mind [of e opened] step(5,6)
    show ?thesis using y by simp
  next
    case parent: False
    show ?thesis
    proof (cases opened1)
      case False
      with step(2) parent o y have "e' = Engine ?a ?v None (eg_parent e)" "w' = w1" by (simp_all add: Let_def)
      with w1 False mind y step(7) show ?thesis by (simp add: fun_upd_idem)
    next
      case op: True
      show ?thesis
      proof (cases "ld_sym ld ?file (parent_symbol ?a) w1")
        case None
        with step(2) parent o op y have "e' = Engine ?a ?v None (eg_parent e)" "w' = snd (ld_close ld ?file w1)" "r = -1"
          by (simp_all add: Let_def)
        with counts w1 op mind y step(7) show ?thesis by (simp add: counts_handles_def)
      next
        case gen: (Some gen)
        obtain q w2 where g: "gen w1 = (q, w2)" by (cases "gen w1")
        with fresh gen have w2: "opened w2 = opened w1" and q: "\<And>p. q = Some p \<Longrightarrow>
            minds_own opened (eg_virtuals p) \<and> eg_handle p = None \<and> eg_parent p = None"
          unfolding generates_fresh_def by blast+
        show ?thesis
        proof (cases q)
          case None
          with step(2) parent o op gen g y have "e' = Engine ?a ?v None None" "w' = snd (unload ld ?file None w2)" "r = -1"
            by (simp_all add: Let_def)
          with unload_count [OF counts, of None] w1 w2 op mind y show ?thesis by simp
        next
          case (Some p)
          with step(2) parent o op gen g obtain rp p1 w3 where rec: "rec ld p w2 = Some (rp, p1, w3)"
            and res: "y = (if rp = -1 then (-1, Engine ?a ?v None None, snd (unload ld ?file (Some p1) w3))
              else call_init (Engine ?a ?v (Some ?file) (Some p1)) w3)"
            by (auto simp: Let_def bind_eq_Some_conv split: if_splits)
          from step(1) [OF rec counts fresh] q [OF Some] have IH: "all_mind opened p1"
            "\<And>g. opened w2 g + held p1 g \<le> opened w3 g" "rp \<noteq> -1 \<Longrightarrow> opened w3 g = opened w2 g + held p1 g" for g
            by simp_all
          show ?thesis
          proof (cases "rp = -1")
            case True
            with res y have "e' = Engine ?a ?v None None" "w' = snd (unload ld ?file (Some p1) w3)" "r = -1" by simp_all
            moreover have "opened w g \<le> opened w' g" for g
              using unload_count [OF counts, of "Some p1" ?file w3 g] all_mind_own [OF IH(1)] IH(2) [of g] held_nonneg [of p1 g]
                w1 w2 op calculation(2) by (auto split: if_splits)
            ultimately show ?thesis using mind y by simp
          next
            case False
            with res y have c: "call_init (Engine ?a ?v (Some ?file) (Some p1)) w3 = (r, e', w')" by simp
            with call_init_count [OF c] mind have "opened w' = opened w3" by simp
            moreover have "held e' = held (Engine ?a ?v (Some ?file) (Some p1))" "all_mind opened e'"
              using call_same_chain(1) [OF c, of opened] mind IH(1) by simp_all
            moreover have "opened w3 g = opened w g + of_bool (g = ?file) + held p1 g" for g
              using IH(3) [OF False, of g] w1 w2 op by simp
            ultimately show ?thesis using y by simp
          qed
        qed
      qed
    qed
  qed
qed

lemma post_env_count:
  assumes "post_env ld e w = (r, e', w')" and "counts_handles ld opened" and "all_mind opened e"
  shows "all_mind opened e' \<and> eg_virtuals e' = eg_virtuals e \<and> (eg_handle e' = None \<or> eg_parent e' = None) \<and>
    (\<forall>g. opened w' g = opened w g - held e g)"
  using assms
proof (induction e arbitrary: r e' w' rule: ancestors.induct)
  case (1 a v h p)
  obtain rp p1 w1 where p: "post_env ld p w = (rp, p1, w1)" by (metis prod_cases3)
  obtain c w2 where u: "unload ld h (Some p1) w1 = (c, w2)" by (cases "unload ld h (Some p1) w1")
  from "1.IH" [OF p "1.prems"(2)] "1.prems"(3) have IH: "all_mind opened p1" "\<And>g. opened w1 g = opened w g - held p g" by simp_all
  have w2: "opened w2 g = opened w1 g - of_bool (g = h)" for g
    using unload_count [OF "1.prems"(2), of "Some p1" h w1 g] all_mind_own [OF IH(1)] u by simp
  show ?case
  proof (cases "rp = -1 \<or> c = -1")
    case True
    with "1.prems"(1,3) p u have "e' = Engine a v None None" "w' = w2" "minds_own opened v" by auto
    with w2 IH(2) show ?thesis by simp
  next
    case False
    with "1.prems"(1) p u have c: "call_post (Engine a v None None) w2 = (r, e', w')" by simp
    from "1.prems"(3) have "minds_own opened v" by simp
    moreover have "eg_virtuals e' = v" "eg_handle e' = None" using c by (auto split: prod.splits)
    ultimately show ?thesis
      using call_post_count [OF c, of opened] call_same_chain(3) [OF c, of opened] w2 IH(2) by simp
  qed
qed (use call_post_count [of _ _ _ _ _ opened] in \<open>auto simp: minds_own_def split: prod.splits, (metis snd_conv)+\<close>)

lemma compute_count:
  assumes "compute ld e inp outp w = (r, e', out, w')" and "counts_handles ld opened" and "all_mind opened e"
  shows "all_mind opened e' \<and> (\<forall>g. opened w g - held e g \<le> opened w' g - held e' g) \<and>
    (fst (run_ancestors (ancestors e) inp outp w) \<longrightarrow> opened w' = opened w \<and> held e' = held e)"
  using assms
proof (induction e arbitrary: r e' out w' rule: ancestors.induct)
  case (1 a v h p)
  obtain rp p1 op w1 where p: "compute ld p inp outp w = (rp, p1, op, w1)" by (metis prod_cases4)
  obtain okp o2 w2 where run: "run_ancestors (ancestors p) inp outp w = (okp, o2, w2)" by (metis prod_cases3)
  from "1.IH" [OF p "1.prems"(2)] "1.prems"(3) have IH: "all_mind opened p1"
    "\<And>g. opened w g - held p g \<le> opened w1 g - held p1 g"
    "fst (run_ancestors (ancestors p) inp outp w) \<longrightarrow> opened w1 = opened w \<and> held p1 = held p" by simp_all
  have mind: "minds_own opened v" using "1.prems"(3) by simp
  have out: "fst (run_ancestors (ancestors (Engine a v (Some h) (Some p))) inp outp w) \<longleftrightarrow> okp \<and> rp \<noteq> -1"
    using compute_outcome [OF p run] by (cases okp) (auto simp: run_ancestors_append run split: prod.splits if_splits)
  show ?case
  proof (cases "rp = -1")
    case True
    with "1.prems"(1) p have e': "e' = Engine a v None None" "w' = snd (unload ld h (Some p1) w1)" by auto
    have "opened w' g = opened w1 g - of_bool (g = h)" for g
      using unload_count [OF "1.prems"(2), of "Some p1" h w1 g] all_mind_own [OF IH(1)] e'(2) by simp
    moreover have "opened w g - held p g \<le> opened w1 g" for g using IH(2) [of g] held_nonneg [of p1 g] by simp
    ultimately show ?thesis using e' mind out True by (simp add: algebra_simps)
  next
    case False
    with "1.prems"(1) p have c: "call_infer (Engine a v (Some h) (Some p1)) inp op w1 = (r, e', out, w')" by simp
    have ok: okp using compute_outcome [OF p run] False by (cases okp) auto
    with IH(3) run have same: "opened w1 = opened w" "held p1 = held p" by simp_all
    from call_infer_count [OF c, of opened] mind same have "opened w' = opened w" by simp
    moreover from call_same_chain(2) [OF c, of opened] mind IH(1) same(2)
    have "all_mind opened e'" "held e' = held (Engine a v (Some h) (Some p))" by (simp_all add: fun_eq_iff)
    ultimately show ?thesis by simp
  qed
next
  case (2 a v p)
  from 2 have c: "call_infer (Engine a v None p) inp outp w = (r, e', out, w')" by simp
  from call_infer_count [OF c, of opened] call_same_chain(2) [OF c, of opened] 2 show ?case by simp
next
  case (3 a v h)
  from 3 have c: "call_infer (Engine a v (Some h) None) inp outp w = (r, e', out, w')" by simp
  from call_infer_count [OF c, of opened] call_same_chain(2) [OF c, of opened] 3 show ?case by simp
qed

lemma failed_parent_count:
  assumes "compute ld (Engine a v (Some h) (Some p)) inp outp w = (r, e', out, w')"
    and "counts_handles ld opened" and "all_mind opened (Engine a v (Some h) (Some p))"
    and "fst (run_ancestors (ancestors p) inp outp w)"
    and "\<not> fst (run_ancestors (ancestors (Engine a v (Some h) (Some p))) inp outp w)"
  shows "opened w' g = opened w g - of_bool (g = h)" and "held e' g = 0"
proof -
  obtain rp p1 op w1 where p: "compute ld p inp outp w = (rp, p1, op, w1)" by (metis prod_cases4)
  obtain o2 w2 where run: "run_ancestors (ancestors p) inp outp w = (True, o2, w2)" using assms(4) by (metis prod_cases3 fst_conv)
  from compute_outcome [OF p run] assms(5) run have rp: "rp = -1"
    by (auto simp: run_ancestors_append split: prod.splits if_splits)
  from compute_count [OF p assms(2)] assms(3,4) have "all_mind opened p1" "opened w1 = opened w" by simp_all
  with unload_count [OF assms(2), of "Some p1" h w1 g] all_mind_own [of opened p1] assms(1) p rp
  show "opened w' g = opened w g - of_bool (g = h)" "held e' g = 0" by auto
qed

text \<open>
  C17: loading, computing and unloading gives back what was loaded. After \<^verbatim>\<open>init_env\<close> without error an engine
  holds one reference to a file for each of its ancestors, and \<^verbatim>\<open>post_env\<close> gives all of them back, whatever it
  returns, if no ancestor fails in between. If its parent fails in the computation, the references the parent
  holds are never given back: the destructor does not unload.
\<close>

theorem references_given_back:
  assumes "counts_handles ld opened" and "generates_fresh ld opened"
    and "minds_own opened (eg_virtuals e)" and "eg_handle e = None" and "eg_parent e = None"
    and init: "init_env ld e w = Some (r, e1, w1)" and "r \<noteq> -1"
    and comp: "compute ld e1 inp outp w1 = (rc, e2, out, w2)" and post: "post_env ld e2 w2 = (rp, e3, w3)"
  shows "opened w1 g = opened w g + held e1 g \<and> opened w g \<le> opened w3 g \<and> held e3 g = 0 \<and>
    (fst (run_ancestors (ancestors e1) inp outp w1) \<longrightarrow> opened w3 g = opened w g) \<and>
    (\<forall>h p. eg_handle e1 = Some h \<and> eg_parent e1 = Some p \<and> fst (run_ancestors (ancestors p) inp outp w1) \<and>
       \<not> fst (run_ancestors (ancestors e1) inp outp w1) \<longrightarrow> opened w3 g = opened w g + held p g)"
proof -
  from init_env_count [OF init assms(1-5)] assms(7)
  have 1: "all_mind opened e1" "opened w1 g = opened w g + held e1 g" by simp_all
  from compute_count [OF comp assms(1) 1(1)] have 2: "all_mind opened e2"
    "opened w1 g - held e1 g \<le> opened w2 g - held e2 g"
    "fst (run_ancestors (ancestors e1) inp outp w1) \<longrightarrow> opened w2 = opened w1 \<and> held e2 = held e1" by simp_all
  from post_env_count [OF post assms(1) 2(1)] alone_mind [of e3 opened g] have 3: "opened w3 g = opened w2 g - held e2 g" "held e3 g = 0"
    by simp_all
  have "opened w3 g = opened w g + held p g"
    if e1: "eg_handle e1 = Some h" "eg_parent e1 = Some p" and "fst (run_ancestors (ancestors p) inp outp w1)"
      "\<not> fst (run_ancestors (ancestors e1) inp outp w1)" for h p
  proof -
    obtain a v where e: "e1 = Engine a v (Some h) (Some p)" using e1 by (cases e1) simp
    from failed_parent_count [OF comp [unfolded e] assms(1) 1(1) [unfolded e]] that e
    have "opened w2 g = opened w1 g - of_bool (g = h)" "held e2 g = 0" by simp_all
    with 1(2) 3(1) e show ?thesis by simp
  qed
  with 1 2 3 show ?thesis by auto
qed

definition sample_opened :: "string list \<Rightarrow> string \<Rightarrow> int" where
  "sample_opened w f = int (count_list w (CHR ''+'' # f)) - int (count_list w (CHR ''-'' # f))"

lemma sample_library:
  assumes "\<forall>e \<in> snd ` set lib. \<exists>name parent r. e = sample_engine (CHR ''e'' # name) parent r"
  shows "counts_handles (sample_loader lib) sample_opened" and "generates_fresh (sample_loader lib) sample_opened"
    and "minds_own sample_opened (marking (CHR ''e'' # name) r)"
proof -
  show mind: "minds_own sample_opened (marking (CHR ''e'' # name) r)" for name r
    by (simp add: minds_own_def marking_def base_virtuals_def sample_opened_def fun_eq_iff)
  show "counts_handles (sample_loader lib) sample_opened"
    by (auto simp: counts_handles_def sample_loader_def sample_opened_def fun_eq_iff)
  have eng: "minds_own sample_opened (eg_virtuals p) \<and> eg_handle p = None \<and> eg_parent p = None" if "map_of lib s = Some p" for s p
    using assms map_of_SomeD [OF that] mind by (force simp: sample_engine_def jxtd_Engine_new_def)
  show "generates_fresh (sample_loader lib) sample_opened"
    using eng by (auto simp: generates_fresh_def sample_loader_def)
qed

lemma sample_attrs:
  "eg_virtuals (sample_engine n p r) = marking n r"
  "p \<noteq> [] \<Longrightarrow> ea_parent_mid (eg_attrs (sample_engine n p r)) = ''1''"
  "p \<noteq> [] \<Longrightarrow> ea_parent_name (eg_attrs (sample_engine n p r)) = p"
  "p \<noteq> [] \<Longrightarrow> CHR 0x00 \<notin> set p \<Longrightarrow> parent_file (eg_attrs (sample_engine n p r)) = ''./JXTDENGINE_1_'' @ p @ ''.so''"
  "p \<noteq> [] \<Longrightarrow> CHR 0x00 \<notin> set p \<Longrightarrow> parent_symbol (eg_attrs (sample_engine n p r)) = ''generate_1_'' @ p"
  "call_init (Engine a (marking n r) h q) w = (0, Engine a (marking n r) h q, w)"
  "call_infer (Engine a (marking n r) h q) i out w = (r, Engine a (marking n r) h q, out\<lparr>tn_src := tn_src out @ n\<rparr>, w @ [n])"
  "call_post (Engine a (marking n r) h q) w = (0, Engine a (marking n r) h q, w)"
  "vt_delete (marking n r) w = w @ [''delete '' @ n]"
  by (simp_all add: sample_engine_defs c_str_id)

theorem references_given_back_witness:
  "\<exists>e1 w1 e2 out w2 e3 w3. let ld = sample_loader [(''generate_1_ea'', sample_engine ''ea'' [] 0), (''generate_1_eb'', sample_engine ''eb'' ''ea'' (-1))]
     in init_env ld (sample_engine ''ec'' ''eb'' 0) [] = Some (0, e1, w1) \<and>
        compute ld e1 Tensor_new Tensor_new w1 = (-1, e2, out, w2) \<and> post_env ld e2 w2 = (0, e3, w3) \<and>
        sample_opened w3 ''./JXTDENGINE_1_ea.so'' = 1"
proof -
  let ?lib = "[(''generate_1_ea'', sample_engine ''ea'' [] 0), (''generate_1_eb'', sample_engine ''eb'' ''ea'' (-1))]"
  let ?ld = "sample_loader ?lib"
  let ?a = "sample_engine ''ea'' [] 0" and ?b = "sample_engine ''eb'' ''ea'' (-1)" and ?c = "sample_engine ''ec'' ''eb'' 0"
  let ?fa = "''./JXTDENGINE_1_ea.so''" and ?fb = "''./JXTDENGINE_1_eb.so''"
  have a: "?a = Engine (eg_attrs ?a) (marking ''ea'' 0) None None" "ea_parent_mid (eg_attrs ?a) = []"
    by (simp_all add: sample_engine_defs)
  have ld: "ld_open ?ld f w = (True, w @ [CHR ''+'' # f])" "ld_close ?ld f w = (0, w @ [CHR ''-'' # f])"
    "ld_sym ?ld f s w = map_option (\<lambda>e w. (Some e, w)) (map_of ?lib s)" for f s w
    by (simp_all add: sample_loader_def)
  have ea: "init_env ?ld ?a w = Some (0, ?a, w)" for w
    using sample_attrs(6) [of "eg_attrs ?a" "''ea''" 0 None None w] a
    by (subst init_env.simps) (simp add: Let_def del: call_init.simps)
  let ?b1 = "Engine (eg_attrs ?b) (marking ''eb'' (-1)) (Some ?fa) (Some ?a)"
  have eb: "init_env ?ld ?b w = Some (0, ?b1, w @ [CHR ''+'' # ?fa])" for w
    by (subst init_env.simps) (simp add: Let_def sample_attrs ld ea del: call_init.simps)
  let ?c1 = "Engine (eg_attrs ?c) (marking ''ec'' 0) (Some ?fb) (Some ?b1)"
  have ec: "init_env ?ld ?c w = Some (0, ?c1, w @ [CHR ''+'' # ?fb, CHR ''+'' # ?fa])" for w
    by (subst init_env.simps) (simp add: Let_def sample_attrs ld eb del: call_init.simps)
  let ?w1 = "[CHR ''+'' # ?fb, CHR ''+'' # ?fa]"
  have ca: "compute ?ld ?a i out w = (0, ?a, out\<lparr>tn_src := tn_src out @ ''ea''\<rparr>, w @ [''ea''])" for i out w
    using sample_attrs(7) [of "eg_attrs ?a" "''ea''" 0 None None i out w] a(1)
    by (metis compute.simps(2))
  have comp: "compute ?ld ?c1 Tensor_new Tensor_new ?w1 =
      (-1, Engine (eg_attrs ?c) (marking ''ec'' 0) None None, Tensor_new\<lparr>tn_src := ''eaeb''\<rparr>,
       ?w1 @ [''ea'', ''eb'', ''delete eb'', CHR ''-'' # ?fb])"
    by (simp add: ca sample_attrs ld unload_def Tensor_new_def del: call_infer.simps)
  have post: "post_env ?ld (Engine (eg_attrs ?c) (marking ''ec'' 0) None None) w =
      (0, Engine (eg_attrs ?c) (marking ''ec'' 0) None None, w)" for w
    by (simp add: sample_attrs del: call_post.simps)
  have lib: "\<forall>e \<in> snd ` set ?lib. \<exists>name parent r. e = sample_engine (CHR ''e'' # name) parent r"
    by auto
  have anc: "ancestors ?a = []" and held_a: "held ?a ?fa = 0" by (subst a(1), simp)+
  have inf: "vt_infer (marking n r) a i out w = (r, a, out\<lparr>tn_src := tn_src out @ n\<rparr>, w @ [n])" for n r a i out w
    by (simp add: marking_def)
  have run: "fst (run_ancestors (ancestors ?b1) Tensor_new Tensor_new ?w1)"
      "\<not> fst (run_ancestors (ancestors ?c1) Tensor_new Tensor_new ?w1)"
    by (simp_all add: anc inf sample_attrs(1))
  have mind: "minds_own sample_opened (eg_virtuals ?c)" unfolding sample_attrs(1) by (rule sample_library(3) [OF lib])
  have fresh: "eg_handle ?c = None" "eg_parent ?c = None" by (simp_all add: sample_engine_def jxtd_Engine_new_def)
  have ec0: "init_env ?ld ?c [] = Some (0, ?c1, ?w1)" using ec [of "[]"] by simp
  have "(0 :: int) \<noteq> -1" by simp
  note given_back = references_given_back [OF sample_library(1,2) [OF lib] mind fresh ec0 this comp post, of ?fa]
  have "sample_opened (?w1 @ [''ea'', ''eb'', ''delete eb'', CHR ''-'' # ?fb]) ?fa = sample_opened [] ?fa + held ?b1 ?fa"
    by (rule given_back [THEN conjunct2, THEN conjunct2, THEN conjunct2, THEN conjunct2, THEN spec [of _ ?fb], THEN spec [of _ ?b1],
          THEN mp]) (intro conjI engine.sel run)
  also have "\<dots> = 1" using held_a by (simp add: sample_opened_def)
  finally have "sample_opened (?w1 @ [''ea'', ''eb'', ''delete eb'', CHR ''-'' # ?fb]) ?fa = 1" .
  with ec0 comp post show ?thesis unfolding Let_def by blast
qed

end
