(* ===== verification/Float32.thy ===== *)
theory Float32
  imports Fixed_Point
begin

text \<open>
  The arithmetic on \<^verbatim>\<open>float\<close> and \<^verbatim>\<open>double\<close> that the shares of the computing units use: a value is a
  rational number, an infinity (with its sign) or NaN; every operation rounds to the nearest, ties to
  even, with gradual underflow and overflow to infinity. The sign of zero is not modelled.
\<close>

datatype fl = Fin rat | Inf bool | NaN

definition round_ieee :: "int \<Rightarrow> int \<Rightarrow> int \<Rightarrow> rat \<Rightarrow> fl" where
  "round_ieee p emin emax q =
     (if q = 0 then Fin 0
      else let e = max (ilog 1100 \<bar>q\<bar> - p + 1) emin;
               r = of_int (round_even (\<bar>q\<bar> / 2 powi e)) * 2 powi e
           in if r \<ge> 2 powi emax then Inf (q < 0) else Fin (if q < 0 then - r else r))"

definition round32 :: "rat \<Rightarrow> fl" where
  "round32 = round_ieee 24 (-149) 128"

definition round64 :: "rat \<Rightarrow> fl" where
  "round64 = round_ieee 53 (-1074) 1024"

fun fl_add :: "(rat \<Rightarrow> fl) \<Rightarrow> fl \<Rightarrow> fl \<Rightarrow> fl" where
  "fl_add rd (Fin a) (Fin b) = rd (a + b)"
| "fl_add rd (Inf s) (Inf t) = (if s = t then Inf s else NaN)"
| "fl_add rd (Inf s) (Fin b) = Inf s"
| "fl_add rd (Fin a) (Inf t) = Inf t"
| "fl_add rd _ _ = NaN"

fun fl_mul :: "(rat \<Rightarrow> fl) \<Rightarrow> fl \<Rightarrow> fl \<Rightarrow> fl" where
  "fl_mul rd (Fin a) (Fin b) = rd (a * b)"
| "fl_mul rd (Inf s) (Inf t) = Inf (s \<noteq> t)"
| "fl_mul rd (Inf s) (Fin b) = (if b = 0 then NaN else Inf (s \<noteq> (b < 0)))"
| "fl_mul rd (Fin a) (Inf t) = (if a = 0 then NaN else Inf (t \<noteq> (a < 0)))"
| "fl_mul rd _ _ = NaN"

fun fl_div :: "(rat \<Rightarrow> fl) \<Rightarrow> fl \<Rightarrow> fl \<Rightarrow> fl" where
  "fl_div rd (Fin a) (Fin b) = (if b \<noteq> 0 then rd (a / b) else if a = 0 then NaN else Inf (a < 0))"
| "fl_div rd (Inf s) (Fin b) = Inf (s \<noteq> (b < 0))"
| "fl_div rd (Fin a) (Inf t) = Fin 0"
| "fl_div rd _ _ = NaN"

text \<open>A \<^verbatim>\<open>double\<close> stored in a \<^verbatim>\<open>float\<close>.\<close>

fun to32 :: "fl \<Rightarrow> fl" where
  "to32 (Fin a) = round32 a"
| "to32 x = x"

text \<open>A \<^verbatim>\<open>float\<close> converted to \<^verbatim>\<open>int\<close>: truncated, undefined when it does not fit.\<close>

fun to_int :: "fl \<Rightarrow> int cxx" where
  "to_int (Fin a) =
     (let v = trunc_rat a in if - (2 ^ 31) \<le> v \<and> v < 2 ^ 31 then Inr v else Inl Undefined_behaviour)"
| "to_int _ = Inl Undefined_behaviour"

end
