(* ===== verification/Drccp_Message.thy ===== *)
theory Drccp_Message
  imports Framing Float32
begin

text \<open>
  The message of the protocol between computing units, \<^verbatim>\<open>computation/drccp/message.cc\<close>: one class
  serves as request and response. The protobuf serialiser and parser are parameters; a sub-message
  or optional field that is absent reads its default, so it is its value. Sizes are \<^verbatim>\<open>int\<close>s: the
  model is for messages of less than 2 GiB.
\<close>

text \<open>The values of \<^verbatim>\<open>Report::MessageType\<close>; on the wire any number may stand for a type.\<close>

datatype report_type = UNKNOWN | VERSION | MEET | HELLO | ALIVE | FORWARD | RESULT | LOCAL

fun report_code :: "report_type \<Rightarrow> int" where
  "report_code UNKNOWN = 0"
| "report_code VERSION = 1"
| "report_code MEET = 2"
| "report_code HELLO = 3"
| "report_code ALIVE = 4"
| "report_code FORWARD = 5"
| "report_code RESULT = 6"
| "report_code LOCAL = 7"

type_synonym dr_endpoint = "string \<times> int"

record drccp_message =
  dm_cluster :: string
  dm_msg :: string
  dm_src :: dr_endpoint
  dm_dest :: dr_endpoint
  dm_type :: int
  dm_version :: int
  dm_raw :: string
  dm_shares :: "(dr_endpoint \<times> fl) list"
  dm_buf :: "string option"
  dm_size :: nat

definition Drccp_new :: drccp_message where
  "Drccp_new = \<lparr>dm_cluster = [], dm_msg = [], dm_src = ([], 0), dm_dest = ([], 0), dm_type = report_code UNKNOWN,
     dm_version = 0, dm_raw = [], dm_shares = [], dm_buf = None, dm_size = 0\<rparr>"

definition Drccp_copy :: "drccp_message \<Rightarrow> drccp_message" where
  "Drccp_copy other =
     \<lparr>dm_cluster = dm_cluster other, dm_msg = dm_msg other, dm_src = dm_src other, dm_dest = dm_dest other,
      dm_type = dm_type other, dm_version = dm_version other, dm_raw = dm_raw other, dm_shares = dm_shares other,
      dm_buf = map_option (take (dm_size other)) (dm_buf other), dm_size = dm_size other\<rparr>"

text \<open>The source of a move: its strings and vectors are empty after it, its numbers stay.\<close>

definition Drccp_moved_from :: "drccp_message \<Rightarrow> drccp_message" where
  "Drccp_moved_from other =
     other\<lparr>dm_cluster := [], dm_msg := [], dm_src := ([], snd (dm_src other)), dm_dest := ([], snd (dm_dest other)),
       dm_raw := [], dm_shares := [], dm_buf := None, dm_size := 0\<rparr>"

definition Drccp_move :: "drccp_message \<Rightarrow> drccp_message \<times> drccp_message" where
  "Drccp_move other =
     (\<lparr>dm_cluster = dm_cluster other, dm_msg = dm_msg other, dm_src = dm_src other, dm_dest = dm_dest other,
       dm_type = dm_type other, dm_version = dm_version other, dm_raw = dm_raw other, dm_shares = dm_shares other,
       dm_buf = dm_buf other, dm_size = dm_size other\<rparr>,
      Drccp_moved_from other)"

definition Drccp_copy_assign :: "drccp_message \<Rightarrow> drccp_message \<Rightarrow> drccp_message" where
  "Drccp_copy_assign this other =
     this\<lparr>dm_cluster := dm_cluster other, dm_msg := dm_msg other, dm_src := dm_src other, dm_dest := dm_dest other,
       dm_type := dm_type other, dm_version := dm_version other, dm_raw := dm_raw other, dm_shares := dm_shares other,
       dm_buf := map_option (take (dm_size other)) (dm_buf other), dm_size := dm_size other\<rparr>"

definition Drccp_move_assign :: "drccp_message \<Rightarrow> drccp_message \<Rightarrow> drccp_message \<times> drccp_message" where
  "Drccp_move_assign this other =
     (this\<lparr>dm_cluster := dm_cluster other, dm_msg := dm_msg other, dm_src := dm_src other, dm_dest := dm_dest other,
        dm_type := dm_type other, dm_version := dm_version other, dm_raw := dm_raw other, dm_shares := dm_shares other,
        dm_buf := dm_buf other, dm_size := dm_size other\<rparr>,
      Drccp_moved_from other)"

definition Drccp_setsrc :: "drccp_message \<Rightarrow> string \<Rightarrow> int \<Rightarrow> drccp_message" where
  "Drccp_setsrc m addr port = m\<lparr>dm_src := (addr, port)\<rparr>"

text \<open>\<^verbatim>\<open>setdest\<close> assigns to \<^verbatim>\<open>src\<close>.\<close>

definition Drccp_setdest :: "drccp_message \<Rightarrow> string \<Rightarrow> int \<Rightarrow> drccp_message" where
  "Drccp_setdest m addr port = m\<lparr>dm_src := (addr, port)\<rparr>"

definition Drccp_settag :: "drccp_message \<Rightarrow> string \<Rightarrow> string \<Rightarrow> drccp_message" where
  "Drccp_settag m cluster tag = m\<lparr>dm_cluster := cluster, dm_msg := tag\<rparr>"

definition Drccp_settype :: "drccp_message \<Rightarrow> int \<Rightarrow> drccp_message" where
  "Drccp_settype m t = m\<lparr>dm_type := t\<rparr>"

definition Drccp_setversion :: "drccp_message \<Rightarrow> int \<Rightarrow> drccp_message" where
  "Drccp_setversion m v = m\<lparr>dm_version := v\<rparr>"

definition Drccp_setraw :: "drccp_message \<Rightarrow> string \<Rightarrow> drccp_message" where
  "Drccp_setraw m raw = m\<lparr>dm_raw := raw\<rparr>"

definition Drccp_addshare :: "drccp_message \<Rightarrow> dr_endpoint \<times> fl \<Rightarrow> drccp_message" where
  "Drccp_addshare m share = m\<lparr>dm_shares := dm_shares m @ [share]\<rparr>"

definition Drccp_setshare :: "drccp_message \<Rightarrow> (dr_endpoint \<times> fl) list \<Rightarrow> drccp_message" where
  "Drccp_setshare m shares = m\<lparr>dm_shares := shares\<rparr>"

text \<open>\<^verbatim>\<open>shares[i]\<close> is not checked.\<close>

definition Drccp_getshare :: "drccp_message \<Rightarrow> int \<Rightarrow> (dr_endpoint \<times> fl) cxx" where
  "Drccp_getshare m i = (if in_range i (dm_shares m) then Inr (dm_shares m ! nat i) else Inl Undefined_behaviour)"

section \<open>The wire\<close>

record pb_report =
  pbr_magic :: u32
  pbr_tag :: "string \<times> string"
  pbr_type :: int
  pbr_version :: u32
  pbr_src :: "string \<times> u32"
  pbr_dest :: "string \<times> u32"
  pbr_raw :: string
  pbr_shares :: "((string \<times> u32) \<times> fl) list"

text \<open>An \<^verbatim>\<open>int\<close> port as the \<^verbatim>\<open>uint32\<close> of the message, and back.\<close>

definition ep_to_pb :: "dr_endpoint \<Rightarrow> string \<times> u32" where
  "ep_to_pb e = (fst e, of_int (snd e))"

definition ep_of_pb :: "string \<times> u32 \<Rightarrow> dr_endpoint" where
  "ep_of_pb e = (fst e, sint (snd e))"

definition Drccp_to_pb :: "drccp_message \<Rightarrow> pb_report" where
  "Drccp_to_pb m =
     \<lparr>pbr_magic = get_magic DRCCP, pbr_tag = (dm_cluster m, dm_msg m), pbr_type = dm_type m, pbr_version = 3,
      pbr_src = ep_to_pb (dm_src m), pbr_dest = ep_to_pb (dm_dest m), pbr_raw = dm_raw m,
      pbr_shares = map (\<lambda>(e, s). (ep_to_pb e, s)) (dm_shares m)\<rparr>"

definition Drccp_encode :: "(pb_report \<Rightarrow> string) \<Rightarrow> drccp_message \<Rightarrow> int \<times> string \<times> drccp_message" where
  "Drccp_encode ser m =
     (let bytes = ser (Drccp_to_pb m) in (1, bytes, m\<lparr>dm_size := length bytes, dm_buf := Some bytes\<rparr>))"

definition Drccp_accept :: "drccp_message \<Rightarrow> pb_report \<Rightarrow> drccp_message append_res" where
  "Drccp_accept m p =
     (let m1 = m\<lparr>dm_buf := None, dm_size := 0\<rparr>
      in if pbr_magic p \<noteq> get_magic DRCCP then (-1, Some MAGIC_MISMATCH, m1)
         else (1, None, m1\<lparr>dm_cluster := fst (pbr_tag p), dm_msg := snd (pbr_tag p), dm_version := sint (pbr_version p),
           dm_type := pbr_type p, dm_src := ep_of_pb (pbr_src p), dm_dest := ep_of_pb (pbr_dest p), dm_raw := pbr_raw p,
           dm_shares := dm_shares m @ map (\<lambda>(e, s). (ep_of_pb e, s)) (pbr_shares p)\<rparr>))"

definition Drccp_append :: "(string \<Rightarrow> pb_report option) \<Rightarrow> drccp_message \<Rightarrow> string \<Rightarrow> drccp_message append_res" where
  "Drccp_append parse m chunk =
     (let buf = gather (dm_buf m) (dm_size m) chunk;
          n = dm_size m + length chunk
      in case parse (take n buf) of
           None \<Rightarrow> (0, None, m\<lparr>dm_buf := Some buf, dm_size := n\<rparr>)
         | Some p \<Rightarrow> Drccp_accept m p)"

interpretation drccp_frame: framed parse "Drccp_append parse" "\<lambda>m. buffered (dm_buf m)"
  "\<lambda>m b. m\<lparr>dm_buf := Some b, dm_size := length b\<rparr>" Drccp_accept "\<lambda>m. buffer_ok (dm_buf m) (dm_size m)"
  for parse
  by (rule framed_of_buffer [where put = "\<lambda>m b n. m\<lparr>dm_buf := Some b, dm_size := n\<rparr>"])
    (auto simp: Drccp_append_def Drccp_accept_def Let_def split: option.split if_splits)

section \<open>Round trip\<close>

text \<open>A port that an \<^verbatim>\<open>int\<close> holds.\<close>

definition int_ok :: "int \<Rightarrow> bool" where
  "int_ok n \<longleftrightarrow> - (2 ^ 31) \<le> n \<and> n < 2 ^ 31"

definition drccp_ok :: "drccp_message \<Rightarrow> bool" where
  "drccp_ok m \<longleftrightarrow> int_ok (snd (dm_src m)) \<and> int_ok (snd (dm_dest m)) \<and> (\<forall>(e, s) \<in> set (dm_shares m). int_ok (snd e))"

text \<open>What a fresh object holds after it has received a message.\<close>

definition Drccp_received :: "drccp_message \<Rightarrow> drccp_message" where
  "Drccp_received m = m\<lparr>dm_version := 3, dm_buf := None, dm_size := 0\<rparr>"

lemma ep_roundtrip [simp]: "int_ok (snd e) \<Longrightarrow> ep_of_pb (ep_to_pb e) = e"
  by (cases e) (simp add: ep_of_pb_def ep_to_pb_def int_ok_def signed_take_bit_int_eq_self sint_sbintrunc')

lemma Drccp_accept_to_pb:
  assumes "drccp_ok m"
  shows "Drccp_accept Drccp_new (Drccp_to_pb m) = (1, None, Drccp_received m)"
proof -
  have "map (\<lambda>(e, s). (ep_of_pb e, s)) (map (\<lambda>(e, s). (ep_to_pb e, s)) (dm_shares m)) = dm_shares m"
    using assms by (auto simp: drccp_ok_def intro!: map_idI)
  with assms show ?thesis
    by (simp add: Drccp_accept_def Drccp_to_pb_def Drccp_received_def Drccp_new_def drccp_ok_def)
qed

text \<open>
  A message between computing units arrives with its tag, type, payload and shares, and always with
  version 3; its source is the address given last to \<^verbatim>\<open>setsrc\<close> or \<^verbatim>\<open>setdest\<close>, its destination is the
  empty one of a new object.
\<close>

theorem drccp_message_roundtrip:
  assumes "drccp_ok m" and "carried ser parse chunks (Drccp_to_pb m)"
  shows "feed (Drccp_append parse) Drccp_new (chunks (fst (snd (Drccp_encode ser m)))) = (1, None, Drccp_received m) \<and>
    dm_src (Drccp_received (Drccp_setdest (Drccp_setsrc m sa sp) da dp)) = (da, dp) \<and>
    dm_dest (Drccp_received (Drccp_setdest (Drccp_setsrc m sa sp) da dp)) = dm_dest m"
proof -
  have "feed (Drccp_append parse) Drccp_new (chunks (ser (Drccp_to_pb m))) = Drccp_accept Drccp_new (Drccp_to_pb m)"
    by (rule drccp_frame.feed_carried [OF _ _ assms(2)]) (simp_all add: Drccp_new_def)
  then show ?thesis
    by (simp add: Drccp_encode_def Let_def Drccp_accept_to_pb [OF assms(1)] Drccp_received_def Drccp_setdest_def
        Drccp_setsrc_def)
qed

theorem drccp_message_roundtrip_witness:
  "feed (Drccp_append (\<lambda>bs. if bs = ''m'' then Some (Drccp_to_pb (Drccp_setdest Drccp_new ''a'' 80)) else None)) Drccp_new [''m'']
     = (1, None, Drccp_received (Drccp_setdest Drccp_new ''a'' 80))"
proof -
  let ?m = "Drccp_setdest Drccp_new ''a'' 80"
  have "drccp_ok ?m" by (simp add: drccp_ok_def Drccp_setdest_def Drccp_new_def int_ok_def)
  from drccp_message_roundtrip [OF this carried_whole, of "\<lambda>bs. if bs = ''m'' then Some (Drccp_to_pb ?m) else None" "\<lambda>_. ''m''"]
  show ?thesis by (simp add: Drccp_encode_def Let_def)
qed

end
