(* ===== verification/Ordered_Map.thy ===== *)
theory Ordered_Map
  imports Prelude "HOL-Library.Char_ord" "HOL-Library.List_Lexorder" "HOL-Library.Product_Lexorder"
begin

text \<open>
  \<^verbatim>\<open>std::map\<close> as a list of pairs in the order of the keys, with the operations the code calls, and that they keep the order.
\<close>

text \<open>\<^verbatim>\<open>std::map\<close> in the order it is walked; \<^verbatim>\<open>insert\<close> leaves a present key alone, \<^verbatim>\<open>operator[] =\<close> overwrites.\<close>

fun smap_insert :: "('k :: linorder \<times> 'v) list \<Rightarrow> 'k \<Rightarrow> 'v \<Rightarrow> ('k \<times> 'v) list" where
  "smap_insert [] k v = [(k, v)]"
| "smap_insert ((k', v') # m) k v =
     (if k < k' then (k, v) # (k', v') # m else if k = k' then (k', v') # m else (k', v') # smap_insert m k v)"

fun smap_set :: "('k :: linorder \<times> 'v) list \<Rightarrow> 'k \<Rightarrow> 'v \<Rightarrow> ('k \<times> 'v) list" where
  "smap_set [] k v = [(k, v)]"
| "smap_set ((k', v') # m) k v =
     (if k < k' then (k, v) # (k', v') # m else if k = k' then (k, v) # m else (k', v') # smap_set m k v)"

abbreviation smap_ok :: "('k :: linorder \<times> 'v) list \<Rightarrow> bool" where
  "smap_ok m \<equiv> sorted_wrt (<) (map fst m)"

lemma keys_smap_set [simp]: "fst ` set (smap_set m k v) = insert k (fst ` set m)"
proof (induction m)
  case (Cons a m)
  then show ?case by (cases a) (simp add: insert_commute)
qed simp

lemma keys_smap_insert [simp]: "fst ` set (smap_insert m k v) = insert k (fst ` set m)"
proof (induction m)
  case (Cons a m)
  then show ?case by (cases a) (simp add: insert_commute)
qed simp

lemma smap_ok_Cons: "smap_ok (a # m) \<longleftrightarrow> (\<forall>k \<in> fst ` set m. fst a < k) \<and> smap_ok m"
  by auto

lemma smap_ok_set: "smap_ok m \<Longrightarrow> smap_ok (smap_set m k v)"
proof (induction m)
  case (Cons a m)
  obtain k' v' where a: "a = (k', v')" by (cases a)
  have "\<forall>x \<in> fst ` set m. k' < x" and ok: "smap_ok m" using Cons.prems a by (simp_all add: smap_ok_Cons)
  with Cons.IH [OF ok] show ?case
    using a by (auto simp: smap_ok_Cons simp del: list.map)
qed simp

lemma smap_ok_insert: "smap_ok m \<Longrightarrow> smap_ok (smap_insert m k v)"
proof (induction m)
  case (Cons a m)
  obtain k' v' where a: "a = (k', v')" by (cases a)
  have "\<forall>x \<in> fst ` set m. k' < x" and ok: "smap_ok m" using Cons.prems a by (simp_all add: smap_ok_Cons)
  with Cons.IH [OF ok] show ?case
    using a by (auto simp: smap_ok_Cons simp del: list.map)
qed simp

text \<open>Lookups: a set overwrites, an insertion leaves a present key alone.\<close>

lemma map_of_smap_set: "map_of (smap_set m k v) k' = (if k' = k then Some v else map_of m k')" if "smap_ok m"
  using that
proof (induction m)
  case (Cons a m)
  obtain k1 v1 where a: "a = (k1, v1)" by (cases a)
  show ?case
  proof (cases "k < k1")
    case True
    then show ?thesis using a by simp
  next
    case False
    then show ?thesis using Cons a by (cases "k = k1") auto
  qed
qed simp

lemma map_of_smap_insert:
  "map_of (smap_insert m k v) k' = (if k' = k \<and> map_of m k = None then Some v else map_of m k')" if "smap_ok m"
  using that
proof (induction m)
  case (Cons a m)
  obtain k1 v1 where a: "a = (k1, v1)" by (cases a)
  show ?case
  proof (cases "k < k1")
    case True
    then have "map_of (a # m) k = None"
      using Cons.prems a by (auto simp: map_of_eq_None_iff)
    with True show ?thesis using a by simp
  next
    case False
    then show ?thesis using Cons a by (cases "k = k1") auto
  qed
qed simp

end
