(* ===== verification/Drccp_Server.thy ===== *)
theory Drccp_Server
  imports Drccp_Message Ordered_Map
begin

unbundle bit_operations_syntax

text \<open>
  A computing unit among others, \<^verbatim>\<open>computation/drccp/server.cc\<close>: the shares it keeps of the units it knows,
  the choice of the unit that computes a job, the handler of the messages of other units, and the
  operations \<^verbatim>\<open>start\<close>, \<^verbatim>\<open>stop\<close>, \<^verbatim>\<open>signin\<close>, \<^verbatim>\<open>logout\<close> and \<^verbatim>\<open>submit\<close>. The network framework is third-party code: an
  exchange with another unit is the parameter \<open>exch\<close>. While it lasts the unit serves other messages,
  its own among them, so the exchange may change the unit's state. The callbacks of the unit
  are functions over the outside world \<open>'w\<close>.
\<close>

section \<open>The unit\<close>

type_synonym 'w payload_callback = "string \<Rightarrow> 'w \<Rightarrow> (string \<times> 'w) cxx"
type_synonym 'w result_callback = "string \<Rightarrow> 'w \<Rightarrow> 'w cxx"

text \<open>\<^verbatim>\<open>DrccpServerContext\<close>, and \<^verbatim>\<open>DrccpClientContext\<close> in the last four fields.\<close>

record 'w unit_node =
  un_server :: bool
  un_addr :: string
  un_family :: int
  un_port :: int
  un_tag :: string
  un_shares :: "(dr_endpoint \<times> fl) list"
  un_ssl :: bool
  un_payload :: "'w payload_callback option"
  un_result :: "'w result_callback option"
  un_cert :: string
  un_key :: string
  un_ca :: string
  un_client_result :: "'w result_callback option"
  un_client_addr :: string
  un_client_port :: int
  un_client_ssl :: bool

abbreviation un_self :: "'w unit_node \<Rightarrow> dr_endpoint" where
  "un_self n \<equiv> (un_addr n, un_port n)"

record drccp_setup =
  du_listen_addr :: string
  du_family :: int
  du_port :: int
  du_ssl :: bool
  du_ca :: string
  du_cert :: string
  du_key :: string

text \<open>The numbers and flags of a new object are indeterminate: \<open>g\<close>.\<close>

definition DrccpServer_new :: "'w unit_node \<Rightarrow> 'w unit_node" where
  "DrccpServer_new g =
     g\<lparr>un_server := False, un_addr := [], un_tag := [], un_shares := [], un_payload := None, un_result := None,
       un_cert := [], un_key := [], un_ca := [], un_client_result := None, un_client_addr := []\<rparr>"

definition drccp_setup_node :: "'w unit_node \<Rightarrow> drccp_setup \<Rightarrow> int \<times> 'w unit_node" where
  "drccp_setup_node n ctx =
     (0, n\<lparr>un_addr := du_listen_addr ctx, un_family := du_family ctx, un_port := du_port ctx, un_ssl := du_ssl ctx,
           un_client_ssl := du_ssl ctx, un_ca := du_ca ctx, un_cert := du_cert ctx, un_key := du_key ctx\<rparr>)"

record drccp_listen =
  dl_family :: int
  dl_addr :: string
  dl_port :: int
  dl_tls :: "(string \<times> string) option"

definition drccp_start :: "(drccp_listen \<Rightarrow> int) \<Rightarrow> 'w unit_node \<Rightarrow> int \<times> 'w unit_node" where
  "drccp_start wf_start n =
     (wf_start \<lparr>dl_family = un_family n, dl_addr = un_addr n, dl_port = un_port n,
                dl_tls = (if un_ssl n then Some (un_cert n, un_key n) else None)\<rparr>,
      n\<lparr>un_server := True, un_shares := smap_insert (un_shares n) (un_self n) (Fin 1)\<rparr>)"

definition drccp_stop :: "'w unit_node \<Rightarrow> int \<times> 'w unit_node" where
  "drccp_stop n = (0, if un_server n then n\<lparr>un_server := False\<rparr> else n)"

definition drccp_logout :: "'w unit_node \<Rightarrow> int \<times> 'w unit_node" where
  "drccp_logout n = (0, n\<lparr>un_tag := []\<rparr>)"

definition remove_receive_payload :: "'w unit_node \<Rightarrow> 'w unit_node" where
  "remove_receive_payload n = n\<lparr>un_payload := None\<rparr>"

definition register_receive_payload :: "'w payload_callback \<Rightarrow> 'w unit_node \<Rightarrow> 'w unit_node" where
  "register_receive_payload f n = n\<lparr>un_payload := Some f\<rparr>"

definition remove_receive_result :: "'w unit_node \<Rightarrow> 'w unit_node" where
  "remove_receive_result n = n\<lparr>un_result := None\<rparr>"

definition register_receive_result :: "'w result_callback \<Rightarrow> 'w unit_node \<Rightarrow> 'w unit_node" where
  "register_receive_result f n = n\<lparr>un_result := Some f\<rparr>"

definition remove_client_receive_result :: "'w unit_node \<Rightarrow> 'w unit_node" where
  "remove_client_receive_result n = n\<lparr>un_client_result := None\<rparr>"

definition register_client_receive_result :: "'w result_callback \<Rightarrow> 'w unit_node \<Rightarrow> 'w unit_node" where
  "register_client_receive_result f n = n\<lparr>un_client_result := Some f\<rparr>"

section \<open>Which unit computes\<close>

text \<open>
  \<^verbatim>\<open>hashcode\<close>: characters are signed, the shift of the port is that of an \<^verbatim>\<open>int\<close>, which wraps with the
  compilers the build uses.
\<close>

definition char_value :: "char \<Rightarrow> u32" where
  "char_value c = scast (of_nat (of_char c) :: 8 word)"

fun hash_loop :: "string \<Rightarrow> nat \<Rightarrow> u32 \<Rightarrow> u32 \<Rightarrow> u32" where
  "hash_loop [] i port code = code"
| "hash_loop (c # cs) i port code =
     hash_loop cs (Suc i) port ((code * 31 + char_value c) XOR push_bit (i mod 32) port)"

definition hashcode :: "dr_endpoint \<Rightarrow> u32" where
  "hashcode src = hash_loop (fst src) 0 (of_int (snd src)) 0"

text \<open>The positions of one unit on the cycle: \<^verbatim>\<open>share * 4\<close> of them, at equal distances from its hash.\<close>

definition unit_positions :: "dr_endpoint \<Rightarrow> int \<Rightarrow> u32 list" where
  "unit_positions endpoint node_limit =
     map (\<lambda>i. hashcode endpoint + ((-1) div of_int node_limit) * of_nat i) [0..<nat node_limit]"

fun hash_cycle :: "(dr_endpoint \<times> fl) list \<Rightarrow> (u32 \<times> dr_endpoint) list \<Rightarrow> (u32 \<times> dr_endpoint) list cxx" where
  "hash_cycle [] cycle = Inr cycle"
| "hash_cycle ((endpoint, share) # shares) cycle =
     cxx_bind (to_int (fl_mul round32 share (Fin 4))) (\<lambda>node_limit.
       hash_cycle shares (foldl (\<lambda>m c. umap_emplace m c endpoint) cycle (unit_positions endpoint node_limit)))"

text \<open>
  \<^verbatim>\<open>for(code = code + 1; code != code; code++)\<close> compares the variable with itself: the search of the
  rest of the cycle never runs, and only a unit that sits exactly at the hash of the source is found.
\<close>

definition select_best_target :: "'w unit_node \<Rightarrow> dr_endpoint \<Rightarrow> dr_endpoint cxx" where
  "select_best_target n source =
     cxx_bind (hash_cycle (un_shares n) []) (\<lambda>cycle.
       Inr (case map_of cycle (hashcode source) of Some e \<Rightarrow> e | None \<Rightarrow> un_self n))"

section \<open>Shares of other units\<close>

definition share_of :: "(dr_endpoint \<times> fl) list \<Rightarrow> dr_endpoint \<Rightarrow> fl cxx" where
  "share_of shares e = (case map_of shares e of None \<Rightarrow> Inl Undefined_behaviour | Some s \<Rightarrow> Inr s)"

definition mixed_share :: "fl \<Rightarrow> fl \<Rightarrow> fl \<Rightarrow> fl \<Rightarrow> fl" where
  "mixed_share own self_share neigh_share peer_share =
     to32 (fl_div round64 (fl_add round32 (fl_mul round32 own self_share) (fl_mul round32 neigh_share peer_share))
       (fl_mul round64 (Fin (3 / 2)) (fl_add round32 self_share peer_share)))"

fun merge_shares :: "fl \<Rightarrow> fl \<Rightarrow> (dr_endpoint \<times> fl) list \<Rightarrow> (dr_endpoint \<times> fl) list \<Rightarrow> (dr_endpoint \<times> fl) list" where
  "merge_shares self_share peer_share [] shares = shares"
| "merge_shares self_share peer_share ((neigh, neigh_share) # received) shares =
     merge_shares self_share peer_share received
       (case map_of shares neigh of
          Some own \<Rightarrow> smap_set shares neigh (mixed_share own self_share neigh_share peer_share)
        | None \<Rightarrow> smap_insert shares neigh (to32 (fl_div round64 neigh_share (Fin (3 / 2)))))"

definition update_shares :: "dr_endpoint \<Rightarrow> (dr_endpoint \<times> fl) list \<Rightarrow> 'w unit_node \<Rightarrow> 'w unit_node cxx" where
  "update_shares peer received n =
     (let peer_share = (case map_of (un_shares n) peer of Some s \<Rightarrow> s | None \<Rightarrow> Fin 1)
      in cxx_bind (share_of (un_shares n) (un_self n)) (\<lambda>self_share.
           Inr (n\<lparr>un_shares := merge_shares self_share peer_share received (un_shares n)\<rparr>)))"

text \<open>\<^verbatim>\<open>shares[e] += 0.5f\<close>.\<close>

definition credit :: "dr_endpoint \<Rightarrow> 'w unit_node \<Rightarrow> 'w unit_node" where
  "credit e n =
     n\<lparr>un_shares := smap_set (un_shares n) e
       (fl_add round32 (case map_of (un_shares n) e of Some s \<Rightarrow> s | None \<Rightarrow> Fin 0) (Fin (1 / 2)))\<rparr>"

section \<open>Messages\<close>

text \<open>A request to another unit, as the framework gets it: transport, target, number of retries, message.\<close>

record drccp_task =
  dk_tls :: bool
  dk_target :: dr_endpoint
  dk_retry :: int
  dk_req :: drccp_message

text \<open>Whether an exchange succeeded, the reply object, and what has become of the unit and the world.\<close>

type_synonym 'w drccp_exchange =
  "drccp_task \<Rightarrow> 'w unit_node \<Rightarrow> 'w \<Rightarrow> (bool \<times> drccp_message \<times> 'w unit_node \<times> 'w) cxx"

definition setup_header_resp :: "'w unit_node \<Rightarrow> drccp_message \<Rightarrow> drccp_message" where
  "setup_header_resp n resp =
     Drccp_setsrc (Drccp_settag (Drccp_setversion resp 3) (un_tag n) ''unused'') (un_addr n) (un_port n)"

definition setup_dest_resp :: "dr_endpoint \<Rightarrow> drccp_message \<Rightarrow> drccp_message" where
  "setup_dest_resp dest resp = Drccp_setdest resp (fst dest) (snd dest)"

definition setup_header_req :: "'w unit_node \<Rightarrow> drccp_message \<Rightarrow> drccp_message" where
  "setup_header_req n req =
     Drccp_setsrc (Drccp_settag (Drccp_setversion req 3) (un_tag n) ''unused'') (un_client_addr n) (un_client_port n)"

definition setup_dest_req :: "dr_endpoint \<Rightarrow> drccp_message \<Rightarrow> drccp_message" where
  "setup_dest_req dest req = Drccp_setdest req (fst dest) (snd dest)"

definition setup_raw_req :: "string \<Rightarrow> drccp_message \<Rightarrow> drccp_message" where
  "setup_raw_req raw req = Drccp_setraw req raw"

section \<open>The handler\<close>

text \<open>What the handler puts behind the request in its series: the forwarding, and greetings of the other units.\<close>

datatype drccp_job = Forward_job | Update_job drccp_task

definition other_units :: "'w unit_node \<Rightarrow> dr_endpoint list" where
  "other_units n = filter (\<lambda>e. e \<noteq> un_self n) (map fst (un_shares n))"

definition update_task :: "'w unit_node \<Rightarrow> dr_endpoint \<Rightarrow> drccp_task" where
  "update_task n neigh =
     \<lparr>dk_tls = un_client_ssl n, dk_target = neigh, dk_retry = 1,
      dk_req = Drccp_settype (setup_dest_req neigh (setup_header_req n Drccp_new)) (report_code HELLO)\<rparr>"

definition drccp_answer ::
  "drccp_message \<Rightarrow> drccp_message \<Rightarrow> 'w unit_node \<Rightarrow> 'w \<Rightarrow> (drccp_message \<times> drccp_job list \<times> 'w unit_node \<times> 'w) cxx" where
  "drccp_answer req resp n w =
     (if dm_type req = report_code MEET \<or> dm_type req = report_code HELLO
      then cxx_bind (update_shares (dm_src req) (dm_shares req)
             (if dm_type req = report_code MEET then n\<lparr>un_shares := smap_insert (un_shares n) (dm_src req) (Fin 1)\<rparr> else n))
           (\<lambda>n1. Inr (Drccp_settype resp (report_code ALIVE), [], n1, w))
      else if dm_type req = report_code LOCAL then Inr (resp, [Forward_job], n, w)
      else if dm_type req = report_code FORWARD
      then (case un_payload n of
              None \<Rightarrow> Inl Bad_function_call
            | Some f \<Rightarrow> cxx_bind (f (dm_raw req) w) (\<lambda>(out, w').
                Inr (Drccp_setraw (Drccp_settype resp (report_code RESULT)) out, [], credit (un_self n) n, w')))
      else Inr (resp, [], n, w))"

text \<open>Behind every request but a greeting, the other units are greeted.\<close>

definition greet_others ::
  "drccp_message \<Rightarrow> drccp_message \<times> drccp_job list \<times> 'w unit_node \<times> 'w \<Rightarrow>
   (drccp_message option \<times> drccp_job list \<times> 'w unit_node \<times> 'w) cxx" where
  "greet_others req = (\<lambda>(resp, jobs, n, w).
     if dm_type req = report_code HELLO \<or> other_units n = [] then Inr (Some resp, jobs, n, w)
     else (let n1 = n\<lparr>un_client_addr := un_addr n, un_client_port := un_port n\<rparr>
           in Inr (Some resp, jobs @ map (\<lambda>e. Update_job (update_task n1 e)) (other_units n1), n1, w)))"

text \<open>\<open>None\<close> as a reply is \<^verbatim>\<open>noreply\<close>.\<close>

definition drccp_process ::
  "drccp_message \<Rightarrow> 'w unit_node \<Rightarrow> 'w \<Rightarrow> (drccp_message option \<times> drccp_job list \<times> 'w unit_node \<times> 'w) cxx" where
  "drccp_process req n w =
     (if dm_cluster req \<noteq> un_tag n then Inr (None, [], n, w)
      else if dm_type req = report_code UNKNOWN then Inr (None, [], n, w)
      else (let resp = setup_dest_resp (dm_src req) (setup_header_resp n Drccp_new) in
        if dm_version req \<noteq> 3 then Inr (Some (Drccp_settype resp (report_code VERSION)), [], n, w)
        else cxx_bind (drccp_answer req resp n w) (greet_others req)))"

definition forward_task :: "'w unit_node \<Rightarrow> string \<Rightarrow> dr_endpoint \<Rightarrow> drccp_task" where
  "forward_task n raw target =
     \<lparr>dk_tls = un_ssl n, dk_target = target, dk_retry = 1,
      dk_req = Drccp_settype (Drccp_setraw (Drccp_setdest (Drccp_setsrc
        (Drccp_settag (Drccp_setversion Drccp_new 3) (un_tag n) ''unused'') (un_addr n) (un_port n))
        (fst target) (snd target)) raw) (report_code FORWARD)\<rparr>"

definition forwarded ::
  "dr_endpoint \<Rightarrow> drccp_message \<Rightarrow> drccp_message \<Rightarrow> 'w unit_node \<Rightarrow> 'w \<Rightarrow> (drccp_message \<times> 'w unit_node \<times> 'w) cxx" where
  "forwarded target r resp n w =
     cxx_bind (case un_result n of None \<Rightarrow> Inr w | Some g \<Rightarrow> g (dm_raw r) w) (\<lambda>w1.
       Inr (Drccp_setraw (Drccp_settype resp (report_code RESULT)) (dm_raw r), credit target n, w1))"

text \<open>The repeater of a job: a new choice and a new attempt until one succeeds. \<open>None\<close> is a loop that does not end.\<close>

partial_function (option) forward_loop ::
  "'w drccp_exchange \<Rightarrow> drccp_message \<Rightarrow> drccp_message \<Rightarrow> 'w unit_node \<Rightarrow> 'w \<Rightarrow>
   (drccp_message \<times> 'w unit_node \<times> 'w) cxx option" where
  "forward_loop exch req resp n w =
     (case select_best_target n (dm_src req) of
        Inl e \<Rightarrow> Some (Inl e)
      | Inr target \<Rightarrow>
          (case exch (forward_task n (dm_raw req) target) n w of
             Inl e \<Rightarrow> Some (Inl e)
           | Inr (success, r, n1, w1) \<Rightarrow>
               if success then Some (forwarded target r resp n1 w1)
               else forward_loop exch req resp (n1\<lparr>un_shares := smap_set (un_shares n1) target (Fin 0)\<rparr>) w1))"

text \<open>
  The callback of a greeting reads the server context through a reference to a parameter of the handler,
  which has returned by then.
\<close>

fun run_jobs ::
  "'w drccp_exchange \<Rightarrow> drccp_message \<Rightarrow> drccp_job list \<Rightarrow> drccp_message \<Rightarrow> 'w unit_node \<Rightarrow> 'w \<Rightarrow>
   (drccp_message \<times> 'w unit_node \<times> 'w) cxx option" where
  "run_jobs exch req [] resp n w = Some (Inr (resp, n, w))"
| "run_jobs exch req (Forward_job # jobs) resp n w =
     (case forward_loop exch req resp n w of
        None \<Rightarrow> None
      | Some (Inl e) \<Rightarrow> Some (Inl e)
      | Some (Inr (resp1, n1, w1)) \<Rightarrow> run_jobs exch req jobs resp1 n1 w1)"
| "run_jobs exch req (Update_job t # jobs) resp n w =
     (case exch t n w of Inl e \<Rightarrow> Some (Inl e) | Inr _ \<Rightarrow> Some (Inl Undefined_behaviour))"

text \<open>A request with all its series; the framework sends the reply after it.\<close>

definition drccp_serve ::
  "'w drccp_exchange \<Rightarrow> drccp_message \<Rightarrow> 'w unit_node \<Rightarrow> 'w \<Rightarrow> (drccp_message option \<times> 'w unit_node \<times> 'w) cxx option" where
  "drccp_serve exch req n w =
     (case drccp_process req n w of
        Inl e \<Rightarrow> Some (Inl e)
      | Inr (reply, jobs, n1, w1) \<Rightarrow>
          (case reply of
             None \<Rightarrow> Some (Inr (None, n1, w1))
           | Some resp \<Rightarrow>
               map_option (map_sum (\<lambda>e. e) (\<lambda>(resp1, n2, w2). (Some resp1, n2, w2))) (run_jobs exch req jobs resp n1 w1)))"

section \<open>Joining and submitting\<close>

definition meet_task :: "'w unit_node \<Rightarrow> dr_endpoint \<Rightarrow> drccp_task" where
  "meet_task n boot =
     \<lparr>dk_tls = un_ssl n, dk_target = boot, dk_retry = 1,
      dk_req = Drccp_settype (setup_dest_req boot (setup_header_req n Drccp_new)) (report_code MEET)\<rparr>"

definition drccp_signin ::
  "'w drccp_exchange \<Rightarrow> string \<Rightarrow> string \<Rightarrow> int \<Rightarrow> 'w unit_node \<Rightarrow> 'w \<Rightarrow> (int \<times> 'w unit_node \<times> 'w) cxx" where
  "drccp_signin exch cluster_tag boot_addr boot_port n w =
     (let n1 = n\<lparr>un_tag := cluster_tag, un_client_addr := un_addr n, un_client_port := un_port n\<rparr>
      in cxx_bind (exch (meet_task n1 (boot_addr, boot_port)) n1 w) (\<lambda>(success, resp, n2, w2).
        if \<not> success \<or> dm_type resp = report_code VERSION then Inr (-1, n2\<lparr>un_tag := []\<rparr>, w2)
        else Inr (0, n2\<lparr>un_shares := foldl (\<lambda>m (e, s). smap_insert m e s) (un_shares n2) (dm_shares resp)\<rparr>, w2)))"

definition local_task :: "'w unit_node \<Rightarrow> string \<Rightarrow> drccp_task" where
  "local_task n payload =
     \<lparr>dk_tls = un_client_ssl n, dk_target = un_self n, dk_retry = 1,
      dk_req = Drccp_settype (setup_raw_req payload (setup_dest_req (un_self n) (setup_header_req n Drccp_new)))
        (report_code LOCAL)\<rparr>"

definition call_result :: "'w result_callback option \<Rightarrow> string \<Rightarrow> 'w \<Rightarrow> 'w cxx" where
  "call_result callback s w = (case callback of None \<Rightarrow> Inr w | Some g \<Rightarrow> g s w)"

text \<open>
  \<^verbatim>\<open>submit\<close> with the callback that runs when the reply is there; after a failure that calls the result
  function twice.
\<close>

definition drccp_submit ::
  "'w drccp_exchange \<Rightarrow> string \<Rightarrow> string \<Rightarrow> int \<Rightarrow> 'w unit_node \<Rightarrow> 'w \<Rightarrow> (int \<times> 'w unit_node \<times> 'w) cxx" where
  "drccp_submit exch payload origin_addr origin_port n w =
     (let n1 = n\<lparr>un_client_addr := origin_addr, un_client_port := origin_port\<rparr>
      in cxx_bind (exch (local_task n1 payload) n1 w) (\<lambda>(success, resp, n2, w2).
         cxx_bind (if \<not> success \<or> dm_type resp = report_code VERSION then call_result (un_client_result n2) [] w2 else Inr w2)
           (\<lambda>w3. cxx_bind (call_result (un_client_result n2) (dm_raw resp) w3) (\<lambda>w4. Inr (0, n2, w4)))))"

section \<open>Lemmas\<close>

lemmas drccp_setters = Drccp_setsrc_def Drccp_setdest_def Drccp_settag_def Drccp_settype_def Drccp_setversion_def
  Drccp_setraw_def setup_header_resp_def setup_dest_resp_def setup_header_req_def setup_dest_req_def setup_raw_req_def

lemma map_of_foldl_same:
  "map_of (foldl (\<lambda>m c. umap_emplace m c e) cycle cs) k =
     (case map_of cycle k of Some v \<Rightarrow> Some v | None \<Rightarrow> if k \<in> set cs then Some e else None)"
  by (induction cs arbitrary: cycle) (auto simp: map_of_umap_emplace split: option.splits)

lemma hash_cycle_positions:
  "hash_cycle shares cycle = Inr cycle' \<Longrightarrow> map_of cycle' k = Some e \<Longrightarrow>
     map_of cycle k = Some e \<or>
     (\<exists>share limit. (e, share) \<in> set shares \<and> to_int (fl_mul round32 share (Fin 4)) = Inr limit \<and> k \<in> set (unit_positions e limit))"
proof (induction shares cycle rule: hash_cycle.induct)
  case (2 endpoint share shares cycle)
  from 2(2) obtain limit where l: "to_int (fl_mul round32 share (Fin 4)) = Inr limit"
    and r: "hash_cycle shares (foldl (\<lambda>m c. umap_emplace m c endpoint) cycle (unit_positions endpoint limit)) = Inr cycle'"
    by auto
  from 2(1) [OF r 2(3)] l show ?case
    by (auto simp: map_of_foldl_same split: option.splits if_splits)
qed simp

text \<open>The only unit a unit knows is itself.\<close>

definition alone :: "'w unit_node \<Rightarrow> bool" where
  "alone n \<longleftrightarrow> (\<exists>x. un_shares n = [(un_self n, x)])"

lemma alone_others [simp]: "alone n \<Longrightarrow> other_units n = []"
  by (auto simp: alone_def other_units_def)

lemma alone_select:
  assumes "alone n" and "select_best_target n src = Inr e"
  shows "e = un_self n"
proof -
  from assms(2) obtain cycle where c: "hash_cycle (un_shares n) [] = Inr cycle"
    and e: "e = (case map_of cycle (hashcode src) of Some e \<Rightarrow> e | None \<Rightarrow> un_self n)"
    by (auto simp: select_best_target_def)
  from c assms(1) hash_cycle_positions [OF c] show ?thesis
    unfolding e by (auto simp: alone_def split: option.splits)
qed

lemma credit_alone: "alone n \<Longrightarrow> alone (credit (un_self n) n)"
  by (auto simp: alone_def credit_def)

text \<open>For the witnesses: a unit that turns its jobs around and writes down what it reports.\<close>

definition sample_unit :: "string list unit_node" where
  "sample_unit =
     \<lparr>un_server = True, un_addr = ''u1'', un_family = 2, un_port = 7777, un_tag = ''c'',
      un_shares = [((''u1'', 7777), Fin 1)], un_ssl = False, un_payload = Some (\<lambda>s w. Inr (rev s, w)),
      un_result = Some (\<lambda>s w. Inr (w @ [s])), un_cert = [], un_key = [], un_ca = [],
      un_client_result = Some (\<lambda>s w. Inr (w @ [s])), un_client_addr = [], un_client_port = 0, un_client_ssl = False\<rparr>"

lemma four_shares: "to_int (fl_mul round32 (Fin 1) (Fin 4)) = Inr 4"
  by (simp add: round32_def round_ieee_def Let_def round_even_def trunc_rat_def eval_nat_numeral power_int_def)

section \<open>Properties\<close>

text \<open>
  C27: the unit a job is given to is the unit that received it, unless the hash of the source's address is
  exactly one of the positions of another unit on the cycle: the cycle is not searched for the next
  position.
\<close>

theorem target_by_exact_hash:
  assumes "select_best_target n src = Inr e" and "e \<noteq> un_self n"
  shows "\<exists>share limit i. (e, share) \<in> set (un_shares n) \<and> to_int (fl_mul round32 share (Fin 4)) = Inr limit \<and>
    i < nat limit \<and> hashcode src = hashcode e + ((-1) div of_int limit) * of_nat i"
proof -
  from assms(1) obtain cycle where c: "hash_cycle (un_shares n) [] = Inr cycle"
    and e: "e = (case map_of cycle (hashcode src) of Some e \<Rightarrow> e | None \<Rightarrow> un_self n)"
    by (auto simp: select_best_target_def)
  with assms(2) have "map_of cycle (hashcode src) = Some e" by (auto split: option.splits)
  from hash_cycle_positions [OF c this] obtain share limit where
    "(e, share) \<in> set (un_shares n)" "to_int (fl_mul round32 share (Fin 4)) = Inr limit"
    "hashcode src \<in> set (unit_positions e limit)" by auto
  moreover from this(3) obtain i where "i < nat limit" "hashcode src = hashcode e + ((-1) div of_int limit) * of_nat i"
    unfolding unit_positions_def by (auto simp only: set_map set_upt image_iff atLeastLessThan_iff)
  ultimately show ?thesis by blast
qed

lemma drccp_answer_cases:
  assumes "drccp_answer req resp n w = Inr (resp1, jobs, n1, w1)"
  obtains
    (greeted) n0 where "dm_type req = report_code MEET \<or> dm_type req = report_code HELLO"
      "n0 = (if dm_type req = report_code MEET then n\<lparr>un_shares := smap_insert (un_shares n) (dm_src req) (Fin 1)\<rparr> else n)"
      "update_shares (dm_src req) (dm_shares req) n0 = Inr n1" "resp1 = Drccp_settype resp (report_code ALIVE)" "jobs = []"
  | (job) "dm_type req = report_code LOCAL" "resp1 = resp" "jobs = [Forward_job]" "n1 = n"
  | (computed) out where "dm_type req = report_code FORWARD"
      "resp1 = Drccp_setraw (Drccp_settype resp (report_code RESULT)) out" "jobs = []" "n1 = credit (un_self n) n"
  | (silent) "dm_type req \<noteq> report_code MEET" "resp1 = resp" "jobs = []" "n1 = n"
proof -
  consider "dm_type req = report_code MEET \<or> dm_type req = report_code HELLO"
    | "dm_type req = report_code LOCAL" | "dm_type req = report_code FORWARD"
    | "dm_type req \<noteq> report_code MEET \<and> dm_type req \<noteq> report_code HELLO \<and> dm_type req \<noteq> report_code LOCAL \<and>
       dm_type req \<noteq> report_code FORWARD" by blast
  then show thesis
  proof cases
    case 1
    with assms show thesis unfolding drccp_answer_def if_P [OF 1] by (intro greeted [OF 1 refl]) auto
  next
    case 2
    with assms show thesis by (intro job) (simp_all add: drccp_answer_def)
  next
    case 3
    with assms obtain f out w' where "un_payload n = Some f" "f (dm_raw req) w = Inr (out, w')"
      "Inr (Drccp_setraw (Drccp_settype resp (report_code RESULT)) out, [], credit (un_self n) n, w') = Inr (resp1, jobs, n1, w1)"
      by (auto simp: drccp_answer_def split: option.splits)
    then show thesis by (intro computed [OF 3, of out]) simp_all
  next
    case 4
    with assms show thesis by (intro silent) (simp_all add: drccp_answer_def)
  qed
qed

lemma update_shares_none:
  "update_shares peer [] n = Inr n' \<longleftrightarrow> n' = n \<and> un_self n \<in> fst ` set (un_shares n)"
  by (auto simp: update_shares_def Let_def share_of_def simp flip: dom_map_of_conv_image_fst split: option.splits)

lemma update_shares_self: "update_shares peer shares n = Inr n' \<Longrightarrow> un_self n' = un_self n"
  by (auto simp: update_shares_def Let_def)

lemma drccp_answer_self: "drccp_answer req resp n w = Inr (resp1, jobs, n1, w1) \<Longrightarrow> un_self n1 = un_self n"
  by (erule drccp_answer_cases) (auto dest: update_shares_self simp: credit_def split: if_splits)

lemma greet_others_result:
  fixes n n' :: "'w unit_node"
  assumes "greet_others req (resp, jobs, n, w) = Inr (reply, jobs', n', w')"
  shows "reply = Some resp \<and> w' = w \<and> un_shares n' = un_shares n \<and>
    (jobs' = jobs \<or> (\<exists>n2 :: 'w unit_node. jobs' = jobs @ map (\<lambda>e. Update_job (update_task n2 e)) (other_units n2)))"
proof (cases "dm_type req = report_code HELLO \<or> other_units n = []")
  case True
  with assms show ?thesis by (simp add: greet_others_def)
next
  case False
  let ?n = "n\<lparr>un_client_addr := un_addr n, un_client_port := un_port n\<rparr>"
  from assms have "reply = Some resp" "jobs' = jobs @ map (\<lambda>e. Update_job (update_task ?n e)) (other_units ?n)" "n' = ?n" "w' = w"
    unfolding greet_others_def prod.case if_not_P [OF False] Let_def by auto
  then show ?thesis by auto
qed

lemma drccp_process_cases:
  fixes n n' :: "'w unit_node"
  assumes "drccp_process req n w = Inr (reply, jobs, n', w')"
  obtains
    (refused) "reply = None" "jobs = []" "n' = n" "dm_cluster req \<noteq> un_tag n \<or> dm_type req = report_code UNKNOWN"
  | (version) "reply = Some (Drccp_settype (setup_dest_resp (dm_src req) (setup_header_resp n Drccp_new)) (report_code VERSION))"
      "jobs = []" "n' = n" "dm_version req \<noteq> 3"
  | (answered) resp1 jobs1 n1 where "dm_cluster req = un_tag n" "dm_version req = 3"
      "drccp_answer req (setup_dest_resp (dm_src req) (setup_header_resp n Drccp_new)) n w = Inr (resp1, jobs1, n1, w')"
      "reply = Some resp1" "un_shares n' = un_shares n1"
      "jobs = jobs1 \<or> (\<exists>n2 :: 'w unit_node. jobs = jobs1 @ map (\<lambda>e. Update_job (update_task n2 e)) (other_units n2))"
proof (cases "dm_cluster req \<noteq> un_tag n \<or> dm_type req = report_code UNKNOWN")
  case True
  with assms show thesis by (intro refused) (auto simp: drccp_process_def split: if_splits)
next
  case False
  show thesis
  proof (cases "dm_version req = 3")
    case True
    from assms False True obtain x where x: "drccp_answer req (setup_dest_resp (dm_src req) (setup_header_resp n Drccp_new)) n w = Inr x"
      and r: "greet_others req x = Inr (reply, jobs, n', w')"
      by (auto simp: drccp_process_def Let_def)
    obtain resp1 jobs1 n1 w1 where x1: "x = (resp1, jobs1, n1, w1)" by (cases x)
    from greet_others_result [OF r [unfolded x1]] x x1 False True show thesis by (intro answered) auto
  next
    case ver: False
    with assms False show thesis by (intro version) (auto simp: drccp_process_def Let_def)
  qed
qed

theorem target_by_exact_hash_witness:
  "\<exists>share limit i. ((''a'', 1), share) \<in> set [((''a'', 1), Fin 1), ((''u1'', 7777), Fin 1)] \<and>
     to_int (fl_mul round32 share (Fin 4)) = Inr limit \<and> i < nat limit \<and>
     hashcode (''a'', 1) = hashcode (''a'', 1) + ((-1) div of_int limit) * of_nat i"
proof -
  let ?n = "sample_unit\<lparr>un_shares := [((''a'', 1), Fin 1), ((''u1'', 7777), Fin 1)]\<rparr>"
  have pos: "hashcode (''a'', 1) \<in> set (unit_positions (''a'', 1) 4)"
    by (auto simp: unit_positions_def image_iff intro!: bexI [of _ 0])
  have "select_best_target ?n (''a'', 1) = Inr (''a'', 1)"
    using pos by (simp add: select_best_target_def four_shares map_of_foldl_same del: to_int.simps fl_mul.simps)
  from target_by_exact_hash [OF this] show ?thesis by (simp add: sample_unit_def)
qed

text \<open>What a message of the unit carries of its shares: nothing.\<close>

lemma fresh_no_shares: "dm_shares (setup_dest_resp e (setup_header_resp n Drccp_new)) = []" "dm_shares (dk_req (update_task n e)) = []"
  by (simp_all add: drccp_setters Drccp_new_def update_task_def)

lemma set_no_shares [simp]: "dm_shares (Drccp_settype m t) = dm_shares m" "dm_shares (Drccp_setraw m r) = dm_shares m"
  by (simp_all add: drccp_setters)

lemma process_no_shares:
  assumes "drccp_process req n w = Inr (reply, jobs, n', w')"
  shows "(\<forall>resp. reply = Some resp \<longrightarrow> dm_shares resp = []) \<and>
    (\<forall>t. Update_job t \<in> set jobs \<longrightarrow> dm_shares (dk_req t) = [])"
  using assms
proof (cases rule: drccp_process_cases)
  case (answered resp1 jobs1 n1)
  from answered(3) have "dm_shares resp1 = [] \<and> (jobs1 = [] \<or> jobs1 = [Forward_job])"
    by (cases rule: drccp_answer_cases) (simp_all add: fresh_no_shares)
  with answered(4,6) show ?thesis by (auto simp: fresh_no_shares)
qed (simp_all add: fresh_no_shares)

lemma process_keys:
  assumes "drccp_process req n w = Inr (reply, jobs, n', w')" and "dm_shares req = []"
    and "un_self n \<in> fst ` set (un_shares n)"
  shows "fst ` set (un_shares n') =
    fst ` set (un_shares n) \<union>
      (if dm_cluster req = un_tag n \<and> dm_version req = 3 \<and> dm_type req = report_code MEET then {dm_src req} else {})"
  using assms(1)
proof (cases rule: drccp_process_cases)
  case (answered resp1 jobs1 n1)
  from answered(3) have "fst ` set (un_shares n1) =
      fst ` set (un_shares n) \<union> (if dm_type req = report_code MEET then {dm_src req} else {})"
  proof (cases rule: drccp_answer_cases)
    case (greeted n0)
    then show ?thesis using assms(2) by (simp add: update_shares_none split: if_splits)
  next
    case (computed out)
    then show ?thesis using assms(3) by (simp add: credit_def insert_absorb)
  qed simp_all
  with answered show ?thesis by simp
qed auto

text \<open>
  C8: joining does not make the units known to each other. The greeting of a unit that joins carries the
  address of the unit it joins, as the joining unit wrote it, instead of its own, and no shares; so the
  unit that is joined adds that address and not the new unit's, it answers without shares, and the
  joining unit, whose call returns success, knows after it the units it knew before.
\<close>

theorem joining_registers_nobody:
  assumes proc: "drccp_process (Drccp_received (dk_req (meet_task (j\<lparr>un_tag := tag, un_client_addr := un_addr j,
      un_client_port := un_port j\<rparr>) boot))) b w = Inr (Some resp, jobs, b', w')"
    and tag: "un_tag b = tag" and self: "un_self b \<in> fst ` set (un_shares b)"
    and exch: "exch (meet_task (j\<lparr>un_tag := tag, un_client_addr := un_addr j, un_client_port := un_port j\<rparr>) boot)
        (j\<lparr>un_tag := tag, un_client_addr := un_addr j, un_client_port := un_port j\<rparr>) v =
      Inr (True, Drccp_received resp, j\<lparr>un_tag := tag, un_client_addr := un_addr j, un_client_port := un_port j\<rparr>, v')"
  shows "fst ` set (un_shares b') = insert boot (fst ` set (un_shares b)) \<and>
    (un_self j \<in> fst ` set (un_shares b') \<longleftrightarrow> un_self j \<in> fst ` set (un_shares b) \<or> un_self j = boot) \<and>
    (\<exists>j'. drccp_signin exch tag (fst boot) (snd boot) j v = Inr (0, j', v') \<and> un_shares j' = un_shares j)"
proof -
  let ?j = "j\<lparr>un_tag := tag, un_client_addr := un_addr j, un_client_port := un_port j\<rparr>"
  let ?req = "Drccp_received (dk_req (meet_task ?j boot))"
  have req: "dm_shares ?req = []" "dm_src ?req = boot" "dm_cluster ?req = tag" "dm_version ?req = 3"
    "dm_type ?req = report_code MEET"
    by (simp_all add: Drccp_received_def meet_task_def drccp_setters Drccp_new_def)
  have keys: "fst ` set (un_shares b') = insert boot (fst ` set (un_shares b))"
    using process_keys [OF proc req(1) self] tag unfolding req by simp
  have resp: "dm_shares resp = []" using process_no_shares [OF proc] by simp
  have "dm_type resp = report_code ALIVE"
    using proc
  proof (cases rule: drccp_process_cases)
    case (answered resp1 jobs1 n1)
    from answered(3) have "dm_type resp1 = report_code ALIVE"
      by (cases rule: drccp_answer_cases) (simp_all add: req Drccp_settype_def)
    with answered(4) show ?thesis by simp
  qed (use req tag in simp_all)
  then have "drccp_signin exch tag (fst boot) (snd boot) j v = Inr (0, ?j, v')"
    using resp exch by (simp add: drccp_signin_def Let_def Drccp_received_def)
  with keys show ?thesis by auto
qed

theorem joining_registers_nobody_witness:
  "\<exists>b'. un_self (sample_unit\<lparr>un_addr := ''u2''\<rparr>) \<notin> fst ` set (un_shares b') \<and>
    drccp_process (Drccp_received (dk_req (meet_task (sample_unit\<lparr>un_addr := ''u2'', un_tag := ''c'', un_client_addr := ''u2'',
      un_client_port := 7777\<rparr>) (''u1'', 7777)))) sample_unit [] = Inr (Some (Drccp_settype (setup_dest_resp (''u1'', 7777)
        (setup_header_resp sample_unit Drccp_new)) (report_code ALIVE)), [], b', [])"
proof -
  let ?j = "sample_unit\<lparr>un_addr := ''u2''\<rparr>"
  let ?j1 = "?j\<lparr>un_tag := ''c'', un_client_addr := un_addr ?j, un_client_port := un_port ?j\<rparr>"
  let ?req = "Drccp_received (dk_req (meet_task ?j1 (''u1'', 7777)))"
  let ?resp = "Drccp_settype (setup_dest_resp (''u1'', 7777) (setup_header_resp sample_unit Drccp_new)) (report_code ALIVE)"
  have req: "dm_shares ?req = []" "dm_src ?req = (''u1'', 7777)" "dm_cluster ?req = ''c''" "dm_version ?req = 3"
    "dm_type ?req = report_code MEET"
    by (simp_all add: Drccp_received_def meet_task_def drccp_setters Drccp_new_def)
  have u: "un_tag sample_unit = ''c''" "un_self sample_unit = (''u1'', 7777)" "un_shares sample_unit = [((''u1'', 7777), Fin 1)]"
    by (simp_all add: sample_unit_def)
  have proc: "drccp_process ?req sample_unit [] = Inr (Some ?resp, [], sample_unit, [])"
  proof -
    have others: "other_units sample_unit = []" by (simp add: other_units_def u)
    have "update_shares (''u1'', 7777) [] sample_unit = Inr sample_unit" by (simp add: update_shares_none u)
    moreover have "sample_unit\<lparr>un_shares := smap_insert (un_shares sample_unit) (''u1'', 7777) (Fin 1)\<rparr> = sample_unit"
      by (simp add: sample_unit_def)
    ultimately show ?thesis
      unfolding drccp_process_def drccp_answer_def greet_others_def Let_def req
      by (simp add: u(1) others)
  qed
  have "un_self sample_unit \<in> fst ` set (un_shares sample_unit)" by (simp add: u)
  from joining_registers_nobody [OF proc u(1) this, where exch = "\<lambda>t n w. Inr (True, Drccp_received ?resp, n, w)" and v = "[]", OF refl]
  have "un_self ?j \<notin> fst ` set (un_shares sample_unit)" by (simp add: sample_unit_def)
  then show ?thesis using proc by (intro exI [of _ sample_unit]) (simp add: sample_unit_def)
qed

lemma forward_loop_failing:
  assumes "forward_loop exch req resp n w = Some y"
    and "\<forall>t n w. \<exists>r n' w'. exch t n w = Inr (False, r, n', w')"
  shows "\<exists>e. y = Inl e"
  using assms
proof (induction exch req resp n w y rule: forward_loop.raw_induct [rotated, consumes 1, case_names step])
  case (step f exch req resp n w y)
  then show ?case
  proof (cases "select_best_target n (dm_src req)")
    case (Inr target)
    obtain r n' w' where "exch (forward_task n (dm_raw req) target) n w = Inr (False, r, n', w')"
      using step(3) by blast
    with step Inr show ?thesis by fastforce
  qed (use step in auto)
qed

text \<open>
  C28: what cannot be forwarded is never answered: if every attempt to reach a unit fails, the repeater of
  a job gives no reply, whatever the shares and the choice of the target become.
\<close>

theorem unreachable_never_answers:
  assumes "\<forall>t n w. \<exists>r n' w'. exch t n w = Inr (False, r, n', w')"
  shows "forward_loop exch req resp n w \<noteq> Some (Inr y)"
  using forward_loop_failing [of exch req resp n w "Inr y"] assms by auto

theorem unreachable_never_answers_witness:
  "forward_loop (\<lambda>t n w. Inr (False, Drccp_new, n, w)) Drccp_new Drccp_new sample_unit [] \<noteq> Some (Inr (Drccp_new, sample_unit, []))"
  by (rule unreachable_never_answers) blast

end
