(* ===== verification/Computation_Infer.thy ===== *)
theory Computation_Infer
  imports Cluster_Tasks Computation_Datatransfer Computation_Engine Drccp_Server Cxx_Numbers
begin

text \<open>
  The computing side of \<^verbatim>\<open>computation/infer/infer.cc\<close>: the messages of a job, what a unit does when it computes a
  job (get the input, pull the engine, load it, compute, pack the result) and when it has forwarded one, and
  the manager of the units of a process. The network, the files, the dynamic linker and the protobuf
  serialisers are parameters; the global variables and the task table are part of the world.
\<close>

section \<open>Messages\<close>

text \<open>\<^verbatim>\<open>CopyFrom\<close> makes the messages equal, \<^verbatim>\<open>Swap\<close> exchanges them; a moved-from message is the fresh one.\<close>

definition SubmitRequest_copy :: "submit_request \<Rightarrow> submit_request" where
  "SubmitRequest_copy other = other"

definition SubmitRequest_move :: "submit_request \<Rightarrow> submit_request \<times> submit_request" where
  "SubmitRequest_move other = (other, SubmitRequest_new)"

definition SubmitRequest_move_assign :: "submit_request \<Rightarrow> submit_request \<Rightarrow> submit_request \<times> submit_request" where
  "SubmitRequest_move_assign this other = (other, this)"

definition SubmitRequest_get_input_path :: "submit_request \<Rightarrow> string" where
  "SubmitRequest_get_input_path q = (case sq_input_path q of None \<Rightarrow> [] | Some s \<Rightarrow> s)"

definition SubmitRequest_get_input_data :: "submit_request \<Rightarrow> string" where
  "SubmitRequest_get_input_data q = (case sq_input_data q of None \<Rightarrow> [] | Some s \<Rightarrow> s)"

definition SubmitResponse_new :: submit_response where
  "SubmitResponse_new = \<lparr>sr_taskid = 0, sr_times = 0, sr_result = [], sr_output_path = [], sr_directory_policy = 0,
     sr_empty_policy = 0\<rparr>"

definition SubmitResponse_copy :: "submit_response \<Rightarrow> submit_response" where
  "SubmitResponse_copy other = other"

definition SubmitResponse_move :: "submit_response \<Rightarrow> submit_response \<times> submit_response" where
  "SubmitResponse_move other = (other, SubmitResponse_new)"

definition SubmitResponse_move_assign :: "submit_response \<Rightarrow> submit_response \<Rightarrow> submit_response \<times> submit_response" where
  "SubmitResponse_move_assign this other = (other, this)"

definition SubmitResponse_set_taskid :: "u32 \<Rightarrow> submit_response \<Rightarrow> submit_response" where
  "SubmitResponse_set_taskid taskid r = r\<lparr>sr_taskid := taskid\<rparr>"

definition SubmitResponse_set_times :: "u32 \<Rightarrow> submit_response \<Rightarrow> submit_response" where
  "SubmitResponse_set_times n r = r\<lparr>sr_times := n\<rparr>"

definition SubmitResponse_set_result :: "string \<Rightarrow> submit_response \<Rightarrow> submit_response" where
  "SubmitResponse_set_result result r = r\<lparr>sr_result := result\<rparr>"

definition SubmitResponse_set_output :: "string \<Rightarrow> u32 \<Rightarrow> u32 \<Rightarrow> submit_response \<Rightarrow> submit_response" where
  "SubmitResponse_set_output output_path directory_policy empty_policy r =
     r\<lparr>sr_output_path := output_path, sr_directory_policy := directory_policy, sr_empty_policy := empty_policy\<rparr>"

section \<open>Addresses in paths\<close>

text \<open>
  A path like \<^verbatim>\<open>jxtd://host:port/name\<close> is cut at colons: the protocol, then the text three characters behind
  its colon, up to the next colon the host, and the port with all behind it. Without a colon \<^verbatim>\<open>pos + 3\<close>
  wraps around to 2, and \<^verbatim>\<open>position + 1\<close> to 0.
\<close>

definition proto_of :: "string \<Rightarrow> string" where
  "proto_of path = (case find_first_of path '':'' of None \<Rightarrow> path | Some pos \<Rightarrow> take pos path)"

definition behind_proto :: "string \<Rightarrow> string" where
  "behind_proto path = (case find_first_of path '':'' of None \<Rightarrow> drop 2 path | Some pos \<Rightarrow> drop (pos + 3) path)"

definition split_host :: "string \<Rightarrow> string \<times> string" where
  "split_host s = (case find_first_of s '':'' of None \<Rightarrow> (s, s) | Some pos \<Rightarrow> (take pos s, drop (pos + 1) s))"

section \<open>The outside world\<close>

text \<open>The PUT request for a result: redirects, retries, address, request line, body.\<close>

record http_put =
  hp_url :: string
  hp_redirect :: nat
  hp_retry :: nat
  hp_uri :: string
  hp_method :: string
  hp_body :: string

record 'w infer_env =
  ie_parse_req :: "string \<Rightarrow> submit_request"
  ie_dump_resp :: "submit_response \<Rightarrow> string"
  ie_parse_resp :: "string \<Rightarrow> submit_response"
  ie_req0 :: dt_request
  ie_type0 :: u32
  ie_exchange :: "data_task \<Rightarrow> 'w \<Rightarrow> dt_response option \<times> 'w"
  ie_files :: "'w cfiles"
  ie_http :: "http_put \<Rightarrow> 'w \<Rightarrow> 'w"
  ie_loader :: "'w loader"
  ie_remove_all :: "string \<Rightarrow> 'w \<Rightarrow> 'w cxx"
  ie_storage :: "'w \<Rightarrow> data_side"
  ie_set_storage :: "data_side \<Rightarrow> 'w \<Rightarrow> 'w"

definition set_storage_datatransfer :: "'w infer_env \<Rightarrow> string \<Rightarrow> int \<Rightarrow> bool \<Rightarrow> 'w \<Rightarrow> 'w" where
  "set_storage_datatransfer env url port ssl = ie_set_storage env \<lparr>sd_addr = url, sd_port = port, sd_ssl = ssl\<rparr>"

text \<open>What \<^verbatim>\<open>std::bind\<close> fixes of the callbacks.\<close>

record bound_client =
  bc_token :: string
  bc_url :: string
  bc_port :: int
  bc_ssl :: bool

definition bound_side :: "bound_client \<Rightarrow> data_side" where
  "bound_side c = \<lparr>sd_addr = bc_url c, sd_port = bc_port c, sd_ssl = bc_ssl c\<rparr>"

text \<open>A data transfer task that is started and waited for, with its callback.\<close>

definition transfer ::
  "'w infer_env \<Rightarrow> data_task \<Rightarrow> 'w \<Rightarrow> (string list \<times> (string \<times> string) list \<times> 'w) cxx" where
  "transfer env task w = (case ie_exchange env task w of (reply, w1) \<Rightarrow> call_back_t (ie_files env) [] [] reply w1)"

section \<open>A result\<close>

definition result_context :: "'w infer_env \<Rightarrow> bound_client \<Rightarrow> submit_response \<Rightarrow> data_request_ctx" where
  "result_context env c resp =
     \<lparr>dc_src = ''jxtd://'' @ bc_url c @ '':'' @ int_to_string (bc_port c), dc_dest = sr_output_path resp,
      dc_token = bc_token c, dc_direction = 1,
      dc_adtsrcs = [(Adtsrc_new (ie_type0 env))\<lparr>ad_taskid := sr_taskid resp, ad_type := 1, ad_binary := sr_result resp\<rparr>]\<rparr>"

definition result_put :: "bound_client \<Rightarrow> submit_response \<Rightarrow> http_put" where
  "result_put c resp =
     \<lparr>hp_url = sr_output_path resp, hp_redirect = 5, hp_retry = 2,
      hp_uri = proto_of (sr_output_path resp) @ ''://'' @ bc_url c @ '':'' @ int_to_string (bc_port c) @ ''/'',
      hp_method = ''PUT'', hp_body = sr_result resp\<rparr>"

text \<open>
  The two vectors the callback of the transfer writes to are gone when the task is started: they are
  local to the block that creates it. A reply with an engine or binary data is appended to them.
\<close>

definition appended :: "dtsrc \<Rightarrow> bool" where
  "appended d \<longleftrightarrow>
     (let master = dt_master d in
      ad_type master = 0 \<and> fst (ad_engineattr master) \<noteq> [] \<and> snd (ad_engineattr master) \<noteq> [] \<and> ad_binary master \<noteq> [] \<or>
      ad_type master = 2)"

definition transfer_result :: "'w infer_env \<Rightarrow> data_task \<Rightarrow> 'w \<Rightarrow> 'w cxx" where
  "transfer_result env task w =
     (case ie_exchange env task w of (reply, w1) \<Rightarrow>
        if (\<exists>resp. reply = Some resp \<and> list_ex appended (dr_dtsrcs resp)) then Inl Undefined_behaviour
        else cxx_bind (call_back_t (ie_files env) [] [] reply w1) (\<lambda>(_, _, w2). Inr w2))"

definition drccp_on_server_receive_result :: "'w infer_env \<Rightarrow> bound_client \<Rightarrow> string \<Rightarrow> 'w \<Rightarrow> 'w cxx" where
  "drccp_on_server_receive_result env c result w =
     (let resp = ie_parse_resp env result; path = sr_output_path resp
      in if path = [] then Inr w
         else if proto_of path = ''jxtd'' then
           (case split_host (behind_proto path) of (host, rest) \<Rightarrow>
              cxx_bind (stoi rest) (\<lambda>port.
                transfer_result env (DataClient_create (bound_side c) \<lparr>sd_addr = host, sd_port = port, sd_ssl = bc_ssl c\<rparr>
                  (result_context env c resp) (ie_req0 env)) w))
         else if proto_of path = ''http'' \<or> proto_of path = ''https'' then Inr (ie_http env (result_put c resp) w)
         else Inr w)"

section \<open>A job\<close>

text \<open>
  The input: \<open>None\<close> is the early return. The data of a \<^verbatim>\<open>jxtd\<close> path are read with \<^verbatim>\<open>front()\<close> before the
  transfer has been started, from an empty vector; nothing is fetched for \<^verbatim>\<open>http\<close>.
\<close>

definition payload_input :: "submit_request \<Rightarrow> tensor option cxx" where
  "payload_input q =
     (let path = SubmitRequest_get_input_path q; data = SubmitRequest_get_input_data q
      in if path = [] then cxx_bind (Tensor_set_buffer (Some data) (length data) Tensor_new) (\<lambda>t. Inr (Some t))
         else if proto_of path = ''jxtd'' then
           cxx_bind (stoi (snd (split_host (behind_proto path)))) (\<lambda>_. Inl Undefined_behaviour)
         else if proto_of path = ''http'' \<or> proto_of path = ''https'' then Inr (Some Tensor_new)
         else Inr None)"

text \<open>The request for the engine of the task.\<close>

definition engine_task :: "'w infer_env \<Rightarrow> bound_client \<Rightarrow> submit_request \<Rightarrow> 'w \<Rightarrow> data_task" where
  "engine_task env c q w =
     DataClient_create (bound_side c) (ie_storage env w)
       \<lparr>dc_src = ''jxtd://'' @ bc_url c @ '':'' @ int_to_string (bc_port c), dc_dest = SubmitRequest_get_input_path q,
        dc_token = bc_token c, dc_direction = 0,
        dc_adtsrcs = [(Adtsrc_new (ie_type0 env))\<lparr>ad_taskid := sq_taskid q, ad_type := 0\<rparr>]\<rparr>
       (ie_req0 env)"

text \<open>
  The engine is loaded from the directory the transfer has written to, runs, and is unloaded; what its
  three calls return is ignored. \<^verbatim>\<open>dlclose\<close> of a null handle is undefined. \<open>None\<close> is a call that does not end.
\<close>

definition pulled_file :: "u32 \<Rightarrow> string \<times> string \<Rightarrow> string" where
  "pulled_file taskid names = c_str (task_dir taskid @ engine_file_name (fst names) (snd names))"

definition pulled_symbol :: "string \<times> string \<Rightarrow> string" where
  "pulled_symbol names = c_str (''generate_'' @ fst names @ ''_'' @ snd names)"

definition close_pulled ::
  "'w infer_env \<Rightarrow> u32 \<Rightarrow> string \<times> string \<Rightarrow> tensor \<Rightarrow> 'w \<Rightarrow> (tensor \<times> 'w) cxx" where
  "close_pulled env taskid names out w =
     cxx_bind (ie_remove_all env (''computation/Task_'' @ to_string (unat taskid))
         (snd (ld_close (ie_loader env) (pulled_file taskid names) w)))
       (\<lambda>w1. Inr (out, w1))"

definition run_pulled ::
  "'w infer_env \<Rightarrow> u32 \<Rightarrow> string \<times> string \<Rightarrow> tensor \<Rightarrow> 'w \<Rightarrow> (tensor \<times> 'w) cxx option" where
  "run_pulled env taskid names inp w =
     (case ld_open (ie_loader env) (pulled_file taskid names) w of (opened, w1) \<Rightarrow>
        if \<not> opened then Some (Inl Undefined_behaviour)
        else case ld_sym (ie_loader env) (pulled_file taskid names) (pulled_symbol names) w1 of
          None \<Rightarrow> Some (close_pulled env taskid names Tensor_new w1)
        | Some gen \<Rightarrow> (case gen w1 of
            (None, w2) \<Rightarrow> Some (close_pulled env taskid names Tensor_new w2)
          | (Some e, w2) \<Rightarrow> Option.bind (init_env (ie_loader env) e w2) (\<lambda>(_, e1, w3).
              case compute (ie_loader env) e1 inp Tensor_new w3 of (_, e2, out, w4) \<Rightarrow>
                case post_env (ie_loader env) e2 w4 of (_, e3, w5) \<Rightarrow>
                  Some (close_pulled env taskid names out (vt_delete (eg_virtuals e3) w5)))))"

definition job_response :: "submit_request \<Rightarrow> tensor \<Rightarrow> submit_response" where
  "job_response q out =
     SubmitResponse_set_output (sq_output_path q) (sq_directory_policy q) (sq_empty_policy q)
       (SubmitResponse_set_result (c_str (Tensor_get_data_nocopy out))
         (SubmitResponse_set_times (sq_period q) (SubmitResponse_set_taskid (sq_taskid q) SubmitResponse_new)))"

definition drccp_on_server_receive_payload ::
  "'w infer_env \<Rightarrow> bound_client \<Rightarrow> string \<Rightarrow> 'w \<Rightarrow> (string \<times> 'w) cxx option" where
  "drccp_on_server_receive_payload env c binary w =
     (let q = ie_parse_req env binary in
      case payload_input q of
        Inl e \<Rightarrow> Some (Inl e)
      | Inr None \<Rightarrow> Some (Inr ([], w))
      | Inr (Some inp) \<Rightarrow>
          (case transfer env (engine_task env c q w) w of
             Inl e \<Rightarrow> Some (Inl e)
           | Inr (_, names, w1) \<Rightarrow>
               if length names = 1 then
                 map_option (map_sum (\<lambda>e. e) (\<lambda>(out, w2). (ie_dump_resp env (job_response q out), w2)))
                   (run_pulled env (sq_taskid q) (hd names) inp w1)
               else Some (Inr (ie_dump_resp env (job_response q Tensor_new), w1))))"

section \<open>The units of a process\<close>

definition payload_callback :: "'w infer_env \<Rightarrow> bound_client \<Rightarrow> 'w payload_callback" where
  "payload_callback env c binary w =
     (case drccp_on_server_receive_payload env c binary w of None \<Rightarrow> Inl Never_returns | Some r \<Rightarrow> r)"

text \<open>\<^verbatim>\<open>DrccpServerManager::Server\<close>.\<close>

record 'w managed =
  se_server :: "'w unit_node"
  se_setup :: drccp_setup
  se_origin :: origin_context

type_synonym 'w servers = "(string \<times> 'w managed) list"

text \<open>\<open>g\<close> are the indeterminate members of a new server. A unit under a name that is taken is dropped.\<close>

definition manager_load ::
  "'w infer_env \<Rightarrow> bound_client \<Rightarrow> string \<Rightarrow> drccp_setup \<Rightarrow> origin_context \<Rightarrow> 'w unit_node \<Rightarrow> 'w servers \<Rightarrow> 'w servers" where
  "manager_load env c name setup proxy g servers =
     umap_emplace servers name
       \<lparr>se_server = register_receive_payload (payload_callback env c)
          (register_receive_result (drccp_on_server_receive_result env c) (snd (drccp_setup_node (DrccpServer_new g) setup))),
        se_setup = setup, se_origin = proxy\<rparr>"

definition on_server ::
  "string \<Rightarrow> ('w unit_node \<Rightarrow> int \<times> 'w unit_node) \<Rightarrow> 'w servers \<Rightarrow> int \<times> 'w servers" where
  "on_server name f servers =
     (case map_of servers name of
        None \<Rightarrow> (-1, servers)
      | Some se \<Rightarrow> (case f (se_server se) of (r, n) \<Rightarrow> (r, umap_set servers name (se\<lparr>se_server := n\<rparr>))))"

definition manager_start :: "(drccp_listen \<Rightarrow> int) \<Rightarrow> string \<Rightarrow> 'w servers \<Rightarrow> int \<times> 'w servers" where
  "manager_start wf_start name = on_server name (drccp_start wf_start)"

definition manager_stop :: "string \<Rightarrow> 'w servers \<Rightarrow> int \<times> 'w servers" where
  "manager_stop name = on_server name drccp_stop"

definition manager_logout :: "string \<Rightarrow> 'w servers \<Rightarrow> int \<times> 'w servers" where
  "manager_logout name = on_server name drccp_logout"

definition manager_signin ::
  "'w drccp_exchange \<Rightarrow> string \<Rightarrow> string \<Rightarrow> string \<Rightarrow> int \<Rightarrow> 'w servers \<Rightarrow> 'w \<Rightarrow> (int \<times> 'w servers \<times> 'w) cxx" where
  "manager_signin exch name cluster_tag boot_addr port servers w =
     (case map_of servers name of
        None \<Rightarrow> Inr (-1, servers, w)
      | Some se \<Rightarrow> cxx_bind (drccp_signin exch cluster_tag boot_addr port (se_server se) w) (\<lambda>(r, n, w1).
          Inr (r, umap_set servers name (se\<lparr>se_server := n\<rparr>), w1)))"

definition manager_signin_peer ::
  "'w drccp_exchange \<Rightarrow> string \<Rightarrow> string \<Rightarrow> string \<Rightarrow> 'w servers \<Rightarrow> 'w \<Rightarrow> (int \<times> 'w servers \<times> 'w) cxx" where
  "manager_signin_peer exch name tag peer servers w =
     (case map_of servers peer of
        None \<Rightarrow> Inr (-1, servers, w)
      | Some connect \<Rightarrow>
          manager_signin exch name tag (du_listen_addr (se_setup connect)) (du_port (se_setup connect)) servers w)"

text \<open>The destructor deletes the units, which stops them.\<close>

definition manager_destroy :: "'w servers \<Rightarrow> 'w unit_node list \<times> 'w servers" where
  "manager_destroy servers = (map (\<lambda>(_, se). snd (drccp_stop (se_server se))) servers, [])"

text \<open>The task table the callbacks capture by reference, and the start of a task of the deployment protocol.\<close>

record 'w table_access =
  ta_get :: "'w \<Rightarrow> taskmanager"
  ta_put :: "taskmanager \<Rightarrow> 'w \<Rightarrow> 'w"
  ta_start :: "client_task \<Rightarrow> 'w \<Rightarrow> 'w"

definition client_callback :: "'w infer_env \<Rightarrow> 'w table_access \<Rightarrow> request \<Rightarrow> 'w result_callback" where
  "client_callback env ta g result w =
     cxx_bind (on_client_receive_result (ie_parse_resp env) g (ta_get ta w) result) (\<lambda>(tm, task).
       Inr (case task of None \<Rightarrow> ta_put ta tm w | Some t \<Rightarrow> ta_start ta t (ta_put ta tm w)))"

definition manager_submit ::
  "(submit_request \<Rightarrow> string) \<Rightarrow> 'w result_callback \<Rightarrow> string \<Rightarrow> submit_request \<Rightarrow> 'w servers \<Rightarrow> 'w servers \<times> sub_task option" where
  "manager_submit dump callback name req servers =
     (case map_of servers name of
        None \<Rightarrow> (servers, None)
      | Some se \<Rightarrow>
          (umap_set servers name (se\<lparr>se_server := register_client_receive_result callback (se_server se)\<rparr>),
           Some \<lparr>st_name = name, st_payload = dump req, st_origin = se_origin se\<rparr>))"

text \<open>The go task calls \<^verbatim>\<open>submit\<close> of the unit; its result is dropped.\<close>

definition run_sub_task :: "'w drccp_exchange \<Rightarrow> sub_task \<Rightarrow> 'w servers \<Rightarrow> 'w \<Rightarrow> ('w servers \<times> 'w) cxx" where
  "run_sub_task exch st servers w =
     (case map_of servers (st_name st) of
        None \<Rightarrow> Inl Undefined_behaviour
      | Some se \<Rightarrow>
          cxx_bind (drccp_submit exch (st_payload st) (oc_addr (st_origin st)) (oc_port (st_origin st)) (se_server se) w)
            (\<lambda>(_, n, w1). Inr (umap_set servers (st_name st) (se\<lparr>se_server := n\<rparr>), w1)))"

text \<open>
  The units as the task table sees them: loading and submitting are the operations on \<open>nodes\<close> of the
  task table.
\<close>

definition node_of :: "'w managed \<Rightarrow> node" where
  "node_of se =
     \<lparr>nd_setup = \<lparr>sc_listen_addr = du_listen_addr (se_setup se), sc_port = du_port (se_setup se), sc_ssl = du_ssl (se_setup se)\<rparr>,
      nd_origin = se_origin se, nd_callback = un_client_result (se_server se) \<noteq> None\<rparr>"

definition nodes_of :: "'w servers \<Rightarrow> nodes" where
  "nodes_of servers = map (\<lambda>(name, se). (name, node_of se)) servers"

lemma map_of_nodes_of: "map_of (nodes_of servers) name = map_option node_of (map_of servers name)"
  by (simp add: nodes_of_def map_of_map)

lemma nodes_of_load:
  "nodes_of (manager_load env c name setup proxy g servers) =
     load_server_config (nodes_of servers) name
       \<lparr>sc_listen_addr = du_listen_addr setup, sc_port = du_port setup, sc_ssl = du_ssl setup\<rparr> proxy"
  by (simp add: manager_load_def load_server_config_def umap_emplace_def map_of_nodes_of, simp add: nodes_of_def node_of_def
      drccp_setup_node_def DrccpServer_new_def register_receive_payload_def register_receive_result_def)

lemma nodes_of_submit:
  "map_prod nodes_of (\<lambda>t. t) (manager_submit dump callback name req servers) =
     Manager_submit dump (nodes_of servers) name req"
  by (cases "map_of servers name")
    (simp_all add: manager_submit_def Manager_submit_def map_of_nodes_of,
     simp add: nodes_of_def umap_set_def umap_erase_def filter_map node_of_def register_client_receive_result_def o_def split_def)

section \<open>Delivered results\<close>

text \<open>A reply without engines and binary data leaves the files alone; the storage unit replies so to a result.\<close>

lemma dispose_nothing:
  "\<not> list_ex appended ds \<Longrightarrow> dispose_all cf ds input names w = Inr (input, names, w)"
proof (induction ds)
  case (Cons d ds)
  then have "ad_type (dt_master d) = 0 \<Longrightarrow> resp_dispose cf names d w = Inr (names, w)"
    by (auto simp: appended_def resp_dispose_def Let_def split: prod.split)
  with Cons show ?case by (simp add: appended_def Let_def)
qed simp

lemma transfer_result_eq:
  "transfer_result env task w =
     (case ie_exchange env task w of (reply, w1) \<Rightarrow>
        (case reply of None \<Rightarrow> Inr w1
         | Some resp \<Rightarrow> if list_ex appended (dr_dtsrcs resp) then Inl Undefined_behaviour else Inr w1))"
  by (auto simp: transfer_result_def call_back_t_def dispose_nothing split: prod.split option.split)

section \<open>Pulled engines\<close>

text \<open>Parents are sought in the working directory, and engines are put into the directory of their task.\<close>

lemma parent_not_in_task_dir: "ea_dlpath a = ''./'' \<Longrightarrow> \<not> prefix ''../'' (parent_file a)"
  by (simp add: parent_file_def c_str_def prefix_def)

lemma pulled_in_task_dir: "prefix ''../'' (pulled_file taskid names)"
  by (simp add: pulled_file_def c_str_def task_dir_def prefix_def)

lemma init_env_unfound:
  assumes "\<forall>f w. fst (ld_open ld f w) \<longrightarrow> prefix ''../'' f" and "ea_dlpath a = ''./''"
  shows "init_env ld (Engine a v None None) w =
    Some (if ea_parent_mid a = [] \<or> ea_parent_name a = [] then call_init (Engine a v None None) w
          else (-1, Engine a v None None, snd (ld_open ld (parent_file a) w)))"
proof -
  obtain opened w1 where o: "ld_open ld (parent_file a) w = (opened, w1)" by (cases "ld_open ld (parent_file a) w")
  then have "\<not> opened" using assms(1) parent_not_in_task_dir [OF assms(2)] by (metis fst_conv)
  with o show ?thesis by (subst init_env.simps) (simp add: Let_def)
qed

text \<open>An engine that turns its input around, in a directory that has it in every file, and a network that sends it.\<close>

definition reversing :: "'w virtuals" where
  "reversing = base_virtuals\<lparr>vt_infer := \<lambda>a inp outp w. (0, a, outp\<lparr>tn_src := tn_src outp @ rev (tn_src inp)\<rparr>, w)\<rparr>"

definition reversing_attrs :: "string \<Rightarrow> engine_attrs" where
  "reversing_attrs parent = (eg_attrs (jxtd_Engine_new (base_virtuals :: unit virtuals)))\<lparr>ea_mid := ''1'', ea_name := ''e'', ea_path := ''m'',
     ea_parent_mid := parent, ea_parent_name := parent, ea_type := 0\<rparr>"

definition sample_env :: "string \<Rightarrow> (string \<Rightarrow> submit_request) \<Rightarrow> (string \<Rightarrow> submit_response) \<Rightarrow> 'w infer_env" where
  "sample_env parent parse_req parse_resp =
     \<lparr>ie_parse_req = parse_req, ie_dump_resp = \<lambda>r. CHR ''r'' # sr_result r, ie_parse_resp = parse_resp,
      ie_req0 = DtRequest_new 0, ie_type0 = 0,
      ie_exchange = \<lambda>t w. (Some (DtResponse_add_dtsrc DtResponse_new ((Dtsrc_new 0)\<lparr>dt_master := (Adtsrc_new 0)\<lparr>
        ad_engineattr := (''1'', ''e''), ad_binary := ''so''\<rparr>\<rparr>)), w),
      ie_files = \<lparr>cf_create_directories = \<lambda>d w. (True, w), cf_open = \<lambda>f w. (True, w), cf_write = \<lambda>f b w. w\<rparr>,
      ie_http = \<lambda>h w. w,
      ie_loader = \<lparr>ld_open = \<lambda>f w. (prefix ''../'' f, w),
        ld_sym = \<lambda>f s w. Some (\<lambda>w. (Some (Engine (reversing_attrs parent) reversing None None), w)), ld_close = \<lambda>f w. (0, w)\<rparr>,
      ie_remove_all = \<lambda>d w. Inr w, ie_storage = \<lambda>w. \<lparr>sd_addr = ''s'', sd_port = 1, sd_ssl = False\<rparr>, ie_set_storage = \<lambda>d w. w\<rparr>"

text \<open>
  C6: a pulled engine computes alone. If the shared objects there are in the task directories, where the
  transfer puts an engine and its dependencies, then an engine with a parent does not find it: it is not
  initialised, it computes on the input and an empty output without its ancestors, and what it leaves is
  the result of the job. Only an engine without parent runs as it is meant to, with its initialisation.
\<close>

theorem pulled_engine_runs_alone:
  assumes dirs: "\<forall>f w. fst (ld_open (ie_loader env) f w) \<longrightarrow> prefix ''../'' f"
    and open_engine: "ld_open (ie_loader env) (pulled_file taskid names) w = (True, w1)"
    and sym: "ld_sym (ie_loader env) (pulled_file taskid names) (pulled_symbol names) w1 = Some gen"
    and gen: "gen w1 = (Some (Engine a v None None), w2)" and "ea_dlpath a = ''./''"
    and init: "(if ea_parent_mid a = [] \<or> ea_parent_name a = [] then vt_init v a w2
      else (-1, a, snd (ld_open (ie_loader env) (parent_file a) w2))) = (r, a1, w3)"
    and infer: "vt_infer v a1 inp Tensor_new w3 = (r1, a2, out, w4)" and post: "vt_post v a2 w4 = (r2, a3, w5)"
  shows "run_pulled env taskid names inp w = Some (close_pulled env taskid names out (vt_delete v w5))"
proof -
  have "init_env (ie_loader env) (Engine a v None None) w2 = Some (r, Engine a1 v None None, w3)"
    using init by (subst init_env_unfound [OF dirs assms(5)]) (auto split: if_splits prod.splits)
  then show ?thesis using open_engine sym gen infer post by (simp add: run_pulled_def)
qed

theorem pulled_engine_runs_alone_witness:
  "run_pulled (sample_env ''p'' (\<lambda>_. SubmitRequest_new) (\<lambda>_. SubmitResponse_new)) 7 (''1'', ''e'') (Tensor_new\<lparr>tn_src := ''ab''\<rparr>) () =
     Some (Inr (Tensor_new\<lparr>tn_src := ''ba''\<rparr>, ()))"
proof -
  let ?env = "sample_env ''p'' (\<lambda>_. SubmitRequest_new) (\<lambda>_. SubmitResponse_new) :: unit infer_env"
  have "run_pulled ?env 7 (''1'', ''e'') (Tensor_new\<lparr>tn_src := ''ab''\<rparr>) () =
      Some (close_pulled ?env 7 (''1'', ''e'') (Tensor_new\<lparr>tn_src := ''ba''\<rparr>) (vt_delete reversing ()))"
  proof (rule pulled_engine_runs_alone)
    show "ld_open (ie_loader ?env) (pulled_file 7 (''1'', ''e'')) () = (True, ())"
      using pulled_in_task_dir by (simp add: sample_env_def)
    show "ea_dlpath (reversing_attrs ''p'') = ''./''" by (simp add: reversing_attrs_def jxtd_Engine_new_def)
  qed (simp_all add: sample_env_def reversing_attrs_def reversing_def base_virtuals_def Tensor_new_def)
  then show ?thesis by (simp add: close_pulled_def sample_env_def)
qed

text \<open>
  C7: what a unit makes of the input of a job. Data in the request are the input. A path of the \<^verbatim>\<open>jxtd\<close>
  protocol never gives a result: the port is not a number, or the data are read before the transfer has
  been started. With \<^verbatim>\<open>http\<close> the engine computes on an empty tensor. Any other path is answered with
  nothing, without effect, and the unit that submitted the job keeps it in its table.
\<close>

theorem job_input:
  assumes q: "ie_parse_req env binary = q"
  shows "(SubmitRequest_get_input_path q = [] \<longrightarrow>
      payload_input q = Inr (Some (Tensor_new\<lparr>tn_src := SubmitRequest_get_input_data q\<rparr>))) \<and>
    (SubmitRequest_get_input_path q \<noteq> [] \<and> proto_of (SubmitRequest_get_input_path q) \<in> {''http'', ''https''} \<longrightarrow>
      payload_input q = Inr (Some Tensor_new)) \<and>
    (proto_of (SubmitRequest_get_input_path q) = ''jxtd'' \<longrightarrow>
      (\<exists>e. drccp_on_server_receive_payload env c binary w = Some (Inl e))) \<and>
    (SubmitRequest_get_input_path q \<noteq> [] \<and> proto_of (SubmitRequest_get_input_path q) \<notin> {''jxtd'', ''http'', ''https''} \<longrightarrow>
      drccp_on_server_receive_payload env c binary w = Some (Inr ([], w)) \<and>
      client_callback env ta g [] w = Inr (ta_put ta (ta_get ta w) w))"
proof (intro conjI impI)
  assume "SubmitRequest_get_input_path q = []"
  then show "payload_input q = Inr (Some (Tensor_new\<lparr>tn_src := SubmitRequest_get_input_data q\<rparr>))"
    by (simp add: payload_input_def Tensor_set_buffer_def buffer_bytes_take)
next
  assume "SubmitRequest_get_input_path q \<noteq> [] \<and> proto_of (SubmitRequest_get_input_path q) \<in> {''http'', ''https''}"
  then show "payload_input q = Inr (Some Tensor_new)" by (auto simp: payload_input_def)
next
  assume jxtd: "proto_of (SubmitRequest_get_input_path q) = ''jxtd''"
  then have "SubmitRequest_get_input_path q \<noteq> []" by (auto simp: proto_of_def)
  with jxtd obtain e where "payload_input q = Inl e"
    by (cases "stoi (snd (split_host (behind_proto (SubmitRequest_get_input_path q))))") (auto simp: payload_input_def)
  then show "\<exists>e. drccp_on_server_receive_payload env c binary w = Some (Inl e)"
    by (simp add: drccp_on_server_receive_payload_def q)
next
  assume other: "SubmitRequest_get_input_path q \<noteq> [] \<and> proto_of (SubmitRequest_get_input_path q) \<notin> {''jxtd'', ''http'', ''https''}"
  then have "payload_input q = Inr None" by (simp add: payload_input_def)
  then show "drccp_on_server_receive_payload env c binary w = Some (Inr ([], w))"
    by (simp add: drccp_on_server_receive_payload_def q)
  show "client_callback env ta g [] w = Inr (ta_put ta (ta_get ta w) w)"
    by (simp add: client_callback_def on_client_receive_result_def)
qed

theorem job_input_witness:
  "\<exists>e. drccp_on_server_receive_payload (sample_env [] (\<lambda>s. SubmitRequest_new\<lparr>sq_input_path := Some s\<rparr>) (\<lambda>_. SubmitResponse_new))
     \<lparr>bc_token = [], bc_url = [], bc_port = 1, bc_ssl = False\<rparr> ''jxtd://h:1/x'' () = Some (Inl e)"
proof -
  have "proto_of ''jxtd://h:1/x'' = ''jxtd''" by (simp add: proto_of_def)
  then show ?thesis
    using job_input [of "sample_env [] (\<lambda>s. SubmitRequest_new\<lparr>sq_input_path := Some s\<rparr>) (\<lambda>_. SubmitResponse_new)" "''jxtd://h:1/x''"
        "SubmitRequest_new\<lparr>sq_input_path := Some ''jxtd://h:1/x''\<rparr>" "\<lparr>bc_token = [], bc_url = [], bc_port = 1, bc_ssl = False\<rparr>" "()"]
    by (simp add: sample_env_def SubmitRequest_get_input_path_def)
qed

end
