(* ===== verification/Drccp_System.thy ===== *)
theory Drccp_System
  imports Drccp_Server
begin

text \<open>
  Computing units at work: a job from its submission to its result, with the messages the unit sends
  to itself, and the joining of two units.
\<close>

text \<open>
  The exchange of a unit that reaches nobody but itself. The requests it makes are served by its own handler;
  \<open>k\<close> bounds how deep they nest, and two levels are all a job needs: its submission is served with
  a forwarding, which is served without further requests. Messages arrive as \<open>Drccp_received\<close>, by
  the round trip of the protocol.
\<close>

fun own_exchange :: "nat \<Rightarrow> 'w drccp_exchange" where
  "own_exchange 0 t n w = Inr (False, Drccp_new, n, w)"
| "own_exchange (Suc k) t n w =
     (if dk_target t \<noteq> un_self n \<or> \<not> un_server n then Inr (False, Drccp_new, n, w)
      else case drccp_serve (own_exchange k) (Drccp_received (dk_req t)) n w of
        None \<Rightarrow> Inr (False, Drccp_new, n, w)
      | Some (Inl e) \<Rightarrow> Inl e
      | Some (Inr (None, n', w')) \<Rightarrow> Inr (False, Drccp_new, n', w')
      | Some (Inr (Some resp, n', w')) \<Rightarrow> Inr (True, Drccp_received resp, n', w'))"

lemma to_int_defined: "to_int (fl_mul round32 x (Fin 4)) = Inr k \<Longrightarrow>
    un_shares n = [(un_self n, x)] \<Longrightarrow> \<exists>e. select_best_target n src = Inr e"
  by (auto simp: select_best_target_def)

text \<open>A forwarded job at a unit that knows only itself.\<close>

lemma serve_forward:
  assumes "alone n" and "dm_cluster req = un_tag n" and "dm_version req = 3" and "dm_type req = report_code FORWARD"
    and "un_payload n = Some f" and "f (dm_raw req) w = Inr (out, w1)"
  shows "\<exists>resp. drccp_serve exch req n w = Some (Inr (Some resp, credit (un_self n) n, w1)) \<and>
    dm_raw resp = out \<and> dm_type resp = report_code RESULT"
proof -
  have "alone (credit (un_self n) n)" by (rule credit_alone [OF assms(1)])
  then have "other_units (credit (un_self n) n) = []" by simp
  with assms(2-6) show ?thesis
    by (simp add: drccp_serve_def drccp_process_def drccp_answer_def greet_others_def Let_def Drccp_setraw_def Drccp_settype_def)
qed

lemma forward_to_self:
  assumes alone: "un_shares n = [(un_self n, x)]" and limit: "to_int (fl_mul round32 x (Fin 4)) = Inr k"
    and server: "un_server n" and "un_payload n = Some f" and "f (dm_raw req) w = Inr (out, w1)"
  shows "forward_loop (own_exchange (Suc j)) req resp n w =
    Some (cxx_bind (call_result (un_result n) out w1) (\<lambda>w2.
      Inr (Drccp_setraw (Drccp_settype resp (report_code RESULT)) out, credit (un_self n) (credit (un_self n) n), w2)))"
proof -
  have al: "alone n" using alone by (auto simp: alone_def)
  have sel: "select_best_target n (dm_src req) = Inr (un_self n)"
    using to_int_defined [OF limit alone] alone_select [OF al] by metis
  let ?t = "forward_task n (dm_raw req) (un_self n)"
  have req: "dm_cluster (Drccp_received (dk_req ?t)) = un_tag n" "dm_version (Drccp_received (dk_req ?t)) = 3"
    "dm_type (Drccp_received (dk_req ?t)) = report_code FORWARD" "dm_raw (Drccp_received (dk_req ?t)) = dm_raw req"
    "dk_target ?t = un_self n"
    by (simp_all add: forward_task_def Drccp_received_def drccp_setters)
  obtain r where r: "drccp_serve (own_exchange j) (Drccp_received (dk_req ?t)) n w = Some (Inr (Some r, credit (un_self n) n, w1))"
    "dm_raw r = out"
    using serve_forward [OF al req(1,2,3) assms(4), of w out w1 "own_exchange j"] req(4) assms(5) by auto
  then have exch: "own_exchange (Suc j) ?t n w = Inr (True, Drccp_received r, credit (un_self n) n, w1)"
    using server req(5) by simp
  have callback: "un_result (credit (un_self n) n) = un_result n" by (simp add: credit_def)
  have raw: "dm_raw (Drccp_received r) = out" using r(2) by (simp add: Drccp_received_def)
  show ?thesis
    using exch sel
    by (subst forward_loop.simps)
      (cases "un_result n"; simp add: forwarded_def call_result_def raw callback del: own_exchange.simps)
qed

text \<open>A submission at a unit that knows only itself: the two callbacks decide what becomes of it.\<close>

lemma submit_alone_result:
  assumes "un_shares n = [(un_self n, x)]" and "to_int (fl_mul round32 x (Fin 4)) = Inr k" and "un_server n"
    and "un_payload n = Some f" and "f payload w = Inr (out, w1)"
  shows "drccp_submit (own_exchange (Suc (Suc j))) payload origin_addr origin_port n w =
    cxx_bind (call_result (un_result n) out w1) (\<lambda>w2. cxx_bind (call_result (un_client_result n) out w2) (\<lambda>w3.
      Inr (0, credit (un_self n) (credit (un_self n) (n\<lparr>un_client_addr := origin_addr, un_client_port := origin_port\<rparr>)), w3)))"
proof -
  let ?n = "n\<lparr>un_client_addr := origin_addr, un_client_port := origin_port\<rparr>"
  let ?t = "local_task ?n payload" let ?req = "Drccp_received (dk_req ?t)"
  have req: "dm_cluster ?req = un_tag n" "dm_version ?req = 3" "dm_type ?req = report_code LOCAL" "dm_raw ?req = payload"
    "dk_target ?t = un_self n"
    by (simp_all add: local_task_def Drccp_received_def drccp_setters)
  have "alone ?n" using assms(1) by (simp add: alone_def)
  then have others: "other_units ?n = []" by simp
  let ?resp = "setup_dest_resp (dm_src ?req) (setup_header_resp ?n Drccp_new)"
  let ?done = "Drccp_setraw (Drccp_settype ?resp (report_code RESULT)) out"
  let ?m = "credit (un_self n) (credit (un_self n) ?n)"
  have proc: "drccp_process ?req ?n w = Inr (Some ?resp, [Forward_job], ?n, w)"
    unfolding drccp_process_def drccp_answer_def greet_others_def Let_def using others req by simp
  have loop: "forward_loop (own_exchange (Suc j)) ?req ?resp ?n w =
      Some (cxx_bind (call_result (un_result n) out w1) (\<lambda>w2. Inr (?done, ?m, w2)))"
    using forward_to_self [of ?n x k f ?req w out w1 j ?resp] assms req(4) by simp
  have serve: "drccp_serve (own_exchange (Suc j)) ?req ?n w =
      Some (cxx_bind (call_result (un_result n) out w1) (\<lambda>w2. Inr (Some ?done, ?m, w2)))"
    by (cases "call_result (un_result n) out w1")
      (simp_all only: drccp_serve_def proc sum.case prod.case option.case run_jobs.simps loop option.map map_sum.simps cxx_bind.simps)
  have client: "un_client_result ?m = un_client_result n" by (simp add: credit_def)
  have server: "un_server ?n" "un_self ?n = un_self n" using assms(3) by simp_all
  have "own_exchange (Suc (Suc j)) ?t ?n w =
      cxx_bind (call_result (un_result n) out w1) (\<lambda>w2. Inr (True, Drccp_received ?done, ?m, w2))"
    using serve server req(5) by (cases "call_result (un_result n) out w1"; simp only: own_exchange.simps; simp)
  then show ?thesis
    unfolding drccp_submit_def Let_def
    by (cases "call_result (un_result n) out w1")
      (simp_all add: client Drccp_received_def Drccp_setraw_def Drccp_settype_def)
qed

lemma submit_alone:
  assumes "un_shares n = [(un_self n, x)]" and "to_int (fl_mul round32 x (Fin 4)) = Inr k" and "un_server n"
    and "un_payload n = Some f" and "f payload w = Inr (out, w1)"
    and "call_result (un_result n) out w1 = Inr w2" and "call_result (un_client_result n) out w2 = Inr w3"
  shows "drccp_submit (own_exchange (Suc (Suc j))) payload origin_addr origin_port n w =
    Inr (0, credit (un_self n) (credit (un_self n) (n\<lparr>un_client_addr := origin_addr, un_client_port := origin_port\<rparr>)), w3)"
  by (simp add: submit_alone_result [OF assms(1-5)] assms(6,7))

text \<open>
  C9: a job runs on the unit it is submitted to. At a unit that knows no other one (and joining makes none
  known) the job goes over the wire to the unit itself twice, its payload is computed once, the
  result is reported to the function for received results and then to the one of the submitter, and the
  unit's share grows by one half for the computation and once more for the forwarding.
\<close>

theorem job_runs_where_submitted:
  assumes "un_shares n = [(un_self n, x)]" and "to_int (fl_mul round32 x (Fin 4)) = Inr k" and "un_server n"
    and "un_payload n = Some f" and "f payload w = Inr (out, w1)"
    and "call_result (un_result n) out w1 = Inr w2" and "call_result (un_client_result n) out w2 = Inr w3"
  shows "drccp_submit (own_exchange (Suc (Suc j))) payload origin_addr origin_port n w =
    Inr (0, credit (un_self n) (credit (un_self n) (n\<lparr>un_client_addr := origin_addr, un_client_port := origin_port\<rparr>)), w3)"
  using assms by (rule submit_alone)

theorem job_runs_where_submitted_witness:
  "\<exists>n. drccp_submit (own_exchange 2) ''abc'' ''u1'' 7777 sample_unit [] = Inr (0, n, [''cba'', ''cba''])"
  using job_runs_where_submitted [of sample_unit "Fin 1" 4 "\<lambda>s w. Inr (rev s, w)" "''abc''" "[]" "''cba''" "[]" "[''cba'']"
      "[''cba'', ''cba'']" 0 "''u1''" 7777] four_shares
  by (simp add: sample_unit_def call_result_def numeral_2_eq_2)

end
