(* ===== verification/Infer_System.thy ===== *)
theory Infer_System
  imports Computation_Infer Drccp_System
begin

text \<open>
  A job from the task table through the manager of units, the protocol between units, the engine and back
  to the table.
\<close>

text \<open>A unit that has been loaded and started, and to which the job is submitted.\<close>

definition ready_unit ::
  "'w infer_env \<Rightarrow> bound_client \<Rightarrow> drccp_setup \<Rightarrow> 'w unit_node \<Rightarrow> 'w unit_node" where
  "ready_unit env c setup g =
     (DrccpServer_new g)\<lparr>un_addr := du_listen_addr setup, un_family := du_family setup, un_port := du_port setup,
       un_ssl := du_ssl setup, un_client_ssl := du_ssl setup, un_ca := du_ca setup, un_cert := du_cert setup,
       un_key := du_key setup, un_result := Some (drccp_on_server_receive_result env c),
       un_payload := Some (payload_callback env c), un_server := True,
       un_shares := [((du_listen_addr setup, du_port setup), Fin 1)]\<rparr>"

lemma load_and_start:
  "manager_start wf_start name (manager_load env c name setup proxy g []) =
     (wf_start \<lparr>dl_family = du_family setup, dl_addr = du_listen_addr setup, dl_port = du_port setup,
        dl_tls = (if du_ssl setup then Some (du_cert setup, du_key setup) else None)\<rparr>,
      [(name, \<lparr>se_server = ready_unit env c setup g, se_setup = setup, se_origin = proxy\<rparr>)])"
  by (simp add: manager_start_def on_server_def manager_load_def umap_emplace_def umap_set_def umap_erase_def drccp_start_def
      drccp_setup_node_def DrccpServer_new_def register_receive_payload_def register_receive_result_def ready_unit_def)

abbreviation one_server :: "string \<Rightarrow> drccp_setup \<Rightarrow> origin_context \<Rightarrow> 'w unit_node \<Rightarrow> 'w servers" where
  "one_server name su proxy n \<equiv> [(name, \<lparr>se_server = n, se_setup = su, se_origin = proxy\<rparr>)]"

lemma ready_submit:
  assumes "payload_callback env c payload w = Inr (out, w1)"
  shows "\<exists>n. run_sub_task (own_exchange (Suc (Suc j))) \<lparr>st_name = name, st_payload = payload, st_origin = proxy\<rparr>
      (one_server name setup proxy (register_client_receive_result callback (ready_unit env c setup g))) w =
    cxx_bind (drccp_on_server_receive_result env c out w1) (\<lambda>w2. cxx_bind (callback out w2) (\<lambda>w3. Inr (one_server name setup proxy n, w3)))"
proof -
  let ?n = "register_client_receive_result callback (ready_unit env c setup g)"
  have n: "un_shares ?n = [(un_self ?n, Fin 1)]" "un_server ?n" "un_payload ?n = Some (payload_callback env c)"
    "un_result ?n = Some (drccp_on_server_receive_result env c)" "un_client_result ?n = Some callback"
    by (simp_all add: register_client_receive_result_def ready_unit_def)
  have result: "call_result (un_result ?n) out w1 = drccp_on_server_receive_result env c out w1"
    "call_result (un_client_result ?n) out v = callback out v" for v
    unfolding n call_result_def by simp_all
  show ?thesis
    by (simp add: run_sub_task_def submit_alone_result [OF n(1) four_shares n(2,3) assms] result cxx_bind_assoc
        umap_set_def umap_erase_def) blast
qed

text \<open>The task is gone from the table, and the message that says so is under way, if there is one.\<close>

definition leaves_table ::
  "'w table_access \<Rightarrow> request \<Rightarrow> taskmanager \<Rightarrow> u64 \<Rightarrow> 'w \<Rightarrow> ('w servers \<times> 'w) cxx \<Rightarrow> bool" where
  "leaves_table ta g tm taskid w outcome \<longleftrightarrow>
     (\<exists>servers' tm' task. remove_task g tm taskid True = Inr (tm', task) \<and> \<not> known tm' taskid \<and>
        outcome = Inr (servers', case task of None \<Rightarrow> ta_put ta tm' w | Some t \<Rightarrow> ta_start ta t (ta_put ta tm' w)))"

text \<open>Where the result of a job goes: what \<open>drccp_on_server_receive_result\<close> does with a response.\<close>

lemma receive_result_cases:
  assumes "ie_parse_resp env s = r" and "sr_output_path r = path"
  shows "path = [] \<or> proto_of path \<notin> {''jxtd'', ''http'', ''https''} \<Longrightarrow> drccp_on_server_receive_result env c s w = Inr w"
    and "path \<noteq> [] \<Longrightarrow> proto_of path \<in> {''http'', ''https''} \<Longrightarrow>
      drccp_on_server_receive_result env c s w = Inr (ie_http env (result_put c r) w)"
    and "proto_of path = ''jxtd'' \<Longrightarrow> split_host (behind_proto path) = (host, rest) \<Longrightarrow>
      drccp_on_server_receive_result env c s w = cxx_bind (stoi rest) (\<lambda>port.
        transfer_result env (DataClient_create (bound_side c) \<lparr>sd_addr = host, sd_port = port, sd_ssl = bc_ssl c\<rparr>
          (result_context env c r) (ie_req0 env)) w)"
  using assms by (auto simp: drccp_on_server_receive_result_def Let_def proto_of_def)


definition pair_access :: "(taskmanager \<times> client_task list) table_access" where
  "pair_access = \<lparr>ta_get = fst, ta_put = \<lambda>tm w. (tm, snd w), ta_start = \<lambda>t w. (fst w, snd w @ [t])\<rparr>"

definition data_info :: taskinfo where
  "data_info = \<lparr>ti_dep_pos = 0, ti_input_path = [], ti_input_data = ''ab'', ti_output_path = ''http://h/r'', ti_directory_policy = 0,
     ti_empty_policy = 0, ti_period = 1, ti_backupid = [], ti_result_policy = 0, ti_trigger_policy = 0\<rparr>"

definition data_table :: taskmanager where
  "data_table = snd (deploy_task Taskmanager_new 7 data_info)"


end
