(* ===== verification/Regex_Match.thy ===== *)
theory Regex_Match
  imports Prelude
begin

text \<open>
  What the programs use of \<^verbatim>\<open>std::regex\<close>: \<^verbatim>\<open>regex_match\<close> decides whether the whole string is in the language of
  the expression. Expressions are made of character classes, sequences, alternatives, stars and counted
  repetitions; \<open>regex_match\<close> tries all ways to cut the string.
\<close>

section \<open>Expressions and their matches\<close>

datatype regex = Empty | Class "char \<Rightarrow> bool" | Seq regex regex | Alt regex regex | Star regex

fun regex_match :: "regex \<Rightarrow> string \<Rightarrow> bool" where
  "regex_match Empty w \<longleftrightarrow> w = []"
| "regex_match (Class p) w \<longleftrightarrow> (case w of [c] \<Rightarrow> p c | _ \<Rightarrow> False)"
| "regex_match (Seq r s) w \<longleftrightarrow> list_ex (\<lambda>i. regex_match r (take i w) \<and> regex_match s (drop i w)) [0..<Suc (length w)]"
| "regex_match (Alt r s) w \<longleftrightarrow> regex_match r w \<or> regex_match s w"
| "regex_match (Star r) w \<longleftrightarrow>
     w = [] \<or> list_ex (\<lambda>i. regex_match r (take i w) \<and> regex_match (Star r) (drop i w)) [1..<Suc (length w)]"

declare regex_match.simps(3,5) [simp del]

lemma regex_match_Class [simp]: "regex_match (Class p) w \<longleftrightarrow> (\<exists>c. w = [c] \<and> p c)"
  by (auto split: list.splits)

declare regex_match.simps(2) [simp del]

lemma regex_match_Seq: "regex_match (Seq r s) w \<longleftrightarrow> (\<exists>u v. w = u @ v \<and> regex_match r u \<and> regex_match s v)"
proof
  assume "regex_match (Seq r s) w"
  then obtain i where "regex_match r (take i w)" and "regex_match s (drop i w)"
    by (auto simp: regex_match.simps(3) list_ex_iff simp del: upt_Suc)
  then show "\<exists>u v. w = u @ v \<and> regex_match r u \<and> regex_match s v"
    by (metis append_take_drop_id)
next
  assume "\<exists>u v. w = u @ v \<and> regex_match r u \<and> regex_match s v"
  then obtain u v where "w = u @ v" "regex_match r u" "regex_match s v" by blast
  then show "regex_match (Seq r s) w"
    by (auto simp: regex_match.simps(3) list_ex_iff simp del: upt_Suc intro!: bexI [of _ "length u"])
qed

lemma regex_match_Star_step:
  assumes "regex_match r u" and "regex_match (Star r) v"
  shows "regex_match (Star r) (u @ v)"
proof (cases "u = []")
  case False
  then have "Suc 0 \<le> length u" by (simp add: Suc_leI)
  with assms show ?thesis
    by (auto simp: regex_match.simps(5) [of r "u @ v"] list_ex_iff simp del: upt_Suc intro!: bexI [of _ "length u"])
qed (use assms in simp)

lemma regex_match_Star: "regex_match (Star r) w \<longleftrightarrow> (\<exists>ws. w = concat ws \<and> (\<forall>x \<in> set ws. regex_match r x))"
proof
  show "regex_match (Star r) w \<Longrightarrow> \<exists>ws. w = concat ws \<and> (\<forall>x \<in> set ws. regex_match r x)"
  proof (induction "length w" arbitrary: w rule: less_induct)
    case less
    show ?case
    proof (cases "w = []")
      case False
      with less.prems obtain i where i: "1 \<le> i" "i \<le> length w" "regex_match r (take i w)" "regex_match (Star r) (drop i w)"
        by (auto simp: regex_match.simps(5) [of r w] list_ex_iff simp del: upt_Suc)
      with False have "length (drop i w) < length w" by simp
      with less.hyps i(4) obtain ws where "drop i w = concat ws" "\<forall>x \<in> set ws. regex_match r x" by blast
      with i(3) have "w = concat (take i w # ws) \<and> (\<forall>x \<in> set (take i w # ws). regex_match r x)"
        by (metis append_take_drop_id concat.simps(2) set_ConsD)
      then show ?thesis by blast
    qed (auto intro!: exI [of _ "[]"])
  qed
next
  assume "\<exists>ws. w = concat ws \<and> (\<forall>x \<in> set ws. regex_match r x)"
  then obtain ws where "w = concat ws" "\<forall>x \<in> set ws. regex_match r x" by blast
  then show "regex_match (Star r) w"
  proof (induction ws arbitrary: w)
    case Nil
    then show ?case by (subst regex_match.simps) simp
  next
    case (Cons u ws)
    then show ?case by (simp add: regex_match_Star_step)
  qed
qed

section \<open>Counted repetitions and literals\<close>

fun regex_times :: "nat \<Rightarrow> regex \<Rightarrow> regex" where
  "regex_times 0 r = Empty"
| "regex_times (Suc n) r = Seq r (regex_times n r)"

text \<open>\<open>regex_upto m n r\<close> is \<open>r{m,n}\<close>.\<close>

fun regex_upto :: "nat \<Rightarrow> nat \<Rightarrow> regex \<Rightarrow> regex" where
  "regex_upto m 0 r = regex_times m r"
| "regex_upto m (Suc n) r =
     (if Suc n \<le> m then regex_times m r else Alt (regex_upto m n r) (regex_times (Suc n) r))"

fun regex_lit :: "string \<Rightarrow> regex" where
  "regex_lit [] = Empty"
| "regex_lit (c # s) = Seq (Class ((=) c)) (regex_lit s)"

definition regex_opt :: "regex \<Rightarrow> regex" where
  "regex_opt r = Alt Empty r"

lemma Ex_list_Suc: "(\<exists>ws. length ws = Suc n \<and> P ws) \<longleftrightarrow> (\<exists>u ws. length ws = n \<and> P (u # ws))"
  by (metis length_Suc_conv length_Cons)

lemma regex_match_times:
  "regex_match (regex_times n r) w \<longleftrightarrow> (\<exists>ws. length ws = n \<and> w = concat ws \<and> (\<forall>x \<in> set ws. regex_match r x))"
proof (induction n arbitrary: w)
  case (Suc n)
  have "regex_match (regex_times (Suc n) r) w \<longleftrightarrow>
      (\<exists>u ws. w = u @ concat ws \<and> regex_match r u \<and> length ws = n \<and> (\<forall>x \<in> set ws. regex_match r x))"
    unfolding regex_times.simps regex_match_Seq Suc by blast
  also have "\<dots> \<longleftrightarrow> (\<exists>ws. length ws = Suc n \<and> w = concat ws \<and> (\<forall>x \<in> set ws. regex_match r x))"
    by (simp add: Ex_list_Suc) blast
  finally show ?case .
qed auto

lemma regex_match_upto:
  assumes "m \<le> n"
  shows "regex_match (regex_upto m n r) w \<longleftrightarrow> (\<exists>k. m \<le> k \<and> k \<le> n \<and> regex_match (regex_times k r) w)"
  using assms
proof (induction n arbitrary: w)
  case (Suc n)
  show ?case
  proof (cases "m \<le> n")
    case True
    have "regex_upto m (Suc n) r = Alt (regex_upto m n r) (regex_times (Suc n) r)"
      using True by simp
    then have "regex_match (regex_upto m (Suc n) r) w \<longleftrightarrow>
        (\<exists>k. m \<le> k \<and> k \<le> n \<and> regex_match (regex_times k r) w) \<or> regex_match (regex_times (Suc n) r) w"
      using Suc.IH [OF True] by (simp only: regex_match.simps)
    with True show ?thesis using le_Suc_eq le_SucI by metis
  next
    case False
    with Suc.prems have m: "m = Suc n" by simp
    then have "regex_upto m (Suc n) r = regex_times m r" by simp
    then show ?thesis using m le_antisym by (metis order_refl)
  qed
qed auto

lemma regex_match_lit [simp]: "regex_match (regex_lit s) w \<longleftrightarrow> w = s"
  by (induction s arbitrary: w) (auto simp: regex_match_Seq)

lemma regex_match_opt: "regex_match (regex_opt r) w \<longleftrightarrow> w = [] \<or> regex_match r w"
  by (simp add: regex_opt_def)

text \<open>A repeated class takes a string of so many characters of the class.\<close>

lemma regex_match_Seq_Class: "regex_match (Seq (Class p) s) w \<longleftrightarrow> (\<exists>c v. w = c # v \<and> p c \<and> regex_match s v)"
  unfolding regex_match_Seq regex_match_Class by (metis append_Cons append_Nil)

lemma regex_match_times_Class: "regex_match (regex_times n (Class p)) w \<longleftrightarrow> length w = n \<and> list_all p w"
proof (induction n arbitrary: w)
  case (Suc n)
  show ?case by (cases w) (auto simp: regex_match_Seq_Class Suc)
qed auto

lemma regex_match_upto_Class:
  "m \<le> n \<Longrightarrow> regex_match (regex_upto m n (Class p)) w \<longleftrightarrow> m \<le> length w \<and> length w \<le> n \<and> list_all p w"
  by (auto simp: regex_match_upto regex_match_times_Class)

section \<open>Parts between separators\<close>

fun join_with :: "string \<Rightarrow> string list \<Rightarrow> string" where
  "join_with sep [] = []"
| "join_with sep [g] = g"
| "join_with sep (g # h # gs) = g @ sep @ join_with sep (h # gs)"

lemma join_with_Cons: "gs \<noteq> [] \<Longrightarrow> join_with sep (g # gs) = g @ sep @ join_with sep gs"
  by (cases gs) auto

lemma regex_match_Seq_assoc: "regex_match (Seq (Seq a b) c) w \<longleftrightarrow> regex_match (Seq a (Seq b c)) w"
  unfolding regex_match_Seq by (metis append.assoc)

lemma regex_match_Seq_lit: "regex_match (Seq (regex_lit s) r) w \<longleftrightarrow> (\<exists>v. w = s @ v \<and> regex_match r v)"
  by (auto simp: regex_match_Seq)

lemma regex_match_separated:
  "regex_match (Seq (regex_times n (Seq g (regex_lit sep))) g) w \<longleftrightarrow>
     (\<exists>gs. length gs = Suc n \<and> w = join_with sep gs \<and> (\<forall>x \<in> set gs. regex_match g x))"
proof (induction n arbitrary: w)
  case 0
  show ?case by (auto simp: regex_match_Seq Ex_list_Suc)
next
  case (Suc n)
  have "regex_match (Seq (regex_times (Suc n) (Seq g (regex_lit sep))) g) w \<longleftrightarrow>
      (\<exists>u v. w = u @ sep @ v \<and> regex_match g u \<and> regex_match (Seq (regex_times n (Seq g (regex_lit sep))) g) v)"
    unfolding regex_times.simps regex_match_Seq_assoc
    by (subst regex_match_Seq) (auto simp: regex_match_Seq_lit)
  also have "\<dots> \<longleftrightarrow> (\<exists>u gs. w = u @ sep @ join_with sep gs \<and> regex_match g u \<and> length gs = Suc n \<and> (\<forall>x \<in> set gs. regex_match g x))"
    unfolding Suc by blast
  also have "\<dots> \<longleftrightarrow> (\<exists>u gs. length gs = Suc n \<and> w = join_with sep (u # gs) \<and> (\<forall>x \<in> set (u # gs). regex_match g x))"
  proof (intro ex_cong1)
    show "(w = u @ sep @ join_with sep gs \<and> regex_match g u \<and> length gs = Suc n \<and> (\<forall>x \<in> set gs. regex_match g x)) \<longleftrightarrow>
        (length gs = Suc n \<and> w = join_with sep (u # gs) \<and> (\<forall>x \<in> set (u # gs). regex_match g x))" for u gs
      by (cases gs) auto
  qed
  also have "\<dots> \<longleftrightarrow> (\<exists>gs. length gs = Suc (Suc n) \<and> w = join_with sep gs \<and> (\<forall>x \<in> set gs. regex_match g x))"
    by (simp only: Ex_list_Suc [of "Suc n"])
  finally show ?case .
qed

end
