(* ===== verification/Flags.thy ===== *)
theory Flags
  imports Regex_Match
begin

text \<open>
  The options of the programs, \<^verbatim>\<open>misc/flags/flag.cc\<close>: their defaults, the checks registered for them, the forms of
  addresses that the checks accept, and \<^verbatim>\<open>parse_flags\<close>, which fills in the defaults that depend on other
  options. The parser of the command line is a parameter; all that is asked of it is that it has called the
  checks registered for the options, and that an exception of a check leaves it. Generator and distribution of the
  random tokens are left to the standard library by the language: the parameter \<open>gen\<close> is the number drawn from a seed
  at a place.
\<close>

section \<open>The options\<close>

record flags =
  fl_string :: "string \<Rightarrow> string"
  fl_int :: "string \<Rightarrow> int"
  fl_bool :: "string \<Rightarrow> bool"

text \<open>The default of \<open>mana_api_address\<close> is the one of \<open>stor_taskdep_addr\<close>, which is read before any option is set.\<close>

definition string_flags :: "(string \<times> string) list" where
  "string_flags =
     [(''comp_cert'', []), (''comp_key'', []), (''comp_ca'', []),
      (''comp_api_address'', ''localhost''), (''comp_api_cert'', []), (''comp_api_key'', []),
      (''comp_api_ca'', []), (''comp_comp_token'', []), (''comp_mana_token'', []),
      (''comp_stor_token'', []), (''comp_comp_name'', []), (''comp_comp_addr'', ''localhost''),
      (''comp_comp_peer_addr'', []), (''comp_comp_cert'', []), (''comp_comp_key'', []),
      (''comp_comp_ca'', []), (''comp_datatrans_remote_addr'', []), (''comp_datatrans_remote_proto'', ''builtin''),
      (''comp_datatrans_bind_addr'', ''localhost''), (''comp_datatrans_ca'', []), (''comp_taskdep_addr'', ''localhost''),
      (''comp_taskdep_cert'', []), (''comp_taskdep_key'', []), (''comp_taskdep_ca'', []),
      (''comp_taskdep_stor_addr'', []), (''comp_taskdep_cli_addr'', ''localhost''), (''stor_cert'', []),
      (''stor_key'', []), (''stor_ca'', []), (''stor_api_address'', ''localhost''),
      (''stor_api_cert'', []), (''stor_api_key'', []), (''stor_api_ca'', []),
      (''stor_comp_token'', []), (''stor_mana_token'', []), (''stor_stor_token'', []),
      (''stor_datatrans_addr'', ''localhost''), (''stor_datatrans_cert'', []), (''stor_datatrans_key'', []),
      (''stor_datatrans_ca'', []), (''stor_backend'', ''local''), (''stor_path'', []),
      (''stor_remote_addr'', []), (''stor_taskdep_addr'', ''localhost''), (''stor_taskdep_cert'', []),
      (''stor_taskdep_key'', []), (''stor_taskdep_ca'', []), (''mana_cert'', []),
      (''mana_key'', []), (''mana_ca'', []), (''mana_api_address'', ''localhost''),
      (''mana_api_cert'', []), (''mana_api_key'', []), (''mana_api_ca'', []),
      (''mana_comp_token'', []), (''mana_mana_token'', []), (''mana_stor_token'', []),
      (''mana_datasource_addr'', ''localhost''), (''mana_datasource_cert'', []), (''mana_datasource_key'', []),
      (''mana_datasource_ca'', []), (''mana_taskdep_addr'', ''localhost''), (''mana_taskdep_comp_addr'', []),
      (''mana_taskdep_stor_addr'', [])]"

definition int_flags :: "(string \<times> int) list" where
  "int_flags =
     [(''comp_api_port'', 5983), (''comp_comp_port'', 2667), (''comp_comp_peer_port'', 0),
      (''comp_datatrans_remote_port'', 0), (''comp_taskdep_port'', 8537), (''comp_taskdep_stor_port'', 8537),
      (''stor_api_port'', 5983), (''stor_datatrans_port'', 3887), (''stor_remote_port'', 0),
      (''stor_taskdep_port'', 8537), (''mana_api_port'', 5983), (''mana_datasource_port'', 3877),
      (''mana_taskdep_comp_port'', 8537), (''mana_taskdep_stor_port'', 8537)]"

definition bool_flags :: "(string \<times> bool) list" where
  "bool_flags =
     [(''comp_comp_boot'', True), (''comp_datatrans_ssl'', False), (''stor_creat'', False)]"

definition default_flags :: flags where
  "default_flags =
     \<lparr>fl_string = (\<lambda>n. case map_of string_flags n of Some v \<Rightarrow> v | None \<Rightarrow> []),
      fl_int = (\<lambda>n. case map_of int_flags n of Some v \<Rightarrow> v | None \<Rightarrow> 0),
      fl_bool = (\<lambda>n. case map_of bool_flags n of Some v \<Rightarrow> v | None \<Rightarrow> False)\<rparr>"

definition set_string :: "string \<Rightarrow> string \<Rightarrow> flags \<Rightarrow> flags" where
  "set_string n v f = f\<lparr>fl_string := (fl_string f)(n := v)\<rparr>"

section \<open>Addresses\<close>

text \<open>The classes \<^verbatim>\<open>[0-9A-F]\<close> and \<^verbatim>\<open>[0-9a-f]\<close> are the same, since the expressions ignore case.\<close>

definition hex_char :: "char \<Rightarrow> bool" where
  "hex_char c \<longleftrightarrow> c \<in> set ''0123456789abcdefABCDEF''"

definition dec_char :: "char \<Rightarrow> bool" where
  "dec_char c \<longleftrightarrow> c \<in> set ''0123456789''"

definition ipv6_full :: regex where
  "ipv6_full =
     Seq (regex_lit ''['') (Seq (regex_times 7 (Seq (regex_upto 1 4 (Class hex_char)) (regex_lit '':'')))
       (Seq (regex_upto 1 4 (Class hex_char)) (regex_lit '']'')))"

text \<open>\<^verbatim>\<open>[0-9a-f]([0-9a-f]{0,3}:[0-9a-f])*[0-9a-f]{0,3}\<close>\<close>

definition ipv6_groups :: regex where
  "ipv6_groups =
     Seq (Class hex_char) (Seq (Star (Seq (regex_upto 0 3 (Class hex_char)) (Seq (regex_lit '':'') (Class hex_char))))
       (regex_upto 0 3 (Class hex_char)))"

definition ipv6_omit :: regex where
  "ipv6_omit =
     Seq (regex_lit ''['') (Seq (Alt (Seq ipv6_groups (regex_lit '':'')) (regex_lit '':''))
       (Seq (regex_lit '':'') (Seq (regex_opt ipv6_groups) (regex_lit '']''))))"

definition check_IPV6 :: "string \<Rightarrow> bool" where
  "check_IPV6 str =
     (if regex_match ipv6_full str then True
      else if regex_match ipv6_omit str then count_list str CHR '':'' \<le> 7
      else False)"

definition ipv4 :: regex where
  "ipv4 =
     Alt (regex_lit ''localhost'')
       (Seq (regex_times 3 (Seq (regex_upto 1 3 (Class dec_char)) (regex_lit ''.''))) (regex_upto 1 3 (Class dec_char)))"

definition check_IPV4 :: "string \<Rightarrow> bool" where
  "check_IPV4 str = regex_match ipv4 str"

section \<open>Checks\<close>

text \<open>The texts of the \<^verbatim>\<open>std::logic_error\<close>s the checks throw; a check that returns returns true.\<close>

datatype flag_error = Missing_field | Token_length | Illegal_address

definition required_string_field :: "string \<Rightarrow> flag_error + bool" where
  "required_string_field value = (if value = [] then Inl Missing_field else Inr True)"

definition required_int_field :: "int \<Rightarrow> flag_error + bool" where
  "required_int_field value = (if value = 0 then Inl Missing_field else Inr True)"

definition required_token :: "string \<Rightarrow> flag_error + bool" where
  "required_token value =
     (if value = [] then Inl Missing_field else if length value \<noteq> 128 then Inl Token_length else Inr True)"

definition token_length_check :: "string \<Rightarrow> flag_error + bool" where
  "token_length_check value = (if value \<noteq> [] \<and> length value \<noteq> 128 then Inl Token_length else Inr True)"

definition addr_check :: "string \<Rightarrow> flag_error + bool" where
  "addr_check value =
     (if value \<noteq> [] \<and> \<not> (check_IPV6 value \<or> check_IPV4 value) then Inl Illegal_address else Inr True)"

definition required_addr_check :: "string \<Rightarrow> flag_error + bool" where
  "required_addr_check value =
     (if value = [] then Inl Missing_field
      else if \<not> (check_IPV4 value \<or> check_IPV6 value) then Inl Illegal_address else Inr True)"

datatype check = Addr_check | Token_length_check | Required_token | Required_int | Required_string

definition validators :: "(string \<times> check) list" where
  "validators =
     [(''comp_api_address'', Addr_check), (''comp_comp_addr'', Addr_check),
      (''comp_datatrans_bind_addr'', Addr_check), (''comp_taskdep_addr'', Addr_check),
      (''comp_taskdep_cli_addr'', Addr_check), (''stor_api_address'', Addr_check),
      (''stor_datatrans_addr'', Addr_check), (''stor_remote_addr'', Addr_check),
      (''stor_taskdep_addr'', Addr_check), (''mana_api_address'', Addr_check),
      (''mana_datasource_ca'', Addr_check), (''mana_taskdep_addr'', Addr_check),
      (''comp_comp_token'', Token_length_check), (''stor_stor_token'', Token_length_check),
      (''mana_mana_token'', Token_length_check), (''comp_mana_token'', Required_token),
      (''comp_stor_token'', Required_token), (''stor_comp_token'', Required_token),
      (''stor_mana_token'', Required_token), (''mana_comp_token'', Required_token),
      (''mana_stor_token'', Required_token), (''comp_datatrans_remote_port'', Required_int),
      (''comp_comp_name'', Required_string), (''stor_backend'', Required_string),
      (''stor_path'', Required_string)]"

fun run_check :: "flags \<Rightarrow> string \<times> check \<Rightarrow> flag_error + bool" where
  "run_check f (n, Addr_check) = addr_check (fl_string f n)"
| "run_check f (n, Token_length_check) = token_length_check (fl_string f n)"
| "run_check f (n, Required_token) = required_token (fl_string f n)"
| "run_check f (n, Required_int) = required_int_field (fl_int f n)"
| "run_check f (n, Required_string) = required_string_field (fl_string f n)"

definition validated :: "flags \<Rightarrow> bool" where
  "validated f \<longleftrightarrow> list_all (\<lambda>v. run_check f v = Inr True) validators"

section \<open>Tokens, keys and the start\<close>

definition rand_str :: "(nat \<Rightarrow> nat \<Rightarrow> int) \<Rightarrow> nat \<Rightarrow> int \<Rightarrow> string" where
  "rand_str gen seed str_leng = map (\<lambda>i. char_of (gen seed i)) [0..<nat str_leng]"

text \<open>The length is unsigned: for a shorter text \<^verbatim>\<open>length() - 4\<close> wraps, and the whole text is taken.\<close>

definition key_default_value :: "string \<Rightarrow> string" where
  "key_default_value str = take (unat (of_nat (length str) - 4 :: u64)) str @ ''.key''"

definition set_default :: "string \<Rightarrow> (flags \<Rightarrow> string) \<Rightarrow> flags \<Rightarrow> flags" where
  "set_default n v f = (if fl_string f n = [] then set_string n (v f) f else f)"

definition inherited_flags :: "(string \<times> string) list" where
  "inherited_flags =
     [(''comp_api_cert'', ''comp_cert''), (''comp_api_key'', ''comp_key''),
      (''comp_api_ca'', ''comp_ca''), (''comp_comp_cert'', ''comp_cert''),
      (''comp_comp_key'', ''comp_key''), (''comp_comp_ca'', ''comp_ca''),
      (''comp_taskdep_cert'', ''comp_cert''), (''comp_taskdep_key'', ''comp_key''),
      (''comp_taskdep_ca'', ''comp_ca''), (''stor_api_cert'', ''stor_cert''),
      (''stor_api_key'', ''stor_key''), (''stor_api_ca'', ''stor_ca''),
      (''stor_datatrans_cert'', ''stor_cert''), (''stor_datatrans_key'', ''stor_key''),
      (''stor_datatrans_ca'', ''stor_ca''), (''stor_taskdep_cert'', ''stor_cert''),
      (''stor_taskdep_key'', ''stor_key''), (''stor_taskdep_ca'', ''stor_ca''),
      (''mana_api_cert'', ''mana_cert''), (''mana_api_key'', ''mana_key''),
      (''mana_api_ca'', ''mana_ca'')]"

fun flag_bind :: "flag_error + 'a \<Rightarrow> ('a \<Rightarrow> flag_error + 'b) \<Rightarrow> flag_error + 'b" where
  "flag_bind (Inl e) g = Inl e"
| "flag_bind (Inr x) g = g x"

definition conditional_checks :: "flags \<Rightarrow> flag_error + bool" where
  "conditional_checks f =
     flag_bind (if \<not> fl_bool f ''comp_comp_boot'' then required_addr_check (fl_string f ''comp_comp_peer_addr'') else Inr True)
       (\<lambda>_. flag_bind (if \<not> fl_bool f ''comp_comp_boot'' then required_int_field (fl_int f ''comp_comp_peer_port'') else Inr True)
         (\<lambda>_. if fl_string f ''stor_remote_addr'' \<noteq> [] then required_int_field (fl_int f ''stor_remote_port'') else Inr True))"

definition default_keys :: "flags \<Rightarrow> flags" where
  "default_keys f0 =
     (let f1 = set_default ''comp_key'' (\<lambda>f. key_default_value (fl_string f ''comp_cert'')) f0;
          f2 = set_default ''stor_key'' (\<lambda>f. key_default_value (fl_string f ''stor_cert'')) f1
      in set_default ''mana_key'' (\<lambda>f. key_default_value (fl_string f ''mana_cert'')) f2)"

text \<open>\<open>clock i\<close> is what \<^verbatim>\<open>time(0)\<close> returns for the \<open>i\<close>-th token.\<close>

definition default_tokens :: "(nat \<Rightarrow> nat \<Rightarrow> int) \<Rightarrow> (nat \<Rightarrow> nat) \<Rightarrow> flags \<Rightarrow> flags" where
  "default_tokens gen clock f0 =
     (let f1 = set_default ''comp_comp_token'' (\<lambda>_. rand_str gen (clock 0) 128) f0;
          f2 = set_default ''stor_stor_token'' (\<lambda>_. rand_str gen (clock 1) 128) f1
      in set_default ''mana_mana_token'' (\<lambda>_. rand_str gen (clock 2) 128) f2)"

definition inherit_flags :: "flags \<Rightarrow> flags" where
  "inherit_flags f = fold (\<lambda>(n, from). set_default n (\<lambda>f. fl_string f from)) inherited_flags f"

definition parse_flags ::
  "(flags \<Rightarrow> flag_error + flags) \<Rightarrow> (nat \<Rightarrow> nat \<Rightarrow> int) \<Rightarrow> (nat \<Rightarrow> nat) \<Rightarrow> flags \<Rightarrow> flag_error + flags" where
  "parse_flags gflags gen clock f0 =
     flag_bind (gflags f0) (\<lambda>f1. flag_bind (conditional_checks f1) (\<lambda>_.
       Inr (inherit_flags (default_tokens gen clock (default_keys f1)))))"

section \<open>What the checks accept\<close>

definition hex_group :: "string \<Rightarrow> bool" where
  "hex_group g \<longleftrightarrow> 1 \<le> length g \<and> length g \<le> 4 \<and> list_all hex_char g"

definition dec_group :: "string \<Rightarrow> bool" where
  "dec_group g \<longleftrightarrow> 1 \<le> length g \<and> length g \<le> 3 \<and> list_all dec_char g"

abbreviation colons :: "string list \<Rightarrow> string" where
  "colons \<equiv> join_with '':''"

lemma groups_of_pieces:
  "\<forall>x \<in> set ws. \<exists>u h. x = u @ [CHR '':'', h] \<and> length u \<le> 3 \<and> list_all hex_char u \<and> hex_char h \<Longrightarrow>
   hex_char c \<Longrightarrow> length t \<le> 3 \<Longrightarrow> list_all hex_char t \<Longrightarrow>
   \<exists>gs. gs \<noteq> [] \<and> c # concat ws @ t = colons gs \<and> list_all hex_group gs"
proof (induction ws arbitrary: c)
  case Nil
  then show ?case by (intro exI [of _ "[c # t]"]) (simp add: hex_group_def)
next
  case (Cons x ws)
  then obtain u h where x: "x = u @ [CHR '':'', h]" "length u \<le> 3" "list_all hex_char u" "hex_char h" by auto
  with Cons obtain gs where "gs \<noteq> []" "h # concat ws @ t = colons gs" "list_all hex_group gs" by auto
  with x Cons.prems(2) show ?case
    by (intro exI [of _ "(c # u) # gs"]) (simp add: join_with_Cons hex_group_def [of "c # u"])
qed

lemma pieces_of_groups:
  "gs \<noteq> [] \<Longrightarrow> list_all hex_group gs \<Longrightarrow>
   \<exists>c ws t. colons gs = c # concat ws @ t \<and> hex_char c \<and> length t \<le> 3 \<and> list_all hex_char t \<and>
     (\<forall>x \<in> set ws. \<exists>u h. x = u @ [CHR '':'', h] \<and> length u \<le> 3 \<and> list_all hex_char u \<and> hex_char h)"
proof (induction gs)
  case (Cons g gs)
  then obtain c u where g: "g = c # u" "hex_char c" "length u \<le> 3" "list_all hex_char u"
    by (cases g) (auto simp: hex_group_def)
  show ?case
  proof (cases "gs = []")
    case True
    with g show ?thesis by (intro exI [of _ c] exI [of _ "[]"] exI [of _ u]) simp
  next
    case False
    with Cons obtain h ws t where h: "colons gs = h # concat ws @ t" "hex_char h" "length t \<le> 3" "list_all hex_char t"
      "\<forall>x \<in> set ws. \<exists>u h. x = u @ [CHR '':'', h] \<and> length u \<le> 3 \<and> list_all hex_char u \<and> hex_char h"
      by auto
    have "colons (g # gs) = c # concat ((u @ [CHR '':'', h]) # ws) @ t"
      using h(1) g(1) False by (simp add: join_with_Cons)
    moreover have "\<forall>x \<in> set ((u @ [CHR '':'', h]) # ws). \<exists>u h. x = u @ [CHR '':'', h] \<and> length u \<le> 3 \<and> list_all hex_char u \<and> hex_char h"
      using h(2,5) g(3,4) by auto
    ultimately show ?thesis using g(2) h(3,4) by blast
  qed
qed simp

lemma ipv6_groups_iff:
  "regex_match ipv6_groups w \<longleftrightarrow> (\<exists>gs. gs \<noteq> [] \<and> w = colons gs \<and> list_all hex_group gs)"
proof -
  have piece: "regex_match (Seq (regex_upto 0 3 (Class hex_char)) (Seq (regex_lit '':'') (Class hex_char))) x \<longleftrightarrow>
      (\<exists>u h. x = u @ [CHR '':'', h] \<and> length u \<le> 3 \<and> list_all hex_char u \<and> hex_char h)" for x
    unfolding regex_match_Seq [of "regex_upto 0 3 (Class hex_char)"] regex_match_Seq_lit
    by (auto simp: regex_match_upto_Class simp del: regex_upto.simps)
  have "regex_match ipv6_groups w \<longleftrightarrow> (\<exists>c ws t. w = c # concat ws @ t \<and> hex_char c \<and> length t \<le> 3 \<and> list_all hex_char t \<and>
     (\<forall>x \<in> set ws. \<exists>u h. x = u @ [CHR '':'', h] \<and> length u \<le> 3 \<and> list_all hex_char u \<and> hex_char h))"
    unfolding ipv6_groups_def regex_match_Seq_Class regex_match_Seq [of "Star _"] regex_match_Star piece
    by (auto simp: regex_match_upto_Class simp del: regex_upto.simps) blast+
  then show ?thesis using groups_of_pieces pieces_of_groups by metis
qed

lemma hex_group_match: "regex_match (regex_upto 1 4 (Class hex_char)) g \<longleftrightarrow> hex_group g"
  by (simp add: regex_match_upto_Class hex_group_def del: regex_upto.simps)

lemma dec_group_match: "regex_match (regex_upto 1 3 (Class dec_char)) g \<longleftrightarrow> dec_group g"
  by (simp add: regex_match_upto_Class dec_group_def del: regex_upto.simps)

lemma ipv6_full_iff:
  "regex_match ipv6_full str \<longleftrightarrow> (\<exists>gs. str = ''['' @ colons gs @ '']'' \<and> length gs = 8 \<and> list_all hex_group gs)"
proof -
  have "regex_match ipv6_full str \<longleftrightarrow>
      (\<exists>v. str = ''['' @ v @ '']'' \<and> regex_match (Seq (regex_times 7 (Seq (regex_upto 1 4 (Class hex_char)) (regex_lit '':''))) (regex_upto 1 4 (Class hex_char))) v)"
    unfolding ipv6_full_def regex_match_Seq_lit
    by (simp only: regex_match_Seq_assoc [symmetric]) (auto simp only: regex_match_Seq [of "Seq _ _"] regex_match_lit)
  then show ?thesis
    unfolding regex_match_separated hex_group_match by (auto simp: list_all_iff)
qed

lemma ipv6_omit_iff:
  "regex_match ipv6_omit str \<longleftrightarrow>
     (\<exists>gs hs. str = ''['' @ colons gs @ ''::'' @ colons hs @ '']'' \<and> list_all hex_group (gs @ hs))"
proof -
  have nil_or: "(\<exists>gs. P gs) \<longleftrightarrow> P [] \<or> (\<exists>gs. gs \<noteq> [] \<and> P gs)" for P :: "string list \<Rightarrow> bool"
    by metis
  have left: "regex_match (Alt (Seq ipv6_groups (regex_lit '':'')) (regex_lit '':'')) u \<longleftrightarrow>
      (\<exists>gs. u = colons gs @ '':'' \<and> list_all hex_group gs)" for u
    by (subst nil_or) (auto simp: regex_match_Seq ipv6_groups_iff)
  have right: "regex_match (regex_opt ipv6_groups) u \<longleftrightarrow> (\<exists>hs. u = colons hs \<and> list_all hex_group hs)" for u
    by (subst nil_or) (auto simp: regex_match_opt ipv6_groups_iff)
  have "regex_match ipv6_omit str \<longleftrightarrow> (\<exists>gs hs. str = ''['' @ (colons gs @ '':'') @ '':'' @ colons hs @ '']'' \<and>
      list_all hex_group gs \<and> list_all hex_group hs)"
    unfolding ipv6_omit_def regex_match_Seq_lit
    by (subst regex_match_Seq) (auto simp only: left regex_match_Seq_lit regex_match_Seq [of "regex_opt _"] right regex_match_lit, blast+)
  then show ?thesis by simp
qed

lemma count_colons: "list_all hex_group gs \<Longrightarrow> count_list (colons gs) CHR '':'' = length gs - 1"
proof (induction gs)
  case (Cons g gs)
  have "\<not> hex_char CHR '':''" by (simp add: hex_char_def)
  with Cons.prems have "CHR '':'' \<notin> set g"
    unfolding hex_group_def list_all_iff by fastforce
  then have "count_list g CHR '':'' = 0" by (simp add: count_list_0_iff)
  moreover have "count_list (colons gs) CHR '':'' = length gs - 1"
    using Cons by simp
  ultimately show ?case by (cases gs) simp_all
qed simp

text \<open>
  C34: the IPv6 check accepts an address in brackets: eight groups of one to four hexadecimal digits with colons
  between them, or groups on both sides of one double colon, as long as there are at most seven colons.
\<close>

theorem check_IPV6_iff:
  "check_IPV6 str \<longleftrightarrow>
     (\<exists>gs. str = ''['' @ colons gs @ '']'' \<and> length gs = 8 \<and> list_all hex_group gs) \<or>
     (\<exists>gs hs. str = ''['' @ colons gs @ ''::'' @ colons hs @ '']'' \<and> list_all hex_group (gs @ hs) \<and>
        (length gs - 1) + 2 + (length hs - 1) \<le> 7)"
proof -
  have "count_list str CHR '':'' = (length gs - 1) + 2 + (length hs - 1)"
    if "str = ''['' @ colons gs @ ''::'' @ colons hs @ '']''" and "list_all hex_group (gs @ hs)" for gs hs
    using that by (simp add: count_list_append count_colons)
  then have "regex_match ipv6_omit str \<and> count_list str CHR '':'' \<le> 7 \<longleftrightarrow>
      (\<exists>gs hs. str = ''['' @ colons gs @ ''::'' @ colons hs @ '']'' \<and> list_all hex_group (gs @ hs) \<and>
        (length gs - 1) + 2 + (length hs - 1) \<le> 7)"
    unfolding ipv6_omit_iff by metis
  moreover have "check_IPV6 str \<longleftrightarrow> regex_match ipv6_full str \<or> regex_match ipv6_omit str \<and> count_list str CHR '':'' \<le> 7"
    by (simp add: check_IPV6_def)
  ultimately show ?thesis unfolding ipv6_full_iff by simp
qed

theorem check_IPV4_iff:
  "check_IPV4 str \<longleftrightarrow>
     str = ''localhost'' \<or> (\<exists>gs. str = join_with ''.'' gs \<and> length gs = 4 \<and> list_all dec_group gs)"
  unfolding check_IPV4_def ipv4_def regex_match.simps(4) regex_match_separated dec_group_match regex_match_lit
  by (auto simp: list_all_iff)

section \<open>The options after the start\<close>

lemma fold_set_default:
  "distinct (map fst t) \<Longrightarrow> fst ` set t \<inter> snd ` set t = {} \<Longrightarrow>
   fl_string (fold (\<lambda>(n, from). set_default n (\<lambda>f. fl_string f from)) t f) n =
     (case map_of t n of
        Some from \<Rightarrow> if fl_string f n = [] then fl_string f from else fl_string f n
      | None \<Rightarrow> fl_string f n)"
proof (induction t arbitrary: f)
  case (Cons e t)
  obtain m s where e: "e = (m, s)" by (cases e)
  let ?f = "set_default m (\<lambda>f. fl_string f s) f"
  have same: "fl_string ?f k = fl_string f k" if "k \<noteq> m" for k
    using that by (simp add: set_default_def set_string_def)
  have new: "fl_string ?f m = (if fl_string f m = [] then fl_string f s else fl_string f m)"
    by (simp add: set_default_def set_string_def)
  have IH: "fl_string (fold (\<lambda>(n, from). set_default n (\<lambda>f. fl_string f from)) t ?f) n =
     (case map_of t n of Some from \<Rightarrow> if fl_string ?f n = [] then fl_string ?f from else fl_string ?f n
      | None \<Rightarrow> fl_string ?f n)"
    by (rule Cons.IH) (use Cons.prems in auto)
  show ?case
  proof (cases "n = m")
    case True
    have "map_of t m = None" using Cons.prems(1) e by (auto simp: map_of_eq_None_iff)
    with True e IH new show ?thesis by simp
  next
    case False
    show ?thesis
    proof (cases "map_of t n")
      case None
      with IH False e same [OF False] show ?thesis by simp
    next
      case (Some src)
      then have "src \<in> snd ` set t" using map_of_SomeD by (metis image_eqI snd_conv)
      moreover have "m \<notin> snd ` set t" using Cons.prems(2) e by simp
      ultimately have "src \<noteq> m" by blast
      with Some IH False e same [of src] same [OF False] show ?thesis by simp
    qed
  qed
qed simp

text \<open>The first and sixth character and the last one tell the options apart that inherit, the length those they inherit from.\<close>

lemma inherited_flags_ok: "distinct (map fst inherited_flags)" "fst ` set inherited_flags \<inter> snd ` set inherited_flags = {}"
proof -
  have "distinct (map (\<lambda>n. (hd n, n ! 5, last n)) (map fst inherited_flags))"
    by (simp add: inherited_flags_def)
  then show "distinct (map fst inherited_flags)" unfolding distinct_map by blast
  have "\<forall>e \<in> set inherited_flags. 10 < length (fst e) \<and> length (snd e) < 10"
    by (simp add: inherited_flags_def)
  then show "fst ` set inherited_flags \<inter> snd ` set inherited_flags = {}"
    unfolding disjoint_iff image_iff by (metis less_asym)
qed

lemma inherit_flags_string:
  "fl_string (inherit_flags f) n =
     (case map_of inherited_flags n of
        Some from \<Rightarrow> if fl_string f n = [] then fl_string f from else fl_string f n
      | None \<Rightarrow> fl_string f n)"
  unfolding inherit_flags_def by (rule fold_set_default [OF inherited_flags_ok])

lemma length_rand_str [simp]: "length (rand_str gen seed k) = nat k"
  by (simp add: rand_str_def)

lemma flag_bind_Inr [simp]: "flag_bind m g = Inr y \<longleftrightarrow> (\<exists>x. m = Inr x \<and> g x = Inr y)"
  by (cases m) auto

lemma parse_flags_Inr:
  "parse_flags gflags gen clock f0 = Inr f \<longleftrightarrow>
     (\<exists>f1. gflags f0 = Inr f1 \<and> (\<exists>b. conditional_checks f1 = Inr b) \<and>
        f = inherit_flags (default_tokens gen clock (default_keys f1)))"
  by (auto simp: parse_flags_def)

lemma set_default_string:
  "fl_string (set_default n v f) k = (if k = n \<and> fl_string f n = [] then v f else fl_string f k)"
  by (simp add: set_default_def set_string_def)

lemma default_tokens_string:
  "fl_string (default_tokens gen clock f) n =
     (if fl_string f n \<noteq> [] then fl_string f n
      else if n = ''comp_comp_token'' then rand_str gen (clock 0) 128
      else if n = ''stor_stor_token'' then rand_str gen (clock 1) 128
      else if n = ''mana_mana_token'' then rand_str gen (clock 2) 128 else [])"
  by (simp add: default_tokens_def Let_def set_default_string)

lemma default_keys_string:
  "fl_string (default_keys f) n =
     (if fl_string f n \<noteq> [] then fl_string f n
      else if n = ''comp_key'' then key_default_value (fl_string f ''comp_cert'')
      else if n = ''stor_key'' then key_default_value (fl_string f ''stor_cert'')
      else if n = ''mana_key'' then key_default_value (fl_string f ''mana_cert'') else [])"
  by (simp add: default_keys_def Let_def set_default_string)

text \<open>Every option of the started program, in terms of what the command line has set.\<close>

lemma started_string:
  "fl_string (inherit_flags (default_tokens gen clock (default_keys f1))) n =
     (if fl_string f1 n \<noteq> [] then fl_string f1 n
      else case map_of inherited_flags n of
        Some from \<Rightarrow> fl_string (default_keys f1) from
      | None \<Rightarrow> fl_string (default_tokens gen clock (default_keys f1)) n)"
proof (cases "map_of inherited_flags n")
  case None
  then show ?thesis
    by (simp add: inherit_flags_string default_tokens_string default_keys_string)
next
  case (Some src)
  then have n: "n \<notin> {''comp_comp_token'', ''stor_stor_token'', ''mana_mana_token'', ''comp_key'', ''stor_key'', ''mana_key''}"
    and src: "src \<notin> {''comp_comp_token'', ''stor_stor_token'', ''mana_mana_token''}"
    using map_of_SomeD [OF Some] by (auto simp: inherited_flags_def)
  have "fl_string (default_tokens gen clock (default_keys f1)) n = fl_string f1 n"
    using n by (simp add: default_tokens_string default_keys_string)
  moreover have "fl_string (default_tokens gen clock (default_keys f1)) src = fl_string (default_keys f1) src"
    using src by (simp add: default_tokens_string)
  ultimately show ?thesis
    using Some by (simp add: inherit_flags_string)
qed

lemma started_int_bool:
  "fl_int (inherit_flags (default_tokens gen clock (default_keys f))) = fl_int f \<and>
   fl_bool (inherit_flags (default_tokens gen clock (default_keys f))) = fl_bool f"
proof -
  have set: "fl_int (set_default n v g) = fl_int g \<and> fl_bool (set_default n v g) = fl_bool g" for n v g
    by (simp add: set_default_def set_string_def)
  have "fl_int (fold (\<lambda>(n, from). set_default n (\<lambda>f. fl_string f from)) t g) = fl_int g \<and>
      fl_bool (fold (\<lambda>(n, from). set_default n (\<lambda>f. fl_string f from)) t g) = fl_bool g" for t g
    by (induction t arbitrary: g) (auto simp: set)
  then show ?thesis by (simp add: inherit_flags_def default_tokens_def default_keys_def Let_def set)
qed

lemma inherited_names:
  assumes "(n, src) \<in> set inherited_flags"
  shows "map_of inherited_flags n = Some src" and "map_of inherited_flags src = None"
    and "last n \<noteq> CHR ''n''" and "last src \<noteq> CHR ''n''"
proof -
  show "map_of inherited_flags n = Some src"
    using map_of_is_SomeI [OF inherited_flags_ok(1) assms] .
  have "src \<notin> fst ` set inherited_flags"
    using assms inherited_flags_ok(2) unfolding disjoint_iff by (metis image_eqI snd_conv)
  then show "map_of inherited_flags src = None" by (simp add: map_of_eq_None_iff)
  have "\<forall>e \<in> set inherited_flags. last (fst e) \<noteq> CHR ''n'' \<and> last (snd e) \<noteq> CHR ''n''"
    by (simp add: inherited_flags_def)
  with assms show "last n \<noteq> CHR ''n''" and "last src \<noteq> CHR ''n''" by fastforce+
qed

lemma token_not_inherited: "last n = CHR ''n'' \<Longrightarrow> map_of inherited_flags n = None"
  using inherited_names(3) by (metis map_of_SomeD option.exhaust)

lemma required_iff:
  "required_token v = Inr True \<longleftrightarrow> length v = 128"
  "token_length_check v = Inr True \<longleftrightarrow> v = [] \<or> length v = 128"
  "required_string_field v = Inr True \<longleftrightarrow> v \<noteq> []"
  "required_int_field i = Inr True \<longleftrightarrow> i \<noteq> 0"
  "addr_check v = Inr True \<longleftrightarrow> v = [] \<or> check_IPV6 v \<or> check_IPV4 v"
  by (auto simp: required_token_def token_length_check_def required_string_field_def required_int_field_def addr_check_def)

lemma validated_iff:
  "validated f \<longleftrightarrow>
     (\<forall>n \<in> {''comp_api_address'', ''comp_comp_addr'', ''comp_datatrans_bind_addr'', ''comp_taskdep_addr'',
         ''comp_taskdep_cli_addr'', ''stor_api_address'', ''stor_datatrans_addr'', ''stor_remote_addr'', ''stor_taskdep_addr'',
         ''mana_api_address'', ''mana_datasource_ca'', ''mana_taskdep_addr''}.
        fl_string f n = [] \<or> check_IPV6 (fl_string f n) \<or> check_IPV4 (fl_string f n)) \<and>
     (\<forall>n \<in> {''comp_comp_token'', ''stor_stor_token'', ''mana_mana_token''}.
        fl_string f n = [] \<or> length (fl_string f n) = 128) \<and>
     (\<forall>n \<in> {''comp_mana_token'', ''comp_stor_token'', ''stor_comp_token'', ''stor_mana_token'', ''mana_comp_token'', ''mana_stor_token''}.
        length (fl_string f n) = 128) \<and>
     fl_int f ''comp_datatrans_remote_port'' \<noteq> 0 \<and>
     (\<forall>n \<in> {''comp_comp_name'', ''stor_backend'', ''stor_path''}. fl_string f n \<noteq> [])"
  by (simp add: validated_def validators_def required_iff)

lemma default_token_length:
  "fl_string f1 n = [] \<Longrightarrow> n = ''comp_comp_token'' \<or> n = ''stor_stor_token'' \<or> n = ''mana_mana_token'' \<Longrightarrow>
     length (fl_string (default_tokens gen clock (default_keys f1)) n) = 128"
  by (elim disjE) (simp_all add: default_tokens_string default_keys_string)

lemma inherited_value:
  assumes "(n, src) \<in> set inherited_flags" and "fl_string f1 n = []"
  shows "fl_string (inherit_flags (default_tokens gen clock (default_keys f1))) n =
    fl_string (inherit_flags (default_tokens gen clock (default_keys f1))) src"
proof -
  note names = inherited_names [OF assms(1)]
  have "src \<notin> {''comp_comp_token'', ''stor_stor_token'', ''mana_mana_token''}" using names(4) by auto
  then have "fl_string (default_tokens gen clock (default_keys f1)) src = fl_string (default_keys f1) src"
    by (simp add: default_tokens_string)
  with names assms(2) show ?thesis by (simp add: started_string default_keys_string)
qed

text \<open>
  C35: a program that has started has nine tokens of 128 characters and a name, a storage path and a data port, those
  of the other units among them; every text the command line has set is kept, and the certificates, keys and
  authorities of the services are those of their unit where none have been set.
\<close>

theorem started_flags:
  assumes "parse_flags gflags gen clock f0 = Inr f" and "gflags f0 = Inr f1" and "validated f1"
  shows "(\<forall>n \<in> {''comp_comp_token'', ''comp_mana_token'', ''comp_stor_token'', ''stor_comp_token'', ''stor_mana_token'',
      ''stor_stor_token'', ''mana_comp_token'', ''mana_mana_token'', ''mana_stor_token''}. length (fl_string f n) = 128) \<and>
    (\<forall>n \<in> {''comp_comp_name'', ''stor_backend'', ''stor_path''}. fl_string f n \<noteq> []) \<and>
    fl_int f ''comp_datatrans_remote_port'' \<noteq> 0 \<and>
    (\<forall>n. fl_string f1 n \<noteq> [] \<longrightarrow> fl_string f n = fl_string f1 n) \<and>
    (\<forall>(n, src) \<in> set inherited_flags. fl_string f1 n = [] \<longrightarrow> fl_string f n = fl_string f src)"
proof -
  have f: "f = inherit_flags (default_tokens gen clock (default_keys f1))"
    using assms(1,2) by (auto simp: parse_flags_Inr)
  have optional: "\<forall>n \<in> {''comp_comp_token'', ''stor_stor_token'', ''mana_mana_token''}.
      fl_string f1 n = [] \<or> length (fl_string f1 n) = 128"
    and required: "\<forall>n \<in> {''comp_mana_token'', ''comp_stor_token'', ''stor_comp_token'', ''stor_mana_token'', ''mana_comp_token'',
      ''mana_stor_token''}. length (fl_string f1 n) = 128"
    and port: "fl_int f1 ''comp_datatrans_remote_port'' \<noteq> 0"
    and names: "\<forall>n \<in> {''comp_comp_name'', ''stor_backend'', ''stor_path''}. fl_string f1 n \<noteq> []"
    using assms(3) unfolding validated_iff by - (elim conjE, assumption)+
  have own: "length (fl_string f n) = 128" if "n \<in> {''comp_comp_token'', ''stor_stor_token'', ''mana_mana_token''}" for n
  proof -
    have "last n = CHR ''n''" using that by auto
    then have "map_of inherited_flags n = None" by (rule token_not_inherited)
    moreover have "fl_string f1 n = [] \<or> length (fl_string f1 n) = 128" by (rule bspec [OF optional that])
    moreover have "length (fl_string (default_tokens gen clock (default_keys f1)) n) = 128" if "fl_string f1 n = []"
      by (rule default_token_length [OF that]) (use \<open>n \<in> _\<close> in simp)
    ultimately show ?thesis by (cases "fl_string f1 n = []") (simp_all add: f started_string)
  qed
  have kept: "fl_string f n = fl_string f1 n" if "fl_string f1 n \<noteq> []" for n
    using that by (simp add: f started_string)
  have "length (fl_string f n) = 128" if "length (fl_string f1 n) = 128" for n
    using that kept [of n] by force
  with required own have "\<forall>n \<in> {''comp_comp_token'', ''comp_mana_token'', ''comp_stor_token'', ''stor_comp_token'', ''stor_mana_token'',
      ''stor_stor_token'', ''mana_comp_token'', ''mana_mana_token'', ''mana_stor_token''}. length (fl_string f n) = 128"
    by simp
  moreover have "\<forall>n \<in> {''comp_comp_name'', ''stor_backend'', ''stor_path''}. fl_string f n \<noteq> []"
    using names kept by simp
  moreover have "fl_int f ''comp_datatrans_remote_port'' \<noteq> 0"
    using port by (simp add: f started_int_bool)
  moreover have "\<forall>(n, src) \<in> set inherited_flags. fl_string f1 n = [] \<longrightarrow> fl_string f n = fl_string f src"
    using inherited_value by (auto simp: f)
  ultimately show ?thesis using kept by blast
qed

text \<open>The tokens are the options that end in n, and three names end in e, d and h.\<close>

definition sample_flags :: flags where
  "sample_flags = \<lparr>fl_string = (\<lambda>n.
      if last n = CHR ''n'' then replicate 128 CHR ''a''
      else if last n \<in> {CHR ''e'', CHR ''d'', CHR ''h''} then ''local'' else []),
    fl_int = (\<lambda>_. 3887), fl_bool = (\<lambda>_. True)\<rparr>"

lemma sample_validated: "validated sample_flags"
  by (simp add: validated_iff sample_flags_def)

lemma sample_starts: "\<exists>f. parse_flags Inr gen clock sample_flags = Inr f"
  by (simp add: parse_flags_def conditional_checks_def sample_flags_def)

theorem started_flags_witness:
  "\<forall>gen clock. \<exists>f. parse_flags Inr gen clock sample_flags = Inr f \<and> fl_string f ''comp_comp_name'' \<noteq> [] \<and>
     length (fl_string f ''mana_mana_token'') = 128"
proof (intro allI)
  fix gen clock
  obtain f where f: "parse_flags Inr gen clock sample_flags = Inr f" using sample_starts by blast
  show "\<exists>f. parse_flags Inr gen clock sample_flags = Inr f \<and> fl_string f ''comp_comp_name'' \<noteq> [] \<and>
     length (fl_string f ''mana_mana_token'') = 128"
    using f started_flags [where gflags = Inr and ?f1.0 = sample_flags, OF f refl sample_validated]
    by (intro exI [of _ f]) simp
qed

text \<open>No program starts on the defaults alone, nor without the options of the units it is not.\<close>

theorem defaults_refused: "\<not> validated default_flags"
proof
  assume "validated default_flags"
  then have "fl_string default_flags ''stor_path'' \<noteq> []"
    unfolding validated_iff by - (elim conjE, erule bspec, simp)
  moreover have "map_of string_flags ''stor_path'' = Some []"
    by (simp add: string_flags_def)
  ultimately show False by (simp add: default_flags_def)
qed

text \<open>Tokens made in the same second are the same: the generator is seeded with the time each time.\<close>

theorem tokens_of_one_second:
  assumes "parse_flags gflags gen clock f0 = Inr f" and "gflags f0 = Inr f1"
    and "fl_string f1 ''comp_comp_token'' = []" and "fl_string f1 ''mana_mana_token'' = []" and "clock 0 = clock 2"
  shows "fl_string f ''comp_comp_token'' = fl_string f ''mana_mana_token''"
proof -
  have "f = inherit_flags (default_tokens gen clock (default_keys f1))"
    using assms(1,2) by (auto simp: parse_flags_Inr)
  with assms(3-5) show ?thesis
    by (simp add: started_string token_not_inherited default_tokens_string default_keys_string)
qed

text \<open>Without a certificate the key is the file \<^verbatim>\<open>.key\<close>; with one it is named after it.\<close>

theorem key_of_certificate:
  "key_default_value [] = ''.key''" and "length s + 4 < 2 ^ 64 \<Longrightarrow> length ext = 4 \<Longrightarrow> key_default_value (s @ ext) = s @ ''.key''"
  by (simp_all add: key_default_value_def unat_of_nat take_bit_nat_eq_self of_nat_diff)

text \<open>The check meant for the address of the data sources is registered for their certificate authority.\<close>

theorem datasource_address_unchecked: "validated (set_string ''mana_datasource_addr'' v f) \<longleftrightarrow> validated f"
  by (simp add: validated_iff set_string_def)

theorem datasource_authority_is_address:
  "validated f \<Longrightarrow> fl_string f ''mana_datasource_ca'' = [] \<or>
     check_IPV6 (fl_string f ''mana_datasource_ca'') \<or> check_IPV4 (fl_string f ''mana_datasource_ca'')"
  by (simp add: validated_iff)

text \<open>An address of seven groups and a double colon at one end, which stands for one group of zeros, is refused.\<close>

theorem seven_groups_refused:
  assumes "length gs = 7" and "list_all hex_group gs"
  shows "\<not> check_IPV6 (''['' @ colons gs @ ''::]'')" and "\<not> check_IPV6 (''[::'' @ colons gs @ '']'')"
proof -
  have "\<not> check_IPV6 str" if eight: "count_list str CHR '':'' = 8" for str
  proof -
    have "\<not> regex_match ipv6_full str"
      using eight by (auto simp: ipv6_full_iff count_list_append count_colons)
    then show ?thesis using eight by (simp add: check_IPV6_def)
  qed
  then show "\<not> check_IPV6 (''['' @ colons gs @ ''::]'')" and "\<not> check_IPV6 (''[::'' @ colons gs @ '']'')"
    using assms by (simp_all add: count_list_append count_colons)
qed

text \<open>The numbers of an IPv4 address are not bounded.\<close>

theorem ipv4_any_three_digits: "check_IPV4 ''999.999.999.999''"
  unfolding check_IPV4_iff
  by (intro disjI2 exI [of _ "replicate 4 ''999''"]) (simp add: numeral_eq_Suc dec_group_def dec_char_def)

end
