(* ===== verification/Crypto_Random.thy ===== *)
theory Crypto_Random
  imports Prelude "HOL-Library.Multiset" "HOL-Library.Char_ord"
begin

text \<open>
  The random generators and digests of \<^verbatim>\<open>misc/crypto\<close>: \<^verbatim>\<open>Chiper.cc\<close>, \<^verbatim>\<open>RandomGenerator.cc\<close> and
  \<^verbatim>\<open>DigestChiper.cc\<close>. The generator of the C library and the one of OpenSSL are state of the process: they are
  parameters over the world \<open>'w\<close>, as are the digests. A character is signed.
\<close>

section \<open>Kinds of ciphers\<close>

datatype chiper_type = Digest_type | Symmetic_type | Asymmetic_type

fun chiper_code :: "chiper_type \<Rightarrow> u32" where
  "chiper_code Digest_type = 0"
| "chiper_code Symmetic_type = 1"
| "chiper_code Asymmetic_type = 2"

record chiper =
  ch_type :: u32

definition Chiper_new :: "u32 \<Rightarrow> chiper" where
  "Chiper_new type = \<lparr>ch_type = type\<rparr>"

definition is_digest :: "chiper \<Rightarrow> bool" where
  "is_digest c \<longleftrightarrow> ch_type c = chiper_code Digest_type"

definition is_symmetic :: "chiper \<Rightarrow> bool" where
  "is_symmetic c \<longleftrightarrow> ch_type c = chiper_code Symmetic_type"

definition is_asymmetic :: "chiper \<Rightarrow> bool" where
  "is_asymmetic c \<longleftrightarrow> ch_type c = chiper_code Asymmetic_type"

definition get_type :: "chiper \<Rightarrow> u32" where
  "get_type c = ch_type c"

section \<open>Arrays read as C strings\<close>

text \<open>
  A \<^verbatim>\<open>std::string\<close> made of a \<^verbatim>\<open>char\<close> array that has no terminator: it ends at the first zero byte of the array, and
  without one the program reads past the array.
\<close>

definition of_array :: "string \<Rightarrow> string cxx" where
  "of_array a = (if CHR 0x00 \<in> set a then Inr (c_str a) else Inl Undefined_behaviour)"

lemma of_array_shorter:
  assumes "of_array a = Inr s"
  shows "length s < length a" and "CHR 0x00 \<notin> set s"
proof -
  from assms have zero: "CHR 0x00 \<in> set a" and s: "s = takeWhile (\<lambda>c. c \<noteq> CHR 0x00) a"
    by (auto simp: of_array_def c_str_def split: if_splits)
  show "CHR 0x00 \<notin> set s" using set_takeWhileD [of "CHR 0x00"] s by force
  then show "length s < length a"
    using zero s length_takeWhile_le [of _ a]
    by (metis le_neq_implies_less takeWhile_eq_take take_all_iff order_refl)
qed

lemma of_array_prefix: "of_array (s @ CHR 0x00 # t) = Inr (c_str s)"
proof -
  have "c_str (s @ CHR 0x00 # t) = c_str s" by (induction s) (auto simp: c_str_def)
  then show ?thesis by (simp add: of_array_def)
qed

section \<open>The generator of the C library\<close>

record 'w rand_env =
  re_time :: "'w \<Rightarrow> int"
  re_srand :: "u32 \<Rightarrow> 'w \<Rightarrow> 'w"
  re_rand :: "'w \<Rightarrow> nat \<times> 'w"

record lcg =
  lc_seed :: string
  lc_num :: "32 word"

definition LCG_new :: "'w rand_env \<Rightarrow> 'w \<Rightarrow> lcg \<times> 'w" where
  "LCG_new env w = (let num = word_of_int (re_time env w) in (\<lparr>lc_seed = [], lc_num = num\<rparr>, re_srand env num w))"

definition LCG_delete :: "lcg \<Rightarrow> lcg" where
  "LCG_delete g = g\<lparr>lc_num := 0, lc_seed := []\<rparr>"

definition LCG_reset :: "'w rand_env \<Rightarrow> lcg \<Rightarrow> 'w \<Rightarrow> lcg \<times> 'w" where
  "LCG_reset env g w = (g\<lparr>lc_num := 0, lc_seed := []\<rparr>, re_srand env 0 w)"

text \<open>The base class takes the seed over; the rest happens in the order of the statements.\<close>

definition LCG_move :: "'w rand_env \<Rightarrow> lcg \<Rightarrow> 'w \<Rightarrow> lcg \<times> lcg \<times> 'w" where
  "LCG_move env other w =
     (let this = \<lparr>lc_seed = lc_seed other, lc_num = lc_num other\<rparr>;
          (other, w) = LCG_reset env (other\<lparr>lc_seed := []\<rparr>) w
      in (this, other, re_srand env (lc_num this) w))"

definition LCG_move_assign :: "'w rand_env \<Rightarrow> lcg \<Rightarrow> lcg \<Rightarrow> 'w \<Rightarrow> lcg \<times> lcg \<times> 'w" where
  "LCG_move_assign env this other w =
     (let this = this\<lparr>lc_seed := lc_seed other, lc_num := lc_num other\<rparr>;
          w = re_srand env (lc_num this) w;
          (other, w) = LCG_reset env other w
      in (this, other, w))"

fun lcg_letters :: "'w rand_env \<Rightarrow> nat \<Rightarrow> string \<Rightarrow> 'w \<Rightarrow> string \<times> 'w" where
  "lcg_letters env 0 rand_seq w = (rand_seq, w)"
| "lcg_letters env (Suc i) rand_seq w =
     (case re_rand env w of (r, w) \<Rightarrow> lcg_letters env i (rand_seq @ [char_of (r mod 26 + 97)]) w)"

definition LCG_rand :: "'w rand_env \<Rightarrow> 'w \<Rightarrow> string cxx \<times> 'w" where
  "LCG_rand env w = (case lcg_letters env 16 [] w of (s, w) \<Rightarrow> (Inr s, w))"

definition signed_char :: "char \<Rightarrow> int" where
  "signed_char c = (let n = of_char c in if n < 128 then n else n - 256)"

text \<open>The sum is an \<^verbatim>\<open>int\<close>: a seed is shorter than \<open>2 ^ 24\<close>.\<close>

definition LCG_srand :: "'w rand_env \<Rightarrow> lcg \<Rightarrow> string \<Rightarrow> 'w \<Rightarrow> lcg \<times> 'w" where
  "LCG_srand env g seed w =
     (let num = word_of_int (fold (\<lambda>c n. n + signed_char c) seed 0)
      in (g\<lparr>lc_seed := seed, lc_num := num\<rparr>, re_srand env num w))"

definition LCG_entropy :: "'w rand_env \<Rightarrow> lcg \<Rightarrow> string \<Rightarrow> 'w \<Rightarrow> lcg \<times> 'w" where
  "LCG_entropy env g extra w = LCG_srand env g (extra @ lc_seed g) w"

section \<open>The generator of OpenSSL\<close>

text \<open>\<open>so_bytes n\<close> are \<open>n\<close> random bytes, or None when the call fails and leaves the array of the caller as it is.\<close>

record 'w ssl_rand_env =
  so_seed :: "string \<Rightarrow> 'w \<Rightarrow> 'w"
  so_add :: "string \<Rightarrow> nat \<Rightarrow> 'w \<Rightarrow> 'w"
  so_status :: "'w \<Rightarrow> int"
  so_poll :: "'w \<Rightarrow> 'w"
  so_bytes :: "nat \<Rightarrow> 'w \<Rightarrow> string option \<times> 'w"

type_synonym drbg = string

definition DRBG_new :: "'w ssl_rand_env \<Rightarrow> 'w \<Rightarrow> drbg \<times> 'w" where
  "DRBG_new env w = ([], so_seed env [] w)"

definition DRBG_delete :: "'w ssl_rand_env \<Rightarrow> drbg \<Rightarrow> 'w \<Rightarrow> drbg \<times> 'w" where
  "DRBG_delete env g w = ([], so_seed env [] w)"

definition DRBG_move :: "'w ssl_rand_env \<Rightarrow> drbg \<Rightarrow> 'w \<Rightarrow> drbg \<times> drbg \<times> 'w" where
  "DRBG_move env other w = (other, [], so_seed env other w)"

definition DRBG_move_assign :: "'w ssl_rand_env \<Rightarrow> drbg \<Rightarrow> drbg \<Rightarrow> 'w \<Rightarrow> drbg \<times> drbg \<times> 'w" where
  "DRBG_move_assign env this other w = (other, [], so_seed env other w)"

definition DRBG_reset :: "'w ssl_rand_env \<Rightarrow> drbg \<Rightarrow> 'w \<Rightarrow> drbg \<times> 'w" where
  "DRBG_reset env g w = ([], so_seed env [] w)"

text \<open>\<open>buf\<close> is what the new array of 16 bytes holds; its bytes are copied one by one.\<close>

definition DRBG_rand :: "'w ssl_rand_env \<Rightarrow> string \<Rightarrow> 'w \<Rightarrow> string cxx \<times> 'w" where
  "DRBG_rand env buf w =
     (let ret = so_status env w;
          w = (if ret = 1 then w else so_poll env w);
          (bytes, w) = so_bytes env 16 w
      in (of_array (take 16 (case bytes of Some b \<Rightarrow> b | None \<Rightarrow> buf)), w))"

definition DRBG_srand :: "'w ssl_rand_env \<Rightarrow> drbg \<Rightarrow> string \<Rightarrow> 'w \<Rightarrow> drbg \<times> 'w" where
  "DRBG_srand env g seed w = (seed, so_seed env seed w)"

definition DRBG_entropy :: "'w ssl_rand_env \<Rightarrow> drbg \<Rightarrow> string \<Rightarrow> 'w \<Rightarrow> drbg \<times> 'w" where
  "DRBG_entropy env g extra w = (g, so_add env extra (length extra) w)"

section \<open>Digests\<close>

datatype digest_algorithm = MD5 | SHA1 | SHA256 | SHA512 | SM3

fun digest_length :: "digest_algorithm \<Rightarrow> nat" where
  "digest_length MD5 = 16"
| "digest_length SHA1 = 20"
| "digest_length SHA256 = 32"
| "digest_length SHA512 = 64"
| "digest_length SM3 = 32"

text \<open>
  The five classes differ in the algorithm and the length of its result. \<open>md\<close> is the digest OpenSSL computes, or None when one of its
  functions fails, whose results nobody looks at; the array is zero then.
\<close>

definition digest :: "(digest_algorithm \<Rightarrow> string \<Rightarrow> string option) \<Rightarrow> digest_algorithm \<Rightarrow> string \<Rightarrow> string cxx" where
  "digest md alg s =
     (let result = (case md alg s of Some d \<Rightarrow> d | None \<Rightarrow> replicate (digest_length alg) CHR 0x00)
      in cxx_bind (of_array result) (\<lambda>res. Inr (take (digest_length alg) res)))"

definition Md5_Digest_digest :: "(digest_algorithm \<Rightarrow> string \<Rightarrow> string option) \<Rightarrow> string \<Rightarrow> string cxx" where
  "Md5_Digest_digest md s = digest md MD5 s"

definition SHA1_Digest_digest :: "(digest_algorithm \<Rightarrow> string \<Rightarrow> string option) \<Rightarrow> string \<Rightarrow> string cxx" where
  "SHA1_Digest_digest md s = digest md SHA1 s"

definition SHA256_Digest_digest :: "(digest_algorithm \<Rightarrow> string \<Rightarrow> string option) \<Rightarrow> string \<Rightarrow> string cxx" where
  "SHA256_Digest_digest md s = digest md SHA256 s"

definition SHA512_Digest_digest :: "(digest_algorithm \<Rightarrow> string \<Rightarrow> string option) \<Rightarrow> string \<Rightarrow> string cxx" where
  "SHA512_Digest_digest md s = digest md SHA512 s"

definition SM3_Digest_digest :: "(digest_algorithm \<Rightarrow> string \<Rightarrow> string option) \<Rightarrow> string \<Rightarrow> string cxx" where
  "SM3_Digest_digest md s = digest md SM3 s"

section \<open>What they return\<close>

lemma lcg_letters_spec:
  "lcg_letters env n s w = (s', w') \<Longrightarrow>
     \<exists>t. s' = s @ t \<and> length t = n \<and> (\<forall>c \<in> set t. CHR ''a'' \<le> c \<and> c \<le> CHR ''z'')"
proof (induction n arbitrary: s w)
  case (Suc n)
  obtain r w1 where r: "re_rand env w = (r, w1)" by fastforce
  let ?c = "char_of (r mod 26 + 97) :: char"
  have "r mod 26 + 97 < 256" and range: "97 \<le> r mod 26 + 97" "r mod 26 + 97 \<le> 122"
    by (simp_all add: Suc_leI less_Suc_eq_le [symmetric] trans_less_add1)
  then have "(of_char ?c :: nat) = r mod 26 + 97" by simp
  with range have c: "CHR ''a'' \<le> ?c \<and> ?c \<le> CHR ''z''" by (simp add: less_eq_char_def)
  from Suc.prems r have "lcg_letters env n (s @ [?c]) w1 = (s', w')" by simp
  from Suc.IH [OF this] obtain t where "s' = (s @ [?c]) @ t" "length t = n" "\<forall>c \<in> set t. CHR ''a'' \<le> c \<and> c \<le> CHR ''z''"
    by blast
  with c show ?case by (intro exI [of _ "?c # t"]) simp
qed simp

theorem LCG_rand_letters:
  assumes "LCG_rand env w = (r, w')"
  shows "\<exists>s. r = Inr s \<and> length s = 16 \<and> (\<forall>c \<in> set s. CHR ''a'' \<le> c \<and> c \<le> CHR ''z'')"
  using assms lcg_letters_spec [of env 16 "[]" w] by (auto simp: LCG_rand_def split: prod.splits)

text \<open>Seeds with the same characters in another order are the same seed.\<close>

lemma fold_sum_mset: "fold (\<lambda>c n. n + f c) s (a :: int) = a + sum_mset (image_mset f (mset s))"
  by (induction s arbitrary: a) auto

theorem LCG_srand_unordered:
  "mset s = mset t \<Longrightarrow> snd (LCG_srand env g s w) = snd (LCG_srand env g t w)"
  by (simp add: LCG_srand_def Let_def fold_sum_mset)

text \<open>
  A generator that is moved by construction goes on with its own number, one that is moved by assignment
  with the number zero: the reset of the other object comes last there.
\<close>

theorem LCG_moves_seed:
  "LCG_move env other w =
     (other, \<lparr>lc_seed = [], lc_num = 0\<rparr>, re_srand env (lc_num other) (re_srand env 0 w))"
  "LCG_move_assign env this other w =
     (other, \<lparr>lc_seed = [], lc_num = 0\<rparr>, re_srand env 0 (re_srand env (lc_num other) w))"
  by (simp_all add: LCG_move_def LCG_move_assign_def LCG_reset_def Let_def)

text \<open>Sixteen random bytes never arrive: the text ends before its first zero byte, and without one it ends anywhere.\<close>

theorem DRBG_rand_short:
  assumes "DRBG_rand env buf w = (Inr s, w')"
  shows "length s < 16 \<and> CHR 0x00 \<notin> set s"
proof -
  obtain b where b: "of_array (take 16 b) = Inr s"
    using assms by (auto simp: DRBG_rand_def Let_def split: prod.splits)
  then have "length s < length (take 16 b)" by (rule of_array_shorter)
  then show ?thesis using of_array_shorter(2) [OF b] by simp
qed

definition sample_ssl :: "unit ssl_rand_env" where
  "sample_ssl = \<lparr>so_seed = (\<lambda>_ w. w), so_add = (\<lambda>_ _ w. w), so_status = (\<lambda>_. 1), so_poll = (\<lambda>w. w),
     so_bytes = (\<lambda>n w. (Some (replicate n CHR 0x00), w))\<rparr>"

text \<open>
  no digest arrives whole. Its text is the digest up to its first zero byte, so that texts whose digests agree so
  far have the same one, and a digest without a zero byte is read past its end.
\<close>

theorem digest_cut:
  assumes "length d = digest_length alg" and "md alg s = Some d"
  shows "digest md alg s = (if CHR 0x00 \<in> set d then Inr (c_str d) else Inl Undefined_behaviour) \<and>
    (\<forall>r. digest md alg s = Inr r \<longrightarrow> length r < digest_length alg) \<and>
    (\<forall>t u v v'. d = u @ CHR 0x00 # v \<longrightarrow> md alg t = Some (u @ CHR 0x00 # v') \<longrightarrow> digest md alg t = digest md alg s)"
proof -
  have len: "length (c_str x) \<le> length x" for x by (simp add: c_str_def length_takeWhile_le)
  have eq: "digest md alg s = (if CHR 0x00 \<in> set d then Inr (c_str d) else Inl Undefined_behaviour)"
    using assms len [of d] by (simp add: digest_def of_array_def)
  have "length r < digest_length alg" if "digest md alg s = Inr r" for r
  proof -
    have "of_array d = Inr r" using that eq by (simp add: of_array_def split: if_splits)
    then show ?thesis using of_array_shorter(1) assms(1) by metis
  qed
  moreover have "digest md alg t = digest md alg s"
    if "d = u @ CHR 0x00 # v" and "md alg t = Some (u @ CHR 0x00 # v')" for t u v v'
    using that assms(2) by (simp add: digest_def of_array_prefix)
  ultimately show ?thesis using eq by blast
qed

lemma digest_cut_witness:
  "\<exists>r. digest (\<lambda>_ _. Some (''ab'' @ CHR 0x00 # replicate 13 CHR ''x'')) MD5 ''text'' = Inr r \<and> length r < 16"
proof -
  let ?md = "\<lambda>_ _. Some (''ab'' @ CHR 0x00 # replicate 13 CHR ''x'')"
  have "length (''ab'' @ CHR 0x00 # replicate 13 CHR ''x'') = digest_length MD5" by simp
  from digest_cut [OF this, of ?md "''text''"]
  show ?thesis by simp
qed

section \<open>Sources of random text\<close>

text \<open>What the ciphers rely on: a text of at most sixteen characters.\<close>

locale random_source =
  fixes draw :: "'w \<Rightarrow> string cxx \<times> 'w"
  assumes draw_short: "draw w = (Inr s, w') \<Longrightarrow> length s \<le> 16"

interpretation lcg_source: random_source "LCG_rand env" for env :: "'w rand_env"
  by unfold_locales (drule LCG_rand_letters, auto)

interpretation drbg_source: random_source "DRBG_rand env buf" for env :: "'w ssl_rand_env" and buf :: string
  by unfold_locales (drule DRBG_rand_short, simp)

end
