(* ===== verification/Crypto_Symmetric.thy ===== *)
theory Crypto_Symmetric
  imports Crypto_Random
begin

text \<open>
  The symmetric ciphers of \<^verbatim>\<open>misc/crypto/SymmeticChiper.cc\<close>: keys and initialisation vectors of the base class, and
  the three classes over the ciphers of OpenSSL, which are parameters. The generator an object points to is the argument
  \<open>draw\<close>. Texts are shorter than 2 GiB, where their length is an \<^verbatim>\<open>int\<close>.
\<close>

section \<open>Keys and vectors\<close>

record symmetric =
  sy_key :: string
  sy_init :: string

definition pad0 :: "nat \<Rightarrow> string \<Rightarrow> string" where
  "pad0 n s = s @ replicate (n - length s) CHR ''0''"

text \<open>A text of the generator that is read past its end is undefined behaviour of the whole operation.\<close>

fun draw_key :: "('w \<Rightarrow> string cxx \<times> 'w) \<Rightarrow> nat \<Rightarrow> string \<Rightarrow> 'w \<Rightarrow> string cxx \<times> 'w" where
  "draw_key draw 0 key w = (Inr key, w)"
| "draw_key draw (Suc i) key w =
     (case draw w of (Inl e, w) \<Rightarrow> (Inl e, w) | (Inr s, w) \<Rightarrow> draw_key draw i (key @ s) w)"

definition Symmetric_new :: "('w \<Rightarrow> string cxx \<times> 'w) \<Rightarrow> 'w \<Rightarrow> symmetric cxx \<times> 'w" where
  "Symmetric_new draw w =
     (case draw_key draw 4 [] w of (Inl e, w) \<Rightarrow> (Inl e, w)
      | (Inr key, w) \<Rightarrow> (case draw w of (Inl e, w) \<Rightarrow> (Inl e, w)
         | (Inr init, w) \<Rightarrow> (Inr \<lparr>sy_key = key, sy_init = init\<rparr>, w)))"

definition get_key :: "('w \<Rightarrow> string cxx \<times> 'w) \<Rightarrow> symmetric \<Rightarrow> 'w \<Rightarrow> (string \<times> symmetric) cxx \<times> 'w" where
  "get_key draw c w =
     (if sy_key c = [] then
        (case draw_key draw 4 [] w of (Inl e, w) \<Rightarrow> (Inl e, w)
         | (Inr key, w) \<Rightarrow> (Inr (key, c\<lparr>sy_key := key\<rparr>), w))
      else (Inr (sy_key c, c), w))"

definition set_key :: "symmetric \<Rightarrow> string \<Rightarrow> symmetric" where
  "set_key c key = c\<lparr>sy_key := pad0 64 key\<rparr>"

definition reset_key :: "symmetric \<Rightarrow> symmetric" where
  "reset_key c = c\<lparr>sy_key := []\<rparr>"

definition init_vector :: "symmetric \<Rightarrow> string" where
  "init_vector c = sy_init c"

text \<open>One character is added to a short vector, whatever is missing.\<close>

definition set_init :: "symmetric \<Rightarrow> string \<Rightarrow> symmetric" where
  "set_init c init = c\<lparr>sy_init := (if length init < 16 then init @ ''0'' else init)\<rparr>"

section \<open>The ciphers\<close>

datatype algorithm = AES128 | AES256 | SM4
datatype block_mode = ECB | CBC | CFB | OFB | CTR

text \<open>The values the header gives the modes.\<close>

fun mode_code :: "block_mode \<Rightarrow> u32" where
  "mode_code ECB = 0"
| "mode_code CBC = 1"
| "mode_code CFB = 2"
| "mode_code OFB = 3"
| "mode_code CTR = 4"

definition aes128_mode :: "u32 \<Rightarrow> block_mode option" where
  "aes128_mode mode =
     (if mode = 0 then Some ECB else if mode = 1 then Some CBC else if mode = 2 then Some CFB
      else if mode = 3 then Some OFB else if mode = 4 then Some CTR else None)"

definition aes256_mode :: "u32 \<Rightarrow> block_mode option" where
  "aes256_mode mode =
     (if mode = 0 then Some ECB else if mode = 1 then Some CBC else if mode = 2 then Some CFB
      else if mode = 3 then Some CTR else None)"

definition sm4_mode :: "u32 \<Rightarrow> block_mode option" where
  "sm4_mode mode =
     (if mode = 0 then Some ECB else if mode = 1 then Some CBC else if mode = 2 then Some CFB
      else if mode = 3 then Some CTR else None)"

fun cipher_mode :: "algorithm \<Rightarrow> u32 \<Rightarrow> block_mode option" where
  "cipher_mode AES128 mode = aes128_mode mode"
| "cipher_mode AES256 mode = aes256_mode mode"
| "cipher_mode SM4 mode = sm4_mode mode"

fun key_length :: "algorithm \<Rightarrow> nat" where
  "key_length AES128 = 16"
| "key_length AES256 = 32"
| "key_length SM4 = 16"

fun iv_length :: "block_mode \<Rightarrow> nat" where
  "iv_length ECB = 0"
| "iv_length _ = 16"

text \<open>
  OpenSSL's contexts. \<open>ev_init encrypting\<close> takes the bytes of key and vector that the cipher asks for, \<open>ev_update\<close>
  and \<open>ev_final\<close> give the bytes they write. \<open>None\<close> is a failure.
\<close>

record 'c evp =
  ev_new :: "'c option"
  ev_init :: "bool \<Rightarrow> algorithm \<Rightarrow> block_mode \<Rightarrow> string \<Rightarrow> string \<Rightarrow> 'c \<Rightarrow> 'c option"
  ev_update :: "'c \<Rightarrow> string \<Rightarrow> (string \<times> 'c) option"
  ev_final :: "'c \<Rightarrow> string option"

text \<open>The bytes a function reads through \<^verbatim>\<open>s.c_str()\<close>: the terminator is the last byte there is.\<close>

definition read_bytes :: "nat \<Rightarrow> string \<Rightarrow> string cxx" where
  "read_bytes n s = (if n \<le> Suc (length s) then Inr (take n (s @ [CHR 0x00])) else Inl Undefined_behaviour)"

text \<open>
  The six functions do the same but for the cipher and the size of the buffer; an output longer
  than the buffer is written past its end.
\<close>

definition run_cipher :: "'c evp \<Rightarrow> bool \<Rightarrow> algorithm \<Rightarrow> nat \<Rightarrow> string \<Rightarrow> string \<Rightarrow> string \<Rightarrow> u32 \<Rightarrow> string cxx" where
  "run_cipher ev enc alg extra key init data mode =
     (case cipher_mode alg mode of None \<Rightarrow> Inr []
      | Some m \<Rightarrow> (case ev_new ev of None \<Rightarrow> Inr []
      | Some ctx \<Rightarrow> cxx_bind (read_bytes (key_length alg) key) (\<lambda>k. cxx_bind (read_bytes (iv_length m) init) (\<lambda>iv.
          case ev_init ev enc alg m k iv ctx of None \<Rightarrow> Inr []
          | Some ctx \<Rightarrow> (case ev_update ev ctx data of None \<Rightarrow> Inr []
          | Some (out, ctx) \<Rightarrow>
              if length out > length data + extra then Inl Undefined_behaviour
              else (case ev_final ev ctx of None \<Rightarrow> Inr []
              | Some rest \<Rightarrow>
                  if length out + length rest > length data + extra then Inl Undefined_behaviour
                  else Inr (out @ rest)))))))"

definition AES128_do_encrypt :: "'c evp \<Rightarrow> string \<Rightarrow> string \<Rightarrow> u32 \<Rightarrow> string \<Rightarrow> string cxx" where
  "AES128_do_encrypt ev key s mode init = run_cipher ev True AES128 16 key init s mode"

definition AES128_do_decrypt :: "'c evp \<Rightarrow> string \<Rightarrow> string \<Rightarrow> u32 \<Rightarrow> string \<Rightarrow> string cxx" where
  "AES128_do_decrypt ev key pass mode init = run_cipher ev False AES128 0 key init pass mode"

definition AES256_do_encrypt :: "'c evp \<Rightarrow> string \<Rightarrow> string \<Rightarrow> u32 \<Rightarrow> string \<Rightarrow> string cxx" where
  "AES256_do_encrypt ev key s mode init = run_cipher ev True AES256 16 key init s mode"

definition AES256_do_decrypt :: "'c evp \<Rightarrow> string \<Rightarrow> string \<Rightarrow> u32 \<Rightarrow> string \<Rightarrow> string cxx" where
  "AES256_do_decrypt ev key pass mode init = run_cipher ev False AES256 0 key init pass mode"

definition SM4_do_encrypt :: "'c evp \<Rightarrow> string \<Rightarrow> string \<Rightarrow> u32 \<Rightarrow> string \<Rightarrow> string cxx" where
  "SM4_do_encrypt ev key s mode init = run_cipher ev True SM4 16 key init s mode"

definition SM4_do_decrypt :: "'c evp \<Rightarrow> string \<Rightarrow> string \<Rightarrow> u32 \<Rightarrow> string \<Rightarrow> string cxx" where
  "SM4_do_decrypt ev key pass mode init = run_cipher ev False SM4 0 key init pass mode"

text \<open>The calls of the virtual functions.\<close>

definition do_encrypt :: "'c evp \<Rightarrow> algorithm \<Rightarrow> string \<Rightarrow> string \<Rightarrow> u32 \<Rightarrow> string \<Rightarrow> string cxx" where
  "do_encrypt ev alg = (case alg of AES128 \<Rightarrow> AES128_do_encrypt ev | AES256 \<Rightarrow> AES256_do_encrypt ev | SM4 \<Rightarrow> SM4_do_encrypt ev)"

definition do_decrypt :: "'c evp \<Rightarrow> algorithm \<Rightarrow> string \<Rightarrow> string \<Rightarrow> u32 \<Rightarrow> string \<Rightarrow> string cxx" where
  "do_decrypt ev alg = (case alg of AES128 \<Rightarrow> AES128_do_decrypt ev | AES256 \<Rightarrow> AES256_do_decrypt ev | SM4 \<Rightarrow> SM4_do_decrypt ev)"

lemma do_encrypt_run: "do_encrypt ev alg key s mode init = run_cipher ev True alg 16 key init s mode"
  by (cases alg) (simp_all add: do_encrypt_def AES128_do_encrypt_def AES256_do_encrypt_def SM4_do_encrypt_def)

lemma do_decrypt_run: "do_decrypt ev alg key s mode init = run_cipher ev False alg 0 key init s mode"
  by (cases alg) (simp_all add: do_decrypt_def AES128_do_decrypt_def AES256_do_decrypt_def SM4_do_decrypt_def)

definition encrypt ::
  "'c evp \<Rightarrow> algorithm \<Rightarrow> ('w \<Rightarrow> string cxx \<times> 'w) \<Rightarrow> symmetric \<Rightarrow> string \<Rightarrow> u32 \<Rightarrow> 'w \<Rightarrow> (string \<times> symmetric) cxx \<times> 'w" where
  "encrypt ev alg draw c s mode w =
     (let c = c\<lparr>sy_key := pad0 64 (sy_key c)\<rparr> in
      case draw w of (Inl e, w) \<Rightarrow> (Inl e, w)
      | (Inr init, w) \<Rightarrow>
          (let c = c\<lparr>sy_init := pad0 16 init\<rparr>
           in (cxx_bind (do_encrypt ev alg (sy_key c) s mode (sy_init c)) (\<lambda>pass. Inr (pass, c)), w)))"

definition decrypt :: "'c evp \<Rightarrow> algorithm \<Rightarrow> symmetric \<Rightarrow> string \<Rightarrow> u32 \<Rightarrow> string cxx" where
  "decrypt ev alg c s mode = do_decrypt ev alg (sy_key c) s mode (sy_init c)"

text \<open>The constructors of the three classes, and their destructors.\<close>

definition Cipher_new :: "algorithm \<Rightarrow> ('w \<Rightarrow> string cxx \<times> 'w) \<Rightarrow> 'w \<Rightarrow> symmetric cxx \<times> 'w" where
  "Cipher_new alg draw w =
     (case Symmetric_new draw w of (Inl e, w) \<Rightarrow> (Inl e, w)
      | (Inr c, w) \<Rightarrow>
          (case alg of
             AES128 \<Rightarrow> (Inr c, w)
           | AES256 \<Rightarrow>
               (case draw w of (Inl e, w) \<Rightarrow> (Inl e, w)
                | (Inr s1, w) \<Rightarrow> (case draw w of (Inl e, w) \<Rightarrow> (Inl e, w)
                   | (Inr s2, w) \<Rightarrow> (Inr (c\<lparr>sy_key := s1 @ s2\<rparr>), w)))
           | SM4 \<Rightarrow> (Inr (c\<lparr>sy_init := []\<rparr>), w)))"

definition Cipher_delete :: "algorithm \<Rightarrow> symmetric \<Rightarrow> symmetric" where
  "Cipher_delete alg c =
     (case alg of AES128 \<Rightarrow> c\<lparr>sy_key := []\<rparr> | _ \<Rightarrow> c\<lparr>sy_key := [], sy_init := []\<rparr>)"

section \<open>Lengths\<close>

lemma length_pad0 [simp]: "length (pad0 n s) = max n (length s)"
  by (simp add: pad0_def)

lemma pad0_id: "n \<le> length s \<Longrightarrow> pad0 n s = s"
  by (simp add: pad0_def)

lemma encrypt_Inr:
  "encrypt ev alg draw c s mode w = (Inr (pass, c'), w') \<longleftrightarrow>
     (\<exists>init. draw w = (Inr init, w') \<and> c' = c\<lparr>sy_key := pad0 64 (sy_key c), sy_init := pad0 16 init\<rparr> \<and>
        do_encrypt ev alg (sy_key c') s mode (sy_init c') = Inr pass)"
  by (auto simp: encrypt_def Let_def split: prod.splits sum.splits)

context random_source
begin

lemma draw_key_length: "draw_key draw n key w = (Inr k, w') \<Longrightarrow> length k \<le> length key + 16 * n"
proof (induction n arbitrary: key w)
  case (Suc n)
  then obtain s w1 where s: "draw w = (Inr s, w1)" "draw_key draw n (key @ s) w1 = (Inr k, w')"
    by (auto split: prod.splits sum.splits)
  then show ?case using Suc.IH [OF s(2)] draw_short [OF s(1)] by simp
qed simp

lemma new_key_length: "Cipher_new alg draw w = (Inr c, w') \<Longrightarrow> length (sy_key c) \<le> 64"
  by (cases alg)
    (auto simp: Cipher_new_def Symmetric_new_def split: prod.splits sum.splits dest!: draw_key_length draw_short)

text \<open>An object that has encrypted has a key of 64 characters and a vector of 16.\<close>

lemma encrypted_lengths:
  assumes "length (sy_key c) \<le> 64" and "encrypt ev alg draw c s mode w = (Inr (pass, c'), w')"
  shows "length (sy_key c') = 64 \<and> length (sy_init c') = 16"
  using assms draw_short by (fastforce simp: encrypt_Inr)

end

section \<open>Encrypting and decrypting\<close>

text \<open>What the documentation of OpenSSL promises: decryption with the same parameters undoes encryption, which adds at most a block.\<close>

definition evp_works :: "'c evp \<Rightarrow> bool" where
  "evp_works ev \<longleftrightarrow> ev_new ev \<noteq> None \<and>
     (\<forall>alg m k iv data ctx. length k = key_length alg \<longrightarrow> length iv = iv_length m \<longrightarrow>
        (\<exists>c1 c2 o1 o2 d1 d2 e1 e2.
           ev_init ev True alg m k iv ctx = Some c1 \<and> ev_update ev c1 data = Some (o1, c2) \<and> ev_final ev c2 = Some o2 \<and>
           length data \<le> length (o1 @ o2) \<and> length (o1 @ o2) \<le> length data + 16 \<and>
           ev_init ev False alg m k iv ctx = Some d1 \<and> ev_update ev d1 (o1 @ o2) = Some (e1, d2) \<and>
           ev_final ev d2 = Some e2 \<and> e1 @ e2 = data))"

lemma read_bytes_Inr: "n \<le> length s \<Longrightarrow> read_bytes n s = Inr (take n s)"
  by (simp add: read_bytes_def)

lemma key_length_le: "key_length alg \<le> 32"
  by (cases alg) auto

lemma iv_length_le: "iv_length m \<le> 16"
  by (cases m) auto

lemma run_cipher_inverse:
  assumes works: "evp_works ev" and mode: "cipher_mode alg mode = Some m" and len: "64 \<le> length key" "16 \<le> length init"
  shows "\<exists>pass. run_cipher ev True alg 16 key init data mode = Inr pass \<and>
    run_cipher ev False alg 0 key init pass mode = Inr data"
proof -
  have k: "key_length alg \<le> length key" and iv: "iv_length m \<le> length init"
    using len key_length_le [of alg] iv_length_le [of m] by linarith+
  obtain ctx where ctx: "ev_new ev = Some ctx" using works by (auto simp: evp_works_def)
  let ?k = "take (key_length alg) key" and ?iv = "take (iv_length m) init"
  have "length ?k = key_length alg" and "length ?iv = iv_length m" using k iv by simp_all
  with works obtain c1 c2 o1 o2 d1 d2 e1 e2 where
    enc: "ev_init ev True alg m ?k ?iv ctx = Some c1" "ev_update ev c1 data = Some (o1, c2)" "ev_final ev c2 = Some o2"
    and size: "length data \<le> length (o1 @ o2)" "length (o1 @ o2) \<le> length data + 16"
    and dec: "ev_init ev False alg m ?k ?iv ctx = Some d1" "ev_update ev d1 (o1 @ o2) = Some (e1, d2)"
      "ev_final ev d2 = Some e2" "e1 @ e2 = data"
    unfolding evp_works_def by meson
  have "length e1 + length e2 = length data" using dec(4) by (metis length_append)
  with enc dec size ctx mode k iv show ?thesis
    by (intro exI [of _ "o1 @ o2"]) (simp add: run_cipher_def read_bytes_Inr)
qed

text \<open>
  C36: what an object encrypts it decrypts, and so does another object of its class that has been given its key and the
  vector of that encryption.
\<close>

theorem encrypt_decrypt:
  assumes "evp_works ev" and "cipher_mode alg mode \<noteq> None" and "encrypt ev alg draw c s mode w = (Inr (pass, c'), w')"
  shows "decrypt ev alg c' pass mode = Inr s \<and>
    decrypt ev alg (set_init (set_key d (sy_key c')) (init_vector c')) pass mode = Inr s"
proof -
  obtain m where m: "cipher_mode alg mode = Some m" using assms(2) by auto
  have len: "64 \<le> length (sy_key c')" "16 \<le> length (sy_init c')"
    and pass: "run_cipher ev True alg 16 (sy_key c') (sy_init c') s mode = Inr pass"
    using assms(3) by (auto simp: encrypt_Inr do_encrypt_run)
  have own: "decrypt ev alg c' pass mode = Inr s"
    using run_cipher_inverse [OF assms(1) m len, of s] pass by (auto simp: decrypt_def do_decrypt_run)
  have "sy_key (set_init (set_key d (sy_key c')) (init_vector c')) = sy_key c'"
    and "sy_init (set_init (set_key d (sy_key c')) (init_vector c')) = sy_init c'"
    using len by (simp_all add: set_init_def set_key_def init_vector_def pad0_id)
  with own show ?thesis by (simp add: decrypt_def)
qed

definition toy_evp :: "unit evp" where
  "toy_evp = \<lparr>ev_new = Some (), ev_init = (\<lambda>_ _ _ _ _ _. Some ()), ev_update = (\<lambda>_ d. Some (rev d, ())), ev_final = (\<lambda>_. Some [])\<rparr>"

lemma toy_evp_works: "evp_works toy_evp"
  by (simp add: evp_works_def toy_evp_def)

theorem encrypt_decrypt_witness:
  "\<exists>c'. encrypt toy_evp AES128 (\<lambda>w. (Inr ''abcdefghijklmnop'', w)) \<lparr>sy_key = ''key'', sy_init = []\<rparr> ''text'' 1 () = (Inr (''txet'', c'), ()) \<and>
     decrypt toy_evp AES128 c' ''txet'' 1 = Inr ''text''"
proof -
  let ?draw = "\<lambda>w :: unit. (Inr ''abcdefghijklmnop'' :: string cxx, w)"
  let ?c = "\<lparr>sy_key = pad0 64 ''key'', sy_init = pad0 16 ''abcdefghijklmnop''\<rparr>"
  have "encrypt toy_evp AES128 ?draw \<lparr>sy_key = ''key'', sy_init = []\<rparr> ''text'' 1 () = (Inr (''txet'', ?c), ())"
    by (simp add: encrypt_def do_encrypt_run run_cipher_def aes128_mode_def toy_evp_def read_bytes_def)
  with encrypt_decrypt [OF toy_evp_works _ this] show ?thesis
    by (auto simp: aes128_mode_def)
qed

section \<open>What is lost\<close>

text \<open>After a reset the next encryption uses the key of 64 zeros.\<close>

theorem reset_key_then_zeros:
  "encrypt ev alg draw (reset_key c) s mode w = (Inr (pass, c'), w') \<Longrightarrow> sy_key c' = replicate 64 CHR ''0''"
  by (auto simp: encrypt_Inr reset_key_def pad0_def)

text \<open>Two of the ciphers have counter mode under the number of output feedback and nothing under its own.\<close>

theorem cipher_modes:
  "cipher_mode alg (mode_code m) =
     (if alg = AES128 \<or> m \<in> {ECB, CBC, CFB} then Some m else if m = OFB then Some CTR else None)"
  by (cases alg; cases m) (simp_all add: aes128_mode_def aes256_mode_def sm4_mode_def)

theorem counter_mode_loses_text:
  assumes "alg \<noteq> AES128" and "draw w = (Inr init, w')"
  shows "\<exists>c'. encrypt ev alg draw c s (mode_code CTR) w = (Inr ([], c'), w')"
  using assms cipher_modes [of alg CTR] by (simp add: encrypt_Inr do_encrypt_run run_cipher_def)

text \<open>A vector of fewer than 14 characters that is set stays short, and is read past its end.\<close>

theorem short_vector_overread:
  assumes "length init < 14" and "cipher_mode alg mode = Some m" and "m \<noteq> ECB" and "ev_new ev \<noteq> None" and "32 \<le> length (sy_key c)"
  shows "decrypt ev alg (set_init c init) pass mode = Inl Undefined_behaviour"
proof -
  have "iv_length m = 16" using assms(3) by (cases m) auto
  moreover have "key_length alg \<le> length (sy_key c)" using assms(5) key_length_le [of alg] by linarith
  ultimately show ?thesis
    using assms by (auto simp: decrypt_def do_decrypt_run run_cipher_def set_init_def read_bytes_Inr read_bytes_def [of 16])
qed

section \<open>A session with the generator of the C library\<close>

lemma lcg_draws: "\<exists>s w'. LCG_rand env w = (Inr s, w') \<and> length s = 16"
  using LCG_rand_letters by (metis prod.exhaust)

lemma lcg_draw_key: "\<exists>k w'. draw_key (LCG_rand env) n key w = (Inr k, w')"
proof (induction n arbitrary: key w)
  case (Suc n)
  obtain s w1 where "LCG_rand env w = (Inr s, w1)" using lcg_draws [of env w] by blast
  with Suc show ?case by simp
qed simp

lemma lcg_new: "\<exists>c w'. Cipher_new alg (LCG_rand env) w = (Inr c, w')"
proof -
  obtain k w1 where k: "draw_key (LCG_rand env) 4 [] w = (Inr k, w1)" using lcg_draw_key [of env 4 "[]" w] by blast
  obtain i w2 where i: "LCG_rand env w1 = (Inr i, w2)" using lcg_draws [of env w1] by blast
  obtain s1 w3 where s1: "LCG_rand env w2 = (Inr s1, w3)" using lcg_draws [of env w2] by blast
  obtain s2 w4 where s2: "LCG_rand env w3 = (Inr s2, w4)" using lcg_draws [of env w3] by blast
  show ?thesis by (cases alg) (simp_all add: Cipher_new_def Symmetric_new_def k i s1 s2)
qed

text \<open>
  With the generator of the C library every object of the three classes is made, and encrypts and decrypts any
  text in each mode it has.
\<close>

theorem lcg_session:
  assumes works: "evp_works ev" and mode: "cipher_mode alg mode \<noteq> None"
  shows "\<exists>c w1 pass c' w2. Cipher_new alg (LCG_rand env) w = (Inr c, w1) \<and>
    encrypt ev alg (LCG_rand env) c s mode w1 = (Inr (pass, c'), w2) \<and> decrypt ev alg c' pass mode = Inr s \<and>
    length (sy_key c') = 64 \<and> length (sy_init c') = 16"
proof -
  obtain m where m: "cipher_mode alg mode = Some m" using mode by auto
  obtain c w1 where c: "Cipher_new alg (LCG_rand env) w = (Inr c, w1)" using lcg_new [of alg env w] by blast
  obtain init w2 where init: "LCG_rand env w1 = (Inr init, w2)" "length init = 16" using lcg_draws [of env w1] by blast
  let ?c = "c\<lparr>sy_key := pad0 64 (sy_key c), sy_init := pad0 16 init\<rparr>"
  have len: "64 \<le> length (sy_key ?c)" "16 \<le> length (sy_init ?c)" by simp_all
  obtain pass where pass: "run_cipher ev True alg 16 (sy_key ?c) (sy_init ?c) s mode = Inr pass"
    "run_cipher ev False alg 0 (sy_key ?c) (sy_init ?c) pass mode = Inr s"
    using run_cipher_inverse [OF works m len] by blast
  then have enc: "encrypt ev alg (LCG_rand env) c s mode w1 = (Inr (pass, ?c), w2)"
    using init by (simp add: encrypt_Inr do_encrypt_run)
  have "length (sy_key ?c) = 64 \<and> length (sy_init ?c) = 16"
    by (rule lcg_source.encrypted_lengths [OF lcg_source.new_key_length [OF c] enc])
  with c enc pass show ?thesis
    by (intro exI [of _ c] exI [of _ w1] exI [of _ pass] exI [of _ ?c] exI [of _ w2]) (simp add: decrypt_def do_decrypt_run)
qed

end
