(* ===== verification/Crypto_Asymmetric.thy ===== *)
theory Crypto_Asymmetric
  imports Crypto_Random
begin

text \<open>
  The asymmetric ciphers of \<^verbatim>\<open>misc/crypto/AsymmeticChiper.cc\<close>. The RSA functions of OpenSSL are parameters; the
  loops over the blocks of a text, the array of 1024 bytes they fill and the length they give the result are the code's. A
  key of 512 bits has the size 64. Texts are shorter than 2 GiB.
\<close>

section \<open>Keys\<close>

text \<open>\<open>None\<close> is a failure: for the generation another result than 1, for the others the length -1.\<close>

record ('r, 'w) rsa_env =
  ra_generate :: "int \<Rightarrow> u64 \<Rightarrow> 'w \<Rightarrow> 'r option \<times> 'w"
  ra_private_encrypt :: "'r \<Rightarrow> string \<Rightarrow> string option"
  ra_public_encrypt :: "'r \<Rightarrow> string \<Rightarrow> string option"
  ra_public_decrypt :: "'r \<Rightarrow> string \<Rightarrow> string option"
  ra_private_decrypt :: "'r \<Rightarrow> string \<Rightarrow> string option"

record 'r asymmetric =
  as_pbk :: string
  as_prk :: string
  as_rsa :: 'r

definition rsa_size :: nat where
  "rsa_size = 64"

definition rsa_padding :: nat where
  "rsa_padding = 11"

definition Asymmetric_new :: "('w \<Rightarrow> string cxx \<times> 'w) \<Rightarrow> 'w \<Rightarrow> (string \<times> string) cxx \<times> 'w" where
  "Asymmetric_new draw w =
     (case draw w of (Inl e, w) \<Rightarrow> (Inl e, w)
      | (Inr prk, w) \<Rightarrow> (case draw w of (Inl e, w) \<Rightarrow> (Inl e, w) | (Inr pbk, w) \<Rightarrow> (Inr (pbk, prk), w)))"

text \<open>\<^verbatim>\<open>prk[i]\<close> may be the terminator, and nothing behind it.\<close>

definition exponent_of :: "string \<Rightarrow> string \<Rightarrow> int cxx" where
  "exponent_of pbk prk =
     (if length pbk > Suc (length prk) then Inl Undefined_behaviour
      else Inr (fold (\<lambda>i key. key + signed_char (pbk ! i) + signed_char ((prk @ [CHR 0x00]) ! i)) [0..<length pbk] 0))"

partial_function (option) generate_again :: "('r, 'w) rsa_env \<Rightarrow> 'w \<Rightarrow> ('r \<times> 'w) option" where
  "generate_again env w =
     (case ra_generate env 512 65537 w of (Some r, w) \<Rightarrow> Some (r, w) | (None, w) \<Rightarrow> generate_again env w)"

definition RSA_new :: "('r, 'w) rsa_env \<Rightarrow> ('w \<Rightarrow> string cxx \<times> 'w) \<Rightarrow> 'w \<Rightarrow> ('r asymmetric cxx \<times> 'w) option" where
  "RSA_new env draw w =
     (case Asymmetric_new draw w of (Inl e, w) \<Rightarrow> Some (Inl e, w)
      | (Inr (pbk, prk), w) \<Rightarrow>
          (case exponent_of pbk prk of Inl e \<Rightarrow> Some (Inl e, w)
           | Inr key \<Rightarrow>
               (case ra_generate env 512 (word_of_int key) w of
                  (Some r, w) \<Rightarrow> Some (Inr \<lparr>as_pbk = pbk, as_prk = prk, as_rsa = r\<rparr>, w)
                | (None, w) \<Rightarrow>
                    map_option (\<lambda>(r, w). (Inr \<lparr>as_pbk = pbk, as_prk = prk, as_rsa = r\<rparr>, w)) (generate_again env w))))"

definition RSA_delete :: "'r asymmetric \<Rightarrow> 'r asymmetric" where
  "RSA_delete c = c\<lparr>as_pbk := [], as_prk := []\<rparr>"

definition get_pubkey :: "'r asymmetric \<Rightarrow> string" where
  "get_pubkey c = as_pbk c"

definition get_prvkey :: "'r asymmetric \<Rightarrow> string" where
  "get_prvkey c = as_prk c"

definition set_prvkey :: "'r asymmetric \<Rightarrow> string \<Rightarrow> bool \<times> 'r asymmetric" where
  "set_prvkey c key = (True, c\<lparr>as_prk := key\<rparr>)"

definition reset_prvkey :: "'r asymmetric \<Rightarrow> 'r asymmetric" where
  "reset_prvkey c = c\<lparr>as_prk := [], as_pbk := []\<rparr>"

section \<open>The loops over blocks\<close>

text \<open>\<open>outdata\<close> starts with the indeterminate contents of the array.\<close>

definition write_at :: "string \<Rightarrow> nat \<Rightarrow> string \<Rightarrow> string" where
  "write_at outdata off s = take off outdata @ s @ drop (off + length s) outdata"

function encrypt_blocks :: "(string \<Rightarrow> string option) \<Rightarrow> string \<Rightarrow> nat \<Rightarrow> string \<Rightarrow> nat \<Rightarrow> string cxx" where
  "encrypt_blocks rsa data i outdata outsize =
     (if i < length data then
        (let blocksize = rsa_size - rsa_padding;
             ensize = (if length data - i < blocksize then length data - i else blocksize);
             outoff = i + rsa_padding * (i div blocksize)
         in case rsa (take ensize (drop i data)) of
              None \<Rightarrow> Inr []
            | Some out \<Rightarrow>
                if outoff + length out > 1024 then Inl Undefined_behaviour
                else encrypt_blocks rsa data (i + blocksize) (write_at outdata outoff out) (outoff + rsa_size))
      else Inr (take outsize outdata))"
  by pat_completeness auto

termination
  by (relation "measure (\<lambda>(_, data, i, _, _). length data - i)") (auto simp: rsa_size_def rsa_padding_def)

text \<open>The block of a text that ends within it is read past the text; a failure takes one byte of the result back.\<close>

function decrypt_blocks :: "(string \<Rightarrow> string option) \<Rightarrow> string \<Rightarrow> nat \<Rightarrow> int \<Rightarrow> string \<Rightarrow> string cxx" where
  "decrypt_blocks rsa data i outoff outdata =
     (if i < length data then
        (if outoff < 0 \<or> rsa_size > length data - i + 1 then Inl Undefined_behaviour
         else case rsa (take rsa_size (drop i data @ [CHR 0x00])) of
              None \<Rightarrow> decrypt_blocks rsa data (i + rsa_size) (outoff - 1) outdata
            | Some out \<Rightarrow>
                if nat outoff + length out > 1024 then Inl Undefined_behaviour
                else decrypt_blocks rsa data (i + rsa_size) (outoff + int (length out)) (write_at outdata (nat outoff) out))
      else if outoff < 0 then Inl Length_error
      else Inr (take (nat outoff) outdata))"
  by pat_completeness auto

termination
  by (relation "measure (\<lambda>(_, data, i, _, _). length data - i)") (auto simp: rsa_size_def)

declare encrypt_blocks.simps [simp del] decrypt_blocks.simps [simp del]

definition do_encrypt_prvkey :: "('r, 'w) rsa_env \<Rightarrow> 'r asymmetric \<Rightarrow> string \<Rightarrow> string \<Rightarrow> string cxx" where
  "do_encrypt_prvkey env c data outdata = encrypt_blocks (ra_private_encrypt env (as_rsa c)) data 0 outdata 0"

definition do_encrypt_pubkey :: "('r, 'w) rsa_env \<Rightarrow> 'r asymmetric \<Rightarrow> string \<Rightarrow> string \<Rightarrow> string cxx" where
  "do_encrypt_pubkey env c data outdata = encrypt_blocks (ra_public_encrypt env (as_rsa c)) data 0 outdata 0"

definition do_decrypt_pubkey :: "('r, 'w) rsa_env \<Rightarrow> 'r asymmetric \<Rightarrow> string \<Rightarrow> string \<Rightarrow> string cxx" where
  "do_decrypt_pubkey env c data outdata = decrypt_blocks (ra_public_decrypt env (as_rsa c)) data 0 0 outdata"

definition do_decrypt_prvkey :: "('r, 'w) rsa_env \<Rightarrow> 'r asymmetric \<Rightarrow> string \<Rightarrow> string \<Rightarrow> string cxx" where
  "do_decrypt_prvkey env c data outdata = decrypt_blocks (ra_private_decrypt env (as_rsa c)) data 0 0 outdata"

text \<open>Encryption without \<open>cert\<close> calls the decryption with the public key.\<close>

definition asym_encrypt :: "('r, 'w) rsa_env \<Rightarrow> 'r asymmetric \<Rightarrow> string \<Rightarrow> bool \<Rightarrow> string \<Rightarrow> string cxx" where
  "asym_encrypt env c s cert outdata =
     (if cert then do_encrypt_prvkey env c s outdata else do_decrypt_pubkey env c s outdata)"

definition asym_decrypt :: "('r, 'w) rsa_env \<Rightarrow> 'r asymmetric \<Rightarrow> string \<Rightarrow> bool \<Rightarrow> string \<Rightarrow> string cxx" where
  "asym_decrypt env c pass reply outdata =
     (if reply then do_decrypt_prvkey env c pass outdata else do_decrypt_pubkey env c pass outdata)"

section \<open>The blocks of a text\<close>

function chunks :: "string \<Rightarrow> string list" where
  "chunks s = (if s = [] then [] else take 53 s # chunks (drop 53 s))"
  by pat_completeness auto

termination
  by (relation "measure length") auto

declare chunks.simps [simp del]

lemma chunks_Nil [simp]: "chunks [] = []"
  by (simp add: chunks.simps)

lemma concat_chunks [simp]: "concat (chunks s) = s"
  by (induction s rule: chunks.induct) (subst chunks.simps, simp)

lemma chunks_bound: "b \<in> set (chunks s) \<Longrightarrow> b \<noteq> [] \<and> length b \<le> 53"
proof (induction s rule: chunks.induct)
  case (1 s)
  then show ?case by (subst (asm) (2) chunks.simps) (auto split: if_splits)
qed

lemma length_write_at: "off + length s \<le> length buf \<Longrightarrow> length (write_at buf off s) = length buf"
  by (simp add: write_at_def)

lemma take_write_at: "off + length s \<le> length buf \<Longrightarrow> take (off + length s) (write_at buf off s) = take off buf @ s"
  by (simp add: write_at_def)

text \<open>Encryption writes block after block.\<close>

lemma encrypt_blocks_spec:
  assumes "\<And>b. b \<in> set (chunks (drop (53 * k) data)) \<Longrightarrow> \<exists>c. rsa b = Some c \<and> length c = 64"
    and "length data \<le> 848" and "length outdata = 1024" and "53 * k \<le> length data + 52"
  shows "encrypt_blocks rsa data (53 * k) outdata (64 * k) =
    Inr (take (64 * k) outdata @ concat (map (\<lambda>b. the (rsa b)) (chunks (drop (53 * k) data))))"
  using assms
proof (induction "length data - 53 * k" arbitrary: k outdata rule: less_induct)
  case less
  show ?case
  proof (cases "53 * k < length data")
    case False
    then show ?thesis by (subst encrypt_blocks.simps) simp
  next
    case True
    let ?rest = "drop (53 * k) data"
    have chunks: "chunks ?rest = take 53 ?rest # chunks (drop (53 * Suc k) data)"
      using True by (subst chunks.simps) (simp add: add.commute)
    with less.prems(1) obtain c where c: "rsa (take 53 ?rest) = Some c" "length c = 64"
      by (metis list.set_intros(1))
    have k: "k < 16" using True less.prems(2) by simp
    have off: "53 * k + 11 * (53 * k div 53) = 64 * k" by simp
    let ?out = "write_at outdata (64 * k) c"
    have block: "take (if length data - 53 * k < 53 then length data - 53 * k else 53) ?rest = take 53 ?rest" by simp
    have size: "rsa_size - rsa_padding = 53" "rsa_padding = 11" "rsa_size = 64" by (simp_all add: rsa_size_def rsa_padding_def)
    have fits: "\<not> 64 * k + length c > 1024" using k c(2) by simp
    have step: "encrypt_blocks rsa data (53 * k) outdata (64 * k) = encrypt_blocks rsa data (53 * Suc k) ?out (64 * Suc k)"
      by (subst encrypt_blocks.simps)
        (simp only: True if_True Let_def size(1), simp only: size block c(1) option.case off fits if_False,
         simp only: mult_Suc_right add.commute)
    have "length data - 53 * Suc k < length data - 53 * k" using True by simp
    then have "encrypt_blocks rsa data (53 * Suc k) ?out (64 * Suc k) =
        Inr (take (64 * Suc k) ?out @ concat (map (\<lambda>b. the (rsa b)) (chunks (drop (53 * Suc k) data))))"
    proof (rule less.hyps)
      show "\<exists>c. rsa b = Some c \<and> length c = 64" if "b \<in> set (chunks (drop (53 * Suc k) data))" for b
        using less.prems(1) that chunks by simp
    qed (use less.prems(2,3) True c k in \<open>simp_all add: length_write_at\<close>)
    moreover have "take (64 * Suc k) ?out = take (64 * k) outdata @ c"
      using take_write_at [of "64 * k" c outdata] c k less.prems(3) by (simp add: add.commute)
    ultimately show ?thesis using step chunks c by simp
  qed
qed

text \<open>Decryption puts the blocks behind each other.\<close>

lemma decrypt_blocks_spec:
  assumes "drop i data = concat (map fst bs)" and "i \<le> length data"
    and "\<And>c b. (c, b) \<in> set bs \<Longrightarrow> length c = 64 \<and> rsa c = Some b"
    and "length outdata = 1024" and "n + length (concat (map snd bs)) \<le> 1024"
  shows "decrypt_blocks rsa data i (int n) outdata = Inr (take n outdata @ concat (map snd bs))"
  using assms
proof (induction bs arbitrary: i n outdata)
  case Nil
  then show ?case by (subst decrypt_blocks.simps) simp
next
  case (Cons p bs)
  obtain c b where p: "p = (c, b)" by (cases p)
  with Cons.prems(3) [of c b] have c: "length c = 64" "rsa c = Some b" by simp_all
  from Cons.prems(1) p have rest: "drop i data = c @ concat (map fst bs)" by simp
  then have len: "length data - i = 64 + length (concat (map fst bs))" using c(1) by (metis length_append length_drop)
  then have i: "i < length data" "\<not> (int n < 0 \<or> rsa_size > length data - i + 1)" by (simp_all add: rsa_size_def)
  have block: "rsa (take rsa_size (drop i data @ [CHR 0x00])) = Some b"
    using c rest by (simp add: rsa_size_def)
  have fits: "n + length b \<le> 1024" using Cons.prems(5) p by simp
  let ?out = "write_at outdata n b"
  have step: "decrypt_blocks rsa data i (int n) outdata = decrypt_blocks rsa data (i + 64) (int (n + length b)) ?out"
    using i block fits by (subst decrypt_blocks.simps) (simp add: rsa_size_def)
  have "decrypt_blocks rsa data (i + 64) (int (n + length b)) ?out = Inr (take (n + length b) ?out @ concat (map snd bs))"
  proof (rule Cons.IH)
    show "drop (i + 64) data = concat (map fst bs)"
      using rest c(1) by (metis add.commute append_eq_conv_conj drop_drop)
    show "length c' = 64 \<and> rsa c' = Some b'" if "(c', b') \<in> set bs" for c' b'
      by (rule Cons.prems(3)) (use that in simp)
  qed (use Cons.prems(4,5) p fits len in \<open>simp_all add: length_write_at\<close>)
  then show ?case
    using step take_write_at [of n b outdata] fits Cons.prems(4) p by simp
qed

section \<open>What the ciphers do\<close>

definition rsa_inverse :: "(string \<Rightarrow> string option) \<Rightarrow> (string \<Rightarrow> string option) \<Rightarrow> bool" where
  "rsa_inverse enc dec \<longleftrightarrow> (\<forall>b. length b \<le> 53 \<longrightarrow> (\<exists>c. enc b = Some c \<and> length c = 64 \<and> dec c = Some b))"

lemma blocks_round_trip:
  assumes inv: "rsa_inverse enc dec" and len: "length data \<le> 848" and buf: "length buf = 1024" "length buf' = 1024"
  shows "\<exists>pass. encrypt_blocks enc data 0 buf 0 = Inr pass \<and> decrypt_blocks dec pass 0 0 buf' = Inr data"
proof -
  let ?cs = "chunks data"
  have enc: "\<exists>c. enc b = Some c \<and> length c = 64 \<and> dec c = Some b" if "b \<in> set ?cs" for b
    using inv chunks_bound [OF that] by (auto simp: rsa_inverse_def)
  let ?bs = "map (\<lambda>b. (the (enc b), b)) ?cs"
  have "encrypt_blocks enc data (53 * 0) buf (64 * 0) = Inr (take (64 * 0) buf @ concat (map (\<lambda>b. the (enc b)) (chunks (drop (53 * 0) data))))"
    by (rule encrypt_blocks_spec) (use enc len buf in force)+
  then have pass: "encrypt_blocks enc data 0 buf 0 = Inr (concat (map fst ?bs))" by (simp add: comp_def)
  have "decrypt_blocks dec (concat (map fst ?bs)) 0 (int 0) buf' = Inr (take 0 buf' @ concat (map snd ?bs))"
  proof (rule decrypt_blocks_spec)
    show "length c = 64 \<and> dec c = Some b" if "(c, b) \<in> set ?bs" for c b
      using that enc by fastforce
    have "map snd ?bs = ?cs" by (simp add: comp_def)
    then show "0 + length (concat (map snd ?bs)) \<le> 1024" using len by simp
  qed (simp_all add: buf)
  with pass show ?thesis by (simp add: comp_def)
qed

text \<open>
  C37: a text of at most 848 bytes that is encrypted with the private key is read back with the public key, block by
  block; nothing of what the array held before is in the result.
\<close>

theorem rsa_round_trip:
  assumes "rsa_inverse (ra_private_encrypt env (as_rsa c)) (ra_public_decrypt env (as_rsa c))"
    and "length s \<le> 848" and "length buf = 1024" and "length buf' = 1024"
  shows "\<exists>pass. asym_encrypt env c s True buf = Inr pass \<and> asym_decrypt env c pass False buf' = Inr s"
  using blocks_round_trip [OF assms]
  by (simp add: asym_encrypt_def asym_decrypt_def do_encrypt_prvkey_def do_decrypt_pubkey_def)

text \<open>A stand-in for RSA: the block and its length in unary, in 64 characters.\<close>

definition toy_rsa :: "(unit, unit) rsa_env" where
  "toy_rsa = \<lparr>ra_generate = (\<lambda>_ _ w. (Some (), w)),
     ra_private_encrypt = (\<lambda>_ b. Some (replicate (63 - length b) CHR ''0'' @ CHR ''1'' # b)),
     ra_public_encrypt = (\<lambda>_ b. None),
     ra_public_decrypt = (\<lambda>_ c. Some (drop 1 (dropWhile (\<lambda>x. x = CHR ''0'') c))),
     ra_private_decrypt = (\<lambda>_ c. None)\<rparr>"

lemma toy_rsa_inverse: "rsa_inverse (ra_private_encrypt toy_rsa ()) (ra_public_decrypt toy_rsa ())"
proof -
  have "dropWhile (\<lambda>x. x = CHR ''0'') (replicate n CHR ''0'' @ CHR ''1'' # b) = CHR ''1'' # b" for n b
    by (induction n) auto
  then show ?thesis by (simp add: rsa_inverse_def toy_rsa_def)
qed

theorem rsa_round_trip_witness:
  "\<exists>pass. asym_encrypt toy_rsa \<lparr>as_pbk = [], as_prk = [], as_rsa = ()\<rparr> ''text'' True (replicate 1024 CHR ''x'') = Inr pass \<and>
     asym_decrypt toy_rsa \<lparr>as_pbk = [], as_prk = [], as_rsa = ()\<rparr> pass False (replicate 1024 CHR ''y'') = Inr ''text''"
  by (rule rsa_round_trip) (simp_all add: toy_rsa_inverse)

text \<open>
  Encryption with the public key decrypts instead: it is what decryption does, and reads a text of fewer than 63
  characters past its end.
\<close>

theorem public_encryption_decrypts:
  "asym_encrypt env c s False buf = asym_decrypt env c s False buf"
  "0 < length s \<Longrightarrow> length s < 63 \<Longrightarrow> asym_encrypt env c s False buf = Inl Undefined_behaviour"
proof -
  show "asym_encrypt env c s False buf = asym_decrypt env c s False buf"
    by (simp add: asym_encrypt_def asym_decrypt_def)
  show "asym_encrypt env c s False buf = Inl Undefined_behaviour" if "0 < length s" and "length s < 63"
    using that by (simp add: asym_encrypt_def do_decrypt_pubkey_def) (subst decrypt_blocks.simps, simp add: rsa_size_def)
qed

text \<open>A block that cannot be decrypted raises an exception when it is the only one.\<close>

theorem undecryptable_raises:
  assumes "length pass = 64" and "ra_public_decrypt env (as_rsa c) pass = None"
  shows "asym_decrypt env c pass False buf = Inl Length_error"
proof -
  have "take rsa_size (drop 0 pass @ [CHR 0x00]) = pass" using assms(1) by (simp add: rsa_size_def)
  with assms show ?thesis
    by (simp add: asym_decrypt_def do_decrypt_pubkey_def)
      (subst decrypt_blocks.simps, simp add: rsa_size_def, subst decrypt_blocks.simps, simp)
qed

text \<open>The key texts are random texts that have nothing to do with the keys: setting one changes nothing.\<close>

theorem set_prvkey_ignored:
  "asym_encrypt env (snd (set_prvkey c key)) s cert buf = asym_encrypt env c s cert buf"
  "asym_decrypt env (snd (set_prvkey c key)) s reply buf = asym_decrypt env c s reply buf"
  by (simp_all add: set_prvkey_def asym_encrypt_def asym_decrypt_def do_encrypt_prvkey_def do_decrypt_pubkey_def do_decrypt_prvkey_def)

text \<open>A text of more than 848 bytes is written past the end of the array.\<close>

lemma block_length: "length (take (if n < 53 then n else 53) xs) \<le> 53"
  by auto

lemma encrypt_blocks_overflow:
  assumes "848 < length data" and "\<And>b. length b \<le> 53 \<Longrightarrow> \<exists>c. rsa b = Some c \<and> length c = 64"
  shows "k \<le> 16 \<Longrightarrow> encrypt_blocks rsa data (53 * k) buf n = Inl Undefined_behaviour"
proof (induction "16 - k" arbitrary: k buf n)
  case 0
  then have k: "k = 16" by simp
  have i: "53 * 16 < length data" and size: "rsa_size - rsa_padding = 53"
    using assms(1) by (simp_all add: rsa_size_def rsa_padding_def)
  obtain c where c: "rsa (take (if length data - 53 * 16 < 53 then length data - 53 * 16 else 53) (drop (53 * 16) data)) = Some c" "length c = 64"
    using assms(2) [OF block_length] by blast
  have off: "53 * 16 + rsa_padding * (53 * 16 div 53) = 64 * 16" by (simp add: rsa_padding_def)
  have big: "64 * 16 + length c > 1024" using c(2) by simp
  show ?case
    unfolding k by (subst encrypt_blocks.simps) (simp only: i if_True Let_def size c(1) option.case off big)
next
  case (Suc j)
  then have k: "k < 16" "j = 16 - Suc k" by simp_all
  then have i: "53 * k < length data" and size: "rsa_size - rsa_padding = 53" using assms(1) by (simp_all add: rsa_size_def rsa_padding_def)
  obtain c where c: "rsa (take (if length data - 53 * k < 53 then length data - 53 * k else 53) (drop (53 * k) data)) = Some c" "length c = 64"
    using assms(2) [OF block_length] by blast
  have off: "53 * k + rsa_padding * (53 * k div 53) = 64 * k" by (simp add: rsa_padding_def)
  have fits: "\<not> 64 * k + length c > 1024" using k c(2) by simp
  have "encrypt_blocks rsa data (53 * Suc k) (write_at buf (64 * k) c) (64 * k + rsa_size) = Inl Undefined_behaviour"
    by (rule Suc.hyps(1)) (use k in auto)
  moreover have "encrypt_blocks rsa data (53 * k) buf n = encrypt_blocks rsa data (53 * k + 53) (write_at buf (64 * k) c) (64 * k + rsa_size)"
    by (subst encrypt_blocks.simps) (simp only: i if_True Let_def size c(1) option.case off fits if_False)
  ultimately show ?case by (simp add: add.commute)
qed

theorem long_text_overflows:
  assumes "\<And>b. length b \<le> 53 \<Longrightarrow> \<exists>c. ra_private_encrypt env (as_rsa c') b = Some c \<and> length c = 64" and "848 < length s"
  shows "asym_encrypt env c' s True buf = Inl Undefined_behaviour"
  using encrypt_blocks_overflow [where k = 0 and rsa = "ra_private_encrypt env (as_rsa c')", OF assms(2,1)]
  by (simp add: asym_encrypt_def do_encrypt_prvkey_def)

text \<open>The constructor does not return while OpenSSL refuses to make a key.\<close>

theorem generate_again_fails:
  fixes env :: "('r, 'w) rsa_env"
  assumes "\<And>w. fst (ra_generate env 512 65537 w) = None"
  shows "generate_again env w = None"
proof (rule ccontr)
  assume "generate_again env w \<noteq> None"
  then obtain y where "generate_again env w = Some y" by blast
  then have "env \<noteq> env"
  proof (rule generate_again.raw_induct [where P = "\<lambda>e _ _. e \<noteq> env", rotated])
    fix f :: "('r, 'w) rsa_env \<Rightarrow> 'w \<Rightarrow> ('r \<times> 'w) option" and e w' y
    assume IH: "\<And>e w' y. f e w' = Some y \<Longrightarrow> e \<noteq> env"
      and step: "(case ra_generate e 512 65537 w' of (None, w) \<Rightarrow> f e w | (Some r, w) \<Rightarrow> Some (r, w)) = Some y"
    show "e \<noteq> env"
    proof
      assume e: "e = env"
      obtain w'' where "ra_generate env 512 65537 w' = (None, w'')"
        using assms [of w'] by (cases "ra_generate env 512 65537 w'") auto
      with IH [of e w'' y] step e show False by simp
    qed
  qed
  then show False by simp
qed

end
