(* ===== verification/Image_Transforms.thy ===== *)
theory Image_Transforms
  imports Tensor Ordered_Map
begin

text \<open>
  Preprocessing of tensors, \<^verbatim>\<open>misc/cv/Transforms.cc\<close> and \<^verbatim>\<open>misc/cv/Compose.cc\<close>: a named list of functions, lists of such lists,
  and the two static pools in which they are found by name. A compose is a transforms with a further member, so its record
  extends the other one; what is stored in the pool of transforms is cut to the base class. The functions are pointers to
  code that may change the world \<open>'w\<close>.
\<close>

section \<open>Transforms\<close>

type_synonym 'w tran = "tensor \<Rightarrow> 'w \<Rightarrow> tensor \<times> 'w"

record 'w transforms =
  tr_trans :: "'w tran list"
  tr_buf :: tensor
  tr_name :: string

record 'w compose = "'w transforms" +
  co_seq :: "'w transforms list"

record 'w pools =
  po_trans :: "(string \<times> 'w tran) list"
  po_transforms :: "(string \<times> 'w transforms) list"

definition Transforms_default :: "'w transforms" where
  "Transforms_default = \<lparr>tr_trans = [], tr_buf = Tensor_new, tr_name = []\<rparr>"

definition Transforms_copy :: "('w, 'm) transforms_scheme \<Rightarrow> 'w transforms" where
  "Transforms_copy t = \<lparr>tr_trans = tr_trans t, tr_buf = Tensor_copy (tr_buf t), tr_name = tr_name t\<rparr>"

definition Transforms_assign :: "'w transforms \<Rightarrow> ('w, 'm) transforms_scheme \<Rightarrow> 'w transforms" where
  "Transforms_assign this t =
     \<lparr>tr_trans = tr_trans t, tr_buf = Tensor_copy_assign (tr_buf this) (tr_buf t), tr_name = tr_name t\<rparr>"

text \<open>\<^verbatim>\<open>transforms_pool[name]\<close>: a name that is not there is added with an empty object.\<close>

definition pool_at :: "'w pools \<Rightarrow> string \<Rightarrow> 'w transforms \<times> 'w pools" where
  "pool_at p name =
     (case map_of (po_transforms p) name of
        Some t \<Rightarrow> (t, p)
      | None \<Rightarrow> (Transforms_default, p\<lparr>po_transforms := smap_set (po_transforms p) name Transforms_default\<rparr>))"

text \<open>\<^verbatim>\<open>transforms_pool[name] = *this\<close>.\<close>

definition pool_store :: "'w pools \<Rightarrow> ('w, 'm) transforms_scheme \<Rightarrow> 'w pools" where
  "pool_store p t =
     (case pool_at p (tr_name t) of (old, p) \<Rightarrow>
        p\<lparr>po_transforms := smap_set (po_transforms p) (tr_name t) (Transforms_assign old t)\<rparr>)"

definition Transforms_new :: "'w pools \<Rightarrow> string \<Rightarrow> 'w transforms \<times> 'w pools" where
  "Transforms_new p name = (let t = Transforms_default\<lparr>tr_name := name\<rparr> in (t, pool_store p t))"

definition Transforms_call :: "'w pools \<Rightarrow> ('w, 'm) transforms_scheme \<Rightarrow> tensor \<Rightarrow> ('w, 'm) transforms_scheme \<times> 'w pools" where
  "Transforms_call p t tensor =
     (let t = t\<lparr>tr_buf := Tensor_copy_assign (tr_buf t) tensor\<rparr> in (t, pool_store p t))"

text \<open>The name given here is the one of the function, and goes into the other pool.\<close>

definition add_trans :: "'w pools \<Rightarrow> ('w, 'm) transforms_scheme \<Rightarrow> string \<Rightarrow> 'w tran \<Rightarrow> bool \<times> ('w, 'm) transforms_scheme \<times> 'w pools" where
  "add_trans p t name f =
     (True, t\<lparr>tr_trans := tr_trans t @ [f]\<rparr>, p\<lparr>po_trans := smap_set (po_trans p) name f\<rparr>)"

definition add_compose :: "'w pools \<Rightarrow> ('w, 'm) transforms_scheme \<Rightarrow> 'w compose \<Rightarrow> ('w, 'm) transforms_scheme \<times> 'w pools" where
  "add_compose p t c = (let t = t\<lparr>tr_trans := tr_trans t @ tr_trans c\<rparr> in (t, pool_store p t))"

definition add_transforms ::
  "'w pools \<Rightarrow> ('w, 'm) transforms_scheme \<Rightarrow> ('w, 'n) transforms_scheme \<Rightarrow> ('w, 'm) transforms_scheme \<times> 'w pools" where
  "add_transforms p t other = (let t = t\<lparr>tr_trans := tr_trans t @ tr_trans other\<rparr> in (t, pool_store p t))"

fun run_trans :: "'w tran list \<Rightarrow> tensor \<Rightarrow> 'w \<Rightarrow> tensor \<times> 'w" where
  "run_trans [] tmp w = (tmp, w)"
| "run_trans (f # fs) tmp w =
     (case f tmp w of (result, w) \<Rightarrow> run_trans fs (fst (Tensor_move_assign tmp result)) w)"

definition start ::
  "'w pools \<Rightarrow> ('w, 'm) transforms_scheme \<Rightarrow> tensor \<Rightarrow> 'w \<Rightarrow> ('w, 'm) transforms_scheme \<times> 'w pools \<times> 'w" where
  "start p t tensor w =
     (case run_trans (tr_trans t) (Tensor_copy tensor) w of (tmp, w) \<Rightarrow>
        (let t = t\<lparr>tr_buf := Tensor_copy_assign (tr_buf t) tmp\<rparr> in (t, pool_store p t, w)))"

definition get_output :: "('w, 'm) transforms_scheme \<Rightarrow> tensor" where
  "get_output t = Tensor_copy (tr_buf t)"

definition get_name :: "('w, 'm) transforms_scheme \<Rightarrow> string" where
  "get_name t = tr_name t"

definition get_all_transforms :: "'w pools \<Rightarrow> string list" where
  "get_all_transforms p = map fst (po_transforms p)"

section \<open>Compositions\<close>

definition Compose_default :: "'w compose" where
  "Compose_default = transforms.extend Transforms_default \<lparr>co_seq = []\<rparr>"

definition Compose_push_back :: "'w compose \<Rightarrow> ('w, 'm) transforms_scheme \<Rightarrow> 'w compose" where
  "Compose_push_back c t = c\<lparr>tr_trans := tr_trans c @ tr_trans t, co_seq := co_seq c @ [Transforms_copy t]\<rparr>"

definition Compose_of :: "'w transforms list \<Rightarrow> 'w compose" where
  "Compose_of ts = foldl Compose_push_back Compose_default ts"

text \<open>The first of the three accesses adds an empty object for a name that is not there.\<close>

definition Compose_of_names :: "'w pools \<Rightarrow> string list \<Rightarrow> 'w compose \<times> 'w pools" where
  "Compose_of_names p names =
     foldl (\<lambda>(c, p) name. case pool_at p name of (t, p) \<Rightarrow>
       (c\<lparr>co_seq := co_seq c @ [Transforms_copy t], tr_trans := tr_trans c @ tr_trans t\<rparr>, p)) (Compose_default, p) names"

text \<open>An index of -1 and \<^verbatim>\<open>pop_back\<close> of an empty vector are undefined.\<close>

definition Compose_pop_back :: "'w compose \<Rightarrow> 'w compose cxx" where
  "Compose_pop_back c =
     (if co_seq c = [] then Inl Undefined_behaviour
      else let t_size = length (tr_trans (last (co_seq c))) in
        if t_size > length (tr_trans c) then Inl Undefined_behaviour
        else Inr (c\<lparr>tr_trans := take (length (tr_trans c) - t_size) (tr_trans c), co_seq := butlast (co_seq c)\<rparr>))"

definition Compose_size :: "'w compose \<Rightarrow> nat" where
  "Compose_size c = length (co_seq c)"

section \<open>A composition is the sequence of its parts\<close>

definition composed :: "'w compose \<Rightarrow> bool" where
  "composed c \<longleftrightarrow> tr_trans c = concat (map tr_trans (co_seq c))"

lemma Transforms_copy_trans [simp]: "tr_trans (Transforms_copy t) = tr_trans t"
  by (simp add: Transforms_copy_def)

lemma composed_push_back: "composed c \<Longrightarrow> composed (Compose_push_back c t)"
  by (simp add: composed_def Compose_push_back_def)

lemma composed_default: "composed Compose_default"
  by (simp add: composed_def Compose_default_def Transforms_default_def transforms.defs)

lemma composed_of:
  fixes ts :: "'w transforms list"
  shows "composed (Compose_of ts)"
proof -
  have "composed c \<Longrightarrow> composed (foldl Compose_push_back c ts)" for c :: "'w compose"
    by (induction ts arbitrary: c) (simp_all add: composed_push_back)
  then show ?thesis by (simp add: Compose_of_def composed_default)
qed

lemma composed_of_names:
  fixes p :: "'w pools"
  shows "composed (fst (Compose_of_names p names))"
proof -
  let ?f = "\<lambda>(c, p) name. case pool_at p name of (t, p) \<Rightarrow>
       (c\<lparr>co_seq := co_seq c @ [Transforms_copy t], tr_trans := tr_trans c @ tr_trans t\<rparr>, p)"
  have "composed (fst cp) \<Longrightarrow> composed (fst (foldl ?f cp names))" for cp :: "'w compose \<times> 'w pools"
    by (induction names arbitrary: cp) (auto simp: composed_def split: prod.splits)
  from this [of "(Compose_default, p)"] show ?thesis by (simp add: Compose_of_names_def composed_default)
qed

lemma composed_pop_back:
  assumes "composed c" and "co_seq c \<noteq> []"
  shows "\<exists>c'. Compose_pop_back c = Inr c' \<and> composed c' \<and> co_seq c' = butlast (co_seq c)"
proof -
  obtain ts t where seq: "co_seq c = ts @ [t]" using assms(2) by (metis rev_exhaust)
  then show ?thesis using assms(1) by (simp add: Compose_pop_back_def composed_def)
qed

text \<open>Only the bytes of a tensor go from one function to the next, into a tensor without a path.\<close>

lemma run_trans_append:
  "run_trans (fs @ gs) t w = (case run_trans fs t w of (t, w) \<Rightarrow> run_trans gs t w)"
  by (induction fs arbitrary: t w) (auto split: prod.splits)

lemma run_trans_path: "tn_path (fst (run_trans fs t w)) = tn_path t"
  by (induction fs arbitrary: t w) (auto simp: Tensor_move_assign_def split: prod.splits)

definition run_parts :: "'w transforms list \<Rightarrow> tensor \<Rightarrow> 'w \<Rightarrow> tensor \<times> 'w" where
  "run_parts ts t w = foldl (\<lambda>(t, w) part. case start \<lparr>po_trans = [], po_transforms = []\<rparr> part t w of (part, _, w) \<Rightarrow> (get_output part, w)) (Tensor_copy t, w) ts"

lemma tensor_same: "tn_path t = [] \<Longrightarrow> Tensor_copy (Tensor_copy_assign b t) = t \<and> Tensor_copy t = t"
  by (simp add: Tensor_copy_def Tensor_copy_assign_def Tensor_new_def)

lemma run_parts_concat:
  "tn_path t = [] \<Longrightarrow>
   foldl (\<lambda>(t, w) part. case start \<lparr>po_trans = [], po_transforms = []\<rparr> part t w of (part, _, w) \<Rightarrow> (get_output part, w)) (t, w) ts =
     run_trans (concat (map tr_trans ts)) t w"
proof (induction ts arbitrary: t w)
  case (Cons part ts)
  obtain t' w' where r: "run_trans (tr_trans part) t w = (t', w')" by fastforce
  have "tn_path t' = []" using run_trans_path [of "tr_trans part" t w] r Cons.prems by simp
  with Cons r show ?case
    by (simp add: start_def get_output_def Let_def tensor_same run_trans_append)
qed simp

text \<open>
  starting a composition that has been built from parts does what starting its parts does one after the other, each on the
  output of the one before.
\<close>

theorem compose_runs_parts:
  assumes "composed c"
  shows "case start p c t w of (c', p', w') \<Rightarrow> (get_output c', w') = run_parts (co_seq c) t w"
proof -
  obtain tmp w' where r: "run_trans (tr_trans c) (Tensor_copy t) w = (tmp, w')" by fastforce
  have path: "tn_path (Tensor_copy t) = []" by (simp add: Tensor_copy_def Tensor_new_def)
  then have "tn_path tmp = []" using run_trans_path [of "tr_trans c" "Tensor_copy t" w] r by simp
  with r assms run_parts_concat [OF path, of w "co_seq c"] show ?thesis
    by (simp add: start_def run_parts_def get_output_def Let_def tensor_same composed_def)
qed

theorem compose_runs_parts_witness:
  "\<exists>c. Compose_size c = 2 \<and>
     (case start \<lparr>po_trans = [], po_transforms = []\<rparr> c (Tensor_of_vector ''ab'') () of (c', _, _) \<Rightarrow> tn_src (get_output c')) = ''xxab''"
proof -
  let ?t = "\<lparr>tr_trans = [\<lambda>t w. (t\<lparr>tn_src := CHR ''x'' # tn_src t\<rparr>, w)], tr_buf = Tensor_new, tr_name = ''t''\<rparr> :: unit transforms"
  let ?c = "Compose_of [?t, ?t]"
  have "case start \<lparr>po_trans = [], po_transforms = []\<rparr> ?c (Tensor_of_vector ''ab'') () of (c', p', w') \<Rightarrow>
      (get_output c', w') = run_parts (co_seq ?c) (Tensor_of_vector ''ab'') ()"
    by (rule compose_runs_parts [OF composed_of])
  moreover have "fst (run_parts (co_seq ?c) (Tensor_of_vector ''ab'') ()) = \<lparr>tn_src = ''xxab'', tn_path = []\<rparr>"
    by (simp add: run_parts_def Compose_of_def Compose_push_back_def Compose_default_def Transforms_default_def transforms.defs
        Transforms_copy_def start_def get_output_def Tensor_copy_def Tensor_copy_assign_def Tensor_move_assign_def Tensor_new_def
        Tensor_of_vector_def Let_def)
  moreover have "Compose_size ?c = 2"
    by (simp add: Compose_size_def Compose_of_def Compose_push_back_def Compose_default_def Transforms_default_def transforms.defs)
  moreover obtain c' p' w' where start: "start \<lparr>po_trans = [], po_transforms = []\<rparr> ?c (Tensor_of_vector ''ab'') () = (c', p', w')"
    using prod_cases3 by blast
  ultimately have "get_output c' = \<lparr>tn_src = ''xxab'', tn_path = []\<rparr>" and "Compose_size ?c = 2"
    by (auto dest: arg_cong [of _ _ fst])
  with start show ?thesis by (intro exI [of _ ?c]) simp
qed

text \<open>Taking back what has been pushed gives the composition there was; from an empty one nothing can be taken.\<close>

theorem push_pop: "Compose_pop_back (Compose_push_back c t) = Inr c"
  by (simp add: Compose_pop_back_def Compose_push_back_def)

theorem pop_empty: "Compose_pop_back Compose_default = Inl Undefined_behaviour"
  by (simp add: Compose_pop_back_def Compose_default_def Transforms_default_def transforms.defs)

text \<open>A function added to a composition itself is taken away with the next part, of which one function stays.\<close>

theorem pop_takes_added:
  assumes "tr_trans t = [f]"
  shows "\<exists>c'. Compose_pop_back (fst (snd (add_trans p (Compose_push_back Compose_default t) name g))) = Inr c' \<and>
    co_seq c' = [] \<and> tr_trans c' = [f]"
  using assms
  by (simp add: add_trans_def Compose_pop_back_def Compose_push_back_def Compose_default_def Transforms_default_def transforms.defs)

section \<open>The pools\<close>

lemma pool_store_of:
  "smap_ok (po_transforms p) \<Longrightarrow>
   map_of (po_transforms (pool_store p t)) n =
     (if n = tr_name t then Some (Transforms_assign (fst (pool_at p n)) t) else map_of (po_transforms p) n)"
  by (auto simp: pool_store_def pool_at_def map_of_smap_set smap_ok_set split: option.splits)

lemma pool_at_ok: "smap_ok (po_transforms p) \<Longrightarrow> smap_ok (po_transforms (snd (pool_at p n)))"
  by (auto simp: pool_at_def smap_ok_set split: option.splits)

lemma pool_store_ok: "smap_ok (po_transforms p) \<Longrightarrow> smap_ok (po_transforms (pool_store p t))"
  using pool_at_ok [of p "tr_name t"] by (auto simp: pool_store_def smap_ok_set split: prod.splits)

text \<open>
  A composition by name has the functions its transforms had when it was stored last: one that \<open>add_trans\<close> has added since is missing.
\<close>

theorem added_function_missing:
  assumes ok: "smap_ok (po_transforms p0)" and new: "Transforms_new p0 name = (t, p1)"
    and add: "add_trans p1 t f_name f = (b, t', p2)"
  shows "tr_trans t' = [f] \<and> tr_trans (fst (Compose_of_names p2 [name])) = []"
proof -
  have t: "t = Transforms_default\<lparr>tr_name := name\<rparr>" and p1: "p1 = pool_store p0 t"
    using new by (auto simp: Transforms_new_def Let_def)
  have p2: "po_transforms p2 = po_transforms p1" and t': "t' = t\<lparr>tr_trans := tr_trans t @ [f]\<rparr>"
    using add by (auto simp: add_trans_def)
  have "map_of (po_transforms p2) name = Some (Transforms_assign (fst (pool_at p0 name)) t)"
    using p2 p1 t pool_store_of [OF ok, of t name] by simp
  then show ?thesis
    by (simp add: t' t Compose_of_names_def pool_at_def Transforms_assign_def Compose_default_def Transforms_default_def transforms.defs)
qed

text \<open>The names are listed in their order, each once.\<close>

theorem all_transforms_sorted:
  "smap_ok (po_transforms p) \<Longrightarrow> sorted_wrt (<) (get_all_transforms (pool_store p t)) \<and>
     set (get_all_transforms (pool_store p t)) = insert (tr_name t) (set (get_all_transforms p))"
  using pool_store_ok [of p t]
  by (auto simp: get_all_transforms_def pool_store_def pool_at_def split: option.splits)

end
