(* ===== verification/Image_Processing.thy ===== *)
theory Image_Processing
  imports Prelude "HOL-Library.Signed_Division"
begin

text \<open>
  The image functions of \<^verbatim>\<open>misc/cv/internal/ImagePrc.cc\<close>, for images of two dimensions with channels of 8 bits that lie in one
  piece of memory. Of OpenCV, regions,
  transposition, reflections, splitting and merging are what its documentation says; scaling and conversions of colours are
  parameters, where \<open>None\<close> is an exception, which a \<^verbatim>\<open>noexcept\<close> function does not survive. A function changes the image
  it is given: its result is whether it returns the image (or null), and what the image is then.
\<close>

section \<open>Images\<close>

type_synonym pixel = "8 word list"

record image =
  im_channels :: nat
  im_cols :: nat
  im_data :: "pixel list list"

abbreviation im_rows :: "image \<Rightarrow> nat" where
  "im_rows m \<equiv> length (im_data m)"

definition image_ok :: "image \<Rightarrow> bool" where
  "image_ok m \<longleftrightarrow> (\<forall>row \<in> set (im_data m). length row = im_cols m \<and> (\<forall>px \<in> set row. length px = im_channels m))"

definition image_empty :: "image \<Rightarrow> bool" where
  "image_empty m \<longleftrightarrow> im_rows m = 0 \<or> im_cols m = 0"

definition no_image :: "image \<Rightarrow> image" where
  "no_image m = m\<lparr>im_cols := 0, im_data := []\<rparr>"

abbreviation pixel_at :: "image \<Rightarrow> nat \<Rightarrow> nat \<Rightarrow> pixel" where
  "pixel_at m i j \<equiv> im_data m ! i ! j"

text \<open>\<^verbatim>\<open>cv::transpose\<close>, and \<^verbatim>\<open>cv::flip\<close> with the codes 0, 1 and -1.\<close>

definition cv_transpose :: "image \<Rightarrow> image" where
  "cv_transpose m = m\<lparr>im_cols := im_rows m, im_data := map (\<lambda>j. map (\<lambda>row. row ! j) (im_data m)) [0..<im_cols m]\<rparr>"

definition cv_flip :: "int \<Rightarrow> image \<Rightarrow> image" where
  "cv_flip code m =
     (if code = 0 then m\<lparr>im_data := rev (im_data m)\<rparr>
      else if code > 0 then m\<lparr>im_data := map rev (im_data m)\<rparr>
      else m\<lparr>im_data := rev (map rev (im_data m))\<rparr>)"

text \<open>A region that lies in the image.\<close>

definition cv_region :: "image \<Rightarrow> nat \<Rightarrow> nat \<Rightarrow> nat \<Rightarrow> nat \<Rightarrow> image" where
  "cv_region m x y width height =
     m\<lparr>im_cols := width, im_data := map (\<lambda>row. take width (drop x row)) (take height (drop y (im_data m)))\<rparr>"

definition cv_plane :: "image \<Rightarrow> nat \<Rightarrow> image" where
  "cv_plane m k = m\<lparr>im_channels := 1, im_data := map (map (\<lambda>px. [px ! k])) (im_data m)\<rparr>"

text \<open>Images of one size put together, channel after channel.\<close>

definition cv_merge2 :: "image \<Rightarrow> image \<Rightarrow> image" where
  "cv_merge2 a b = a\<lparr>im_channels := im_channels a + im_channels b, im_data := map2 (map2 (@)) (im_data a) (im_data b)\<rparr>"

section \<open>The functions\<close>

definition int_overflow :: "int \<Rightarrow> bool" where
  "int_overflow i \<longleftrightarrow> i < - 2147483648 \<or> 2147483647 < i"

text \<open>An empty region leaves no image.\<close>

definition rectangle :: "image \<Rightarrow> int \<Rightarrow> int \<Rightarrow> int \<Rightarrow> int \<Rightarrow> (bool \<times> image) cxx" where
  "rectangle src x y width height =
     (if image_empty src then Inr (False, src)
      else if x < 0 \<or> y < 0 \<or> height < 0 \<or> width < 0 then Inr (False, src)
      else if int_overflow (x + width) then Inl Undefined_behaviour
      else if x + width > int (im_cols src) then Inr (False, src)
      else if int_overflow (y + height) then Inl Undefined_behaviour
      else if y + height > int (im_rows src) then Inr (False, src)
      else let dst = cv_region src (nat x) (nat y) (nat width) (nat height)
        in if image_empty dst then Inr (False, no_image src) else Inr (True, dst))"

definition c_mod :: "int \<Rightarrow> int \<Rightarrow> int" where
  "c_mod a b = a smod b"

definition rotate_image :: "image \<Rightarrow> int \<Rightarrow> bool \<times> image" where
  "rotate_image src angle =
     (if image_empty src then (False, src)
      else if c_mod angle 90 \<noteq> 0 then (False, src)
      else let a = c_mod angle 360;
               a = (if a < 0 then 360 + a else a)
        in if a = 90 then (True, cv_flip 1 (cv_transpose src))
           else if a = 180 then (True, cv_flip (- 1) src)
           else if a = 270 then (True, cv_flip 0 (cv_transpose src))
           else (True, src))"

datatype color_space = BGR | RGB | HSV | GRAY | YUV
datatype color_code = GRAY2BGR | GRAY2RGB | BGR2HSV | BGR2RGB | BGR2GRAY | BGR2YUV

text \<open>\<open>cvt\<close> is \<^verbatim>\<open>cv::cvtColor\<close>.\<close>

definition convert_with :: "(color_code \<Rightarrow> image \<Rightarrow> image option) \<Rightarrow> color_code \<Rightarrow> image \<Rightarrow> (bool \<times> image) option" where
  "convert_with cvt code src = map_option (\<lambda>m. (True, m)) (cvt code src)"

definition convert_image :: "(color_code \<Rightarrow> image \<Rightarrow> image option) \<Rightarrow> image \<Rightarrow> color_space \<Rightarrow> (bool \<times> image) option" where
  "convert_image cvt src color =
     (if image_empty src then Some (False, src)
      else if im_channels src = 1 then
        (case color of
           BGR \<Rightarrow> convert_with cvt GRAY2BGR src
         | RGB \<Rightarrow> convert_with cvt GRAY2RGB src
         | _ \<Rightarrow> Some (False, src))
      else
        (case color of
           BGR \<Rightarrow> Some (True, src)
         | HSV \<Rightarrow> convert_with cvt BGR2HSV src
         | RGB \<Rightarrow> convert_with cvt BGR2RGB src
         | GRAY \<Rightarrow> convert_with cvt BGR2GRAY src
         | YUV \<Rightarrow> convert_with cvt BGR2YUV src))"

definition extract_channel :: "image \<Rightarrow> int \<Rightarrow> bool \<times> image" where
  "extract_channel src channel =
     (if image_empty src then (False, src)
      else if channel \<ge> int (im_channels src) \<or> channel < 0 then (False, src)
      else (True, cv_plane src (nat channel)))"

text \<open>\<^verbatim>\<open>reshape\<close> of OpenCV returns a new header, which nobody takes.\<close>

definition flatten_image :: "image \<Rightarrow> bool \<times> image" where
  "flatten_image src = (if image_empty src then (False, src) else (True, src))"

text \<open>\<open>resize m width height\<close> is \<^verbatim>\<open>cv::resize\<close>; merging takes at most 512 channels. The first argument is None for the null pointer.\<close>

fun resize_all :: "(image \<Rightarrow> nat \<Rightarrow> nat \<Rightarrow> image option) \<Rightarrow> nat \<Rightarrow> nat \<Rightarrow> image list \<Rightarrow> image list option" where
  "resize_all resize width height [] = Some []"
| "resize_all resize width height (m # ms) =
     (case resize m width height of None \<Rightarrow> None
      | Some r \<Rightarrow> (case resize_all resize width height ms of None \<Rightarrow> None | Some rs \<Rightarrow> Some (r # rs)))"

definition zip_images :: "(image \<Rightarrow> nat \<Rightarrow> nat \<Rightarrow> image option) \<Rightarrow> image option \<Rightarrow> image list \<Rightarrow> (bool \<times> image option) option" where
  "zip_images resize dst srcs =
     (case dst of None \<Rightarrow> Some (False, None)
      | Some d \<Rightarrow>
          (case resize_all resize (im_cols d) (im_rows d) srcs of None \<Rightarrow> None
           | Some rs \<Rightarrow>
               if sum_list (map im_channels (d # rs)) > 512 then None else Some (True, Some (foldl cv_merge2 d rs))))"

datatype fill = linear | zero | meanv

text \<open>
  For as many pixels as there are, \<^verbatim>\<open>reshape\<close> of OpenCV is called, whose result nobody takes. The fills \<open>zero\<close> and \<open>meanv\<close> work on an
  image of their own, which is dropped; they read three channels of each pixel of the given one.
\<close>

definition reshape_image :: "(image \<Rightarrow> nat \<Rightarrow> nat \<Rightarrow> image option) \<Rightarrow> image \<Rightarrow> int list \<Rightarrow> fill \<Rightarrow> (bool \<times> image) option cxx" where
  "reshape_image resize src shape f =
     (if image_empty src then Inr (Some (False, src))
      else if length shape < 2 then Inl Undefined_behaviour
      else if int_overflow (shape ! 0 * shape ! 1) then Inl Undefined_behaviour
      else if shape ! 0 * shape ! 1 = int (im_cols src) * int (im_rows src) then
        Inr (if shape ! 0 < 0 then None else Some (True, src))
      else if shape ! 0 < 0 \<or> shape ! 1 < 0 then Inr None
      else case f of
        linear \<Rightarrow> Inr (map_option (\<lambda>m. (True, m)) (resize src (nat (shape ! 0)) (nat (shape ! 1))))
      | _ \<Rightarrow>
          if shape ! 0 = 0 \<or> shape ! 1 = 0 \<or> im_channels src < 3 then Inl Undefined_behaviour else Inr (Some (True, src)))"

text \<open>The new first channel of a pixel whose index along the axis is \<open>i\<close>.\<close>

definition normal_value :: "int list \<Rightarrow> int list \<Rightarrow> nat \<Rightarrow> 8 word \<Rightarrow> 8 word cxx" where
  "normal_value m0 v0 i p =
     (if i \<ge> length m0 \<or> i \<ge> length v0 then Inl Undefined_behaviour
      else if v0 ! i = 0 \<or> int_overflow (uint p - m0 ! i) then Inl Undefined_behaviour
      else Inr (word_of_int ((uint p - m0 ! i) sdiv (v0 ! i))))"

definition normal_pixel :: "int list \<Rightarrow> int list \<Rightarrow> nat \<Rightarrow> pixel \<Rightarrow> pixel cxx" where
  "normal_pixel m0 v0 i px = cxx_bind (normal_value m0 v0 i (hd px)) (\<lambda>p. Inr (p # tl px))"

text \<open>\<^verbatim>\<open>*p\<close> is written at every position of the image, once for each.\<close>

definition put_pixel :: "image \<Rightarrow> nat \<Rightarrow> nat \<Rightarrow> pixel \<Rightarrow> image" where
  "put_pixel m i j px = m\<lparr>im_data := (im_data m)[i := (im_data m ! i)[j := px]]\<rparr>"

fun cxx_fold :: "('a \<Rightarrow> 's \<Rightarrow> 's cxx) \<Rightarrow> 'a list \<Rightarrow> 's \<Rightarrow> 's cxx" where
  "cxx_fold f [] s = Inr s"
| "cxx_fold f (x # xs) s = cxx_bind (f x s) (cxx_fold f xs)"

definition normalize_at :: "int list \<Rightarrow> int list \<Rightarrow> int \<Rightarrow> nat \<times> nat \<Rightarrow> image \<Rightarrow> image cxx" where
  "normalize_at m0 v0 axis = (\<lambda>(i, j) m.
     cxx_bind (normal_pixel m0 v0 (if axis = 0 then i else j) (pixel_at m i j)) (\<lambda>px. Inr (put_pixel m i j px)))"

text \<open>The order of the loops: the index along the axis is the outer one.\<close>

definition normalize_order :: "int \<Rightarrow> nat \<Rightarrow> nat \<Rightarrow> (nat \<times> nat) list" where
  "normalize_order axis rows cols =
     (if axis = 0 then List.product [0..<rows] [0..<cols] else map prod.swap (List.product [0..<cols] [0..<rows]))"

definition normalize_image :: "image \<Rightarrow> int \<Rightarrow> int list \<Rightarrow> int list \<Rightarrow> (bool \<times> image) cxx" where
  "normalize_image src axis m0 v0 =
     (if image_empty src then Inr (False, src)
      else if axis \<ge> 2 then Inr (False, src)
      else if axis < 0 then Inl Undefined_behaviour
      else cxx_bind (cxx_fold (normalize_at m0 v0 axis) (normalize_order axis (im_rows src) (im_cols src)) src)
        (\<lambda>m. Inr (True, m)))"

section \<open>Rotations\<close>

lemma image_eqI:
  assumes "im_channels a = im_channels b" and "im_cols a = im_cols b" and "im_rows a = im_rows b" and "image_ok a" and "image_ok b"
    and "\<And>i j. i < im_rows a \<Longrightarrow> j < im_cols a \<Longrightarrow> pixel_at a i j = pixel_at b i j"
  shows "a = (b :: image)"
proof -
  have "im_data a = im_data b"
  proof (rule nth_equalityI)
    show "im_data a ! i = im_data b ! i" if "i < im_rows a" for i
      by (rule nth_equalityI) (use assms that in \<open>auto simp: image_ok_def\<close>)
  qed (use assms in simp)
  with assms(1,2) show ?thesis by simp
qed

lemma length_row: "image_ok m \<Longrightarrow> i < im_rows m \<Longrightarrow> length (im_data m ! i) = im_cols m"
  by (auto simp: image_ok_def)

lemma length_pixel: "image_ok m \<Longrightarrow> i < im_rows m \<Longrightarrow> j < im_cols m \<Longrightarrow> length (pixel_at m i j) = im_channels m"
  by (metis image_ok_def nth_mem)

text \<open>A quarter turn: what is written for 90 degrees.\<close>

definition quarter :: "image \<Rightarrow> image" where
  "quarter m = cv_flip 1 (cv_transpose m)"

lemma quarter_dims [simp]:
  "im_rows (quarter m) = im_cols m" "im_cols (quarter m) = im_rows m" "im_channels (quarter m) = im_channels m"
  by (simp_all add: quarter_def cv_flip_def cv_transpose_def)

lemma quarter_pixel:
  "image_ok m \<Longrightarrow> i < im_cols m \<Longrightarrow> j < im_rows m \<Longrightarrow> pixel_at (quarter m) i j = pixel_at m (im_rows m - 1 - j) i"
  by (simp add: quarter_def cv_flip_def cv_transpose_def rev_nth)

lemma quarter_ok [simp]: "image_ok m \<Longrightarrow> image_ok (quarter m)"
  by (auto simp: image_ok_def quarter_def cv_flip_def cv_transpose_def)

lemma quarter_empty [simp]: "image_empty (quarter m) = image_empty m"
  by (auto simp: image_empty_def)

lemma half_turn: "image_ok m \<Longrightarrow> cv_flip (- 1) m = quarter (quarter m)"
proof (rule image_eqI)
  assume ok: "image_ok m"
  show "image_ok (cv_flip (- 1) m)" using ok by (auto simp: image_ok_def cv_flip_def)
  show "pixel_at (cv_flip (- 1) m) i j = pixel_at (quarter (quarter m)) i j"
    if "i < im_rows (cv_flip (- 1) m)" "j < im_cols (cv_flip (- 1) m)" for i j
    using that ok by (simp add: cv_flip_def rev_nth length_row quarter_pixel)
qed (simp_all add: cv_flip_def)

lemma three_quarters: "image_ok m \<Longrightarrow> cv_flip 0 (cv_transpose m) = quarter (quarter (quarter m))"
proof (rule image_eqI)
  assume ok: "image_ok m"
  show "image_ok (cv_flip 0 (cv_transpose m))"
    using ok by (auto simp: image_ok_def cv_flip_def cv_transpose_def)
  show "pixel_at (cv_flip 0 (cv_transpose m)) i j = pixel_at (quarter (quarter (quarter m))) i j"
    if "i < im_rows (cv_flip 0 (cv_transpose m))" "j < im_cols (cv_flip 0 (cv_transpose m))" for i j
    using that ok by (simp add: cv_flip_def cv_transpose_def rev_nth quarter_pixel)
qed (simp_all add: cv_flip_def cv_transpose_def)

lemma full_turn: "image_ok m \<Longrightarrow> quarter (quarter (quarter (quarter m))) = m"
  by (rule image_eqI) (simp_all add: quarter_pixel)

lemma quarters_ok: "image_ok m \<Longrightarrow> image_ok ((quarter ^^ k) m)"
  by (induction k) auto

lemma quarters_mod: "image_ok m \<Longrightarrow> (quarter ^^ (k mod 4)) m = (quarter ^^ k) m"
proof (induction k arbitrary: m rule: less_induct)
  case (less k)
  show ?case
  proof (cases "k < 4")
    case False
    then obtain j where k: "k = j + 4" using le_Suc_ex [of 4 k] by auto
    have "(quarter ^^ (j + 4)) m = (quarter ^^ j) m"
      using full_turn [OF less.prems] by (simp add: numeral_eq_Suc funpow_add funpow_swap1 del: funpow.simps(2)) (simp add: funpow_swap1)
    then show ?thesis using less k by simp
  qed simp
qed

lemma c_mod_90: "c_mod a 90 = 0 \<longleftrightarrow> (\<exists>q. a = 90 * q)"
proof
  assume "c_mod a 90 = 0"
  then have "a sdiv 90 * 90 = a" using sdiv_mult_smod_eq [of a 90] by (simp add: c_mod_def)
  then show "\<exists>q. a = 90 * q" by (metis mult.commute)
qed (auto simp: c_mod_def signed_modulo_int_def abs_mult)

lemma angle_quarters:
  fixes a :: int
  assumes "c_mod a 90 = 0"
  shows "a mod 360 = 90 * ((a div 90) mod 4)" and "(if c_mod a 360 < 0 then 360 + c_mod a 360 else c_mod a 360) = a mod 360"
proof -
  obtain q where a: "a = 90 * q" using assms c_mod_90 by blast
  then show "a mod 360 = 90 * ((a div 90) mod 4)"
    using mult_mod_right [of 90 q 4] by simp
  have "0 \<le> a mod 360" "a mod 360 < 360" by simp_all
  moreover have "a mod 360 = 0" if "360 dvd a" using that by simp
  ultimately show "(if c_mod a 360 < 0 then 360 + c_mod a 360 else c_mod a 360) = a mod 360"
    by (auto simp: c_mod_def signed_modulo_int_eq_modulo_int sgn_if of_bool_def split: if_splits)
qed

lemma rotate_quarters:
  assumes "image_ok m" and "\<not> image_empty m" and "c_mod a 90 = 0"
  shows "rotate_image m a = (True, (quarter ^^ nat ((a div 90) mod 4)) m)"
proof -
  note angle = angle_quarters [OF assms(3)]
  define k where "k = nat ((a div 90) mod 4)"
  have k: "a mod 360 = 90 * int k" "k < 4" using angle(1) by (simp_all add: k_def nat_less_iff)
  then have "k = 0 \<or> k = 1 \<or> k = 2 \<or> k = 3" by linarith
  then show ?thesis
    unfolding rotate_image_def Let_def angle(2) k_def [symmetric] k(1)
    using assms half_turn [OF assms(1)] three_quarters [OF assms(1)]
    by (elim disjE) (simp_all add: quarter_def numeral_eq_Suc)
qed

text \<open>
  C38: an image that is turned by one multiple of 90 degrees and then by another, clockwise or not, is turned by
  their sum; a turn by a multiple of 360 degrees gives the image back.
\<close>

theorem rotate_twice:
  assumes "image_ok m" and "\<not> image_empty m" and "c_mod a 90 = 0" and "c_mod b 90 = 0"
  shows "rotate_image (snd (rotate_image m a)) b = rotate_image m (a + b) \<and>
    (360 dvd a \<longrightarrow> rotate_image m a = (True, m))"
proof -
  obtain x y where x: "a = 90 * x" and y: "b = 90 * y"
    using c_mod_90 assms(3,4) by blast
  have sum: "c_mod (a + b) 90 = 0" using c_mod_90 [of "a + b"] x y by (metis distrib_left)
  let ?m = "(quarter ^^ nat (x mod 4)) m"
  have one: "rotate_image m a = (True, ?m)"
    using rotate_quarters [OF assms(1-3)] x by simp
  have "image_ok ?m" by (rule quarters_ok [OF assms(1)])
  moreover have "image_empty ((quarter ^^ k) m) = image_empty m" for k by (induction k) auto
  ultimately have "rotate_image ?m b = (True, (quarter ^^ nat (y mod 4)) ?m)"
    using rotate_quarters [of ?m b] assms(2,4) y by simp
  also have "(quarter ^^ nat (y mod 4)) ?m = (quarter ^^ ((nat (y mod 4) + nat (x mod 4)) mod 4)) m"
    using quarters_mod [OF assms(1)] by (simp add: funpow_add)
  also have "(nat (y mod 4) + nat (x mod 4)) mod 4 = nat ((x + y) mod 4)"
  proof -
    have "int ((nat (y mod 4) + nat (x mod 4)) mod 4) = (x + y) mod 4"
      by (simp add: of_nat_mod mod_add_eq add.commute)
    then show ?thesis by (metis nat_int)
  qed
  also have "(True, (quarter ^^ nat ((x + y) mod 4)) m) = rotate_image m (a + b)"
  proof -
    have "a + b = 90 * (x + y)" unfolding x y by (rule distrib_left [symmetric])
    then have "(a + b) div 90 = x + y" by (metis nonzero_mult_div_cancel_left zero_neq_numeral)
    then show ?thesis using rotate_quarters [OF assms(1,2) sum] by metis
  qed
  finally have "rotate_image (snd (rotate_image m a)) b = rotate_image m (a + b)" using one by simp
  moreover have "rotate_image m a = (True, m)" if "360 dvd a"
  proof -
    have "4 dvd x" using that x by presburger
    then show ?thesis using one by simp
  qed
  ultimately show ?thesis by blast
qed

definition sample_image :: image where
  "sample_image = \<lparr>im_channels = 1, im_cols = 2, im_data = [[[1], [2]], [[3], [4]], [[5], [6]]]\<rparr>"

theorem rotate_twice_witness:
  "rotate_image (snd (rotate_image sample_image 90)) (- 450) = (True, sample_image)"
proof -
  have "rotate_image (snd (rotate_image sample_image 90)) (- 450) = rotate_image sample_image (90 + - 450) \<and>
      (360 dvd (90 :: int) \<longrightarrow> rotate_image sample_image 90 = (True, sample_image))"
    by (rule rotate_twice) (simp_all add: sample_image_def image_ok_def image_empty_def c_mod_def)
  then show ?thesis by (simp add: rotate_image_def c_mod_def sample_image_def image_empty_def)
qed

section \<open>Regions and channels\<close>

text \<open>A region that fits is cut out pixel by pixel; one without area gives null and takes the image away.\<close>

theorem rectangle_pixels:
  assumes "image_ok m" and "rectangle m x y width height = Inr (True, m')"
  shows "image_ok m' \<and> im_cols m' = nat width \<and> im_rows m' = nat height \<and>
    (\<forall>i j. i < nat height \<longrightarrow> j < nat width \<longrightarrow> pixel_at m' i j = pixel_at m (nat y + i) (nat x + j))"
proof -
  have pos: "0 \<le> x" "0 \<le> y" "0 \<le> width" "0 \<le> height" and fit: "x + width \<le> int (im_cols m)" "y + height \<le> int (im_rows m)"
    and m': "m' = cv_region m (nat x) (nat y) (nat width) (nat height)"
    using assms(2) by (auto simp: rectangle_def Let_def split: if_splits)
  have bounds: "nat y + nat height \<le> im_rows m" "nat x + nat width \<le> im_cols m" using pos fit by linarith+
  have rows: "im_rows m' = nat height" using bounds by (simp add: m' cv_region_def)
  have row: "im_data m' ! i = take (nat width) (drop (nat x) (im_data m ! (nat y + i)))" if "i < nat height" for i
    using that bounds by (simp add: m' cv_region_def)
  have len: "length (im_data m ! (nat y + i)) = im_cols m" if "i < nat height" for i
    using length_row [OF assms(1), of "nat y + i"] that bounds by simp
  have pixel: "pixel_at m' i j = pixel_at m (nat y + i) (nat x + j)" if "i < nat height" "j < nat width" for i j
    using that row [OF that(1)] len [OF that(1)] bounds by simp
  have "image_ok m'"
    unfolding image_ok_def
  proof
    fix r
    assume "r \<in> set (im_data m')"
    then obtain i where i: "i < nat height" "r = im_data m' ! i" using rows by (metis in_set_conv_nth)
    have r: "r = take (nat width) (drop (nat x) (im_data m ! (nat y + i)))" using i row by simp
    have "length r = im_cols m'" using r len [OF i(1)] bounds by (simp add: m' cv_region_def)
    moreover have "set r \<subseteq> set (im_data m ! (nat y + i))" using r by (metis order_trans set_drop_subset set_take_subset)
    moreover have "im_data m ! (nat y + i) \<in> set (im_data m)" using i(1) bounds by simp
    ultimately show "length r = im_cols m' \<and> (\<forall>px \<in> set r. length px = im_channels m')"
      using assms(1) by (auto simp: image_ok_def m' cv_region_def)
  qed
  with rows pixel show ?thesis by (simp add: m' cv_region_def)
qed

theorem empty_region_clears:
  "rectangle sample_image 0 0 0 1 = Inr (False, \<lparr>im_channels = 1, im_cols = 0, im_data = []\<rparr>)"
  by (simp add: rectangle_def sample_image_def image_empty_def int_overflow_def cv_region_def no_image_def)

lemma map2_map2_nth:
  "length a = length b \<Longrightarrow> i < length a \<Longrightarrow> map2 f a b ! i = f (a ! i) (b ! i)"
  by simp

definition same_size :: "image \<Rightarrow> image \<Rightarrow> bool" where
  "same_size a b \<longleftrightarrow> im_rows a = im_rows b \<and> im_cols a = im_cols b"

lemma merge2_ok:
  assumes "image_ok a" and "image_ok b" and "same_size a b"
  shows "image_ok (cv_merge2 a b)" and "same_size a (cv_merge2 a b)"
    and "i < im_rows a \<Longrightarrow> j < im_cols a \<Longrightarrow> pixel_at (cv_merge2 a b) i j = pixel_at a i j @ pixel_at b i j"
proof -
  have row: "im_data (cv_merge2 a b) ! i = map2 (@) (im_data a ! i) (im_data b ! i)" if "i < im_rows a" for i
    using that assms(3) by (simp add: cv_merge2_def same_size_def)
  have len: "length (im_data a ! i) = im_cols a" "length (im_data b ! i) = im_cols a" if "i < im_rows a" for i
    using that assms length_row by (simp_all add: same_size_def)
  show pixel: "pixel_at (cv_merge2 a b) i j = pixel_at a i j @ pixel_at b i j" if "i < im_rows a" "j < im_cols a" for i j
    using that row len by simp
  show size: "same_size a (cv_merge2 a b)" using assms(3) by (simp add: same_size_def cv_merge2_def)
  show "image_ok (cv_merge2 a b)"
    unfolding image_ok_def
  proof
    fix r
    assume "r \<in> set (im_data (cv_merge2 a b))"
    moreover have "im_rows (cv_merge2 a b) = im_rows a" using size by (simp add: same_size_def)
    ultimately obtain i where i: "i < im_rows a" "r = im_data (cv_merge2 a b) ! i"
      unfolding in_set_conv_nth by auto
    have "length r = im_cols a" using i row len by simp
    moreover have "length (r ! j) = im_channels a + im_channels b" if "j < im_cols a" for j
    proof -
      have "i < im_rows b" "j < im_cols b" using i(1) that assms(3) by (simp_all add: same_size_def)
      then have "length (pixel_at b i j) = im_channels b" by (rule length_pixel [OF assms(2)])
      moreover have "length (pixel_at a i j) = im_channels a" by (rule length_pixel [OF assms(1) i(1) that])
      ultimately show ?thesis unfolding i(2) pixel [OF i(1) that] by simp
    qed
    ultimately show "length r = im_cols (cv_merge2 a b) \<and> (\<forall>px \<in> set r. length px = im_channels (cv_merge2 a b))"
      unfolding cv_merge2_def by (auto simp: in_set_conv_nth)
  qed
qed

lemma merge_all_pixel:
  assumes "image_ok d" and "\<And>r. r \<in> set rs \<Longrightarrow> image_ok r \<and> same_size d r" and "i < im_rows d" and "j < im_cols d"
  shows "pixel_at (foldl cv_merge2 d rs) i j = concat (map (\<lambda>r. pixel_at r i j) (d # rs)) \<and> image_ok (foldl cv_merge2 d rs) \<and>
    same_size d (foldl cv_merge2 d rs) \<and> im_channels (foldl cv_merge2 d rs) = sum_list (map im_channels (d # rs))"
  using assms
proof (induction rs arbitrary: d)
  case (Cons r rs)
  let ?d = "cv_merge2 d r"
  have r: "image_ok r" "same_size d r" using Cons.prems(2) by simp_all
  note m = merge2_ok [OF Cons.prems(1) r]
  have "same_size ?d x" if "same_size d x" for x using that m(2) by (simp add: same_size_def)
  then have "pixel_at (foldl cv_merge2 ?d rs) i j = concat (map (\<lambda>r. pixel_at r i j) (?d # rs)) \<and> image_ok (foldl cv_merge2 ?d rs) \<and>
    same_size ?d (foldl cv_merge2 ?d rs) \<and> im_channels (foldl cv_merge2 ?d rs) = sum_list (map im_channels (?d # rs))"
    by (intro Cons.IH) (use m Cons.prems in \<open>auto simp: same_size_def\<close>)
  moreover have "im_channels ?d = im_channels d + im_channels r" by (simp add: cv_merge2_def)
  moreover have "pixel_at ?d i j = pixel_at d i j @ pixel_at r i j" by (rule m(3) [OF Cons.prems(3,4)])
  ultimately show ?case using m(2) by (simp add: same_size_def)
qed (simp add: same_size_def)

text \<open>
  What goes into a zip comes out of it: the channels of the first image are the first of the result, those of the scaled
  other ones follow in their order.
\<close>

theorem zip_channels:
  assumes "image_ok d" and "resize_all resize (im_cols d) (im_rows d) srcs = Some rs"
    and "\<And>r. r \<in> set rs \<Longrightarrow> image_ok r \<and> same_size d r" and "sum_list (map im_channels (d # rs)) \<le> 512"
  shows "\<exists>m. zip_images resize (Some d) srcs = Some (True, Some m) \<and>
    (\<forall>i j. i < im_rows d \<longrightarrow> j < im_cols d \<longrightarrow> pixel_at m i j = concat (map (\<lambda>r. pixel_at r i j) (d # rs)))"
  using assms merge_all_pixel [of d rs] by (auto simp: zip_images_def)

text \<open>The first channel of a zip is that of the image it was made of.\<close>

lemma extract_pixel:
  "\<not> image_empty m \<Longrightarrow> 0 \<le> k \<Longrightarrow> k < int (im_channels m) \<Longrightarrow> image_ok m \<Longrightarrow> i < im_rows m \<Longrightarrow> j < im_cols m \<Longrightarrow>
     extract_channel m k = (True, cv_plane m (nat k)) \<and> pixel_at (cv_plane m (nat k)) i j = [pixel_at m i j ! nat k]"
  by (auto simp: extract_channel_def cv_plane_def length_row)

section \<open>Functions that change nothing\<close>

text \<open>Flattening changes nothing, and reshaping only scales: the other fills and the case of as many pixels keep the image.\<close>

theorem flatten_keeps: "snd (flatten_image m) = m"
  by (simp add: flatten_image_def)

theorem reshape_keeps:
  assumes "reshape_image resize m shape f = Inr (Some (b, m'))" and "f \<noteq> linear \<or> shape ! 0 * shape ! 1 = int (im_cols m) * int (im_rows m)"
  shows "m' = m"
  using assms by (auto simp: reshape_image_def split: if_splits fill.splits)

text \<open>Scaling takes the first number for the width, where the other fills take it for the height.\<close>

theorem reshape_scales:
  assumes "\<not> image_empty m" and "0 < h" and "0 < w" and "h * w \<le> 2147483647" and "h * w \<noteq> int (im_cols m) * int (im_rows m)"
  shows "reshape_image resize m [h, w] linear = Inr (map_option (\<lambda>m. (True, m)) (resize m (nat h) (nat w)))"
proof -
  have "0 < h * w" using assms(2,3) by simp
  then have "\<not> int_overflow (h * w)" using assms(4) unfolding int_overflow_def by linarith
  with assms show ?thesis by (simp add: reshape_image_def)
qed

section \<open>Normalisation\<close>

definition normal :: "int list \<Rightarrow> int list \<Rightarrow> nat \<Rightarrow> pixel \<Rightarrow> pixel" where
  "normal m0 v0 k px = word_of_int ((uint (hd px) - m0 ! k) sdiv (v0 ! k)) # tl px"

text \<open>Numbers for \<open>n\<close> indices with which no step is undefined.\<close>

definition normal_ok :: "nat \<Rightarrow> int list \<Rightarrow> int list \<Rightarrow> bool" where
  "normal_ok n m0 v0 \<longleftrightarrow> n \<le> length m0 \<and> n \<le> length v0 \<and>
     (\<forall>k < n. v0 ! k \<noteq> 0 \<and> - 2147483392 \<le> m0 ! k \<and> m0 ! k \<le> 2147483647)"

lemma normal_pixel_Inr:
  assumes "normal_ok n m0 v0" and "k < n"
  shows "normal_pixel m0 v0 k px = Inr (normal m0 v0 k px)"
proof -
  have byte: "0 \<le> uint (hd px)" "uint (hd px) < 256" using uint_bounded [of "hd px"] by simp_all
  have "- 2147483392 \<le> m0 ! k" "m0 ! k \<le> 2147483647" using assms by (simp_all add: normal_ok_def)
  with byte have "\<not> int_overflow (uint (hd px) - m0 ! k)"
    unfolding int_overflow_def by linarith
  with assms show ?thesis by (simp add: normal_pixel_def normal_value_def normal_def normal_ok_def)
qed

lemma normalize_fold:
  assumes "\<And>i j px. (i, j) \<in> set ps \<Longrightarrow> normal_pixel m0 v0 (if axis = 0 then i else j) px = Inr (normal m0 v0 (if axis = 0 then i else j) px)"
    and "distinct ps" and "\<And>i j. (i, j) \<in> set ps \<Longrightarrow> i < im_rows m \<and> j < im_cols m"
    and "\<And>i. i < im_rows m \<Longrightarrow> length (im_data m ! i) = im_cols m"
  shows "\<exists>m'. cxx_fold (normalize_at m0 v0 axis) ps m = Inr m' \<and> im_rows m' = im_rows m \<and> im_cols m' = im_cols m \<and>
    (\<forall>a b. a < im_rows m \<longrightarrow> b < im_cols m \<longrightarrow> pixel_at m' a b =
       (if (a, b) \<in> set ps then normal m0 v0 (if axis = 0 then a else b) (pixel_at m a b) else pixel_at m a b))"
  using assms
proof (induction ps arbitrary: m)
  case (Cons p ps)
  obtain i j where p: "p = (i, j)" by (cases p)
  let ?k = "if axis = 0 then i else j"
  let ?m = "put_pixel m i j (normal m0 v0 ?k (pixel_at m i j))"
  have range: "i < im_rows m" "j < im_cols m" using Cons.prems(3) p by auto
  have dims: "im_rows ?m = im_rows m" "im_cols ?m = im_cols m" by (simp_all add: put_pixel_def)
  have rows: "length (im_data ?m ! a) = im_cols ?m" if "a < im_rows ?m" for a
    using that Cons.prems(4) range by (simp add: put_pixel_def nth_list_update)
  have at: "pixel_at ?m a b = (if (a, b) = (i, j) then normal m0 v0 ?k (pixel_at m i j) else pixel_at m a b)"
    if "a < im_rows m" "b < im_cols m" for a b
    using that range Cons.prems(4) by (simp add: put_pixel_def nth_list_update)
  have step: "normalize_at m0 v0 axis p m = Inr ?m"
    using Cons.prems(1) [of i j "pixel_at m i j"] p by (simp add: normalize_at_def)
  have "\<exists>m'. cxx_fold (normalize_at m0 v0 axis) ps ?m = Inr m' \<and> im_rows m' = im_rows ?m \<and> im_cols m' = im_cols ?m \<and>
    (\<forall>a b. a < im_rows ?m \<longrightarrow> b < im_cols ?m \<longrightarrow> pixel_at m' a b =
       (if (a, b) \<in> set ps then normal m0 v0 (if axis = 0 then a else b) (pixel_at ?m a b) else pixel_at ?m a b))"
  proof (rule Cons.IH)
    show "normal_pixel m0 v0 (if axis = 0 then i else j) px = Inr (normal m0 v0 (if axis = 0 then i else j) px)"
      if "(i, j) \<in> set ps" for i j px using Cons.prems(1) [of i j px] that by simp
    show "i < im_rows ?m \<and> j < im_cols ?m" if "(i, j) \<in> set ps" for i j
      using Cons.prems(3) [of i j] that dims by simp
  qed (use Cons.prems(2) rows in auto)
  then obtain m' where m': "cxx_fold (normalize_at m0 v0 axis) ps ?m = Inr m'" "im_rows m' = im_rows m" "im_cols m' = im_cols m"
    "\<And>a b. a < im_rows m \<Longrightarrow> b < im_cols m \<Longrightarrow> pixel_at m' a b =
       (if (a, b) \<in> set ps then normal m0 v0 (if axis = 0 then a else b) (pixel_at ?m a b) else pixel_at ?m a b)"
    unfolding dims by blast
  have "(i, j) \<notin> set ps" using Cons.prems(2) p by simp
  with m'(4) at p have "pixel_at m' a b =
      (if (a, b) \<in> set (p # ps) then normal m0 v0 (if axis = 0 then a else b) (pixel_at m a b) else pixel_at m a b)"
    if "a < im_rows m" "b < im_cols m" for a b
    using that by (cases "(a, b) = (i, j)") auto
  with m'(1-3) step show ?case by (intro exI [of _ m']) simp
qed simp

text \<open>
  a normalised image has in its first channel the old value less the mean of its row or column, divided by
  the deviation and cut to 8 bits; its other channels are as they were.
\<close>

theorem normalize_pixels:
  assumes "image_ok m" and "\<not> image_empty m" and "axis = 0 \<or> axis = 1"
    and "normal_ok (if axis = 0 then im_rows m else im_cols m) m0 v0"
  shows "\<exists>m'. normalize_image m axis m0 v0 = Inr (True, m') \<and> im_rows m' = im_rows m \<and> im_cols m' = im_cols m \<and>
    (\<forall>i j. i < im_rows m \<longrightarrow> j < im_cols m \<longrightarrow>
       (let k = (if axis = 0 then i else j); px = pixel_at m i j
        in pixel_at m' i j = word_of_int ((uint (hd px) - m0 ! k) sdiv (v0 ! k)) # tl px))"
proof -
  let ?ps = "normalize_order axis (im_rows m) (im_cols m)"
  have set: "(i, j) \<in> set ?ps \<longleftrightarrow> i < im_rows m \<and> j < im_cols m" for i j
    by (auto simp: normalize_order_def image_iff)
  have dist: "distinct ?ps" by (auto simp: normalize_order_def distinct_product distinct_map inj_on_def)
  have "\<exists>m'. cxx_fold (normalize_at m0 v0 axis) ?ps m = Inr m' \<and> im_rows m' = im_rows m \<and> im_cols m' = im_cols m \<and>
    (\<forall>a b. a < im_rows m \<longrightarrow> b < im_cols m \<longrightarrow> pixel_at m' a b =
       (if (a, b) \<in> set ?ps then normal m0 v0 (if axis = 0 then a else b) (pixel_at m a b) else pixel_at m a b))"
  proof (rule normalize_fold [OF _ dist])
    show "normal_pixel m0 v0 (if axis = 0 then i else j) px = Inr (normal m0 v0 (if axis = 0 then i else j) px)"
      if "(i, j) \<in> set ?ps" for i j px
      by (rule normal_pixel_Inr [OF assms(4)]) (use that set in simp)
  qed (use set length_row [OF assms(1)] in auto)
  with assms(2,3) set show ?thesis
    by (auto simp: normalize_image_def normal_def Let_def)
qed

theorem normalize_pixels_witness:
  "\<exists>m'. normalize_image sample_image 0 [0, 1, 7] [1, 2, 1] = Inr (True, m') \<and> pixel_at m' 2 0 = [254]"
proof -
  have "\<exists>m'. normalize_image sample_image 0 [0, 1, 7] [1, 2, 1] = Inr (True, m') \<and> im_rows m' = im_rows sample_image \<and>
    im_cols m' = im_cols sample_image \<and>
    (\<forall>i j. i < im_rows sample_image \<longrightarrow> j < im_cols sample_image \<longrightarrow>
       (let k = (if (0 :: int) = 0 then i else j); px = pixel_at sample_image i j
        in pixel_at m' i j = word_of_int ((uint (hd px) - [0, 1, 7] ! k) sdiv ([1, 2, 1] ! k)) # tl px))"
    by (rule normalize_pixels)
      (simp_all add: sample_image_def image_ok_def image_empty_def normal_ok_def numeral_eq_Suc less_Suc_eq nth_Cons')
  then obtain m' where m': "normalize_image sample_image 0 [0, 1, 7] [1, 2, 1] = Inr (True, m')"
    "\<And>i j. i < 3 \<Longrightarrow> j < 2 \<Longrightarrow> pixel_at m' i j =
       word_of_int ((uint (hd (pixel_at sample_image i j)) - [0, 1, 7] ! i) sdiv ([1, 2, 1] ! i)) # tl (pixel_at sample_image i j)"
    by (auto simp: Let_def sample_image_def)
  from m'(2) [of 2 0] have "pixel_at m' 2 0 = [254]" by (simp add: sample_image_def)
  with m'(1) show ?thesis by blast
qed

end
