(* ===== verification/Sqlite_Connector.thy ===== *)
theory Sqlite_Connector
  imports Prelude
begin

text \<open>
  The wrapper of SQLite, \<^verbatim>\<open>misc/dboperator\<close>: opening and closing a database, transactions, statements without and with
  results. SQLite is a parameter over the world \<open>'w\<close>: databases \<open>'d\<close>, statements \<open>'s\<close>, floating-point numbers \<open>'f\<close>.
\<close>

section \<open>SQLite\<close>

text \<open>A null pointer is \<open>None\<close>; the numbers are result codes.\<close>

record ('d, 's, 'f, 'w) sqlite =
  sq_open :: "string \<Rightarrow> 'w \<Rightarrow> (int \<times> 'd option) \<times> 'w"
  sq_close :: "'d \<Rightarrow> 'w \<Rightarrow> int \<times> 'w"
  sq_exec :: "'d option \<Rightarrow> string \<Rightarrow> 'w \<Rightarrow> int \<times> 'w"
  sq_prepare :: "'d option \<Rightarrow> string \<Rightarrow> 'w \<Rightarrow> (int \<times> 's option) \<times> 'w"
  sq_step :: "'s option \<Rightarrow> 'w \<Rightarrow> int \<times> 'w"
  sq_finalize :: "'s option \<Rightarrow> 'w \<Rightarrow> 'w"
  sq_int :: "'s option \<Rightarrow> nat \<Rightarrow> 'w \<Rightarrow> int"
  sq_double :: "'s option \<Rightarrow> nat \<Rightarrow> 'w \<Rightarrow> 'f"
  sq_text :: "'s option \<Rightarrow> nat \<Rightarrow> 'w \<Rightarrow> string option"

definition SQLITE_OK :: int where
  "SQLITE_OK = 0"

definition SQLITE_ROW :: int where
  "SQLITE_ROW = 100"

definition SQLITE_DONE :: int where
  "SQLITE_DONE = 101"

section \<open>Connections\<close>

type_synonym 'd connector = "'d option"

definition sqliteConnector_default :: "'d connector" where
  "sqliteConnector_default = None"

definition sqliteConnector_new :: "'d option \<Rightarrow> 'd connector" where
  "sqliteConnector_new sq = sq"

definition sqlite_disconnect :: "('d, 's, 'f, 'w) sqlite \<Rightarrow> 'd connector \<Rightarrow> 'w \<Rightarrow> 'd connector \<times> 'w" where
  "sqlite_disconnect q db w = (case db of None \<Rightarrow> (None, w) | Some d \<Rightarrow> (None, snd (sq_close q d w)))"

text \<open>The result is null when the database cannot be opened; what SQLite has allocated for it is not closed.\<close>

definition sqliteUtil_open :: "('d, 's, 'f, 'w) sqlite \<Rightarrow> string \<Rightarrow> 'w \<Rightarrow> 'd connector option \<times> 'w" where
  "sqliteUtil_open q database w =
     (case sq_open q (c_str database) w of ((rc, db), w) \<Rightarrow>
        if rc \<noteq> SQLITE_OK then (None, w) else (Some (sqliteConnector_new db), w))"

definition beginTranscation :: "('d, 's, 'f, 'w) sqlite \<Rightarrow> 'd connector \<Rightarrow> 'w \<Rightarrow> int \<times> 'w" where
  "beginTranscation q db w =
     (case sq_exec q db ''BEGIN TRANSACTION;'' w of (rc, w) \<Rightarrow> if rc \<noteq> SQLITE_OK then (0, w) else (1, w))"

definition commitTranscation :: "('d, 's, 'f, 'w) sqlite \<Rightarrow> 'd connector \<Rightarrow> 'w \<Rightarrow> int \<times> 'w" where
  "commitTranscation q db w =
     (case sq_exec q db ''COMMIT;'' w of (rc, w) \<Rightarrow> if rc = SQLITE_OK then (1, w) else (0, w))"

definition rollbackTranscation :: "('d, 's, 'f, 'w) sqlite \<Rightarrow> 'd connector \<Rightarrow> 'w \<Rightarrow> int \<times> 'w" where
  "rollbackTranscation q db w =
     (case sq_exec q db ''ROLLBACK;'' w of (rc, w) \<Rightarrow> if rc = SQLITE_OK then (1, w) else (0, w))"

definition excuteQuery :: "('d, 's, 'f, 'w) sqlite \<Rightarrow> 'd connector \<Rightarrow> string \<Rightarrow> 'w \<Rightarrow> int \<times> 'w" where
  "excuteQuery q db sql w =
     (case sq_prepare q db (c_str sql) w of ((result, stmt), w) \<Rightarrow>
        if result \<noteq> SQLITE_OK then (0, sq_finalize q stmt w)
        else case sq_step q stmt w of (result, w) \<Rightarrow>
          if result \<noteq> SQLITE_DONE then (0, sq_finalize q stmt w) else (1, sq_finalize q stmt w))"

section \<open>Results\<close>

text \<open>The types a column may be asked for, and the values. An integer is narrowed to the type asked for.\<close>

datatype cell_type = Int_cell nat bool | Double_cell | Text_cell
datatype 'f cell = Int_value int | Double_value 'f | Text_value string

definition narrow :: "nat \<Rightarrow> bool \<Rightarrow> int \<Rightarrow> int" where
  "narrow bits is_signed i = (if is_signed then signed_take_bit (bits - 1) i else take_bit bits i)"

text \<open>A string made of the null pointer that SQLite gives for a NULL is undefined.\<close>

definition getCellValue :: "('d, 's, 'f, 'w) sqlite \<Rightarrow> 's option \<Rightarrow> 'w \<Rightarrow> cell_type \<Rightarrow> nat \<Rightarrow> 'f cell cxx" where
  "getCellValue q stmt w t i =
     (case t of
        Int_cell bits is_signed \<Rightarrow> Inr (Int_value (narrow bits is_signed (sq_int q stmt i w)))
      | Double_cell \<Rightarrow> Inr (Double_value (sq_double q stmt i w))
      | Text_cell \<Rightarrow> (case sq_text q stmt i w of None \<Rightarrow> Inl Undefined_behaviour | Some s \<Rightarrow> Inr (Text_value (c_str s))))"

fun getResultCell :: "('d, 's, 'f, 'w) sqlite \<Rightarrow> 's option \<Rightarrow> 'w \<Rightarrow> cell_type list \<Rightarrow> nat \<Rightarrow> 'f cell list cxx" where
  "getResultCell q stmt w [] i = Inr []"
| "getResultCell q stmt w (t # ts) i =
     cxx_bind (getCellValue q stmt w t i) (\<lambda>c. cxx_bind (getResultCell q stmt w ts (Suc i)) (\<lambda>cs. Inr (c # cs)))"

definition getResultRow :: "('d, 's, 'f, 'w) sqlite \<Rightarrow> 's option \<Rightarrow> 'w \<Rightarrow> cell_type list \<Rightarrow> 'f cell list cxx" where
  "getResultRow q stmt w ts = getResultCell q stmt w ts 0"

text \<open>None is a loop that never ends: SQLite always has a further row.\<close>

partial_function (option) result_rows ::
  "('d, 's, 'f, 'w) sqlite \<Rightarrow> 's option \<Rightarrow> cell_type list \<Rightarrow> 'f cell list list \<Rightarrow> 'w \<Rightarrow> ('f cell list list cxx \<times> 'w) option" where
  "result_rows q stmt ts rows w =
     (case sq_step q stmt w of (result, w) \<Rightarrow>
        if result = SQLITE_ROW then
          (case getResultRow q stmt w ts of
             Inl e \<Rightarrow> Some (Inl e, w)
           | Inr row \<Rightarrow> result_rows q stmt ts (rows @ [row]) w)
        else Some (Inr rows, w))"

definition getResultSet ::
  "('d, 's, 'f, 'w) sqlite \<Rightarrow> 'd connector \<Rightarrow> cell_type list \<Rightarrow> string \<Rightarrow> 'w \<Rightarrow> ('f cell list list cxx \<times> 'w) option" where
  "getResultSet q db ts sql w =
     (case sq_prepare q db (c_str sql) w of ((result, stmt), w) \<Rightarrow>
        if result = SQLITE_OK then
          (case result_rows q stmt ts [] w of
             None \<Rightarrow> None
           | Some (Inl e, w) \<Rightarrow> Some (Inl e, w)
           | Some (Inr rows, w) \<Rightarrow> Some (Inr rows, sq_finalize q stmt w))
        else Some (Inr [], w))"

section \<open>What they return\<close>

text \<open>A statement that gives a row counts as failed; the others succeed exactly when they are done at once.\<close>

theorem excuteQuery_result:
  "fst (excuteQuery q db sql w) = 1 \<longleftrightarrow>
     (case sq_prepare q db (c_str sql) w of ((result, stmt), w') \<Rightarrow>
        result = SQLITE_OK \<and> fst (sq_step q stmt w') = SQLITE_DONE)"
  by (auto simp: excuteQuery_def split: prod.splits)

text \<open>A result with the given rows still to come: every step gives one of them, and the last none.\<close>

fun delivers :: "('d, 's, 'f, 'w) sqlite \<Rightarrow> 's option \<Rightarrow> cell_type list \<Rightarrow> 'f cell list list \<Rightarrow> 'w \<Rightarrow> 'w \<Rightarrow> bool" where
  "delivers q stmt ts [] w w' \<longleftrightarrow> (\<exists>rc. sq_step q stmt w = (rc, w') \<and> rc \<noteq> SQLITE_ROW)"
| "delivers q stmt ts (row # rows) w w' \<longleftrightarrow>
     (\<exists>w1. sq_step q stmt w = (SQLITE_ROW, w1) \<and> getResultRow q stmt w1 ts = Inr row \<and> delivers q stmt ts rows w1 w')"

lemma result_rows_delivers:
  "delivers q stmt ts rows w w' \<Longrightarrow> result_rows q stmt ts before w = Some (Inr (before @ rows), w')"
proof (induction rows arbitrary: before w)
  case Nil
  then show ?case by (subst result_rows.simps) auto
next
  case (Cons row rows)
  then show ?case by (subst result_rows.simps) auto
qed

text \<open>
  a query returns the rows of its result in their order, all of them, and gives its statement back; when SQLite
  refuses the query the result is empty.
\<close>

theorem result_set_complete:
  assumes "sq_prepare q db (c_str sql) w = ((rc, stmt), w1)" and "rc = SQLITE_OK \<Longrightarrow> delivers q stmt ts rows w1 w2"
  shows "getResultSet q db ts sql w =
    (if rc = SQLITE_OK then Some (Inr rows, sq_finalize q stmt w2) else Some (Inr [], w1))"
  using assms result_rows_delivers [of q stmt ts rows w1 w2 "[]"] by (auto simp: getResultSet_def)

text \<open>A database of one table with two rows; the world is the position in the result.\<close>

definition toy_sqlite :: "(unit, unit, unit, nat) sqlite" where
  "toy_sqlite = \<lparr>sq_open = (\<lambda>_ w. ((0, Some ()), w)), sq_close = (\<lambda>_ w. (0, w)), sq_exec = (\<lambda>_ _ w. (0, w)),
     sq_prepare = (\<lambda>_ _ w. ((0, Some ()), 0)), sq_step = (\<lambda>_ w. (if w < 2 then 100 else 101, Suc w)),
     sq_finalize = (\<lambda>_ w. 0), sq_int = (\<lambda>_ _ w. int w), sq_double = (\<lambda>_ _ _. ()), sq_text = (\<lambda>_ _ _. Some ''Bob'')\<rparr>"

lemma result_set_complete_witness:
  "getResultSet toy_sqlite (Some ()) [Int_cell 32 True, Text_cell] ''SELECT'' 5 =
     Some (Inr [[Int_value 1, Text_value ''Bob''], [Int_value 2, Text_value ''Bob'']], 0)"
proof -
  have d: "delivers toy_sqlite (Some ()) [Int_cell 32 True, Text_cell] [[Int_value 1, Text_value ''Bob''], [Int_value 2, Text_value ''Bob'']] 0 3"
    by (simp add: toy_sqlite_def SQLITE_ROW_def getResultRow_def getCellValue_def narrow_def c_str_def
        signed_take_bit_eq_if_positive take_bit_int_eq_self numeral_eq_Suc)
  show ?thesis
    by (subst result_set_complete [where rc = 0, OF _ d]) (simp_all add: toy_sqlite_def SQLITE_OK_def)
qed

text \<open>A statement is open while it has been prepared and not been given back.\<close>

definition counts_statements :: "('d, 's, 'f, 'w) sqlite \<Rightarrow> ('w \<Rightarrow> int) \<Rightarrow> bool" where
  "counts_statements q n \<longleftrightarrow>
     (\<forall>db sql w rc stmt w'. sq_prepare q db sql w = ((rc, stmt), w') \<longrightarrow>
        n w' = n w + (if stmt = None then 0 else 1) \<and> (rc \<noteq> SQLITE_OK \<longrightarrow> stmt = None)) \<and>
     (\<forall>stmt w. n (snd (sq_step q stmt w)) = n w) \<and>
     (\<forall>stmt w. n (sq_finalize q stmt w) = n w - (if stmt = None then 0 else 1))"

text \<open>No operation leaves a statement open but a query that meets a NULL where a text was asked for.\<close>

theorem excuteQuery_closes: "counts_statements q n \<Longrightarrow> n (snd (excuteQuery q db sql w)) = n w"
proof -
  assume c: "counts_statements q n"
  obtain rc stmt w1 where p: "sq_prepare q db (c_str sql) w = ((rc, stmt), w1)" by (metis prod.exhaust)
  obtain r w2 where s: "sq_step q stmt w1 = (r, w2)" by fastforce
  have "n w2 = n w1" using c s unfolding counts_statements_def by (metis snd_conv)
  with c p s show ?thesis
    by (auto simp: excuteQuery_def counts_statements_def)
qed

lemma result_rows_count:
  fixes q :: "('d, 's, 'f, 'w) sqlite"
  assumes "counts_statements q n" and "result_rows q stmt ts rows w = Some y"
  shows "n (snd y) = n w"
proof -
  have "q = q \<longrightarrow> n (snd y) = n w"
  proof (rule result_rows.raw_induct [where P = "\<lambda>q' _ _ _ w y. q' = q \<longrightarrow> n (snd y) = n w", OF _ assms(2)])
    fix f :: "('d, 's, 'f, 'w) sqlite \<Rightarrow> 's option \<Rightarrow> cell_type list \<Rightarrow> 'f cell list list \<Rightarrow> 'w \<Rightarrow> ('f cell list list cxx \<times> 'w) option"
      and q' stmt ts rows w y
    assume IH: "\<And>q' stmt ts rows w y. f q' stmt ts rows w = Some y \<Longrightarrow> q' = q \<longrightarrow> n (snd y) = n w"
      and step: "(case sq_step q' stmt w of (result, w) \<Rightarrow>
        if result = SQLITE_ROW then
          (case getResultRow q' stmt w ts of Inl e \<Rightarrow> Some (Inl e, w) | Inr row \<Rightarrow> f q' stmt ts (rows @ [row]) w)
        else Some (Inr rows, w)) = Some y"
    show "q' = q \<longrightarrow> n (snd y) = n w"
    proof
      assume q: "q' = q"
      obtain r w1 where s: "sq_step q stmt w = (r, w1)" by fastforce
      then have same: "n w1 = n w" using assms(1) unfolding counts_statements_def by (metis snd_conv)
      show "n (snd y) = n w"
      proof (cases "r = SQLITE_ROW")
        case False
        with step q s same show ?thesis by auto
      next
        case True
        with step q s same IH show ?thesis by (cases "getResultRow q stmt w1 ts") auto
      qed
    qed
  qed
  then show ?thesis by simp
qed

theorem getResultSet_closes:
  assumes "counts_statements q n" and "getResultSet q db ts sql w = Some (Inr rows, w')"
  shows "n w' = n w"
proof -
  obtain rc stmt w1 where p: "sq_prepare q db (c_str sql) w = ((rc, stmt), w1)" by (metis prod.exhaust)
  then have prep: "n w1 = n w + (if stmt = None then 0 else 1)" "rc \<noteq> SQLITE_OK \<Longrightarrow> stmt = None"
    using assms(1) unfolding counts_statements_def by meson+
  show ?thesis
  proof (cases "rc = SQLITE_OK")
    case False
    with assms(2) p prep show ?thesis by (simp add: getResultSet_def)
  next
    case True
    with assms(2) p obtain w2 where w2: "result_rows q stmt ts [] w1 = Some (Inr rows, w2)" "w' = sq_finalize q stmt w2"
      by (auto simp: getResultSet_def split: option.splits sum.splits)
    have "n w2 = n w1" using result_rows_count [OF assms(1) w2(1)] by simp
    moreover have "n w' = n w2 - (if stmt = None then 0 else 1)"
      using assms(1) w2(2) unfolding counts_statements_def by meson
    ultimately show ?thesis using prep(1) by simp
  qed
qed

end
