(* ===== verification/Unit_Start.thy ===== *)
theory Unit_Start
  imports Flags Storage_Datatrans Datasource_Registry Management_Client Cluster_Taskdep Infer_System
begin

text \<open>
  The start of the three units from their options: \<^verbatim>\<open>storage/bin/main.cc\<close>, \<^verbatim>\<open>management/bin/main.cc\<close>
  and \<^verbatim>\<open>computation/bin/main.cc\<close>, from the options \<^verbatim>\<open>parse_flags\<close> has left to the loop in which
  \<^verbatim>\<open>main\<close> waits. The results of the set-ups and of the starts are dropped by the code. The servers
  of the network framework are parameters, as are the members that are not initialised: \<open>g\<close>.
\<close>

section \<open>Contexts\<close>

text \<open>The constants of the system the code is built for.\<close>

definition AF_INET :: int where "AF_INET = 2"
definition AF_INET6 :: int where "AF_INET6 = 10"

definition main_family :: "string \<Rightarrow> int" where
  "main_family addr = (if check_IPV4 addr then AF_INET else AF_INET6)"

text \<open>
  \<^verbatim>\<open>TaskdepSetupContext\<close> and \<^verbatim>\<open>new TaskdepServer\<close>: the members without an initial value keep what the
  memory held. The server's own limits have no initial values, those of the set-up context have.
\<close>

definition taskdep_context_new :: "taskdep_setup \<Rightarrow> taskdep_setup" where
  "taskdep_context_new g =
     g\<lparr>ts_endpoint := Endpoint_new, ts_ca := [], ts_cert := [], ts_key := [],
       ts_response_timeout := -1, ts_request_size_limit := 200 * 1024 * 1024\<rparr>"

definition taskdep_server_new :: "taskdep_setup \<Rightarrow> taskdep_server" where
  "taskdep_server_new g =
     \<lparr>sv_context = g\<lparr>ts_endpoint := Endpoint_new, ts_ca := [], ts_cert := [], ts_key := []\<rparr>, sv_listening = None\<rparr>"

definition plain_server_new :: "plain_setup \<Rightarrow> plain_server" where
  "plain_server_new g = \<lparr>ps_context = g\<lparr>pl_addr := [], pl_ca_path := [], pl_key_path := [], pl_cert_path := []\<rparr>, ps_server = None\<rparr>"

section \<open>The storage unit\<close>

record 'w storage_unit =
  su_manager :: "'w datamanager"
  su_taskdep :: taskdep_server
  su_data :: plain_server

definition storage_taskdep_context :: "taskdep_setup \<Rightarrow> flags \<Rightarrow> taskdep_setup" where
  "storage_taskdep_context g f =
     (taskdep_context_new g)
       \<lparr>ts_endpoint := main_dest_endpoint (fl_string f ''stor_taskdep_addr'') (of_int (fl_int f ''stor_taskdep_port'')),
        ts_ssl := fl_string f ''stor_taskdep_cert'' \<noteq> [],
        ts_ca := fl_string f ''stor_taskdep_ca'', ts_cert := fl_string f ''stor_taskdep_cert'',
        ts_key := fl_string f ''stor_taskdep_key''\<rparr>"

definition storage_datatrans_context :: "flags \<Rightarrow> plain_setup" where
  "storage_datatrans_context f =
     \<lparr>pl_family = main_family (fl_string f ''stor_datatrans_addr''), pl_addr = fl_string f ''stor_datatrans_addr'',
      pl_port = fl_int f ''stor_datatrans_port'', pl_ssl = (fl_string f ''stor_datatrans_cert'' \<noteq> []),
      pl_ca_path = fl_string f ''stor_datatrans_ca'', pl_key_path = fl_string f ''stor_datatrans_key'',
      pl_cert_path = fl_string f ''stor_datatrans_cert''\<rparr>"

definition storage_start ::
  "nat \<Rightarrow> 'w posix \<Rightarrow> (wf_listen \<Rightarrow> int) \<Rightarrow> (plain_listen \<Rightarrow> int) \<Rightarrow> taskdep_setup \<Rightarrow> taskdep_setup \<Rightarrow> plain_setup \<Rightarrow>
   flags \<Rightarrow> 'w \<Rightarrow> ('w storage_unit \<times> 'w) cxx" where
  "storage_start rnd px wf_task wf_data g_srv g_ctx g_data f w =
     cxx_bind (main_storage rnd px (fl_string f ''stor_path'') (fl_bool f ''stor_creat'') (fl_string f ''stor_backend'') w) (\<lambda>(dm, w1).
       let taskdep = snd (StorageServer_setup (taskdep_server_new g_srv) (storage_taskdep_context g_ctx f));
           data = plain_setup_context (plain_server_new g_data) (storage_datatrans_context f)
       in Inr (\<lparr>su_manager = dm, su_taskdep = snd (StorageServer_start wf_task taskdep),
                su_data = snd (plain_start wf_data data)\<rparr>, w1))"

section \<open>The management unit\<close>

record management_unit =
  mu_datasource :: ds_server
  mu_client :: client_ctx

definition datasource_context :: "flags \<Rightarrow> plain_setup" where
  "datasource_context f =
     \<lparr>pl_family = main_family (fl_string f ''mana_datasource_addr''), pl_addr = fl_string f ''mana_datasource_addr'',
      pl_port = fl_int f ''mana_datasource_port'', pl_ssl = (fl_string f ''mana_datasource_cert'' \<noteq> []),
      pl_ca_path = fl_string f ''mana_datasource_ca'', pl_key_path = fl_string f ''mana_datasource_key'',
      pl_cert_path = fl_string f ''mana_datasource_cert''\<rparr>"

definition mana_flags_of :: "flags \<Rightarrow> mana_flags" where
  "mana_flags_of f =
     \<lparr>fl_comp_addr = fl_string f ''mana_taskdep_comp_addr'', fl_comp_port = of_int (fl_int f ''mana_taskdep_comp_port''),
      fl_stor_addr = fl_string f ''mana_taskdep_stor_addr'', fl_stor_port = of_int (fl_int f ''mana_taskdep_stor_port''),
      fl_cert = fl_string f ''mana_cert''\<rparr>"

definition management_start ::
  "(plain_listen \<Rightarrow> int) \<Rightarrow> plain_setup \<Rightarrow> bool \<Rightarrow> flags \<Rightarrow> management_unit" where
  "management_start wf_start g g_ssl f =
     \<lparr>mu_datasource = snd (ds_start wf_start (DataSourceServer_new g (datasource_context f))),
      mu_client = main_management (mana_flags_of f) (ManagementClient_new g_ssl)\<rparr>"

section \<open>The computing unit\<close>

record 'w computation_unit =
  cu_servers :: "'w servers"
  cu_table :: taskmanager
  cu_taskdep :: taskdep_server

definition comp_setup :: "flags \<Rightarrow> drccp_setup" where
  "comp_setup f =
     \<lparr>du_listen_addr = fl_string f ''comp_comp_addr'', du_family = main_family (fl_string f ''comp_comp_addr''),
      du_port = fl_int f ''comp_comp_port'', du_ssl = (fl_string f ''comp_comp_cert'' \<noteq> []),
      du_ca = fl_string f ''comp_comp_ca'', du_cert = fl_string f ''comp_comp_cert'', du_key = fl_string f ''comp_comp_key''\<rparr>"

definition comp_origin :: "flags \<Rightarrow> origin_context" where
  "comp_origin f = \<lparr>oc_addr = fl_string f ''comp_comp_addr'', oc_port = fl_int f ''comp_comp_port''\<rparr>"

definition comp_client :: "flags \<Rightarrow> bound_client" where
  "comp_client f =
     \<lparr>bc_token = fl_string f ''comp_comp_token'', bc_url = fl_string f ''comp_datatrans_bind_addr'',
      bc_port = fl_int f ''comp_comp_port'', bc_ssl = fl_bool f ''comp_datatrans_ssl''\<rparr>"

definition comp_boot :: "flags \<Rightarrow> string \<times> int" where
  "comp_boot f =
     (if \<not> fl_bool f ''comp_comp_boot'' then (fl_string f ''comp_comp_peer_addr'', fl_int f ''comp_comp_peer_port'')
      else (fl_string f ''comp_comp_addr'', fl_int f ''comp_comp_port''))"

definition comp_taskdep_context :: "taskdep_setup \<Rightarrow> flags \<Rightarrow> taskdep_setup" where
  "comp_taskdep_context g f =
     (taskdep_context_new g)
       \<lparr>ts_endpoint := main_dest_endpoint (fl_string f ''comp_taskdep_addr'') (of_int (fl_int f ''comp_taskdep_port'')),
        ts_ssl := fl_string f ''comp_taskdep_cert'' \<noteq> [], ts_family := main_family (fl_string f ''comp_taskdep_addr''),
        ts_ca := fl_string f ''comp_taskdep_ca'', ts_cert := fl_string f ''comp_taskdep_cert'',
        ts_key := fl_string f ''comp_taskdep_key''\<rparr>"

text \<open>The units of the computing unit's manager: one is loaded, started and signed in.\<close>

definition comp_servers ::
  "'w infer_env \<Rightarrow> 'w drccp_exchange \<Rightarrow> (drccp_listen \<Rightarrow> int) \<Rightarrow> 'w unit_node \<Rightarrow> flags \<Rightarrow> 'w \<Rightarrow> (int \<times> 'w servers \<times> 'w) cxx" where
  "comp_servers env exch wf_start g f w =
     (let name = fl_string f ''comp_comp_name'';
          loaded = manager_load env (comp_client f) name (comp_setup f) (comp_origin f) g []
      in manager_signin exch name ''cluster'' (fst (comp_boot f)) (snd (comp_boot f)) (snd (manager_start wf_start name loaded)) w)"

definition computation_start ::
  "'w infer_env \<Rightarrow> 'w drccp_exchange \<Rightarrow> (drccp_listen \<Rightarrow> int) \<Rightarrow> (wf_listen \<Rightarrow> int) \<Rightarrow> 'w unit_node \<Rightarrow> taskdep_setup \<Rightarrow>
   taskdep_setup \<Rightarrow> flags \<Rightarrow> 'w \<Rightarrow> ('w computation_unit \<times> 'w) cxx" where
  "computation_start env exch wf_start wf_task g g_srv g_ctx f w =
     cxx_bind (comp_servers env exch wf_start g f w) (\<lambda>(_, servers, w1).
       let table = main_table (fl_string f ''comp_taskdep_cli_addr'') (fl_string f ''comp_taskdep_cert'' \<noteq> [])
             (fl_string f ''comp_stor_token'') (fl_string f ''comp_taskdep_stor_addr'') (of_int (fl_int f ''comp_taskdep_stor_port''));
           w2 = set_storage_datatransfer env (fl_string f ''comp_datatrans_remote_addr'') (fl_int f ''comp_datatrans_remote_port'')
             (fl_bool f ''comp_datatrans_ssl'') w1;
           taskdep = snd (ClusterServer_setup (taskdep_server_new g_srv) (comp_taskdep_context g_ctx f))
       in Inr (\<lparr>cu_servers = servers, cu_table = table, cu_taskdep = snd (ClusterServer_start wf_task taskdep)\<rparr>, w2))"

section \<open>Keys\<close>

lemma key_default_value_nonempty [simp]: "key_default_value s \<noteq> []"
  by (simp add: key_default_value_def)

text \<open>The services that inherit their key from a unit always have one.\<close>

lemma service_key:
  assumes "parse_flags gflags gen clock f0 = Inr f"
    and "n = ''stor_taskdep_key'' \<or> n = ''stor_datatrans_key'' \<or> n = ''comp_taskdep_key'' \<or> n = ''comp_comp_key''"
  shows "fl_string f n \<noteq> []"
proof -
  obtain f1 where f: "f = inherit_flags (default_tokens gen clock (default_keys f1))"
    using assms(1) by (auto simp: parse_flags_Inr)
  have "map_of inherited_flags n = Some ''stor_key'' \<or> map_of inherited_flags n = Some ''comp_key''"
    using assms(2) by (elim disjE) (simp_all add: inherited_flags_def)
  moreover have "fl_string (default_keys f1) ''stor_key'' \<noteq> []" "fl_string (default_keys f1) ''comp_key'' \<noteq> []"
    by (simp_all add: default_keys_string)
  ultimately show ?thesis by (auto simp: f started_string)
qed

lemma datasource_key:
  assumes "parse_flags gflags gen clock f0 = Inr f" and "gflags f0 = Inr f1"
    and "n = ''mana_datasource_key'' \<or> n = ''mana_datasource_cert''"
  shows "fl_string f n = fl_string f1 n"
proof -
  have f: "f = inherit_flags (default_tokens gen clock (default_keys f1))"
    using assms(1,2) by (auto simp: parse_flags_Inr)
  have "map_of inherited_flags n = None"
    using assms(3) by (elim disjE) (simp_all add: inherited_flags_def)
  moreover have "n \<notin> {''comp_comp_token'', ''stor_stor_token'', ''mana_mana_token'', ''comp_key'', ''stor_key'', ''mana_key''}"
    using assms(3) by auto
  ultimately show ?thesis by (simp add: f started_string default_tokens_string default_keys_string)
qed

section \<open>The servers\<close>

abbreviation tls_of :: "string \<Rightarrow> string \<Rightarrow> (string \<times> string) option" where
  "tls_of cert key \<equiv> (if cert \<noteq> [] then Some (cert, key) else None)"

lemma main_dest_endpoint_simps [simp]:
  "ep_proto (main_dest_endpoint a p) = ''jxtd''" "ep_url (main_dest_endpoint a p) = a" "ep_port (main_dest_endpoint a p) = p"
  by (simp_all add: main_dest_endpoint_def Endpoint_set_port_def Endpoint_set_url_def Endpoint_set_authtype_def
      Endpoint_set_proto_def Endpoint_new_def known_proto_def)

lemma main_dest_endpoint_check: "Endpoint_check (main_dest_endpoint a p) \<longleftrightarrow> a \<noteq> [] \<and> p \<noteq> 0"
  by (simp add: Endpoint_check_def)

definition storage_listening :: "taskdep_setup \<Rightarrow> taskdep_setup \<Rightarrow> flags \<Rightarrow> taskdep_setup" where
  "storage_listening g_srv g_ctx f =
     (if fl_string f ''stor_taskdep_addr'' \<noteq> [] \<and> (of_int (fl_int f ''stor_taskdep_port'') :: u32) \<noteq> 0
      then storage_taskdep_context g_ctx f else sv_context (taskdep_server_new g_srv))"

lemma storage_taskdep_started:
  "snd (StorageServer_start wf_task (snd (StorageServer_setup (taskdep_server_new g_srv) (storage_taskdep_context g_ctx f)))) =
     \<lparr>sv_context = storage_listening g_srv g_ctx f, sv_listening = Some (listen_of (storage_listening g_srv g_ctx f))\<rparr>"
proof -
  have "Endpoint_check (ts_endpoint (storage_taskdep_context g_ctx f)) \<longleftrightarrow>
      fl_string f ''stor_taskdep_addr'' \<noteq> [] \<and> (of_int (fl_int f ''stor_taskdep_port'') :: u32) \<noteq> 0"
    by (simp add: storage_taskdep_context_def main_dest_endpoint_check)
  then show ?thesis
    by (simp add: StorageServer_setup_def StorageServer_start_def Let_def storage_listening_def taskdep_server_new_def del: of_int_eq_0_iff)
qed

lemma plain_started:
  "snd (plain_start wf_data (plain_setup_context (plain_server_new g) c)) = \<lparr>ps_context = c, ps_server = Some (plain_listen_of c)\<rparr>"
  by (simp add: plain_setup_context_def plain_start_def plain_server_new_def Let_def)

text \<open>
  C39: a storage unit that has started waits for transfers at its address, of the version the address has, and for
  deployments at its other address with a version that nobody has set; it uses TLS where there is a certificate,
  and then has a key. Without an address or port for the deployments it waits at no address. With the backend
  \<open>local\<close> no deployment is ever answered.
\<close>

theorem storage_unit_start:
  assumes "parse_flags gflags gen clock f0 = Inr f"
  shows "\<exists>u w' t d. storage_start rnd px wf_task wf_data g_srv g_ctx g_data f w = Inr (u, w') \<and>
    sv_listening (su_taskdep u) = Some t \<and> ps_server (su_data u) = Some d \<and>
    d = \<lparr>li_family = (if check_IPV4 (fl_string f ''stor_datatrans_addr'') then AF_INET else AF_INET6),
         li_addr = fl_string f ''stor_datatrans_addr'', li_port = fl_int f ''stor_datatrans_port'',
         li_tls = tls_of (fl_string f ''stor_datatrans_cert'') (fl_string f ''stor_datatrans_key'')\<rparr> \<and>
    (if fl_string f ''stor_taskdep_addr'' \<noteq> [] \<and> (of_int (fl_int f ''stor_taskdep_port'') :: u32) \<noteq> 0
     then wl_host t = fl_string f ''stor_taskdep_addr'' \<and> wl_port t = of_int (fl_int f ''stor_taskdep_port'') \<and>
       wl_family t = ts_family g_ctx \<and> wl_tls t = tls_of (fl_string f ''stor_taskdep_cert'') (fl_string f ''stor_taskdep_key'')
     else wl_host t = [] \<and> wl_port t = 0 \<and> wl_family t = ts_family g_srv \<and> wl_tls t = (if ts_ssl g_srv then Some ([], []) else None)) \<and>
    fl_string f ''stor_taskdep_key'' \<noteq> [] \<and> fl_string f ''stor_datatrans_key'' \<noteq> [] \<and>
    (fl_string f ''stor_backend'' = ''local'' \<longrightarrow>
       (\<forall>alt self req resp v. storage_process alt self req resp (su_manager u) v = Inr ((su_manager u, None), v)))"
proof -
  obtain dm w' where dm: "main_storage rnd px (fl_string f ''stor_path'') (fl_bool f ''stor_creat'') (fl_string f ''stor_backend'') w =
      Inr (dm, w')" and init: "fl_string f ''stor_backend'' = ''local'' \<longrightarrow> \<not> dm_is_init dm"
    using main_storage_Inr [of rnd px "fl_string f ''stor_path''" "fl_bool f ''stor_creat''" "fl_string f ''stor_backend''" w] by blast
  let ?c = "storage_listening g_srv g_ctx f" and ?d = "storage_datatrans_context f"
  let ?u = "\<lparr>su_manager = dm, su_taskdep = \<lparr>sv_context = ?c, sv_listening = Some (listen_of ?c)\<rparr>,
    su_data = \<lparr>ps_context = ?d, ps_server = Some (plain_listen_of ?d)\<rparr>\<rparr>"
  have "storage_start rnd px wf_task wf_data g_srv g_ctx g_data f w = Inr (?u, w')"
    by (simp add: storage_start_def dm storage_taskdep_started plain_started)
  moreover have "plain_listen_of ?d =
      \<lparr>li_family = (if check_IPV4 (fl_string f ''stor_datatrans_addr'') then AF_INET else AF_INET6),
       li_addr = fl_string f ''stor_datatrans_addr'', li_port = fl_int f ''stor_datatrans_port'',
       li_tls = tls_of (fl_string f ''stor_datatrans_cert'') (fl_string f ''stor_datatrans_key'')\<rparr>"
    by (simp add: plain_listen_of_def storage_datatrans_context_def main_family_def)
  moreover have "if fl_string f ''stor_taskdep_addr'' \<noteq> [] \<and> (of_int (fl_int f ''stor_taskdep_port'') :: u32) \<noteq> 0
     then wl_host (listen_of ?c) = fl_string f ''stor_taskdep_addr'' \<and>
       wl_port (listen_of ?c) = of_int (fl_int f ''stor_taskdep_port'') \<and> wl_family (listen_of ?c) = ts_family g_ctx \<and>
       wl_tls (listen_of ?c) = tls_of (fl_string f ''stor_taskdep_cert'') (fl_string f ''stor_taskdep_key'')
     else wl_host (listen_of ?c) = [] \<and> wl_port (listen_of ?c) = 0 \<and> wl_family (listen_of ?c) = ts_family g_srv \<and>
       wl_tls (listen_of ?c) = (if ts_ssl g_srv then Some ([], []) else None)"
    by (simp add: listen_of_def storage_listening_def storage_taskdep_context_def taskdep_context_new_def taskdep_server_new_def
        Endpoint_new_def)
  moreover have "fl_string f ''stor_backend'' = ''local'' \<longrightarrow>
       (\<forall>alt self req resp v. storage_process alt self req resp dm v = Inr ((dm, None), v))"
    using init by (simp add: storage_process_def io_return_def)
  ultimately show ?thesis
    using service_key [OF assms] by (intro exI [of _ ?u] exI conjI) (simp_all only: storage_unit.simps taskdep_server.simps plain_server.simps simp_thms)
qed

text \<open>A unit without an address of its own for the deployments, and what \<open>local\<close> makes of it.\<close>

lemma sample_flags_started:
  "parse_flags Inr gen clock sample_flags = Inr (inherit_flags (default_tokens gen clock (default_keys sample_flags)))"
  by (simp add: parse_flags_def conditional_checks_def sample_flags_def)

lemma sample_flags_values:
  fixes gen clock
  defines "f \<equiv> inherit_flags (default_tokens gen clock (default_keys sample_flags))"
  shows "fl_string f ''stor_taskdep_addr'' = []" "fl_string f ''stor_backend'' = ''local''" "fl_int f = (\<lambda>_. 3887)" "fl_bool f = (\<lambda>_. True)"
    "fl_string f ''stor_datatrans_addr'' = []" "fl_string f ''stor_datatrans_cert'' = []"
  by (simp_all add: f_def started_string default_tokens_string default_keys_string sample_flags_def inherited_flags_def started_int_bool)

theorem storage_unit_start_witness:
  "\<forall>gen clock g_srv g_ctx g_data. \<exists>u w' t. storage_start 0 mem_posix (\<lambda>_. 0) (\<lambda>_. 0) g_srv g_ctx g_data
      (inherit_flags (default_tokens gen clock (default_keys sample_flags))) (Map.empty, Map.empty) = Inr (u, w') \<and>
     sv_listening (su_taskdep u) = Some t \<and> wl_host t = [] \<and> wl_port t = 0 \<and>
     (\<forall>alt self req resp v. storage_process alt self req resp (su_manager u) v = Inr ((su_manager u, None), v))"
proof (intro allI)
  fix gen clock g_srv g_ctx g_data
  show "\<exists>u w' t. storage_start 0 mem_posix (\<lambda>_. 0) (\<lambda>_. 0) g_srv g_ctx g_data
      (inherit_flags (default_tokens gen clock (default_keys sample_flags))) (Map.empty, Map.empty) = Inr (u, w') \<and>
     sv_listening (su_taskdep u) = Some t \<and> wl_host t = [] \<and> wl_port t = 0 \<and>
     (\<forall>alt self req resp v. storage_process alt self req resp (su_manager u) v = Inr ((su_manager u, None), v))"
    using storage_unit_start [OF sample_flags_started, where rnd = 0 and px = mem_posix and wf_task = "\<lambda>_. 0" and wf_data = "\<lambda>_. 0"
        and g_srv = g_srv and g_ctx = g_ctx and g_data = g_data and w = "(Map.empty, Map.empty)" and gen = gen and clock = clock]
    by (elim exE conjE) (auto simp: sample_flags_values)
qed

section \<open>The management unit at work\<close>

text \<open>
  The server for the data sources uses TLS where it has a certificate, with the key that is set for it: neither is
  taken from the unit, and the key may be empty. Client and units use TLS by their own certificates. The client
  is its own computing unit.
\<close>

theorem management_unit_start:
  assumes "parse_flags gflags gen clock f0 = Inr f" and "gflags f0 = Inr f1"
  shows "let u = management_start wf_start g g_ssl f in
    dss_list (mu_datasource u) = [] \<and>
    ps_server (dss_server (mu_datasource u)) = Some
      \<lparr>li_family = (if check_IPV4 (fl_string f ''mana_datasource_addr'') then AF_INET else AF_INET6),
       li_addr = fl_string f ''mana_datasource_addr'', li_port = fl_int f ''mana_datasource_port'',
       li_tls = tls_of (fl_string f1 ''mana_datasource_cert'') (fl_string f1 ''mana_datasource_key'')\<rparr> \<and>
    cl_token (mu_client u) = [] \<and> (cl_ssl (mu_client u) \<longleftrightarrow> fl_string f ''mana_cert'' \<noteq> []) \<and>
    cl_management (mu_client u) = cl_computation (mu_client u) \<and>
    ep_url (cl_computation (mu_client u)) = fl_string f ''mana_taskdep_comp_addr'' \<and>
    ep_port (cl_computation (mu_client u)) = of_int (fl_int f ''mana_taskdep_comp_port'') \<and>
    ep_url (cl_storage (mu_client u)) = fl_string f ''mana_taskdep_stor_addr'' \<and>
    ep_port (cl_storage (mu_client u)) = of_int (fl_int f ''mana_taskdep_stor_port'')"
proof -
  have "fl_string f ''mana_datasource_key'' = fl_string f1 ''mana_datasource_key''"
    "fl_string f ''mana_datasource_cert'' = fl_string f1 ''mana_datasource_cert''"
    by (rule datasource_key [OF assms], simp)+
  then show ?thesis
    by (simp add: management_start_def DataSourceServer_new_def ds_start_def plain_start_def plain_setup_context_def Let_def
        plain_listen_of_def datasource_context_def main_family_def main_management_def mana_flags_of_def main_endpoint_def
        ManagementClient_setup_def Endpoint_set_port_def Endpoint_set_url_def Endpoint_set_authtype_def
        Endpoint_set_proto_def Endpoint_new_def known_proto_def)
qed

section \<open>The computing unit at work\<close>

text \<open>The sign-in of a unit that knows only itself: whoever answers it, answers without shares.\<close>

definition answers_without_shares :: "'w drccp_exchange \<Rightarrow> dr_endpoint \<Rightarrow> bool" where
  "answers_without_shares exch boot \<longleftrightarrow>
     (\<forall>n w. alone n \<longrightarrow> (\<exists>success resp w'. exch (meet_task n boot) n w = Inr (success, resp, n, w') \<and>
        (success \<longrightarrow> dm_shares resp = [])))"

lemma signin_alone:
  assumes "answers_without_shares exch boot" and "alone n"
  shows "\<exists>r tag w'. drccp_signin exch cluster_tag (fst boot) (snd boot) n w =
    Inr (r, n\<lparr>un_tag := tag, un_client_addr := un_addr n, un_client_port := un_port n\<rparr>, w')"
proof -
  let ?n = "n\<lparr>un_tag := cluster_tag, un_client_addr := un_addr n, un_client_port := un_port n\<rparr>"
  have "alone ?n" using assms(2) by (simp add: alone_def)
  with assms(1) obtain success resp w' where "exch (meet_task ?n boot) ?n w = Inr (success, resp, ?n, w')"
    "success \<longrightarrow> dm_shares resp = []"
    unfolding answers_without_shares_def by blast
  then have "drccp_signin exch cluster_tag (fst boot) (snd boot) n w =
      Inr (if success \<and> dm_type resp \<noteq> report_code VERSION then (0, ?n, w') else (-1, ?n\<lparr>un_tag := []\<rparr>, w'))"
    by (simp add: drccp_signin_def Let_def)
  moreover have "?n\<lparr>un_tag := []\<rparr> = n\<lparr>un_tag := [], un_client_addr := un_addr n, un_client_port := un_port n\<rparr>"
    by (rule unit_node.equality) simp_all
  ultimately show ?thesis
    by (cases "success \<and> dm_type resp \<noteq> report_code VERSION") (simp only: if_True if_False simp_thms, blast)+
qed

text \<open>A unit that greets itself.\<close>

lemma own_meet:
  assumes "alone n"
  shows "\<exists>success resp w'. own_exchange (Suc k) (meet_task n boot) n w = Inr (success, resp, n, w') \<and> (success \<longrightarrow> dm_shares resp = [])"
proof (cases "boot \<noteq> un_self n \<or> \<not> un_server n")
  case True
  then have "own_exchange (Suc k) (meet_task n boot) n w = Inr (False, Drccp_new, n, w)"
    by (auto simp: meet_task_def)
  then show ?thesis by (intro exI [of _ False] exI [of _ Drccp_new] exI [of _ w]) simp
next
  case False
  let ?req = "Drccp_received (dk_req (meet_task n boot))"
  let ?resp = "Drccp_settype (setup_dest_resp boot (setup_header_resp n Drccp_new)) (report_code ALIVE)"
  have req: "dm_shares ?req = []" "dm_src ?req = boot" "dm_cluster ?req = un_tag n" "dm_version ?req = 3"
    "dm_type ?req = report_code MEET"
    by (simp_all add: Drccp_received_def meet_task_def drccp_setters Drccp_new_def)
  obtain x where sh: "un_shares n = [(un_self n, x)]" using assms by (auto simp: alone_def)
  have "update_shares boot [] n = Inr n" by (simp add: update_shares_none sh)
  moreover have "smap_insert (un_shares n) boot (Fin 1) = un_shares n" using False sh by simp
  then have "n\<lparr>un_shares := smap_insert (un_shares n) boot (Fin 1)\<rparr> = n" by simp
  ultimately have proc: "drccp_process ?req n w = Inr (Some ?resp, [], n, w)"
    unfolding drccp_process_def drccp_answer_def greet_others_def Let_def req
    by (simp add: assms)
  have serve: "drccp_serve (own_exchange k) ?req n w = Some (Inr (Some ?resp, n, w))"
    by (simp only: drccp_serve_def proc sum.case prod.case option.case run_jobs.simps option.map map_sum.simps)
  have "dk_target (meet_task n boot) = un_self n" using False by (simp add: meet_task_def)
  then have "own_exchange (Suc k) (meet_task n boot) n w = Inr (True, Drccp_received ?resp, n, w)"
    using False serve by (simp only: own_exchange.simps) simp
  moreover have "dm_shares (Drccp_received ?resp) = []"
    by (simp add: Drccp_received_def drccp_setters setup_dest_resp_def setup_header_resp_def Drccp_new_def)
  ultimately show ?thesis by blast
qed

lemma own_answers: "answers_without_shares (own_exchange (Suc k)) boot"
  unfolding answers_without_shares_def by (intro allI impI) (rule own_meet)

text \<open>Another unit that answers by the handler, or that does not answer.\<close>

lemma peer_answers:
  assumes "\<And>n w. \<exists>success resp w'. exch (meet_task n boot) n w = Inr (success, resp, n, w') \<and>
    (success \<longrightarrow> (\<exists>req b v r jobs b' v'. drccp_process req (b :: 'v unit_node) v = Inr (Some r, jobs, b', v') \<and> resp = Drccp_received r))"
  shows "answers_without_shares exch boot"
  unfolding answers_without_shares_def
proof (intro allI impI)
  fix n w
  obtain success resp w' where exch: "exch (meet_task n boot) n w = Inr (success, resp, n, w')" and "success \<longrightarrow>
      (\<exists>req b v r jobs b' v'. drccp_process req (b :: 'v unit_node) v = Inr (Some r, jobs, b', v') \<and> resp = Drccp_received r)"
    using assms by blast
  then have "success \<longrightarrow> dm_shares resp = []"
    using process_no_shares by (fastforce simp: Drccp_received_def)
  with exch show "\<exists>success resp w'. exch (meet_task n boot) n w = Inr (success, resp, n, w') \<and> (success \<longrightarrow> dm_shares resp = [])"
    by blast
qed

text \<open>The unit of a computing unit after the sign-in, whatever came of it.\<close>

definition signed_in :: "'w infer_env \<Rightarrow> 'w unit_node \<Rightarrow> flags \<Rightarrow> string \<Rightarrow> 'w unit_node" where
  "signed_in env g f tag =
     (ready_unit env (comp_client f) (comp_setup f) g)
       \<lparr>un_tag := tag, un_client_addr := fl_string f ''comp_comp_addr'', un_client_port := fl_int f ''comp_comp_port''\<rparr>"

abbreviation own_unit :: "flags \<Rightarrow> 'w unit_node \<Rightarrow> 'w servers" where
  "own_unit f n \<equiv> [(fl_string f ''comp_comp_name'', \<lparr>se_server = n, se_setup = comp_setup f, se_origin = comp_origin f\<rparr>)]"

lemma comp_servers_Inr:
  assumes "answers_without_shares exch (comp_boot f)"
  shows "\<exists>r tag w'. comp_servers env exch wf_start g f w = Inr (r, own_unit f (signed_in env g f tag), w')"
proof -
  let ?n = "ready_unit env (comp_client f) (comp_setup f) g"
  have "alone ?n" by (simp add: alone_def ready_unit_def)
  from signin_alone [OF assms this] obtain r tag w' where
    "drccp_signin exch ''cluster'' (fst (comp_boot f)) (snd (comp_boot f)) ?n w =
      Inr (r, ?n\<lparr>un_tag := tag, un_client_addr := un_addr ?n, un_client_port := un_port ?n\<rparr>, w')"
    by blast
  moreover have "un_addr ?n = fl_string f ''comp_comp_addr''" "un_port ?n = fl_int f ''comp_comp_port''"
    by (simp_all add: ready_unit_def comp_setup_def)
  ultimately have "comp_servers env exch wf_start g f w = Inr (r, own_unit f (signed_in env g f tag), w')"
    by (simp add: comp_servers_def load_and_start manager_signin_def signed_in_def umap_set_def umap_erase_def)
  then show ?thesis by blast
qed

text \<open>A job at the unit: it is computed there, whatever the cluster.\<close>

lemma signed_in_runs:
  assumes "payload_callback env (comp_client f) payload w = Inr (out, w1)"
    and "drccp_on_server_receive_result env (comp_client f) out w1 = Inr w2" and "callback out w2 = Inr w3"
  shows "\<exists>n'. run_sub_task (own_exchange (Suc (Suc j)))
      \<lparr>st_name = fl_string f ''comp_comp_name'', st_payload = payload, st_origin = comp_origin f\<rparr>
      (own_unit f (register_client_receive_result callback (signed_in env g f tag))) w = Inr (own_unit f n', w3)"
proof -
  let ?n = "register_client_receive_result callback (signed_in env g f tag)"
  have n: "un_shares ?n = [(un_self ?n, Fin 1)]" "un_server ?n" "un_payload ?n = Some (payload_callback env (comp_client f))"
    "un_result ?n = Some (drccp_on_server_receive_result env (comp_client f))" "un_client_result ?n = Some callback"
    by (simp_all add: register_client_receive_result_def signed_in_def ready_unit_def)
  have "call_result (un_result ?n) out w1 = Inr w2" "call_result (un_client_result ?n) out w2 = Inr w3"
    unfolding n call_result_def using assms by simp_all
  from submit_alone [OF n(1) four_shares n(2,3) assms(1) this, of j]
  show ?thesis by (simp add: run_sub_task_def umap_set_def umap_erase_def)
qed

lemma comp_taskdep_started:
  "snd (ClusterServer_start wf_task (snd (ClusterServer_setup (taskdep_server_new g_srv) c))) =
     (let l = (if Endpoint_check (ts_endpoint c) then c else sv_context (taskdep_server_new g_srv))
      in \<lparr>sv_context = l, sv_listening = Some (listen_of l)\<rparr>)"
  by (simp add: ClusterServer_setup_def ClusterServer_start_def Let_def taskdep_server_new_def)

text \<open>
  C40: a computing unit that has started with an address and a port for deployments, as the first of a cluster or by
  joining another one, has one unit under its name. Whoever answered the sign-in or not, and no unit answers with
  shares, it computes every job it is given itself. It waits for deployments at its address, with TLS and a key where
  there is a certificate, its task table is empty, and the storage unit it transfers data with is the one of its
  options.
\<close>

theorem computation_unit_start:
  assumes flags: "parse_flags gflags gen clock f0 = Inr f"
    and addr: "fl_string f ''comp_taskdep_addr'' \<noteq> []" "(of_int (fl_int f ''comp_taskdep_port'') :: u32) \<noteq> 0"
    and exch: "answers_without_shares exch (comp_boot f)"
  shows "\<exists>u n w1 t. computation_start env exch wf_start wf_task g g_srv g_ctx f w = Inr (u,
      ie_set_storage env \<lparr>sd_addr = fl_string f ''comp_datatrans_remote_addr'', sd_port = fl_int f ''comp_datatrans_remote_port'',
        sd_ssl = fl_bool f ''comp_datatrans_ssl''\<rparr> w1) \<and>
    cu_servers u = own_unit f n \<and> tm_tasks (cu_table u) = [] \<and> sv_listening (cu_taskdep u) = Some t \<and>
    wl_host t = fl_string f ''comp_taskdep_addr'' \<and> wl_port t = of_int (fl_int f ''comp_taskdep_port'') \<and>
    wl_family t = (if check_IPV4 (fl_string f ''comp_taskdep_addr'') then AF_INET else AF_INET6) \<and>
    wl_tls t = tls_of (fl_string f ''comp_taskdep_cert'') (fl_string f ''comp_taskdep_key'') \<and> fl_string f ''comp_taskdep_key'' \<noteq> [] \<and>
    (\<forall>payload v out v1 v2 v3 callback j.
       payload_callback env (comp_client f) payload v = Inr (out, v1) \<and>
       drccp_on_server_receive_result env (comp_client f) out v1 = Inr v2 \<and> callback out v2 = Inr v3 \<longrightarrow>
       (\<exists>n'. run_sub_task (own_exchange (Suc (Suc j)))
          \<lparr>st_name = fl_string f ''comp_comp_name'', st_payload = payload, st_origin = comp_origin f\<rparr>
          (own_unit f (register_client_receive_result callback n)) v = Inr (own_unit f n', v3)))"
proof -
  obtain r tag w1 where servers: "comp_servers env exch wf_start g f w = Inr (r, own_unit f (signed_in env g f tag), w1)"
    using comp_servers_Inr [OF exch] by blast
  let ?c = "comp_taskdep_context g_ctx f"
  let ?table = "main_table (fl_string f ''comp_taskdep_cli_addr'') (fl_string f ''comp_taskdep_cert'' \<noteq> [])
    (fl_string f ''comp_stor_token'') (fl_string f ''comp_taskdep_stor_addr'') (of_int (fl_int f ''comp_taskdep_stor_port''))"
  let ?u = "\<lparr>cu_servers = own_unit f (signed_in env g f tag), cu_table = ?table,
    cu_taskdep = \<lparr>sv_context = ?c, sv_listening = Some (listen_of ?c)\<rparr>\<rparr>"
  have "Endpoint_check (ts_endpoint ?c)"
    using addr by (simp add: comp_taskdep_context_def main_dest_endpoint_check)
  then have "computation_start env exch wf_start wf_task g g_srv g_ctx f w = Inr (?u,
      ie_set_storage env \<lparr>sd_addr = fl_string f ''comp_datatrans_remote_addr'', sd_port = fl_int f ''comp_datatrans_remote_port'',
        sd_ssl = fl_bool f ''comp_datatrans_ssl''\<rparr> w1)"
    by (simp add: computation_start_def servers comp_taskdep_started set_storage_datatransfer_def Let_def)
  moreover have "tm_tasks ?table = []"
    by (simp add: main_table_def set_src_def set_dest_def Taskmanager_new_def)
  moreover have "wl_host (listen_of ?c) = fl_string f ''comp_taskdep_addr''"
    "wl_port (listen_of ?c) = of_int (fl_int f ''comp_taskdep_port'')"
    "wl_family (listen_of ?c) = (if check_IPV4 (fl_string f ''comp_taskdep_addr'') then AF_INET else AF_INET6)"
    "wl_tls (listen_of ?c) = tls_of (fl_string f ''comp_taskdep_cert'') (fl_string f ''comp_taskdep_key'')"
    by (simp_all add: listen_of_def comp_taskdep_context_def main_family_def)
  ultimately show ?thesis
    using service_key [OF flags, of "''comp_taskdep_key''"] signed_in_runs [of env f]
    by (intro exI [of _ ?u] exI [of _ "signed_in env g f tag"] exI [of _ w1] exI [of _ "listen_of ?c"] conjI)
      (simp_all only: computation_unit.simps taskdep_server.simps simp_thms, blast)
qed

theorem computation_unit_start_witness:
  "\<forall>gen clock g g_srv g_ctx. \<exists>u n w1 t. computation_start (sample_env ''p'' (\<lambda>_. SubmitRequest_new) (\<lambda>_. SubmitResponse_new)) (own_exchange 1) (\<lambda>_. 0) (\<lambda>_. 0) g g_srv g_ctx
      (inherit_flags (default_tokens gen clock (default_keys (set_string ''comp_taskdep_addr'' ''localhost'' sample_flags))))
      () = Inr (u, w1) \<and>
     map_of (cu_servers u) ''local'' = Some n \<and> sv_listening (cu_taskdep u) = Some t \<and>
     wl_host t = ''localhost'' \<and> wl_port t = 3887 \<and> wl_tls t = None"
proof (intro allI)
  fix gen clock g g_srv g_ctx
  let ?f1 = "set_string ''comp_taskdep_addr'' ''localhost'' sample_flags"
  let ?f = "inherit_flags (default_tokens gen clock (default_keys ?f1))"
  have start: "parse_flags Inr gen clock ?f1 = Inr ?f"
    by (simp add: parse_flags_def conditional_checks_def sample_flags_def set_string_def)
  have f: "fl_string ?f ''comp_taskdep_addr'' = ''localhost''" "fl_string ?f ''comp_comp_name'' = ''local''"
    "fl_string ?f ''comp_taskdep_cert'' = []" "fl_int ?f = (\<lambda>_. 3887)"
    by (simp_all add: started_string default_tokens_string default_keys_string sample_flags_def inherited_flags_def
        started_int_bool set_string_def)
  have "fl_string ?f ''comp_taskdep_addr'' \<noteq> []" "(of_int (fl_int ?f ''comp_taskdep_port'') :: u32) \<noteq> 0"
    by (simp_all add: f)
  from computation_unit_start [OF start this own_answers [of 0], where env = "sample_env ''p'' (\<lambda>_. SubmitRequest_new) (\<lambda>_. SubmitResponse_new)" and w = "()" and g = g
      and g_srv = g_srv and g_ctx = g_ctx and wf_start = "\<lambda>_. 0" and wf_task = "\<lambda>_. 0"]
  show "\<exists>u n w1 t. computation_start (sample_env ''p'' (\<lambda>_. SubmitRequest_new) (\<lambda>_. SubmitResponse_new)) (own_exchange 1) (\<lambda>_. 0) (\<lambda>_. 0) g g_srv g_ctx ?f () = Inr (u, w1) \<and>
     map_of (cu_servers u) ''local'' = Some n \<and> sv_listening (cu_taskdep u) = Some t \<and>
     wl_host t = ''localhost'' \<and> wl_port t = 3887 \<and> wl_tls t = None"
    unfolding f One_nat_def by (elim exE conjE) (intro exI conjI, assumption, auto)
qed

text \<open>A service with a certificate of its own is given the key of its unit, named after the certificate of the unit.\<close>

theorem certificate_without_its_key:
  assumes "parse_flags gflags gen clock f0 = Inr f" and "gflags f0 = Inr f1"
    and "fl_string f1 ''stor_taskdep_cert'' \<noteq> []" and "fl_string f1 ''stor_taskdep_key'' = []" and "fl_string f1 ''stor_key'' = []"
  shows "fl_string f ''stor_taskdep_cert'' = fl_string f1 ''stor_taskdep_cert'' \<and>
    fl_string f ''stor_taskdep_key'' = key_default_value (fl_string f1 ''stor_cert'')"
proof -
  have f: "f = inherit_flags (default_tokens gen clock (default_keys f1))"
    using assms(1,2) by (auto simp: parse_flags_Inr)
  have "map_of inherited_flags ''stor_taskdep_key'' = Some ''stor_key''"
    by (simp add: inherited_flags_def)
  with assms(3-5) show ?thesis by (simp add: f started_string default_keys_string)
qed

end
