(* ===== verification/Spec2Isabelle.thy ===== *)
theory Spec2Isabelle
  imports Taskdep_System Datatransfer_System Router_System Router_Input Datasource_System Onvif_Server
    Infer_Provider Infer_System Flags Crypto_Symmetric Crypto_Asymmetric Image_Transforms Image_Processing Sqlite_Connector Unit_Start
begin

text \<open>
  The program. \<^verbatim>\<open>src/\<close> holds a system that runs neural-network engines on behalf of small devices.
  Its parts are processes that talk over the network:

  \<^item> the router (\<^verbatim>\<open>router/\<close>): reads AT messages from a local socket, keeps the list of models of its
    user and the one task it runs, and uses the client of the management unit;
  \<^item> the management unit (\<^verbatim>\<open>management/\<close>): the client that negotiates a task number with the storage
    unit and deploys the task to the computing unit, a registry of data sources, and a task list
    for inference requests;
  \<^item> the storage unit (\<^verbatim>\<open>storage/\<close>): the task-deployment server that hands out task numbers and keeps
    engines, the data-transfer server that computing units pull engines from and routers push models
    to, and below them the data manager and the file-system scheduler;
  \<^item> the computing unit (\<^verbatim>\<open>computation/\<close>): the task-deployment server, the task table with the dependencies
    of a series of tasks, the protocol with other computing units that chooses where a job runs, and
    the engine that computes it on a tensor;
  \<^item> the recorder (\<^verbatim>\<open>nvr/\<close>): registers its cameras with the management unit and forwards camera movements;
  \<^item> the protocols of all of these (\<^verbatim>\<open>proto/\<close>), the AT parser (\<^verbatim>\<open>misc/parser\<close>), and libraries for options, ciphers,
    images and databases (\<^verbatim>\<open>misc/\<close>).

  A task runs as follows. The router gets \<^verbatim>\<open>CPSTART\<close> and calls the management client; the client
  sends a negotiation to the storage unit, which reserves the task number (or proposes
  another) and stores the engine, and then a deployment to the computing unit, which enters the task in its table and
  submits it as a job; the unit that the job reaches pulls the engine from the
  storage unit, loads it, computes, and posts the result to where the task asks for it, and a
  \<^verbatim>\<open>done\<close> message goes to the storage unit. \<^verbatim>\<open>CPRDY\<close> and \<^verbatim>\<open>CPVAL\<close> fetch the result, and a termination
  removes the task from both units.

  Theories and code, from the bottom up (the manifest names the lines of every definition).

  \<^item> \<open>Prelude\<close>: the collections of simplification rules, the behaviour of an expression of C++ that may throw,
    crash, be undefined or never return (\<open>cxx_error + 'a\<close>), C strings, finite searches. \<open>Cxx_Numbers\<close>:
    \<^verbatim>\<open>std::stoi\<close> and \<^verbatim>\<open>std::to_string\<close>. \<open>Float32\<close>, \<open>Fixed_Point\<close>: single precision
    numbers as the computing units send them and the fixed-point angles of the camera protocol.
  \<^item> \<open>Framing\<close>: what all protocol classes share, the header of magic and length and the loop that collects the
    bytes of a message from pieces of any length (\<^verbatim>\<open>misc/protocol\<close>).
  \<^item> \<open>Taskdep_Endpoint\<close>, \<open>Taskdep_Request\<close>, \<open>Taskdep_Request_Wire\<close>, \<open>Taskdep_Response\<close>,
    \<open>Taskdep_Message\<close>: the classes \<^verbatim>\<open>Endpoint\<close>, \<^verbatim>\<open>Request\<close> and \<^verbatim>\<open>Response\<close> of
    \<^verbatim>\<open>proto/taskdep/message.cc\<close>, a record per class with an option for each pointer the class owns.
    The last theory has the guarantees: round trips, bounds the setters keep, what a message built with the setters
    satisfies.
  \<^item> \<open>Datatransfer_Message\<close>, \<open>Datasource_Message\<close>, \<open>Onvif_Message\<close>, \<open>Drccp_Message\<close>: the same for
    \<^verbatim>\<open>proto/datatransfer\<close>, \<^verbatim>\<open>proto/datasource\<close>, \<^verbatim>\<open>proto/onvif\<close> and \<^verbatim>\<open>computation/drccp/message.cc\<close>.
  \<^item> \<open>Scheduler\<close>: \<^verbatim>\<open>storage/fs/scheduler\<close>; services live at addresses since the code keeps the same pointer in
    three places. \<open>Local_Files\<close>: \<^verbatim>\<open>storage/fs/local\<close>. \<open>Datamanager\<close>:
    \<^verbatim>\<open>storage/datamanagement\<close>. \<open>Storage_Taskdep\<close>: \<^verbatim>\<open>storage/taskdep\<close>. \<open>Storage_Datatrans\<close>:
    \<^verbatim>\<open>storage/datatrans\<close>.
  \<^item> \<open>Cluster_Tasks\<close>: \<^verbatim>\<open>Taskmanager\<close> of \<^verbatim>\<open>computation/infer/infer.cc\<close>, with the matrix of dependencies.
    \<open>Taskdep_Server\<close>, \<open>Cluster_Taskdep\<close>: \<^verbatim>\<open>computation/taskdep\<close>. \<open>Computation_Datatransfer\<close>:
    \<^verbatim>\<open>computation/datatransfer\<close>. \<open>Tensor\<close>, \<open>Computation_Engine\<close>: \<^verbatim>\<open>computation/infer/Tensor.cc\<close> and
    \<^verbatim>\<open>computation/engine\<close>. \<open>Drccp_Server\<close>: \<^verbatim>\<open>computation/drccp/server.cc\<close>.
    \<open>Computation_Infer\<close>: the rest of \<^verbatim>\<open>computation/infer/infer.cc\<close>, the callbacks that compute a job and
    deliver its result.
  \<^item> \<open>Management_Client\<close>: \<^verbatim>\<open>management/taskdep\<close>. \<open>Datasource_Registry\<close>: \<^verbatim>\<open>management/datasource\<close> and
    \<^verbatim>\<open>nvr/datasource\<close>. \<open>Infer_Provider\<close>: \<^verbatim>\<open>management/inferprovider\<close>. \<open>Onvif_Server\<close>: \<^verbatim>\<open>nvr/onvif\<close>.
    \<open>Plain_Server\<close>: the life cycle of a server object, shared.
  \<^item> \<open>AT_Parser\<close>: \<^verbatim>\<open>misc/parser/at\<close>, scanner and grammar as functions. \<open>AT_Grammar\<close>: the texts they accept.
  \<^item> \<open>Router_State\<close>, \<open>Router_Models\<close>, \<open>Router_Tasks\<close>, \<open>Router_Push\<close>, \<open>Router_Trans\<close>, \<open>Router\<close>:
    the commands of \<^verbatim>\<open>router/lib/cmd.cc\<close> and their dispatch; \<open>Router_Input\<close>: the loop of
    \<^verbatim>\<open>router/bin/main.cc\<close> that reads a message.
  \<^item> \<open>Ordered_Map\<close>: \<^verbatim>\<open>std::map\<close>. \<open>Regex_Match\<close>, \<open>Flags\<close>: \<^verbatim>\<open>misc/flags/flag.cc\<close>, the options of the
    units, with the regular expressions that check addresses. \<open>Crypto_Random\<close>, \<open>Crypto_Symmetric\<close>, \<open>Crypto_Asymmetric\<close>: the
    generators, digests and ciphers of \<^verbatim>\<open>misc/crypto\<close>. \<open>Image_Transforms\<close>, \<open>Image_Processing\<close>: \<^verbatim>\<open>misc/cv\<close>, lists of functions on
    tensors and the functions on images. \<open>Sqlite_Connector\<close>: \<^verbatim>\<open>misc/dboperator\<close>.
  \<^item> \<open>Unit_Start\<close>: the three \<^verbatim>\<open>bin/main.cc\<close> from the options to the running unit, composed of the operations of the
    components: which servers listen where, with which key, and what the unit does once it runs.
  \<^item> The parts together: \<open>Taskdep_System\<close> (the management client against both servers),
    \<open>Datatransfer_System\<close> (an engine pulled over the wire), \<open>Router_System\<close> (a task the router starts, a model it pushes),
    \<open>Datasource_System\<close> (a registration over the wire), \<open>Drccp_System\<close> (units that join and
    submit), \<open>Infer_System\<close> (a job from its submission to the \<^verbatim>\<open>done\<close> message).

  How the code is rendered. A class is a record; a method is a function from the object and the arguments to the
  result and the new object, and in the order of its calls everything it does to the outside world, an
  argument \<open>'w\<close> passed along. A pointer that owns its target is an option; where two parts of the program hold the
  same pointer (\<open>Scheduler\<close>, \<open>Infer_Provider\<close>) there is a heap of addresses. Numbers the code keeps
  in \<^verbatim>\<open>uint32_t\<close> or \<^verbatim>\<open>uint64_t\<close> are words, and are cut where the code cuts them. A \<^verbatim>\<open>char *\<close>, a \<^verbatim>\<open>std::string\<close> and a buffer
  are strings of characters, zero included. A member that a constructor leaves uninitialised is an argument of the model, so
  that no theorem depends on its value. Errors, exceptions, crashes and undefined behaviour are values (\<open>cxx_error\<close>). A loop
  that may go on for ever is a \<open>partial_function (option)\<close>, in which \<open>None\<close> means that it never returns, or
  has a termination proof.

  What the lemmas show. For each protocol class: every message encoded is read back, whatever the pieces the transport makes
  of it, and what an undefined magic or a reused object does instead. For the tables (tasks, engines,
  services, data sources, models): an invariant and its preservation by each operation, lookups after updates,
  and where it exists the abstract table that the code refines. For the handlers: the reply and the new state on each
  branch, errors included. For the client and the router: agreement of both sides after an exchange, and what a failed
  one leaves behind. Interfaces between components are locales (\<open>framed\<close> for a message on the wire, \<open>random_source\<close> for the generators of the ciphers, \<open>deploy_table\<close> for
  the task table, \<open>emplace_table\<close> for the tables of the data manager, \<open>negotiable_storage\<close> for the storage unit as the
  client sees it, \<open>kept_by_commands\<close> for the invariants of the router), interpreted on the definitions of the component that provides them.
  Several theorems state that the code does something its comments or its neighbours do not expect; the manifest lists these as findings.

  Parameters. Code outside \<^verbatim>\<open>src/\<close> or generated at build time is an argument of the definitions that use it: the protobuf
  serialisers and parsers (a parser reads back what its serialiser wrote, as protobuf does for texts in UTF-8; where a message
  is said to arrive in pieces, either the parser refuses the bytes before the last piece, which the theorem then assumes, or
  the round trip of the data transfer messages says what arrives otherwise), the
  network framework's servers and clients (an exchange returns a reply or none, and may change the state of
  the peer), system calls and streams, the dynamic linker, the ONVIF library, OpenSSL, SQLite, the scaling and colours of OpenCV, the parser of the command line, the terminal, time and random numbers. Each theorem that
  assumes a law of a parameter has a witness with a concrete function.

  Bounds. Messages and tensors are shorter than 2 GiB, where the code counts in \<^verbatim>\<open>int\<close>. The paths
  the data manager formats are cut at \<^verbatim>\<open>PATH_MAX\<close>; the buffer of the router holds 4095 bytes.
  The scanner and parser of AT messages are modelled for inputs on which the stack of bison (10000 entries) suffices. Fixed-point angles
  are defined for finite numbers only, and the sign of a zero is not kept. The
  exchange of a computing unit with itself (\<open>own_exchange k\<close>) is bounded by the depth \<open>k\<close> to which its handlers nest; two levels
  are all a job needs, since a submission is served with a forwarding and that without further requests.
  The order in which a \<^verbatim>\<open>std::unordered_map\<close> is walked never matters, and the maps are association lists or functions.

  Concurrency. The handlers run in threads of the framework and take a mutex for the accesses to their tables; they are modelled
  as one step each, and the submission of a job as a call that has returned when the reply is sent. Races between
  two handlers of the same unit are not modelled.

  Not modelled. The hash function of \<^verbatim>\<open>storage/taskdep/pairhash.h\<close>, since no result depends on the order of an unordered map; the
  base class of \<^verbatim>\<open>misc/adapter\<close>, which has no code; the libraries in Rust (\<^verbatim>\<open>dadga\<close>, \<^verbatim>\<open>engug\<close>, \<^verbatim>\<open>renob\<close>), separate programs that the units do not call; tests, build files
  and the vendored libraries, but for what the code uses of OpenCV's regions, transposition and reflections.
\<close>

end
